(* ===== verification/Prelude.thy ===== *)
theory Prelude
  imports Main "HOL-Library.List_Lexorder" "HOL-Library.Char_ord" "HOL-Library.AList"
begin

text \<open>
  What every component of the development shares: the fact collections, the two error
  monads in which the Python code is written (results, and results with a state), the
  string operations of the Python standard library that the code uses, and generic facts
  about sorted and filtered lists.

  Python strings are modelled as \<open>string\<close>, one \<open>char\<close> for each code point below 256;
  code points above that are outside the model. Byte strings are \<open>string\<close> as well.
\<close>

named_theorems result_simps "unfolding rules of the two error monads"
named_theorems result_elims "inversion rules for a call that returned a value"
named_theorems frame_simps "what an operation leaves unchanged"

section \<open>Results: a value or a raised exception\<close>

definition bindE :: "'e + 'a \<Rightarrow> ('a \<Rightarrow> 'e + 'b) \<Rightarrow> 'e + 'b" where
  "bindE m f = (case m of Inl e \<Rightarrow> Inl e | Inr x \<Rightarrow> f x)"

definition raiseIf :: "bool \<Rightarrow> 'e \<Rightarrow> 'e + unit" where
  "raiseIf c e = (if c then Inl e else Inr ())"

text \<open>A \<open>for\<close> loop whose body only checks: the first exception stops it.\<close>

fun eachE :: "('a \<Rightarrow> 'e + unit) \<Rightarrow> 'a list \<Rightarrow> 'e + unit" where
  "eachE f [] = Inr ()"
| "eachE f (x # xs) = (case f x of Inl e \<Rightarrow> Inl e | Inr u \<Rightarrow> eachE f xs)"

text \<open>A \<open>for\<close> loop that threads an accumulator.\<close>

fun foldE :: "('a \<Rightarrow> 's \<Rightarrow> 'e + 's) \<Rightarrow> 'a list \<Rightarrow> 's \<Rightarrow> 'e + 's" where
  "foldE f [] s = Inr s"
| "foldE f (x # xs) s = (case f x s of Inl e \<Rightarrow> Inl e | Inr s' \<Rightarrow> foldE f xs s')"

text \<open>A list comprehension whose element expression may raise.\<close>

fun mapE :: "('a \<Rightarrow> 'e + 'b) \<Rightarrow> 'a list \<Rightarrow> 'e + 'b list" where
  "mapE f [] = Inr []"
| "mapE f (x # xs) =
     (case f x of Inl e \<Rightarrow> Inl e
      | Inr y \<Rightarrow> (case mapE f xs of Inl e \<Rightarrow> Inl e | Inr ys \<Rightarrow> Inr (y # ys)))"

lemma bindE_simps [simp, result_simps]:
  "bindE (Inl e) f = Inl e"
  "bindE (Inr x) f = f x"
  by (simp_all add: bindE_def)

lemma bindE_eq_Inr [result_simps]:
  "bindE m f = Inr y \<longleftrightarrow> (\<exists>x. m = Inr x \<and> f x = Inr y)"
  by (cases m) auto

lemma bindE_eq_Inl [result_simps]:
  "bindE m f = Inl e \<longleftrightarrow> m = Inl e \<or> (\<exists>x. m = Inr x \<and> f x = Inl e)"
  by (cases m) auto

lemma bindE_InrE [result_elims]:
  assumes "bindE m f = Inr y"
  obtains x where "m = Inr x" "f x = Inr y"
  using assms by (cases m) auto

lemma raiseIf_eq [simp, result_simps]:
  "raiseIf c e = Inr u \<longleftrightarrow> \<not> c"
  "raiseIf c e = Inl e' \<longleftrightarrow> c \<and> e' = e"
  by (auto simp: raiseIf_def)

text \<open>Run the first call before looking at what follows it.\<close>

lemma bindE_weak_cong: "m = m' \<Longrightarrow> bindE m f = bindE m' f"
  by simp

lemma bindE_raiseIf [result_simps]:
  "bindE (raiseIf c e) f = Inr y \<longleftrightarrow> \<not> c \<and> f () = Inr y"
  by (simp add: raiseIf_def)

lemma bindE_eachE [result_simps]:
  "bindE (eachE g xs) f = Inr y \<longleftrightarrow> eachE g xs = Inr () \<and> f () = Inr y"
  by (cases "eachE g xs") simp_all

lemma eachE_Inr [simp, result_simps]:
  "eachE f xs = Inr u \<longleftrightarrow> (\<forall>x \<in> set xs. f x = Inr ())"
  by (induction xs) (auto split: sum.splits)

lemma mapE_InrI: "list_all2 (\<lambda>x y. f x = Inr y) xs ys \<Longrightarrow> mapE f xs = Inr ys"
  by (induction rule: list_all2_induct) auto

lemma mapE_InrD: "mapE f xs = Inr ys \<Longrightarrow> list_all2 (\<lambda>x y. f x = Inr y) xs ys"
  by (induction xs arbitrary: ys) (auto split: sum.splits)

lemma mapE_Inr: "mapE f xs = Inr ys \<longleftrightarrow> list_all2 (\<lambda>x y. f x = Inr y) xs ys"
  by (blast intro: mapE_InrI mapE_InrD)

text \<open>An invariant of the loop body holds of what the loop returns.\<close>

lemma foldE_invariant:
  assumes "foldE f xs s = Inr t" "P s"
    and "\<And>x s s'. x \<in> set xs \<Longrightarrow> P s \<Longrightarrow> f x s = Inr s' \<Longrightarrow> P s'"
  shows "P t"
  using assms
proof (induction xs arbitrary: s)
  case (Cons x xs)
  then obtain u where u: "f x s = Inr u" "foldE f xs u = Inr t" by (auto split: sum.splits)
  have "P u" by (rule Cons.prems(3) [OF _ Cons.prems(2) u(1)]) simp
  with u(2) show ?case by (rule Cons.IH) (meson Cons.prems(3) list.set_intros(2))
qed simp

lemma foldE_append: "foldE f (xs @ ys) s = bindE (foldE f xs s) (foldE f ys)"
  by (induction xs arbitrary: s) (auto split: sum.splits)

lemma mapE_same: "(\<And>x. x \<in> set xs \<Longrightarrow> f x = g x) \<Longrightarrow> mapE f xs = mapE g xs"
  by (induction xs) (auto split: sum.splits)

lemma mapE_cong [fundef_cong]:
  "xs = ys \<Longrightarrow> (\<And>x. x \<in> set ys \<Longrightarrow> f x = g x) \<Longrightarrow> mapE f xs = mapE g ys"
  using mapE_same by blast

section \<open>Programs: results with a state that survives the exception\<close>

text \<open>
  A Python function with effects takes the state and gives its result, or the exception it
  raised, together with the state it left behind. An exception does not undo the effects
  made before it.
\<close>

type_synonym ('s, 'e, 'a) prog = "'s \<Rightarrow> ('e + 'a) \<times> 's"

definition retM :: "'a \<Rightarrow> ('s, 'e, 'a) prog" where
  "retM x s = (Inr x, s)"

definition raiseM :: "'e \<Rightarrow> ('s, 'e, 'a) prog" where
  "raiseM e s = (Inl e, s)"

definition bindM :: "('s, 'e, 'a) prog \<Rightarrow> ('a \<Rightarrow> ('s, 'e, 'b) prog) \<Rightarrow> ('s, 'e, 'b) prog" where
  "bindM m f s = (case m s of (Inl e, s') \<Rightarrow> (Inl e, s') | (Inr x, s') \<Rightarrow> f x s')"

definition getsM :: "('s \<Rightarrow> 'a) \<Rightarrow> ('s, 'e, 'a) prog" where
  "getsM f s = (Inr (f s), s)"

definition liftM :: "'e + 'a \<Rightarrow> ('s, 'e, 'a) prog" where
  "liftM r s = (r, s)"

definition modifyM :: "('s \<Rightarrow> 's) \<Rightarrow> ('s, 'e, unit) prog" where
  "modifyM f s = (Inr (), f s)"

text \<open>
  \<open>try: m except e: handler\<close>: the handler gives \<open>None\<close> for an exception it does not
  catch, which then goes on.
\<close>

definition catchM ::
  "('s, 'e, 'a) prog \<Rightarrow> ('e \<Rightarrow> ('s, 'e, 'a) prog option) \<Rightarrow> ('s, 'e, 'a) prog" where
  "catchM m h s =
     (case m s of
        (Inr x, s') \<Rightarrow> (Inr x, s')
      | (Inl e, s') \<Rightarrow> (case h e of None \<Rightarrow> (Inl e, s') | Some p \<Rightarrow> p s'))"

definition catchE :: "'e + 'a \<Rightarrow> ('e \<Rightarrow> ('e + 'a) option) \<Rightarrow> 'e + 'a" where
  "catchE m h = (case m of Inr x \<Rightarrow> Inr x
     | Inl e \<Rightarrow> (case h e of None \<Rightarrow> Inl e | Some r \<Rightarrow> r))"

fun eachM :: "('a \<Rightarrow> ('s, 'e, unit) prog) \<Rightarrow> 'a list \<Rightarrow> ('s, 'e, unit) prog" where
  "eachM f [] = retM ()"
| "eachM f (x # xs) = bindM (f x) (\<lambda>_. eachM f xs)"

lemma prog_simps [simp, result_simps]:
  "retM x s = (Inr x, s)"
  "raiseM e s = (Inl e, s)"
  "getsM g s = (Inr (g s), s)"
  "liftM r s = (r, s)"
  "modifyM u s = (Inr (), u s)"
  by (simp_all add: retM_def raiseM_def getsM_def liftM_def modifyM_def)

lemma bindM_run:
  "m s = (Inr x, s') \<Longrightarrow> bindM m f s = f x s'"
  "m s = (Inl e, s') \<Longrightarrow> bindM m f s = (Inl e, s')"
  by (simp_all add: bindM_def)

lemma bindM_retM [simp, result_simps]: "bindM (retM x) f s = f x s"
  by (simp add: bindM_def)

lemma bindM_raiseM [simp, result_simps]: "bindM (raiseM e) f s = (Inl e, s)"
  by (simp add: bindM_def)

lemma bindM_getsM [simp, result_simps]: "bindM (getsM g) f s = f (g s) s"
  by (simp add: bindM_def)

lemma bindM_liftM_Inl [simp, result_simps]: "bindM (liftM (Inl e)) f s = (Inl e, s)"
  by (simp add: bindM_def)

lemma bindM_liftM_Inr [simp, result_simps]: "bindM (liftM (Inr x)) f s = f x s"
  by (simp add: bindM_def)

lemma bindM_modifyM [simp, result_simps]: "bindM (modifyM u) f s = f () (u s)"
  by (simp add: bindM_def)

lemmas bindM_pure = bindM_retM bindM_raiseM bindM_getsM bindM_liftM_Inl bindM_liftM_Inr bindM_modifyM

lemma bindM_liftM: "bindM (liftM r) f s = (case r of Inl e \<Rightarrow> (Inl e, s) | Inr x \<Rightarrow> f x s)"
  by (cases r) simp_all

lemma bindM_eq_Inr [result_simps]:
  "bindM m f s = (Inr y, t) \<longleftrightarrow> (\<exists>x s'. m s = (Inr x, s') \<and> f x s' = (Inr y, t))"
  by (auto simp: bindM_def split: prod.splits sum.splits)

lemma bindM_eq_Inl [result_simps]:
  "bindM m f s = (Inl e, t) \<longleftrightarrow>
     m s = (Inl e, t) \<or> (\<exists>x s'. m s = (Inr x, s') \<and> f x s' = (Inl e, t))"
  by (auto simp: bindM_def split: prod.splits sum.splits)

lemma bindM_cases [consumes 1, case_names fails continues]:
  assumes "bindM m f s = (r, t)"
  obtains e where "m s = (Inl e, t)" "r = Inl e"
  | x u where "m s = (Inr x, u)" "f x u = (r, t)"
  using assms by (cases "m s"; cases "fst (m s)") (auto simp: bindM_def)

text \<open>
  A relation between the state before and after that every step of a program keeps.
  Frame conditions and invariants of the programs are instances of it.
\<close>

definition keeps :: "('s \<Rightarrow> 's \<Rightarrow> bool) \<Rightarrow> ('s, 'e, 'a) prog \<Rightarrow> bool" where
  "keeps R m \<longleftrightarrow> (\<forall>s r t. m s = (r, t) \<longrightarrow> R s t)"

lemma keepsI: "(\<And>s r t. m s = (r, t) \<Longrightarrow> R s t) \<Longrightarrow> keeps R m"
  by (simp add: keeps_def)

lemma keepsD: "keeps R m \<Longrightarrow> m s = (r, t) \<Longrightarrow> R s t"
  by (auto simp: keeps_def)

lemma keeps_option:
  "keeps R a \<Longrightarrow> (\<And>x. keeps R (b x)) \<Longrightarrow> keeps R (case o' of None \<Rightarrow> a | Some x \<Rightarrow> b x)"
  by (cases o') auto

lemma keeps_prod: "(\<And>x y. keeps R (f x y)) \<Longrightarrow> keeps R (case p of (x, y) \<Rightarrow> f x y)"
  by (cases p) auto

lemma keeps_if: "keeps R a \<Longrightarrow> keeps R b \<Longrightarrow> keeps R (if c then a else b)"
  by simp

lemma keeps_sum:
  "(\<And>e. keeps R (a e)) \<Longrightarrow> (\<And>x. keeps R (b x)) \<Longrightarrow> keeps R (case r of Inl e \<Rightarrow> a e | Inr x \<Rightarrow> b x)"
  by (cases r) auto

locale step_preorder =
  fixes R :: "'s \<Rightarrow> 's \<Rightarrow> bool"
  assumes R_refl: "R s s"
    and R_trans: "R s t \<Longrightarrow> R t u \<Longrightarrow> R s u"
begin

lemma keeps_pure:
  "keeps R (retM x)" "keeps R (raiseM e)" "keeps R (getsM g)" "keeps R (liftM r)"
  by (auto simp: keeps_def R_refl)

lemma keeps_bind:
  assumes "keeps R m" "\<And>x. keeps R (f x)"
  shows "keeps R (bindM m f)"
proof (rule keepsI)
  fix s r t assume "bindM m f s = (r, t)"
  moreover obtain r' s' where "m s = (r', s')" by (cases "m s")
  ultimately show "R s t"
    using assms by (cases r') (auto simp: bindM_def dest!: keepsD intro: R_trans)
qed

lemma keeps_modify: "(\<And>s. R s (u s)) \<Longrightarrow> keeps R (modifyM u)"
  by (auto simp: keeps_def)

lemma keeps_catch:
  assumes "keeps R m" "\<And>e p. h e = Some p \<Longrightarrow> keeps R p"
  shows "keeps R (catchM m h)"
proof (rule keepsI)
  fix s r t assume *: "catchM m h s = (r, t)"
  obtain r' s' where m: "m s = (r', s')" by (cases "m s")
  then have "R s s'" using assms(1) by (rule keepsD [rotated])
  with * m assms(2) show "R s t"
    by (auto simp: catchM_def split: sum.splits option.splits dest: keepsD intro: R_trans)
qed

lemma keeps_each: "(\<And>x. x \<in> set xs \<Longrightarrow> keeps R (f x)) \<Longrightarrow> keeps R (eachM f xs)"
  by (induction xs) (auto intro!: keeps_pure keeps_bind)

text \<open>A loop that ends visits every element, between states that the relation connects.\<close>

lemma each_visits:
  assumes "eachM f xs s = (Inr u, t)" "x \<in> set xs" "\<And>y. keeps R (f y)"
  obtains s1 t1 v where "R s s1" "f x s1 = (Inr v, t1)" "R t1 t"
  using assms(1,2)
proof (induction xs arbitrary: s thesis)
  case (Cons y ys)
  from Cons.prems(2) obtain v s2 where y: "f y s = (Inr v, s2)" "eachM f ys s2 = (Inr u, t)"
    by (auto simp: bindM_eq_Inr)
  have first: "R s s2" using assms(3) y(1) by (rule keepsD)
  have rest: "R s2 t" using keeps_each [OF assms(3)] y(2) by (rule keepsD)
  show ?case
  proof (cases "x = y")
    case True
    with y(1) R_refl rest show ?thesis by (intro Cons.prems(1)) auto
  next
    case False
    with Cons.prems(3) have "x \<in> set ys" by simp
    with Cons.IH [OF _ y(2)] Cons.prems(1) first R_trans show ?thesis by metis
  qed
qed simp

lemmas keeps_intros = keeps_pure keeps_bind keeps_modify keeps_catch keeps_each

end

interpretation equality_step: step_preorder "(=)"
  by unfold_locales simp_all

text \<open>The contract of a state machine: where it starts, how it moves, what it keeps.\<close>

locale state_machine =
  fixes start :: 's and step :: "'s \<Rightarrow> 's \<Rightarrow> bool" and inv :: "'s \<Rightarrow> bool"
  assumes start_inv: "inv start"
    and step_inv: "inv s \<Longrightarrow> step s t \<Longrightarrow> inv t"
begin

lemma reachable_inv: "step\<^sup>*\<^sup>* start s \<Longrightarrow> inv s"
  by (induction rule: rtranclp_induct) (auto intro: start_inv step_inv)

lemma run_inv: "inv s \<Longrightarrow> step\<^sup>*\<^sup>* s t \<Longrightarrow> inv t"
  by (rotate_tac 1, induction rule: rtranclp_induct) (auto intro: step_inv)

end

section \<open>Python strings\<close>

definition code_of :: "char \<Rightarrow> nat" where
  "code_of c = of_char c"

definition startswith :: "string \<Rightarrow> string \<Rightarrow> bool" where
  "startswith s p \<longleftrightarrow> take (length p) s = p"

definition endswith :: "string \<Rightarrow> string \<Rightarrow> bool" where
  "endswith s p \<longleftrightarrow> length p \<le> length s \<and> drop (length s - length p) s = p"

text \<open>\<open>str.find\<close>: the first index of a substring, \<open>None\<close> for \<open>-1\<close>.\<close>

fun find_sub :: "string \<Rightarrow> string \<Rightarrow> nat option" where
  "find_sub p [] = (if p = [] then Some 0 else None)"
| "find_sub p (c # s) =
     (if startswith (c # s) p then Some 0 else map_option Suc (find_sub p s))"

text \<open>\<open>str.find(sub, start)\<close>.\<close>

definition find_from :: "string \<Rightarrow> string \<Rightarrow> nat \<Rightarrow> nat option" where
  "find_from p s start = (if length s < start then None else map_option ((+) start) (find_sub p (drop start s)))"

definition slice :: "string \<Rightarrow> nat \<Rightarrow> nat \<Rightarrow> string" where
  "slice s i j = drop i (take j s)"

definition contains :: "string \<Rightarrow> string \<Rightarrow> bool" where
  "contains s p \<longleftrightarrow> find_sub p s \<noteq> None"

text \<open>\<open>str.split(sep, 1)\<close> where the separator is known to occur.\<close>

definition split_once :: "string \<Rightarrow> string \<Rightarrow> string \<times> string" where
  "split_once s sep =
     (case find_sub sep s of None \<Rightarrow> (s, []) | Some i \<Rightarrow> (take i s, drop (i + length sep) s))"

fun split_char :: "char \<Rightarrow> string \<Rightarrow> string list" where
  "split_char c [] = [[]]"
| "split_char c (x # s) =
     (if x = c then [] # split_char c s
      else (case split_char c s of [] \<Rightarrow> [[x]] | w # ws \<Rightarrow> (x # w) # ws))"

fun join :: "string \<Rightarrow> string list \<Rightarrow> string" where
  "join sep [] = []"
| "join sep [w] = w"
| "join sep (w # v # ws) = w @ sep @ join sep (v # ws)"

text \<open>\<open>str.strip()\<close> and \<open>str.isspace\<close> on the modelled code points.\<close>

definition is_space :: "char \<Rightarrow> bool" where
  "is_space c \<longleftrightarrow> (let n = code_of c in
     (9 \<le> n \<and> n \<le> 13) \<or> (28 \<le> n \<and> n \<le> 32) \<or> n = 133 \<or> n = 160)"

definition strip :: "string \<Rightarrow> string" where
  "strip s = rev (dropWhile is_space (rev (dropWhile is_space s)))"

text \<open>\<open>str.rstrip(chars)\<close> and \<open>str.splitlines(keepends=True)\<close>.\<close>

definition rstrip_set :: "string \<Rightarrow> string \<Rightarrow> string" where
  "rstrip_set cs s = rev (dropWhile (\<lambda>c. c \<in> set cs) (rev s))"

definition line_end :: "char \<Rightarrow> bool" where
  "line_end c \<longleftrightarrow> (let n = code_of c in (10 \<le> n \<and> n \<le> 13) \<or> (28 \<le> n \<and> n \<le> 30) \<or> n = 133)"

fun split_lines :: "string \<Rightarrow> string list" where
  "split_lines [] = []"
| "split_lines [c] = [[c]]"
| "split_lines (c # d # s) =
     (if c = CHR 0x0D \<and> d = CHR 0x0A then [c, d] # split_lines s
      else if line_end c then [c] # split_lines (d # s)
      else (case split_lines (d # s) of [] \<Rightarrow> [[c]] | l # ls \<Rightarrow> (c # l) # ls))"

lemma concat_split_lines [simp]: "concat (split_lines s) = s"
proof (induction s rule: split_lines.induct)
  case (3 c d s)
  then show ?case by (cases "split_lines (d # s)") auto
qed simp_all

text \<open>
  \<open>str.casefold\<close> on code points below 256. The micro sign folds to a Greek letter outside
  the model; here it stays as it is, which keeps equality of folded strings.
\<close>

definition fold_char :: "char \<Rightarrow> string" where
  "fold_char c = (let n = code_of c in
     if 65 \<le> n \<and> n \<le> 90 then [char_of (n + 32)]
     else if 192 \<le> n \<and> n \<le> 222 \<and> n \<noteq> 215 then [char_of (n + 32)]
     else if n = 223 then ''ss''
     else [c])"

definition casefold :: "string \<Rightarrow> string" where
  "casefold s = concat (map fold_char s)"

text \<open>\<open>str.lower\<close>: as \<open>casefold\<close> but for the sharp s.\<close>

definition lower_char :: "char \<Rightarrow> char" where
  "lower_char c = (let n = code_of c in
     if (65 \<le> n \<and> n \<le> 90) \<or> (192 \<le> n \<and> n \<le> 222 \<and> n \<noteq> 215) then char_of (n + 32) else c)"

definition lower :: "string \<Rightarrow> string" where
  "lower s = map lower_char s"

text \<open>\<open>str(n)\<close> for an integer.\<close>

fun nat_dec :: "nat \<Rightarrow> string" where
  "nat_dec n = (if n < 10 then [char_of (48 + n)] else nat_dec (n div 10) @ [char_of (48 + n mod 10)])"

declare nat_dec.simps [simp del]

definition int_dec :: "int \<Rightarrow> string" where
  "int_dec i = (if i < 0 then CHR ''-'' # nat_dec (nat (- i)) else nat_dec (nat i))"

definition is_digit :: "char \<Rightarrow> bool" where
  "is_digit c \<longleftrightarrow> 48 \<le> code_of c \<and> code_of c \<le> 57"

definition is_lower_hex :: "char \<Rightarrow> bool" where
  "is_lower_hex c \<longleftrightarrow> is_digit c \<or> (97 \<le> code_of c \<and> code_of c \<le> 102)"

definition is_alpha :: "char \<Rightarrow> bool" where
  "is_alpha c \<longleftrightarrow> (65 \<le> code_of c \<and> code_of c \<le> 90) \<or> (97 \<le> code_of c \<and> code_of c \<le> 122)"

definition is_alnum :: "char \<Rightarrow> bool" where
  "is_alnum c \<longleftrightarrow> is_digit c \<or> is_alpha c"

text \<open>\<open>str.encode("utf-8")\<close> on code points below 256.\<close>

definition utf8_char :: "char \<Rightarrow> string" where
  "utf8_char c = (let n = code_of c in
     if n < 128 then [c] else [char_of (192 + n div 64), char_of (128 + n mod 64)])"

definition utf8 :: "string \<Rightarrow> string" where
  "utf8 s = concat (map utf8_char s)"

section \<open>Sorting and filtering\<close>

text \<open>\<open>sorted(set(xs))\<close>.\<close>

definition sorted_set :: "'a::linorder list \<Rightarrow> 'a list" where
  "sorted_set xs = sort (remdups xs)"

lemma sorted_set_props [simp]:
  "set (sorted_set xs) = set xs" "sorted (sorted_set xs)" "distinct (sorted_set xs)"
  by (simp_all add: sorted_set_def)

lemma sorted_set_cong: "set xs = set ys \<Longrightarrow> sorted_set xs = sorted_set ys"
  by (rule sorted_distinct_set_unique) simp_all

lemma casefold_append [simp]: "casefold (s @ t) = casefold s @ casefold t"
  by (simp add: casefold_def)

lemma join_Cons: "ws \<noteq> [] \<Longrightarrow> join sep (w # ws) = w @ sep @ join sep ws"
  by (cases ws) simp_all

lemma startswith_append [simp]: "startswith (p @ s) p"
  by (simp add: startswith_def)

lemma split_char_join:
  "ws \<noteq> [] \<Longrightarrow> \<forall>w \<in> set ws. c \<notin> set w \<Longrightarrow> split_char c (join [c] ws) = ws"
proof (induction ws)
  case (Cons w ws)
  have single: "c \<notin> set v \<Longrightarrow> split_char c v = [v]" for v
    by (induction v) auto
  have front: "c \<notin> set v \<Longrightarrow> split_char c (v @ c # r) = v # split_char c r" for v r
    by (induction v) auto
  show ?case
    using Cons by (cases "ws = []") (auto simp: single front join_Cons)
qed simp

lemma join_split_char: "join [c] (split_char c s) = s"
proof (induction s)
  case (Cons x s)
  have ne: "split_char c s \<noteq> []" for s by (induction s) (auto split: list.splits)
  obtain w ws where w: "split_char c s = w # ws" using ne [of s] by (cases "split_char c s") auto
  with Cons show ?case by (cases ws) (auto simp: join_Cons)
qed simp

end
