(* ===== verification/Json.thy ===== *)
theory Json
  imports Prelude
begin

text \<open>
  JSON documents as the Python code holds them after \<open>json.loads\<close>: dictionaries keep their
  insertion order, so an object is an association list, and a document that came out of
  \<open>json.loads\<close> or was built by a \<open>dict\<close> display has distinct keys (\<open>wf_json\<close>). Numbers are
  Python integers; documents with a fractional or exponent number are outside the model
  (no contract of the program has such a field).

  The theory has the dictionary operations (\<open>d.get(k)\<close>, \<open>d[k] = v\<close>, \<open>{**d, ...}\<close>), Python's
  \<open>==\<close> on such values (a \<open>bool\<close> equals the integer 0 or 1, key order does not count), and
  the key-sorted form in which \<open>json.dumps(sort_keys=True)\<close> visits a value.
\<close>

datatype json =
    JNull
  | JBool bool
  | JInt int
  | JStr string
  | JList "json list"
  | JObj "(string \<times> json) list"

type_synonym dict = "(string \<times> json) list"

section \<open>Dictionary operations\<close>

text \<open>\<open>d.get(k)\<close>, with \<open>None\<close> for a missing key.\<close>

definition dget :: "dict \<Rightarrow> string \<Rightarrow> json" where
  "dget d k = (case map_of d k of None \<Rightarrow> JNull | Some v \<Rightarrow> v)"

definition dhas :: "dict \<Rightarrow> string \<Rightarrow> bool" where
  "dhas d k \<longleftrightarrow> k \<in> set (map fst d)"

text \<open>\<open>d[k] = v\<close> keeps the position of an existing key and appends a new one.\<close>

definition dput :: "dict \<Rightarrow> string \<Rightarrow> json \<Rightarrow> dict" where
  "dput d k v = AList.update k v d"

text \<open>\<open>{**d, **e}\<close>.\<close>

definition dmerge :: "dict \<Rightarrow> dict \<Rightarrow> dict" where
  "dmerge d e = foldl (\<lambda>a (k, v). dput a k v) d e"

definition dkeys :: "dict \<Rightarrow> string list" where
  "dkeys d = map fst d"

text \<open>\<open>set(d) == {...}\<close>: the fields are exactly the given ones.\<close>

definition same_fields :: "dict \<Rightarrow> string list \<Rightarrow> bool" where
  "same_fields d fs \<longleftrightarrow> set (dkeys d) = set fs"

fun is_obj :: "json \<Rightarrow> bool" where
  "is_obj (JObj d) = True" | "is_obj _ = False"

fun is_str :: "json \<Rightarrow> bool" where
  "is_str (JStr s) = True" | "is_str _ = False"

fun is_bool :: "json \<Rightarrow> bool" where
  "is_bool (JBool b) = True" | "is_bool _ = False"

fun is_list :: "json \<Rightarrow> bool" where
  "is_list (JList xs) = True" | "is_list _ = False"

fun str_of :: "json \<Rightarrow> string" where
  "str_of (JStr s) = s" | "str_of _ = []"

fun obj_of :: "json \<Rightarrow> dict" where
  "obj_of (JObj d) = d" | "obj_of _ = []"

fun list_of :: "json \<Rightarrow> json list" where
  "list_of (JList xs) = xs" | "list_of _ = []"

text \<open>Python truth of a value.\<close>

fun truthy :: "json \<Rightarrow> bool" where
  "truthy JNull = False"
| "truthy (JBool b) = b"
| "truthy (JInt i) = (i \<noteq> 0)"
| "truthy (JStr s) = (s \<noteq> [])"
| "truthy (JList xs) = (xs \<noteq> [])"
| "truthy (JObj d) = (d \<noteq> [])"

section \<open>Key order, equality\<close>

fun wf_json :: "json \<Rightarrow> bool" where
  "wf_json (JList xs) = list_all wf_json xs"
| "wf_json (JObj d) = (distinct (map fst d) \<and> list_all (\<lambda>p. wf_json (snd p)) d)"
| "wf_json _ = True"

fun jsort :: "json \<Rightarrow> json" where
  "jsort (JList xs) = JList (map jsort xs)"
| "jsort (JObj d) = JObj (sort_key fst (map (\<lambda>p. (fst p, jsort (snd p))) d))"
| "jsort v = v"

text \<open>Booleans are integers to Python's \<open>==\<close>.\<close>

fun jnum :: "json \<Rightarrow> json" where
  "jnum (JBool b) = JInt (if b then 1 else 0)"
| "jnum (JList xs) = JList (map jnum xs)"
| "jnum (JObj d) = JObj (map (\<lambda>p. (fst p, jnum (snd p))) d)"
| "jnum v = v"

definition pyeq :: "json \<Rightarrow> json \<Rightarrow> bool" where
  "pyeq v w \<longleftrightarrow> jnum (jsort v) = jnum (jsort w)"

lemma pyeq_refl [simp]: "pyeq v v"
  by (simp add: pyeq_def)

lemma pyeq_sym: "pyeq v w \<Longrightarrow> pyeq w v"
  by (simp add: pyeq_def)

lemma pyeq_trans: "pyeq u v \<Longrightarrow> pyeq v w \<Longrightarrow> pyeq u w"
  by (simp add: pyeq_def)

lemma pyeq_JStr [simp]:
  "pyeq (JStr s) v \<longleftrightarrow> v = JStr s"
  "pyeq v (JStr s) \<longleftrightarrow> v = JStr s"
  by (cases v; auto simp: pyeq_def)+

lemma pyeq_JNull [simp]:
  "pyeq JNull v \<longleftrightarrow> v = JNull"
  "pyeq v JNull \<longleftrightarrow> v = JNull"
  by (cases v; auto simp: pyeq_def)+

lemma pyeq_JInt: "pyeq v (JInt i) \<longleftrightarrow> v = JInt i \<or> (v = JBool True \<and> i = 1) \<or> (v = JBool False \<and> i = 0)"
  by (cases v) (auto simp: pyeq_def split: if_splits)

lemma pyeq_JInt_JInt [simp]: "pyeq (JInt i) (JInt j) \<longleftrightarrow> i = j"
  by (simp add: pyeq_def)

lemma wf_json_jsort: "wf_json v \<Longrightarrow> wf_json (jsort v)"
proof (induction v rule: jsort.induct)
  case (1 xs)
  then show ?case by (auto simp: list_all_iff)
next
  case (2 d)
  have "distinct (map fst (sort_key fst (map (\<lambda>p. (fst p, jsort (snd p))) d)))"
    using 2 by (simp add: distinct_map inj_on_def) metis
  moreover have "list_all (\<lambda>p. wf_json (snd p)) (sort_key fst (map (\<lambda>p. (fst p, jsort (snd p))) d))"
    using 2 by (auto simp: list_all_iff)
  ultimately show ?case by simp
qed auto

section \<open>Lookup laws\<close>

lemma dget_Nil [simp]: "dget [] k = JNull"
  by (simp add: dget_def)

lemma dget_Cons [simp]: "dget ((k', v) # d) k = (if k = k' then v else dget d k)"
  by (simp add: dget_def)

lemma map_of_dput: "map_of (dput d k v) = (map_of d)(k \<mapsto> v)"
  by (simp add: dput_def update_conv')

lemma dget_dput [simp]: "dget (dput d k v) k' = (if k' = k then v else dget d k')"
  by (simp add: dget_def map_of_dput)

lemma dkeys_dput: "dkeys (dput d k v) = (if k \<in> set (dkeys d) then dkeys d else dkeys d @ [k])"
  by (simp add: dkeys_def dput_def update_keys)

lemma set_dkeys_dput [simp]: "set (dkeys (dput d k v)) = insert k (set (dkeys d))"
  by (auto simp: dkeys_dput)

lemma dkeys_simps [simp]: "dkeys [] = []" "dkeys ((k, v) # d) = k # dkeys d"
  by (simp_all add: dkeys_def)

lemma dget_notin: "k \<notin> set (dkeys d) \<Longrightarrow> dget d k = JNull"
  by (auto simp: dget_def dkeys_def split: option.splits dest!: map_of_SomeD) (force)

lemma dhas_dkeys: "dhas d k \<longleftrightarrow> k \<in> set (dkeys d)"
  by (simp add: dhas_def dkeys_def)

lemma dmerge_simps [simp]: "dmerge d [] = d" "dmerge d ((k, v) # e) = dmerge (dput d k v) e"
  by (simp_all add: dmerge_def)

lemma dget_dmerge: "distinct (dkeys e) \<Longrightarrow>
    dget (dmerge d e) k = (if k \<in> set (dkeys e) then dget e k else dget d k)"
  by (induction e arbitrary: d) (auto simp: dget_notin)

lemma wf_obj_dput: "wf_json (JObj d) \<Longrightarrow> wf_json v \<Longrightarrow> wf_json (JObj (dput d k v))"
proof -
  assume a: "wf_json (JObj d)" and v: "wf_json v"
  have "set (dput d k v) \<subseteq> insert (k, v) (set d)"
    unfolding dput_def by (induction d) auto
  with a v show ?thesis
    by (auto simp: dput_def distinct_update list_all_iff)
qed

lemma wf_dget: "wf_json (JObj d) \<Longrightarrow> wf_json (dget d k)"
  by (auto simp: dget_def list_all_iff split: option.splits dest!: map_of_SomeD)

lemma dput_same: "map_of d k = Some v \<Longrightarrow> dput d k v = d"
  unfolding dput_def by (induction d) auto

lemma map_of_dget_in: "k \<in> set (dkeys d) \<Longrightarrow> map_of d k = Some (dget d k)"
  by (cases "map_of d k") (auto simp: dget_def dkeys_def map_of_eq_None_iff)

lemma dput_dget_same: "k \<in> set (dkeys d) \<Longrightarrow> dput d k (dget d k) = d"
  by (rule dput_same) (rule map_of_dget_in)

lemma same_fields_in: "same_fields d fs \<Longrightarrow> k \<in> set fs \<Longrightarrow> k \<in> set (dkeys d)"
  by (simp add: same_fields_def)

lemma same_fields_dput: "same_fields d fs \<Longrightarrow> k \<in> set fs \<Longrightarrow> same_fields (dput d k v) fs"
  by (auto simp: same_fields_def)

text \<open>The canonical order keeps every lookup.\<close>

lemma map_of_sort_key:
  "distinct (map fst d) \<Longrightarrow> map_of (sort_key fst d) k = map_of d k"
proof -
  assume d: "distinct (map fst d)"
  then have "distinct (map fst (sort_key fst d))" by (simp add: distinct_map)
  with d have "map_of (sort_key fst d) = map_of d"
    by (simp add: map_of_inject_set)
  then show ?thesis by simp
qed

lemma dget_jsort:
  assumes "wf_json (JObj d)"
  shows "dget (obj_of (jsort (JObj d))) k = jsort (dget d k)"
proof -
  let ?e = "map (\<lambda>p. (fst p, jsort (snd p))) d"
  have "distinct (map fst ?e)" using assms by (simp add: comp_def)
  then have "map_of (sort_key fst ?e) k = map_of ?e k" by (rule map_of_sort_key)
  moreover have "map_of ?e k = map_option jsort (map_of d k)"
    by (induction d) auto
  ultimately show ?thesis by (simp add: dget_def split: option.splits)
qed

lemma jsort_idem: "wf_json v \<Longrightarrow> jsort (jsort v) = jsort v"
proof (induction v rule: jsort.induct)
  case (2 d)
  let ?e = "sort_key fst (map (\<lambda>p. (fst p, jsort (snd p))) d)"
  have "map (\<lambda>p. (fst p, jsort (snd p))) ?e = ?e"
    using 2 by (intro map_idI) (auto simp: list_all_iff)
  moreover have "sort_key fst ?e = ?e" by (rule sort_key_id_if_sorted) simp
  ultimately show ?case by simp
qed (auto simp: list_all_iff)

lemma pyeq_jsort [simp]: "wf_json v \<Longrightarrow> pyeq (jsort v) v"
  by (simp add: pyeq_def jsort_idem)

end
