(* ===== verification/Exn.thy ===== *)
theory Exn
  imports Json
begin

text \<open>
  The exceptions of the program, one constructor per exception class with the message it
  carries, the built-in exceptions its code can run into, and the dictionary and set
  operations that raise them. \<open>Crash\<close> is the loss of the process between two durable
  writes: no handler of the code catches it.
\<close>

datatype exn =
    DeploymentError string
  | PromotionConflict string
  | SnapshotError string
  | BuildError string
  | VerificationError json
  | RetentionError string
  | PipelineError string string bool
  | TransportError string
  | ReceiverRejected json
  | WriteBrokerError string
  | WriteBrokerProtocolError string
  | WriteBrokerConfigurationError string
  | QueryError string
  | ContextCompilerError string
  | EvaluationError string
  | MigrationError string
  | FrontmatterError string
  | LoadError string
  | OSError string
  | FileExistsError string
  | ValueError string
  | JSONDecodeError string
  | KeyError string
  | TypeError string
  | AttributeError string
  | IndexError string
  | StopIteration
  | Unmodelled string
  | Crash

type_synonym 'a res = "exn + 'a"

text \<open>The subclass relations that the \<open>except\<close> clauses rely on.\<close>

fun is_deployment_error :: "exn \<Rightarrow> bool" where
  "is_deployment_error (DeploymentError m) = True"
| "is_deployment_error (PromotionConflict m) = True"
| "is_deployment_error _ = False"

fun is_build_error :: "exn \<Rightarrow> bool" where
  "is_build_error (BuildError m) = True"
| "is_build_error (VerificationError r) = True"
| "is_build_error _ = False"

fun is_snapshot_error :: "exn \<Rightarrow> bool" where
  "is_snapshot_error (SnapshotError m) = True"
| "is_snapshot_error _ = False"

fun is_retention_error :: "exn \<Rightarrow> bool" where
  "is_retention_error (RetentionError m) = True"
| "is_retention_error _ = False"

fun is_os_error :: "exn \<Rightarrow> bool" where
  "is_os_error (OSError m) = True"
| "is_os_error (FileExistsError m) = True"
| "is_os_error _ = False"

fun is_json_error :: "exn \<Rightarrow> bool" where
  "is_json_error (JSONDecodeError m) = True"
| "is_json_error _ = False"

fun is_value_error :: "exn \<Rightarrow> bool" where
  "is_value_error (ValueError m) = True"
| "is_value_error (JSONDecodeError m) = True"
| "is_value_error (FrontmatterError m) = True"
| "is_value_error (LoadError m) = True"
| "is_value_error (WriteBrokerProtocolError m) = True"
| "is_value_error (WriteBrokerConfigurationError m) = True"
| "is_value_error _ = False"

text \<open>\<open>str(error)\<close>.\<close>

fun exn_text :: "exn \<Rightarrow> string" where
  "exn_text (DeploymentError m) = m"
| "exn_text (PromotionConflict m) = m"
| "exn_text (SnapshotError m) = m"
| "exn_text (BuildError m) = m"
| "exn_text (VerificationError r) = ''candidate verification failed''"
| "exn_text (RetentionError m) = m"
| "exn_text (PipelineError out m r) = m"
| "exn_text (TransportError m) = m"
| "exn_text (ReceiverRejected r) = []"
| "exn_text (WriteBrokerError m) = m"
| "exn_text (WriteBrokerProtocolError m) = m"
| "exn_text (WriteBrokerConfigurationError m) = m"
| "exn_text (QueryError m) = m"
| "exn_text (ContextCompilerError m) = m"
| "exn_text (EvaluationError m) = m"
| "exn_text (MigrationError m) = m"
| "exn_text (FrontmatterError m) = m"
| "exn_text (LoadError m) = m"
| "exn_text (OSError m) = m"
| "exn_text (FileExistsError m) = m"
| "exn_text (ValueError m) = m"
| "exn_text (JSONDecodeError m) = m"
| "exn_text (KeyError m) = m"
| "exn_text (TypeError m) = m"
| "exn_text (AttributeError m) = m"
| "exn_text (IndexError m) = m"
| "exn_text StopIteration = []"
| "exn_text (Unmodelled m) = m"
| "exn_text Crash = []"

text \<open>\<open>try: r except caught as e: raise f(e)\<close>.\<close>

definition rewrap :: "(exn \<Rightarrow> bool) \<Rightarrow> (exn \<Rightarrow> exn) \<Rightarrow> 'a res \<Rightarrow> 'a res" where
  "rewrap caught f r = (case r of Inl e \<Rightarrow> Inl (if caught e then f e else e) | Inr x \<Rightarrow> Inr x)"

definition crashed :: "'a res \<Rightarrow> bool" where
  "crashed r = (case r of Inl e \<Rightarrow> e = Crash | Inr x \<Rightarrow> False)"

text \<open>\<open>try: m finally: f\<close>: an exception of \<open>f\<close> replaces the outcome, a crash skips it.\<close>

definition finallyDo :: "('s, exn, 'a) prog \<Rightarrow> ('s, exn, unit) prog \<Rightarrow> ('s, exn, 'a) prog" where
  "finallyDo m f s =
     (case m s of (r, s') \<Rightarrow>
        if crashed r then (r, s')
        else (case f s' of (Inl e, s'') \<Rightarrow> (Inl e, s'') | (Inr u, s'') \<Rightarrow> (r, s'')))"

section \<open>Operations that raise built-in exceptions\<close>

text \<open>\<open>d[k]\<close> on a dictionary.\<close>

definition didx :: "dict \<Rightarrow> string \<Rightarrow> json res" where
  "didx d k = (case map_of d k of None \<Rightarrow> Inl (KeyError k) | Some v \<Rightarrow> Inr v)"

text \<open>\<open>v[k]\<close> on a value that the code takes for a dictionary.\<close>

definition jidx :: "json \<Rightarrow> string \<Rightarrow> json res" where
  "jidx v k = (case v of JObj d \<Rightarrow> didx d k | _ \<Rightarrow> Inl (TypeError k))"

text \<open>\<open>v.get(k)\<close> on a value that the code takes for a dictionary.\<close>

definition jget :: "json \<Rightarrow> string \<Rightarrow> json res" where
  "jget v k = (case v of JObj d \<Rightarrow> Inr (dget d k) | _ \<Rightarrow> Inl (AttributeError ''get''))"

text \<open>
  \<open>v in {"a", ...}\<close>: hashing a list or a dictionary raises \<open>TypeError\<close> before the lookup.
\<close>

definition in_strs :: "json \<Rightarrow> string list \<Rightarrow> bool res" where
  "in_strs v xs = (case v of
      JList l \<Rightarrow> Inl (TypeError ''unhashable type'')
    | JObj d \<Rightarrow> Inl (TypeError ''unhashable type'')
    | JStr s \<Rightarrow> Inr (s \<in> set xs)
    | _ \<Rightarrow> Inr False)"

lemma didx_Inr [simp]: "didx d k = Inr v \<longleftrightarrow> map_of d k = Some v"
  by (auto simp: didx_def split: option.splits)

lemma didx_present: "k \<in> set (dkeys d) \<Longrightarrow> didx d k = Inr (dget d k)"
  by (cases "map_of d k") (auto simp: didx_def dget_def dkeys_def map_of_eq_None_iff)

lemma jidx_Inr: "jidx v k = Inr w \<longleftrightarrow> (\<exists>d. v = JObj d \<and> map_of d k = Some w)"
  by (cases v) (auto simp: jidx_def)

lemma in_strs_JStr [simp]: "in_strs (JStr s) xs = Inr (s \<in> set xs)"
  by (simp add: in_strs_def)

lemma in_strs_True: "in_strs v xs = Inr True \<longleftrightarrow> (\<exists>s \<in> set xs. v = JStr s)"
  by (cases v) (auto simp: in_strs_def)

lemma map_of_dget: "map_of d k = Some v \<Longrightarrow> dget d k = v"
  by (simp add: dget_def)

end
