(* ===== verification/JsonText.thy ===== *)
theory JsonText
  imports Exn
begin

text \<open>
  JSON text: \<open>json.dumps\<close> with \<open>ensure_ascii=True\<close> and compact separators, with the keys
  sorted (\<open>canonical_json_bytes\<close>) or in insertion order (\<open>receiver_json_bytes\<close>), the
  indented form of the durable records (\<open>dumps_indent\<close>), and the strict reader \<open>strict_json_loads\<close>, which refuses duplicate keys and the non-finite
  constants, next to the plain \<open>json.loads\<close>. The reader is a recursive descent over the text with fuel; twice the length of
  the text plus one is enough, and running out is the same as a syntax error.
\<close>

section \<open>json.dumps\<close>

definition hex_digit :: "nat \<Rightarrow> char" where
  "hex_digit n = (if n < 10 then char_of (48 + n) else char_of (87 + n))"

definition escape_char :: "char \<Rightarrow> string" where
  "escape_char c = (let n = code_of c in
     if n = 34 then [CHR 0x5C, CHR 0x22]
     else if n = 92 then [CHR 0x5C, CHR 0x5C]
     else if n = 10 then [CHR 0x5C, CHR ''n'']
     else if n = 13 then [CHR 0x5C, CHR ''r'']
     else if n = 9 then [CHR 0x5C, CHR ''t'']
     else if n = 12 then [CHR 0x5C, CHR ''f'']
     else if n = 8 then [CHR 0x5C, CHR ''b'']
     else if 32 \<le> n \<and> n \<le> 126 then [c]
     else [CHR 0x5C, CHR ''u'', CHR ''0'', CHR ''0'', hex_digit (n div 16), hex_digit (n mod 16)])"

text \<open>With \<open>ensure_ascii=False\<close> only quotes, backslashes and control characters are escaped.\<close>

definition escape_raw :: "char \<Rightarrow> string" where
  "escape_raw c = (if 127 \<le> code_of c then [c] else escape_char c)"

definition quote :: "(char \<Rightarrow> string) \<Rightarrow> string \<Rightarrow> string" where
  "quote esc s = CHR 0x22 # concat (map esc s) @ [CHR 0x22]"

text \<open>
  The one printer behind every \<open>json.dumps\<close> call: \<open>nl d\<close> is the line break with the
  indentation at depth \<open>d\<close> (empty without \<open>indent\<close>), \<open>sp\<close> the blank after a colon and
  \<open>esc\<close> the escaping of a character.
\<close>

fun render :: "(char \<Rightarrow> string) \<Rightarrow> (nat \<Rightarrow> string) \<Rightarrow> string \<Rightarrow> nat \<Rightarrow> json \<Rightarrow> string" where
  "render esc nl sp d JNull = ''null''"
| "render esc nl sp d (JBool b) = (if b then ''true'' else ''false'')"
| "render esc nl sp d (JInt i) = int_dec i"
| "render esc nl sp d (JStr s) = quote esc s"
| "render esc nl sp d (JList xs) =
     (if xs = [] then ''[]''
      else ''['' @ nl (Suc d) @ join ('','' @ nl (Suc d)) (map (render esc nl sp (Suc d)) xs) @ nl d @ '']'')"
| "render esc nl sp d (JObj ps) =
     (if ps = [] then ''{}''
      else ''{'' @ nl (Suc d)
        @ join ('','' @ nl (Suc d)) (map (\<lambda>p. quote esc (fst p) @ '':'' @ sp @ render esc nl sp (Suc d) (snd p)) ps)
        @ nl d @ ''}'')"

definition dumps :: "json \<Rightarrow> string" where
  "dumps v = render escape_char (\<lambda>_. []) [] 0 v"

text \<open>\<open>json.dumps(value, indent=2, sort_keys=True)\<close> and the newline that the writers add.\<close>

definition line_break :: "nat \<Rightarrow> string" where
  "line_break d = CHR 0x0A # replicate (2 * d) (CHR '' '')"

definition dumps_indent :: "json \<Rightarrow> string" where
  "dumps_indent v = render escape_char line_break '' '' 0 (jsort v) @ [CHR 0x0A]"

definition canonical_json_bytes :: "json \<Rightarrow> string" where
  "canonical_json_bytes v = dumps (jsort v)"

definition sha256_json :: "(string \<Rightarrow> string) \<Rightarrow> json \<Rightarrow> string" where
  "sha256_json sha v = sha (canonical_json_bytes v)"

text \<open>The compact insertion-ordered line of the receiver protocol.\<close>

definition receiver_json_bytes :: "json \<Rightarrow> string" where
  "receiver_json_bytes v = dumps v @ [CHR 0x0A]"

section \<open>json.loads with the strict hooks\<close>

fun skip_ws :: "string \<Rightarrow> string" where
  "skip_ws [] = []"
| "skip_ws (c # s) = (if c \<in> set [CHR '' '', CHR 0x09, CHR 0x0A, CHR 0x0D] then skip_ws s else c # s)"

definition hex_value :: "char \<Rightarrow> nat option" where
  "hex_value c = (let n = code_of c in
     if 48 \<le> n \<and> n \<le> 57 then Some (n - 48)
     else if 97 \<le> n \<and> n \<le> 102 then Some (n - 87)
     else if 65 \<le> n \<and> n \<le> 70 then Some (n - 55)
     else None)"

definition simple_escape :: "char \<Rightarrow> char option" where
  "simple_escape c =
     (if c = CHR 0x22 \<or> c = CHR 0x5C \<or> c = CHR ''/'' then Some c
      else if c = CHR ''n'' then Some (CHR 0x0A) else if c = CHR ''r'' then Some (CHR 0x0D)
      else if c = CHR ''t'' then Some (CHR 0x09) else if c = CHR ''f'' then Some (CHR 0x0C)
      else if c = CHR ''b'' then Some (CHR 0x08) else None)"

definition bad_json :: "'a res" where
  "bad_json = Inl (DeploymentError ''invalid JSON'')"

text \<open>
  \<open>scanstring\<close>, after the opening quote. An escape of a code point above 255 is outside
  the model's strings.
\<close>

definition push_char :: "char \<Rightarrow> (string \<times> string) res \<Rightarrow> (string \<times> string) res" where
  "push_char c r = bindE r (\<lambda>p. Inr (c # fst p, snd p))"

fun scan_string :: "string \<Rightarrow> (string \<times> string) res" where
  "scan_string [] = bad_json"
| "scan_string (c # s) =
     (if c = CHR 0x22 then Inr ([], s)
      else if code_of c < 32 then bad_json
      else if c = CHR 0x5C then
        (case s of
           [] \<Rightarrow> bad_json
         | e # t \<Rightarrow>
             (if e = CHR ''u'' then
                (case t of
                   h1 # h2 # h3 # h4 # t' \<Rightarrow>
                     (case (hex_value h1, hex_value h2, hex_value h3, hex_value h4) of
                        (Some a, Some b, Some x, Some y) \<Rightarrow>
                          (if a = 0 \<and> b = 0 then push_char (char_of (16 * x + y)) (scan_string t')
                           else Inl (Unmodelled ''code point above 255''))
                      | _ \<Rightarrow> bad_json)
                 | _ \<Rightarrow> bad_json)
              else
                (case simple_escape e of
                   None \<Rightarrow> bad_json
                 | Some d \<Rightarrow> push_char d (scan_string t))))
      else push_char c (scan_string s))"

definition digits_value :: "string \<Rightarrow> nat" where
  "digits_value s = foldl (\<lambda>n c. 10 * n + (code_of c - 48)) 0 s"

text \<open>The number syntax; a fraction or an exponent after it is outside the model.\<close>

definition scan_number :: "string \<Rightarrow> (json \<times> string) res" where
  "scan_number s =
     (let neg = (s \<noteq> [] \<and> hd s = CHR ''-''); t = (if neg then tl s else s);
          ds = takeWhile is_digit t; rest = dropWhile is_digit t
      in if ds = [] then bad_json
         else if hd ds = CHR ''0'' \<and> length ds > 1 then bad_json
         else if rest \<noteq> [] \<and> hd rest \<in> set [CHR ''.'', CHR ''e'', CHR ''E'']
           then Inl (Unmodelled ''non-integer number'')
         else Inr (JInt (if neg then - int (digits_value ds) else int (digits_value ds)), rest))"

text \<open>The \<open>object_pairs_hook\<close>: the pairs of one object, in order, with no key twice.\<close>

fun strict_pairs :: "dict \<Rightarrow> dict \<Rightarrow> dict res" where
  "strict_pairs [] result = Inr result"
| "strict_pairs ((key, item) # items) result =
     (if dhas result key
      then Inl (DeploymentError (''JSON contains duplicate key: '' @ key))
      else strict_pairs items (dput result key item))"

text \<open>
  The hooks of \<open>json.loads\<close>: what becomes of the pairs of an object and of the constants \<open>NaN\<close>,
  \<open>Infinity\<close> and \<open>-Infinity\<close>. Without hooks the last value of a key wins, and the constants
  are floats, which the model does not have.
\<close>

record reader =
  object_pairs_hook :: "dict \<Rightarrow> dict res"
  parse_constant :: "string \<Rightarrow> exn"

definition strict_reader :: reader where
  "strict_reader =
     \<lparr>object_pairs_hook = \<lambda>items. strict_pairs items [],
      parse_constant = \<lambda>c. DeploymentError (''JSON contains non-finite number: '' @ c)\<rparr>"

definition plain_reader :: reader where
  "plain_reader =
     \<lparr>object_pairs_hook = \<lambda>items. Inr (dmerge [] items),
      parse_constant = \<lambda>c. Unmodelled ''non-finite number''\<rparr>"

fun scan_value :: "reader \<Rightarrow> nat \<Rightarrow> string \<Rightarrow> (json \<times> string) res"
and scan_items :: "reader \<Rightarrow> nat \<Rightarrow> string \<Rightarrow> (json list \<times> string) res"
and scan_pairs :: "reader \<Rightarrow> nat \<Rightarrow> string \<Rightarrow> (dict \<times> string) res" where
  "scan_value h 0 s = bad_json"
| "scan_value h (Suc n) s =
     (case s of
        [] \<Rightarrow> bad_json
      | c # t \<Rightarrow>
          (if c = CHR 0x22 then bindE (scan_string t) (\<lambda>p. Inr (JStr (fst p), snd p))
           else if c = CHR ''{'' then
             (case skip_ws t of
                [] \<Rightarrow> bad_json
              | e # u \<Rightarrow>
                  (if e = CHR ''}'' then Inr (JObj [], u)
                   else bindE (scan_pairs h n (e # u)) (\<lambda>p.
                     bindE (object_pairs_hook h (fst p)) (\<lambda>d. Inr (JObj d, snd p)))))
           else if c = CHR ''['' then
             (case skip_ws t of
                [] \<Rightarrow> bad_json
              | e # u \<Rightarrow>
                  (if e = CHR '']'' then Inr (JList [], u)
                   else bindE (scan_items h n (e # u)) (\<lambda>p. Inr (JList (fst p), snd p))))
           else if startswith s ''null'' then Inr (JNull, drop 4 s)
           else if startswith s ''true'' then Inr (JBool True, drop 4 s)
           else if startswith s ''false'' then Inr (JBool False, drop 5 s)
           else if startswith s ''NaN'' then Inl (parse_constant h ''NaN'')
           else if startswith s ''Infinity'' then Inl (parse_constant h ''Infinity'')
           else if startswith s ''-Infinity'' then Inl (parse_constant h ''-Infinity'')
           else scan_number s))"
| "scan_items h 0 s = bad_json"
| "scan_items h (Suc n) s =
     bindE (scan_value h n s) (\<lambda>p.
       (case skip_ws (snd p) of
          [] \<Rightarrow> bad_json
        | e # u \<Rightarrow>
            (if e = CHR '']'' then Inr ([fst p], u)
             else if e = CHR '','' then
               bindE (scan_items h n (skip_ws u)) (\<lambda>q. Inr (fst p # fst q, snd q))
             else bad_json)))"
| "scan_pairs h 0 s = bad_json"
| "scan_pairs h (Suc n) s =
     (case s of
        [] \<Rightarrow> bad_json
      | c # t \<Rightarrow>
          (if c \<noteq> CHR 0x22 then bad_json
           else bindE (scan_string t) (\<lambda>k.
             (case skip_ws (snd k) of
                [] \<Rightarrow> bad_json
              | e # u \<Rightarrow>
                  (if e \<noteq> CHR '':'' then bad_json
                   else bindE (scan_value h n (skip_ws u)) (\<lambda>p.
                     (case skip_ws (snd p) of
                        [] \<Rightarrow> bad_json
                      | f # v \<Rightarrow>
                          (if f = CHR ''}'' then Inr ([(fst k, fst p)], v)
                           else if f = CHR '','' then
                             bindE (scan_pairs h n (skip_ws v)) (\<lambda>q.
                               Inr ((fst k, fst p) # fst q, snd q))
                           else bad_json))))))))"

definition loads_with :: "reader \<Rightarrow> string \<Rightarrow> json res" where
  "loads_with h s =
     bindE (scan_value h (2 * length s + 1) (skip_ws s)) (\<lambda>p.
       if skip_ws (snd p) = [] then Inr (fst p) else bad_json)"

definition strict_json_loads :: "string \<Rightarrow> json res" where
  "strict_json_loads s = loads_with strict_reader s"

definition json_loads :: "string \<Rightarrow> json res" where
  "json_loads s =
     (case loads_with plain_reader s of
        Inl e \<Rightarrow> Inl (if is_deployment_error e then JSONDecodeError (exn_text e) else e)
      | Inr v \<Rightarrow> Inr v)"

end
