(* ===== verification/Files.thy ===== *)
theory Files
  imports JsonText
begin

text \<open>
  The world the program acts on: a tree of files, the advisory locks that are held, a clock
  and a script of faults. Every durable change of the tree is one step; the script decides
  whether it happens, fails with an \<open>OSError\<close> or is where the process dies (\<open>Crash\<close>, which
  no handler catches), so a statement about every script is a statement about every place
  at which a sequence of writes can break off.

  A path is the list of its components. A temporary file that is renamed over its target,
  with the directory creation before it, is one step: what a crash can leave of it (the
  temporary file, an empty directory) has a name that no reader of the program looks at.
  A link carries what it resolves to; permission bits are not modelled.
\<close>

type_synonym path = "string list"

datatype node = File string | Dir | Link "node option"

datatype fault = Fine | Refuse | Halt

record world =
  tree :: "(path \<times> node) list"
  faults :: "fault list"
  holders :: "(path \<times> bool) list"
  clock :: "nat \<Rightarrow> string"
  ticks :: nat
  pid :: nat

type_synonym 'a wprog = "(world, exn, 'a) prog"

definition path_text :: "path \<Rightarrow> string" where
  "path_text p = concat (map (\<lambda>c. CHR ''/'' # c) p)"

section \<open>Reading the tree\<close>

fun follow :: "node option \<Rightarrow> node option" where
  "follow (Some (Link t)) = follow t"
| "follow n = n"

definition lstat :: "world \<Rightarrow> path \<Rightarrow> node option" where
  "lstat w p = map_of (tree w) p"

definition stat :: "world \<Rightarrow> path \<Rightarrow> node option" where
  "stat w p = follow (lstat w p)"

definition lexists :: "world \<Rightarrow> path \<Rightarrow> bool" where
  "lexists w p \<longleftrightarrow> lstat w p \<noteq> None"

definition exists_path :: "world \<Rightarrow> path \<Rightarrow> bool" where
  "exists_path w p \<longleftrightarrow> stat w p \<noteq> None"

definition is_symlink :: "world \<Rightarrow> path \<Rightarrow> bool" where
  "is_symlink w p \<longleftrightarrow> (case lstat w p of Some (Link t) \<Rightarrow> True | _ \<Rightarrow> False)"

definition is_file :: "world \<Rightarrow> path \<Rightarrow> bool" where
  "is_file w p \<longleftrightarrow> (case stat w p of Some (File c) \<Rightarrow> True | _ \<Rightarrow> False)"

definition is_dir :: "world \<Rightarrow> path \<Rightarrow> bool" where
  "is_dir w p \<longleftrightarrow> (case stat w p of Some Dir \<Rightarrow> True | _ \<Rightarrow> False)"

definition read_bytes :: "world \<Rightarrow> path \<Rightarrow> string res" where
  "read_bytes w p = (case stat w p of
      Some (File c) \<Rightarrow> Inr c
    | _ \<Rightarrow> Inl (OSError (''cannot read '' @ path_text p)))"

text \<open>
  Decoding UTF-8 on the modelled code points; other sequences are outside the model's strings.
\<close>

fun utf8_decode :: "string \<Rightarrow> string res" where
  "utf8_decode [] = Inr []"
| "utf8_decode (c # s) =
     (if code_of c < 128 then bindE (utf8_decode s) (\<lambda>r. Inr (c # r))
      else (case s of
          [] \<Rightarrow> Inl (Unmodelled ''utf-8'')
        | e # t \<Rightarrow>
            (if code_of c \<in> {194, 195} \<and> 128 \<le> code_of e \<and> code_of e < 192
             then bindE (utf8_decode t)
               (\<lambda>r. Inr (char_of (64 * (code_of c - 192) + (code_of e - 128)) # r))
             else Inl (Unmodelled ''utf-8''))))"

definition read_text :: "world \<Rightarrow> path \<Rightarrow> string res" where
  "read_text w p = bindE (read_bytes w p) utf8_decode"

text \<open>The entries of a directory, in the order of \<open>sorted(path.iterdir())\<close>.\<close>

definition children :: "world \<Rightarrow> path \<Rightarrow> string list" where
  "children w p = sorted_set (map last (filter (\<lambda>q. q \<noteq> [] \<and> butlast q = p) (map fst (tree w))))"

definition below :: "path \<Rightarrow> path \<Rightarrow> bool" where
  "below p q \<longleftrightarrow> take (length p) q = p"

text \<open>What \<open>path.rglob("*")\<close> visits.\<close>

definition entries_below :: "world \<Rightarrow> path \<Rightarrow> (path \<times> node) list" where
  "entries_below w root = filter (\<lambda>e. below root (fst e) \<and> fst e \<noteq> root) (tree w)"

section \<open>Durable steps\<close>

definition durable :: "((path \<times> node) list \<Rightarrow> (path \<times> node) list) \<Rightarrow> unit wprog" where
  "durable u w = (case faults w of
      [] \<Rightarrow> (Inr (), w\<lparr>tree := u (tree w)\<rparr>)
    | Fine # fs \<Rightarrow> (Inr (), w\<lparr>tree := u (tree w), faults := fs\<rparr>)
    | Refuse # fs \<Rightarrow> (Inl (OSError ''device error''), w\<lparr>faults := fs\<rparr>)
    | Halt # fs \<Rightarrow> (Inl Crash, w\<lparr>faults := fs\<rparr>))"

fun put_node :: "node \<Rightarrow> node option \<Rightarrow> node" where
  "put_node n (Some (Link t)) = Link (Some (put_node n t))"
| "put_node n _ = n"

text \<open>\<open>mkdir(parents=True, exist_ok=True)\<close> on the tree: the missing ones of the prefixes.\<close>

definition add_dir :: "path \<Rightarrow> (path \<times> node) list \<Rightarrow> (path \<times> node) list" where
  "add_dir p t = (if map_of t p = None then t @ [(p, Dir)] else t)"

definition add_dirs :: "path \<Rightarrow> (path \<times> node) list \<Rightarrow> (path \<times> node) list" where
  "add_dirs p t = fold add_dir (map (\<lambda>i. take i p) [1..<Suc (length p)]) t"

text \<open>A component of the path that exists and is no directory makes the call fail.\<close>

definition parents_ok :: "world \<Rightarrow> path \<Rightarrow> bool" where
  "parents_ok w p \<longleftrightarrow>
     list_all (\<lambda>i. lexists w (take i p) \<longrightarrow> is_dir w (take i p)) [1..<length p]"

definition put_file :: "path \<Rightarrow> string \<Rightarrow> unit wprog" where
  "put_file p c w =
     (if is_dir w p \<or> \<not> parents_ok w p then (Inl (OSError (''cannot write '' @ path_text p)), w)
      else durable (\<lambda>t.
        AList.update p (put_node (File c) (map_of t p)) (add_dirs (butlast p) t)) w)"

definition make_dirs :: "path \<Rightarrow> unit wprog" where
  "make_dirs p w =
     (if is_dir w p then (Inr (), w)
      else if lexists w p \<or> \<not> parents_ok w p
        then (Inl (OSError (''cannot create '' @ path_text p)), w)
      else durable (add_dirs p) w)"

definition unlink :: "path \<Rightarrow> unit wprog" where
  "unlink p = durable (AList.delete p)"

text \<open>\<open>unlink\<close>, where a missing file is passed over.\<close>

definition unlink_quietly :: "path \<Rightarrow> unit wprog" where
  "unlink_quietly p w = (if lexists w p then unlink p w else (Inr (), w))"

definition remove_tree :: "path \<Rightarrow> unit wprog" where
  "remove_tree p = durable (filter (\<lambda>e. \<not> below p (fst e)))"

definition rename :: "path \<Rightarrow> path \<Rightarrow> unit wprog" where
  "rename p q = durable (\<lambda>t.
     map (\<lambda>e. if below p (fst e) then (q @ drop (length p) (fst e), snd e) else e)
       (filter (\<lambda>e. \<not> below q (fst e)) t))"

section \<open>JSON documents on disk\<close>

definition durable_atomic_json :: "path \<Rightarrow> json \<Rightarrow> unit wprog" where
  "durable_atomic_json p v = put_file p (dumps_indent v)"

definition durable_atomic_canonical_json :: "path \<Rightarrow> json \<Rightarrow> unit wprog" where
  "durable_atomic_canonical_json p v = put_file p (receiver_json_bytes v)"

text \<open>Creation with \<open>O_EXCL\<close>: an existing file is accepted when it has the same bytes.\<close>

definition durable_create_json :: "path \<Rightarrow> json \<Rightarrow> unit wprog" where
  "durable_create_json p v = (\<lambda>w.
     if lexists w p then
       bindM (liftM (read_bytes w p)) (\<lambda>old.
         if old \<noteq> dumps_indent v
         then raiseM (DeploymentError
           (''immutable record already exists with other bytes: '' @ path_text p))
         else retM ()) w
     else put_file p (dumps_indent v) w)"

definition read_json :: "path \<Rightarrow> json wprog" where
  "read_json p = bindM (getsM (\<lambda>w. read_text w p)) (\<lambda>r.
     bindM (liftM r) (\<lambda>s. liftM (strict_json_loads s)))"

definition utc_now :: "string wprog" where
  "utc_now w = (Inr (clock w (ticks w)), w\<lparr>ticks := Suc (ticks w)\<rparr>)"

text \<open>A fresh identifier from a generator.\<close>

definition draw :: "(nat \<Rightarrow> string) \<Rightarrow> string wprog" where
  "draw f w = (Inr (f (ticks w)), w\<lparr>ticks := Suc (ticks w)\<rparr>)"

text \<open>A read-only call.\<close>

definition askM :: "(world \<Rightarrow> 'a res) \<Rightarrow> 'a wprog" where
  "askM f w = (f w, w)"

text \<open>\<open>fsync\<close> of a path that has to exist: a place where the device or the process can fail.\<close>

definition fsync_path :: "path \<Rightarrow> unit wprog" where
  "fsync_path p w =
     (if exists_path w p then durable (\<lambda>t. t) w
      else (Inl (OSError (''cannot open '' @ path_text p)), w))"

section \<open>Advisory locks\<close>

definition conflicts :: "world \<Rightarrow> path \<Rightarrow> bool \<Rightarrow> bool" where
  "conflicts w p shared \<longleftrightarrow> (\<exists>h \<in> set (holders w). fst h = p \<and> \<not> (shared \<and> snd h))"

definition acquire :: "path \<Rightarrow> bool \<Rightarrow> bool \<Rightarrow> exn \<Rightarrow> unit wprog" where
  "acquire p shared blocking busy w =
     (if conflicts w p shared
      then (Inl (if blocking then Unmodelled ''waits for a lock'' else busy), w)
      else (Inr (), w\<lparr>holders := (p, shared) # holders w\<rparr>))"

definition release :: "path \<Rightarrow> bool \<Rightarrow> world \<Rightarrow> world" where
  "release p shared w = w\<lparr>holders := remove1 (p, shared) (holders w)\<rparr>"

text \<open>\<open>with lock: body\<close>, the release in the \<open>finally\<close> clause.\<close>

definition finallyM :: "'a wprog \<Rightarrow> (world \<Rightarrow> world) \<Rightarrow> 'a wprog" where
  "finallyM m f w = (let (r, w') = m w in (r, f w'))"

definition whenM :: "bool \<Rightarrow> unit wprog \<Rightarrow> unit wprog" where
  "whenM c m = (if c then m else retM ())"

definition failIf :: "(world \<Rightarrow> bool) \<Rightarrow> exn \<Rightarrow> unit wprog" where
  "failIf c e w = (if c w then (Inl e, w) else (Inr (), w))"

definition open_lock :: "path \<Rightarrow> bool \<Rightarrow> unit wprog" where
  "open_lock p create w =
     (case lstat w p of
        None \<Rightarrow>
          (if create then put_file p [] w
           else (Inl (DeploymentError (''cannot open deployment lock: '' @ path_text p)), w))
      | Some (File c) \<Rightarrow> (Inr (), w)
      | Some Dir \<Rightarrow>
          (Inl (DeploymentError ((if create then ''cannot open deployment lock: ''
             else ''deployment lock is not a regular file: '') @ path_text p)), w)
      | Some (Link t) \<Rightarrow>
          (Inl (DeploymentError (''cannot open deployment lock: '' @ path_text p)), w))"

definition data_lock ::
  "path \<Rightarrow> string \<Rightarrow> bool \<Rightarrow> bool \<Rightarrow> bool \<Rightarrow> bool \<Rightarrow> 'a wprog \<Rightarrow> 'a wprog" where
  "data_lock data name blocking shared create record_owner body =
     bindM (failIf (\<lambda>w. is_symlink w data)
       (DeploymentError ''deployment data directory must not be a symlink'')) (\<lambda>_.
     bindM (if create then make_dirs data
            else failIf (\<lambda>w. \<not> is_dir w data)
              (DeploymentError (''deployment data directory does not exist: '' @ path_text data))) (\<lambda>_.
     bindM (open_lock (data @ [name]) create) (\<lambda>_.
     bindM (acquire (data @ [name]) shared blocking
       (DeploymentError (''another HomeOps operation holds '' @ path_text (data @ [name])))) (\<lambda>_.
     finallyM
       (bindM (if record_owner \<and> \<not> shared \<and> create
               then (\<lambda>w. put_file (data @ [name]) (nat_dec (pid w) @ [CHR 0x0A]) w) else retM ())
         (\<lambda>_. body))
       (release (data @ [name]) shared)))))"

definition deployment_lock :: "path \<Rightarrow> bool \<Rightarrow> bool \<Rightarrow> bool \<Rightarrow> 'a wprog \<Rightarrow> 'a wprog" where
  "deployment_lock data blocking shared create body =
     data_lock data ''deployment.lock'' blocking shared create True body"

definition retention_lock :: "path \<Rightarrow> bool \<Rightarrow> bool \<Rightarrow> bool \<Rightarrow> 'a wprog \<Rightarrow> 'a wprog" where
  "retention_lock data blocking shared create body =
     data_lock data ''retention.lock'' blocking shared create False body"

section \<open>What the steps leave\<close>

text \<open>The bytes of the regular file at a path.\<close>

definition file_at :: "world \<Rightarrow> path \<Rightarrow> string option" where
  "file_at w p = (case stat w p of Some (File c) \<Rightarrow> Some c | _ \<Rightarrow> None)"

lemma read_bytes_file_at:
  "read_bytes w p = (case file_at w p of Some c \<Rightarrow> Inr c
     | None \<Rightarrow> Inl (OSError (''cannot read '' @ path_text p)))"
  by (auto simp: read_bytes_def file_at_def split: option.splits node.splits)

lemma is_file_file_at: "is_file w p \<longleftrightarrow> file_at w p \<noteq> None"
  by (auto simp: is_file_def file_at_def split: option.splits node.splits)

lemma map_of_add_dir:
  "map_of (add_dir p t) q = (case map_of t q of Some n \<Rightarrow> Some n | None \<Rightarrow> if q = p then Some Dir else None)"
  by (auto simp: add_dir_def map_add_def split: option.splits)

lemma map_of_fold_add_dir:
  "map_of (fold add_dir ps t) q =
     (case map_of t q of Some n \<Rightarrow> Some n | None \<Rightarrow> if q \<in> set ps then Some Dir else None)"
  by (induction ps arbitrary: t) (auto simp: map_of_add_dir split: option.splits)

lemma map_of_add_dirs:
  "map_of (add_dirs p t) q = (case map_of t q of Some n \<Rightarrow> Some n
     | None \<Rightarrow> if q \<noteq> [] \<and> below q p then Some Dir else None)"
proof -
  have "q \<in> set (map (\<lambda>i. take i p) [1..<Suc (length p)]) \<longleftrightarrow> q \<noteq> [] \<and> below q p"
  proof
    assume "q \<in> set (map (\<lambda>i. take i p) [1..<Suc (length p)])"
    then show "q \<noteq> [] \<and> below q p" by (auto simp: below_def min_def)
  next
    assume q: "q \<noteq> [] \<and> below q p"
    then have "length q \<le> length p" unfolding below_def by (metis length_take min.cobounded1)
    with q show "q \<in> set (map (\<lambda>i. take i p) [1..<Suc (length p)])"
      by (auto simp: below_def Suc_le_eq intro!: image_eqI [of _ _ "length q"])
  qed
  then show ?thesis by (simp add: add_dirs_def map_of_fold_add_dir)
qed

lemma follow_put_node [simp]: "follow (Some (put_node (File c) n)) = Some (File c)"
  by (induction "File c" n rule: put_node.induct) simp_all

lemma durable_cases:
  assumes "durable u w = (r, w')"
  obtains "r = Inr ()" "w' = w\<lparr>tree := u (tree w), faults := tl (faults w)\<rparr>"
  | "r = Inl (OSError ''device error'')" "w' = w\<lparr>faults := tl (faults w)\<rparr>"
  | "r = Inl Crash" "w' = w\<lparr>faults := tl (faults w)\<rparr>"
  using assms by (auto simp: durable_def split: list.splits fault.splits)

lemma durable_Fine: "faults w = [] \<Longrightarrow> durable u w = (Inr (), w\<lparr>tree := u (tree w)\<rparr>)"
  by (simp add: durable_def)

lemma file_at_faults [simp]:
  "file_at (w\<lparr>faults := f\<rparr>) p = file_at w p"
  "file_at (w\<lparr>ticks := n\<rparr>) p = file_at w p"
  "file_at (w\<lparr>holders := hs\<rparr>) p = file_at w p"
  by (simp_all add: file_at_def stat_def lstat_def)

lemma file_at_add_dirs:
  "file_at (w\<lparr>tree := add_dirs p (tree w)\<rparr>) q = file_at w q"
  by (auto simp: file_at_def stat_def lstat_def map_of_add_dirs split: option.splits)

lemma file_at_update:
  "file_at (w\<lparr>tree := AList.update p (put_node (File c) (map_of t p)) (add_dirs (butlast p) (tree w))\<rparr>) q
    = (if q = p then Some c else file_at w q)"
  using file_at_add_dirs [where w = w and p = "butlast p" and q = q]
  by (simp add: file_at_def stat_def lstat_def update_conv')

text \<open>
  A durable write either happened, and then exactly that file has new bytes, or raised, and
  then no file changed.
\<close>

lemma put_file_cases [consumes 1, case_names written error crash]:
  assumes "put_file p c w = (r, w')"
  obtains "r = Inr ()" "\<And>q. file_at w' q = (if q = p then Some c else file_at w q)"
  | m where "r = Inl (OSError m)" "\<And>q. file_at w' q = file_at w q"
  | "r = Inl Crash" "\<And>q. file_at w' q = file_at w q"
proof (cases "is_dir w p \<or> \<not> parents_ok w p")
  case True
  with assms that(2) show thesis by (auto simp: put_file_def)
next
  case False
  with assms have "durable (\<lambda>t. AList.update p (put_node (File c) (map_of t p)) (add_dirs (butlast p) t)) w
      = (r, w')" by (simp add: put_file_def)
  then show thesis
  proof (cases rule: durable_cases)
    case 1
    have "file_at w' q = (if q = p then Some c else file_at w q)" for q
      using file_at_update [where w = w and p = p and c = c and t = "tree w" and q = q] by (simp add: 1 file_at_def stat_def lstat_def)
    with 1 that(1) show ?thesis by blast
  qed (use that in \<open>auto\<close>)
qed

lemma put_file_ok:
  assumes "faults w = []" "\<not> is_dir w p" "parents_ok w p"
  obtains w' where "put_file p c w = (Inr (), w')" "faults w' = []"
    "\<And>q. file_at w' q = (if q = p then Some c else file_at w q)"
proof -
  let ?w = "w\<lparr>tree := AList.update p (put_node (File c) (map_of (tree w) p)) (add_dirs (butlast p) (tree w))\<rparr>"
  have "put_file p c w = (Inr (), ?w)" using assms by (simp add: put_file_def durable_def)
  moreover have "file_at ?w q = (if q = p then Some c else file_at w q)" for q
    by (rule file_at_update)
  ultimately show thesis using that assms(1) by simp
qed

lemma make_dirs_cases [consumes 1, case_names made error crash]:
  assumes "make_dirs p w = (r, w')"
  obtains "r = Inr ()" "\<And>q. file_at w' q = file_at w q"
  | m where "r = Inl (OSError m)" "\<And>q. file_at w' q = file_at w q"
  | "r = Inl Crash" "\<And>q. file_at w' q = file_at w q"
proof (cases "is_dir w p \<or> lexists w p \<or> \<not> parents_ok w p")
  case True
  with assms that(1,2) show thesis by (auto simp: make_dirs_def split: if_splits)
next
  case False
  with assms have "durable (add_dirs p) w = (r, w')" by (simp add: make_dirs_def)
  then show thesis
  proof (cases rule: durable_cases)
    case 1
    have "file_at w' q = file_at w q" for q
      using file_at_add_dirs [where w = w and p = p and q = q] by (simp add: 1 file_at_def stat_def lstat_def)
    with 1 that(1) show ?thesis by blast
  qed (use that in \<open>auto\<close>)
qed

end
