(* ===== verification/Deployment.thy ===== *)
theory Deployment
  imports Files
begin

text \<open>
  \<open>deployment.py\<close>: the deployment record and its content-derived identity, the schema-2
  active state with its compare-and-swap selection and its rollback, the durable stores of
  both, run pins, the resolution of a run to its role, and the redacted projection that the
  receiver sees. \<open>sha\<close> stands for \<open>hashlib.sha256(...).hexdigest()\<close> throughout.
\<close>

section \<open>Identifiers and text helpers\<close>

definition safe_id_char :: "char \<Rightarrow> bool" where
  "safe_id_char c \<longleftrightarrow> is_alnum c \<or> c \<in> set ''._-''"

text \<open>\<open>_SAFE_ID.fullmatch\<close>.\<close>

definition safe_id :: "string \<Rightarrow> bool" where
  "safe_id s \<longleftrightarrow> (case s of [] \<Rightarrow> False
     | c # t \<Rightarrow> is_alnum c \<and> list_all safe_id_char t \<and> length t \<le> 127)"

text \<open>\<open>_SHA256.fullmatch\<close>.\<close>

definition is_sha256 :: "string \<Rightarrow> bool" where
  "is_sha256 s \<longleftrightarrow> length s = 64 \<and> list_all is_lower_hex s"

definition validate_safe_id :: "json \<Rightarrow> string \<Rightarrow> string res" where
  "validate_safe_id v field = (case v of
      JStr s \<Rightarrow> (if safe_id s then Inr s
                 else Inl (DeploymentError (field @ '' is not a safe identifier'')))
    | _ \<Rightarrow> Inl (DeploymentError (field @ '' is not a safe identifier'')))"

text \<open>\<open>repr\<close> of a string or \<open>None\<close>, for the message of a conflict.\<close>

definition repr_char :: "char \<Rightarrow> char \<Rightarrow> string" where
  "repr_char q c = (let n = code_of c in
     if c = q \<or> n = 92 then [CHR 0x5C, c]
     else if n = 10 then [CHR 0x5C, CHR ''n'']
     else if n = 13 then [CHR 0x5C, CHR ''r'']
     else if n = 9 then [CHR 0x5C, CHR ''t'']
     else if (32 \<le> n \<and> n \<le> 126) \<or> (161 \<le> n \<and> n \<noteq> 173) then [c]
     else [CHR 0x5C, CHR ''x'', hex_digit (n div 16), hex_digit (n mod 16)])"

definition py_repr :: "string \<Rightarrow> string" where
  "py_repr s = (let q = (if CHR 0x27 \<in> set s \<and> CHR 0x22 \<notin> set s then CHR 0x22 else CHR 0x27)
     in q # concat (map (repr_char q) s) @ [q])"

definition repr_json :: "json \<Rightarrow> string" where
  "repr_json v = (case v of JStr s \<Rightarrow> py_repr s | JNull \<Rightarrow> ''None'' | _ \<Rightarrow> dumps v)"

section \<open>Deployment records\<close>

definition DEPLOYMENT_SCHEMA_VERSION :: int where
  "DEPLOYMENT_SCHEMA_VERSION = 2"

definition DEPLOYMENT_CONTRACT_VERSION :: string where
  "DEPLOYMENT_CONTRACT_VERSION = ''homeops-deployment-v2''"

definition require_string :: "dict \<Rightarrow> string \<Rightarrow> bool \<Rightarrow> json res" where
  "require_string rec field nullable =
     (let value = dget rec field
      in if nullable \<and> value = JNull then Inr JNull
         else if \<not> is_str value \<or> str_of value = []
           then Inl (DeploymentError (''deployment '' @ field @ '' must be a non-empty string''))
         else Inr value)"

definition record_fields :: "string list" where
  "record_fields =
    [''deployment_schema_version'', ''deployment_contract_version'', ''deployment_id'',
     ''snapshot_id'', ''run_id'', ''source_fingerprint'', ''artifact_fingerprint'',
     ''logical_fingerprint'', ''snapshot_created_at'', ''snapshot_received_at'',
     ''build_completed_at'', ''build_verified_at'', ''promoted_at'', ''homeops_version'',
     ''source_revision'', ''image_digest'', ''snapshot_schema_version'',
     ''snapshot_contract_version'', ''build_schema_version'', ''build_contract_version'',
     ''result'']"

definition identity_fields :: "string list" where
  "identity_fields =
    [''deployment_contract_version'', ''snapshot_id'', ''run_id'', ''source_fingerprint'',
     ''artifact_fingerprint'', ''logical_fingerprint'', ''homeops_version'',
     ''source_revision'', ''image_digest'', ''snapshot_schema_version'',
     ''snapshot_contract_version'', ''build_schema_version'', ''build_contract_version'']"

text \<open>A dictionary display that copies fields: the first missing one raises \<open>KeyError\<close>.\<close>

definition pick_fields :: "dict \<Rightarrow> string list \<Rightarrow> dict res" where
  "pick_fields d fs = mapE (\<lambda>f. bindE (didx d f) (\<lambda>v. Inr (f, v))) fs"

definition deployment_identity :: "dict \<Rightarrow> dict res" where
  "deployment_identity rec = pick_fields rec identity_fields"

definition field_problems :: "dict \<Rightarrow> string" where
  "field_problems rec =
     (let missing = filter (\<lambda>f. \<not> dhas rec f) record_fields;
          unknown = filter (\<lambda>k. k \<notin> set record_fields) (dkeys rec)
      in join ''; ''
        ((if missing \<noteq> [] then [''missing '' @ join '', '' (sorted_set missing)] else []) @
         (if unknown \<noteq> [] then [''unknown '' @ join '', '' (sorted_set unknown)] else [])))"

definition fingerprint_fields :: "string list" where
  "fingerprint_fields = [''source_fingerprint'', ''artifact_fingerprint'', ''logical_fingerprint'']"

definition text_fields :: "string list" where
  "text_fields =
    [''snapshot_created_at'', ''snapshot_received_at'', ''build_completed_at'',
     ''build_verified_at'', ''homeops_version'', ''source_revision'', ''image_digest'',
     ''snapshot_contract_version'', ''build_contract_version'']"

definition positive_int :: "json \<Rightarrow> bool" where
  "positive_int v = (case v of JInt i \<Rightarrow> 1 \<le> i | _ \<Rightarrow> False)"

definition validate_deployment_record :: "(string \<Rightarrow> string) \<Rightarrow> json \<Rightarrow> dict res" where
  "validate_deployment_record sha v = (case v of
     JObj rec \<Rightarrow>
       bindE (raiseIf (\<not> same_fields rec record_fields)
         (DeploymentError (''invalid deployment record fields: '' @ field_problems rec))) (\<lambda>_.
       bindE (raiseIf (\<not> pyeq (dget rec ''deployment_schema_version'') (JInt DEPLOYMENT_SCHEMA_VERSION))
         (DeploymentError ''unsupported deployment schema version'')) (\<lambda>_.
       bindE (raiseIf (\<not> pyeq (dget rec ''deployment_contract_version'') (JStr DEPLOYMENT_CONTRACT_VERSION))
         (DeploymentError ''unsupported deployment contract version'')) (\<lambda>_.
       bindE (eachE (\<lambda>f. bindE (validate_safe_id (dget rec f) f) (\<lambda>_. Inr ()))
         [''deployment_id'', ''snapshot_id'', ''run_id'']) (\<lambda>_.
       bindE (eachE (\<lambda>f. bindE (require_string rec f False) (\<lambda>value.
           raiseIf (\<not> is_sha256 (str_of value))
             (DeploymentError (''deployment '' @ f @ '' must be a lowercase SHA-256''))))
         fingerprint_fields) (\<lambda>_.
       bindE (eachE (\<lambda>f. bindE (require_string rec f False) (\<lambda>_. Inr ())) text_fields) (\<lambda>_.
       bindE (require_string rec ''promoted_at'' True) (\<lambda>_.
       bindE (eachE (\<lambda>f. raiseIf (\<not> positive_int (dget rec f))
           (DeploymentError (''deployment '' @ f @ '' must be a positive integer'')))
         [''snapshot_schema_version'', ''build_schema_version'']) (\<lambda>_.
       bindE (raiseIf (\<not> pyeq (dget rec ''result'') (JStr ''verified''))
         (DeploymentError ''only verified deployments may be selected'')) (\<lambda>_.
       bindE (deployment_identity rec) (\<lambda>identity.
       bindE (raiseIf (\<not> pyeq (dget rec ''deployment_id'') (JStr (sha256_json sha (JObj identity))))
         (DeploymentError ''deployment_id does not match deployment identity'')) (\<lambda>_.
       Inr rec)))))))))))
   | _ \<Rightarrow> Inl (DeploymentError ''deployment record must be an object''))"

definition create_deployment_record ::
  "(string \<Rightarrow> string) \<Rightarrow> dict \<Rightarrow> dict \<Rightarrow> json \<Rightarrow> json \<Rightarrow> json \<Rightarrow> json \<Rightarrow> json \<Rightarrow> dict res" where
  "create_deployment_record sha snapshot build received_at homeops_version source_revision
      image_digest promoted_at =
     bindE (eachE (\<lambda>f. raiseIf (\<not> pyeq (dget snapshot f) (dget build f))
         (DeploymentError (''snapshot/build '' @ f @ '' mismatch''))) fingerprint_fields) (\<lambda>_.
     bindE (raiseIf (\<not> pyeq (dget build ''result'') (JStr ''verified''))
         (DeploymentError ''candidate build is not verified'')) (\<lambda>_.
     bindE (didx snapshot ''snapshot_id'') (\<lambda>snapshot_id.
     bindE (didx build ''run_id'') (\<lambda>run_id.
     bindE (didx snapshot ''source_fingerprint'') (\<lambda>source_fp.
     bindE (didx snapshot ''artifact_fingerprint'') (\<lambda>artifact_fp.
     bindE (didx snapshot ''logical_fingerprint'') (\<lambda>logical_fp.
     bindE (didx snapshot ''created_at'') (\<lambda>created_at.
     bindE (didx build ''completed_at'') (\<lambda>completed_at.
     bindE (didx build ''verified_at'') (\<lambda>verified_at.
     bindE (didx snapshot ''schema_version'') (\<lambda>snapshot_schema.
     bindE (didx snapshot ''snapshot_contract_version'') (\<lambda>snapshot_contract.
     bindE (didx build ''schema_version'') (\<lambda>build_schema.
     bindE (didx build ''build_contract_version'') (\<lambda>build_contract.
     (let rec =
       [(''deployment_schema_version'', JInt DEPLOYMENT_SCHEMA_VERSION),
        (''deployment_contract_version'', JStr DEPLOYMENT_CONTRACT_VERSION),
        (''deployment_id'', JStr ''pending''),
        (''snapshot_id'', snapshot_id),
        (''run_id'', run_id),
        (''source_fingerprint'', source_fp),
        (''artifact_fingerprint'', artifact_fp),
        (''logical_fingerprint'', logical_fp),
        (''snapshot_created_at'', created_at),
        (''snapshot_received_at'', received_at),
        (''build_completed_at'', completed_at),
        (''build_verified_at'', verified_at),
        (''promoted_at'', promoted_at),
        (''homeops_version'', homeops_version),
        (''source_revision'', source_revision),
        (''image_digest'', image_digest),
        (''snapshot_schema_version'', snapshot_schema),
        (''snapshot_contract_version'', snapshot_contract),
        (''build_schema_version'', build_schema),
        (''build_contract_version'', build_contract),
        (''result'', JStr ''verified'')]
      in bindE (deployment_identity rec) (\<lambda>identity.
         validate_deployment_record sha
           (JObj (dput rec ''deployment_id'' (JStr (sha256_json sha (JObj identity)))))))
     ))))))))))))))"

section \<open>The active state\<close>

definition empty_state :: dict where
  "empty_state =
    [(''schema_version'', JInt DEPLOYMENT_SCHEMA_VERSION),
     (''current'', JNull),
     (''previous'', JNull),
     (''current_deployment'', JNull),
     (''previous_deployment'', JNull),
     (''promoted_at'', JNull)]"

definition state_fields :: "string list" where
  "state_fields =
    [''schema_version'', ''current'', ''previous'', ''current_deployment'',
     ''previous_deployment'', ''promoted_at'']"

text \<open>One of the two slots: a record is validated and has to agree with the run id beside it.\<close>

definition check_slot :: "(string \<Rightarrow> string) \<Rightarrow> json \<Rightarrow> json \<Rightarrow> string \<Rightarrow> json res" where
  "check_slot sha rec run message =
     bindE (validate_deployment_record sha rec) (\<lambda>d.
     bindE (raiseIf (\<not> pyeq run (dget d ''run_id'')) (DeploymentError message)) (\<lambda>_.
     Inr (JObj d)))"

definition validate_state :: "(string \<Rightarrow> string) \<Rightarrow> json \<Rightarrow> bool \<Rightarrow> dict res" where
  "validate_state sha v allow_legacy = (case v of
     JObj state \<Rightarrow>
       (let schema_version = dget state ''schema_version''
        in if pyeq schema_version (JInt 1) \<and> allow_legacy then
          bindE (raiseIf (\<not> set (dkeys state) \<subseteq> {''schema_version'', ''current'', ''previous'', ''promoted_at''})
            (DeploymentError ''legacy active state has unknown fields'')) (\<lambda>_.
          bindE (eachE (\<lambda>f. if dget state f \<noteq> JNull
                then bindE (validate_safe_id (dget state f) f) (\<lambda>_. Inr ()) else Inr ())
              [''current'', ''previous'']) (\<lambda>_.
          Inr state))
        else
          bindE (raiseIf (\<not> pyeq schema_version (JInt DEPLOYMENT_SCHEMA_VERSION))
            (DeploymentError ''unsupported active deployment schema version'')) (\<lambda>_.
          bindE (raiseIf (\<not> same_fields state state_fields)
            (DeploymentError ''schema-v2 active state has missing or unknown fields'')) (\<lambda>_.
          bindE (if dget state ''current_deployment'' = JNull
                 then bindE (raiseIf (dget state ''current'' \<noteq> JNull
                     \<or> dget state ''previous_deployment'' \<noteq> JNull \<or> dget state ''previous'' \<noteq> JNull)
                   (DeploymentError ''empty active state contains a selected deployment'')) (\<lambda>_.
                   Inr JNull)
                 else check_slot sha (dget state ''current_deployment'') (dget state ''current'')
                   ''legacy current run ID disagrees with current deployment'') (\<lambda>current_record.
          bindE (if dget state ''previous_deployment'' = JNull
                 then bindE (raiseIf (dget state ''previous'' \<noteq> JNull)
                   (DeploymentError ''previous run ID has no previous deployment'')) (\<lambda>_.
                   Inr JNull)
                 else check_slot sha (dget state ''previous_deployment'') (dget state ''previous'')
                   ''legacy previous run ID disagrees with previous deployment'') (\<lambda>previous_record.
          bindE (raiseIf (dget state ''promoted_at'' \<noteq> JNull \<and> \<not> is_str (dget state ''promoted_at''))
            (DeploymentError ''active promoted_at must be a string or null'')) (\<lambda>_.
          Inr (dput (dput state ''current_deployment'' current_record)
                 ''previous_deployment'' previous_record)))))))
   | _ \<Rightarrow> Inl (DeploymentError ''active deployment state must be an object''))"

text \<open>The pure compare-and-swap transition; \<open>True\<close> stands for the result \<open>promoted\<close>.\<close>

definition select_deployment ::
  "(string \<Rightarrow> string) \<Rightarrow> json \<Rightarrow> json \<Rightarrow> json \<Rightarrow> json \<Rightarrow> (dict \<times> string) res" where
  "select_deployment sha state candidate expected promoted_at =
     bindE (validate_state sha state False) (\<lambda>selected.
     bindE (validate_deployment_record sha candidate) (\<lambda>checked.
     (let current = dget selected ''current_deployment''
      in if truthy current \<and> pyeq (dget (obj_of current) ''deployment_id'') (dget checked ''deployment_id'')
         then Inr (selected, ''unchanged'')
         else
           (let actual = (if truthy current then dget (obj_of current) ''deployment_id'' else JNull)
            in bindE (raiseIf (\<not> pyeq actual expected)
                (PromotionConflict (''active deployment changed: expected '' @ repr_json expected
                   @ '', found '' @ repr_json actual))) (\<lambda>_.
              (let promoted = dput checked ''promoted_at'' promoted_at;
                   next_state =
                     [(''schema_version'', JInt DEPLOYMENT_SCHEMA_VERSION),
                      (''current'', dget promoted ''run_id''),
                      (''previous'', if truthy current then dget (obj_of current) ''run_id'' else JNull),
                      (''current_deployment'', JObj promoted),
                      (''previous_deployment'', current),
                      (''promoted_at'', promoted_at)]
               in bindE (validate_state sha (JObj next_state) False) (\<lambda>s. Inr (s, ''promoted''))))))))"

definition rollback_transition :: "(string \<Rightarrow> string) \<Rightarrow> json \<Rightarrow> json \<Rightarrow> dict res" where
  "rollback_transition sha state promoted_at =
     bindE (validate_state sha state False) (\<lambda>selected.
     (let current = dget selected ''current_deployment'';
          previous = dget selected ''previous_deployment''
      in bindE (raiseIf (current = JNull \<or> previous = JNull)
          (DeploymentError ''rollback requires current and previous verified deployments'')) (\<lambda>_.
        (let selected_previous = dput (obj_of previous) ''promoted_at'' promoted_at;
             rolled_back =
               [(''schema_version'', JInt DEPLOYMENT_SCHEMA_VERSION),
                (''current'', dget (obj_of previous) ''run_id''),
                (''previous'', dget (obj_of current) ''run_id''),
                (''current_deployment'', JObj selected_previous),
                (''previous_deployment'', current),
                (''promoted_at'', promoted_at)]
         in validate_state sha (JObj rolled_back) False))))"

end
