(* ===== verification/JsonRoundtrip.thy ===== *)
theory JsonRoundtrip
  imports JsonText
begin

text \<open>
  Reading back what was written: \<open>strict_json_loads\<close> inverts \<open>dumps\<close> on every well-formed
  document, so the canonical encoding determines the document up to key order. This is what
  makes a digest of the canonical bytes a content-derived identity.
\<close>

section \<open>Characters\<close>

lemma code_of_inject [simp]: "code_of c = code_of d \<longleftrightarrow> c = d"
  by (metis char_of_char code_of_def)

lemma code_of_lt: "code_of c < 256"
  by (simp add: code_of_def)

lemma char_of_code [simp]: "char_of (code_of c) = c"
  by (simp add: code_of_def)

lemma code_of_char_of: "n < 256 \<Longrightarrow> code_of (char_of n) = n"
  by (simp add: code_of_def)

lemma code_of_lit: "code_of c = n \<Longrightarrow> c = char_of n"
  by (metis char_of_code)

lemma hex_value_digit: "n < 16 \<Longrightarrow> hex_value (hex_digit n) = Some n"
  by (auto simp: hex_value_def hex_digit_def code_of_char_of Let_def)

lemma code_of_special:
  "code_of c = 34 \<longleftrightarrow> c = CHR 0x22" "code_of c = 92 \<longleftrightarrow> c = CHR 0x5C"
  "code_of c = 10 \<longleftrightarrow> c = CHR 0x0A" "code_of c = 13 \<longleftrightarrow> c = CHR 0x0D"
  "code_of c = 9 \<longleftrightarrow> c = CHR 0x09" "code_of c = 12 \<longleftrightarrow> c = CHR 0x0C"
  "code_of c = 8 \<longleftrightarrow> c = CHR 0x08"
  using code_of_inject [of c "CHR 0x22"] code_of_inject [of c "CHR 0x5C"]
    code_of_inject [of c "CHR 0x0A"] code_of_inject [of c "CHR 0x0D"]
    code_of_inject [of c "CHR 0x09"] code_of_inject [of c "CHR 0x0C"]
    code_of_inject [of c "CHR 0x08"]
  by (simp_all add: code_of_def del: code_of_inject)

lemma scan_string_escape:
  "scan_string (escape_char c @ t) = push_char c (scan_string t)"
proof -
  let ?n = "code_of c"
  let ?special = "{CHR 0x22, CHR 0x5C, CHR 0x0A, CHR 0x0D, CHR 0x09, CHR 0x0C, CHR 0x08}"
  consider "c \<in> ?special" | "c \<notin> ?special" "32 \<le> ?n" "?n \<le> 126"
    | "c \<notin> ?special" "\<not> (32 \<le> ?n \<and> ?n \<le> 126)" by blast
  then show ?thesis
  proof cases
    case 1
    then show ?thesis
      by (elim insertE) (simp_all add: escape_char_def simple_escape_def code_of_def Let_def)
  next
    case 2
    then show ?thesis by (simp add: escape_char_def Let_def code_of_special)
  next
    case 3
    then have eq: "escape_char c = [CHR 0x5C, CHR ''u'', CHR ''0'', CHR ''0'',
        hex_digit (?n div 16), hex_digit (?n mod 16)]"
      unfolding escape_char_def Let_def code_of_special by simp
    have "hex_value (hex_digit (?n div 16)) = Some (?n div 16)"
      "hex_value (hex_digit (?n mod 16)) = Some (?n mod 16)"
      using code_of_lt [of c] by (auto intro!: hex_value_digit)
    moreover have "hex_value CHR ''0'' = Some 0" by (simp add: hex_value_def code_of_def)
    moreover have "\<not> code_of (CHR 0x5C) < 32" by (simp add: code_of_def)
    ultimately show ?thesis by (simp add: eq)
  qed
qed

lemma push_char_Inr [simp]: "push_char c (Inr (s, r)) = Inr (c # s, r)"
  by (simp add: push_char_def)

text \<open>An escaping that the reader undoes; both of \<open>json.dumps\<close> are.\<close>

definition reads_escape :: "(char \<Rightarrow> string) \<Rightarrow> bool" where
  "reads_escape esc \<longleftrightarrow> (\<forall>c t. scan_string (esc c @ t) = push_char c (scan_string t))"

lemma reads_escape_char: "reads_escape escape_char"
  by (simp add: reads_escape_def scan_string_escape)

lemma reads_escape_raw: "reads_escape escape_raw"
  unfolding reads_escape_def
proof (intro allI)
  fix c t
  have "127 \<le> code_of c \<Longrightarrow> c \<noteq> CHR 0x22 \<and> c \<noteq> CHR 0x5C" by (auto simp: code_of_def)
  then show "scan_string (escape_raw c @ t) = push_char c (scan_string t)"
    by (simp add: escape_raw_def scan_string_escape del: scan_string.simps(2), simp)
qed

lemma scan_string_quoted:
  assumes "reads_escape esc"
  shows "scan_string (concat (map esc s) @ CHR 0x22 # rest) = Inr (s, rest)"
proof (induction s)
  case (Cons c s)
  with assms show ?case by (simp add: reads_escape_def del: scan_string.simps)
qed simp

section \<open>Numbers\<close>

lemma nat_dec_digits: "\<forall>c \<in> set (nat_dec n). is_digit c"
proof (induction n rule: nat_dec.induct)
  case (1 n)
  have d: "is_digit (char_of (48 + k))" if "k < 10" for k :: nat
    using that by (simp add: is_digit_def code_of_char_of)
  show ?case
  proof (cases "n < 10")
    case True
    then show ?thesis using d [of n] by (subst nat_dec.simps) simp
  next
    case False
    then show ?thesis using 1 d [of "n mod 10"] by (subst nat_dec.simps) auto
  qed
qed

lemma nat_dec_nonempty [simp]: "nat_dec n \<noteq> []"
  by (subst nat_dec.simps) simp

lemma digits_value_snoc: "digits_value (s @ [c]) = 10 * digits_value s + (code_of c - 48)"
  by (simp add: digits_value_def)

lemma digits_value_nat_dec: "digits_value (nat_dec n) = n"
proof (induction n rule: nat_dec.induct)
  case (1 n)
  show ?case
  proof (cases "n < 10")
    case True
    then show ?thesis by (subst nat_dec.simps) (simp add: digits_value_def code_of_char_of)
  next
    case False
    then show ?thesis using 1
      by (subst nat_dec.simps) (simp add: digits_value_snoc code_of_char_of)
  qed
qed

lemma nat_dec_no_leading_zero: "0 < n \<Longrightarrow> hd (nat_dec n) \<noteq> CHR ''0''"
proof (induction n rule: nat_dec.induct)
  case (1 n)
  show ?case
  proof (cases "n < 10")
    case True
    have "code_of (char_of (48 + n)) \<noteq> code_of (CHR ''0'')"
      using True 1(2) by (subst code_of_char_of) (auto simp: code_of_def)
    with True show ?thesis by (subst nat_dec.simps) auto
  next
    case False
    with 1 have "hd (nat_dec (n div 10)) \<noteq> CHR ''0''" by simp
    with False show ?thesis by (subst nat_dec.simps) simp
  qed
qed

lemma nat_dec_zero: "nat_dec 0 = ''0''"
  by (subst nat_dec.simps) (simp, code_simp)

definition ends_number :: "string \<Rightarrow> bool" where
  "ends_number r \<longleftrightarrow> r = [] \<or> (\<not> is_digit (hd r) \<and> hd r \<notin> set [CHR ''.'', CHR ''e'', CHR ''E''])"

lemma take_digits:
  "\<forall>c \<in> set ds. is_digit c \<Longrightarrow> ends_number r \<Longrightarrow>
     takeWhile is_digit (ds @ r) = ds \<and> dropWhile is_digit (ds @ r) = r"
  by (induction ds) (cases r; auto simp: ends_number_def)+

lemma digit_not_minus: "is_digit c \<Longrightarrow> c \<noteq> CHR ''-''"
  by (auto simp: is_digit_def code_of_def)

lemma scan_number_int_dec:
  assumes r: "ends_number r"
  shows "scan_number (int_dec i @ r) = Inr (JInt i, r)"
proof -
  have t: "takeWhile is_digit (nat_dec n @ r) = nat_dec n" "dropWhile is_digit (nat_dec n @ r) = r" for n
    using take_digits [OF nat_dec_digits r] by auto
  have z: "\<not> (hd (nat_dec n) = CHR ''0'' \<and> length (nat_dec n) > 1)" for n
    by (cases "n = 0") (simp_all add: nat_dec_zero nat_dec_no_leading_zero)
  have stop: "\<not> (r \<noteq> [] \<and> hd r \<in> set [CHR ''.'', CHR ''e'', CHR ''E''])"
    using r by (auto simp: ends_number_def)
  have sign: "hd (nat_dec n @ r) \<noteq> CHR ''-''" for n
    using nat_dec_digits [of n] by (simp add: digit_not_minus)
  have unsigned: "scan_number (nat_dec n @ r) = Inr (JInt (int n), r)" for n
    unfolding scan_number_def Let_def
    using sign [of n] stop z [of n] by (auto simp: t digits_value_nat_dec simp del: set_simps)
  have negative: "scan_number (CHR ''-'' # nat_dec n @ r) = Inr (JInt (- int n), r)" for n
    unfolding scan_number_def Let_def
    using stop z [of n] by (auto simp: t digits_value_nat_dec simp del: set_simps)
  show ?thesis
    using unsigned [of "nat i"] negative [of "nat (- i)"] by (simp add: int_dec_def)
qed

section \<open>Values\<close>

lemma ends_number_simps [simp]:
  "ends_number []" "ends_number (CHR '','' # r)" "ends_number (CHR '']'' # r)"
  "ends_number (CHR ''}'' # r)" "ends_number (CHR 0x0A # r)"
  by (simp_all add: ends_number_def is_digit_def code_of_def)

definition value_head :: "char \<Rightarrow> bool" where
  "value_head c \<longleftrightarrow> is_digit c \<or> c \<in> set [CHR 0x22, CHR ''{'', CHR ''['', CHR ''n'', CHR ''t'', CHR ''f'', CHR ''-'']"

lemma int_dec_head: "\<exists>c t. int_dec i = c # t \<and> value_head c"
proof -
  have digit: "\<exists>c t. nat_dec n = c # t \<and> is_digit c" for n
    using nat_dec_digits [of n] nat_dec_nonempty [of n] by (cases "nat_dec n") auto
  show ?thesis
  proof (cases "i < 0")
    case True
    then show ?thesis by (simp add: int_dec_def value_head_def)
  next
    case False
    with digit [of "nat i"] show ?thesis by (auto simp: int_dec_def value_head_def)
  qed
qed

lemma render_head: "\<exists>c t. render esc nl sp d v = c # t \<and> value_head c"
  using int_dec_head by (cases v) (auto simp: value_head_def quote_def)

lemma value_head_not:
  "value_head c \<Longrightarrow> c \<notin> set [CHR '' '', CHR 0x09, CHR 0x0A, CHR 0x0D, CHR '']'', CHR ''}'']"
  by (auto simp: value_head_def is_digit_def code_of_def)

definition blank :: "string \<Rightarrow> bool" where
  "blank s \<longleftrightarrow> set s \<subseteq> set [CHR '' '', CHR 0x0A]"

lemma skip_ws_blank: "blank b \<Longrightarrow> skip_ws (b @ s) = skip_ws s"
  by (induction b) (auto simp: blank_def)

lemma skip_ws_blank_all: "blank b \<Longrightarrow> skip_ws b = []"
  using skip_ws_blank [of b "[]"] by simp

lemma skip_ws_render: "skip_ws (render esc nl sp d v @ r) = render esc nl sp d v @ r"
  using render_head [of esc nl sp d v] value_head_not by fastforce

lemma ends_number_blank: "blank b \<Longrightarrow> ends_number r \<Longrightarrow> ends_number (b @ r)"
  by (cases b) (auto simp: blank_def ends_number_def is_digit_def code_of_def)

lemma scan_value_string: "reads_escape esc \<Longrightarrow> scan_value h (Suc n) (quote esc s @ r) = Inr (JStr s, r)"
  by (simp add: quote_def scan_string_quoted)

lemma startswith_Cons [simp]: "startswith (c # s) (d # p) \<longleftrightarrow> c = d \<and> startswith s p"
  by (auto simp: startswith_def)

lemma startswith_Nil [simp]: "startswith s []" "startswith [] (d # p) \<longleftrightarrow> False"
  by (auto simp: startswith_def)

lemma scan_value_int:
  assumes "ends_number r"
  shows "scan_value h (Suc n) (int_dec i @ r) = Inr (JInt i, r)"
proof -
  obtain c t where ct: "int_dec i = c # t"
    using int_dec_head by blast
  have dig: "\<not> is_digit (CHR ''I'')" "\<not> is_digit (CHR 0x22)" "\<not> is_digit (CHR ''{'')"
    "\<not> is_digit (CHR ''['')" "\<not> is_digit (CHR ''n'')" "\<not> is_digit (CHR ''t'')"
    "\<not> is_digit (CHR ''f'')" "\<not> is_digit (CHR ''N'')"
    by (simp_all add: is_digit_def code_of_def)
  consider "is_digit c" | d u where "c = CHR ''-''" "t = d # u" "is_digit d"
  proof (cases "i < 0")
    case True
    with ct have "c = CHR ''-''" "t = nat_dec (nat (- i))" by (simp_all add: int_dec_def)
    moreover obtain d u where du: "nat_dec (nat (- i)) = d # u"
      using nat_dec_nonempty [of "nat (- i)"] by (cases "nat_dec (nat (- i))") auto
    moreover from du nat_dec_digits [of "nat (- i)"] have "is_digit d" by simp
    ultimately show ?thesis by (intro that(2) [of d u]) simp_all
  next
    case False
    then show ?thesis
      using that(1) ct nat_dec_digits [of "nat i"] by (simp add: int_dec_def)
  qed
  then have "scan_value h (Suc n) (c # (t @ r)) = scan_number (c # (t @ r))"
  proof cases
    case 1
    with dig have "c \<noteq> CHR 0x22" "c \<noteq> CHR ''{''" "c \<noteq> CHR ''[''" "c \<noteq> CHR ''n''" "c \<noteq> CHR ''t''"
      "c \<noteq> CHR ''f''" "c \<noteq> CHR ''N''" "c \<noteq> CHR ''I''" "c \<noteq> CHR ''-''"
      by (auto dest: digit_not_minus)
    then show ?thesis by simp
  next
    case 2
    with dig have "d \<noteq> CHR ''I''" by auto
    with 2 show ?thesis by simp
  qed
  then show ?thesis using scan_number_int_dec [OF assms, of i] ct by simp
qed

text \<open>
  The layouts of the program: line breaks and blanks that are white space. \<open>reads_back\<close> is
  what the induction on the document proves of the printer in such a layout.
\<close>

definition layout :: "(char \<Rightarrow> string) \<Rightarrow> (nat \<Rightarrow> string) \<Rightarrow> string \<Rightarrow> bool" where
  "layout esc nl sp \<longleftrightarrow> reads_escape esc \<and> (\<forall>d. blank (nl d)) \<and> blank sp"

definition reads_back :: "reader \<Rightarrow> (char \<Rightarrow> string) \<Rightarrow> (nat \<Rightarrow> string) \<Rightarrow> string \<Rightarrow> json \<Rightarrow> bool" where
  "reads_back h esc nl sp v \<longleftrightarrow> (\<forall>d f r. ends_number r \<longrightarrow> 2 * length (render esc nl sp d v) + 1 \<le> f \<longrightarrow>
     scan_value h f (render esc nl sp d v @ r) = Inr (v, r))"

lemma reads_backD:
  "reads_back h esc nl sp v \<Longrightarrow> ends_number r \<Longrightarrow> 2 * length (render esc nl sp d v) + 1 \<le> f \<Longrightarrow>
     scan_value h f (render esc nl sp d v @ r) = Inr (v, r)"
  by (simp add: reads_back_def)

lemma scan_items_join:
  assumes "layout esc nl sp" and "xs \<noteq> []" "\<forall>x \<in> set xs. reads_back h esc nl sp x"
    and "2 * length (join ('','' @ nl d) (map (render esc nl sp d) xs)) + 2 \<le> f"
  shows "scan_items h f (join ('','' @ nl d) (map (render esc nl sp d) xs) @ nl e @ CHR '']'' # r) = Inr (xs, r)"
  using assms(2-)
proof (induction xs arbitrary: f)
  case (Cons x xs)
  obtain n where f: "f = Suc n" using Cons.prems(3) by (cases f) auto
  have bl: "blank (nl k)" for k using assms(1) by (simp add: layout_def)
  show ?case
  proof (cases "xs = []")
    case True
    have "scan_value h n (render esc nl sp d x @ nl e @ CHR '']'' # r) = Inr (x, nl e @ CHR '']'' # r)"
      using Cons.prems True f bl by (intro reads_backD) (auto intro!: ends_number_blank)
    with True f show ?thesis by (simp add: skip_ws_blank bl)
  next
    case False
    define tail where "tail = join ('','' @ nl d) (map (render esc nl sp d) xs) @ nl e @ CHR '']'' # r"
    have len: "length (join ('','' @ nl d) (map (render esc nl sp d) (x # xs)))
        = length (render esc nl sp d x) + 1 + length (nl d) + length (join ('','' @ nl d) (map (render esc nl sp d) xs))"
      using False by (simp add: join_Cons)
    have v: "scan_value h n (render esc nl sp d x @ CHR '','' # nl d @ tail) = Inr (x, CHR '','' # nl d @ tail)"
      using Cons.prems f len by (intro reads_backD) auto
    have ih: "scan_items h n tail = Inr (xs, r)"
      unfolding tail_def using Cons.IH [of n] Cons.prems False f len by auto
    obtain y ys where ys: "xs = y # ys" using False by (cases xs) auto
    have ws: "skip_ws tail = tail"
      unfolding tail_def by (cases ys) (simp_all add: ys skip_ws_render)
    have "scan_items h f (render esc nl sp d x @ CHR '','' # nl d @ tail) = Inr (x # xs, r)"
      by (simp add: f v ih ws skip_ws_blank bl)
    with False show ?thesis by (simp add: join_Cons tail_def)
  qed
qed simp

abbreviation pair_text :: "(char \<Rightarrow> string) \<Rightarrow> (nat \<Rightarrow> string) \<Rightarrow> string \<Rightarrow> nat \<Rightarrow> string \<times> json \<Rightarrow> string" where
  "pair_text esc nl sp d p \<equiv> quote esc (fst p) @ '':'' @ sp @ render esc nl sp d (snd p)"

lemma skip_ws_quote: "skip_ws (quote esc s @ r) = quote esc s @ r"
  by (simp add: quote_def)

lemma quote_open: "quote esc k @ r = CHR 0x22 # concat (map esc k) @ CHR 0x22 # r"
  by (simp add: quote_def)

lemma scan_pair:
  assumes "reads_escape esc" "blank sp" "scan_value h n (t @ e) = Inr (v, e)" "skip_ws (t @ e) = t @ e"
    and "skip_ws e = CHR '','' # u"
  shows "scan_pairs h (Suc n) (quote esc k @ CHR '':'' # sp @ t @ e) =
    bindE (scan_pairs h n (skip_ws u)) (\<lambda>q. Inr ((k, v) # fst q, snd q))"
  using assms by (simp add: quote_open scan_string_quoted skip_ws_blank)

lemma scan_pair_last:
  assumes "reads_escape esc" "blank sp" "scan_value h n (t @ e) = Inr (v, e)" "skip_ws (t @ e) = t @ e"
    and "skip_ws e = CHR ''}'' # u"
  shows "scan_pairs h (Suc n) (quote esc k @ CHR '':'' # sp @ t @ e) = Inr ([(k, v)], u)"
  using assms by (simp add: quote_open scan_string_quoted skip_ws_blank)

lemma scan_pairs_join:
  assumes "layout esc nl sp" and "ps \<noteq> []" "\<forall>p \<in> set ps. reads_back h esc nl sp (snd p)"
    and "2 * length (join ('','' @ nl d) (map (pair_text esc nl sp d) ps)) + 2 \<le> f"
  shows "scan_pairs h f (join ('','' @ nl d) (map (pair_text esc nl sp d) ps) @ nl e @ CHR ''}'' # r) = Inr (ps, r)"
  using assms(2-)
proof (induction ps arbitrary: f)
  case (Cons p ps)
  obtain k v where p: "p = (k, v)" by (cases p)
  obtain n where f: "f = Suc n" using Cons.prems(3) by (cases f) auto
  have bl: "reads_escape esc" "blank sp" "blank (nl j)" for j using assms(1) by (auto simp: layout_def)
  show ?case
  proof (cases "ps = []")
    case True
    have "scan_value h n (render esc nl sp d v @ nl e @ CHR ''}'' # r) = Inr (v, nl e @ CHR ''}'' # r)"
      using Cons.prems True f p bl
      by (intro reads_backD) (auto intro!: ends_number_blank simp: quote_def)
    from scan_pair_last [OF bl(1,2) this skip_ws_render, of r k] True f p show ?thesis
      by (simp add: skip_ws_blank bl)
  next
    case False
    define tail where "tail = join ('','' @ nl d) (map (pair_text esc nl sp d) ps) @ nl e @ CHR ''}'' # r"
    have len: "length (join ('','' @ nl d) (map (pair_text esc nl sp d) (p # ps)))
        = length (pair_text esc nl sp d p) + 1 + length (nl d) + length (join ('','' @ nl d) (map (pair_text esc nl sp d) ps))"
      using False by (simp add: join_Cons)
    have v: "scan_value h n (render esc nl sp d v @ CHR '','' # nl d @ tail) = Inr (v, CHR '','' # nl d @ tail)"
      using Cons.prems f len p by (intro reads_backD) (auto simp: quote_def)
    have ih: "scan_pairs h n tail = Inr (ps, r)"
      unfolding tail_def using Cons.IH [of n] Cons.prems False f len by auto
    obtain q e where e: "ps = q # e" using False by (cases ps) auto
    have ws: "skip_ws tail = tail"
      unfolding tail_def by (cases e) (simp_all add: e skip_ws_quote)
    from scan_pair [OF bl(1,2) v skip_ws_render, of "nl d @ tail" k]
    have "scan_pairs h f (quote esc k @ CHR '':'' # sp @ render esc nl sp d v @ CHR '','' # nl d @ tail)
        = Inr (p # ps, r)"
      by (simp add: f p skip_ws_blank bl ws ih)
    with False p show ?thesis by (simp add: join_Cons tail_def)
  qed
qed simp

lemma strict_pairs_distinct:
  "distinct (map fst (acc @ d)) \<Longrightarrow> strict_pairs d acc = Inr (acc @ d)"
proof (induction d arbitrary: acc)
  case (Cons p d)
  obtain k v where p: "p = (k, v)" by (cases p)
  with Cons.prems have "dput acc k v = acc @ [(k, v)]"
    unfolding dput_def by (induction acc) auto
  with Cons p show ?case by (simp add: dhas_def)
qed simp

lemma strict_pairs_Inr_distinct:
  "strict_pairs d acc = Inr d' \<Longrightarrow> distinct (map fst acc) \<Longrightarrow> distinct (map fst d')"
  by (induction d arbitrary: acc)
     (auto simp: dput_def distinct_update split: if_splits)

lemma reads_back_list:
  assumes lay: "layout esc nl sp" and xs: "\<forall>x \<in> set xs. reads_back h esc nl sp x"
  shows "reads_back h esc nl sp (JList xs)"
  unfolding reads_back_def
proof (intro allI impI)
  fix d f r assume r: "ends_number r" and f: "2 * length (render esc nl sp d (JList xs)) + 1 \<le> f"
  have bl: "blank (nl k)" for k using lay by (simp add: layout_def)
  from f obtain n where n: "f = Suc n" by (cases f) auto
  show "scan_value h f (render esc nl sp d (JList xs) @ r) = Inr (JList xs, r)"
  proof (cases xs)
    case Nil
    with n show ?thesis by simp
  next
    case (Cons y ys)
    let ?text = "join ('','' @ nl (Suc d)) (map (render esc nl sp (Suc d)) xs) @ nl d @ CHR '']'' # r"
    have items: "scan_items h n ?text = Inr (xs, r)"
      using lay xs f n Cons by (intro scan_items_join) auto
    obtain c t where c: "render esc nl sp (Suc d) y = c # t" "value_head c" using render_head by blast
    have ws: "skip_ws ?text = ?text"
      using Cons by (cases ys) (simp_all add: skip_ws_render)
    moreover obtain u where u: "?text = c # u"
      using Cons c by (cases ys) auto
    ultimately have "scan_value h (Suc n) (CHR ''['' # nl (Suc d) @ ?text) = Inr (JList xs, r)"
      using items value_head_not [OF c(2)] by (simp add: skip_ws_blank bl)
    with Cons n show ?thesis by simp
  qed
qed

lemma reads_back_const:
  "reads_back h esc nl sp JNull" "reads_back h esc nl sp (JBool b)" "reads_back h esc nl sp (JInt i)"
  "layout esc nl sp \<Longrightarrow> reads_back h esc nl sp (JStr s)"
proof -
  show "reads_back h esc nl sp JNull"
    unfolding reads_back_def
  proof (intro allI impI)
    fix d f r assume "2 * length (render esc nl sp d JNull) + 1 \<le> f"
    then show "scan_value h f (render esc nl sp d JNull @ r) = Inr (JNull, r)" by (cases f) simp_all
  qed
  show "reads_back h esc nl sp (JBool b)"
    unfolding reads_back_def
  proof (intro allI impI)
    fix d f r assume "2 * length (render esc nl sp d (JBool b)) + 1 \<le> f"
    then show "scan_value h f (render esc nl sp d (JBool b) @ r) = Inr (JBool b, r)"
      by (cases f; cases b) simp_all
  qed
  show "reads_back h esc nl sp (JInt i)"
    unfolding reads_back_def
  proof (intro allI impI)
    fix d f r assume "ends_number r" "2 * length (render esc nl sp d (JInt i)) + 1 \<le> f"
    then show "scan_value h f (render esc nl sp d (JInt i) @ r) = Inr (JInt i, r)"
      using scan_value_int by (cases f) simp_all
  qed
  assume "layout esc nl sp"
  then have esc: "reads_escape esc" by (simp add: layout_def)
  show "reads_back h esc nl sp (JStr s)"
    unfolding reads_back_def
  proof (intro allI impI)
    fix d f r assume "2 * length (render esc nl sp d (JStr s)) + 1 \<le> f"
    then show "scan_value h f (render esc nl sp d (JStr s) @ r) = Inr (JStr s, r)"
      using scan_value_string [OF esc] by (cases f) simp_all
  qed
qed

text \<open>
  What the round trips need of the hooks: pairs with distinct keys are taken as they are, and what
  the hook returns has distinct keys.
\<close>

locale json_reader =
  fixes h :: reader
  assumes distinct_pairs: "distinct (map fst d) \<Longrightarrow> object_pairs_hook h d = Inr d"
    and pairs_wf: "object_pairs_hook h d = Inr d' \<Longrightarrow> list_all (\<lambda>p. wf_json (snd p)) d \<Longrightarrow> wf_json (JObj d')"

context json_reader
begin

lemma reads_back_obj:
  assumes lay: "layout esc nl sp" and ps: "\<forall>p \<in> set ps. reads_back h esc nl sp (snd p)"
    and keys: "distinct (map fst ps)"
  shows "reads_back h esc nl sp (JObj ps)"
  unfolding reads_back_def
proof (intro allI impI)
  fix d f r assume r: "ends_number r" and f: "2 * length (render esc nl sp d (JObj ps)) + 1 \<le> f"
  have bl: "blank (nl k)" for k using lay by (simp add: layout_def)
  from f obtain n where n: "f = Suc n" by (cases f) auto
  show "scan_value h f (render esc nl sp d (JObj ps) @ r) = Inr (JObj ps, r)"
  proof (cases ps)
    case Nil
    with n show ?thesis by simp
  next
    case (Cons y ys)
    let ?text = "join ('','' @ nl (Suc d)) (map (pair_text esc nl sp (Suc d)) ps) @ nl d @ CHR ''}'' # r"
    have pairs: "scan_pairs h n ?text = Inr (ps, r)"
      using lay ps f n Cons by (intro scan_pairs_join) auto
    have dup: "object_pairs_hook h ps = Inr ps" using keys by (rule distinct_pairs)
    have ws: "skip_ws ?text = ?text"
      using Cons by (cases ys) (simp_all add: skip_ws_quote)
    moreover obtain u where u: "?text = CHR 0x22 # u"
      using Cons by (cases ys) (auto simp: quote_def)
    ultimately have "scan_value h (Suc n) (CHR ''{'' # nl (Suc d) @ ?text) = Inr (JObj ps, r)"
      using pairs dup by (simp add: skip_ws_blank bl)
    with Cons n show ?thesis by simp
  qed
qed

lemma render_reads_back: "layout esc nl sp \<Longrightarrow> wf_json v \<Longrightarrow> reads_back h esc nl sp v"
  by (induction v rule: wf_json.induct)
     (auto simp: list_all_iff intro!: reads_back_const reads_back_list reads_back_obj)

lemma loads_render:
  assumes "layout esc nl sp" "wf_json v" "blank b"
  shows "loads_with h (render esc nl sp d v @ b) = Inr v"
proof -
  have "ends_number b" using ends_number_blank [OF assms(3), of "[]"] by simp
  then have "scan_value h (2 * length (render esc nl sp d v @ b) + 1) (render esc nl sp d v @ b) = Inr (v, b)"
    by (rule reads_backD [OF render_reads_back [OF assms(1,2)]]) simp
  with assms(3) show ?thesis
    unfolding loads_with_def skip_ws_render by (simp add: skip_ws_blank_all del: scan_value.simps)
qed

end

lemma strict_pairs_wf:
  "strict_pairs d acc = Inr d' \<Longrightarrow> wf_json (JObj acc) \<Longrightarrow> list_all (\<lambda>p. wf_json (snd p)) d \<Longrightarrow>
     wf_json (JObj d')"
proof (induction d arbitrary: acc)
  case (Cons p d)
  obtain k v where p: "p = (k, v)" by (cases p)
  with Cons.prems have "strict_pairs d (dput acc k v) = Inr d'"
    by (simp split: if_splits)
  moreover have "wf_json (JObj (dput acc k v))"
    using Cons.prems p by (intro wf_obj_dput) simp_all
  ultimately show ?case using Cons.IH Cons.prems(3) by simp
qed simp

lemma dmerge_distinct: "distinct (map fst (acc @ d)) \<Longrightarrow> dmerge acc d = acc @ d"
proof (induction d arbitrary: acc)
  case (Cons p d)
  obtain k v where p: "p = (k, v)" by (cases p)
  with Cons.prems have "dput acc k v = acc @ [(k, v)]"
    unfolding dput_def by (induction acc) auto
  with Cons p show ?case by simp
qed simp

lemma dmerge_wf:
  "wf_json (JObj acc) \<Longrightarrow> list_all (\<lambda>p. wf_json (snd p)) d \<Longrightarrow> wf_json (JObj (dmerge acc d))"
proof (induction d arbitrary: acc)
  case (Cons p d)
  obtain k v where "p = (k, v)" by (cases p)
  with Cons wf_obj_dput [of acc v k] show ?case by simp
qed simp

interpretation strict: json_reader strict_reader
proof
  fix d d' :: dict
  show "distinct (map fst d) \<Longrightarrow> object_pairs_hook strict_reader d = Inr d"
    by (simp add: strict_reader_def strict_pairs_distinct [where acc = "[]", simplified])
  show "object_pairs_hook strict_reader d = Inr d' \<Longrightarrow> list_all (\<lambda>p. wf_json (snd p)) d \<Longrightarrow> wf_json (JObj d')"
    by (rule strict_pairs_wf [where acc = "[]"]) (simp_all add: strict_reader_def)
qed

interpretation plain: json_reader plain_reader
proof
  fix d d' :: dict
  show "distinct (map fst d) \<Longrightarrow> object_pairs_hook plain_reader d = Inr d"
    by (simp add: plain_reader_def dmerge_distinct [where acc = "[]", simplified])
  show "object_pairs_hook plain_reader d = Inr d' \<Longrightarrow> list_all (\<lambda>p. wf_json (snd p)) d \<Longrightarrow> wf_json (JObj d')"
    using dmerge_wf [where acc = "[]" and d = d] by (simp add: plain_reader_def)
qed

lemma layouts:
  "layout escape_char (\<lambda>_. []) []" "layout escape_raw (\<lambda>_. []) []" "layout escape_char line_break '' ''"
  by (simp_all add: layout_def blank_def line_break_def subset_eq reads_escape_char reads_escape_raw)

lemma strict_json_loads_dumps: "wf_json v \<Longrightarrow> strict_json_loads (dumps v) = Inr v"
  using strict.loads_render [OF layouts(1), of v "[]" 0]
  by (simp add: dumps_def strict_json_loads_def blank_def)

lemma strict_json_loads_receiver: "wf_json v \<Longrightarrow> strict_json_loads (receiver_json_bytes v) = Inr v"
  using strict.loads_render [OF layouts(1), of v "[CHR 0x0A]" 0]
  by (simp add: dumps_def receiver_json_bytes_def strict_json_loads_def blank_def)

lemma strict_json_loads_dumps_indent:
  "wf_json v \<Longrightarrow> strict_json_loads (dumps_indent v) = Inr (jsort v)"
  using strict.loads_render [OF layouts(3), of "jsort v" "[CHR 0x0A]" 0]
  by (simp add: dumps_indent_def strict_json_loads_def blank_def wf_json_jsort)

text \<open>The canonical bytes determine the document up to the order of its keys.\<close>

lemma canonical_json_bytes_inject:
  assumes "wf_json v" "wf_json w"
  shows "canonical_json_bytes v = canonical_json_bytes w \<longleftrightarrow> jsort v = jsort w"
proof
  assume "canonical_json_bytes v = canonical_json_bytes w"
  then have "strict_json_loads (dumps (jsort v)) = strict_json_loads (dumps (jsort w))"
    by (simp add: canonical_json_bytes_def)
  with assms show "jsort v = jsort w"
    by (simp add: strict_json_loads_dumps wf_json_jsort)
qed (simp add: canonical_json_bytes_def)

section \<open>What the printer writes is ASCII\<close>

definition ascii :: "string \<Rightarrow> bool" where
  "ascii s \<longleftrightarrow> (\<forall>c \<in> set s. code_of c < 128)"

lemma ascii_simps [simp]:
  "ascii []" "ascii (c # s) \<longleftrightarrow> code_of c < 128 \<and> ascii s" "ascii (s @ t) \<longleftrightarrow> ascii s \<and> ascii t"
  by (auto simp: ascii_def)

lemma ascii_hex_digit: "n < 16 \<Longrightarrow> code_of (hex_digit n) < 128"
  by (simp add: hex_digit_def code_of_char_of)

lemma ascii_escape_char: "ascii (escape_char c)"
proof -
  have "code_of c div 16 < 16" "code_of c mod 16 < 16"
    using code_of_lt [of c] by auto
  from this [THEN ascii_hex_digit] show ?thesis
    unfolding escape_char_def Let_def by (auto simp: code_of_def)
qed

lemma ascii_quote: "ascii (quote escape_char s)"
proof -
  have "ascii (concat (map escape_char s))"
    by (induction s) (simp_all add: ascii_escape_char)
  then show ?thesis by (simp add: quote_def code_of_def)
qed

lemma ascii_int_dec: "ascii (int_dec i)"
proof -
  have "ascii (nat_dec n)" for n
    using nat_dec_digits [of n] by (auto simp: ascii_def is_digit_def)
  moreover have "code_of CHR ''-'' < 128" by (simp add: code_of_def)
  ultimately show ?thesis by (simp add: int_dec_def)
qed

lemma ascii_join: "ascii sep \<Longrightarrow> \<forall>w \<in> set ws. ascii w \<Longrightarrow> ascii (join sep ws)"
  by (induction sep ws rule: join.induct) auto

lemma ascii_render:
  assumes "\<And>d. ascii (nl d)" "ascii sp"
  shows "ascii (render escape_char nl sp d v)"
  using assms
proof (induction escape_char nl sp d v rule: render.induct)
  case (5 nl sp d xs)
  then have "xs \<noteq> [] \<Longrightarrow> ascii (join ('','' @ nl (Suc d)) (map (render escape_char nl sp (Suc d)) xs))"
    by (intro ascii_join) (auto simp: code_of_def)
  with 5 show ?case by (simp add: code_of_def)
next
  case (6 nl sp d ps)
  then have "ps \<noteq> [] \<Longrightarrow> ascii (join ('','' @ nl (Suc d)) (map (\<lambda>p. quote escape_char (fst p) @ '':'' @ sp @ render escape_char nl sp (Suc d) (snd p)) ps))"
    by (intro ascii_join) (auto simp: code_of_def ascii_quote)
  with 6 show ?case by (simp add: code_of_def)
qed (simp_all add: ascii_int_dec ascii_quote, simp_all add: code_of_def)

lemma ascii_dumps_indent: "ascii (dumps_indent v)"
  unfolding dumps_indent_def
  using ascii_render [of line_break "'' ''" 0 "jsort v"]
  by (auto simp: ascii_def line_break_def code_of_def)

lemma ascii_receiver: "ascii (receiver_json_bytes v)"
  unfolding receiver_json_bytes_def dumps_def
  using ascii_render [of "\<lambda>_. []" "[]" 0 v] by (simp add: code_of_def)

section \<open>What the reader returns is well formed\<close>

lemma bad_json_not_Inr [simp]: "bad_json \<noteq> Inr x"
  by (simp add: bad_json_def)

lemma scan_number_wf: "scan_number s = Inr (v, r) \<Longrightarrow> wf_json v"
  by (auto simp: scan_number_def Let_def split: if_splits)

definition reads_wf :: "reader \<Rightarrow> nat \<Rightarrow> bool" where
  "reads_wf h n \<longleftrightarrow>
     (\<forall>s v r. scan_value h n s = Inr (v, r) \<longrightarrow> wf_json v) \<and>
     (\<forall>s xs r. scan_items h n s = Inr (xs, r) \<longrightarrow> list_all wf_json xs) \<and>
     (\<forall>s ps r. scan_pairs h n s = Inr (ps, r) \<longrightarrow> list_all (\<lambda>p. wf_json (snd p)) ps)"

lemma reads_wfD:
  "reads_wf h n \<Longrightarrow> scan_value h n s = Inr (v, r) \<Longrightarrow> wf_json v"
  "reads_wf h n \<Longrightarrow> scan_items h n s = Inr (xs, r) \<Longrightarrow> list_all wf_json xs"
  "reads_wf h n \<Longrightarrow> scan_pairs h n s = Inr (ps, r) \<Longrightarrow> list_all (\<lambda>p. wf_json (snd p)) ps"
  unfolding reads_wf_def by blast+

context json_reader
begin

lemma scan_object_wf:
  assumes "reads_wf h n"
    and "bindE (scan_pairs h n s) (\<lambda>p. bindE (object_pairs_hook h (fst p)) (\<lambda>d. Inr (JObj d, snd p))) = Inr (v, r)"
  shows "wf_json v"
proof -
  obtain ps r' d where "scan_pairs h n s = Inr (ps, r')" "object_pairs_hook h ps = Inr d" "v = JObj d"
    using assms(2) by (auto simp: bindE_eq_Inr)
  with pairs_wf [of ps d] reads_wfD(3) [OF assms(1)] show ?thesis by simp
qed

lemma scan_array_wf:
  assumes "reads_wf h n"
    and "bindE (scan_items h n s) (\<lambda>p. Inr (JList (fst p), snd p)) = Inr (v, r)"
  shows "wf_json v"
  using assms(2) reads_wfD(2) [OF assms(1)] by (auto simp: bindE_eq_Inr)

lemma scan_value_wf:
  assumes "reads_wf h n" "scan_value h (Suc n) s = Inr (v, r)"
  shows "wf_json v"
proof (cases s)
  case (Cons c t)
  note run = assms(2) [unfolded scan_value.simps Cons list.case]
  note wf = scan_object_wf [OF assms(1)] scan_array_wf [OF assms(1)] scan_number_wf
  consider "c = CHR 0x22" | "c = CHR ''{''" | "c = CHR ''[''"
    | "c \<noteq> CHR 0x22" "c \<noteq> CHR ''{''" "c \<noteq> CHR ''[''" by blast
  then show ?thesis
  proof cases
    case 1
    with run show ?thesis by (auto simp: bindE_eq_Inr)
  next
    case 2
    with run show ?thesis by (auto split: list.splits if_splits intro: wf(1))
  next
    case 3
    with run show ?thesis by (auto split: list.splits if_splits intro: wf(2))
  next
    case 4
    with run show ?thesis by (auto split: if_splits intro: wf(3))
  qed
qed (use assms(2) in simp)

lemma if_bad: "(if c then bad_json else m) = Inr x \<longleftrightarrow> \<not> c \<and> m = Inr x"
  by simp

lemma case_bad:
  "(case t of [] \<Rightarrow> bad_json | e # u \<Rightarrow> f e u) = Inr x \<longleftrightarrow> (\<exists>e u. t = e # u \<and> f e u = Inr x)"
  by (cases t) auto

text \<open>The list and the object loop have the same shape: close, or a comma and the rest.\<close>

lemma scan_tail:
  assumes "(if e = close then Inr ([x], u)
       else if e = CHR '','' then bindE (m (skip_ws u)) (\<lambda>q. Inr (x # fst q, snd q))
       else bad_json) = Inr (xs, r)"
  shows "xs = [x] \<or> (\<exists>u ys. m u = Inr (ys, r) \<and> xs = x # ys)"
  using assms by (auto simp: bindE_eq_Inr split: if_splits)

lemma scan_items_wf:
  assumes "reads_wf h n" "scan_items h (Suc n) s = Inr (xs, r)"
  shows "list_all wf_json xs"
proof -
  have "\<exists>p e u. scan_value h n s = Inr p \<and>
      (if e = CHR '']'' then Inr ([fst p], u)
       else if e = CHR '','' then bindE (scan_items h n (skip_ws u)) (\<lambda>q. Inr (fst p # fst q, snd q))
       else bad_json) = Inr (xs, r)"
    using assms(2) unfolding scan_items.simps bindE_eq_Inr [of "scan_value h n s"] case_bad by blast
  then obtain p e u where p: "scan_value h n s = Inr p"
    and tail: "(if e = CHR '']'' then Inr ([fst p], u)
       else if e = CHR '','' then bindE (scan_items h n (skip_ws u)) (\<lambda>q. Inr (fst p # fst q, snd q))
       else bad_json) = Inr (xs, r)" by blast
  have "wf_json (fst p)"
    using reads_wfD(1) [OF assms(1), of s "fst p" "snd p"] p by simp
  with scan_tail [where m = "scan_items h n", OF tail] show ?thesis
    by (auto dest: reads_wfD(2) [OF assms(1)])
qed

lemma scan_pairs_wf:
  assumes "reads_wf h n" "scan_pairs h (Suc n) s = Inr (ps, r)"
  shows "list_all (\<lambda>p. wf_json (snd p)) ps"
proof -
  have bind: "bindE (scan_value h n t) f = Inr y \<longleftrightarrow> (\<exists>x. scan_value h n t = Inr x \<and> f x = Inr y)"
    "bindE (scan_string t) g = Inr z \<longleftrightarrow> (\<exists>x. scan_string t = Inr x \<and> g x = Inr z)" for t f y g z
    by (rule bindE_eq_Inr)+
  have "\<exists>(k :: string \<times> string) t p e u. scan_value h n t = Inr p \<and>
      (if e = CHR ''}'' then Inr ([(fst k, fst p)], u)
       else if e = CHR '','' then bindE (scan_pairs h n (skip_ws u)) (\<lambda>q. Inr ((fst k, fst p) # fst q, snd q))
       else bad_json) = Inr (ps, r)"
    using assms(2) unfolding scan_pairs.simps bind case_bad if_bad by blast
  then obtain k :: "string \<times> string" and t p e u where p: "scan_value h n t = Inr p"
    and tail: "(if e = CHR ''}'' then Inr ([(fst k, fst p)], u)
       else if e = CHR '','' then bindE (scan_pairs h n (skip_ws u)) (\<lambda>q. Inr ((fst k, fst p) # fst q, snd q))
       else bad_json) = Inr (ps, r)" by blast
  have "wf_json (fst p)"
    using reads_wfD(1) [OF assms(1), of t "fst p" "snd p"] p by simp
  with scan_tail [where m = "scan_pairs h n", OF tail] show ?thesis
    by (auto dest: reads_wfD(3) [OF assms(1)])
qed

lemma reads_wf: "reads_wf h n"
proof (induction n)
  case 0
  show ?case by (simp add: reads_wf_def)
next
  case (Suc n)
  then show ?case
    unfolding reads_wf_def [of h "Suc n"]
    using scan_value_wf scan_items_wf scan_pairs_wf by blast
qed

lemma loads_wf: "loads_with h s = Inr v \<Longrightarrow> wf_json v"
  using reads_wfD(1) [OF reads_wf] unfolding loads_with_def
  by (auto simp: bindE_eq_Inr simp del: scan_value.simps split: if_splits)

end

lemma strict_json_loads_wf: "strict_json_loads s = Inr v \<Longrightarrow> wf_json v"
  unfolding strict_json_loads_def by (rule strict.loads_wf)

lemma json_loads_wf: "json_loads s = Inr v \<Longrightarrow> wf_json v"
  using plain.loads_wf by (auto simp: json_loads_def split: sum.splits)

lemma json_loads_render:
  "layout esc nl sp \<Longrightarrow> wf_json v \<Longrightarrow> blank b \<Longrightarrow> json_loads (render esc nl sp d v @ b) = Inr v"
  by (simp add: json_loads_def plain.loads_render)

lemma json_loads_dumps: "wf_json v \<Longrightarrow> json_loads (dumps v) = Inr v"
  using json_loads_render [OF layouts(1), of v "[]" 0] by (simp add: dumps_def blank_def)

section \<open>Properties\<close>

text \<open>C16: the strict reader inverts every writer of the program on documents with distinct keys:
  the compact form and the receiver line give the document back, the indented durable form gives it
  back with its keys in canonical order.\<close>

theorem strict_json_roundtrip:
  assumes "wf_json v"
  shows "strict_json_loads (dumps v) = Inr v
    \<and> strict_json_loads (receiver_json_bytes v) = Inr v
    \<and> strict_json_loads (dumps_indent v) = Inr (jsort v)"
  using assms by (simp add: strict_json_loads_dumps strict_json_loads_receiver
      strict_json_loads_dumps_indent)

theorem strict_json_roundtrip_witness:
  "strict_json_loads (dumps (JObj [(''k'', JList [JInt (- 7), JStr ''v'']), (''a'', JNull)]))
    = Inr (JObj [(''k'', JList [JInt (- 7), JStr ''v'']), (''a'', JNull)])"
  using strict_json_roundtrip [of "JObj [(''k'', JList [JInt (- 7), JStr ''v'']), (''a'', JNull)]"]
  by simp

text \<open>the strict reader never returns an object in which a key occurs twice, at any depth.\<close>

theorem strict_json_loads_rejects_duplicates:
  "case strict_json_loads s of Inr v \<Rightarrow> wf_json v | Inl e \<Rightarrow> True"
  by (auto split: sum.splits dest: strict_json_loads_wf)

text \<open>The canonical encoding determines a document exactly up to the order of its keys.\<close>

theorem canonical_json_bytes_injective:
  assumes "wf_json v" "wf_json w"
  shows "canonical_json_bytes v = canonical_json_bytes w \<longleftrightarrow> jsort v = jsort w"
  using assms by (rule canonical_json_bytes_inject)

theorem canonical_json_bytes_injective_witness:
  "canonical_json_bytes (JObj [(''b'', JInt 1), (''a'', JNull)])
     = canonical_json_bytes (JObj [(''a'', JNull), (''b'', JInt 1)])
   \<and> canonical_json_bytes (JInt 1) \<noteq> canonical_json_bytes (JStr ''1'')"
  using canonical_json_bytes_injective [of "JObj [(''b'', JInt 1), (''a'', JNull)]"
      "JObj [(''a'', JNull), (''b'', JInt 1)]"]
    canonical_json_bytes_injective [of "JInt 1" "JStr ''1''"]
  by simp

end
