(* ===== verification/ActiveState.thy ===== *)
theory ActiveState
  imports Deployment JsonRoundtrip
begin

text \<open>
  What the pure part of \<open>deployment.py\<close> guarantees. \<open>valid_record\<close> and \<open>valid_state\<close> say
  declaratively what the two validators accept; the selection and the rollback are then
  described by the pair of selected records, and the states that the program can reach from
  the empty one are an inductive set with its invariant.
\<close>

section \<open>What the record validator accepts\<close>

definition nonempty_str :: "json \<Rightarrow> bool" where
  "nonempty_str v \<longleftrightarrow> (\<exists>s. v = JStr s \<and> s \<noteq> [])"

definition safe_id_json :: "json \<Rightarrow> bool" where
  "safe_id_json v \<longleftrightarrow> (\<exists>s. v = JStr s \<and> safe_id s)"

definition sha256_field :: "json \<Rightarrow> bool" where
  "sha256_field v \<longleftrightarrow> (\<exists>s. v = JStr s \<and> is_sha256 s)"

definition identity_of :: "dict \<Rightarrow> dict" where
  "identity_of rec = map (\<lambda>f. (f, dget rec f)) identity_fields"

definition valid_record :: "(string \<Rightarrow> string) \<Rightarrow> dict \<Rightarrow> bool" where
  "valid_record sha rec \<longleftrightarrow>
     same_fields rec record_fields \<and>
     dget rec ''deployment_schema_version'' = JInt 2 \<and>
     dget rec ''deployment_contract_version'' = JStr ''homeops-deployment-v2'' \<and>
     (\<forall>f \<in> {''deployment_id'', ''snapshot_id'', ''run_id''}. safe_id_json (dget rec f)) \<and>
     (\<forall>f \<in> set fingerprint_fields. sha256_field (dget rec f)) \<and>
     (\<forall>f \<in> set text_fields. nonempty_str (dget rec f)) \<and>
     (dget rec ''promoted_at'' = JNull \<or> nonempty_str (dget rec ''promoted_at'')) \<and>
     (\<forall>f \<in> {''snapshot_schema_version'', ''build_schema_version''}.
        \<exists>n \<ge> 1. dget rec f = JInt n) \<and>
     dget rec ''result'' = JStr ''verified'' \<and>
     dget rec ''deployment_id'' = JStr (sha256_json sha (JObj (identity_of rec)))"

lemma safe_id_nonempty: "safe_id s \<Longrightarrow> s \<noteq> []"
  by (auto simp: safe_id_def)

lemma is_sha256_nonempty: "is_sha256 s \<Longrightarrow> s \<noteq> []"
  by (auto simp: is_sha256_def)

lemma validate_safe_id_Inr [result_simps]:
  "validate_safe_id v f = Inr s \<longleftrightarrow> v = JStr s \<and> safe_id s"
  by (cases v) (auto simp: validate_safe_id_def)

lemma require_string_Inr [result_simps]:
  "require_string rec f nullable = Inr v \<longleftrightarrow>
     v = dget rec f \<and> (nonempty_str v \<or> (nullable \<and> v = JNull))"
  by (cases "dget rec f") (auto simp: require_string_def nonempty_str_def Let_def)

lemma positive_int_iff: "positive_int v \<longleftrightarrow> (\<exists>n \<ge> 1. v = JInt n)"
  by (cases v) (auto simp: positive_int_def)

lemma pick_fields_Inr:
  assumes "set fs \<subseteq> set (dkeys d)"
  shows "pick_fields d fs = Inr (map (\<lambda>f. (f, dget d f)) fs)"
  using assms unfolding pick_fields_def
  by (induction fs) (auto simp: didx_present)

lemma identity_subset: "set identity_fields \<subseteq> set record_fields"
  by (simp add: identity_fields_def record_fields_def)

lemma deployment_identity_Inr:
  "same_fields rec record_fields \<Longrightarrow> deployment_identity rec = Inr (identity_of rec)"
  using identity_subset unfolding deployment_identity_def identity_of_def same_fields_def
  by (intro pick_fields_Inr) simp

lemma pyeq_int_2: "pyeq v (JInt 2) \<longleftrightarrow> v = JInt 2"
  by (auto simp: pyeq_JInt)

lemma eachE_check:
  "eachE (\<lambda>f. bindE (check f) (\<lambda>_. Inr ())) fs = Inr u \<longleftrightarrow> (\<forall>f \<in> set fs. \<exists>x. check f = Inr x)"
  by (auto simp: bindE_eq_Inr)

lemma sha256_field_alt: "sha256_field v \<longleftrightarrow> nonempty_str v \<and> is_sha256 (str_of v)"
  by (cases v) (auto simp: sha256_field_def nonempty_str_def dest: is_sha256_nonempty)

lemma validate_deployment_record_obj:
  "validate_deployment_record sha (JObj rec) = Inr r \<longleftrightarrow> r = rec \<and> valid_record sha rec"
  unfolding validate_deployment_record_def json.case valid_record_def
  by (auto simp: bindE_eq_Inr eachE_check validate_safe_id_Inr require_string_Inr sha256_field_alt
      positive_int_iff pyeq_int_2 DEPLOYMENT_SCHEMA_VERSION_def DEPLOYMENT_CONTRACT_VERSION_def
      deployment_identity_Inr safe_id_json_def simp del: eachE.simps)

lemma validate_deployment_record_Inr [result_simps]:
  "validate_deployment_record sha v = Inr r \<longleftrightarrow> v = JObj r \<and> valid_record sha r"
proof (cases v)
  case (JObj d)
  then show ?thesis by (auto simp: validate_deployment_record_obj)
qed (simp_all add: validate_deployment_record_def)

section \<open>What the state validator accepts\<close>

definition valid_slot :: "(string \<Rightarrow> string) \<Rightarrow> json \<Rightarrow> json \<Rightarrow> bool" where
  "valid_slot sha rec run \<longleftrightarrow>
     (case rec of JNull \<Rightarrow> run = JNull
      | JObj d \<Rightarrow> valid_record sha d \<and> run = dget d ''run_id''
      | _ \<Rightarrow> False)"

definition valid_state :: "(string \<Rightarrow> string) \<Rightarrow> dict \<Rightarrow> bool" where
  "valid_state sha st \<longleftrightarrow>
     same_fields st state_fields \<and>
     dget st ''schema_version'' = JInt 2 \<and>
     valid_slot sha (dget st ''current_deployment'') (dget st ''current'') \<and>
     valid_slot sha (dget st ''previous_deployment'') (dget st ''previous'') \<and>
     (dget st ''current_deployment'' = JNull \<longrightarrow> dget st ''previous_deployment'' = JNull) \<and>
     (dget st ''promoted_at'' = JNull \<or> is_str (dget st ''promoted_at''))"

lemma valid_record_ids:
  assumes "valid_record sha d"
  shows "\<exists>s. dget d ''run_id'' = JStr s \<and> safe_id s"
    and "\<exists>s. dget d ''snapshot_id'' = JStr s \<and> safe_id s"
    and "\<exists>s. dget d ''deployment_id'' = JStr s \<and> safe_id s"
  using assms unfolding valid_record_def safe_id_json_def by blast+

lemma valid_record_nonempty: "valid_record sha d \<Longrightarrow> d \<noteq> []"
  using valid_record_ids(1) [of sha d] by auto

lemma check_slot_Inr:
  "check_slot sha rec run m = Inr v \<longleftrightarrow> v = rec \<and> rec \<noteq> JNull \<and> valid_slot sha rec run"
proof -
  have "check_slot sha rec run m = Inr v \<longleftrightarrow>
      (\<exists>d. rec = JObj d \<and> valid_record sha d \<and> pyeq run (dget d ''run_id'') \<and> v = rec)"
    by (auto simp: check_slot_def bindE_eq_Inr validate_deployment_record_Inr)
  also have "\<dots> \<longleftrightarrow> v = rec \<and> rec \<noteq> JNull \<and> valid_slot sha rec run"
    by (cases rec) (use valid_record_ids(1) in \<open>fastforce simp: valid_slot_def\<close>)+
  finally show ?thesis .
qed

lemma state_fields_slots:
  "''current_deployment'' \<in> set state_fields" "''previous_deployment'' \<in> set state_fields"
  by (simp_all add: state_fields_def)

lemma validate_state_obj:
  assumes "\<not> (pyeq (dget st ''schema_version'') (JInt 1) \<and> legacy)"
  shows "validate_state sha (JObj st) legacy = Inr r \<longleftrightarrow> r = st \<and> valid_state sha st"
proof -
  have slot: "(if rec = JNull then bindE (raiseIf c e) (\<lambda>_. Inr JNull) else check_slot sha rec run m) = Inr v
      \<longleftrightarrow> v = rec \<and> (rec = JNull \<longrightarrow> \<not> c) \<and> (rec \<noteq> JNull \<longrightarrow> valid_slot sha rec run)" for rec run m v c e
    by (auto simp: bindE_eq_Inr check_slot_Inr)
  have null: "valid_slot sha JNull run \<longleftrightarrow> run = JNull" for run by (simp add: valid_slot_def)
  have same: "dput (dput st ''current_deployment'' (dget st ''current_deployment''))
      ''previous_deployment'' (dget st ''previous_deployment'') = st" if "same_fields st state_fields"
    using that state_fields_slots by (simp add: dput_dget_same same_fields_in)
  have no: "(pyeq (dget st ''schema_version'') (JInt 1) \<and> legacy) = False"
    using assms by simp
  have "validate_state sha (JObj st) legacy = Inr r \<longleftrightarrow>
      dget st ''schema_version'' = JInt 2 \<and> same_fields st state_fields
      \<and> (dget st ''current_deployment'' = JNull \<longrightarrow>
           \<not> (dget st ''current'' \<noteq> JNull \<or> dget st ''previous_deployment'' \<noteq> JNull \<or> dget st ''previous'' \<noteq> JNull))
      \<and> (dget st ''current_deployment'' \<noteq> JNull \<longrightarrow>
           valid_slot sha (dget st ''current_deployment'') (dget st ''current''))
      \<and> (dget st ''previous_deployment'' = JNull \<longrightarrow> \<not> dget st ''previous'' \<noteq> JNull)
      \<and> (dget st ''previous_deployment'' \<noteq> JNull \<longrightarrow>
           valid_slot sha (dget st ''previous_deployment'') (dget st ''previous''))
      \<and> \<not> (dget st ''promoted_at'' \<noteq> JNull \<and> \<not> is_str (dget st ''promoted_at''))
      \<and> r = dput (dput st ''current_deployment'' (dget st ''current_deployment''))
          ''previous_deployment'' (dget st ''previous_deployment'')"
    unfolding validate_state_def json.case Let_def no if_False DEPLOYMENT_SCHEMA_VERSION_def
      bindE_raiseIf
    unfolding bindE_eq_Inr slot bindE_raiseIf pyeq_int_2 by auto
  also have "\<dots> \<longleftrightarrow> r = st \<and> valid_state sha st"
    unfolding valid_state_def using same null by metis
  finally show ?thesis .
qed

lemma validate_state_Inr [result_simps]:
  "validate_state sha v False = Inr r \<longleftrightarrow> v = JObj r \<and> valid_state sha r"
proof (cases v)
  case (JObj st)
  then show ?thesis using validate_state_obj [of st False sha r] by auto
qed (simp_all add: validate_state_def)

lemma validate_state_valid: "valid_state sha st \<Longrightarrow> validate_state sha (JObj st) False = Inr st"
  by (simp add: validate_state_Inr)

lemma valid_empty_state: "valid_state sha empty_state"
  by (simp add: valid_state_def empty_state_def same_fields_def state_fields_def valid_slot_def
      DEPLOYMENT_SCHEMA_VERSION_def)

section \<open>The selection as a compare-and-swap register\<close>

text \<open>The abstract state: the records in the two slots.\<close>

type_synonym selection = "dict option \<times> dict option"

fun slot_of :: "json \<Rightarrow> dict option" where
  "slot_of (JObj d) = Some d" | "slot_of _ = None"

definition abs_state :: "dict \<Rightarrow> selection" where
  "abs_state st = (slot_of (dget st ''current_deployment''), slot_of (dget st ''previous_deployment''))"

fun selected_id :: "dict option \<Rightarrow> json" where
  "selected_id None = JNull"
| "selected_id (Some d) = dget d ''deployment_id''"

definition stamp :: "dict \<Rightarrow> json \<Rightarrow> dict" where
  "stamp d at = dput d ''promoted_at'' at"

definition abstract_select ::
  "selection \<Rightarrow> dict \<Rightarrow> json \<Rightarrow> json \<Rightarrow> (selection \<times> string) option" where
  "abstract_select sel cand expected at =
     (if fst sel \<noteq> None \<and> selected_id (fst sel) = dget cand ''deployment_id'' then Some (sel, ''unchanged'')
      else if selected_id (fst sel) = expected then Some ((Some (stamp cand at), fst sel), ''promoted'')
      else None)"

fun abstract_rollback :: "selection \<Rightarrow> json \<Rightarrow> selection option" where
  "abstract_rollback (Some c, Some p) at = Some (Some (stamp p at), Some c)"
| "abstract_rollback _ at = None"

lemma dget_stamp: "f \<noteq> ''promoted_at'' \<Longrightarrow> dget (stamp d at) f = dget d f"
  by (simp add: stamp_def)

lemma identity_stamp: "identity_of (stamp d at) = identity_of d"
  by (simp add: identity_of_def identity_fields_def stamp_def)

lemma valid_record_stamp:
  assumes "valid_record sha d" "nonempty_str at"
  shows "valid_record sha (stamp d at)"
proof -
  have fields: "same_fields (stamp d at) record_fields"
    using assms(1) unfolding stamp_def
    by (intro same_fields_dput) (simp_all add: valid_record_def record_fields_def)
  have other: "f \<in> insert ''deployment_id'' (set text_fields \<union> set fingerprint_fields) \<Longrightarrow>
      dget (stamp d at) f = dget d f" for f
    by (rule dget_stamp) (auto simp: text_fields_def fingerprint_fields_def)
  have "dget (stamp d at) ''promoted_at'' = at" by (simp add: stamp_def)
  moreover have "safe_id_json (JStr (sha256_json sha (JObj (identity_of d))))"
    using assms(1) unfolding valid_record_def by (metis insertI1)
  ultimately show ?thesis
    using assms fields other unfolding valid_record_def identity_stamp
    by (simp add: dget_stamp)
qed

lemma valid_slot_cases:
  assumes "valid_slot sha v run"
  obtains "v = JNull" "run = JNull" "slot_of v = None"
  | d where "v = JObj d" "valid_record sha d" "run = dget d ''run_id''" "slot_of v = Some d" "truthy v"
proof (cases v)
  case (JObj d)
  with assms valid_record_nonempty [of sha d] that(2) show thesis
    by (auto simp: valid_slot_def)
qed (use assms that(1) in \<open>auto simp: valid_slot_def\<close>)

lemma valid_slot_record: "valid_record sha d \<Longrightarrow> valid_slot sha (JObj d) (dget d ''run_id'')"
  by (simp add: valid_slot_def)

definition mk_state :: "json \<Rightarrow> json \<Rightarrow> json \<Rightarrow> json \<Rightarrow> json \<Rightarrow> dict" where
  "mk_state cur prev cur_rec prev_rec at =
     [(''schema_version'', JInt DEPLOYMENT_SCHEMA_VERSION), (''current'', cur), (''previous'', prev),
      (''current_deployment'', cur_rec), (''previous_deployment'', prev_rec), (''promoted_at'', at)]"

lemma valid_mk_state:
  "valid_slot sha cr c \<Longrightarrow> valid_slot sha pr p \<Longrightarrow> cr \<noteq> JNull \<Longrightarrow> nonempty_str at \<Longrightarrow>
     valid_state sha (mk_state c p cr pr at)"
  by (auto simp: mk_state_def valid_state_def same_fields_def state_fields_def
      DEPLOYMENT_SCHEMA_VERSION_def nonempty_str_def)

lemma abs_mk_state: "abs_state (mk_state c p cr pr at) = (slot_of cr, slot_of pr)"
  by (simp add: abs_state_def mk_state_def)

lemma valid_state_slots:
  assumes "valid_state sha st"
  shows "valid_slot sha (dget st ''current_deployment'') (dget st ''current'')"
    "valid_slot sha (dget st ''previous_deployment'') (dget st ''previous'')"
  using assms by (simp_all add: valid_state_def)

text \<open>
  The selection refines the register: it returns exactly when the register accepts, with a
  valid state that abstracts to the register's, and it raises the conflict otherwise.
\<close>

lemma select_deployment_refines:
  assumes st: "valid_state sha st" and cand: "valid_record sha cand" and at: "nonempty_str at"
  shows "case select_deployment sha (JObj st) (JObj cand) expected at of
      Inr (st', r) \<Rightarrow> valid_state sha st' \<and> abstract_select (abs_state st) cand expected at = Some (abs_state st', r)
    | Inl e \<Rightarrow> (\<exists>m. e = PromotionConflict m) \<and> abstract_select (abs_state st) cand expected at = None"
proof -
  let ?cur = "dget st ''current_deployment''"
  let ?id = "dget cand ''deployment_id''"
  have val: "validate_state sha (JObj st) False = Inr st"
    "validate_deployment_record sha (JObj cand) = Inr cand"
    using st cand by (simp_all add: validate_state_Inr validate_deployment_record_Inr)
  have stamped: "valid_record sha (stamp cand at)" using cand at by (rule valid_record_stamp)
  have rid: "dget (stamp cand at) ''run_id'' = dget cand ''run_id''" by (simp add: dget_stamp)
  obtain i where i: "?id = JStr i" using valid_record_ids(3) [OF cand] by blast
  from valid_state_slots(1) [OF st] show ?thesis
  proof (cases rule: valid_slot_cases)
    case 1
    define st' where "st' = mk_state (dget cand ''run_id'') JNull (JObj (stamp cand at)) JNull at"
    have ok: "valid_state sha st'"
      unfolding st'_def using stamped rid at
      by (intro valid_mk_state) (auto simp: valid_slot_def)
    have run: "select_deployment sha (JObj st) (JObj cand) expected at =
        (if expected = JNull then Inr (st', ''promoted'')
         else Inl (PromotionConflict (''active deployment changed: expected '' @ repr_json expected
                   @ '', found '' @ repr_json JNull)))"
      using ok unfolding select_deployment_def val bindE_simps
      by (auto simp: 1 Let_def raiseIf_def validate_state_valid st'_def mk_state_def stamp_def)
    show ?thesis
      using ok unfolding run
      by (auto simp: abstract_select_def abs_state_def 1 st'_def mk_state_def)
  next
    case (2 d)
    obtain j where j: "dget d ''deployment_id'' = JStr j" using valid_record_ids(3) [OF 2(2)] by blast
    define st' where "st' = mk_state (dget cand ''run_id'') (dget d ''run_id'') (JObj (stamp cand at)) (JObj d) at"
    have ok: "valid_state sha st'"
      unfolding st'_def using stamped rid at 2(2)
      by (intro valid_mk_state) (auto simp: valid_slot_def)
    have run: "select_deployment sha (JObj st) (JObj cand) expected at =
        (if j = i then Inr (st, ''unchanged'')
         else if expected = JStr j then Inr (st', ''promoted'')
         else Inl (PromotionConflict (''active deployment changed: expected '' @ repr_json expected
                   @ '', found '' @ repr_json (JStr j))))"
      using ok 2(5) unfolding select_deployment_def val bindE_simps
      by (auto simp: 2(1) i j Let_def raiseIf_def validate_state_valid st'_def mk_state_def stamp_def)
    show ?thesis
      using ok st unfolding run
      by (auto simp: abstract_select_def abs_state_def 2(1) i j st'_def mk_state_def)
  qed
qed

lemma rollback_transition_refines:
  assumes st: "valid_state sha st" and at: "nonempty_str at"
  shows "case rollback_transition sha (JObj st) at of
      Inr st' \<Rightarrow> valid_state sha st' \<and> abstract_rollback (abs_state st) at = Some (abs_state st')
    | Inl e \<Rightarrow> (\<exists>m. e = DeploymentError m) \<and> abstract_rollback (abs_state st) at = None"
proof -
  have val: "validate_state sha (JObj st) False = Inr st"
    using st by (simp add: validate_state_Inr)
  show ?thesis
  proof (cases "dget st ''current_deployment'' = JNull \<or> dget st ''previous_deployment'' = JNull")
    case True
    then have "rollback_transition sha (JObj st) at =
        Inl (DeploymentError ''rollback requires current and previous verified deployments'')"
      unfolding rollback_transition_def val bindE_simps Let_def by (simp add: raiseIf_def)
    moreover have "abstract_rollback (abs_state st) at = None"
      using True by (cases "dget st ''current_deployment''"; cases "dget st ''previous_deployment''")
        (auto simp: abs_state_def)
    ultimately show ?thesis by simp
  next
    case False
    from valid_state_slots(1) [OF st] False obtain c where
      c: "dget st ''current_deployment'' = JObj c" "valid_record sha c"
      by (cases rule: valid_slot_cases) auto
    from valid_state_slots(2) [OF st] False obtain p where
      p: "dget st ''previous_deployment'' = JObj p" "valid_record sha p"
      by (cases rule: valid_slot_cases) auto
    define st' where "st' = mk_state (dget p ''run_id'') (dget c ''run_id'') (JObj (stamp p at)) (JObj c) at"
    have "valid_record sha (stamp p at)" using p(2) at by (rule valid_record_stamp)
    then have ok: "valid_state sha st'"
      unfolding st'_def using c(2) at by (intro valid_mk_state) (auto simp: valid_slot_def dget_stamp)
    have "rollback_transition sha (JObj st) at = Inr st'"
      using ok False unfolding rollback_transition_def val bindE_simps Let_def
      by (simp add: raiseIf_def validate_state_valid st'_def mk_state_def stamp_def c p)
    with ok show ?thesis by (simp add: abs_state_def c p st'_def mk_state_def)
  qed
qed

section \<open>The reachable active states\<close>

inductive active_step :: "(string \<Rightarrow> string) \<Rightarrow> dict \<Rightarrow> dict \<Rightarrow> bool" for sha where
  Select: "select_deployment sha (JObj st) cand expected at = Inr (st', r) \<Longrightarrow> nonempty_str at \<Longrightarrow>
     active_step sha st st'"
| Rollback: "rollback_transition sha (JObj st) at = Inr st' \<Longrightarrow> nonempty_str at \<Longrightarrow>
     active_step sha st st'"

inductive_cases active_stepE: "active_step sha st st'"

text \<open>The two slots never hold the same deployment.\<close>

definition distinct_slots :: "selection \<Rightarrow> bool" where
  "distinct_slots sel \<longleftrightarrow> snd sel = None \<or> selected_id (fst sel) \<noteq> selected_id (snd sel)"

definition active_inv :: "(string \<Rightarrow> string) \<Rightarrow> dict \<Rightarrow> bool" where
  "active_inv sha st \<longleftrightarrow> valid_state sha st \<and> distinct_slots (abs_state st)"

lemma abstract_select_distinct:
  assumes "distinct_slots sel" "abstract_select sel cand expected at = Some (sel', r)"
  shows "distinct_slots sel'"
  using assms
  by (cases "fst sel") (auto simp: abstract_select_def distinct_slots_def dget_stamp split: if_splits)

lemma abstract_rollback_distinct:
  assumes "distinct_slots sel" "abstract_rollback sel at = Some sel'"
  shows "distinct_slots sel'"
  using assms
  by (cases "(sel, at)" rule: abstract_rollback.cases) (auto simp: distinct_slots_def dget_stamp)

lemma active_step_inv:
  assumes "active_inv sha st" "active_step sha st st'"
  shows "active_inv sha st'"
  using assms(2)
proof cases
  case (Select cand expected at r)
  have "\<exists>c. cand = JObj c \<and> valid_record sha c"
    using Select(1) by (auto simp: select_deployment_def bindE_eq_Inr validate_deployment_record_Inr Let_def)
  then obtain c where c: "cand = JObj c" "valid_record sha c" by blast
  with select_deployment_refines [of sha st c at expected] assms(1) Select
  show ?thesis by (auto simp: active_inv_def intro: abstract_select_distinct)
next
  case (Rollback at)
  with rollback_transition_refines [of sha st at] assms(1)
  show ?thesis by (auto simp: active_inv_def intro: abstract_rollback_distinct)
qed

interpretation active: state_machine empty_state "active_step sha" "active_inv sha" for sha
proof unfold_locales
  show "active_inv sha empty_state"
    by (simp add: active_inv_def valid_empty_state) (simp add: distinct_slots_def abs_state_def empty_state_def)
qed (rule active_step_inv)

section \<open>Creation, identity\<close>

lemma canonical_bytes_lookup:
  assumes "wf_json (JObj d)" "wf_json (JObj e)"
    and "canonical_json_bytes (JObj d) = canonical_json_bytes (JObj e)"
  shows "jsort (dget d k) = jsort (dget e k)"
proof -
  have "jsort (JObj d) = jsort (JObj e)" using assms by (simp add: canonical_json_bytes_inject)
  then show ?thesis using dget_jsort [OF assms(1), of k] dget_jsort [OF assms(2), of k] by simp
qed

lemma dget_map_fields: "f \<in> set fs \<Longrightarrow> dget (map (\<lambda>f. (f, g f)) fs) f = g f"
  by (induction fs) auto

lemma dget_identity_of: "f \<in> set identity_fields \<Longrightarrow> dget (identity_of rec) f = dget rec f"
  unfolding identity_of_def by (rule dget_map_fields)

lemma identity_leaf:
  assumes "valid_record sha d" "f \<in> set identity_fields"
  shows "(\<exists>s. dget d f = JStr s) \<or> (\<exists>n. dget d f = JInt n)"
  using assms unfolding valid_record_def identity_fields_def
  by (auto simp: safe_id_json_def sha256_field_def fingerprint_fields_def text_fields_def nonempty_str_def)

lemma identity_wf:
  assumes "valid_record sha d"
  shows "wf_json (JObj (identity_of d))"
proof -
  have "wf_json (dget d f)" if "f \<in> set identity_fields" for f
    using identity_leaf [OF assms that] by auto
  moreover have "distinct identity_fields" by (simp add: identity_fields_def)
  ultimately show ?thesis by (simp add: identity_of_def list_all_iff comp_def)
qed

lemma identity_agrees:
  assumes d: "valid_record sha d" and e: "valid_record sha e"
    and same: "canonical_json_bytes (JObj (identity_of d)) = canonical_json_bytes (JObj (identity_of e))"
    and f: "f \<in> set identity_fields"
  shows "dget d f = dget e f"
proof -
  have "jsort (dget d f) = jsort (dget e f)"
    using canonical_bytes_lookup [OF identity_wf [OF d] identity_wf [OF e] same, of f] f
    by (simp add: dget_identity_of)
  with identity_leaf [OF d f] identity_leaf [OF e f] show ?thesis by auto
qed

text \<open>Two records with different run ids, for the concrete instances below.\<close>

definition sample_record :: "string \<Rightarrow> string \<Rightarrow> dict" where
  "sample_record run i =
    [(''deployment_schema_version'', JInt 2),
     (''deployment_contract_version'', JStr ''homeops-deployment-v2''),
     (''deployment_id'', JStr i), (''snapshot_id'', JStr ''s1''), (''run_id'', JStr run),
     (''source_fingerprint'', JStr (replicate 64 (CHR ''a''))),
     (''artifact_fingerprint'', JStr (replicate 64 (CHR ''b''))),
     (''logical_fingerprint'', JStr (replicate 64 (CHR ''c''))),
     (''snapshot_created_at'', JStr ''t1''), (''snapshot_received_at'', JStr ''t2''),
     (''build_completed_at'', JStr ''t3''), (''build_verified_at'', JStr ''t4''),
     (''promoted_at'', JNull), (''homeops_version'', JStr ''1.0''),
     (''source_revision'', JStr ''rev''), (''image_digest'', JStr ''img''),
     (''snapshot_schema_version'', JInt 1), (''snapshot_contract_version'', JStr ''v1''),
     (''build_schema_version'', JInt 1), (''build_contract_version'', JStr ''b1''),
     (''result'', JStr ''verified'')]"

definition sample_a :: dict where
  "sample_a = sample_record ''run-a'' (replicate 64 (CHR ''a''))"

definition sample_b :: dict where
  "sample_b = sample_record ''run-b'' (replicate 64 (CHR ''b''))"

definition sample_sha :: "string \<Rightarrow> string" where
  "sample_sha s = (if s = canonical_json_bytes (JObj (identity_of sample_a))
     then replicate 64 (CHR ''a'') else replicate 64 (CHR ''b''))"

lemma sample_text: "safe_id ''s1''" "safe_id ''run-a''" "safe_id ''run-b''"
  "is_sha256 (replicate 64 (CHR ''a''))" "is_sha256 (replicate 64 (CHR ''b''))"
  "is_sha256 (replicate 64 (CHR ''c''))"
  by (simp_all add: safe_id_def safe_id_char_def is_alnum_def is_alpha_def is_digit_def code_of_def
      is_sha256_def is_lower_hex_def list_all_iff)

lemma sample_ids: "safe_id (replicate 64 (CHR ''a''))" "safe_id (replicate 64 (CHR ''b''))"
  by (simp_all add: safe_id_def safe_id_char_def is_alnum_def is_alpha_def is_digit_def code_of_def
      list_all_iff numeral_eq_Suc)

lemma sample_record_valid:
  assumes "safe_id run" "safe_id i"
    and "sha256_json sha (JObj (identity_of (sample_record run i))) = i"
  shows "valid_record sha (sample_record run i)"
  using assms sample_text
  unfolding valid_record_def sample_record_def
  by (simp add: same_fields_def record_fields_def safe_id_json_def sha256_field_def
      fingerprint_fields_def text_fields_def nonempty_str_def)

lemma sample_identity_differs:
  "canonical_json_bytes (JObj (identity_of sample_b)) \<noteq> canonical_json_bytes (JObj (identity_of sample_a))"
proof
  assume *: "canonical_json_bytes (JObj (identity_of sample_b)) = canonical_json_bytes (JObj (identity_of sample_a))"
  have "wf_json (JObj (identity_of sample_b))" "wf_json (JObj (identity_of sample_a))"
    by (simp_all add: identity_of_def identity_fields_def sample_a_def sample_b_def sample_record_def)
  from canonical_bytes_lookup [OF this *, of "''run_id''"] show False
    by (simp add: identity_of_def identity_fields_def sample_a_def sample_b_def sample_record_def)
qed

lemma samples_valid [simp]: "valid_record sample_sha sample_a" "valid_record sample_sha sample_b"
proof -
  show "valid_record sample_sha sample_a"
    unfolding sample_a_def
    by (rule sample_record_valid) (use sample_text sample_ids in \<open>auto simp: sha256_json_def sample_sha_def sample_a_def\<close>)
  show "valid_record sample_sha sample_b"
    unfolding sample_b_def
    by (rule sample_record_valid)
       (use sample_text sample_ids sample_identity_differs in \<open>auto simp: sha256_json_def sample_sha_def sample_b_def\<close>)
qed

lemma sample_id [simp]:
  "dget sample_a ''deployment_id'' = JStr (replicate 64 (CHR ''a''))"
  "dget sample_b ''deployment_id'' = JStr (replicate 64 (CHR ''b''))"
  by (simp_all add: sample_a_def sample_b_def sample_record_def)

section \<open>Properties\<close>

text \<open>the record validator accepts exactly the records with the 21 fields of the contract,
  the current schema and contract versions, safe identifiers, SHA-256 fingerprints, non-empty
  texts, positive schema versions, the verified result, and a deployment id that is the digest of
  the canonical identity; it returns the record unchanged.\<close>

theorem validate_deployment_record_accepts:
  "validate_deployment_record sha v = Inr rec \<longleftrightarrow> v = JObj rec \<and> valid_record sha rec"
  by (rule validate_deployment_record_Inr)

text \<open>C12: a deployment id is tamper evident: two valid records with the same deployment id agree
  on every identity field (snapshot, run, fingerprints, provenance, contract versions), unless
  their canonical identities are a collision of the digest.\<close>

theorem deployment_id_binds_identity:
  assumes "validate_deployment_record sha (JObj d) = Inr d"
    and "validate_deployment_record sha (JObj e) = Inr e"
    and "dget d ''deployment_id'' = dget e ''deployment_id''"
    and "sha256_json sha (JObj (identity_of d)) = sha256_json sha (JObj (identity_of e)) \<Longrightarrow>
      canonical_json_bytes (JObj (identity_of d)) = canonical_json_bytes (JObj (identity_of e))"
  shows "\<forall>f \<in> set identity_fields. dget d f = dget e f"
proof -
  have d: "valid_record sha d" and e: "valid_record sha e"
    using assms(1,2) by (simp_all add: validate_deployment_record_obj)
  then have "sha256_json sha (JObj (identity_of d)) = sha256_json sha (JObj (identity_of e))"
    using assms(3) unfolding valid_record_def by simp
  from identity_agrees [OF d e assms(4) [OF this]] show ?thesis by blast
qed

theorem deployment_id_binds_identity_witness:
  "sample_a \<noteq> stamp sample_a (JStr ''now'') \<and>
   dget sample_a ''snapshot_id'' = dget (stamp sample_a (JStr ''now'')) ''snapshot_id''"
proof -
  have "\<forall>f \<in> set identity_fields. dget sample_a f = dget (stamp sample_a (JStr ''now'')) f"
    by (rule deployment_id_binds_identity [of sample_sha])
      (simp_all add: validate_deployment_record_obj valid_record_stamp nonempty_str_def
        identity_stamp dget_stamp)
  moreover have "dget sample_a ''promoted_at'' \<noteq> dget (stamp sample_a (JStr ''now'')) ''promoted_at''"
    by (simp add: stamp_def sample_a_def sample_record_def)
  ultimately show ?thesis by (auto simp: identity_fields_def)
qed

text \<open>C11: creating a record from a snapshot manifest and a build manifest yields only valid
  records, bound to exactly that snapshot and that run: it takes the snapshot id, creation time and
  fingerprints from the snapshot, the run id and the completion times from the build, and the build
  was verified from the same fingerprints.\<close>

theorem create_deployment_record_binds:
  assumes "create_deployment_record sha snapshot build received version revision img promoted = Inr rec"
  shows "valid_record sha rec
    \<and> (\<forall>f \<in> set fingerprint_fields. dget rec f = dget snapshot f \<and> dget build f = dget snapshot f)
    \<and> dget rec ''snapshot_id'' = dget snapshot ''snapshot_id''
    \<and> dget rec ''run_id'' = dget build ''run_id''
    \<and> dget rec ''snapshot_created_at'' = dget snapshot ''created_at''
    \<and> dget rec ''build_completed_at'' = dget build ''completed_at''
    \<and> dget rec ''build_verified_at'' = dget build ''verified_at''
    \<and> dget build ''result'' = JStr ''verified''"
proof -
  have same: "\<forall>f \<in> set fingerprint_fields. pyeq (dget snapshot f) (dget build f)"
    and res: "dget build ''result'' = JStr ''verified''"
    using assms unfolding create_deployment_record_def bindE_eachE bindE_raiseIf by simp_all
  have valid: "valid_record sha rec"
    and fields: "\<forall>f \<in> set fingerprint_fields. dget rec f = dget snapshot f"
    and vals: "dget rec ''snapshot_id'' = dget snapshot ''snapshot_id''"
      "dget rec ''run_id'' = dget build ''run_id''"
      "dget rec ''snapshot_created_at'' = dget snapshot ''created_at''"
      "dget rec ''build_completed_at'' = dget build ''completed_at''"
      "dget rec ''build_verified_at'' = dget build ''verified_at''"
    using assms
    unfolding create_deployment_record_def bindE_eachE bindE_raiseIf bindE_eq_Inr didx_Inr Let_def
      validate_deployment_record_obj
    by (clarsimp simp: fingerprint_fields_def map_of_dget)+
  have "dget build f = dget snapshot f" if f: "f \<in> set fingerprint_fields" for f
  proof -
    from valid f obtain t where "dget rec f = JStr t"
      unfolding valid_record_def sha256_field_def by blast
    with fields same f show ?thesis by auto
  qed
  with valid fields vals res show ?thesis by simp
qed

text \<open>A snapshot manifest and a build manifest that go together.\<close>

definition sample_snapshot :: dict where
  "sample_snapshot =
    [(''snapshot_id'', JStr ''s1''), (''source_fingerprint'', JStr (replicate 64 (CHR ''a''))),
     (''artifact_fingerprint'', JStr (replicate 64 (CHR ''b''))),
     (''logical_fingerprint'', JStr (replicate 64 (CHR ''c''))),
     (''created_at'', JStr ''t1''), (''schema_version'', JInt 1),
     (''snapshot_contract_version'', JStr ''v1'')]"

definition sample_build :: dict where
  "sample_build =
    [(''run_id'', JStr ''run-a''), (''result'', JStr ''verified''),
     (''source_fingerprint'', JStr (replicate 64 (CHR ''a''))),
     (''artifact_fingerprint'', JStr (replicate 64 (CHR ''b''))),
     (''logical_fingerprint'', JStr (replicate 64 (CHR ''c''))),
     (''completed_at'', JStr ''t3''), (''verified_at'', JStr ''t4''),
     (''schema_version'', JInt 1), (''build_contract_version'', JStr ''b1'')]"

lemma sample_created:
  "create_deployment_record sample_sha sample_snapshot sample_build (JStr ''t2'') (JStr ''1.0'')
     (JStr ''rev'') (JStr ''img'') JNull = Inr sample_a"
proof -
  let ?id = "replicate 64 (CHR ''a'')"
  have rec: "dput (sample_record ''run-a'' ''pending'') ''deployment_id'' (JStr ?id) = sample_a"
    by (simp add: sample_record_def sample_a_def dput_def)
  have fields: "same_fields (sample_record ''run-a'' ''pending'') record_fields"
    by (simp add: sample_record_def same_fields_def record_fields_def)
  have "identity_of (sample_record ''run-a'' ''pending'') = identity_of sample_a"
    by (simp add: identity_of_def identity_fields_def sample_record_def sample_a_def)
  then have id: "sha256_json sample_sha (JObj (identity_of (sample_record ''run-a'' ''pending''))) = ?id"
    by (simp add: sha256_json_def sample_sha_def)
  have fin: "bindE (deployment_identity (sample_record ''run-a'' ''pending'')) (\<lambda>identity.
      validate_deployment_record sample_sha (JObj (dput (sample_record ''run-a'' ''pending'')
        ''deployment_id'' (JStr (sha256_json sample_sha (JObj identity)))))) = Inr sample_a"
    by (simp add: deployment_identity_Inr [OF fields] id rec validate_deployment_record_obj)
  have idx: "didx sample_snapshot ''snapshot_id'' = Inr (JStr ''s1'')"
    "didx sample_snapshot ''source_fingerprint'' = Inr (JStr (replicate 64 (CHR ''a'')))"
    "didx sample_snapshot ''artifact_fingerprint'' = Inr (JStr (replicate 64 (CHR ''b'')))"
    "didx sample_snapshot ''logical_fingerprint'' = Inr (JStr (replicate 64 (CHR ''c'')))"
    "didx sample_snapshot ''created_at'' = Inr (JStr ''t1'')"
    "didx sample_snapshot ''schema_version'' = Inr (JInt 1)"
    "didx sample_snapshot ''snapshot_contract_version'' = Inr (JStr ''v1'')"
    "didx sample_build ''run_id'' = Inr (JStr ''run-a'')"
    "didx sample_build ''completed_at'' = Inr (JStr ''t3'')"
    "didx sample_build ''verified_at'' = Inr (JStr ''t4'')"
    "didx sample_build ''schema_version'' = Inr (JInt 1)"
    "didx sample_build ''build_contract_version'' = Inr (JStr ''b1'')"
    by (simp_all add: sample_snapshot_def sample_build_def)
  have fps: "eachE (\<lambda>f. raiseIf (\<not> pyeq (dget sample_snapshot f) (dget sample_build f)) (e f))
      fingerprint_fields = Inr ()" for e :: "string \<Rightarrow> exn"
    by (simp add: fingerprint_fields_def sample_snapshot_def sample_build_def raiseIf_def)
  have ver: "raiseIf (\<not> pyeq (dget sample_build ''result'') (JStr ''verified'')) e = Inr ()" for e :: exn
    by (simp add: sample_build_def)
  show ?thesis
    unfolding create_deployment_record_def DEPLOYMENT_SCHEMA_VERSION_def
      DEPLOYMENT_CONTRACT_VERSION_def fps ver idx bindE_simps Let_def
    by (rule fin [unfolded sample_record_def])
qed

theorem create_deployment_record_binds_witness:
  "dget sample_a ''run_id'' = dget sample_build ''run_id'' \<and> valid_record sample_sha sample_a"
  using create_deployment_record_binds [OF sample_created] by blast

text \<open>C6: in every state that selections and rollbacks can reach from the empty one, the validator
  accepts the state and returns it unchanged, and the current and the previous slot hold different
  deployments.\<close>

theorem reachable_active_state_valid:
  assumes "(active_step sha)\<^sup>*\<^sup>* empty_state st"
  shows "validate_state sha (JObj st) False = Inr st \<and> distinct_slots (abs_state st)"
  using active.reachable_inv [OF assms] by (simp add: active_inv_def validate_state_valid)

lemma abs_empty_state: "abs_state empty_state = (None, None)"
  by (simp add: abs_state_def empty_state_def)

lemma sample_selected:
  "\<exists>st. active_step sample_sha empty_state st \<and> abs_state st = (Some (stamp sample_a (JStr ''now'')), None)"
proof -
  have now: "nonempty_str (JStr ''now'')" by (simp add: nonempty_str_def)
  have abs: "abstract_select (abs_state empty_state) sample_a JNull (JStr ''now'') =
      Some ((Some (stamp sample_a (JStr ''now'')), None), ''promoted'')"
    by (simp add: abstract_select_def abs_empty_state)
  show ?thesis
  proof (cases "select_deployment sample_sha (JObj empty_state) (JObj sample_a) JNull (JStr ''now'')")
    case (Inl e)
    with select_deployment_refines [OF valid_empty_state samples_valid(1) now, of JNull] abs
    show ?thesis by simp
  next
    case (Inr p)
    obtain st r where p: "p = (st, r)" by (cases p)
    with select_deployment_refines [OF valid_empty_state samples_valid(1) now, of JNull] abs Inr
    have "abs_state st = (Some (stamp sample_a (JStr ''now'')), None)" by simp
    with active_step.Select [OF Inr [unfolded p] now] show ?thesis by blast
  qed
qed

theorem reachable_active_state_valid_witness:
  "\<exists>st. dget st ''current_deployment'' \<noteq> JNull \<and> validate_state sample_sha (JObj st) False = Inr st"
proof -
  from sample_selected obtain st where st: "active_step sample_sha empty_state st"
    "abs_state st = (Some (stamp sample_a (JStr ''now'')), None)" by blast
  have "validate_state sample_sha (JObj st) False = Inr st"
    using reachable_active_state_valid [where st = st, OF r_into_rtranclp [where r = "active_step sample_sha", OF st(1)]]
    by (rule conjunct1)
  moreover from st(2) have "dget st ''current_deployment'' \<noteq> JNull" by (auto simp: abs_state_def)
  ultimately show ?thesis by blast
qed

text \<open>C5: the selection is a compare-and-swap on the pair of selected records. On every valid
  state it either returns the state of the register after the swap (the stamped candidate current,
  the old current previous), or the state unchanged for the deployment that is already current, or
  raises \<open>PromotionConflict\<close>, exactly when the expected id is not the current one; the state it
  returns is valid again.\<close>

theorem select_deployment_is_compare_and_swap:
  assumes "validate_state sha (JObj st) False = Inr st" "valid_record sha cand" "nonempty_str at"
  shows "case select_deployment sha (JObj st) (JObj cand) expected at of
      Inr (st', r) \<Rightarrow> valid_state sha st' \<and> abstract_select (abs_state st) cand expected at = Some (abs_state st', r)
    | Inl e \<Rightarrow> (\<exists>m. e = PromotionConflict m) \<and> abstract_select (abs_state st) cand expected at = None"
  using assms by (intro select_deployment_refines) (simp_all add: validate_state_Inr)

theorem select_deployment_is_compare_and_swap_witness:
  "\<exists>m. select_deployment sample_sha (JObj empty_state) (JObj sample_a) (JStr ''other'') (JStr ''now'')
     = Inl (PromotionConflict m)"
proof -
  have now: "nonempty_str (JStr ''now'')" by (simp add: nonempty_str_def)
  have abs: "abstract_select (abs_state empty_state) sample_a (JStr ''other'') (JStr ''now'') = None"
    by (simp add: abstract_select_def abs_empty_state)
  show ?thesis
    using select_deployment_is_compare_and_swap
        [OF validate_state_valid [OF valid_empty_state] samples_valid(1) now, of "JStr ''other''"] abs
    by (cases "select_deployment sample_sha (JObj empty_state) (JObj sample_a) (JStr ''other'') (JStr ''now'')")
      (auto simp only: sum.case option.distinct prod.case split: prod.splits)
qed

text \<open>After a rollback a second rollback is always possible and restores the pair: each slot
  holds the record it held before, up to the promotion time that the rollback stamps.\<close>

theorem rollback_twice_restores:
  assumes "valid_state sha st" "nonempty_str at" "nonempty_str at'"
    and "rollback_transition sha (JObj st) at = Inr st1"
  shows "\<exists>c p st2. abs_state st = (Some c, Some p) \<and> abs_state st1 = (Some (stamp p at), Some c)
    \<and> rollback_transition sha (JObj st1) at' = Inr st2
    \<and> abs_state st2 = (Some (stamp c at'), Some (stamp p at))"
proof -
  from rollback_transition_refines [OF assms(1,2)] assms(4)
  have v: "valid_state sha st1" and a: "abstract_rollback (abs_state st) at = Some (abs_state st1)"
    by simp_all
  then obtain c p where cp: "abs_state st = (Some c, Some p)" "abs_state st1 = (Some (stamp p at), Some c)"
    by (cases "(abs_state st, at)" rule: abstract_rollback.cases) auto
  from rollback_transition_refines [OF v assms(3)] cp
  obtain st2 where "rollback_transition sha (JObj st1) at' = Inr st2"
    "abs_state st2 = (Some (stamp c at'), Some (stamp p at))"
    by (auto split: sum.splits)
  with cp show ?thesis by blast
qed

theorem rollback_twice_restores_witness:
  "\<exists>st1 st2. rollback_transition sample_sha (JObj st1) (JStr ''t2'') = Inr st2
     \<and> abs_state st2 = (Some (stamp sample_b (JStr ''t2'')), Some (stamp sample_a (JStr ''t1'')))"
proof -
  define st where "st = mk_state (dget sample_b ''run_id'') (dget sample_a ''run_id'')
    (JObj sample_b) (JObj sample_a) (JStr ''t0'')"
  have v: "valid_state sample_sha st"
    unfolding st_def by (intro valid_mk_state valid_slot_record) (simp_all add: nonempty_str_def)
  have abs: "abs_state st = (Some sample_b, Some sample_a)" by (simp add: st_def abs_mk_state)
  have t: "nonempty_str (JStr ''t1'')" "nonempty_str (JStr ''t2'')" by (simp_all add: nonempty_str_def)
  from rollback_transition_refines [OF v t(1)] abs obtain st1 where
    "rollback_transition sample_sha (JObj st) (JStr ''t1'') = Inr st1" by (auto split: sum.splits)
  from rollback_twice_restores [OF v t this] abs show ?thesis by auto
qed

end
