(* ===== verification/Documents.thy ===== *)
theory Documents
  imports Files JsonRoundtrip
begin

text \<open>
  The contract of one JSON document on disk, which the stores of the program share: what a
  write leaves to read, and what it does not touch. The durable writers of \<open>deployment.py\<close>
  are its instances; a crash or an error at any write leaves the old document or the new one.
\<close>

definition read_document :: "world \<Rightarrow> path \<Rightarrow> json res" where
  "read_document w p = bindE (read_text w p) strict_json_loads"

text \<open>\<open>json.loads\<close> of bytes; it takes a NUL among the first four for another encoding.\<close>

definition json_loads_bytes :: "string \<Rightarrow> json res" where
  "json_loads_bytes b =
     (if CHR 0x00 \<in> set (take 4 b) then Inl (Unmodelled ''UTF-16 or UTF-32 text'')
      else bindE (utf8_decode b) json_loads)"

definition strict_loads_bytes :: "string \<Rightarrow> json res" where
  "strict_loads_bytes b =
     (if CHR 0x00 \<in> set (take 4 b) then Inl (Unmodelled ''UTF-16 or UTF-32 text'')
      else bindE (utf8_decode b) strict_json_loads)"

lemma utf8_decode_char: "utf8_decode (utf8_char c @ s) = bindE (utf8_decode s) (\<lambda>r. Inr (c # r))"
proof (cases "code_of c < 128")
  case False
  let ?n = "code_of c"
  have hi: "?n div 64 \<in> {2, 3}" using False code_of_lt [of c] by auto
  have "code_of (char_of (192 + ?n div 64)) = 192 + ?n div 64"
    "code_of (char_of (128 + ?n mod 64)) = 128 + ?n mod 64"
    using code_of_lt [of c] by (auto intro!: code_of_char_of)
  with False hi show ?thesis by (auto simp: utf8_char_def Let_def)
qed (simp add: utf8_char_def)

lemma utf8_decode_utf8 [simp]: "utf8_decode (utf8 s) = Inr s"
  by (induction s) (simp_all add: utf8_def utf8_decode_char)

lemma utf8_decode_ascii: "ascii s \<Longrightarrow> utf8_decode s = Inr s"
  by (induction s) simp_all

lemma read_text_ascii: "file_at w p = Some c \<Longrightarrow> ascii c \<Longrightarrow> read_text w p = Inr c"
  by (simp add: read_text_def read_bytes_file_at utf8_decode_ascii)

lemma read_document_cong: "file_at w p = file_at w' p \<Longrightarrow> read_document w p = read_document w' p"
  by (simp add: read_document_def read_text_def read_bytes_file_at)

locale document_file =
  fixes save :: "json \<Rightarrow> unit wprog" and p :: path and norm :: "json \<Rightarrow> json"
  assumes written: "save v w = (Inr (), w') \<Longrightarrow> wf_json v \<Longrightarrow> read_document w' p = Inr (norm v)"
    and frame: "save v w = (r, w') \<Longrightarrow> q \<noteq> p \<Longrightarrow> file_at w' q = file_at w q"
    and failed: "save v w = (Inl e, w') \<Longrightarrow> file_at w' p = file_at w p"
    and norm_wf: "wf_json v \<Longrightarrow> wf_json (norm v)"
    and norm_pyeq: "wf_json v \<Longrightarrow> pyeq (norm v) v"
begin

lemma all_or_nothing:
  assumes "save v w = (r, w')" "wf_json v"
  shows "read_document w' p = read_document w p \<or> read_document w' p = Inr (norm v)"
  using assms written failed by (cases r) (auto intro!: read_document_cong)

lemma last_write_wins:
  assumes "bindM (save v) (\<lambda>_. save v') w = (Inr (), w')" "wf_json v'"
  shows "read_document w' p = Inr (norm v')"
  using assms written by (auto simp: bindM_eq_Inr)

lemma others_unread:
  assumes "save v w = (r, w')" "q \<noteq> p"
  shows "read_document w' q = read_document w q"
  using frame [OF assms] by (rule read_document_cong)

end

lemma put_file_document:
  assumes "ascii c" "strict_json_loads c = Inr v" "put_file p c w = (Inr (), w')"
  shows "read_document w' p = Inr v"
  using assms(3)
proof (cases rule: put_file_cases)
  case written
  from written(2) [of p] have "read_text w' p = Inr c"
    using assms(1) by (intro read_text_ascii) simp_all
  with assms(2) show ?thesis by (simp add: read_document_def)
qed simp_all

lemma put_file_frame: "put_file p c w = (r, w') \<Longrightarrow> q \<noteq> p \<Longrightarrow> file_at w' q = file_at w q"
  by (erule put_file_cases) simp_all

lemma put_file_failed: "put_file p c w = (Inl e, w') \<Longrightarrow> file_at w' q = file_at w q"
  by (erule put_file_cases) simp_all

interpretation durable_json: document_file "durable_atomic_json p" p jsort for p
  unfolding durable_atomic_json_def
  by unfold_locales
    (blast intro: put_file_document ascii_dumps_indent strict_json_loads_dumps_indent put_file_frame
      put_file_failed wf_json_jsort pyeq_jsort)+

interpretation receiver_json: document_file "durable_atomic_canonical_json p" p "\<lambda>v. v" for p
  unfolding durable_atomic_canonical_json_def
  by unfold_locales
    (blast intro: put_file_document ascii_receiver strict_json_loads_receiver put_file_frame
      put_file_failed pyeq_refl)+

section \<open>Create-once documents\<close>

lemma file_at_lexists: "file_at w p = Some c \<Longrightarrow> lexists w p"
  by (cases "lstat w p") (auto simp: lexists_def file_at_def stat_def)

lemma durable_create_json_frame:
  "durable_create_json p v w = (r, w') \<Longrightarrow> q \<noteq> p \<Longrightarrow> file_at w' q = file_at w q"
  by (auto simp: durable_create_json_def bindM_def split: if_splits sum.splits intro: put_file_frame)

text \<open>An existing file keeps its bytes, whatever is created over it.\<close>

lemma durable_create_json_keeps:
  assumes "durable_create_json p v w = (r, w')" "file_at w q = Some c"
  shows "file_at w' q = Some c"
proof (cases "lexists w p")
  case True
  with assms show ?thesis
    by (auto simp: durable_create_json_def bindM_def split: if_splits sum.splits)
next
  case False
  then have "q \<noteq> p" using assms(2) by (auto dest: file_at_lexists)
  with durable_create_json_frame [OF assms(1)] assms(2) show ?thesis by simp
qed

lemma durable_create_json_written:
  assumes "durable_create_json p v w = (Inr (), w')"
  shows "file_at w' p = Some (dumps_indent v)"
proof (cases "lexists w p")
  case True
  with assms have "read_bytes w p = Inr (dumps_indent v)" "w' = w"
    by (auto simp: durable_create_json_def bindM_def split: if_splits sum.splits)
  then show ?thesis by (auto simp: read_bytes_file_at split: option.splits)
next
  case False
  with assms have "put_file p (dumps_indent v) w = (Inr (), w')" by (simp add: durable_create_json_def)
  then show ?thesis by (rule put_file_cases) simp_all
qed

lemma durable_create_json_read:
  "durable_create_json p v w = (Inr (), w') \<Longrightarrow> wf_json v \<Longrightarrow> read_document w' p = Inr (jsort v)"
  using durable_create_json_written [of p v w w'] strict_json_loads_dumps_indent [of v]
  by (simp add: read_document_def read_text_ascii ascii_dumps_indent)

text \<open>A retry with the same document succeeds and changes nothing.\<close>

lemma durable_create_json_retry:
  assumes "durable_create_json p v w = (Inr (), w')"
  shows "durable_create_json p v w' = (Inr (), w')"
proof -
  have f: "file_at w' p = Some (dumps_indent v)" using assms by (rule durable_create_json_written)
  then have "lexists w' p" by (rule file_at_lexists)
  with f show ?thesis by (simp add: durable_create_json_def read_bytes_file_at)
qed

section \<open>Frames\<close>

text \<open>Which files a program may touch, as a relation that every step of it keeps.\<close>

definition same_outside :: "path set \<Rightarrow> world \<Rightarrow> world \<Rightarrow> bool" where
  "same_outside S w w' \<longleftrightarrow> (\<forall>q. q \<notin> S \<longrightarrow> file_at w' q = file_at w q)"

interpretation frame: step_preorder "same_outside S" for S
  by unfold_locales (simp_all add: same_outside_def)

lemma same_outsideD: "same_outside S w w' \<Longrightarrow> q \<notin> S \<Longrightarrow> file_at w' q = file_at w q"
  by (simp add: same_outside_def)

lemma keeps_mono: "keeps (same_outside S) m \<Longrightarrow> S \<subseteq> T \<Longrightarrow> keeps (same_outside T) m"
  by (force simp: keeps_def same_outside_def)

lemma keeps_put_file: "p \<in> S \<Longrightarrow> keeps (same_outside S) (put_file p c)"
  by (auto simp: keeps_def same_outside_def intro!: put_file_frame)

lemma keeps_atomic_json: "p \<in> S \<Longrightarrow> keeps (same_outside S) (durable_atomic_json p v)"
  by (simp add: durable_atomic_json_def keeps_put_file)

lemma keeps_receiver_json: "p \<in> S \<Longrightarrow> keeps (same_outside S) (durable_atomic_canonical_json p v)"
  by (simp add: durable_atomic_canonical_json_def keeps_put_file)

lemma keeps_create_json: "p \<in> S \<Longrightarrow> keeps (same_outside S) (durable_create_json p v)"
  by (auto simp: keeps_def same_outside_def intro!: durable_create_json_frame)

lemma file_at_tree: "file_at w p = (case follow (map_of (tree w) p) of Some (File c) \<Rightarrow> Some c | _ \<Rightarrow> None)"
  by (simp add: file_at_def stat_def lstat_def)

lemma keeps_durable:
  assumes "\<And>t q. q \<notin> S \<Longrightarrow> map_of (u t) q = map_of t q"
  shows "keeps (same_outside S) (durable u)"
proof (rule keepsI)
  fix w r w' assume "durable u w = (r, w')"
  then show "same_outside S w w'"
    by (rule durable_cases) (use assms in \<open>auto simp: same_outside_def file_at_tree\<close>)
qed

lemma keeps_unlink: "p \<in> S \<Longrightarrow> keeps (same_outside S) (unlink p)"
  unfolding unlink_def by (rule keeps_durable) (auto simp: delete_conv')

lemma keeps_fsync: "keeps (same_outside S) (fsync_path p)"
proof (rule keepsI)
  fix w r w' assume "fsync_path p w = (r, w')"
  moreover have "keeps (same_outside S) (durable (\<lambda>t. t))" by (rule keeps_durable) simp
  ultimately show "same_outside S w w'"
    by (auto simp: fsync_path_def same_outside_def split: if_splits dest: keepsD)
qed

lemma keeps_make_dirs: "keeps (same_outside S) (make_dirs p)"
  by (auto simp: keeps_def same_outside_def elim!: make_dirs_cases)

lemma keeps_ask: "keeps (same_outside S) (askM f)"
  by (auto simp: keeps_def askM_def same_outside_def)

lemma keeps_when: "keeps (same_outside S) m \<Longrightarrow> keeps (same_outside S) (whenM c m)"
  by (auto simp: whenM_def frame.keeps_pure)

lemma keeps_now: "keeps (same_outside S) utc_now"
  by (auto simp: keeps_def utc_now_def same_outside_def)

lemma keeps_fail: "keeps (same_outside S) (failIf c e)"
  by (auto simp: keeps_def failIf_def same_outside_def)

lemmas frame_intros = frame.keeps_pure frame.keeps_bind frame.keeps_modify frame.keeps_each
  keeps_put_file keeps_atomic_json keeps_receiver_json keeps_create_json keeps_unlink keeps_fsync
  keeps_make_dirs keeps_ask keeps_when keeps_now keeps_fail

lemma unlink_gone:
  assumes "unlink p w = (Inr (), w')"
  shows "file_at w' p = None"
  using assms unfolding unlink_def
  by (rule durable_cases) (simp_all add: file_at_tree delete_conv')

lemma askM_Inr: "askM f w = (Inr x, w') \<longleftrightarrow> f w = Inr x \<and> w' = w"
  by (auto simp: askM_def)

lemma bindM_askM: "bindM (askM f) g w = (case f w of Inl e \<Rightarrow> (Inl e, w) | Inr x \<Rightarrow> g x w)"
  by (simp add: bindM_def askM_def)

end
