(* ===== verification/DeploymentStore.thy ===== *)
theory DeploymentStore
  imports ActiveState Documents
begin

text \<open>
  \<open>deployment.py\<close>, the part that touches the disk: the active state file, the immutable
  deployment records, run pins, the resolution of a run to the record and role it is served
  under, its provenance, and the projection published for the receiver.
\<close>

section \<open>The active state file\<close>

definition active_path :: "path \<Rightarrow> path" where
  "active_path data = data @ [''active.json'']"

definition load_state :: "(string \<Rightarrow> string) \<Rightarrow> world \<Rightarrow> path \<Rightarrow> bool \<Rightarrow> dict res" where
  "load_state sha w data allow_legacy =
     (if \<not> is_file w (active_path data) then Inr empty_state
      else bindE (rewrap (\<lambda>e. is_os_error e \<or> is_deployment_error e)
          (\<lambda>e. DeploymentError (''cannot read active deployment state: '' @ exn_text e))
          (read_document w (active_path data))) (\<lambda>parsed.
        validate_state sha parsed allow_legacy))"

section \<open>Immutable deployment records\<close>

definition deployment_record_path :: "path \<Rightarrow> json \<Rightarrow> path res" where
  "deployment_record_path data deployment_id =
     bindE (validate_safe_id deployment_id ''deployment_id'') (\<lambda>i.
     Inr (data @ [''deployments'', i @ ''.json'']))"

definition store_deployment :: "(string \<Rightarrow> string) \<Rightarrow> path \<Rightarrow> json \<Rightarrow> path wprog" where
  "store_deployment sha data rec =
     bindM (liftM (validate_deployment_record sha rec)) (\<lambda>checked.
     bindM (liftM (deployment_record_path data (dget checked ''deployment_id''))) (\<lambda>p.
     bindM (durable_create_json p (JObj checked)) (\<lambda>_. retM p)))"

definition load_deployment :: "(string \<Rightarrow> string) \<Rightarrow> world \<Rightarrow> path \<Rightarrow> json \<Rightarrow> dict res" where
  "load_deployment sha w data deployment_id =
     bindE (deployment_record_path data deployment_id) (\<lambda>p.
     if \<not> is_file w p
     then Inl (DeploymentError (''deployment record does not exist: '' @ str_of deployment_id))
     else rewrap is_deployment_error
       (\<lambda>e. DeploymentError (''deployment record is invalid: '' @ str_of deployment_id @ '': '' @ exn_text e))
       (bindE (read_document w p) (validate_deployment_record sha)))"

section \<open>Run pins\<close>

definition run_pin_path :: "world \<Rightarrow> path \<Rightarrow> json \<Rightarrow> path res" where
  "run_pin_path w data run_id =
     bindE (validate_safe_id run_id ''run_id'') (\<lambda>i.
     bindE (raiseIf (is_symlink w data)
       (DeploymentError ''deployment data directory must not be a symlink'')) (\<lambda>_.
     bindE (raiseIf (lexists w (data @ [''run-pins'']) \<and> lstat w (data @ [''run-pins'']) \<noteq> Some Dir)
       (DeploymentError (''run pin directory is not a directory: '' @ path_text (data @ [''run-pins''])))) (\<lambda>_.
     Inr (data @ [''run-pins'', i @ ''.lock'']))))"

definition open_pin :: "path \<Rightarrow> unit wprog" where
  "open_pin p w = (case lstat w p of
      None \<Rightarrow> put_file p [] w
    | Some (File c) \<Rightarrow> (Inr (), w)
    | Some n \<Rightarrow> (Inl (OSError (''cannot open '' @ path_text p)), w))"

definition run_pin :: "path \<Rightarrow> json \<Rightarrow> bool \<Rightarrow> bool \<Rightarrow> 'a wprog \<Rightarrow> 'a wprog" where
  "run_pin data run_id exclusive blocking body =
     bindM (getsM (\<lambda>w. run_pin_path w data run_id)) (\<lambda>r.
     bindM (liftM r) (\<lambda>p.
     bindM (make_dirs (butlast p)) (\<lambda>_.
     bindM (open_pin p) (\<lambda>_.
     bindM (acquire p (\<not> exclusive) blocking
       (DeploymentError (''run is pinned: '' @ str_of run_id))) (\<lambda>_.
     finallyM body (release p (\<not> exclusive)))))))"

text \<open>The probe takes the exclusive lock and gives it back, so it only reports a conflict.\<close>

definition run_is_pinned :: "world \<Rightarrow> path \<Rightarrow> json \<Rightarrow> bool res" where
  "run_is_pinned w data run_id =
     bindE (run_pin_path w data run_id) (\<lambda>p.
     if \<not> lexists w p then Inr False
     else bindE (raiseIf (is_symlink w p \<or> \<not> is_file w p)
       (DeploymentError (''run pin is not a regular file: '' @ path_text p))) (\<lambda>_.
     Inr (conflicts w p False)))"

section \<open>Which deployment serves a run\<close>

text \<open>The records of a directory that parse and validate, in the order of the file names.\<close>

definition json_entries :: "world \<Rightarrow> path \<Rightarrow> path list" where
  "json_entries w dir = map (\<lambda>n. dir @ [n]) (filter (\<lambda>n. endswith n ''.json'') (children w dir))"

definition valid_record_at :: "(string \<Rightarrow> string) \<Rightarrow> world \<Rightarrow> path \<Rightarrow> dict option res" where
  "valid_record_at sha w p =
     (case bindE (read_document w p) (validate_deployment_record sha) of
        Inr d \<Rightarrow> Inr (Some d)
      | Inl e \<Rightarrow> (if is_deployment_error e \<or> is_os_error e then Inr None else Inl e))"

text \<open>\<open>max\<close> with a key: the first of the greatest.\<close>

fun latest :: "dict \<Rightarrow> dict list \<Rightarrow> dict" where
  "latest best [] = best"
| "latest best (e # es) =
     latest (if str_of (dget best ''promoted_at'') < str_of (dget e ''promoted_at'') then e else best) es"

fun history_events :: "(string \<Rightarrow> string) \<Rightarrow> world \<Rightarrow> json \<Rightarrow> path list \<Rightarrow> dict list res" where
  "history_events sha w i [] = Inr []"
| "history_events sha w i (p # ps) =
     bindE (valid_record_at sha w p) (\<lambda>found.
     bindE (history_events sha w i ps) (\<lambda>events.
     Inr (case found of
            None \<Rightarrow> events
          | Some e \<Rightarrow> (if pyeq (dget e ''deployment_id'') i then e # events else events))))"

definition retained_record :: "(string \<Rightarrow> string) \<Rightarrow> world \<Rightarrow> path \<Rightarrow> dict \<Rightarrow> dict res" where
  "retained_record sha w data rec =
     (let history = data @ [''deployment-history'', str_of (dget rec ''deployment_id'')]
      in if \<not> is_dir w history then Inr rec
         else bindE (history_events sha w (dget rec ''deployment_id'') (json_entries w history)) (\<lambda>events.
           case events of [] \<Rightarrow> Inr rec | e # es \<Rightarrow> Inr (latest e es)))"

fun find_retained :: "(string \<Rightarrow> string) \<Rightarrow> world \<Rightarrow> path \<Rightarrow> json \<Rightarrow> path list \<Rightarrow> dict option res" where
  "find_retained sha w data run [] = Inr None"
| "find_retained sha w data run (p # ps) =
     bindE (valid_record_at sha w p) (\<lambda>found.
     case found of
       None \<Rightarrow> find_retained sha w data run ps
     | Some rec \<Rightarrow>
         (if pyeq (dget rec ''run_id'') run
          then bindE (retained_record sha w data rec) (\<lambda>r. Inr (Some r))
          else find_retained sha w data run ps))"

definition schema2_lookup ::
  "(string \<Rightarrow> string) \<Rightarrow> world \<Rightarrow> path \<Rightarrow> dict \<Rightarrow> json \<Rightarrow> (json \<times> string) option res" where
  "schema2_lookup sha w data state run =
     (let current = dget state ''current_deployment'';
          previous = dget state ''previous_deployment'';
          deployments = data @ [''deployments'']
      in if truthy current \<and> pyeq (dget (obj_of current) ''run_id'') run
         then Inr (Some (current, ''active''))
         else if truthy previous \<and> pyeq (dget (obj_of previous) ''run_id'') run
         then Inr (Some (previous, ''previous''))
         else if \<not> is_dir w deployments then Inr None
         else bindE (find_retained sha w data run (json_entries w deployments)) (\<lambda>found.
           Inr (map_option (\<lambda>rec. (JObj rec, ''retained'')) found)))"

definition deployment_for_run ::
  "(string \<Rightarrow> string) \<Rightarrow> world \<Rightarrow> path \<Rightarrow> json \<Rightarrow> (json \<times> string \<times> json) res" where
  "deployment_for_run sha w data run_id =
     bindE (load_state sha w data True) (\<lambda>state.
     (let run = (if truthy run_id then run_id else dget state ''current'')
      in bindE (raiseIf (\<not> truthy run) (DeploymentError ''there is no active deployment'')) (\<lambda>_.
         bindE (validate_safe_id run ''run_id'') (\<lambda>_.
         bindE (if pyeq (dget state ''schema_version'') (JInt DEPLOYMENT_SCHEMA_VERSION)
                then schema2_lookup sha w data state run else Inr None) (\<lambda>found.
         case found of
           Some (rec, role) \<Rightarrow> Inr (rec, role, run)
         | None \<Rightarrow> Inr (JNull,
             if pyeq run (dget state ''current'') then ''active'' else ''retained'', run))))))"

definition provenance :: "(string \<Rightarrow> string) \<Rightarrow> json \<Rightarrow> string \<Rightarrow> json \<Rightarrow> dict res" where
  "provenance sha rec role run_id =
     (let roles =
       [(''role'', JStr role), (''active'', JBool (role = ''active'')),
        (''retained'', JBool (role \<noteq> ''active''))]
      in if rec = JNull
         then Inr ([(''deployment_id'', JNull), (''snapshot_id'', JNull), (''run_id'', run_id)] @ roles)
         else bindE (validate_deployment_record sha rec) (\<lambda>checked. Inr (dmerge checked roles)))"

section \<open>The redacted projection\<close>

definition projection_field :: "json \<Rightarrow> string \<Rightarrow> json" where
  "projection_field deployment f =
     (if truthy deployment then dget (obj_of deployment) f else JStr [])"

definition current_projection :: "(string \<Rightarrow> string) \<Rightarrow> json \<Rightarrow> dict res" where
  "current_projection sha state =
     bindE (validate_state sha state True) (\<lambda>checked.
     (let v2 = pyeq (dget checked ''schema_version'') (JInt DEPLOYMENT_SCHEMA_VERSION)
      in bindE (raiseIf (\<not> v2 \<and> truthy (dget checked ''current''))
          (DeploymentError
            ''cannot publish schema-v2 current projection for unadopted legacy state'')) (\<lambda>_.
        (let deployment = (if v2 then dget checked ''current_deployment'' else JNull);
             promoted = projection_field deployment ''promoted_at''
         in Inr
          [(''schema_version'', JInt DEPLOYMENT_SCHEMA_VERSION),
           (''current_deployment_id'', projection_field deployment ''deployment_id''),
           (''snapshot_id'', projection_field deployment ''snapshot_id''),
           (''run_id'', projection_field deployment ''run_id''),
           (''source_fingerprint'', projection_field deployment ''source_fingerprint''),
           (''artifact_fingerprint'', projection_field deployment ''artifact_fingerprint''),
           (''logical_fingerprint'', projection_field deployment ''logical_fingerprint''),
           (''homeops_version'', projection_field deployment ''homeops_version''),
           (''source_revision'', projection_field deployment ''source_revision''),
           (''image_digest'', projection_field deployment ''image_digest''),
           (''snapshot_contract_version'', projection_field deployment ''snapshot_contract_version''),
           (''build_contract_version'', projection_field deployment ''build_contract_version''),
           (''promoted_at'', if truthy promoted then promoted else JStr [])]))))"

definition projection_path :: "path \<Rightarrow> path" where
  "projection_path root = root @ [''pipeline-state'', ''current.json'']"

definition publish_current_projection ::
  "(string \<Rightarrow> string) \<Rightarrow> path \<Rightarrow> json option \<Rightarrow> dict wprog" where
  "publish_current_projection sha root state =
     bindM (case state of
         Some s \<Rightarrow> retM s
       | None \<Rightarrow> bindM (getsM (\<lambda>w. load_state sha w (root @ [''data'']) True)) (\<lambda>r.
           bindM (liftM r) (\<lambda>s. retM (JObj s)))) (\<lambda>selected.
     bindM (liftM (current_projection sha selected)) (\<lambda>projection.
     bindM (durable_atomic_canonical_json (projection_path root) (JObj projection)) (\<lambda>_.
     retM projection)))"

section \<open>Validity survives the canonical key order\<close>

definition canon :: "dict \<Rightarrow> dict" where
  "canon d = obj_of (jsort (JObj d))"

lemma jsort_JObj: "jsort (JObj d) = JObj (canon d)"
  by (simp add: canon_def)

lemma dget_canon: "wf_json (JObj d) \<Longrightarrow> dget (canon d) f = jsort (dget d f)"
  unfolding canon_def by (rule dget_jsort)

lemma dkeys_canon: "set (dkeys (canon d)) = set (dkeys d)"
  by (simp add: canon_def dkeys_def image_image)

lemma jsort_leaf_iff [simp]:
  "jsort v = JStr s \<longleftrightarrow> v = JStr s" "jsort v = JInt i \<longleftrightarrow> v = JInt i"
  "jsort v = JNull \<longleftrightarrow> v = JNull" "is_str (jsort v) \<longleftrightarrow> is_str v"
  by (cases v; simp)+

lemma identity_of_canon:
  assumes "wf_json (JObj d)" "valid_record sha d"
  shows "identity_of (canon d) = identity_of d"
  unfolding identity_of_def
proof (rule map_cong [OF refl])
  fix f assume "f \<in> set identity_fields"
  from identity_leaf [OF assms(2) this] dget_canon [OF assms(1), of f]
  show "(f, dget (canon d) f) = (f, dget d f)" by auto
qed

lemma valid_record_canon:
  assumes "wf_json (JObj d)" "valid_record sha d"
  shows "valid_record sha (canon d)"
  using assms(2) unfolding valid_record_def identity_of_canon [OF assms] same_fields_def
    dget_canon [OF assms(1)] dkeys_canon safe_id_json_def sha256_field_def nonempty_str_def
    jsort_leaf_iff by assumption

lemma valid_slot_canon:
  assumes "valid_slot sha v run" "wf_json v"
  shows "valid_slot sha (jsort v) (jsort run)" "slot_of (jsort v) = map_option canon (slot_of v)"
  using assms(1)
proof (atomize(full), cases rule: valid_slot_cases)
  case (2 d)
  then have "dget (canon d) ''run_id'' = jsort (dget d ''run_id'')"
    using assms(2) by (intro dget_canon) simp
  moreover have "valid_record sha (canon d)"
    using 2 assms(2) by (intro valid_record_canon) simp_all
  ultimately show "valid_slot sha (jsort v) (jsort run) \<and> slot_of (jsort v) = map_option canon (slot_of v)"
    by (simp only: 2 jsort_JObj slot_of.simps option.map valid_slot_def json.case simp_thms)
qed (simp_all add: valid_slot_def)

lemma valid_state_canon:
  assumes "wf_json (JObj st)" "valid_state sha st"
  shows "valid_state sha (canon st)"
    and "abs_state (canon st) = map_prod (map_option canon) (map_option canon) (abs_state st)"
proof -
  have wf: "wf_json (dget st f)" for f using assms(1) by (rule wf_dget)
  note slots = valid_state_slots [OF assms(2)]
  show "valid_state sha (canon st)"
    using assms(2) valid_slot_canon(1) [OF slots(1) wf] valid_slot_canon(1) [OF slots(2) wf]
    unfolding valid_state_def same_fields_def dget_canon [OF assms(1)] dkeys_canon
    by simp
  show "abs_state (canon st) = map_prod (map_option canon) (map_option canon) (abs_state st)"
    using valid_slot_canon(2) [OF slots(1) wf] valid_slot_canon(2) [OF slots(2) wf]
    by (simp add: abs_state_def dget_canon [OF assms(1)])
qed

lemma file_at_of_document: "read_document w p = Inr v \<Longrightarrow> is_file w p"
  by (auto simp: read_document_def read_text_def read_bytes_file_at is_file_file_at bindE_eq_Inr
      split: option.splits)

lemma load_state_document:
  "read_document w (active_path data) = Inr v \<Longrightarrow> load_state sha w data legacy = validate_state sha v legacy"
  by (simp add: load_state_def file_at_of_document rewrap_def)

lemma load_state_cong:
  "file_at w (active_path data) = file_at w' (active_path data) \<Longrightarrow>
     load_state sha w data legacy = load_state sha w' data legacy"
  using read_document_cong [of w "active_path data" w']
  by (simp add: load_state_def is_file_file_at)

lemma load_state_saved:
  assumes "durable_atomic_json (active_path data) (JObj st) w = (Inr (), w')"
    and "wf_json (JObj st)" "valid_state sha st"
  shows "load_state sha w' data False = Inr (canon st)"
  using load_state_document [OF durable_json.written [OF assms(1,2)], of sha False]
    valid_state_canon(1) [OF assms(2,3)]
  by (simp only: jsort_JObj validate_state_valid)

section \<open>Stored records, roles, projection\<close>

lemma store_deployment_Inr:
  assumes "store_deployment sha data v w = (Inr p, w')"
  obtains d i where "v = JObj d" "valid_record sha d" "dget d ''deployment_id'' = JStr i"
    "p = data @ [''deployments'', i @ ''.json'']" "durable_create_json p (JObj d) w = (Inr (), w')"
proof -
  from assms obtain d where d: "v = JObj d" "valid_record sha d"
    by (auto simp: store_deployment_def bindM_liftM validate_deployment_record_Inr split: sum.splits)
  obtain i where i: "dget d ''deployment_id'' = JStr i" "safe_id i"
    using valid_record_ids(3) [OF d(2)] by blast
  from assms have "p = data @ [''deployments'', i @ ''.json'']" "durable_create_json p (JObj d) w = (Inr (), w')"
    by (auto simp: store_deployment_def d validate_deployment_record_obj [THEN iffD2] deployment_record_path_def
        validate_safe_id_def i bindM_eq_Inr)
  with d i that show thesis by blast
qed

lemma store_deployment_keeps:
  assumes "store_deployment sha data v w = (r, w')" "file_at w q = Some c"
  shows "file_at w' q = Some c"
proof (cases "validate_deployment_record sha v")
  case (Inl e)
  with assms show ?thesis by (simp add: store_deployment_def)
next
  case (Inr d)
  show ?thesis
  proof (cases "deployment_record_path data (dget d ''deployment_id'')")
    case (Inl e)
    with assms \<open>validate_deployment_record sha v = Inr d\<close> show ?thesis by (simp add: store_deployment_def)
  next
    case (Inr p)
    obtain r' s where "durable_create_json p (JObj d) w = (r', s)" by (cases "durable_create_json p (JObj d) w")
    moreover from this have "w' = s"
      using assms(1) Inr \<open>validate_deployment_record sha v = Inr d\<close>
      by (cases r') (auto simp: store_deployment_def bindM_def)
    ultimately show ?thesis using assms(2) durable_create_json_keeps by blast
  qed
qed

lemma load_deployment_document:
  assumes "read_document w (data @ [''deployments'', i @ ''.json'']) = Inr v" "safe_id i"
  shows "load_deployment sha w data (JStr i) = rewrap is_deployment_error
    (\<lambda>e. DeploymentError (''deployment record is invalid: '' @ i @ '': '' @ exn_text e))
    (validate_deployment_record sha v)"
  using assms file_at_of_document [OF assms(1)]
  by (simp add: load_deployment_def deployment_record_path_def validate_safe_id_def)

lemma valid_record_at_Some:
  "valid_record_at sha w p = Inr (Some d) \<Longrightarrow> valid_record sha d"
  by (auto simp: valid_record_at_def bindE_eq_Inr validate_deployment_record_Inr split: sum.splits if_splits)

lemma history_events_valid:
  "history_events sha w i ps = Inr es \<Longrightarrow> e \<in> set es \<Longrightarrow>
     valid_record sha e \<and> pyeq (dget e ''deployment_id'') i"
proof (induction ps arbitrary: es)
  case (Cons p ps)
  from Cons.prems(1) obtain found rest where f: "valid_record_at sha w p = Inr found"
    "history_events sha w i ps = Inr rest"
    "es = (case found of None \<Rightarrow> rest
       | Some d \<Rightarrow> (if pyeq (dget d ''deployment_id'') i then d # rest else rest))"
    by (auto simp: bindE_eq_Inr)
  show ?case
  proof (cases found)
    case None
    with f Cons.IH [OF f(2)] Cons.prems(2) show ?thesis by simp
  next
    case (Some d)
    with f(1) have "valid_record sha d" by (auto dest: valid_record_at_Some)
    with Some f(3) Cons.IH [OF f(2)] Cons.prems(2) show ?thesis by (auto split: if_splits)
  qed
qed simp

lemma latest_in: "latest e es \<in> insert e (set es)"
proof (induction es arbitrary: e)
  case (Cons x es)
  show ?case
    using Cons [of x] Cons [of e] by auto
qed simp

lemma retained_record_same:
  assumes "retained_record sha w data rec = Inr d" "valid_record sha rec"
  shows "valid_record sha d \<and> dget d ''deployment_id'' = dget rec ''deployment_id''"
proof -
  obtain i where i: "dget rec ''deployment_id'' = JStr i" using valid_record_ids(3) [OF assms(2)] by blast
  have "d = rec \<or> (\<exists>es e es'. history_events sha w (dget rec ''deployment_id'') es = Inr (e # es') \<and> d = latest e es')"
  proof (cases "is_dir w (data @ [''deployment-history'', str_of (dget rec ''deployment_id'')])")
    case True
    with assms(1) obtain es ps where
      es: "history_events sha w (dget rec ''deployment_id'') ps = Inr es"
        "(case es of [] \<Rightarrow> Inr rec | e # es \<Rightarrow> Inr (latest e es)) = (Inr d :: dict res)"
      by (auto simp: retained_record_def Let_def bindE_eq_Inr)
    then show ?thesis by (cases es) auto
  qed (use assms(1) in \<open>auto simp: retained_record_def Let_def\<close>)
  then consider "d = rec" | es e es' where
      "history_events sha w (dget rec ''deployment_id'') es = Inr (e # es')" "d = latest e es'"
    by blast
  then show ?thesis
  proof cases
    case 2
    with latest_in [of e es'] history_events_valid [OF 2(1), of d] i show ?thesis by auto
  qed (simp add: assms(2))
qed

lemma find_retained_Some:
  "find_retained sha w data run ps = Inr (Some d) \<Longrightarrow>
     \<exists>rec. valid_record sha rec \<and> pyeq (dget rec ''run_id'') run \<and> valid_record sha d
       \<and> dget d ''deployment_id'' = dget rec ''deployment_id''"
proof (induction ps)
  case (Cons p ps)
  from Cons.prems obtain found where f: "valid_record_at sha w p = Inr found"
    and rest: "(case found of None \<Rightarrow> find_retained sha w data run ps
     | Some rec \<Rightarrow> (if pyeq (dget rec ''run_id'') run
          then bindE (retained_record sha w data rec) (\<lambda>r. Inr (Some r))
          else find_retained sha w data run ps)) = Inr (Some d)"
    by (auto simp: bindE_eq_Inr)
  show ?case
  proof (cases found)
    case None
    with rest Cons.IH show ?thesis by simp
  next
    case (Some rec)
    with f have "valid_record sha rec" by (auto dest: valid_record_at_Some)
    with Some rest Cons.IH retained_record_same [of sha w data rec d] show ?thesis
      by (auto simp: bindE_eq_Inr split: if_splits)
  qed
qed simp

lemma load_state_v2_valid:
  assumes "load_state sha w data True = Inr st" "pyeq (dget st ''schema_version'') (JInt 2)"
  shows "valid_state sha st"
proof (cases "is_file w (active_path data)")
  case True
  with assms(1) obtain v where v: "validate_state sha v True = Inr st"
    by (auto simp: load_state_def bindE_eq_Inr)
  then obtain o' where o: "v = JObj o'" by (cases v) (auto simp: validate_state_def)
  show ?thesis
  proof (cases "pyeq (dget o' ''schema_version'') (JInt 1)")
    case True
    with v o have "st = o'" by (auto simp: validate_state_def bindE_eq_Inr)
    with True assms(2) show ?thesis by (auto simp: pyeq_JInt)
  next
    case False
    with v o validate_state_obj [of o' True sha st] show ?thesis by simp
  qed
next
  case False
  with assms(1) show ?thesis by (simp add: load_state_def valid_empty_state)
qed

lemma schema2_lookup_Some:
  assumes "schema2_lookup sha w data st run = Inr (Some (JObj d, role))"
  shows "dget st ''current_deployment'' = JObj d \<and> pyeq (dget d ''run_id'') run
    \<or> dget st ''previous_deployment'' = JObj d \<and> pyeq (dget d ''run_id'') run \<and> role = ''previous''
    \<or> find_retained sha w data run (json_entries w (data @ [''deployments''])) = Inr (Some d)
        \<and> role = ''retained''"
proof -
  let ?cur = "dget st ''current_deployment''" and ?prev = "dget st ''previous_deployment''"
  note run = assms [unfolded schema2_lookup_def Let_def]
  consider "truthy ?cur \<and> pyeq (dget (obj_of ?cur) ''run_id'') run"
    | "\<not> (truthy ?cur \<and> pyeq (dget (obj_of ?cur) ''run_id'') run)"
      "truthy ?prev \<and> pyeq (dget (obj_of ?prev) ''run_id'') run"
    | "\<not> (truthy ?cur \<and> pyeq (dget (obj_of ?cur) ''run_id'') run)"
      "\<not> (truthy ?prev \<and> pyeq (dget (obj_of ?prev) ''run_id'') run)" by blast
  then show ?thesis
  proof cases
    case 3
    with run have "bindE (find_retained sha w data run (json_entries w (data @ [''deployments'']))) (\<lambda>found.
           Inr (map_option (\<lambda>rec. (JObj rec, ''retained'')) found)) = Inr (Some (JObj d, role))"
      by (simp only: if_False split: if_split_asm) simp
    then show ?thesis unfolding bindE_eq_Inr by auto
  next
    case 1
    with run have "?cur = JObj d" by simp
    with 1 show ?thesis by simp
  next
    case 2
    with run have "?prev = JObj d \<and> role = ''previous''" by simp
    with 2 show ?thesis by simp
  qed
qed

definition projection_fields :: "string list" where
  "projection_fields =
    [''schema_version'', ''current_deployment_id'', ''snapshot_id'', ''run_id'', ''source_fingerprint'',
     ''artifact_fingerprint'', ''logical_fingerprint'', ''homeops_version'', ''source_revision'',
     ''image_digest'', ''snapshot_contract_version'', ''build_contract_version'', ''promoted_at'']"

definition copied_fields :: "string list" where
  "copied_fields =
    [''snapshot_id'', ''run_id'', ''source_fingerprint'', ''artifact_fingerprint'', ''logical_fingerprint'',
     ''homeops_version'', ''source_revision'', ''image_digest'', ''snapshot_contract_version'',
     ''build_contract_version'']"

definition shown_field :: "dict option \<Rightarrow> string \<Rightarrow> json" where
  "shown_field cur f = (case cur of None \<Rightarrow> JStr [] | Some d \<Rightarrow> dget d f)"

lemma validate_state_any: "valid_state sha st \<Longrightarrow> validate_state sha (JObj st) legacy = Inr st"
  using validate_state_obj [of st legacy sha st] by (simp add: valid_state_def)

lemma projection_field_slot:
  "valid_slot sha v run \<Longrightarrow> projection_field v f = shown_field (slot_of v) f"
  by (erule valid_slot_cases) (simp_all add: projection_field_def shown_field_def)

lemma current_projection_valid:
  assumes "valid_state sha st"
  obtains pr where "current_projection sha (JObj st) = Inr pr" "dkeys pr = projection_fields"
    "\<forall>f \<in> set copied_fields. dget pr f = shown_field (fst (abs_state st)) f"
    "dget pr ''current_deployment_id'' = shown_field (fst (abs_state st)) ''deployment_id''"
    "\<exists>s. dget pr ''promoted_at'' = JStr s" "dget pr ''schema_version'' = JInt 2"
proof -
  have v2: "dget st ''schema_version'' = JInt 2" using assms by (simp add: valid_state_def)
  note slot = valid_state_slots(1) [OF assms]
  define cur where "cur = fst (abs_state st)"
  have field: "projection_field (dget st ''current_deployment'') f = shown_field cur f" for f
    unfolding cur_def abs_state_def fst_conv using slot by (rule projection_field_slot)
  have promoted: "\<exists>s. (if truthy (shown_field cur ''promoted_at'') then shown_field cur ''promoted_at'' else JStr []) = JStr s"
    using slot
  proof (cases rule: valid_slot_cases)
    case (2 d)
    then have "cur = Some d" "valid_record sha d" by (simp_all add: cur_def abs_state_def)
    then show ?thesis by (auto simp: shown_field_def valid_record_def nonempty_str_def)
  qed (simp add: cur_def abs_state_def shown_field_def)
  define pr where "pr =
    [(''schema_version'', JInt 2), (''current_deployment_id'', shown_field cur ''deployment_id''),
     (''snapshot_id'', shown_field cur ''snapshot_id''), (''run_id'', shown_field cur ''run_id''),
     (''source_fingerprint'', shown_field cur ''source_fingerprint''),
     (''artifact_fingerprint'', shown_field cur ''artifact_fingerprint''),
     (''logical_fingerprint'', shown_field cur ''logical_fingerprint''),
     (''homeops_version'', shown_field cur ''homeops_version''),
     (''source_revision'', shown_field cur ''source_revision''),
     (''image_digest'', shown_field cur ''image_digest''),
     (''snapshot_contract_version'', shown_field cur ''snapshot_contract_version''),
     (''build_contract_version'', shown_field cur ''build_contract_version''),
     (''promoted_at'', if truthy (shown_field cur ''promoted_at'')
        then shown_field cur ''promoted_at'' else JStr [])]"
  show thesis
  proof (rule that [of pr])
    show "current_projection sha (JObj st) = Inr pr"
      unfolding current_projection_def validate_state_any [OF assms] bindE_simps Let_def v2
        DEPLOYMENT_SCHEMA_VERSION_def
      by (simp add: raiseIf_def field pr_def)
    show "dkeys pr = projection_fields" by (simp add: pr_def projection_fields_def)
    show "\<forall>f \<in> set copied_fields. dget pr f = shown_field (fst (abs_state st)) f"
      by (simp add: pr_def copied_fields_def cur_def)
    show "dget pr ''current_deployment_id'' = shown_field (fst (abs_state st)) ''deployment_id''"
      by (simp add: pr_def cur_def)
    show "\<exists>s. dget pr ''promoted_at'' = JStr s" using promoted by (simp add: pr_def)
    show "dget pr ''schema_version'' = JInt 2" by (simp add: pr_def)
  qed
qed

lemma shown_field_wf:
  assumes "valid_state sha st" "f \<in> insert ''deployment_id'' (set copied_fields)"
  shows "wf_json (shown_field (fst (abs_state st)) f)"
  using valid_state_slots(1) [OF assms(1)]
proof (cases rule: valid_slot_cases)
  case (2 d)
  then have slot: "fst (abs_state st) = Some d" by (simp add: abs_state_def)
  show ?thesis
  proof (cases "f = ''deployment_id''")
    case True
    with valid_record_ids(3) [OF 2(2)] slot show ?thesis by (auto simp: shown_field_def)
  next
    case False
    with assms(2) have "f \<in> set identity_fields"
      by (auto simp: copied_fields_def identity_fields_def)
    from identity_leaf [OF 2(2) this] slot show ?thesis by (auto simp: shown_field_def)
  qed
qed (simp add: abs_state_def shown_field_def)

lemma wf_json_fields:
  assumes "distinct (dkeys d)" "\<forall>f \<in> set (dkeys d). wf_json (dget d f)"
  shows "wf_json (JObj d)"
proof -
  have "wf_json v" if "(k, v) \<in> set d" for k v
  proof -
    have "map_of d k = Some v" using assms(1) that by (simp add: dkeys_def)
    with assms(2) that show ?thesis by (force simp: dget_def dkeys_def)
  qed
  with assms(1) show ?thesis by (auto simp: dkeys_def list_all_iff)
qed

lemma projection_wf:
  assumes "dkeys pr = projection_fields"
    and shown: "\<And>f. f \<in> insert ''deployment_id'' (set copied_fields) \<Longrightarrow> wf_json (shown_field cur f)"
    and "\<forall>f \<in> set copied_fields. dget pr f = shown_field cur f"
    and "dget pr ''current_deployment_id'' = shown_field cur ''deployment_id''"
    and "\<exists>s. dget pr ''promoted_at'' = JStr s" "dget pr ''schema_version'' = JInt 2"
  shows "wf_json (JObj pr)"
proof (rule wf_json_fields)
  show "distinct (dkeys pr)" by (simp add: assms(1) projection_fields_def)
  have "set projection_fields = {''schema_version'', ''current_deployment_id'', ''promoted_at''} \<union> set copied_fields"
    by (auto simp: projection_fields_def copied_fields_def)
  with assms show "\<forall>f \<in> set (dkeys pr). wf_json (dget pr f)" by auto
qed

section \<open>Properties\<close>


definition fresh_world :: world where
  "fresh_world = \<lparr>tree = [([''d''], Dir)], faults = [], holders = [], clock = nat_dec, ticks = 0, pid = 1\<rparr>"

lemma fresh_put: "put_file [''d'', n] c fresh_world =
  (Inr (), fresh_world\<lparr>tree := [([''d''], Dir), ([''d'', n], File c)]\<rparr>)"
  by (simp add: put_file_def durable_def fresh_world_def parents_ok_def is_dir_def stat_def lstat_def
      lexists_def add_dirs_def add_dir_def upt_rec)


text \<open>C14: a deployment record is immutable on disk: storing never changes the bytes of a file that
  exists, a successful store leaves a record that loads back as the stored one, and repeating it
  succeeds without a change.\<close>

theorem stored_deployment_immutable:
  assumes "store_deployment sha data v w = (r, w')"
  shows "(\<forall>q c. file_at w q = Some c \<longrightarrow> file_at w' q = Some c) \<and>
    (case r of Inl e \<Rightarrow> True
     | Inr p \<Rightarrow> store_deployment sha data v w' = (Inr p, w') \<and>
         (\<forall>d. v = JObj d \<and> wf_json v \<longrightarrow>
           load_deployment sha w' data (dget d ''deployment_id'') = Inr (canon d)))"
proof (cases r)
  case (Inl e)
  with store_deployment_keeps [OF assms] show ?thesis by simp
next
  case (Inr p)
  with assms obtain d i where d: "v = JObj d" "valid_record sha d" "dget d ''deployment_id'' = JStr i"
    "p = data @ [''deployments'', i @ ''.json'']" "durable_create_json p (JObj d) w = (Inr (), w')"
    by (auto elim: store_deployment_Inr)
  have i: "safe_id i" using valid_record_ids(3) [OF d(2)] d(3) by auto
  have path: "deployment_record_path data (JStr i) = Inr p"
    by (simp add: deployment_record_path_def validate_safe_id_def i d(4))
  have again: "store_deployment sha data v w' = (Inr p, w')"
    using durable_create_json_retry [OF d(5)] d(2,3) path
    by (simp add: store_deployment_def d(1) validate_deployment_record_obj [THEN iffD2] bindM_def)
  have "load_deployment sha w' data (JStr i) = Inr (canon d)" if "wf_json v"
    using load_deployment_document [OF durable_create_json_read [OF d(5), unfolded d(4)] i, of sha]
      that d(1) valid_record_canon [OF _ d(2)]
    by (simp only: jsort_JObj) (simp add: rewrap_def validate_deployment_record_obj [THEN iffD2])
  with again Inr d(1,3) store_deployment_keeps [OF assms] show ?thesis by simp
qed

theorem stored_deployment_immutable_witness:
  "\<exists>w' p. store_deployment sample_sha [''d''] (JObj sample_a) w' = (Inr p, w')"
proof -
  obtain w' where "put_file [''d'', ''deployments'', replicate 64 (CHR ''a'') @ ''.json''] (dumps_indent (JObj sample_a))
      fresh_world = (Inr (), w')"
    by (auto simp: put_file_def durable_def fresh_world_def parents_ok_def is_dir_def stat_def lstat_def
      lexists_def upt_rec)
  then have "store_deployment sample_sha [''d''] (JObj sample_a) fresh_world
      = (Inr [''d'', ''deployments'', replicate 64 (CHR ''a'') @ ''.json''], w')"
    using sample_ids(1)
    by (simp add: store_deployment_def validate_deployment_record_obj [THEN iffD2] bindM_def
      deployment_record_path_def validate_safe_id_def durable_create_json_def)
      (simp add: fresh_world_def lexists_def lstat_def)
  from stored_deployment_immutable [OF this] show ?thesis by auto
qed

text \<open>C15: a run is only ever served with a deployment that is valid and belongs to it: the record
  returned has the deployment id of a valid record of that run, and the role \<open>active\<close> is given to
  the deployment in the current slot only.\<close>

theorem deployment_for_run_sound:
  assumes "deployment_for_run sha w data run_id = Inr (JObj d, role, run)"
  shows "valid_record sha d
    \<and> (\<exists>rec. valid_record sha rec \<and> dget rec ''run_id'' = run
        \<and> dget d ''deployment_id'' = dget rec ''deployment_id'')
    \<and> (role = ''active'' \<longrightarrow>
        (\<exists>st. load_state sha w data True = Inr st \<and> dget st ''current_deployment'' = JObj d))"
proof -
  define found where "found st = (if pyeq (dget st ''schema_version'') (JInt DEPLOYMENT_SCHEMA_VERSION)
      then schema2_lookup sha w data st run else Inr None)" for st
  obtain st where st: "load_state sha w data True = Inr st" "found st = Inr (Some (JObj d, role))"
  proof -
    from assms obtain st x where "load_state sha w data True = Inr st" "found st = Inr x"
      "(case x of Some (rec, role) \<Rightarrow> Inr (rec, role, run)
         | None \<Rightarrow> Inr (JNull, if pyeq run (dget st ''current'') then ''active'' else ''retained'', run))
       = (Inr (JObj d, role, run) :: (json \<times> string \<times> json) res)"
      unfolding found_def deployment_for_run_def bindE_eq_Inr Let_def
      by (auto split: option.split_asm)
    with that show thesis by (cases x) auto
  qed
  have look: "schema2_lookup sha w data st run = Inr (Some (JObj d, role))"
    and v2: "pyeq (dget st ''schema_version'') (JInt 2)"
    using st(2) by (auto simp: found_def DEPLOYMENT_SCHEMA_VERSION_def split: if_split_asm)
  have v: "valid_state sha st" using st(1) v2 by (rule load_state_v2_valid)
  have slot: "valid_record sha c \<and> (\<exists>s. dget c ''run_id'' = JStr s)"
    if "valid_slot sha (JObj c) r" for c r
    using that valid_record_ids(1) by (auto simp: valid_slot_def)
  from schema2_lookup_Some [OF look] show ?thesis
  proof (elim disjE conjE)
    assume cur: "dget st ''current_deployment'' = JObj d" "pyeq (dget d ''run_id'') run"
    from slot [OF valid_state_slots(1) [OF v, unfolded cur(1)]] cur st(1) show ?thesis by auto
  next
    assume prev: "dget st ''previous_deployment'' = JObj d" "pyeq (dget d ''run_id'') run" "role = ''previous''"
    from slot [OF valid_state_slots(2) [OF v, unfolded prev(1)]] prev show ?thesis by auto
  next
    assume f: "find_retained sha w data run (json_entries w (data @ [''deployments''])) = Inr (Some d)"
      "role = ''retained''"
    from find_retained_Some [OF f(1)] obtain rec where rec: "valid_record sha rec"
      "pyeq (dget rec ''run_id'') run" "valid_record sha d"
      "dget d ''deployment_id'' = dget rec ''deployment_id''" by blast
    from valid_record_ids(1) [OF rec(1)] rec f(2) show ?thesis by auto
  qed
qed

lemma sample_served:
  "\<exists>w. deployment_for_run sample_sha w [''d''] JNull = Inr (JObj (canon sample_a), ''active'', JStr ''run-a'')"
proof -
  define st where "st = mk_state (JStr ''run-a'') JNull (JObj sample_a) JNull (JStr ''t0'')"
  have wfa: "wf_json (JObj sample_a)" by (simp add: sample_a_def sample_record_def)
  have wf: "wf_json (JObj st)" using wfa by (simp add: st_def mk_state_def)
  have run: "dget sample_a ''run_id'' = JStr ''run-a''" by (simp add: sample_a_def sample_record_def)
  have v: "valid_state sample_sha st"
    unfolding st_def run [symmetric]
    by (intro valid_mk_state valid_slot_record samples_valid) (simp_all add: valid_slot_def nonempty_str_def)
  obtain w where w: "durable_atomic_json (active_path [''d'']) (JObj st) fresh_world = (Inr (), w)"
    using fresh_put [of "''active.json''"] by (simp add: durable_atomic_json_def active_path_def)
  have load: "load_state sample_sha w [''d''] True = Inr (canon st)"
    using load_state_document [OF durable_json.written [OF w wf], of sample_sha True]
      valid_state_canon(1) [OF wf v]
    by (simp only: jsort_JObj validate_state_any)
  have cur: "dget (canon st) ''current_deployment'' = JObj (canon sample_a)"
    "dget (canon st) ''current'' = JStr ''run-a''" "dget (canon st) ''schema_version'' = JInt 2"
    unfolding dget_canon [OF wf]
    by (simp_all add: st_def mk_state_def DEPLOYMENT_SCHEMA_VERSION_def jsort_JObj del: jsort.simps(2))
  have "truthy (JObj (canon sample_a))"
    using valid_record_nonempty [OF valid_record_canon [OF wfa samples_valid(1)]] by simp
  moreover have "dget (canon sample_a) ''run_id'' = JStr ''run-a''"
    by (simp add: dget_canon [OF wfa] run)
  ultimately have "schema2_lookup sample_sha w [''d''] (canon st) (JStr ''run-a'')
      = Inr (Some (JObj (canon sample_a), ''active''))"
    by (simp add: schema2_lookup_def cur Let_def)
  then have "deployment_for_run sample_sha w [''d''] JNull = Inr (JObj (canon sample_a), ''active'', JStr ''run-a'')"
    unfolding deployment_for_run_def load bindE_simps cur
    by (simp add: raiseIf_def validate_safe_id_def sample_text DEPLOYMENT_SCHEMA_VERSION_def)
  then show ?thesis by blast
qed

theorem deployment_for_run_sound_witness:
  "\<exists>w st. load_state sample_sha w [''d''] True = Inr st
     \<and> dget st ''current_deployment'' = JObj (canon sample_a)"
proof -
  from sample_served obtain w where
    "deployment_for_run sample_sha w [''d''] JNull = Inr (JObj (canon sample_a), ''active'', JStr ''run-a'')"
    by blast
  from deployment_for_run_sound [OF this] show ?thesis by blast
qed

text \<open>The published projection is exact and redacted: it has the thirteen fields of the receiver
  contract and no other, each copied from the current deployment (empty without one), nothing of
  the previous deployment, and publishing leaves exactly this document in \<open>current.json\<close> and
  touches no other file.\<close>

theorem published_projection_exact:
  assumes "validate_state sha (JObj st) False = Inr st"
    and "publish_current_projection sha root (Some (JObj st)) w = (Inr pr, w')"
  shows "dkeys pr = projection_fields
    \<and> (\<forall>f \<in> set copied_fields. dget pr f = shown_field (fst (abs_state st)) f)
    \<and> dget pr ''current_deployment_id'' = shown_field (fst (abs_state st)) ''deployment_id''
    \<and> read_document w' (projection_path root) = Inr (JObj pr)
    \<and> (\<forall>q. q \<noteq> projection_path root \<longrightarrow> file_at w' q = file_at w q)"
proof -
  have v: "valid_state sha st" using assms(1) by (simp add: validate_state_Inr)
  from v obtain pr' where p: "current_projection sha (JObj st) = Inr pr'" "dkeys pr' = projection_fields"
    "\<forall>f \<in> set copied_fields. dget pr' f = shown_field (fst (abs_state st)) f"
    "dget pr' ''current_deployment_id'' = shown_field (fst (abs_state st)) ''deployment_id''"
    "\<exists>s. dget pr' ''promoted_at'' = JStr s" "dget pr' ''schema_version'' = JInt 2"
    by (rule current_projection_valid)
  from assms(2) p(1) have pr: "pr' = pr"
    and w': "durable_atomic_canonical_json (projection_path root) (JObj pr) w = (Inr (), w')"
    by (auto simp: publish_current_projection_def bindM_eq_Inr)
  have "wf_json (JObj pr')"
    using p(2) shown_field_wf [OF v] p(3-6) by (rule projection_wf)
  with receiver_json.written [OF w'] receiver_json.frame [OF w'] p pr show ?thesis by auto
qed

theorem published_projection_exact_witness:
  "\<exists>pr w'. publish_current_projection sample_sha [''d''] (Some (JObj empty_state)) fresh_world = (Inr pr, w')
     \<and> dget pr ''run_id'' = JStr [] \<and> read_document w' [''d'', ''pipeline-state'', ''current.json''] = Inr (JObj pr)"
proof -
  obtain pr where pr: "current_projection sample_sha (JObj empty_state) = Inr pr"
    using current_projection_valid [OF valid_empty_state] by blast
  obtain w' where "put_file [''d'', ''pipeline-state'', ''current.json''] (receiver_json_bytes (JObj pr)) fresh_world
      = (Inr (), w')"
    by (simp add: put_file_def durable_def fresh_world_def parents_ok_def is_dir_def stat_def lstat_def
      lexists_def upt_rec)
  then have run: "publish_current_projection sample_sha [''d''] (Some (JObj empty_state)) fresh_world = (Inr pr, w')"
    by (simp add: publish_current_projection_def pr bindM_def durable_atomic_canonical_json_def projection_path_def)
  from published_projection_exact [OF validate_state_valid [OF valid_empty_state] run]
  have "\<forall>f \<in> set copied_fields. dget pr f = JStr []"
    "read_document w' [''d'', ''pipeline-state'', ''current.json''] = Inr (JObj pr)"
    by (simp_all add: shown_field_def abs_empty_state projection_path_def)
  moreover have "''run_id'' \<in> set copied_fields" by (simp add: copied_fields_def)
  ultimately show ?thesis using run by blast
qed

end
