(* ===== verification/Paths.thy ===== *)
theory Paths
  imports Prelude
begin

text \<open>
  \<open>pathlib\<close> on path texts: the components of a pure path, its normal form, and the stem and the
  suffix of a file name.
\<close>

text \<open>\<open>PurePosixPath(value)\<close>: empty and \<open>.\<close> components are dropped.\<close>

definition posix_parts :: "string \<Rightarrow> string list" where
  "posix_parts s = filter (\<lambda>c. c \<noteq> [] \<and> c \<noteq> ''.'') (split_char (CHR ''/'') s)"

definition as_posix :: "string \<Rightarrow> string" where
  "as_posix s = (if posix_parts s = [] then ''.'' else join ''/'' (posix_parts s))"

text \<open>\<open>PurePath.name\<close>; \<open>stem\<close> and \<open>suffix\<close> split it at its last dot, unless that is its first or
  its last character.\<close>

definition name_of :: "string \<Rightarrow> string" where
  "name_of s = (if posix_parts s = [] then [] else last (posix_parts s))"

definition rfind_char :: "char \<Rightarrow> string \<Rightarrow> nat option" where
  "rfind_char c s =
     (if c \<in> set s then Some (length s - 1 - length (takeWhile (\<lambda>x. x \<noteq> c) (rev s))) else None)"

definition split_name :: "string \<Rightarrow> string \<times> string" where
  "split_name name =
     (case rfind_char (CHR ''.'') name of
        None \<Rightarrow> (name, [])
      | Some i \<Rightarrow> if 0 < i \<and> i < length name - 1 then (take i name, drop i name) else (name, []))"

definition stem_of :: "string \<Rightarrow> string" where
  "stem_of name = fst (split_name name)"

definition suffix_of :: "string \<Rightarrow> string" where
  "suffix_of name = snd (split_name name)"

lemma stem_suffix: "stem_of name @ suffix_of name = name"
  by (simp add: stem_of_def suffix_of_def split_name_def split: option.splits)

lemma join_inject:
  assumes "join [c] ps = join [c] qs" "ps \<noteq> []" "qs \<noteq> []"
    and "\<forall>p \<in> set ps. c \<notin> set p" "\<forall>q \<in> set qs. c \<notin> set q"
  shows "ps = qs"
  by (metis assms split_char_join)

end
