(* ===== verification/Snapshot.thy ===== *)
theory Snapshot
  imports DeploymentStore Paths "HOL-Library.Product_Lexorder"
begin

text \<open>
  \<open>snapshot.py\<close>: canonical relative paths, snapshot manifests and their validation, the
  verification of a directory against a manifest, the request message of the receiver protocol
  and the members of the submission archive. \<open>inspect\<close> stands for \<open>build.inspect_vault\<close>, which
  the verification calls; its result is a dictionary that the code only reads.
\<close>

section \<open>Canonical relative paths\<close>

definition printable :: "char \<Rightarrow> bool" where
  "printable c \<longleftrightarrow> 32 \<le> code_of c \<and> code_of c \<le> 126"

definition safe_relative_path :: "json \<Rightarrow> string res" where
  "safe_relative_path v = (case v of
     JStr s \<Rightarrow>
       bindE (raiseIf (s = [] \<or> CHR 0x00 \<in> set s \<or> CHR 0x5C \<in> set s)
         (SnapshotError ''snapshot path must be a non-empty POSIX string'')) (\<lambda>_.
       bindE (raiseIf (\<not> list_all printable s)
         (SnapshotError ''snapshot path must contain printable ASCII only'')) (\<lambda>_.
       bindE (raiseIf (startswith s ''/'' \<or> s \<noteq> as_posix s)
         (SnapshotError (''snapshot path is not canonical: '' @ py_repr s))) (\<lambda>_.
       bindE (raiseIf (list_ex (\<lambda>p. p \<in> set [[], ''.'', ''..'']) (posix_parts s))
         (SnapshotError (''snapshot path contains unsafe components: '' @ py_repr s))) (\<lambda>_.
       Inr s))))
   | _ \<Rightarrow> Inl (SnapshotError ''snapshot path must be a non-empty POSIX string''))"

text \<open>
  The walk below the root: no component may be a link, and the last one has to exist. A component
  below a regular file makes \<open>resolve\<close> raise \<open>NotADirectoryError\<close>.
\<close>

definition resolve_beneath :: "world \<Rightarrow> path \<Rightarrow> string \<Rightarrow> path res" where
  "resolve_beneath w root relative =
     bindE (safe_relative_path (JStr relative)) (\<lambda>r.
     bindE (raiseIf (\<not> exists_path w root) (OSError (''cannot resolve '' @ path_text root))) (\<lambda>_.
     (let parts = posix_parts r; walk = map (\<lambda>i. root @ take i parts) [1..<Suc (length parts)]
      in bindE (raiseIf (list_ex (is_symlink w) walk)
           (SnapshotError (''snapshot path traverses a symlink: '' @ r))) (\<lambda>_.
         bindE (raiseIf (list_ex (is_file w) (butlast walk))
           (OSError (''not a directory: '' @ path_text (root @ parts)))) (\<lambda>_.
         bindE (raiseIf (parts \<noteq> [] \<and> \<not> exists_path w (root @ parts))
           (SnapshotError (''declared snapshot file is missing: '' @ r))) (\<lambda>_.
         Inr (root @ parts)))))))"

section \<open>Manifests\<close>

definition snapshot_identity_fields :: "string list" where
  "snapshot_identity_fields =
    [''schema_version'', ''snapshot_contract_version'', ''source_fingerprint'',
     ''artifact_fingerprint'', ''logical_fingerprint'', ''included_source_count'',
     ''excluded_artifact_count'', ''file_count'', ''total_uncompressed_bytes'', ''inventory'']"

definition snapshot_identity :: "dict \<Rightarrow> dict res" where
  "snapshot_identity manifest = pick_fields manifest snapshot_identity_fields"

definition manifest_fields :: "string list" where
  "manifest_fields =
    [''schema_version'', ''snapshot_contract_version'', ''snapshot_id'', ''created_at'',
     ''source_fingerprint'', ''artifact_fingerprint'', ''logical_fingerprint'',
     ''included_source_count'', ''excluded_artifact_count'', ''file_count'',
     ''total_uncompressed_bytes'', ''inventory'', ''exporter'']"

definition inventory_fields :: "string list" where
  "inventory_fields = [''path'', ''kind'', ''source_kind'', ''exclusion_reason'', ''size'', ''sha256'']"

definition exporter_fields :: "string list" where
  "exporter_fields = [''package_version'', ''source_revision'']"

definition is_sha_json :: "json \<Rightarrow> bool" where
  "is_sha_json v = (case v of JStr s \<Rightarrow> is_sha256 s | _ \<Rightarrow> False)"

definition fold_key :: "string \<Rightarrow> string \<times> string" where
  "fold_key s = (casefold s, s)"

definition size_of :: "json \<Rightarrow> int" where
  "size_of v = (case v of JInt i \<Rightarrow> i | _ \<Rightarrow> 0)"

text \<open>What the loop over the inventory accumulates.\<close>

record tally =
  seen_paths :: "string list"
  included_count :: nat
  excluded_count :: nat
  byte_count :: int

definition check_item :: "(string \<Rightarrow> string) \<Rightarrow> json \<Rightarrow> tally \<Rightarrow> tally res" where
  "check_item sha v t =
     bindE (raiseIf (\<not> is_obj v \<or> \<not> same_fields (obj_of v) inventory_fields)
       (SnapshotError ''snapshot inventory item has missing or unknown fields'')) (\<lambda>_.
     (let item = obj_of v
      in bindE (safe_relative_path (dget item ''path'')) (\<lambda>p.
         bindE (raiseIf (p \<in> set (seen_paths t))
           (SnapshotError (''snapshot inventory contains duplicate path: '' @ p))) (\<lambda>_.
         bindE (in_strs (dget item ''kind'') [''source'', ''excluded'']) (\<lambda>known.
         bindE (raiseIf (\<not> known)
           (SnapshotError (''snapshot inventory has invalid kind for '' @ p))) (\<lambda>_.
         bindE (raiseIf (case dget item ''size'' of JInt i \<Rightarrow> i < 0 | _ \<Rightarrow> True)
           (SnapshotError (''snapshot inventory has invalid size for '' @ p))) (\<lambda>_.
         bindE (raiseIf (\<not> is_sha_json (dget item ''sha256''))
           (SnapshotError (''snapshot inventory has invalid SHA-256 for '' @ p))) (\<lambda>_.
         bindE
           (if dget item ''kind'' = JStr ''source'' then
              bindE (in_strs (dget item ''source_kind'') [''knowledge'', ''category'']) (\<lambda>ok.
              bindE (raiseIf (\<not> ok \<or> dget item ''exclusion_reason'' \<noteq> JNull)
                (SnapshotError (''snapshot source metadata is invalid for '' @ p))) (\<lambda>_.
              Inr (t\<lparr>included_count := Suc (included_count t)\<rparr>)))
            else
              bindE (raiseIf (dget item ''source_kind'' \<noteq> JNull \<or> \<not> is_str (dget item ''exclusion_reason''))
                (SnapshotError (''snapshot exclusion metadata is invalid for '' @ p))) (\<lambda>_.
              bindE (raiseIf (dget item ''size'' \<noteq> JInt 0 \<or> dget item ''sha256'' \<noteq> JStr (sha []))
                (SnapshotError (''snapshot excluded path is not an empty placeholder: '' @ p))) (\<lambda>_.
              Inr (t\<lparr>excluded_count := Suc (excluded_count t)\<rparr>)))) (\<lambda>t'.
         Inr (t'\<lparr>seen_paths := seen_paths t @ [p], byte_count := byte_count t + size_of (dget item ''size'')\<rparr>))))))))))"

definition DEFAULT_MAX_FILES :: nat where
  "DEFAULT_MAX_FILES = 10000"

definition DEFAULT_MAX_BYTES :: int where
  "DEFAULT_MAX_BYTES = 128 * 1024 * 1024"

definition no_tally :: tally where
  "no_tally = \<lparr>seen_paths = [], included_count = 0, excluded_count = 0, byte_count = 0\<rparr>"

text \<open>The copy that \<open>json.loads(json.dumps(...))\<close> returns is the document itself.\<close>

definition validate_snapshot_manifest ::
  "(string \<Rightarrow> string) \<Rightarrow> nat \<Rightarrow> int \<Rightarrow> json \<Rightarrow> dict res" where
  "validate_snapshot_manifest sha max_files max_bytes v =
     bindE (raiseIf (\<not> is_obj v \<or> \<not> same_fields (obj_of v) manifest_fields)
       (SnapshotError ''snapshot manifest has missing or unknown fields'')) (\<lambda>_.
     (let m = obj_of v
      in bindE (raiseIf (\<not> pyeq (dget m ''schema_version'') (JInt 1))
           (SnapshotError ''unsupported snapshot schema version'')) (\<lambda>_.
         bindE (raiseIf (dget m ''snapshot_contract_version'' \<noteq> JStr ''homeops-snapshot-v1'')
           (SnapshotError ''unsupported snapshot contract version'')) (\<lambda>_.
         bindE (eachE (\<lambda>f. raiseIf (\<not> is_sha_json (dget m f))
             (SnapshotError (''snapshot '' @ f @ '' must be a lowercase SHA-256'')))
           [''snapshot_id'', ''source_fingerprint'', ''artifact_fingerprint'', ''logical_fingerprint'']) (\<lambda>_.
         bindE (raiseIf (\<not> is_str (dget m ''created_at'') \<or> str_of (dget m ''created_at'') = [])
           (SnapshotError ''snapshot created_at must be a non-empty string'')) (\<lambda>_.
         bindE (raiseIf (\<not> is_obj (dget m ''exporter'')
             \<or> \<not> same_fields (obj_of (dget m ''exporter'')) exporter_fields)
           (SnapshotError ''snapshot exporter has missing or unknown fields'')) (\<lambda>_.
         bindE (raiseIf (\<not> list_all (\<lambda>f. is_str (dget (obj_of (dget m ''exporter'')) f)
               \<and> str_of (dget (obj_of (dget m ''exporter'')) f) \<noteq> []) exporter_fields)
           (SnapshotError ''snapshot exporter fields must be non-empty strings'')) (\<lambda>_.
         bindE (raiseIf (\<not> is_list (dget m ''inventory''))
           (SnapshotError ''snapshot inventory must be a list'')) (\<lambda>_.
         bindE (raiseIf (length (list_of (dget m ''inventory'')) > max_files)
           (SnapshotError ''snapshot exceeds the file-count limit'')) (\<lambda>_.
         bindE (foldE (check_item sha) (list_of (dget m ''inventory'')) no_tally) (\<lambda>t.
         bindE (raiseIf (seen_paths t \<noteq> sort_key fold_key (remdups (seen_paths t)))
           (SnapshotError ''snapshot inventory is not canonically sorted'')) (\<lambda>_.
         bindE (raiseIf (byte_count t > max_bytes)
           (SnapshotError ''snapshot exceeds the uncompressed-byte limit'')) (\<lambda>_.
         bindE (eachE (\<lambda>(f, n). raiseIf (\<not> pyeq (dget m f) (JInt n))
             (SnapshotError (''snapshot '' @ f @ '' disagrees with inventory'')))
           [(''included_source_count'', int (included_count t)),
            (''excluded_artifact_count'', int (excluded_count t)),
            (''file_count'', int (length (list_of (dget m ''inventory'')))),
            (''total_uncompressed_bytes'', byte_count t)]) (\<lambda>_.
         bindE (snapshot_identity m) (\<lambda>identity.
         bindE (raiseIf (dget m ''snapshot_id'' \<noteq> JStr (sha256_json sha (JObj identity)))
           (SnapshotError ''snapshot_id does not match snapshot identity'')) (\<lambda>_.
         Inr m))))))))))))))))"

abbreviation check_manifest :: "(string \<Rightarrow> string) \<Rightarrow> json \<Rightarrow> dict res" where
  "check_manifest sha \<equiv> validate_snapshot_manifest sha DEFAULT_MAX_FILES DEFAULT_MAX_BYTES"

section \<open>Creating a manifest\<close>

definition file_size :: "world \<Rightarrow> path \<Rightarrow> nat" where
  "file_size w p = (case file_at w p of Some c \<Rightarrow> length c | None \<Rightarrow> 0)"

definition file_sha256 :: "(string \<Rightarrow> string) \<Rightarrow> world \<Rightarrow> path \<Rightarrow> string res" where
  "file_sha256 sha w p = bindE (read_bytes w p) (\<lambda>c. Inr (sha c))"

definition inventory_item :: "string \<Rightarrow> string \<Rightarrow> json \<Rightarrow> json \<Rightarrow> int \<Rightarrow> string \<Rightarrow> json" where
  "inventory_item p kind source_kind reason n digest =
     JObj [(''path'', JStr p), (''kind'', JStr kind), (''source_kind'', source_kind),
       (''exclusion_reason'', reason), (''size'', JInt n), (''sha256'', JStr digest)]"

definition included_item :: "(string \<Rightarrow> string) \<Rightarrow> world \<Rightarrow> path \<Rightarrow> json \<Rightarrow> json res" where
  "included_item sha w root item =
     bindE (jidx item ''source_path'') (\<lambda>v.
     bindE (safe_relative_path v) (\<lambda>p.
     bindE (resolve_beneath w root p) (\<lambda>source.
     bindE (raiseIf (\<not> is_file w source)
       (SnapshotError (''included snapshot path is not a regular file: '' @ p))) (\<lambda>_.
     bindE (jidx item ''kind'') (\<lambda>kind.
     bindE (file_sha256 sha w source) (\<lambda>digest.
     Inr (inventory_item p ''source'' kind JNull (int (file_size w source)) digest)))))))"

definition excluded_item :: "(string \<Rightarrow> string) \<Rightarrow> world \<Rightarrow> path \<Rightarrow> json \<Rightarrow> json res" where
  "excluded_item sha w root item =
     bindE (jidx item ''source_path'') (\<lambda>v.
     bindE (safe_relative_path v) (\<lambda>p.
     bindE (resolve_beneath w root p) (\<lambda>placeholder.
     bindE (raiseIf (\<not> is_file w placeholder \<or> file_size w placeholder \<noteq> 0)
       (SnapshotError (''excluded snapshot path is not an empty regular file: '' @ p))) (\<lambda>_.
     bindE (jidx item ''reason'') (\<lambda>reason.
     Inr (inventory_item p ''excluded'' JNull reason 0 (sha [])))))))"

definition item_path :: "json \<Rightarrow> string" where
  "item_path v = str_of (dget (obj_of v) ''path'')"

definition has_kind :: "string \<Rightarrow> json \<Rightarrow> bool" where
  "has_kind k v \<longleftrightarrow> dget (obj_of v) ''kind'' = JStr k"

definition item_size :: "json \<Rightarrow> int" where
  "item_size v = size_of (dget (obj_of v) ''size'')"

definition create_snapshot_manifest ::
  "(string \<Rightarrow> string) \<Rightarrow> world \<Rightarrow> path \<Rightarrow> dict \<Rightarrow> json \<Rightarrow> json \<Rightarrow> json \<Rightarrow> dict res" where
  "create_snapshot_manifest sha w root inspection created_at package_version source_revision =
     bindE (raiseIf (\<not> exists_path w root) (OSError (''cannot resolve '' @ path_text root))) (\<lambda>_.
     bindE (didx inspection ''inventory'') (\<lambda>raw.
     bindE (jidx raw ''included'') (\<lambda>incl.
     bindE (mapE (included_item sha w root) (list_of incl)) (\<lambda>sources.
     bindE (jidx raw ''excluded'') (\<lambda>excl.
     bindE (mapE (excluded_item sha w root) (list_of excl)) (\<lambda>placeholders.
     (let inventory = sort_key (\<lambda>v. fold_key (item_path v)) (sources @ placeholders)
      in bindE (didx inspection ''source_fingerprint'') (\<lambda>source_fp.
         bindE (didx inspection ''artifact_fingerprint'') (\<lambda>artifact_fp.
         bindE (didx inspection ''logical_fingerprint'') (\<lambda>logical_fp.
         (let manifest =
            [(''schema_version'', JInt 1),
             (''snapshot_contract_version'', JStr ''homeops-snapshot-v1''),
             (''snapshot_id'', JStr (replicate 64 (CHR ''0''))),
             (''created_at'', created_at),
             (''source_fingerprint'', source_fp),
             (''artifact_fingerprint'', artifact_fp),
             (''logical_fingerprint'', logical_fp),
             (''included_source_count'', JInt (int (length (filter (has_kind ''source'') inventory)))),
             (''excluded_artifact_count'', JInt (int (length (filter (has_kind ''excluded'') inventory)))),
             (''file_count'', JInt (int (length inventory))),
             (''total_uncompressed_bytes'', JInt (sum_list (map item_size inventory))),
             (''inventory'', JList inventory),
             (''exporter'', JObj [(''package_version'', package_version),
                (''source_revision'', source_revision)])]
          in bindE (snapshot_identity manifest) (\<lambda>identity.
             check_manifest sha
               (JObj (dput manifest ''snapshot_id'' (JStr (sha256_json sha (JObj identity)))))))))))))))))"

section \<open>Verifying a directory against a manifest\<close>

text \<open>
  \<open>root.rglob("*")\<close> visits the entries below the root. Their order only matters for which error
  comes first: the paths are sorted before they are compared.
\<close>

fun scan_entries :: "path \<Rightarrow> (path \<times> node) list \<Rightarrow> string list res" where
  "scan_entries root [] = Inr []"
| "scan_entries root ((p, n) # es) =
     (let relative = join ''/'' (drop (length root) p)
      in case n of
           Link t \<Rightarrow> Inl (SnapshotError (''snapshot contains a symlink: '' @ relative))
         | Dir \<Rightarrow> scan_entries root es
         | File c \<Rightarrow> bindE (safe_relative_path (JStr relative)) (\<lambda>r.
             bindE (scan_entries root es) (\<lambda>rs. Inr (r # rs))))"

definition verify_item :: "(string \<Rightarrow> string) \<Rightarrow> world \<Rightarrow> path \<Rightarrow> json \<Rightarrow> unit res" where
  "verify_item sha w root item =
     bindE (resolve_beneath w root (item_path item)) (\<lambda>p.
     raiseIf (\<not> is_file w p \<or> int (file_size w p) \<noteq> item_size item
         \<or> file_sha256 sha w p \<noteq> Inr (str_of (dget (obj_of item) ''sha256'')))
       (SnapshotError (''snapshot file does not match manifest: '' @ item_path item)))"

definition agree_with_inspection :: "dict \<Rightarrow> dict \<Rightarrow> unit res" where
  "agree_with_inspection inspected checked =
     bindE (didx inspected ''validation'') (\<lambda>validation.
     bindE (jidx validation ''errors'') (\<lambda>errors.
     bindE (raiseIf (truthy errors) (SnapshotError ''snapshot vault validation failed'')) (\<lambda>_.
     eachE (\<lambda>f. bindE (didx inspected f) (\<lambda>v.
       raiseIf (\<not> pyeq v (dget checked f))
         (SnapshotError (''snapshot '' @ f @ '' does not match independent inspection''))))
       fingerprint_fields)))"

definition verify_snapshot ::
  "(string \<Rightarrow> string) \<Rightarrow> (world \<Rightarrow> path \<Rightarrow> dict res) option \<Rightarrow> world \<Rightarrow> path \<Rightarrow> json \<Rightarrow> dict res" where
  "verify_snapshot sha inspect w root manifest =
     bindE (check_manifest sha manifest) (\<lambda>checked.
     bindE (raiseIf (\<not> exists_path w root) (OSError (''cannot resolve '' @ path_text root))) (\<lambda>_.
     bindE (scan_entries root (entries_below w root)) (\<lambda>actual_paths.
     (let inventory = list_of (dget checked ''inventory'')
      in bindE (raiseIf (sort_key fold_key actual_paths \<noteq> map item_path inventory)
           (SnapshotError ''snapshot files do not exactly match declared inventory'')) (\<lambda>_.
         bindE (eachE (verify_item sha w root) inventory) (\<lambda>_.
         bindE (case inspect of
             None \<Rightarrow> Inr ()
           | Some look \<Rightarrow> bindE (look w root) (\<lambda>inspected. agree_with_inspection inspected checked)) (\<lambda>_.
         Inr checked)))))))"

section \<open>Manifests on disk\<close>

definition manifest_bytes :: "dict \<Rightarrow> string" where
  "manifest_bytes m = canonical_json_bytes (JObj m) @ [CHR 0x0A]"

definition write_manifest :: "(string \<Rightarrow> string) \<Rightarrow> path \<Rightarrow> json \<Rightarrow> unit wprog" where
  "write_manifest sha p manifest =
     bindM (liftM (check_manifest sha manifest)) (\<lambda>checked.
     put_file p (manifest_bytes checked))"

definition read_manifest :: "(string \<Rightarrow> string) \<Rightarrow> world \<Rightarrow> path \<Rightarrow> dict res" where
  "read_manifest sha w p =
     rewrap is_deployment_error (\<lambda>e. SnapshotError ''snapshot manifest is invalid JSON'')
       (bindE (read_document w p) (check_manifest sha))"

section \<open>The submission\<close>

definition request_fields :: "string list" where
  "request_fields =
    [''schema_version'', ''protocol'', ''request_id'', ''publisher_id'', ''capability_token'',
     ''release_policy_id'', ''snapshot_id'', ''expected_current_deployment_id'',
     ''snapshot_manifest_sha256'']"

definition canonical_receiver_json :: "dict \<Rightarrow> string list \<Rightarrow> string res" where
  "canonical_receiver_json d order =
     bindE (raiseIf (dkeys d \<noteq> order)
       (SnapshotError ''receiver message fields are missing, reordered, or unknown'')) (\<lambda>_.
     Inr (receiver_json_bytes (JObj d)))"

text \<open>\<open>_PUBLISHER_ID\<close> and \<open>_UUID4\<close>.\<close>

definition is_lower :: "char \<Rightarrow> bool" where
  "is_lower c \<longleftrightarrow> 97 \<le> code_of c \<and> code_of c \<le> 122"

definition validate_publisher_id :: "json \<Rightarrow> string res" where
  "validate_publisher_id v = (case v of
      JStr (c # s) \<Rightarrow>
        (if is_lower c \<and> list_all (\<lambda>d. is_lower d \<or> is_digit d \<or> d = CHR ''-'') s \<and> length s \<le> 62
         then Inr (c # s)
         else Inl (SnapshotError ''publisher_id must match [a-z][a-z0-9-]{0,62}''))
    | _ \<Rightarrow> Inl (SnapshotError ''publisher_id must match [a-z][a-z0-9-]{0,62}''))"

definition is_uuid4 :: "string \<Rightarrow> bool" where
  "is_uuid4 s \<longleftrightarrow>
     (case split_char (CHR ''-'') s of
        [a, b, c, d, e] \<Rightarrow>
          list_all is_lower_hex (a @ b @ c @ d @ e)
          \<and> map length [a, b, c, d, e] = [8, 4, 4, 4, 12]
          \<and> startswith c ''4'' \<and> list_ex (startswith d) [''8'', ''9'', ''a'', ''b'']
      | _ \<Rightarrow> False)"

definition validate_request_message :: "dict \<Rightarrow> dict res" where
  "validate_request_message request =
     bindE (canonical_receiver_json request request_fields) (\<lambda>_.
     bindE (raiseIf (\<not> pyeq (dget request ''schema_version'') (JInt 1)
         \<or> dget request ''protocol'' \<noteq> JStr ''homeops.receiver/v1'')
       (SnapshotError ''unsupported receiver request protocol'')) (\<lambda>_.
     bindE (raiseIf (case dget request ''request_id'' of JStr s \<Rightarrow> \<not> is_uuid4 s | _ \<Rightarrow> True)
       (SnapshotError ''request_id must be a lowercase UUIDv4'')) (\<lambda>_.
     bindE (validate_publisher_id (dget request ''publisher_id'')) (\<lambda>_.
     bindE (eachE (\<lambda>f. raiseIf (\<not> is_sha_json (dget request f))
         (SnapshotError (f @ '' must be a lowercase SHA-256'')))
       [''capability_token'', ''release_policy_id'', ''snapshot_id'', ''snapshot_manifest_sha256'']) (\<lambda>_.
     bindE (raiseIf (case dget request ''expected_current_deployment_id'' of
           JStr s \<Rightarrow> s \<noteq> [] \<and> \<not> is_sha256 s | _ \<Rightarrow> True)
       (SnapshotError ''expected_current_deployment_id must be empty or a lowercase SHA-256'')) (\<lambda>_.
     Inr request))))))"

text \<open>
  What USTAR can name: at most 100 bytes, or a prefix of at most 155 bytes and a rest of at most
  100 at some slash; and a size of eleven octal digits.
\<close>

definition ustar_name :: "string \<Rightarrow> bool" where
  "ustar_name name \<longleftrightarrow> length name \<le> 100 \<or>
     (let parts = split_char (CHR ''/'') name
      in list_ex (\<lambda>i. length (join ''/'' (take i parts)) \<le> 155 \<and> length (join ''/'' (drop i parts)) \<le> 100)
           [1..<length parts])"

definition tar_info :: "string \<Rightarrow> nat \<Rightarrow> unit res" where
  "tar_info name n = raiseIf (\<not> ustar_name name \<or> n \<ge> 8 ^ 11)
     (SnapshotError (''path cannot be represented by USTAR: '' @ name))"

text \<open>The members of the archive: each one's header is checked when it is added.\<close>

definition archive_member :: "string \<times> string \<Rightarrow> (string \<times> string) res" where
  "archive_member e = bindE (tar_info (fst e) (length (snd e))) (\<lambda>_. Inr e)"

definition vault_member :: "world \<Rightarrow> path \<Rightarrow> json \<Rightarrow> (string \<times> string) res" where
  "vault_member w root item =
     bindE (resolve_beneath w root (item_path item)) (\<lambda>p.
     bindE (read_bytes w p) (\<lambda>c. Inr (''vault/'' @ item_path item, c)))"

definition write_submission_archive ::
  "(string \<Rightarrow> string) \<Rightarrow> (world \<Rightarrow> path \<Rightarrow> dict res) \<Rightarrow> world \<Rightarrow> dict \<Rightarrow> json \<Rightarrow> path \<Rightarrow>
     (string \<times> string) list res" where
  "write_submission_archive sha look w request manifest root =
     bindE (validate_request_message request) (\<lambda>checked_request.
     bindE (verify_snapshot sha (Some look) w root manifest) (\<lambda>checked_manifest.
     bindE (canonical_receiver_json checked_request request_fields) (\<lambda>request_bytes.
     bindE (raiseIf (dget request ''snapshot_manifest_sha256'' \<noteq> JStr (sha (manifest_bytes checked_manifest)))
       (SnapshotError ''request snapshot_manifest_sha256 does not match manifest bytes'')) (\<lambda>_.
     bindE (raiseIf (\<not> pyeq (dget request ''snapshot_id'') (dget checked_manifest ''snapshot_id''))
       (SnapshotError ''request snapshot_id does not match manifest'')) (\<lambda>_.
     bindE (mapE (vault_member w root) (list_of (dget checked_manifest ''inventory''))) (\<lambda>members.
     mapE archive_member
       ([(''request.json'', request_bytes), (''snapshot.json'', manifest_bytes checked_manifest)]
        @ sort_key fst members)))))))"

end
