(* ===== verification/Promotion.thy ===== *)
theory Promotion
  imports Snapshot
begin

text \<open>
  \<open>build.py\<close>, the part around the active state: reading build manifests, running the verifier,
  the gates a candidate passes before it is promoted, the promotion and its bookkeeping, the
  rollback with its durable journal and its recovery, the materialisation of snapshots and the
  adoption of legacy states.

  \<open>env\<close> holds what these functions call outside this file: the digest, \<open>inspect_vault\<close>, and the
  verifier subprocess (its exit code, its standard output and its standard error).
\<close>

record env =
  digest :: "string \<Rightarrow> string"
  inspect_vault :: "world \<Rightarrow> path \<Rightarrow> dict res"
  run_verifier :: "world \<Rightarrow> path \<Rightarrow> int \<times> string \<times> string"

section \<open>Locks, manifests, the verifier\<close>

definition as_build_error :: "exn \<Rightarrow> exn" where
  "as_build_error e = (if is_deployment_error e then BuildError (exn_text e) else e)"

definition build_error_from_deployment :: "'a res \<Rightarrow> 'a res" where
  "build_error_from_deployment r = rewrap is_deployment_error (\<lambda>e. BuildError (exn_text e)) r"

text \<open>The body runs inside the \<open>try\<close>, so its deployment errors are wrapped as well.\<close>

definition rebuild_lock :: "path \<Rightarrow> 'a wprog \<Rightarrow> 'a wprog" where
  "rebuild_lock data body w =
     (case deployment_lock data False False True body w of
        (r, w') \<Rightarrow> (build_error_from_deployment r, w'))"

definition manifest_path :: "path \<Rightarrow> json \<Rightarrow> path res" where
  "manifest_path data run_id =
     bindE (validate_safe_id run_id ''run_id'') (\<lambda>i. Inr (data @ [''builds'', i, ''manifest.json'']))"

definition load_json :: "world \<Rightarrow> path \<Rightarrow> dict res" where
  "load_json w p =
     bindE (read_document w p) (\<lambda>v. case v of
       JObj d \<Rightarrow> Inr d
     | _ \<Rightarrow> Inl (BuildError (''JSON document is not an object: '' @ path_text p)))"

definition active_state :: "env \<Rightarrow> world \<Rightarrow> path \<Rightarrow> dict res" where
  "active_state E w data = build_error_from_deployment (load_state (digest E) w data True)"

definition invoke_verifier :: "env \<Rightarrow> world \<Rightarrow> path \<Rightarrow> json res" where
  "invoke_verifier E w build_dir =
     (case run_verifier E w build_dir of (code, out, err) \<Rightarrow>
       bindE (raiseIf (strip out = [])
         (BuildError (''verifier produced no JSON output (exit '' @ int_dec code @ ''): '' @ strip err))) (\<lambda>_.
       bindE (rewrap is_json_error (\<lambda>e. BuildError (''verifier produced invalid JSON: '' @ out))
         (json_loads out)) (\<lambda>report.
       if code \<noteq> 0 then Inl (VerificationError report)
       else bindE (jget report ''valid'') (\<lambda>valid.
         if truthy valid then Inr report else Inl (VerificationError report)))))"

definition verify_run :: "env \<Rightarrow> world \<Rightarrow> path \<Rightarrow> json \<Rightarrow> json res" where
  "verify_run E w data run_id =
     bindE (if run_id = JNull
            then bindE (active_state E w data) (\<lambda>st. Inr (dget st ''current'')) else Inr run_id) (\<lambda>run.
     bindE (raiseIf (\<not> truthy run) (BuildError ''there is no active build to verify'')) (\<lambda>_.
     bindE (validate_safe_id run ''run_id'') (\<lambda>i.
     invoke_verifier E w (data @ [''builds'', i]))))"

definition validate_release_provenance :: "json \<Rightarrow> json \<Rightarrow> json \<Rightarrow> (json \<times> json \<times> json) res" where
  "validate_release_provenance homeops_version source_revision image_digest =
     bindE (raiseIf (\<not> is_str homeops_version \<or> strip (str_of homeops_version) = [])
       (BuildError ''HomeOps package version is required'')) (\<lambda>_.
     bindE (raiseIf (\<not> (is_str source_revision \<and> list_all is_lower_hex (str_of source_revision)
         \<and> 7 \<le> length (str_of source_revision) \<and> length (str_of source_revision) \<le> 64))
       (BuildError ''HomeOps source revision must be 7-64 lowercase hex characters'')) (\<lambda>_.
     bindE (raiseIf (\<not> (is_str image_digest \<and> startswith (str_of image_digest) ''sha256:''
         \<and> is_sha256 (drop 7 (str_of image_digest))))
       (BuildError ''HomeOps image digest must be sha256:<64 lowercase hex>'')) (\<lambda>_.
     Inr (homeops_version, source_revision, image_digest))))"

section \<open>The gates of a candidate\<close>

text \<open>Python's \<open>x or y\<close>.\<close>

definition or_else :: "json \<Rightarrow> json \<Rightarrow> json" where
  "or_else x y = (if truthy x then x else y)"

definition same_or_fail :: "json \<Rightarrow> json \<Rightarrow> string \<Rightarrow> unit res" where
  "same_or_fail actual expected message = raiseIf (\<not> pyeq actual expected) (BuildError message)"

definition is_legacy_record :: "dict \<Rightarrow> bool" where
  "is_legacy_record c \<longleftrightarrow> dget c ''homeops_version'' = JStr ''legacy''
     \<and> dget c ''source_revision'' = JStr ''legacy'' \<and> dget c ''image_digest'' = JStr ''legacy-unrecorded''"

definition build_provenance :: "dict \<Rightarrow> bool \<Rightarrow> dict" where
  "build_provenance manifest legacy =
     [(''build_contract_version'', if legacy then or_else (dget manifest ''build_contract_version'')
        (JStr ''homeops-build-v1'') else dget manifest ''build_contract_version''),
      (''homeops_version'', if legacy then or_else (dget manifest ''homeops_version'') (JStr ''legacy'')
        else dget manifest ''homeops_version''),
      (''source_revision'', if legacy then or_else (dget manifest ''source_revision'') (JStr ''legacy'')
        else dget manifest ''source_revision''),
      (''image_digest'', if legacy then or_else (dget manifest ''image_digest'') (JStr ''legacy-unrecorded'')
        else dget manifest ''image_digest'')]"

definition snapshot_dir :: "path \<Rightarrow> json \<Rightarrow> path" where
  "snapshot_dir data i = butlast data @ [''vault-snapshots'', str_of i]"

definition candidate_snapshot :: "env \<Rightarrow> world \<Rightarrow> path \<Rightarrow> dict res" where
  "candidate_snapshot E w dir =
     rewrap (\<lambda>e. is_os_error e \<or> is_snapshot_error e)
       (\<lambda>e. BuildError (''candidate snapshot verification failed: '' @ exn_text e))
       (bindE (read_manifest (digest E) w (dir @ [''snapshot.json''])) (\<lambda>snapshot.
        bindE (verify_snapshot (digest E) (Some (inspect_vault E)) w (dir @ [''vault'']) (JObj snapshot)) (\<lambda>_.
        Inr snapshot)))"

definition candidate_matches_build :: "env \<Rightarrow> world \<Rightarrow> path \<Rightarrow> json \<Rightarrow> dict res" where
  "candidate_matches_build E w data candidate =
     bindE (validate_deployment_record (digest E) candidate) (\<lambda>checked.
     bindE (manifest_path data (dget checked ''run_id'')) (\<lambda>p.
     bindE (load_json w p) (\<lambda>manifest.
     bindE (same_or_fail (dget manifest ''result'') (JStr ''verified'')
       ''candidate build manifest is not verified'') (\<lambda>_.
     bindE (same_or_fail (dget manifest ''run_id'') (dget checked ''run_id'')
       ''candidate deployment/build run ID mismatch'') (\<lambda>_.
     bindE (same_or_fail (dget manifest ''schema_version'') (dget checked ''build_schema_version'')
       ''candidate deployment/build schema version mismatch'') (\<lambda>_.
     bindE (eachE (\<lambda>(f, actual). same_or_fail actual (dget checked f)
         (''candidate deployment/build '' @ f @ '' mismatch''))
       (build_provenance manifest (is_legacy_record checked))) (\<lambda>_.
     bindE (same_or_fail (dget manifest ''completed_at'') (dget checked ''build_completed_at'')
       ''candidate deployment/build completion timestamp mismatch'') (\<lambda>_.
     bindE (same_or_fail (dget manifest ''verified_at'') (dget checked ''build_verified_at'')
       ''candidate deployment/build verification timestamp mismatch'') (\<lambda>_.
     bindE (eachE (\<lambda>f. same_or_fail (dget manifest f) (dget checked f)
         (''candidate deployment/build '' @ f @ '' mismatch'')) fingerprint_fields) (\<lambda>_.
     bindE (candidate_snapshot E w (snapshot_dir data (dget checked ''snapshot_id''))) (\<lambda>snapshot.
     bindE (same_or_fail (dget snapshot ''snapshot_id'') (dget checked ''snapshot_id'')
       ''candidate deployment/snapshot ID mismatch'') (\<lambda>_.
     bindE (same_or_fail (dget snapshot ''schema_version'') (dget checked ''snapshot_schema_version'')
       ''candidate deployment/snapshot schema version mismatch'') (\<lambda>_.
     bindE (same_or_fail (dget snapshot ''snapshot_contract_version'')
         (dget checked ''snapshot_contract_version'')
       ''candidate deployment/snapshot contract version mismatch'') (\<lambda>_.
     bindE (same_or_fail (dget snapshot ''created_at'') (dget checked ''snapshot_created_at'')
       ''candidate deployment/snapshot creation timestamp mismatch'') (\<lambda>_.
     bindE (eachE (\<lambda>f. same_or_fail (dget snapshot f) (dget checked f)
         (''candidate deployment/snapshot '' @ f @ '' mismatch'')) fingerprint_fields) (\<lambda>_.
     bindE (verify_run E w data (dget checked ''run_id'')) (\<lambda>_.
     Inr manifest)))))))))))))))))"

section \<open>Bookkeeping after a selection\<close>

definition history_path :: "env \<Rightarrow> path \<Rightarrow> dict \<Rightarrow> path" where
  "history_path E data checked =
     data @ [''deployment-history'', str_of (dget checked ''deployment_id''),
       digest E (utf8 (str_of (dget checked ''promoted_at''))) @ ''.json'']"

definition store_promoted_record :: "env \<Rightarrow> path \<Rightarrow> json \<Rightarrow> unit wprog" where
  "store_promoted_record E data rec =
     bindM (liftM (validate_deployment_record (digest E) rec)) (\<lambda>checked.
     bindM (liftM (raiseIf (\<not> truthy (dget checked ''promoted_at''))
       (BuildError ''promoted deployment record lacks promotion timestamp''))) (\<lambda>_.
     durable_create_json (history_path E data checked) (JObj checked)))"

definition repair_selected_bookkeeping_locked :: "env \<Rightarrow> path \<Rightarrow> json \<Rightarrow> dict wprog" where
  "repair_selected_bookkeeping_locked E data expected =
     bindM (liftM (validate_safe_id expected ''deployment_id'')) (\<lambda>i.
     bindM (askM (\<lambda>w. active_state E w data)) (\<lambda>state.
     bindM (liftM (raiseIf (\<not> pyeq (dget state ''schema_version'') (JInt DEPLOYMENT_SCHEMA_VERSION))
       (BuildError ''selected deployment bookkeeping requires schema-v2 state''))) (\<lambda>_.
     bindM (liftM (raiseIf (dget state ''current_deployment'' = JNull
         \<or> dget (obj_of (dget state ''current_deployment'')) ''deployment_id'' \<noteq> JStr i)
       (BuildError ''selected deployment changed before bookkeeping repair''))) (\<lambda>_.
     bindM (fsync_path data) (\<lambda>_.
     bindM (store_promoted_record E data (dget state ''current_deployment'')) (\<lambda>_.
     bindM (publish_current_projection (digest E) (butlast data) (Some (JObj state))) (\<lambda>_.
     retM state)))))))"

definition repair_selected_bookkeeping :: "env \<Rightarrow> path \<Rightarrow> json \<Rightarrow> dict wprog" where
  "repair_selected_bookkeeping E data expected =
     rebuild_lock data (repair_selected_bookkeeping_locked E data expected)"

section \<open>The rollback journal\<close>

definition rollback_journal_fields :: "string list" where
  "rollback_journal_fields =
    [''schema_version'', ''operation'', ''source_state'', ''target_state'', ''started_at'']"

definition rollback_journal_path :: "path \<Rightarrow> path" where
  "rollback_journal_path data = data @ [''pipeline-transactions'', ''rollback.json'']"

definition journal_states :: "env \<Rightarrow> dict \<Rightarrow> (dict \<times> dict) res" where
  "journal_states E d =
     rewrap is_deployment_error (\<lambda>e. BuildError (''rollback transaction journal is invalid: '' @ exn_text e))
       (bindE (validate_state (digest E) (dget d ''source_state'') False) (\<lambda>source.
        bindE (validate_state (digest E) (dget d ''target_state'') False) (\<lambda>target.
        Inr (source, target))))"

definition bad_journal_shape :: "json \<Rightarrow> bool" where
  "bad_journal_shape v \<longleftrightarrow> \<not> is_obj v \<or> \<not> same_fields (obj_of v) rollback_journal_fields
     \<or> \<not> pyeq (dget (obj_of v) ''schema_version'') (JInt 1)
     \<or> dget (obj_of v) ''operation'' \<noteq> JStr ''rollback''
     \<or> \<not> is_str (dget (obj_of v) ''started_at'') \<or> str_of (dget (obj_of v) ''started_at'') = []"

definition bad_journal_transition :: "dict \<Rightarrow> dict \<Rightarrow> json \<Rightarrow> bool" where
  "bad_journal_transition source target started_at \<longleftrightarrow>
     (let source_current = dget source ''current_deployment'';
          source_previous = dget source ''previous_deployment'';
          target_current = dget target ''current_deployment'';
          target_previous = dget target ''previous_deployment''
      in source_current = JNull \<or> source_previous = JNull \<or> target_current = JNull \<or> target_previous = JNull
         \<or> \<not> pyeq (dget (obj_of target_current) ''deployment_id'') (dget (obj_of source_previous) ''deployment_id'')
         \<or> \<not> pyeq target_current (JObj (dput (obj_of source_previous) ''promoted_at'' started_at))
         \<or> \<not> pyeq target_previous source_current
         \<or> \<not> pyeq (dget (obj_of target_current) ''promoted_at'') started_at
         \<or> \<not> pyeq (dget target ''promoted_at'') started_at)"

definition load_rollback_journal :: "env \<Rightarrow> world \<Rightarrow> path \<Rightarrow> dict option res" where
  "load_rollback_journal E w data =
     (if \<not> is_file w (rollback_journal_path data) then Inr None
      else bindE (read_document w (rollback_journal_path data)) (\<lambda>parsed.
        bindE (raiseIf (bad_journal_shape parsed)
          (BuildError ''rollback transaction journal is invalid'')) (\<lambda>_.
        bindE (journal_states E (obj_of parsed)) (\<lambda>(source, target).
        bindE (raiseIf (bad_journal_transition source target (dget (obj_of parsed) ''started_at''))
          (BuildError ''rollback transaction journal transition is invalid'')) (\<lambda>_.
        Inr (Some (dput (dput (obj_of parsed) ''source_state'' (JObj source))
          ''target_state'' (JObj target))))))))"

definition write_rollback_journal :: "env \<Rightarrow> path \<Rightarrow> dict \<Rightarrow> dict \<Rightarrow> dict wprog" where
  "write_rollback_journal E data source target =
     bindM (liftM (validate_state (digest E) (JObj source) False)) (\<lambda>s.
     bindM (liftM (validate_state (digest E) (JObj target) False)) (\<lambda>t.
     (let journal =
        [(''schema_version'', JInt 1), (''operation'', JStr ''rollback''),
         (''source_state'', JObj s), (''target_state'', JObj t),
         (''started_at'', dget target ''promoted_at'')]
      in bindM (durable_atomic_json (rollback_journal_path data) (JObj journal)) (\<lambda>_.
         retM journal))))"

definition clear_rollback_journal :: "path \<Rightarrow> unit wprog" where
  "clear_rollback_journal data =
     bindM (unlink (rollback_journal_path data)) (\<lambda>_.
     bindM (getsM (\<lambda>w. is_dir w (butlast (rollback_journal_path data)))) (\<lambda>there.
     whenM there (fsync_path (butlast (rollback_journal_path data)))))"

definition finish_rollback_locked :: "env \<Rightarrow> path \<Rightarrow> dict \<Rightarrow> dict wprog" where
  "finish_rollback_locked E data journal =
     (let source = dget journal ''source_state''; target = dget journal ''target_state''
      in bindM (askM (\<lambda>w. active_state E w data)) (\<lambda>actual.
         bindM (if pyeq (JObj actual) source then durable_atomic_json (active_path data) target
                else liftM (raiseIf (\<not> pyeq (JObj actual) target)
                  (BuildError ''active deployment changed during rollback recovery''))) (\<lambda>_.
         bindM (repair_selected_bookkeeping_locked E data
           (dget (obj_of (dget (obj_of target) ''current_deployment'')) ''deployment_id'')) (\<lambda>_.
         bindM (clear_rollback_journal data) (\<lambda>_.
         retM (obj_of target))))))"

definition recover_locked :: "env \<Rightarrow> path \<Rightarrow> dict option wprog" where
  "recover_locked E data =
     bindM (askM (\<lambda>w. load_rollback_journal E w data)) (\<lambda>pending.
     case pending of
       None \<Rightarrow> retM None
     | Some journal \<Rightarrow> bindM (finish_rollback_locked E data journal) (\<lambda>t. retM (Some t)))"

definition recover_pending_rollback :: "env \<Rightarrow> path \<Rightarrow> dict option wprog" where
  "recover_pending_rollback E data = rebuild_lock data (recover_locked E data)"

section \<open>Promotion\<close>

definition require_passing_evaluation :: "world \<Rightarrow> path \<Rightarrow> json \<Rightarrow> unit res" where
  "require_passing_evaluation w data candidate =
     bindE (jidx candidate ''run_id'') (\<lambda>run.
     (let p = data @ [''builds'', str_of run, ''promotion-evaluation.json'']
      in bindE (if is_file w p
           then bindE (load_json w p) (\<lambda>report. Inr (truthy (dget report ''passed''))) else Inr False) (\<lambda>passed.
         raiseIf (\<not> passed) (BuildError ''candidate has no passing promotion-safe evaluation''))))"

definition promote_locked :: "env \<Rightarrow> path \<Rightarrow> json \<Rightarrow> json \<Rightarrow> json \<Rightarrow> bool \<Rightarrow> dict wprog" where
  "promote_locked E data candidate expected promoted_at require_evaluation =
     bindM (askM (\<lambda>w. raiseIf (is_file w (rollback_journal_path data))
       (BuildError ''unfinished rollback transaction must be recovered first''))) (\<lambda>_.
     bindM (askM (\<lambda>w. candidate_matches_build E w data candidate)) (\<lambda>_.
     bindM (if require_evaluation then askM (\<lambda>w. require_passing_evaluation w data candidate)
            else retM ()) (\<lambda>_.
     bindM (askM (\<lambda>w. active_state E w data)) (\<lambda>state.
     bindM (liftM (raiseIf (\<not> pyeq (dget state ''schema_version'') (JInt DEPLOYMENT_SCHEMA_VERSION))
       (BuildError ''legacy active state must be explicitly adopted before v2 promotion''))) (\<lambda>_.
     bindM (liftM (select_deployment (digest E) (JObj state) candidate expected promoted_at)) (\<lambda>(selected, result).
     bindM (whenM (result = ''promoted'')
       (bindM (store_deployment (digest E) data candidate) (\<lambda>_.
        durable_atomic_json (active_path data) (JObj selected)))) (\<lambda>_.
     bindM (repair_selected_bookkeeping_locked E data
       (dget (obj_of (dget selected ''current_deployment'')) ''deployment_id'')) (\<lambda>repaired.
     retM (dmerge [(''result'', JStr result)] repaired)))))))))"

definition promote :: "env \<Rightarrow> path \<Rightarrow> json \<Rightarrow> json \<Rightarrow> bool \<Rightarrow> dict wprog" where
  "promote E data deployment expected require_evaluation =
     rebuild_lock data
       (bindM utc_now (\<lambda>now.
        promote_locked E data deployment expected (JStr now) require_evaluation))"

section \<open>Rollback\<close>

text \<open>A schema-1 state is swapped directly, after the previous run has been verified.\<close>

definition rollback_legacy :: "env \<Rightarrow> path \<Rightarrow> dict \<Rightarrow> dict wprog" where
  "rollback_legacy E data state =
     (let current = dget state ''current''; previous = dget state ''previous''
      in bindM (liftM (raiseIf (\<not> truthy current \<or> \<not> truthy previous)
           (BuildError ''rollback requires current and previous verified builds''))) (\<lambda>_.
         bindM (askM (\<lambda>w. verify_run E w data previous)) (\<lambda>_.
         bindM utc_now (\<lambda>now.
         (let rolled_back =
            [(''schema_version'', JInt 1), (''current'', previous), (''previous'', current),
             (''promoted_at'', JStr now)]
          in bindM (durable_atomic_json (active_path data) (JObj rolled_back)) (\<lambda>_.
             retM rolled_back))))))"

definition rollback_locked :: "env \<Rightarrow> path \<Rightarrow> dict wprog" where
  "rollback_locked E data =
     bindM (askM (\<lambda>w. load_rollback_journal E w data)) (\<lambda>pending.
     case pending of
       Some journal \<Rightarrow> finish_rollback_locked E data journal
     | None \<Rightarrow>
         bindM (askM (\<lambda>w. active_state E w data)) (\<lambda>state.
         if pyeq (dget state ''schema_version'') (JInt 1) then rollback_legacy E data state
         else
           bindM (liftM (raiseIf (\<not> pyeq (dget state ''schema_version'') (JInt DEPLOYMENT_SCHEMA_VERSION))
             (BuildError ''unsupported active state schema for rollback''))) (\<lambda>_.
           bindM (liftM (raiseIf (dget state ''previous_deployment'' = JNull)
             (BuildError ''rollback requires current and previous verified deployments''))) (\<lambda>_.
           bindM (askM (\<lambda>w. candidate_matches_build E w data (dget state ''previous_deployment''))) (\<lambda>_.
           bindM utc_now (\<lambda>now.
           bindM (liftM (build_error_from_deployment
             (rollback_transition (digest E) (JObj state) (JStr now)))) (\<lambda>rolled_back.
           bindM (write_rollback_journal E data state rolled_back) (\<lambda>journal.
           finish_rollback_locked E data journal))))))))"

definition rollback :: "env \<Rightarrow> path \<Rightarrow> dict wprog" where
  "rollback E data = rebuild_lock data (rollback_locked E data)"

section \<open>Build listing and clean-up\<close>

definition build_summary :: "dict \<Rightarrow> dict res" where
  "build_summary manifest =
     bindE (didx manifest ''run_id'') (\<lambda>run_id.
     bindE (didx manifest ''result'') (\<lambda>result.
     bindE (didx manifest ''started_at'') (\<lambda>started_at.
     bindE (didx manifest ''source_fingerprint'') (\<lambda>source_fp.
     Inr [(''run_id'', run_id), (''result'', result), (''started_at'', started_at),
       (''verified_at'', dget manifest ''verified_at''), (''source_fingerprint'', source_fp)]))))"

definition list_builds :: "world \<Rightarrow> path \<Rightarrow> dict list res" where
  "list_builds w data =
     (let builds = data @ [''builds'']
      in if \<not> is_dir w builds then Inr []
         else mapE (\<lambda>p. bindE (load_json w p) build_summary)
           (filter (lexists w) (map (\<lambda>n. builds @ [n, ''manifest.json'']) (children w builds))))"

fun cleanup_builds :: "path \<Rightarrow> dict list \<Rightarrow> string list \<Rightarrow> string list wprog" where
  "cleanup_builds data [] cleaned = retM cleaned"
| "cleanup_builds data (b # bs) cleaned =
     (if \<not> pyeq (dget b ''result'') (JStr ''failed'') then cleanup_builds data bs cleaned
      else
        (let run = str_of (dget b ''run_id''); db = data @ [''builds'', run, ''cozo.db'']
         in bindM (getsM (\<lambda>w. exists_path w db)) (\<lambda>there.
            if there then bindM (remove_tree db) (\<lambda>_. cleanup_builds data bs (cleaned @ [run]))
            else cleanup_builds data bs cleaned)))"

definition cleanup_failed :: "path \<Rightarrow> string list wprog" where
  "cleanup_failed data =
     rebuild_lock data (bindM (askM (\<lambda>w. list_builds w data)) (\<lambda>builds. cleanup_builds data builds []))"

end
