(* ===== verification/SnapshotProps.thy ===== *)
theory SnapshotProps
  imports Snapshot
begin

text \<open>
  What \<open>snapshot.py\<close> guarantees: which paths it takes for canonical, what a validated manifest
  says, that a verified directory holds exactly the declared bytes, and what a submission archive
  contains.
\<close>

section \<open>Canonical paths\<close>

definition plain_part :: "string \<Rightarrow> bool" where
  "plain_part p \<longleftrightarrow> p \<noteq> [] \<and> CHR ''/'' \<notin> set p \<and> p \<noteq> ''.''"

definition canonical_path :: "string \<Rightarrow> bool" where
  "canonical_path s \<longleftrightarrow> list_all printable s \<and> CHR 0x5C \<notin> set s \<and>
     (s = ''.'' \<or> (posix_parts s \<noteq> [] \<and> s = join ''/'' (posix_parts s) \<and> ''..'' \<notin> set (posix_parts s)))"

lemma split_char_parts: "p \<in> set (split_char c s) \<Longrightarrow> c \<notin> set p"
  by (induction s arbitrary: p) (auto split: list.splits if_splits)

lemma posix_parts_plain: "p \<in> set (posix_parts s) \<Longrightarrow> plain_part p"
  by (auto simp: posix_parts_def plain_part_def dest: split_char_parts)

lemma posix_parts_join:
  assumes "ps \<noteq> []" "\<forall>p \<in> set ps. plain_part p"
  shows "posix_parts (join ''/'' ps) = ps"
proof -
  have "split_char (CHR ''/'') (join ''/'' ps) = ps"
    using assms by (intro split_char_join) (auto simp: plain_part_def)
  moreover have "filter (\<lambda>c. c \<noteq> [] \<and> c \<noteq> ''.'') ps = ps"
    using assms(2) by (intro filter_True) (auto simp: plain_part_def)
  ultimately show ?thesis by (simp add: posix_parts_def)
qed

lemma posix_parts_dot: "posix_parts ''.'' = []"
  by (simp add: posix_parts_def)

lemma join_no_lead: "ps \<noteq> [] \<Longrightarrow> \<forall>p \<in> set ps. plain_part p \<Longrightarrow> \<not> startswith (join ''/'' ps) ''/''"
proof (cases ps)
  case (Cons p qs)
  assume "\<forall>p \<in> set ps. plain_part p"
  with Cons have "p \<noteq> []" "CHR ''/'' \<notin> set p" by (auto simp: plain_part_def)
  with Cons show ?thesis by (cases p; cases qs) auto
qed simp

lemma printable_simps: "list_all printable s \<Longrightarrow> CHR 0x00 \<notin> set s"
  by (auto simp: list_all_iff printable_def code_of_def)

lemma safe_relative_path_Inr:
  "safe_relative_path v = Inr r \<longleftrightarrow> v = JStr r \<and> canonical_path r"
proof (cases v)
  case (JStr s)
  have plain: "\<forall>p \<in> set (posix_parts s). plain_part p" using posix_parts_plain by blast
  have "safe_relative_path v = Inr r \<longleftrightarrow>
      \<not> (s = [] \<or> CHR 0x00 \<in> set s \<or> CHR 0x5C \<in> set s) \<and> list_all printable s \<and>
      \<not> (startswith s ''/'' \<or> s \<noteq> as_posix s) \<and>
      \<not> list_ex (\<lambda>p. p \<in> set [[], ''.'', ''..'']) (posix_parts s) \<and> s = r"
    unfolding safe_relative_path_def JStr json.case bindE_raiseIf by simp
  also have "\<dots> \<longleftrightarrow> s = r \<and> canonical_path s"
  proof (cases "posix_parts s = []")
    case True
    then show ?thesis
      by (auto simp: canonical_path_def as_posix_def posix_parts_dot dest: printable_simps)
  next
    case False
    then have "s \<noteq> ''.''" by (auto simp: posix_parts_dot)
    with False plain join_no_lead [OF False plain] show ?thesis
      by (auto simp: canonical_path_def as_posix_def list_ex_iff plain_part_def posix_parts_def
          dest: printable_simps)
  qed
  finally show ?thesis using JStr by auto
qed (auto simp: safe_relative_path_def)

section \<open>The loop over the inventory\<close>

lemma foldE_InrI:
  "foldE f (x # xs) s = Inr t \<longleftrightarrow> (\<exists>s'. f x s = Inr s' \<and> foldE f xs s' = Inr t)"
  by (auto split: sum.splits)

definition item_sha :: "json \<Rightarrow> string" where
  "item_sha v = str_of (dget (obj_of v) ''sha256'')"

text \<open>What one accepted inventory item satisfies.\<close>

definition good_item :: "(string \<Rightarrow> string) \<Rightarrow> json \<Rightarrow> bool" where
  "good_item sha v \<longleftrightarrow>
     is_obj v \<and> same_fields (obj_of v) inventory_fields \<and>
     dget (obj_of v) ''path'' = JStr (item_path v) \<and> canonical_path (item_path v) \<and>
     dget (obj_of v) ''size'' = JInt (item_size v) \<and> 0 \<le> item_size v \<and>
     dget (obj_of v) ''sha256'' = JStr (item_sha v) \<and> is_sha256 (item_sha v) \<and>
     (has_kind ''source'' v \<or> has_kind ''excluded'' v \<and> item_size v = 0 \<and> item_sha v = sha [])"

lemma check_item_Inr:
  assumes "check_item sha v t = Inr t'"
  shows "good_item sha v \<and> item_path v \<notin> set (seen_paths t)
    \<and> seen_paths t' = seen_paths t @ [item_path v]
    \<and> included_count t' = included_count t + (if has_kind ''source'' v then 1 else 0)
    \<and> excluded_count t' = excluded_count t + (if has_kind ''excluded'' v then 1 else 0)
    \<and> byte_count t' = byte_count t + item_size v"
proof -
  let ?d = "obj_of v"
  from assms obtain p known t1 where
    shape: "is_obj v" "same_fields ?d inventory_fields"
    and p: "safe_relative_path (dget ?d ''path'') = Inr p" "p \<notin> set (seen_paths t)"
    and kind: "in_strs (dget ?d ''kind'') [''source'', ''excluded''] = Inr known" "known"
    and size: "\<not> (case dget ?d ''size'' of JInt i \<Rightarrow> i < 0 | _ \<Rightarrow> True)"
    and sha: "is_sha_json (dget ?d ''sha256'')"
    and branch: "(if dget ?d ''kind'' = JStr ''source'' then
              bindE (in_strs (dget ?d ''source_kind'') [''knowledge'', ''category'']) (\<lambda>ok.
              bindE (raiseIf (\<not> ok \<or> dget ?d ''exclusion_reason'' \<noteq> JNull)
                (SnapshotError (''snapshot source metadata is invalid for '' @ p))) (\<lambda>_.
              Inr (t\<lparr>included_count := Suc (included_count t)\<rparr>)))
            else
              bindE (raiseIf (dget ?d ''source_kind'' \<noteq> JNull \<or> \<not> is_str (dget ?d ''exclusion_reason''))
                (SnapshotError (''snapshot exclusion metadata is invalid for '' @ p))) (\<lambda>_.
              bindE (raiseIf (dget ?d ''size'' \<noteq> JInt 0 \<or> dget ?d ''sha256'' \<noteq> JStr (sha []))
                (SnapshotError (''snapshot excluded path is not an empty placeholder: '' @ p))) (\<lambda>_.
              Inr (t\<lparr>excluded_count := Suc (excluded_count t)\<rparr>)))) = Inr t1"
    and t': "t' = t1\<lparr>seen_paths := seen_paths t @ [p], byte_count := byte_count t + size_of (dget ?d ''size'')\<rparr>"
    unfolding check_item_def bindE_raiseIf Let_def bindE_eq_Inr [of "safe_relative_path _"]
      bindE_eq_Inr [of "in_strs (dget _ ''kind'') _"] bindE_eq_Inr [of "if _ then _ else _"]
    by auto
  from p(1) have path: "dget ?d ''path'' = JStr p" "canonical_path p" "item_path v = p"
    by (auto simp: safe_relative_path_Inr item_path_def)
  from size have n: "dget ?d ''size'' = JInt (item_size v)" "0 \<le> item_size v"
    by (auto simp: item_size_def size_of_def split: json.splits)
  from sha have d: "dget ?d ''sha256'' = JStr (item_sha v)" "is_sha256 (item_sha v)"
    by (auto simp: is_sha_json_def item_sha_def split: json.splits)
  have k: "dget ?d ''kind'' = JStr ''source'' \<or> dget ?d ''kind'' = JStr ''excluded''"
    using kind by (cases known) (auto simp: in_strs_True)
  show ?thesis
  proof (cases "dget ?d ''kind'' = JStr ''source''")
    case True
    with branch have "t1 = t\<lparr>included_count := Suc (included_count t)\<rparr>"
      by (auto simp: bindE_eq_Inr)
    with True shape path n d p(2) t' show ?thesis
      by (simp add: good_item_def has_kind_def item_size_def)
  next
    case False
    with branch have "t1 = t\<lparr>excluded_count := Suc (excluded_count t)\<rparr>"
      "dget ?d ''size'' = JInt 0" "dget ?d ''sha256'' = JStr (sha [])"
      by (auto simp: bindE_eq_Inr)
    with False k shape path n d p(2) t' show ?thesis
      by (simp add: good_item_def has_kind_def item_size_def)
  qed
qed

lemma check_items_Inr:
  assumes "foldE (check_item sha) items t = Inr t'" "distinct (seen_paths t)"
  shows "(\<forall>v \<in> set items. good_item sha v)
    \<and> seen_paths t' = seen_paths t @ map item_path items
    \<and> distinct (seen_paths t @ map item_path items)
    \<and> included_count t' = included_count t + length (filter (has_kind ''source'') items)
    \<and> excluded_count t' = excluded_count t + length (filter (has_kind ''excluded'') items)
    \<and> byte_count t' = byte_count t + sum_list (map item_size items)"
  using assms
proof (induction items arbitrary: t)
  case (Cons v items)
  from Cons.prems(1) obtain s where s: "check_item sha v t = Inr s" "foldE (check_item sha) items s = Inr t'"
    by (auto split: sum.splits)
  note one = check_item_Inr [OF s(1)]
  with Cons.prems(2) have "distinct (seen_paths s)" by simp
  from Cons.IH [OF s(2) this] one show ?case by auto
qed simp

section \<open>What a validated manifest says\<close>

definition inventory_of :: "dict \<Rightarrow> json list" where
  "inventory_of m = list_of (dget m ''inventory'')"

definition valid_manifest :: "(string \<Rightarrow> string) \<Rightarrow> nat \<Rightarrow> int \<Rightarrow> dict \<Rightarrow> bool" where
  "valid_manifest sha max_files max_bytes m \<longleftrightarrow>
     (\<forall>v \<in> set (inventory_of m). good_item sha v) \<and>
     distinct (map item_path (inventory_of m)) \<and>
     sorted (map fold_key (map item_path (inventory_of m))) \<and>
     length (inventory_of m) \<le> max_files \<and>
     sum_list (map item_size (inventory_of m)) \<le> max_bytes \<and>
     pyeq (dget m ''file_count'') (JInt (int (length (inventory_of m)))) \<and>
     pyeq (dget m ''included_source_count'') (JInt (int (length (filter (has_kind ''source'') (inventory_of m))))) \<and>
     pyeq (dget m ''excluded_artifact_count'') (JInt (int (length (filter (has_kind ''excluded'') (inventory_of m))))) \<and>
     pyeq (dget m ''total_uncompressed_bytes'') (JInt (sum_list (map item_size (inventory_of m)))) \<and>
     dget m ''snapshot_id'' = JStr (sha256_json sha (JObj (map (\<lambda>f. (f, dget m f)) snapshot_identity_fields)))"

lemma snapshot_identity_Inr:
  "same_fields m manifest_fields \<Longrightarrow>
     snapshot_identity m = Inr (map (\<lambda>f. (f, dget m f)) snapshot_identity_fields)"
  unfolding snapshot_identity_def same_fields_def
  by (intro pick_fields_Inr) (simp add: snapshot_identity_fields_def manifest_fields_def)

lemma validate_snapshot_manifest_Inr:
  assumes "validate_snapshot_manifest sha max_files max_bytes v = Inr m"
  shows "v = JObj m \<and> same_fields m manifest_fields \<and> dget m ''inventory'' = JList (inventory_of m)
    \<and> valid_manifest sha max_files max_bytes m"
proof -
  have "is_obj v" using assms unfolding validate_snapshot_manifest_def bindE_raiseIf by simp
  then obtain d where v: "v = JObj d" by (cases v) auto
  note run = assms [unfolded v validate_snapshot_manifest_def Let_def bindE_raiseIf bindE_eachE
      obj_of.simps is_obj.simps]
  from run have fields: "same_fields d manifest_fields" by simp
  from run obtain t where t: "foldE (check_item sha) (inventory_of d) no_tally = Inr t"
    by (auto simp: bindE_eq_Inr inventory_of_def)
  have inv: "dget d ''inventory'' = JList (inventory_of d)"
    using run by (cases "dget d ''inventory''") (auto simp: inventory_of_def)
  have loop: "(\<forall>x \<in> set (inventory_of d). good_item sha x)"
    "seen_paths t = map item_path (inventory_of d)" "distinct (map item_path (inventory_of d))"
    "included_count t = length (filter (has_kind ''source'') (inventory_of d))"
    "excluded_count t = length (filter (has_kind ''excluded'') (inventory_of d))"
    "byte_count t = sum_list (map item_size (inventory_of d))"
    using check_items_Inr [OF t] by (simp_all add: no_tally_def)
  note rest = run [folded inventory_of_def, unfolded t bindE_simps bindE_raiseIf bindE_eachE
      snapshot_identity_Inr [OF fields] sum.inject]
  have m: "m = d" using rest by (auto simp del: eachE.simps)
  have order: "seen_paths t = sort_key fold_key (remdups (seen_paths t))"
    using rest by (auto simp del: eachE.simps)
  have sorted: "sorted (map fold_key (seen_paths t))"
    by (subst order) simp
  have counts: "pyeq (dget d ''included_source_count'') (JInt (int (included_count t)))"
    "pyeq (dget d ''excluded_artifact_count'') (JInt (int (excluded_count t)))"
    "pyeq (dget d ''file_count'') (JInt (int (length (inventory_of d))))"
    "pyeq (dget d ''total_uncompressed_bytes'') (JInt (byte_count t))"
    using rest by (auto simp del: eachE.simps)
  have bounds: "length (inventory_of d) \<le> max_files" "byte_count t \<le> max_bytes"
    using rest by (auto simp del: eachE.simps)
  have id: "dget d ''snapshot_id'' = JStr (sha256_json sha (JObj (map (\<lambda>f. (f, dget d f)) snapshot_identity_fields)))"
    using rest by (auto simp del: eachE.simps)
  show ?thesis
    unfolding m valid_manifest_def
    using v fields inv loop sorted counts bounds id by (simp add: loop)
qed

section \<open>What a verified directory holds\<close>

lemma scan_entries_Inr:
  assumes "scan_entries root es = Inr rs"
  shows "(\<forall>e \<in> set es. \<exists>c. snd e = File c \<or> snd e = Dir)
    \<and> (\<forall>e c. e \<in> set es \<and> snd e = File c \<longrightarrow>
        join ''/'' (drop (length root) (fst e)) \<in> set rs \<and> canonical_path (join ''/'' (drop (length root) (fst e))))"
  using assms
proof (induction es arbitrary: rs)
  case (Cons e es)
  obtain p n where e: "e = (p, n)" by (cases e)
  show ?case
  proof (cases n)
    case (File c)
    with Cons.prems e obtain r rs' where r: "safe_relative_path (JStr (join ''/'' (drop (length root) p))) = Inr r"
      "scan_entries root es = Inr rs'" "rs = r # rs'"
      by (auto simp: Let_def bindE_eq_Inr)
    with Cons.IH [OF r(2)] e File show ?thesis by (auto simp: safe_relative_path_Inr)
  next
    case Dir
    with Cons.prems e have "scan_entries root es = Inr rs" by simp
    from Cons.IH [OF this] e Dir show ?thesis by auto
  qed (use Cons.prems e in simp)
qed simp

lemma resolve_beneath_Inr:
  "resolve_beneath w root r = Inr p \<Longrightarrow> canonical_path r \<and> p = root @ posix_parts r"
  by (auto simp: resolve_beneath_def bindE_eq_Inr bindE_raiseIf Let_def safe_relative_path_Inr)

lemma verify_item_Inr:
  assumes "verify_item sha w root v = Inr u"
  shows "\<exists>c. file_at w (root @ posix_parts (item_path v)) = Some c
    \<and> int (length c) = item_size v \<and> sha c = item_sha v"
proof -
  from assms obtain p where p: "resolve_beneath w root (item_path v) = Inr p"
    and ok: "is_file w p" "int (file_size w p) = item_size v"
      "file_sha256 sha w p = Inr (item_sha v)"
    by (auto simp: verify_item_def bindE_eq_Inr item_sha_def)
  from resolve_beneath_Inr [OF p] have "p = root @ posix_parts (item_path v)" by blast
  with ok show ?thesis
    by (auto simp: is_file_file_at file_size_def file_sha256_def read_bytes_file_at)
qed

lemma verify_snapshot_Inr:
  assumes "verify_snapshot sha inspect w root v = Inr m"
  obtains rs where "check_manifest sha v = Inr m" "scan_entries root (entries_below w root) = Inr rs"
    "sort_key fold_key rs = map item_path (inventory_of m)"
    "\<forall>x \<in> set (inventory_of m). verify_item sha w root x = Inr ()"
proof -
  from assms obtain checked where c: "check_manifest sha v = Inr checked"
    by (auto simp: verify_snapshot_def bindE_eq_Inr)
  note run = assms [unfolded verify_snapshot_def c bindE_simps bindE_raiseIf Let_def]
  from run obtain rs where rs: "scan_entries root (entries_below w root) = Inr rs"
    by (auto simp: bindE_eq_Inr)
  note rest = run [unfolded rs bindE_simps bindE_raiseIf bindE_eachE]
  from rest have "checked = m" by (auto simp: bindE_eq_Inr)
  with rest c rs that [of rs] show thesis by (simp add: inventory_of_def)
qed

lemma file_entry:
  assumes "\<forall>e \<in> set (entries_below w root). \<exists>c. snd e = File c \<or> snd e = Dir"
    and "file_at w (root @ rel) = Some c" "rel \<noteq> []"
  shows "(root @ rel, File c) \<in> set (entries_below w root)"
proof -
  obtain n where n: "map_of (tree w) (root @ rel) = Some n"
    using file_at_lexists [OF assms(2)] by (auto simp: lexists_def lstat_def)
  from map_of_SomeD [OF n] assms(3) have mem: "(root @ rel, n) \<in> set (entries_below w root)"
    by (auto simp: entries_below_def below_def)
  with assms(1) have "\<exists>c. n = File c \<or> n = Dir" by force
  with n assms(2) have "n = File c" by (auto simp: file_at_def stat_def lstat_def)
  with mem show ?thesis by simp
qed

section \<open>What a submission archive contains\<close>

lemma archive_members_Inr:
  "mapE archive_member es = Inr es' \<Longrightarrow> es' = es \<and> (\<forall>e \<in> set es. ustar_name (fst e))"
  by (induction es arbitrary: es')
     (auto simp: archive_member_def tar_info_def bindE_raiseIf bindE_eq_Inr split: sum.splits)

lemma vault_member_Inr:
  "vault_member w root x = Inr e \<Longrightarrow>
     fst e = ''vault/'' @ item_path x \<and> file_at w (root @ posix_parts (item_path x)) = Some (snd e)"
  using resolve_beneath_Inr [of w root "item_path x"]
  by (auto simp: vault_member_def bindE_eq_Inr read_bytes_file_at split: option.splits)

lemma vault_members_Inr:
  "mapE (vault_member w root) xs = Inr es \<Longrightarrow>
     map fst es = map (\<lambda>x. ''vault/'' @ item_path x) xs
     \<and> (\<forall>e \<in> set es. \<exists>x \<in> set xs. fst e = ''vault/'' @ item_path x
          \<and> file_at w (root @ posix_parts (item_path x)) = Some (snd e))"
proof (induction xs arbitrary: es)
  case (Cons x xs)
  from Cons.prems obtain e es' where e: "vault_member w root x = Inr e"
    "mapE (vault_member w root) xs = Inr es'" "es = e # es'"
    by (auto split: sum.splits)
  with Cons.IH [OF e(2)] vault_member_Inr [OF e(1)] show ?case by auto
qed simp

section \<open>A concrete snapshot\<close>

definition a_sha :: "string \<Rightarrow> string" where
  "a_sha s = replicate 64 (CHR ''a'')"

definition sample_vault :: world where
  "sample_vault = fresh_world\<lparr>tree := [([''v''], Dir), ([''v'', ''a.md''], File ''hi'')]\<rparr>"

definition sample_item :: json where
  "sample_item = inventory_item ''a.md'' ''source'' (JStr ''knowledge'') JNull 2 (replicate 64 (CHR ''a''))"

definition sample_manifest :: dict where
  "sample_manifest =
    [(''schema_version'', JInt 1), (''snapshot_contract_version'', JStr ''homeops-snapshot-v1''),
     (''snapshot_id'', JStr (replicate 64 (CHR ''a''))), (''created_at'', JStr ''t1''),
     (''source_fingerprint'', JStr (replicate 64 (CHR ''a''))),
     (''artifact_fingerprint'', JStr (replicate 64 (CHR ''b''))),
     (''logical_fingerprint'', JStr (replicate 64 (CHR ''c''))),
     (''included_source_count'', JInt 1), (''excluded_artifact_count'', JInt 0),
     (''file_count'', JInt 1), (''total_uncompressed_bytes'', JInt 2),
     (''inventory'', JList [sample_item]),
     (''exporter'', JObj [(''package_version'', JStr ''1.0''), (''source_revision'', JStr ''rev'')])]"

lemma safe_a_md: "safe_relative_path (JStr ''a.md'') = Inr ''a.md''"
  by (simp add: safe_relative_path_Inr canonical_path_def posix_parts_def printable_def code_of_def)

lemma sample_item_checked:
  "check_item a_sha sample_item no_tally = Inr \<lparr>seen_paths = [''a.md''], included_count = 1,
     excluded_count = 0, byte_count = 2\<rparr>"
  unfolding check_item_def
  by (simp add: sample_item_def inventory_item_def same_fields_def inventory_fields_def safe_a_md no_tally_def
      raiseIf_def is_sha_json_def sample_text size_of_def cong: bindE_weak_cong)

lemma sample_manifest_checked: "check_manifest a_sha (JObj sample_manifest) = Inr sample_manifest"
proof -
  have fields: "same_fields sample_manifest manifest_fields"
    by (simp add: sample_manifest_def same_fields_def manifest_fields_def)
  have get: "dget sample_manifest ''schema_version'' = JInt 1"
    "dget sample_manifest ''snapshot_contract_version'' = JStr ''homeops-snapshot-v1''"
    "dget sample_manifest ''snapshot_id'' = JStr (replicate 64 (CHR ''a''))"
    "dget sample_manifest ''created_at'' = JStr ''t1''"
    "dget sample_manifest ''source_fingerprint'' = JStr (replicate 64 (CHR ''a''))"
    "dget sample_manifest ''artifact_fingerprint'' = JStr (replicate 64 (CHR ''b''))"
    "dget sample_manifest ''logical_fingerprint'' = JStr (replicate 64 (CHR ''c''))"
    "dget sample_manifest ''included_source_count'' = JInt 1"
    "dget sample_manifest ''excluded_artifact_count'' = JInt 0"
    "dget sample_manifest ''file_count'' = JInt 1"
    "dget sample_manifest ''total_uncompressed_bytes'' = JInt 2"
    "dget sample_manifest ''inventory'' = JList [sample_item]"
    "dget sample_manifest ''exporter'' = JObj [(''package_version'', JStr ''1.0''), (''source_revision'', JStr ''rev'')]"
    by (simp_all add: sample_manifest_def)
  have loop: "foldE (check_item a_sha) [sample_item] no_tally = Inr \<lparr>seen_paths = [''a.md''],
      included_count = 1, excluded_count = 0, byte_count = 2\<rparr>"
    by (simp add: sample_item_checked)
  show ?thesis
    unfolding validate_snapshot_manifest_def Let_def obj_of.simps get list_of.simps loop
    by (simp add: fields fields [unfolded same_fields_def] raiseIf_def is_sha_json_def sample_text get exporter_fields_def same_fields_def
        DEFAULT_MAX_FILES_def DEFAULT_MAX_BYTES_def snapshot_identity_Inr [OF fields] sha256_json_def a_sha_def
        cong: bindE_weak_cong)
qed

lemma sample_verified: "verify_snapshot a_sha None sample_vault [''v''] (JObj sample_manifest) = Inr sample_manifest"
proof -
  have get: "dget sample_manifest ''inventory'' = JList [sample_item]" by (simp add: sample_manifest_def)
  have item: "item_path sample_item = ''a.md''" "item_size sample_item = 2"
    "dget (obj_of sample_item) ''sha256'' = JStr (replicate 64 (CHR ''a''))"
    by (simp_all add: item_path_def item_size_def size_of_def sample_item_def inventory_item_def)
  have parts: "posix_parts ''a.md'' = [''a.md'']" by (simp add: posix_parts_def)
  have bytes_at: "file_at sample_vault [''v'', ''a.md''] = Some ''hi''"
    by (simp add: file_at_def stat_def lstat_def sample_vault_def)
  have res: "resolve_beneath sample_vault [''v''] ''a.md'' = Inr [''v'', ''a.md'']"
    by (simp add: resolve_beneath_def safe_a_md parts raiseIf_def exists_path_def is_symlink_def stat_def
        lstat_def sample_vault_def)
  have ver: "verify_item a_sha sample_vault [''v''] sample_item = Inr ()"
    by (simp add: verify_item_def item res is_file_file_at bytes_at file_size_def file_sha256_def
        read_bytes_file_at a_sha_def)
  have scan: "scan_entries [''v''] (entries_below sample_vault [''v'']) = Inr [''a.md'']"
    by (simp add: entries_below_def sample_vault_def below_def safe_a_md)
  show ?thesis
    unfolding verify_snapshot_def sample_manifest_checked bindE_simps scan get list_of.simps Let_def
    by (simp add: raiseIf_def exists_path_def stat_def lstat_def sample_vault_def item ver [unfolded sample_vault_def]
        cong: bindE_weak_cong)
qed

definition sample_request :: dict where
  "sample_request =
    [(''schema_version'', JInt 1), (''protocol'', JStr ''homeops.receiver/v1''),
     (''request_id'', JStr ''01234567-89ab-4cde-8f01-23456789abcd''), (''publisher_id'', JStr ''laptop''),
     (''capability_token'', JStr (replicate 64 (CHR ''a''))), (''release_policy_id'', JStr (replicate 64 (CHR ''b''))),
     (''snapshot_id'', JStr (replicate 64 (CHR ''a''))), (''expected_current_deployment_id'', JStr []),
     (''snapshot_manifest_sha256'', JStr (replicate 64 (CHR ''a'')))]"

definition sample_look :: "world \<Rightarrow> path \<Rightarrow> dict res" where
  "sample_look w p = Inr [(''validation'', JObj [(''errors'', JList [])]),
     (''source_fingerprint'', JStr (replicate 64 (CHR ''a''))),
     (''artifact_fingerprint'', JStr (replicate 64 (CHR ''b''))),
     (''logical_fingerprint'', JStr (replicate 64 (CHR ''c'')))]"

lemma sample_uuid: "is_uuid4 ''01234567-89ab-4cde-8f01-23456789abcd''"
  by (simp add: is_uuid4_def is_lower_hex_def is_digit_def code_of_def startswith_def)

lemma sample_request_ok: "validate_request_message sample_request = Inr sample_request"
proof -
  have keys: "dkeys sample_request = request_fields" by (simp add: sample_request_def request_fields_def)
  have pub: "validate_publisher_id (JStr ''laptop'') = Inr ''laptop''"
    by (simp add: validate_publisher_id_def is_lower_def code_of_def)
  have get: "dget sample_request ''schema_version'' = JInt 1"
    "dget sample_request ''protocol'' = JStr ''homeops.receiver/v1''"
    "dget sample_request ''request_id'' = JStr ''01234567-89ab-4cde-8f01-23456789abcd''"
    "dget sample_request ''publisher_id'' = JStr ''laptop''"
    "dget sample_request ''capability_token'' = JStr (replicate 64 (CHR ''a''))"
    "dget sample_request ''release_policy_id'' = JStr (replicate 64 (CHR ''b''))"
    "dget sample_request ''snapshot_id'' = JStr (replicate 64 (CHR ''a''))"
    "dget sample_request ''expected_current_deployment_id'' = JStr []"
    "dget sample_request ''snapshot_manifest_sha256'' = JStr (replicate 64 (CHR ''a''))"
    by (simp_all add: sample_request_def)
  show ?thesis
    unfolding validate_request_message_def canonical_receiver_json_def keys get
    by (simp add: raiseIf_def sample_uuid pub is_sha_json_def sample_text get)
qed
lemma sample_manifest_small: "length (manifest_bytes sample_manifest) < 8 ^ 11"
  by (simp add: manifest_bytes_def dumps_def quote_def escape_char_def code_of_def int_dec_def nat_dec.simps sample_manifest_def canonical_json_bytes_def sample_item_def inventory_item_def)

lemma sample_request_small: "length (receiver_json_bytes (JObj sample_request)) < 8 ^ 11"
  by (simp add: receiver_json_bytes_def dumps_def quote_def escape_char_def code_of_def int_dec_def nat_dec.simps sample_request_def)

lemma sample_verified_look:
  "verify_snapshot a_sha (Some sample_look) sample_vault [''v''] (JObj sample_manifest) = Inr sample_manifest"
proof -
  have "agree_with_inspection [(''validation'', JObj [(''errors'', JList [])]),
     (''source_fingerprint'', JStr (replicate 64 (CHR ''a''))),
     (''artifact_fingerprint'', JStr (replicate 64 (CHR ''b''))),
     (''logical_fingerprint'', JStr (replicate 64 (CHR ''c'')))] sample_manifest = Inr ()"
    by (simp add: agree_with_inspection_def didx_def jidx_def raiseIf_def fingerprint_fields_def sample_manifest_def)
  then show ?thesis
    using sample_verified
    unfolding verify_snapshot_def by (auto simp: bindE_eq_Inr bindE_raiseIf Let_def sample_look_def)
qed

lemma sample_archive:
  "\<exists>es. write_submission_archive a_sha sample_look sample_vault sample_request (JObj sample_manifest) [''v''] = Inr es"
proof -
  have bytes: "canonical_receiver_json sample_request request_fields = Inr (receiver_json_bytes (JObj sample_request))"
    by (simp add: canonical_receiver_json_def raiseIf_def sample_request_def request_fields_def)
  have get: "dget sample_request ''snapshot_manifest_sha256'' = JStr (replicate 64 (CHR ''a''))"
    "dget sample_request ''snapshot_id'' = JStr (replicate 64 (CHR ''a''))"
    "dget sample_manifest ''snapshot_id'' = JStr (replicate 64 (CHR ''a''))"
    "dget sample_manifest ''inventory'' = JList [sample_item]" "item_path sample_item = ''a.md''"
    by (simp_all add: sample_request_def sample_manifest_def item_path_def sample_item_def inventory_item_def)
  have parts: "posix_parts ''a.md'' = [''a.md'']" by (simp add: posix_parts_def)
  have bytes_at: "file_at sample_vault [''v'', ''a.md''] = Some ''hi''"
    by (simp add: file_at_def stat_def lstat_def sample_vault_def)
  have res: "resolve_beneath sample_vault [''v''] ''a.md'' = Inr [''v'', ''a.md'']"
    by (simp add: resolve_beneath_def safe_a_md parts raiseIf_def exists_path_def is_symlink_def stat_def
        lstat_def sample_vault_def)
  have member: "vault_member sample_vault [''v''] sample_item = Inr (''vault/a.md'', ''hi'')"
    by (simp add: vault_member_def get res read_bytes_file_at bytes_at)
  show ?thesis
    unfolding write_submission_archive_def sample_request_ok sample_verified_look bindE_simps bytes get
    using sample_manifest_small sample_request_small
    by (simp add: raiseIf_def member archive_member_def tar_info_def ustar_name_def a_sha_def)
qed

section \<open>Properties\<close>

text \<open>a snapshot path is accepted exactly when it is printable ASCII without a backslash and
  is either the single dot or a non-empty sequence of components joined by slashes, none of them
  empty, a dot or two dots; it is returned unchanged.\<close>

theorem safe_relative_path_accepts:
  "safe_relative_path v = Inr r \<longleftrightarrow> v = JStr r \<and> list_all printable r \<and> CHR 0x5C \<notin> set r \<and>
     (r = ''.'' \<or> (\<exists>ps. ps \<noteq> [] \<and> r = join ''/'' ps \<and> list_all (\<lambda>p. plain_part p \<and> p \<noteq> ''..'') ps))"
proof -
  have "posix_parts r \<noteq> [] \<and> r = join ''/'' (posix_parts r) \<and> ''..'' \<notin> set (posix_parts r) \<longleftrightarrow>
    (\<exists>ps. ps \<noteq> [] \<and> r = join ''/'' ps \<and> (\<forall>p \<in> set ps. plain_part p \<and> p \<noteq> ''..''))"
    using posix_parts_join posix_parts_plain by metis
  then show ?thesis unfolding safe_relative_path_Inr canonical_path_def list_all_iff by blast
qed

text \<open>A manifest that passes validation is returned unchanged and means what it says: its
  items are well formed with canonical paths, distinct and in the case-folded order, within the
  limits on files and bytes, its four counts are those of the inventory, excluded items are empty
  placeholders, and its id is the digest of its content.\<close>

theorem validated_manifest_means:
  assumes "validate_snapshot_manifest sha max_files max_bytes v = Inr m"
  shows "v = JObj m \<and> valid_manifest sha max_files max_bytes m"
  using validate_snapshot_manifest_Inr [OF assms] by blast

theorem validated_manifest_means_witness:
  "valid_manifest a_sha DEFAULT_MAX_FILES DEFAULT_MAX_BYTES sample_manifest"
  using validated_manifest_means [OF sample_manifest_checked] by blast

text \<open>C18: a directory that verifies against a manifest holds exactly the declared files: every
  regular file below the root is declared with its size and the digest of its bytes, every declared
  path is such a file, and nothing below the root is a link.\<close>

theorem verified_directory_exact:
  assumes "verify_snapshot sha inspect w root v = Inr m"
  shows "(\<forall>x \<in> set (inventory_of m). \<exists>c. file_at w (root @ posix_parts (item_path x)) = Some c
        \<and> int (length c) = item_size x \<and> sha c = item_sha x)
    \<and> (\<forall>rel c. rel \<noteq> [] \<and> list_all plain_part rel \<and> file_at w (root @ rel) = Some c \<longrightarrow>
        (\<exists>x \<in> set (inventory_of m). item_path x = join ''/'' rel
          \<and> item_size x = int (length c) \<and> item_sha x = sha c))
    \<and> (\<forall>e \<in> set (tree w). below root (fst e) \<and> fst e \<noteq> root \<longrightarrow> (\<forall>t. snd e \<noteq> Link t))"
proof -
  from assms obtain rs where rs: "scan_entries root (entries_below w root) = Inr rs"
    "sort_key fold_key rs = map item_path (inventory_of m)"
    "\<forall>x \<in> set (inventory_of m). verify_item sha w root x = Inr ()"
    by (rule verify_snapshot_Inr)
  note scan = scan_entries_Inr [OF rs(1)]
  have items: "\<exists>c. file_at w (root @ posix_parts (item_path x)) = Some c
        \<and> int (length c) = item_size x \<and> sha c = item_sha x" if "x \<in> set (inventory_of m)" for x
    using rs(3) that by (auto intro: verify_item_Inr)
  have declared: "\<exists>x \<in> set (inventory_of m). item_path x = join ''/'' rel
          \<and> item_size x = int (length c) \<and> item_sha x = sha c"
    if rel: "rel \<noteq> []" "list_all plain_part rel" "file_at w (root @ rel) = Some c" for rel c
  proof -
    from scan file_entry [OF _ rel(3,1)] have "join ''/'' rel \<in> set rs" by fastforce
    moreover have "set rs = set (map item_path (inventory_of m))"
      using rs(2) [symmetric] by simp
    ultimately obtain x where x: "x \<in> set (inventory_of m)" "item_path x = join ''/'' rel" by auto
    have "posix_parts (join ''/'' rel) = rel"
      using rel by (intro posix_parts_join) (auto simp: list_all_iff)
    with items [OF x(1)] x rel(3) show ?thesis by auto
  qed
  have "\<forall>e \<in> set (tree w). below root (fst e) \<and> fst e \<noteq> root \<longrightarrow> (\<forall>t. snd e \<noteq> Link t)"
    using scan by (fastforce simp: entries_below_def)
  with items declared show ?thesis by blast
qed

theorem verified_directory_exact_witness:
  "\<exists>x c. item_path x = ''a.md'' \<and> item_size x = int (length c) \<and> file_at sample_vault [''v'', ''a.md''] = Some c"
proof -
  have bytes_at: "file_at sample_vault ([''v''] @ [''a.md'']) = Some ''hi''"
    by (simp add: file_at_def stat_def lstat_def sample_vault_def)
  have "list_all plain_part [''a.md'']" by (simp add: plain_part_def)
  with verified_directory_exact [OF sample_verified] bytes_at
  have "\<exists>x \<in> set (inventory_of sample_manifest). item_path x = join ''/'' [''a.md'']
      \<and> item_size x = int (length ''hi'') \<and> item_sha x = a_sha ''hi''"
    by blast
  with bytes_at show ?thesis by auto
qed

text \<open>A submission archive is deterministic and complete: the request and the manifest first,
  the manifest with the digest that the request names, then one member for every inventory path
  and no other, in bytewise order, with exactly the verified bytes, every name representable.\<close>

theorem submission_archive_members:
  assumes "write_submission_archive sha look w request manifest root = Inr es"
  shows "\<exists>m rest. check_manifest sha manifest = Inr m
    \<and> es = (''request.json'', receiver_json_bytes (JObj request)) # (''snapshot.json'', manifest_bytes m) # rest
    \<and> dget request ''snapshot_manifest_sha256'' = JStr (sha (manifest_bytes m))
    \<and> sorted (map fst rest) \<and> distinct (map fst rest)
    \<and> set (map fst rest) = (\<lambda>x. ''vault/'' @ item_path x) ` set (inventory_of m)
    \<and> (\<forall>e \<in> set rest. \<exists>x \<in> set (inventory_of m). fst e = ''vault/'' @ item_path x
         \<and> sha (snd e) = item_sha x \<and> int (length (snd e)) = item_size x)
    \<and> (\<forall>e \<in> set es. ustar_name (fst e))"
proof -
  from assms obtain req where req: "validate_request_message request = Inr req"
    by (auto simp: write_submission_archive_def bindE_eq_Inr)
  have same: "req = request" and order: "dkeys request = request_fields"
    using req by (auto simp: validate_request_message_def bindE_eq_Inr bindE_raiseIf bindE_eachE
        canonical_receiver_json_def)
  note run = assms [unfolded write_submission_archive_def req bindE_simps same]
  from run obtain m where m: "verify_snapshot sha (Some look) w root manifest = Inr m"
    by (auto simp: bindE_eq_Inr)
  have bytes: "canonical_receiver_json request request_fields = Inr (receiver_json_bytes (JObj request))"
    by (simp add: canonical_receiver_json_def order raiseIf_def)
  note run' = run [unfolded m bytes bindE_simps bindE_raiseIf, folded inventory_of_def]
  then obtain members where mem: "mapE (vault_member w root) (inventory_of m) = Inr members"
    by (auto simp: bindE_eq_Inr)
  have es: "mapE archive_member ([(''request.json'', receiver_json_bytes (JObj request)),
      (''snapshot.json'', manifest_bytes m)] @ sort_key fst members) = Inr es"
    using run' unfolding mem by simp
  note arch = archive_members_Inr [OF es]
  note vm = vault_members_Inr [OF mem]
  from m obtain rs where ver: "check_manifest sha manifest = Inr m"
    "\<forall>x \<in> set (inventory_of m). verify_item sha w root x = Inr ()"
    by (rule verify_snapshot_Inr)
  have dist: "distinct (map item_path (inventory_of m))"
    using validate_snapshot_manifest_Inr [OF ver(1)] by (simp add: valid_manifest_def)
  have names: "map fst members = map ((@) ''vault/'') (map item_path (inventory_of m))"
    using vm by simp
  have "distinct (map fst members)"
    unfolding names using dist by (simp add: distinct_map inj_on_def)
  then have d: "distinct (map fst (sort_key fst members))" by (simp add: distinct_map)
  have content: "\<exists>x \<in> set (inventory_of m). fst e = ''vault/'' @ item_path x
         \<and> sha (snd e) = item_sha x \<and> int (length (snd e)) = item_size x" if "e \<in> set members" for e
  proof -
    from vm that obtain x where x: "x \<in> set (inventory_of m)" "fst e = ''vault/'' @ item_path x"
      "file_at w (root @ posix_parts (item_path x)) = Some (snd e)" by blast
    with ver(2) verify_item_Inr [of sha w root x "()"] show ?thesis by auto
  qed
  have set: "fst ` set members = (\<lambda>x. ''vault/'' @ item_path x) ` set (inventory_of m)"
    using arg_cong [OF names, of set] by (simp add: image_image)
  show ?thesis
    using ver(1) arch d content run' set
    by (intro exI [of _ m] exI [of _ "sort_key fst members"]) simp
qed

theorem submission_archive_members_witness:
  "\<exists>es. write_submission_archive a_sha sample_look sample_vault sample_request (JObj sample_manifest) [''v''] = Inr es
     \<and> hd es = (''request.json'', receiver_json_bytes (JObj sample_request))"
proof -
  obtain es where es: "write_submission_archive a_sha sample_look sample_vault sample_request
      (JObj sample_manifest) [''v''] = Inr es" using sample_archive by blast
  from submission_archive_members [OF es] show ?thesis using es by auto
qed

end
