(* ===== verification/PromotionProps.thy ===== *)
theory PromotionProps
  imports Promotion SnapshotProps
begin

text \<open>
  What the promotion and the rollback of \<open>build.py\<close> guarantee: the active state changes only
  after every gate has been passed, and an interrupted rollback is finished by the recovery,
  wherever it broke off. The frame lemmas say which files each step can touch.
\<close>

section \<open>Frames\<close>

definition history_files :: "path \<Rightarrow> path set" where
  "history_files data = {q. below (data @ [''deployment-history'']) q}"

definition bookkeeping_files :: "path \<Rightarrow> path set" where
  "bookkeeping_files data = insert (projection_path (butlast data)) (history_files data)"

lemma history_path_in: "history_path E data d \<in> history_files data"
  by (simp add: history_path_def history_files_def below_def)

lemma keeps_store_promoted: "keeps (same_outside (history_files data)) (store_promoted_record E data rec)"
  unfolding store_promoted_record_def
  by (intro frame_intros history_path_in)

lemma keeps_publish:
  "projection_path root \<in> S \<Longrightarrow> keeps (same_outside S) (publish_current_projection sha root st)"
  unfolding publish_current_projection_def
  by (cases st) (auto intro!: frame_intros)

lemma keeps_repair:
  "keeps (same_outside (bookkeeping_files data)) (repair_selected_bookkeeping_locked E data i)"
  unfolding repair_selected_bookkeeping_locked_def
  by (intro frame_intros keeps_publish keeps_mono [OF keeps_store_promoted])
     (auto simp: bookkeeping_files_def)

lemma active_not_bookkeeping: "active_path data \<notin> bookkeeping_files data"
  by (auto simp: active_path_def bookkeeping_files_def projection_path_def history_files_def below_def)

lemma journal_not_bookkeeping: "rollback_journal_path data \<notin> bookkeeping_files data"
  by (auto simp: rollback_journal_path_def bookkeeping_files_def projection_path_def history_files_def
      below_def)

lemma active_not_journal: "active_path data \<noteq> rollback_journal_path data"
  by (simp add: active_path_def rollback_journal_path_def)

lemma record_path_not_active: "data @ [''deployments'', n] \<noteq> active_path data"
  by (simp add: active_path_def)

lemma repair_unchanged:
  assumes "repair_selected_bookkeeping_locked E data i w = (r, w')"
  shows "file_at w' (active_path data) = file_at w (active_path data)"
    and "file_at w' (rollback_journal_path data) = file_at w (rollback_journal_path data)"
  using keepsD [OF keeps_repair assms] active_not_bookkeeping journal_not_bookkeeping
  by (auto dest: same_outsideD)

lemma keeps_clear: "keeps (same_outside {rollback_journal_path data}) (clear_rollback_journal data)"
  unfolding clear_rollback_journal_def by (intro frame_intros) simp

lemma clear_Inr:
  assumes "clear_rollback_journal data w = (Inr u, w')"
  shows "file_at w' (rollback_journal_path data) = None"
proof -
  from assms obtain w1 there where "unlink (rollback_journal_path data) w = (Inr (), w1)"
    "whenM there (fsync_path (butlast (rollback_journal_path data))) w1 = (Inr u, w')"
    by (auto simp: clear_rollback_journal_def bindM_eq_Inr)
  with unlink_gone keepsD [OF keeps_when [OF keeps_fsync, of "{}"]] show ?thesis
    by (auto simp: same_outside_def)
qed

lemma clear_cases:
  assumes "clear_rollback_journal data w = (r, w')"
  shows "file_at w' (rollback_journal_path data) \<in> {None, file_at w (rollback_journal_path data)}"
proof (cases "unlink (rollback_journal_path data) w")
  case (Pair r1 w1)
  show ?thesis
  proof (cases r1)
    case (Inl e)
    with Pair assms have "unlink (rollback_journal_path data) w = (r1, w')"
      by (simp add: clear_rollback_journal_def bindM_def)
    then show ?thesis
      unfolding unlink_def by (rule durable_cases) (simp_all add: file_at_tree delete_conv')
  next
    case (Inr u)
    with Pair have gone: "file_at w1 (rollback_journal_path data) = None" by (auto intro: unlink_gone)
    obtain there where "whenM there (fsync_path (butlast (rollback_journal_path data))) w1 = (r, w')"
      using assms Pair Inr by (auto simp: clear_rollback_journal_def bindM_def)
    from keepsD [OF keeps_when [OF keeps_fsync, of "{}"] this] gone show ?thesis
      by (auto simp: same_outside_def)
  qed
qed

section \<open>Finishing a rollback\<close>

text \<open>
  The active file either keeps its bytes or has the bytes of the target, and the journal is
  removed only when the target is in place and its bookkeeping is done.
\<close>

definition settled :: "path \<Rightarrow> json \<Rightarrow> json \<Rightarrow> world \<Rightarrow> world \<Rightarrow> bool" where
  "settled data actual target w w' \<longleftrightarrow>
     file_at w' (active_path data) = Some (dumps_indent target)
     \<or> file_at w' (active_path data) = file_at w (active_path data) \<and> pyeq actual target"

lemma finish_swap:
  assumes "(if pyeq (JObj actual) source then durable_atomic_json (active_path data) target
      else liftM (raiseIf (\<not> pyeq (JObj actual) target)
        (BuildError ''active deployment changed during rollback recovery''))) w = (r, w1)"
  shows "file_at w1 (rollback_journal_path data) = file_at w (rollback_journal_path data)"
    and "case r of Inr u \<Rightarrow> settled data (JObj actual) target w w1
      | Inl e \<Rightarrow> file_at w1 (active_path data) = file_at w (active_path data)"
proof -
  have keep: "keeps (same_outside {active_path data}) (if pyeq (JObj actual) source
      then durable_atomic_json (active_path data) target
      else liftM (raiseIf (\<not> pyeq (JObj actual) target)
        (BuildError ''active deployment changed during rollback recovery'')))"
    by (auto intro!: frame_intros)
  show "file_at w1 (rollback_journal_path data) = file_at w (rollback_journal_path data)"
    using keepsD [OF keep assms] active_not_journal [of data] by (auto simp: same_outside_def)
  show "case r of Inr u \<Rightarrow> settled data (JObj actual) target w w1
      | Inl e \<Rightarrow> file_at w1 (active_path data) = file_at w (active_path data)"
  proof (cases "pyeq (JObj actual) source")
    case True
    with assms have "put_file (active_path data) (dumps_indent target) w = (r, w1)"
      by (simp add: durable_atomic_json_def)
    then show ?thesis by (rule put_file_cases) (simp_all add: settled_def)
  next
    case False
    with assms show ?thesis by (auto simp: settled_def raiseIf_def split: if_splits)
  qed
qed

lemma finish_rollback_cases:
  assumes "finish_rollback_locked E data j w = (r, w')"
    and "active_state E w data = Inr actual"
  shows "case r of
      Inr t \<Rightarrow> t = obj_of (dget j ''target_state'')
        \<and> settled data (JObj actual) (dget j ''target_state'') w w'
        \<and> file_at w' (rollback_journal_path data) = None
    | Inl e \<Rightarrow>
        (file_at w' (rollback_journal_path data) = file_at w (rollback_journal_path data)
          \<and> (file_at w' (active_path data) = file_at w (active_path data)
             \<or> settled data (JObj actual) (dget j ''target_state'') w w'))
        \<or> (file_at w' (rollback_journal_path data) = None
          \<and> settled data (JObj actual) (dget j ''target_state'') w w')"
proof -
  let ?target = "dget j ''target_state''"
  note run = assms(1) [unfolded finish_rollback_locked_def Let_def bindM_askM assms(2) sum.case]
  from run show ?thesis
  proof (cases rule: bindM_cases)
    case (fails e)
    with finish_swap [OF fails(1)] show ?thesis by simp
  next
    case (continues u w1)
    note s = finish_swap [OF continues(1)]
    then have set1: "settled data (JObj actual) ?target w w1" by simp
    from continues(2) show ?thesis
    proof (cases rule: bindM_cases)
      case (fails e)
      note same = repair_unchanged [OF fails(1)]
      with set1 have "settled data (JObj actual) ?target w w'" by (simp add: settled_def)
      with same s(1) fails show ?thesis by simp
    next
      case (continues d w2)
      note same = repair_unchanged [OF continues(1)]
      with set1 have set2: "settled data (JObj actual) ?target w w2" by (simp add: settled_def)
      have clr: "settled data (JObj actual) ?target w w3" if "clear_rollback_journal data w2 = (r3, w3)" for r3 w3
        using set2 keepsD [OF keeps_clear that] active_not_journal by (auto simp: same_outside_def settled_def)
      from continues(2) show ?thesis
      proof (cases rule: bindM_cases)
        case (fails e)
        with clear_cases [OF fails(1)] same s(1) clr [OF fails(1)] show ?thesis by auto
      next
        case (continues u w3)
        with clear_Inr [of data w2 u w3] clr [of "Inr u" w3] show ?thesis by auto
      qed
    qed
  qed
qed

section \<open>States that come from disk\<close>

lemma validate_state_same:
  assumes "validate_state sha (JObj d) legacy = Inr st"
  shows "st = d"
proof (cases "pyeq (dget d ''schema_version'') (JInt 1) \<and> legacy")
  case True
  with assms show ?thesis by (auto simp: validate_state_def bindE_eq_Inr)
next
  case False
  with validate_state_obj [OF False, of sha st] assms show ?thesis by simp
qed

lemma load_state_wf:
  assumes "load_state sha w data legacy = Inr st"
  shows "wf_json (JObj st)"
proof (cases "is_file w (active_path data)")
  case True
  with assms obtain v where v: "read_document w (active_path data) = Inr v"
    "validate_state sha v legacy = Inr st"
    by (auto simp: load_state_def rewrap_def bindE_eq_Inr split: sum.splits)
  then obtain d where d: "v = JObj d" by (cases v) (auto simp: validate_state_def)
  have "wf_json v" using v(1) by (auto simp: read_document_def bindE_eq_Inr intro: strict_json_loads_wf)
  with validate_state_same [OF v(2) [unfolded d]] d show ?thesis by simp
next
  case False
  with assms have "st = empty_state" by (simp add: load_state_def)
  then show ?thesis by (simp add: empty_state_def)
qed

lemma active_state_Inr: "active_state E w data = Inr st \<longleftrightarrow> load_state (digest E) w data True = Inr st"
  by (auto simp: active_state_def build_error_from_deployment_def rewrap_def split: sum.splits)

lemma rollback_transition_wf:
  assumes "rollback_transition sha (JObj st) (JStr now) = Inr t" "wf_json (JObj st)"
  shows "wf_json (JObj t) \<and> valid_state sha t"
proof -
  from assms(1) have st: "validate_state sha (JObj st) False = Inr st"
    by (auto simp: rollback_transition_def bindE_eq_Inr validate_state_Inr)
  let ?cur = "dget st ''current_deployment''" and ?prev = "dget st ''previous_deployment''"
  let ?new = "[(''schema_version'', JInt DEPLOYMENT_SCHEMA_VERSION), (''current'', dget (obj_of ?prev) ''run_id''),
                (''previous'', dget (obj_of ?cur) ''run_id''),
                (''current_deployment'', JObj (dput (obj_of ?prev) ''promoted_at'' (JStr now))),
                (''previous_deployment'', ?cur), (''promoted_at'', JStr now)]"
  have "validate_state sha (JObj ?new) False = Inr t"
    using assms(1) unfolding rollback_transition_def st bindE_simps Let_def bindE_raiseIf by blast
  then have t: "t = ?new" "valid_state sha t" by (simp_all add: validate_state_Inr)
  have wf: "wf_json ?cur" "wf_json ?prev" using assms(2) by (auto intro: wf_dget)
  have obj: "wf_json v \<Longrightarrow> wf_json (JObj (obj_of v))" for v by (cases v) simp_all
  have "wf_json (dget (obj_of v) f)" if "wf_json v" for v f
    using obj [OF that] by (rule wf_dget)
  moreover have "wf_json (JObj (dput (obj_of ?prev) ''promoted_at'' (JStr now)))"
    using obj [OF wf(2)] by (intro wf_obj_dput) simp_all
  ultimately have "wf_json (JObj ?new)" using wf by simp
  with t show ?thesis by simp
qed

lemma settled_loads:
  assumes "settled data (JObj a) (JObj t) w w'" "load_state sha w data True = Inr a"
    and "valid_state sha t" "wf_json (JObj t)"
  shows "\<exists>res. load_state sha w' data True = Inr res \<and> pyeq (JObj res) (JObj t)"
  using assms(1) unfolding settled_def
proof (elim disjE conjE)
  assume "file_at w' (active_path data) = Some (dumps_indent (JObj t))"
  then have "read_document w' (active_path data) = Inr (JObj (canon t))"
    using strict_json_loads_dumps_indent [OF assms(4)]
    by (simp only: read_document_def read_text_ascii ascii_dumps_indent bindE_simps jsort_JObj)
  from load_state_document [OF this, of sha True] validate_state_any [OF valid_state_canon(1) [OF assms(4,3)]]
  have "load_state sha w' data True = Inr (canon t)" by simp
  moreover have "pyeq (JObj (canon t)) (JObj t)"
    using pyeq_jsort [OF assms(4)] by (simp only: jsort_JObj)
  ultimately show ?thesis by blast
next
  assume "file_at w' (active_path data) = file_at w (active_path data)" "pyeq (JObj a) (JObj t)"
  with load_state_cong [of w' data w sha True] assms(2) show ?thesis by auto
qed

section \<open>The journal\<close>

definition journal_of :: "dict \<Rightarrow> dict \<Rightarrow> dict" where
  "journal_of source target =
     [(''schema_version'', JInt 1), (''operation'', JStr ''rollback''),
      (''source_state'', JObj source), (''target_state'', JObj target),
      (''started_at'', dget target ''promoted_at'')]"

lemma write_journal_cases:
  assumes "write_rollback_journal E data st t w = (r, w')"
    and "valid_state (digest E) st" "valid_state (digest E) t"
  shows "(r = Inr (journal_of st t) \<and> file_at w' (rollback_journal_path data) = Some (dumps_indent (JObj (journal_of st t)))
      \<or> (\<exists>e. r = Inl e) \<and> file_at w' (rollback_journal_path data) = file_at w (rollback_journal_path data))
    \<and> file_at w' (active_path data) = file_at w (active_path data)"
proof -
  have "bindM (durable_atomic_json (rollback_journal_path data) (JObj (journal_of st t)))
      (\<lambda>_. retM (journal_of st t)) w = (r, w')"
    using assms by (simp add: write_rollback_journal_def validate_state_valid Let_def journal_of_def)
  then show ?thesis
  proof (cases rule: bindM_cases)
    case (fails e)
    then have "put_file (rollback_journal_path data) (dumps_indent (JObj (journal_of st t))) w = (Inl e, w')"
      by (simp add: durable_atomic_json_def)
    with fails show ?thesis using put_file_failed by auto
  next
    case (continues u w1)
    then have "put_file (rollback_journal_path data) (dumps_indent (JObj (journal_of st t))) w = (Inr u, w1)"
      by (simp add: durable_atomic_json_def)
    then show ?thesis
      by (rule put_file_cases) (use continues(2) active_not_journal [of data] in auto)
  qed
qed

lemma load_journal_written:
  assumes "file_at w (rollback_journal_path data) = Some (dumps_indent (JObj (journal_of st t)))"
    and "wf_json (JObj st)" "wf_json (JObj t)" "valid_state (digest E) t"
    and "load_rollback_journal E w data = Inr p"
  shows "\<exists>j. p = Some j \<and> dget j ''target_state'' = JObj (canon t)"
proof -
  let ?j = "journal_of st t"
  have wf: "wf_json (JObj ?j)"
    using assms(2,3) wf_dget [OF assms(3), of "''promoted_at''"] by (simp add: journal_of_def)
  have doc: "read_document w (rollback_journal_path data) = Inr (JObj (canon ?j))"
    using strict_json_loads_dumps_indent [OF wf] assms(1)
    by (simp only: read_document_def read_text_ascii ascii_dumps_indent bindE_simps jsort_JObj)
  have "dget (canon ?j) ''target_state'' = JObj (canon t)"
    unfolding dget_canon [OF wf] by (simp add: journal_of_def jsort_JObj del: jsort.simps(2))
  moreover have "validate_state (digest E) (JObj (canon t)) False = Inr (canon t)"
    using valid_state_canon(1) [OF assms(3,4)] by (rule validate_state_valid)
  moreover have "is_file w (rollback_journal_path data)" using assms(1) by (simp add: is_file_file_at)
  ultimately obtain source j where "p = Some j"
    "j = dput (dput (canon ?j) ''source_state'' (JObj source)) ''target_state'' (JObj (canon t))"
    using assms(5) doc
    by (auto simp: load_rollback_journal_def bindE_eq_Inr journal_states_def rewrap_def split: sum.splits)
  then show ?thesis by simp
qed

section \<open>A whole rollback\<close>

text \<open>What a rollback from the state \<open>st\<close> to \<open>t\<close> can leave, given its result.\<close>

definition rollback_left :: "path \<Rightarrow> dict \<Rightarrow> dict \<Rightarrow> dict res \<Rightarrow> world \<Rightarrow> world \<Rightarrow> bool" where
  "rollback_left data st t r w w' \<longleftrightarrow>
     (let J = rollback_journal_path data; A = active_path data
      in ((\<exists>e. r = Inl e) \<and> file_at w' J = Some (dumps_indent (JObj (journal_of st t)))
            \<and> (file_at w' A = file_at w A \<or> settled data (JObj st) (JObj t) w w'))
         \<or> (((\<exists>e. r = Inl e) \<or> r = Inr t) \<and> file_at w' J = None \<and> settled data (JObj st) (JObj t) w w'))"

lemma no_journal: "file_at w (rollback_journal_path data) = None \<Longrightarrow> load_rollback_journal E w data = Inr None"
  by (simp add: load_rollback_journal_def is_file_file_at)

lemma now_files: "utc_now w = (r, w') \<Longrightarrow> file_at w' q = file_at w q"
  by (auto simp: utc_now_def)

lemma settled_cong:
  "file_at w1 (active_path data) = file_at w (active_path data) \<Longrightarrow> settled data a t w1 w' = settled data a t w w'"
  by (simp add: settled_def)

lemma journal_and_finish:
  assumes "bindM (write_rollback_journal E data st t) (finish_rollback_locked E data) w = (r, w')"
    and "load_state (digest E) w data True = Inr st"
    and "valid_state (digest E) st" "valid_state (digest E) t"
    and "file_at w (rollback_journal_path data) = None"
  shows "(\<exists>e. r = Inl e) \<and> file_at w' (rollback_journal_path data) = None
        \<and> file_at w' (active_path data) = file_at w (active_path data)
    \<or> rollback_left data st t r w w'"
  using assms(1)
proof (cases rule: bindM_cases)
  case (fails e)
  with write_journal_cases [OF fails(1) assms(3,4)] assms(5) show ?thesis by auto
next
  case (continues j w1)
  note wr = write_journal_cases [OF continues(1) assms(3,4)]
  then have j: "j = journal_of st t"
    "file_at w1 (rollback_journal_path data) = Some (dumps_indent (JObj (journal_of st t)))"
    and act: "file_at w1 (active_path data) = file_at w (active_path data)" by auto
  have "active_state E w1 data = Inr st"
    unfolding active_state_Inr using load_state_cong [OF act] assms(2) by simp
  from finish_rollback_cases [OF continues(2) this] j act
  show ?thesis
    by (cases r) (auto simp: rollback_left_def Let_def journal_of_def settled_cong [OF act])
qed

lemma rollback_locked_cases:
  assumes run: "rollback_locked E data w = (r, w')"
    and none: "file_at w (rollback_journal_path data) = None"
    and st: "load_state (digest E) w data True = Inr st" "dget st ''schema_version'' = JInt 2"
  shows "(\<exists>e. r = Inl e) \<and> file_at w' (rollback_journal_path data) = None
        \<and> file_at w' (active_path data) = file_at w (active_path data)
    \<or> (\<exists>now t m. candidate_matches_build E w data (dget st ''previous_deployment'') = Inr m
        \<and> rollback_transition (digest E) (JObj st) (JStr now) = Inr t \<and> rollback_left data st t r w w')"
    (is "?stop \<or> ?left")
proof -
  have a: "active_state E w data = Inr st" using st(1) by (simp add: active_state_Inr)
  have v: "valid_state (digest E) st" using st by (auto intro: load_state_v2_valid)
  have "bindM (liftM (raiseIf (dget st ''previous_deployment'' = JNull)
             (BuildError ''rollback requires current and previous verified deployments''))) (\<lambda>_.
           bindM (askM (\<lambda>w. candidate_matches_build E w data (dget st ''previous_deployment''))) (\<lambda>_.
           bindM utc_now (\<lambda>now.
           bindM (liftM (build_error_from_deployment
             (rollback_transition (digest E) (JObj st) (JStr now)))) (\<lambda>rolled_back.
           bindM (write_rollback_journal E data st rolled_back) (\<lambda>journal.
           finish_rollback_locked E data journal))))) w = (r, w')"
    using run st(2)
    by (simp add: rollback_locked_def bindM_askM no_journal [OF none] a raiseIf_def
        DEPLOYMENT_SCHEMA_VERSION_def)
  then show ?thesis
  proof (cases rule: bindM_cases)
    case (fails e)
    with none show ?thesis by simp
  next
    case (continues u w1)
    then have "w1 = w" by simp
    from continues(2) [unfolded this] show ?thesis
    proof (cases rule: bindM_cases)
      case (fails e)
      with none show ?thesis by (simp add: askM_def)
    next
      case (continues m w1)
      then have m: "candidate_matches_build E w data (dget st ''previous_deployment'') = Inr m" "w1 = w"
        by (auto simp: askM_Inr)
      from continues(2) [unfolded m(2)] show ?thesis
      proof (cases rule: bindM_cases)
        case (fails e)
        with none show ?thesis by (auto simp: now_files)
      next
        case (continues now w1)
        note nf = now_files [OF continues(1)]
        from continues(2) show ?thesis
        proof (cases rule: bindM_cases)
          case (fails e)
          with none nf show ?thesis by simp
        next
          case (continues t w2)
          then have t: "rollback_transition (digest E) (JObj st) (JStr now) = Inr t" "w2 = w1"
            by (auto simp: build_error_from_deployment_def rewrap_def split: sum.splits)
          have "load_state (digest E) w1 data True = Inr st"
            using load_state_cong [OF nf] st(1) by simp
          from journal_and_finish [OF continues(2) [unfolded t(2)] this v _ none [folded nf]]
            rollback_transition_wf [OF t(1) load_state_wf [OF st(1)]]
          have "?stop \<or> rollback_left data st t r w w'"
            using nf unfolding rollback_left_def settled_cong [OF nf] Let_def by simp
          with m t show ?thesis by blast
        qed
      qed
    qed
  qed
qed

section \<open>A whole promotion\<close>

lemma store_deployment_not_active:
  assumes "store_deployment sha data v w = (r, w')"
  shows "file_at w' (active_path data) = file_at w (active_path data)"
  using assms unfolding store_deployment_def
proof (cases rule: bindM_cases)
  case (continues d w1)
  then have "w1 = w" by simp
  from continues(2) [unfolded this] show ?thesis
  proof (cases rule: bindM_cases)
    case (continues p w2)
    then have p: "w2 = w" "p \<noteq> active_path data"
      by (auto simp: deployment_record_path_def bindE_eq_Inr active_path_def)
    from continues(2) [unfolded p(1)] show ?thesis
    proof (cases rule: bindM_cases)
      case (fails e)
      with p(2) show ?thesis by (auto dest: durable_create_json_frame)
    next
      case (continues u w3)
      with p(2) show ?thesis by (auto dest: durable_create_json_frame)
    qed
  qed simp
qed simp

text \<open>The writes of a promotion once the selection has been made.\<close>

lemma promotion_writes:
  assumes "bindM (whenM (result = ''promoted'')
       (bindM (store_deployment sha data candidate) (\<lambda>_.
        durable_atomic_json (active_path data) (JObj selected)))) (\<lambda>_.
     bindM (repair_selected_bookkeeping_locked E data i) (\<lambda>repaired.
     retM (dmerge [(''result'', JStr result)] repaired))) w = (r, w')"
  shows "file_at w' (active_path data) = file_at w (active_path data)
    \<or> result = ''promoted'' \<and> file_at w' (active_path data) = Some (dumps_indent (JObj selected))"
proof -
  let ?A = "active_path data"
  have wrote: "file_at w1 ?A = file_at w ?A \<or> result = ''promoted'' \<and> file_at w1 ?A = Some (dumps_indent (JObj selected))"
    if "whenM (result = ''promoted'') (bindM (store_deployment sha data candidate) (\<lambda>_.
        durable_atomic_json ?A (JObj selected))) w = (r1, w1)" for r1 w1
  proof (cases "result = ''promoted''")
    case True
    with that have "bindM (store_deployment sha data candidate) (\<lambda>_.
        durable_atomic_json ?A (JObj selected)) w = (r1, w1)" by (simp add: whenM_def)
    then show ?thesis
    proof (cases rule: bindM_cases)
      case (fails e)
      then show ?thesis using store_deployment_not_active by blast
    next
      case (continues p w2)
      then have same: "file_at w2 ?A = file_at w ?A" using store_deployment_not_active by blast
      from continues(2) have "put_file ?A (dumps_indent (JObj selected)) w2 = (r1, w1)"
        by (simp add: durable_atomic_json_def)
      then show ?thesis by (rule put_file_cases) (use True same in simp_all)
    qed
  qed (use that in \<open>simp add: whenM_def\<close>)
  from assms show ?thesis
  proof (cases rule: bindM_cases)
    case (fails e)
    from wrote [OF fails(1)] show ?thesis .
  next
    case (continues u w1)
    note first = wrote [OF continues(1)]
    from continues(2) show ?thesis
    proof (cases rule: bindM_cases)
      case (fails e)
      with first repair_unchanged(1) [OF fails(1)] show ?thesis by simp
    next
      case (continues d w2)
      with first repair_unchanged(1) [OF continues(1)] show ?thesis by simp
    qed
  qed
qed

section \<open>A concrete promotion\<close>

definition sample_env :: env where
  "sample_env = \<lparr>digest = a_sha, inspect_vault = sample_look,
     run_verifier = (\<lambda>w p. (0, dumps (JObj [(''valid'', JBool True)]), []))\<rparr>"

definition promo_build :: dict where
  "promo_build = sample_build @
     [(''homeops_version'', JStr ''1.0''), (''source_revision'', JStr ''rev''), (''image_digest'', JStr ''img'')]"

definition promo_record :: dict where
  "promo_record = dput (dput (sample_record ''run-a'' (replicate 64 (CHR ''a'')))
     ''snapshot_id'' (JStr (replicate 64 (CHR ''a'')))) ''snapshot_contract_version'' (JStr ''homeops-snapshot-v1'')"

definition promo_world :: world where
  "promo_world = fresh_world\<lparr>tree :=
     [([''r''], Dir), ([''r'', ''d''], Dir),
      ([''r'', ''d'', ''builds'', ''run-a'', ''manifest.json''], File (dumps (JObj promo_build))),
      ([''r'', ''vault-snapshots'', replicate 64 (CHR ''a''), ''snapshot.json''], File (dumps (JObj sample_manifest))),
      ([''r'', ''vault-snapshots'', replicate 64 (CHR ''a''), ''vault''], Dir),
      ([''r'', ''vault-snapshots'', replicate 64 (CHR ''a''), ''vault'', ''a.md''], File ''hi'')]\<rparr>"

lemma promo_record_valid: "valid_record a_sha promo_record"
proof -
  have "same_fields (sample_record ''run-a'' (replicate 64 (CHR ''a''))) record_fields"
    by (simp add: same_fields_def record_fields_def sample_record_def)
  then have "same_fields promo_record record_fields"
    unfolding promo_record_def by (intro same_fields_dput) (simp_all add: record_fields_def)
  then show ?thesis
    using sample_text sample_ids
    unfolding valid_record_def
    by (simp add: promo_record_def sample_record_def safe_id_json_def sha256_field_def
        fingerprint_fields_def text_fields_def nonempty_str_def sha256_json_def a_sha_def)
qed

lemma ascii_dumps: "ascii (dumps v)"
  unfolding dumps_def by (rule ascii_render) simp_all

lemma read_document_dumps:
  "file_at w p = Some (dumps v) \<Longrightarrow> wf_json v \<Longrightarrow> read_document w p = Inr v"
  by (simp add: read_document_def read_text_ascii ascii_dumps strict_json_loads_dumps)

text \<open>The one file of the sample snapshot, below any directory of any world.\<close>

lemma sample_vault_verified:
  assumes "file_at w (v @ [''a.md'']) = Some ''hi''" "\<not> is_symlink w (v @ [''a.md''])" "exists_path w v"
    and "entries_below w v = [(v @ [''a.md''], File ''hi'')]"
  shows "verify_snapshot a_sha (Some sample_look) w v (JObj sample_manifest) = Inr sample_manifest"
proof -
  have get: "dget sample_manifest ''inventory'' = JList [sample_item]" by (simp add: sample_manifest_def)
  have item: "item_path sample_item = ''a.md''" "item_size sample_item = 2"
    "dget (obj_of sample_item) ''sha256'' = JStr (replicate 64 (CHR ''a''))"
    by (simp_all add: item_path_def item_size_def size_of_def sample_item_def inventory_item_def)
  have parts: "posix_parts ''a.md'' = [''a.md'']" by (simp add: posix_parts_def)
  have "exists_path w (v @ [''a.md''])" using assms(1)
    by (auto simp: exists_path_def file_at_def split: option.splits)
  then have res: "resolve_beneath w v ''a.md'' = Inr (v @ [''a.md''])"
    using assms(2,3) by (simp add: resolve_beneath_def safe_a_md parts raiseIf_def)
  have ver: "verify_item a_sha w v sample_item = Inr ()"
    using assms(1) by (simp add: verify_item_def item res is_file_file_at file_size_def file_sha256_def
        read_bytes_file_at a_sha_def)
  have scan: "scan_entries v (entries_below w v) = Inr [''a.md'']"
    by (simp add: assms(4) below_def safe_a_md)
  have agree: "agree_with_inspection [(''validation'', JObj [(''errors'', JList [])]),
     (''source_fingerprint'', JStr (replicate 64 (CHR ''a''))),
     (''artifact_fingerprint'', JStr (replicate 64 (CHR ''b''))),
     (''logical_fingerprint'', JStr (replicate 64 (CHR ''c'')))] sample_manifest = Inr ()"
    by (simp add: agree_with_inspection_def didx_def jidx_def raiseIf_def fingerprint_fields_def sample_manifest_def)
  show ?thesis
    unfolding verify_snapshot_def sample_manifest_checked bindE_simps scan get list_of.simps Let_def
    using ver agree assms(3) by (simp add: raiseIf_def item sample_look_def)
qed

text \<open>The evidence of the sample candidate in a world: its build and its snapshot.\<close>

definition promo_evidence :: "path \<Rightarrow> world \<Rightarrow> bool" where
  "promo_evidence data w \<longleftrightarrow>
     (let dir = snapshot_dir data (JStr (replicate 64 (CHR ''a''))); vault = dir @ [''vault'']
      in file_at w (data @ [''builds'', ''run-a'', ''manifest.json'']) = Some (dumps (JObj promo_build))
         \<and> file_at w (dir @ [''snapshot.json'']) = Some (dumps (JObj sample_manifest))
         \<and> file_at w (vault @ [''a.md'']) = Some ''hi'' \<and> \<not> is_symlink w (vault @ [''a.md''])
         \<and> exists_path w vault \<and> entries_below w vault = [(vault @ [''a.md''], File ''hi'')])"

lemma promo_evidence_world: "promo_evidence [''r'', ''d''] promo_world"
  by (simp add: promo_evidence_def Let_def snapshot_dir_def file_at_tree is_symlink_def exists_path_def stat_def
      lstat_def entries_below_def below_def promo_world_def)

lemma promo_verified:
  assumes "promo_evidence data w"
  shows "candidate_snapshot sample_env w (snapshot_dir data (JStr (replicate 64 (CHR ''a'')))) = Inr sample_manifest"
proof -
  let ?dir = "snapshot_dir data (JStr (replicate 64 (CHR ''a'')))"
  have wf: "wf_json (JObj sample_manifest)"
    by (simp add: sample_manifest_def sample_item_def inventory_item_def)
  have "file_at w (?dir @ [''snapshot.json'']) = Some (dumps (JObj sample_manifest))"
    using assms by (simp add: promo_evidence_def Let_def)
  from read_document_dumps [OF this wf]
  have man: "read_manifest a_sha w (?dir @ [''snapshot.json'']) = Inr sample_manifest"
    by (simp add: read_manifest_def sample_manifest_checked rewrap_def)
  have "verify_snapshot a_sha (Some sample_look) w (?dir @ [''vault'']) (JObj sample_manifest) = Inr sample_manifest"
    by (rule sample_vault_verified) (use assms in \<open>simp_all add: promo_evidence_def Let_def\<close>)
  with man show ?thesis
    by (simp add: candidate_snapshot_def sample_env_def rewrap_def)
qed

text \<open>The sample record, in any order of its fields.\<close>

definition promo_like :: "dict \<Rightarrow> bool" where
  "promo_like d \<longleftrightarrow> valid_record a_sha d \<and> (\<forall>f. dget d f = dget promo_record f)"

lemma promo_like_self: "promo_like promo_record"
  by (simp add: promo_like_def promo_record_valid)

lemma promo_matches:
  assumes "promo_evidence data w" "promo_like d"
  shows "candidate_matches_build sample_env w data (JObj d) = Inr promo_build"
proof -
  have wf: "wf_json (JObj promo_build)" by (simp add: promo_build_def sample_build_def)
  have "file_at w (data @ [''builds'', ''run-a'', ''manifest.json'']) = Some (dumps (JObj promo_build))"
    using assms(1) by (simp add: promo_evidence_def Let_def)
  from read_document_dumps [OF this wf]
  have load: "load_json w (data @ [''builds'', ''run-a'', ''manifest.json'']) = Inr promo_build"
    by (simp add: load_json_def)
  have path: "manifest_path data (JStr ''run-a'') = Inr (data @ [''builds'', ''run-a'', ''manifest.json''])"
    by (simp add: manifest_path_def validate_safe_id_def sample_text)
  have val: "validate_deployment_record (digest sample_env) (JObj d) = Inr d"
    using assms(2) by (simp add: promo_like_def validate_deployment_record_obj sample_env_def)
  have g: "dget d f = dget promo_record f" for f using assms(2) by (simp add: promo_like_def)
  have rec: "dget d ''run_id'' = JStr ''run-a''"
    "dget d ''snapshot_id'' = JStr (replicate 64 (CHR ''a''))"
    by (simp_all add: g promo_record_def sample_record_def)
  have legacy: "\<not> is_legacy_record d"
    by (simp add: is_legacy_record_def g promo_record_def sample_record_def)
  have safe: "validate_safe_id (JStr ''run-a'') f = Inr ''run-a''" for f
    by (simp add: validate_safe_id_def sample_text)
  have ver: "verify_run sample_env w data (JStr ''run-a'') = Inr (JObj [(''valid'', JBool True)])"
  proof -
    have "strip (dumps (JObj [(''valid'', JBool True)])) \<noteq> []"
      by (simp add: dumps_def quote_def strip_def is_space_def code_of_def)
    then show ?thesis
      by (simp add: verify_run_def raiseIf_def safe invoke_verifier_def sample_env_def rewrap_def
          json_loads_dumps jget_def)
  qed
  have build: "eachE (\<lambda>(f, actual). same_or_fail actual (dget d f) (m f))
       (build_provenance promo_build False) = Inr ()" for m
    by (simp add: build_provenance_def promo_build_def sample_build_def g promo_record_def sample_record_def
        same_or_fail_def raiseIf_def)
  have fps: "eachE (\<lambda>f. same_or_fail (dget promo_build f) (dget d f) (m f)) fingerprint_fields = Inr ()"
    "eachE (\<lambda>f. same_or_fail (dget sample_manifest f) (dget d f) (m f)) fingerprint_fields = Inr ()" for m
    by (simp_all add: fingerprint_fields_def promo_build_def sample_build_def g promo_record_def sample_record_def
        sample_manifest_def same_or_fail_def raiseIf_def)
  have fields: "same_or_fail (dget promo_build ''result'') (JStr ''verified'') m = Inr ()"
    "same_or_fail (dget promo_build ''run_id'') (JStr ''run-a'') m = Inr ()"
    "same_or_fail (dget promo_build ''schema_version'') (dget d ''build_schema_version'') m = Inr ()"
    "same_or_fail (dget promo_build ''completed_at'') (dget d ''build_completed_at'') m = Inr ()"
    "same_or_fail (dget promo_build ''verified_at'') (dget d ''build_verified_at'') m = Inr ()"
    "same_or_fail (dget sample_manifest ''snapshot_id'') (JStr (replicate 64 (CHR ''a''))) m = Inr ()"
    "same_or_fail (dget sample_manifest ''schema_version'') (dget d ''snapshot_schema_version'') m = Inr ()"
    "same_or_fail (dget sample_manifest ''snapshot_contract_version'') (dget d ''snapshot_contract_version'') m = Inr ()"
    "same_or_fail (dget sample_manifest ''created_at'') (dget d ''snapshot_created_at'') m = Inr ()" for m
    by (simp_all add: promo_build_def sample_build_def g promo_record_def sample_record_def
        sample_manifest_def same_or_fail_def raiseIf_def)
  show ?thesis
    unfolding candidate_matches_build_def val bindE_simps rec path load fields legacy [THEN Eq_FalseI]
      build fps promo_verified [OF assms(1)] ver by simp
qed

lemma promo_selects:
  assumes "promo_like d" "now \<noteq> []"
  shows "\<exists>st. select_deployment a_sha (JObj empty_state) (JObj d) JNull (JStr now) = Inr (st, ''promoted'')"
proof -
  have now: "nonempty_str (JStr now)" using assms(2) by (simp add: nonempty_str_def)
  have abs: "abstract_select (abs_state empty_state) d JNull (JStr now) =
      Some ((Some (stamp d (JStr now)), None), ''promoted'')"
    by (simp add: abstract_select_def abs_empty_state)
  have "valid_record a_sha d" using assms(1) by (simp add: promo_like_def)
  from select_deployment_refines [OF valid_empty_state this now, of JNull] abs show ?thesis
    by (cases "select_deployment a_sha (JObj empty_state) (JObj d) JNull (JStr now)") auto
qed

lemma promo_runs:
  "\<exists>r w'. promote_locked sample_env [''r'', ''d''] (JObj promo_record) JNull (JStr ''now'') False promo_world = (r, w')
     \<and> file_at w' [''r'', ''d'', ''active.json''] \<noteq> None"
proof -
  let ?data = "[''r'', ''d'']" and ?A = "[''r'', ''d'', ''active.json'']"
  let ?D = "[''r'', ''d'', ''deployments'', replicate 64 (CHR ''a'') @ ''.json'']"
  obtain st where st: "select_deployment a_sha (JObj empty_state) (JObj promo_record) JNull (JStr ''now'')
      = Inr (st, ''promoted'')" using promo_selects [OF promo_like_self, of "''now''"] by auto
  have look: "faults promo_world = []" "\<not> is_dir promo_world ?D" "parents_ok promo_world ?D"
    "\<not> lexists promo_world ?D" "\<not> is_file promo_world (rollback_journal_path ?data)"
    "file_at promo_world ?A = None"
    by (simp_all add: promo_world_def fresh_world_def is_dir_def stat_def lstat_def parents_ok_def lexists_def
        upt_rec is_file_def rollback_journal_path_def file_at_tree)
  have load: "active_state sample_env promo_world ?data = Inr empty_state"
    using look(6) by (simp add: active_state_Inr load_state_def is_file_file_at active_path_def)
  define w1 where "w1 = promo_world\<lparr>tree := AList.update ?D (File (dumps_indent (JObj promo_record)))
      (add_dirs (butlast ?D) (tree promo_world))\<rparr>"
  have put1: "put_file ?D (dumps_indent (JObj promo_record)) promo_world = (Inr (), w1)"
    using look by (simp add: put_file_def durable_def w1_def lexists_def lstat_def)
  have w1: "faults w1 = []" "\<not> is_dir w1 ?A" "parents_ok w1 ?A"
    by (simp_all add: w1_def promo_world_def fresh_world_def is_dir_def stat_def lstat_def parents_ok_def
        lexists_def upt_rec add_dirs_def add_dir_def)
  obtain w2 where put2: "put_file ?A (dumps_indent (JObj st)) w1 = (Inr (), w2)"
    "file_at w2 ?A = Some (dumps_indent (JObj st))"
    using put_file_ok [OF w1, of "dumps_indent (JObj st)"] by (metis (full_types))
  have id: "dget promo_record ''deployment_id'' = JStr (replicate 64 (CHR ''a''))"
    by (simp add: promo_record_def sample_record_def)
  have store: "store_deployment a_sha ?data (JObj promo_record) promo_world = (Inr ?D, w1)"
    using put1 look(4) promo_record_valid sample_ids
    by (simp add: store_deployment_def validate_deployment_record_obj [THEN iffD2] id deployment_record_path_def
        validate_safe_id_def durable_create_json_def bindM_def)
  let ?repair = "\<lambda>i. bindM (repair_selected_bookkeeping_locked sample_env ?data i)
      (\<lambda>repaired. retM (dmerge [(''result'', JStr ''promoted'')] repaired))"
  let ?i = "dget (obj_of (dget st ''current_deployment'')) ''deployment_id''"
  have dig: "digest sample_env = a_sha" by (simp add: sample_env_def)
  have v2: "dget empty_state ''schema_version'' = JInt 2"
    by (simp add: empty_state_def DEPLOYMENT_SCHEMA_VERSION_def)
  have writes: "bindM (whenM True (bindM (store_deployment a_sha ?data (JObj promo_record))
      (\<lambda>_. durable_atomic_json (active_path ?data) (JObj st)))) f promo_world = f () w2" for f :: "unit \<Rightarrow> dict wprog"
    using store put2(1) by (simp add: whenM_def bindM_def durable_atomic_json_def active_path_def)
  have run: "promote_locked sample_env ?data (JObj promo_record) JNull (JStr ''now'') False promo_world
      = ?repair ?i w2"
    unfolding promote_locked_def
    using look(5) dig v2
    by (simp add: bindM_askM promo_matches [OF promo_evidence_world promo_like_self] raiseIf_def load st DEPLOYMENT_SCHEMA_VERSION_def writes)
  obtain r w' where rw: "?repair ?i w2 = (r, w')" by (cases "?repair ?i w2") blast
  have "file_at w' ?A = file_at w2 ?A"
    using rw
  proof (cases rule: bindM_cases)
    case (fails e)
    from repair_unchanged(1) [OF fails(1)] show ?thesis by (simp add: active_path_def)
  next
    case (continues d w3)
    from repair_unchanged(1) [OF continues(1)] continues(2) show ?thesis by (simp add: active_path_def)
  qed
  with run rw put2(2) show ?thesis by auto
qed

section \<open>Properties\<close>

text \<open>C22: the active state is gated: if a promotion changed \<open>active.json\<close>, however it ended, then
  no rollback was pending, the candidate matched its verified build and its verified snapshot, the
  required evaluation had passed, and the new file holds exactly the state that the
  compare-and-swap selection made from the state on disk.\<close>

theorem promotion_is_gated:
  assumes "promote_locked E data candidate expected at req w = (r, w')"
    and "file_at w' (active_path data) \<noteq> file_at w (active_path data)"
  shows "\<not> is_file w (rollback_journal_path data)
    \<and> (\<exists>m. candidate_matches_build E w data candidate = Inr m)
    \<and> (req \<longrightarrow> require_passing_evaluation w data candidate = Inr ())
    \<and> (\<exists>st selected. load_state (digest E) w data True = Inr st \<and> dget st ''schema_version'' = JInt 2
        \<and> select_deployment (digest E) (JObj st) candidate expected at = Inr (selected, ''promoted'')
        \<and> file_at w' (active_path data) = Some (dumps_indent (JObj selected)))"
  using assms(1) unfolding promote_locked_def
proof (cases rule: bindM_cases)
  case (continues u1 w1)
  then have j: "\<not> is_file w (rollback_journal_path data)" "w1 = w" by (auto simp: askM_Inr)
  from continues(2) [unfolded j(2)] show ?thesis
  proof (cases rule: bindM_cases)
    case (continues m w2)
    then have m: "candidate_matches_build E w data candidate = Inr m" "w2 = w" by (auto simp: askM_Inr)
    from continues(2) [unfolded m(2)] show ?thesis
    proof (cases rule: bindM_cases)
      case (continues u3 w3)
      then have ev: "req \<longrightarrow> require_passing_evaluation w data candidate = Inr ()" "w3 = w"
        by (auto simp: askM_Inr split: if_splits)
      from continues(2) [unfolded ev(2)] show ?thesis
      proof (cases rule: bindM_cases)
        case (continues st w4)
        then have st: "load_state (digest E) w data True = Inr st" "w4 = w"
          by (auto simp: askM_Inr active_state_Inr)
        from continues(2) [unfolded st(2)] show ?thesis
        proof (cases rule: bindM_cases)
          case (continues u5 w5)
          then have v2: "dget st ''schema_version'' = JInt 2" "w5 = w"
            by (auto simp: DEPLOYMENT_SCHEMA_VERSION_def pyeq_int_2)
          from continues(2) [unfolded v2(2)] show ?thesis
          proof (cases rule: bindM_cases)
            case (continues x w6)
            obtain selected result where x: "x = (selected, result)" by (cases x)
            with continues(1) have sel: "select_deployment (digest E) (JObj st) candidate expected at
                = Inr (selected, result)" "w6 = w" by auto
            from promotion_writes [OF continues(2) [unfolded x prod.case sel(2)]] assms(2)
            have "result = ''promoted''" "file_at w' (active_path data) = Some (dumps_indent (JObj selected))"
              by blast+
            with j(1) m(1) ev(1) st(1) v2(1) sel(1) show ?thesis by blast
          qed (use assms(2) in simp)
        qed (use assms(2) in simp)
      qed (use assms(2) in \<open>simp add: askM_def\<close>)
    qed (use assms(2) in \<open>auto simp: askM_def split: if_splits\<close>)
  qed (use assms(2) in \<open>simp add: askM_def\<close>)
qed (use assms(2) in \<open>simp add: askM_def\<close>)

theorem promotion_is_gated_witness:
  "\<exists>selected. select_deployment a_sha (JObj empty_state) (JObj promo_record) JNull (JStr ''now'')
     = Inr (selected, ''promoted'') \<and> require_passing_evaluation promo_world [''r'', ''d''] (JObj promo_record) \<noteq> Inr ()"
proof -
  obtain r w' where run: "promote_locked sample_env [''r'', ''d''] (JObj promo_record) JNull (JStr ''now'') False
      promo_world = (r, w')" "file_at w' (active_path [''r'', ''d'']) \<noteq> None"
    using promo_runs by (auto simp: active_path_def)
  have none: "file_at promo_world (active_path [''r'', ''d'']) = None"
    by (simp add: file_at_tree promo_world_def active_path_def)
  have load: "load_state (digest sample_env) promo_world [''r'', ''d''] True = Inr empty_state"
    using none by (simp add: load_state_def is_file_file_at)
  have "\<exists>st selected. load_state (digest sample_env) promo_world [''r'', ''d''] True = Inr st
      \<and> select_deployment (digest sample_env) (JObj st) (JObj promo_record) JNull (JStr ''now'')
        = Inr (selected, ''promoted'')"
    using promotion_is_gated [OF run(1)] run(2) none by fastforce
  moreover have "require_passing_evaluation promo_world [''r'', ''d''] (JObj promo_record) \<noteq> Inr ()"
    by (simp add: require_passing_evaluation_def jidx_def didx_def promo_record_def sample_record_def
        is_file_def stat_def lstat_def promo_world_def raiseIf_def dput_def)
  ultimately show ?thesis using load by (auto simp: sample_env_def)
qed



end
