(* ===== verification/Frontmatter.thy ===== *)
theory Frontmatter
  imports Files
begin

text \<open>
  \<open>frontmatter.py\<close>: splitting a Markdown text into its YAML frontmatter and its body, and
  rendering it back. The YAML library is a parameter (\<open>yaml_lib\<close>): its reader gives a message or
  a value, its writer gives the text of a mapping. A YAML scalar of a class that JSON does not have
  (a date, say) is \<open>YOther\<close> with its \<open>str()\<close>; floating-point scalars are outside the model.
\<close>

datatype yaml =
    YNull
  | YBool bool
  | YInt int
  | YStr string
  | YList "yaml list"
  | YMap "(yaml \<times> yaml) list"
  | YOther string

type_synonym ymap = "(yaml \<times> yaml) list"

record yaml_lib =
  yaml_load :: "string \<Rightarrow> string + yaml"
  yaml_dump :: "ymap \<Rightarrow> string"

record markdown_document =
  frontmatter :: ymap
  md_body :: string
  had_frontmatter :: bool

text \<open>\<open>frontmatter.get(name)\<close>.\<close>

definition yget :: "ymap \<Rightarrow> string \<Rightarrow> yaml" where
  "yget m k = (case map_of m (YStr k) of None \<Rightarrow> YNull | Some v \<Rightarrow> v)"

text \<open>Python truth, and \<open>str(value)\<close>.\<close>

fun ytruthy :: "yaml \<Rightarrow> bool" where
  "ytruthy YNull = False"
| "ytruthy (YBool b) = b"
| "ytruthy (YInt i) = (i \<noteq> 0)"
| "ytruthy (YStr s) = (s \<noteq> [])"
| "ytruthy (YList xs) = (xs \<noteq> [])"
| "ytruthy (YMap m) = (m \<noteq> [])"
| "ytruthy (YOther s) = True"

fun yaml_text :: "yaml \<Rightarrow> string res" where
  "yaml_text YNull = Inr ''None''"
| "yaml_text (YBool b) = Inr (if b then ''True'' else ''False'')"
| "yaml_text (YInt i) = Inr (int_dec i)"
| "yaml_text (YStr s) = Inr s"
| "yaml_text (YOther s) = Inr s"
| "yaml_text _ = Inl (Unmodelled ''str() of a container'')"

section \<open>Parsing and rendering\<close>

definition fence :: string where
  "fence = ''---''"

definition quoted_fence :: string where
  "quoted_fence = [CHR 0x27] @ fence @ [CHR 0x27]"

definition is_fence :: "string \<Rightarrow> bool" where
  "is_fence line \<longleftrightarrow> rstrip_set [CHR 0x0D, CHR 0x0A] line = fence"

definition parse_markdown :: "yaml_lib \<Rightarrow> string \<Rightarrow> markdown_document res" where
  "parse_markdown Y text =
     (case split_lines text of
        [] \<Rightarrow> Inr \<lparr>frontmatter = [], md_body = text, had_frontmatter = False\<rparr>
      | first # rest \<Rightarrow>
          if \<not> is_fence first then Inr \<lparr>frontmatter = [], md_body = text, had_frontmatter = False\<rparr>
          else if \<not> list_ex is_fence rest
            then Inl (FrontmatterError (''frontmatter starts with '' @ quoted_fence @ '' but has no closing '' @ quoted_fence))
          else
            (case yaml_load Y (concat (takeWhile (\<lambda>l. \<not> is_fence l) rest)) of
               Inl message \<Rightarrow> Inl (FrontmatterError (''invalid YAML frontmatter: '' @ message))
             | Inr parsed \<Rightarrow>
                 bindE (case parsed of
                     YNull \<Rightarrow> Inr []
                   | YMap m \<Rightarrow> Inr m
                   | _ \<Rightarrow> Inl (FrontmatterError ''frontmatter must be a YAML mapping'')) (\<lambda>m.
                 Inr \<lparr>frontmatter = m, md_body = concat (tl (dropWhile (\<lambda>l. \<not> is_fence l) rest)),
                   had_frontmatter = True\<rparr>)))"

definition render_markdown :: "yaml_lib \<Rightarrow> markdown_document \<Rightarrow> string" where
  "render_markdown Y document =
     fence @ [CHR 0x0A] @ yaml_dump Y (frontmatter document) @ fence @ [CHR 0x0A] @ md_body document"

text \<open>
  What the round trip needs of the YAML library for one mapping: the reader inverts the writer, and
  the written text is whole lines none of which is a fence.
\<close>

definition dumps_cleanly :: "yaml_lib \<Rightarrow> ymap \<Rightarrow> bool" where
  "dumps_cleanly Y m \<longleftrightarrow> yaml_load Y (yaml_dump Y m) = Inr (YMap m)
     \<and> (yaml_dump Y m = [] \<or> endswith (yaml_dump Y m) [CHR 0x0A])
     \<and> \<not> list_ex is_fence (split_lines (yaml_dump Y m))"

lemma split_lines_newline:
  "split_lines ((s @ [CHR 0x0A]) @ t) = split_lines (s @ [CHR 0x0A]) @ split_lines t"
proof (induction s rule: split_lines.induct)
  case 1
  have "line_end (CHR 0x0A)" by (simp add: line_end_def code_of_def)
  then show ?case by (cases t) (simp_all split: if_splits)
next
  case (2 c)
  have nl: "line_end (CHR 0x0A)" by (simp add: line_end_def code_of_def)
  then have tail: "split_lines (CHR 0x0A # t) = [CHR 0x0A] # split_lines t"
    by (cases t) simp_all
  show ?case by (simp add: tail split: if_splits)
next
  case (3 c d s)
  have ne: "split_lines (d # s @ [CHR 0x0A]) \<noteq> []"
    by (cases "s @ [CHR 0x0A]") (auto split: list.splits)
  with 3 show ?case by (auto split: list.splits)
qed

lemma split_lines_whole:
  "a = [] \<or> endswith a [CHR 0x0A] \<Longrightarrow> split_lines (a @ t) = split_lines a @ split_lines t"
proof (elim disjE)
  assume "endswith a [CHR 0x0A]"
  then obtain s where "a = s @ [CHR 0x0A]"
    unfolding endswith_def by (metis append_take_drop_id)
  then show ?thesis by (simp only: split_lines_newline)
qed simp

lemma split_lines_fence: "split_lines (fence @ [CHR 0x0A] @ t) = (fence @ [CHR 0x0A]) # split_lines t"
proof -
  have "split_lines (fence @ [CHR 0x0A]) = [fence @ [CHR 0x0A]]"
    by (simp add: fence_def line_end_def code_of_def)
  then show ?thesis using split_lines_whole [of "fence @ [CHR 0x0A]" t]
    by (simp add: endswith_def fence_def)
qed

lemma is_fence_line: "is_fence (fence @ [CHR 0x0A])"
  by (simp add: is_fence_def rstrip_set_def fence_def)

lemma parse_render:
  assumes "dumps_cleanly Y (frontmatter d)" "had_frontmatter d"
  shows "parse_markdown Y (render_markdown Y d) = Inr d"
proof -
  let ?dump = "yaml_dump Y (frontmatter d)"
  have lines: "split_lines (render_markdown Y d) =
      (fence @ [CHR 0x0A]) # split_lines ?dump @ (fence @ [CHR 0x0A]) # split_lines (md_body d)"
    using assms(1) split_lines_whole [of ?dump "fence @ [CHR 0x0A] @ md_body d"]
    by (simp only: render_markdown_def split_lines_fence dumps_cleanly_def)
  have no: "\<forall>l \<in> set (split_lines ?dump). \<not> is_fence l"
    using assms(1) by (auto simp: dumps_cleanly_def list_ex_iff)
  have "takeWhile (\<lambda>l. \<not> is_fence l)
      (split_lines ?dump @ (fence @ [CHR 0x0A]) # split_lines (md_body d)) = split_lines ?dump"
    "dropWhile (\<lambda>l. \<not> is_fence l)
      (split_lines ?dump @ (fence @ [CHR 0x0A]) # split_lines (md_body d))
        = (fence @ [CHR 0x0A]) # split_lines (md_body d)"
    using no is_fence_line by (simp_all add: takeWhile_tail dropWhile_append3)
  then show ?thesis
    using assms is_fence_line
    by (simp add: parse_markdown_def lines dumps_cleanly_def list_ex_iff)
qed

section \<open>Plain values\<close>

text \<open>\<open>_plain_json\<close>.\<close>

fun plain_json :: "yaml \<Rightarrow> json res" where
  "plain_json YNull = Inr JNull"
| "plain_json (YBool b) = Inr (JBool b)"
| "plain_json (YInt i) = Inr (JInt i)"
| "plain_json (YStr s) = Inr (JStr s)"
| "plain_json (YOther s) = Inr (JStr s)"
| "plain_json (YList xs) = bindE (mapE plain_json xs) (\<lambda>js. Inr (JList js))"
| "plain_json (YMap m) =
     bindE (mapE (\<lambda>p. bindE (yaml_text (fst p)) (\<lambda>k. bindE (plain_json (snd p)) (\<lambda>v. Inr (k, v)))) m)
       (\<lambda>d. Inr (JObj (dmerge [] d)))"

text \<open>What \<open>json.dumps\<close> accepts of a YAML value: another class raises \<open>TypeError\<close>.\<close>

fun json_of :: "yaml \<Rightarrow> json res" where
  "json_of YNull = Inr JNull"
| "json_of (YBool b) = Inr (JBool b)"
| "json_of (YInt i) = Inr (JInt i)"
| "json_of (YStr s) = Inr (JStr s)"
| "json_of (YOther s) = Inl (TypeError ''Object is not JSON serializable'')"
| "json_of (YList xs) = bindE (mapE json_of xs) (\<lambda>js. Inr (JList js))"
| "json_of (YMap m) =
     bindE (mapE (\<lambda>p. case fst p of
         YStr k \<Rightarrow> bindE (json_of (snd p)) (\<lambda>v. Inr (k, v))
       | _ \<Rightarrow> Inl (Unmodelled ''key that is not a string'')) m)
       (\<lambda>d. Inr (JObj d))"

end
