(* ===== verification/Sources.thy ===== *)
theory Sources
  imports Documents Paths
begin

text \<open>
  \<open>source_contract.py\<close>: which files of a vault are sources (Markdown directly in the vault or in
  its \<open>Categories\<close> directory), why every other file is excluded, and the export of a vault with
  the exact bytes of the sources and empty placeholders for the rest.

  \<open>resolve\<close> of a path through a symbolic link depends on where the link points, which the model
  of the file system does not record; such paths are \<open>Unmodelled\<close>. The order in which
  \<open>iterdir\<close> yields the entries, which only decides between names that are equal case-folded, is
  the sorted one.
\<close>

section \<open>Discovery\<close>

record source_file =
  src_path :: string
  src_kind :: string

definition through_link :: "world \<Rightarrow> path \<Rightarrow> bool" where
  "through_link w p = list_ex (\<lambda>i. is_symlink w (take i p)) [1..<Suc (length p)]"

definition relative_posix :: "path \<Rightarrow> path \<Rightarrow> string" where
  "relative_posix root p = (if p = root then ''.'' else join ''/'' (drop (length root) p))"

definition normalize_source_path :: "world \<Rightarrow> path \<Rightarrow> path \<Rightarrow> string res" where
  "normalize_source_path w root p =
     bindE (raiseIf (through_link w root \<or> through_link w p) (Unmodelled ''target of a symbolic link'')) (\<lambda>_.
     bindE (raiseIf (\<not> below root p) (ValueError (''path escapes vault root: '' @ path_text p))) (\<lambda>_.
     Inr (relative_posix root p)))"

definition is_markdown :: "string \<Rightarrow> bool \<Rightarrow> bool" where
  "is_markdown name include_uppercase =
     (if include_uppercase then lower (suffix_of name) = ''.md'' else suffix_of name = ''.md'')"

definition sources_in :: "world \<Rightarrow> path \<Rightarrow> path \<Rightarrow> string \<Rightarrow> bool \<Rightarrow> source_file list res" where
  "sources_in w root dir k upper =
     mapE (\<lambda>n. bindE (normalize_source_path w root (dir @ [n])) (\<lambda>s. Inr \<lparr>src_path = s, src_kind = k\<rparr>))
       (filter (\<lambda>n. is_file w (dir @ [n]) \<and> is_markdown n upper) (children w dir))"

definition discover_sources :: "world \<Rightarrow> path \<Rightarrow> bool \<Rightarrow> source_file list res" where
  "discover_sources w root upper =
     (let categories = root @ [''Categories'']
      in bindE (raiseIf (through_link w root \<or> is_symlink w categories)
           (Unmodelled ''target of a symbolic link'')) (\<lambda>_.
         bindE (raiseIf (\<not> is_dir w root)
           (ValueError (''vault root is not a directory: '' @ path_text root))) (\<lambda>_.
         bindE (sources_in w root root ''knowledge'' upper) (\<lambda>knowledge.
         bindE (if is_dir w categories then sources_in w root categories ''category'' upper else Inr [])
           (\<lambda>category.
         Inr (sort_key (\<lambda>s. casefold (src_path s)) (knowledge @ category)))))))"

section \<open>The inventory\<close>

record inventory =
  included :: "source_file list"
  excluded :: "(string \<times> string) list"

definition exclusion_reason :: "string list \<Rightarrow> string" where
  "exclusion_reason parts =
     (if hd parts = ''Templates'' then ''template''
      else if list_ex (\<lambda>p. startswith p ''.'') parts then ''hidden-or-trash''
      else if lower (suffix_of (last parts)) = ''.md'' then ''markdown-outside-contract''
      else ''non-markdown-artifact'')"

definition files_below :: "world \<Rightarrow> path \<Rightarrow> path list" where
  "files_below w root =
     sort_key (\<lambda>p. casefold (relative_posix root p)) (filter (is_file w) (map fst (entries_below w root)))"

definition inventory_paths :: "world \<Rightarrow> path \<Rightarrow> bool \<Rightarrow> inventory res" where
  "inventory_paths w root upper =
     bindE (discover_sources w root upper) (\<lambda>sources.
     bindE (mapE (\<lambda>p. bindE (normalize_source_path w root p) (\<lambda>s. Inr (s, exclusion_reason (drop (length root) p))))
       (files_below w root)) (\<lambda>named.
     Inr \<lparr>included = sources, excluded = filter (\<lambda>e. fst e \<notin> set (map src_path sources)) named\<rparr>))"

definition inventory_json :: "inventory \<Rightarrow> json" where
  "inventory_json found =
     JObj [(''included'', JList (map (\<lambda>s. JObj [(''source_path'', JStr (src_path s)), (''kind'', JStr (src_kind s))])
             (included found))),
           (''excluded'', JList (map (\<lambda>e. JObj [(''source_path'', JStr (fst e)), (''reason'', JStr (snd e))])
             (excluded found)))]"

section \<open>The export\<close>

definition make_dir :: "path \<Rightarrow> unit wprog" where
  "make_dir p w =
     (if lexists w p then (Inl (FileExistsError (''already exists: '' @ path_text p)), w) else make_dirs p w)"

definition not_crash :: "exn \<Rightarrow> bool" where
  "not_crash e \<longleftrightarrow> e \<noteq> Crash"

text \<open>\<open>shutil.rmtree(path, ignore_errors=True)\<close>.\<close>

definition remove_tree_quietly :: "path \<Rightarrow> unit wprog" where
  "remove_tree_quietly p = catchM (remove_tree p) (\<lambda>e. if not_crash e then Some (retM ()) else None)"

definition export_copy :: "path \<Rightarrow> path \<Rightarrow> source_file \<Rightarrow> unit wprog" where
  "export_copy root temporary item =
     bindM (make_dirs (butlast (temporary @ posix_parts (src_path item)))) (\<lambda>_.
     bindM (askM (\<lambda>w. read_bytes w (root @ posix_parts (src_path item)))) (\<lambda>c.
     put_file (temporary @ posix_parts (src_path item)) c))"

definition export_placeholder :: "path \<Rightarrow> string \<times> string \<Rightarrow> unit wprog" where
  "export_placeholder temporary item =
     bindM (make_dirs (butlast (temporary @ posix_parts (fst item)))) (\<lambda>_.
     put_file (temporary @ posix_parts (fst item)) [])"

definition export_temporary :: "path \<Rightarrow> string \<Rightarrow> path" where
  "export_temporary output uuid = butlast output @ [''.'' @ last output @ ''.'' @ uuid @ ''.tmp'']"

definition export_snapshot :: "string \<Rightarrow> path \<Rightarrow> path \<Rightarrow> dict wprog" where
  "export_snapshot uuid root output =
     bindM (liftM (raiseIf (output = root \<or> below root output)
       (ValueError ''snapshot destination must be outside the source vault''))) (\<lambda>_.
     bindM (failIf (\<lambda>w. exists_path w output)
       (ValueError (''snapshot destination already exists: '' @ path_text output))) (\<lambda>_.
     bindM (askM (\<lambda>w. inventory_paths w root True)) (\<lambda>found.
     bindM (make_dirs (butlast output)) (\<lambda>_.
     (let temporary = export_temporary output uuid
      in bindM (make_dir temporary) (\<lambda>_.
         bindM (catchM
           (bindM (eachM (export_copy root temporary) (included found)) (\<lambda>_.
            bindM (eachM (export_placeholder temporary) (excluded found)) (\<lambda>_.
            rename temporary output)))
           (\<lambda>e. if not_crash e then Some (bindM (remove_tree_quietly temporary) (\<lambda>_. raiseM e)) else None)) (\<lambda>_.
         retM [(''source_vault'', JStr (path_text root)), (''snapshot'', JStr (path_text output)),
           (''included_sources'', JInt (int (length (included found)))),
           (''excluded_path_placeholders'', JInt (int (length (excluded found))))])))))))"

end
