(* ===== verification/Markdown.thy ===== *)
theory Markdown
  imports Frontmatter Sources
begin

text \<open>
  \<open>models.py\<close> and \<open>markdown_parser.py\<close>: from the bytes of a source file to a parsed document with
  its sections, links, tags and categories. The CommonMark parser is a parameter: it gives the
  block tokens of a text, an inline token with its children. The two inline rules the program adds
  to it are defined on the state the parser hands them.
\<close>

section \<open>Records\<close>

record validation_issue =
  severity :: string
  issue_code :: string
  issue_path :: string
  message :: string

record section_record =
  sec_path :: string
  sec_ordinal :: nat
  parent_ordinal :: "nat option"
  heading_level :: nat
  heading :: "string option"
  sec_body :: string
  sec_hash :: string

record category_assignment =
  cat_path :: string
  cat_ordinal :: nat
  cat_raw :: string
  cat_title :: string

datatype link_kind = Internal | External | Attachment | SameDocument
datatype link_syntax = Wikilink | MarkdownLink

record link_occurrence =
  link_path :: string
  link_ordinal :: nat
  link_section :: "nat option"
  syntax_of :: link_syntax
  kind_of :: link_kind
  raw_target :: string
  target_title :: "string option"
  target_heading :: "string option"
  target_block_id :: "string option"
  display_text :: "string option"
  is_embed :: bool

record source_document =
  doc_path :: string
  doc_kind :: string
  document_id :: yaml
  doc_title :: string
  document_type :: yaml
  doc_status :: yaml
  authority :: yaml
  created_at :: "string option"
  updated_at :: "string option"
  last_verified_at :: "string option"
  doc_hash :: string
  raw_markdown :: string
  raw_frontmatter :: json
  tags :: "string list"
  categories :: "category_assignment list"
  sections :: "section_record list"
  links :: "link_occurrence list"
  doc_warnings :: "validation_issue list"

section \<open>Tokens and the added inline rules\<close>

record inline_token =
  in_type :: string
  href :: "string option"
  in_content :: string
  embed_meta :: bool

record token =
  tok_type :: string
  tok_tag :: string
  tok_line :: "nat option"
  tok_content :: string
  tok_children :: "inline_token list"

record inline_state =
  src :: string
  pos :: nat
  pos_max :: nat
  pushed :: "inline_token list"

definition push_token :: "string \<Rightarrow> string \<Rightarrow> bool \<Rightarrow> inline_state \<Rightarrow> inline_state" where
  "push_token t c e st =
     st\<lparr>pushed := pushed st @ [\<lparr>in_type = t, href = None, in_content = c, embed_meta = e\<rparr>]\<rparr>"

text \<open>A comment that is not closed runs to the end of the text.\<close>

definition comment_rule :: "inline_state \<Rightarrow> bool \<Rightarrow> bool \<times> inline_state" where
  "comment_rule st silent =
     (if \<not> startswith (drop (pos st) (src st)) ''%%'' then (False, st)
      else
        (let stop = (case find_from ''%%'' (src st) (pos st + 2) of None \<Rightarrow> pos_max st | Some i \<Rightarrow> i + 2);
             st' = (if silent then st
               else push_token ''obsidian_comment'' (slice (src st) (pos st) stop) False st)
         in (True, st'\<lparr>pos := min stop (pos_max st)\<rparr>)))"

definition wikilink_rule :: "inline_state \<Rightarrow> bool \<Rightarrow> bool \<times> inline_state" where
  "wikilink_rule st silent =
     (let start = pos st; embed = startswith (drop start (src st)) ''![['';
          prefix = (if embed then 3 else 2 :: nat)
      in if \<not> embed \<and> \<not> startswith (drop start (src st)) ''[['' then (False, st)
         else (case find_from '']]'' (src st) (start + prefix) of
             None \<Rightarrow> (False, st)
           | Some i \<Rightarrow>
               (let st' = (if silent then st
                  else push_token ''wikilink'' (slice (src st) (start + prefix) i) embed st)
                in (True, st'\<lparr>pos := i + 2\<rparr>))))"

section \<open>Link targets\<close>

definition or_none :: "string \<Rightarrow> string option" where
  "or_none s = (if s = [] then None else Some s)"

text \<open>A bar, or a bar escaped by a backslash, separates the display text.\<close>

definition split_alias :: "string \<Rightarrow> string \<times> string option" where
  "split_alias raw =
     (case find_sub ''|'' raw of
        None \<Rightarrow> (raw, None)
      | Some i \<Rightarrow>
          (take (if 0 < i \<and> raw ! (i - 1) = CHR 0x5C then i - 1 else i) raw, or_none (drop (i + 1) raw)))"

definition split_wiki_target ::
  "string \<Rightarrow> string option \<times> string option \<times> string option \<times> string option" where
  "split_wiki_target raw =
     (case split_alias raw of (target, display) \<Rightarrow>
        if contains target ''#^'' then
          (case split_once target ''#^'' of (title, block) \<Rightarrow> (or_none title, None, or_none block, display))
        else if contains target ''#'' then
          (case split_once target ''#'' of (title, head) \<Rightarrow> (or_none title, or_none head, None, display))
        else (or_none target, None, None, display))"

text \<open>
  \<open>urllib.parse.urlparse\<close>: leading controls and blanks and every tab and line break are dropped,
  the scheme is what precedes the first colon if it is made of scheme characters, and an authority
  with an unbalanced bracket raises \<open>ValueError\<close>.
\<close>

definition scheme_char :: "char \<Rightarrow> bool" where
  "scheme_char c \<longleftrightarrow> is_alnum c \<or> c \<in> set ''+-.''"

definition split_scheme :: "string \<Rightarrow> string \<times> string" where
  "split_scheme url =
     (case find_sub '':'' url of
        None \<Rightarrow> ([], url)
      | Some i \<Rightarrow>
          if 0 < i \<and> is_alpha (hd url) \<and> list_all scheme_char (take i url)
          then (lower (take i url), drop (i + 1) url) else ([], url))"

definition check_authority :: "string \<Rightarrow> unit res" where
  "check_authority rest =
     (let netloc = takeWhile (\<lambda>c. c \<notin> set ''/?#'') (drop 2 rest);
          opens = CHR ''['' \<in> set netloc; closes = CHR '']'' \<in> set netloc
      in if \<not> startswith rest ''//'' then Inr ()
         else if opens \<noteq> closes then Inl (ValueError ''Invalid IPv6 URL'')
         else if opens \<or> list_ex (\<lambda>c. 128 \<le> code_of c) netloc
           then Inl (Unmodelled ''bracketed or internationalised host'')
         else Inr ())"

definition url_scheme :: "string \<Rightarrow> string res" where
  "url_scheme target =
     (let url = filter (\<lambda>c. c \<notin> {CHR 0x09, CHR 0x0A, CHR 0x0D}) (dropWhile (\<lambda>c. code_of c \<le> 32) target)
      in case split_scheme url of (scheme, rest) \<Rightarrow> bindE (check_authority rest) (\<lambda>_. Inr scheme))"

definition attachment_extensions :: "string list" where
  "attachment_extensions =
    [''.base'', ''.bmp'', ''.csv'', ''.gif'', ''.h'', ''.ino'', ''.jpeg'', ''.jpg'', ''.json'', ''.log'',
     ''.pdf'', ''.png'', ''.svg'', ''.webp'', ''.yaml'', ''.yml'']"

definition classify_target :: "string option \<Rightarrow> link_syntax \<Rightarrow> link_kind res" where
  "classify_target target syn =
     (case target of
        None \<Rightarrow> Inr SameDocument
      | Some t \<Rightarrow>
          if startswith t ''#'' then Inr SameDocument
          else bindE (url_scheme t) (\<lambda>scheme.
            if scheme \<in> set [''http'', ''https''] then Inr External
            else
              (let suffix = lower (suffix_of (name_of (fst (split_once t ''#''))))
               in if suffix = ''.md'' \<or> suffix = [] then Inr Internal
                  else if suffix \<in> set attachment_extensions \<or> syn = MarkdownLink then Inr Attachment
                  else Inr Attachment)))"

section \<open>Links\<close>

text \<open>The loop over the children of an inline token: an open link and the text in it.\<close>

record link_scan =
  found_links :: "link_occurrence list"
  active_href :: "string option"
  active_text :: "string list"

definition markdown_link :: "string \<Rightarrow> nat option \<Rightarrow> nat \<Rightarrow> string \<Rightarrow> string list \<Rightarrow> link_occurrence res" where
  "markdown_link path section ordinal target text =
     bindE (classify_target (Some target) MarkdownLink) (\<lambda>kind.
     Inr \<lparr>link_path = path, link_ordinal = ordinal, link_section = section, syntax_of = MarkdownLink,
       kind_of = kind, raw_target = target,
       target_title = (if kind = Internal then or_none (fst (split_once target ''#'')) else None),
       target_heading =
         (if kind = Internal then
            (if contains target ''#'' then or_none (snd (split_once target ''#'')) else None)
          else if kind = SameDocument then or_none (drop 1 target) else None),
       target_block_id = None, display_text = or_none (concat text), is_embed = False\<rparr>)"

definition wiki_link :: "string \<Rightarrow> nat option \<Rightarrow> nat \<Rightarrow> inline_token \<Rightarrow> link_occurrence res" where
  "wiki_link path section ordinal tok =
     (case split_wiki_target (in_content tok) of (title, head, block, display) \<Rightarrow>
        bindE (classify_target title Wikilink) (\<lambda>kind.
        Inr \<lparr>link_path = path, link_ordinal = ordinal, link_section = section, syntax_of = Wikilink,
          kind_of = kind, raw_target = in_content tok, target_title = title, target_heading = head,
          target_block_id = block, display_text = display, is_embed = embed_meta tok\<rparr>))"

definition scan_inline ::
  "string \<Rightarrow> nat option \<Rightarrow> nat \<Rightarrow> inline_token \<Rightarrow> link_scan \<Rightarrow> link_scan res" where
  "scan_inline path section start tok st =
     (let ordinal = start + length (found_links st)
      in if in_type tok = ''link_open'' then Inr (st\<lparr>active_href := href tok, active_text := []\<rparr>)
         else if in_type tok = ''link_close'' \<and> active_href st \<noteq> None then
           bindE (markdown_link path section ordinal (the (active_href st)) (active_text st)) (\<lambda>l.
           Inr \<lparr>found_links = found_links st @ [l], active_href = None, active_text = []\<rparr>)
         else if active_href st \<noteq> None \<and> in_type tok \<in> set [''text'', ''code_inline''] then
           Inr (st\<lparr>active_text := active_text st @ [in_content tok]\<rparr>)
         else if in_type tok = ''wikilink'' then
           bindE (wiki_link path section ordinal tok) (\<lambda>l. Inr (st\<lparr>found_links := found_links st @ [l]\<rparr>))
         else Inr st)"

definition inline_links ::
  "string \<Rightarrow> nat option \<Rightarrow> inline_token list \<Rightarrow> nat \<Rightarrow> link_occurrence list res" where
  "inline_links path section kids start =
     bindE (foldE (scan_inline path section start) kids
         \<lparr>found_links = [], active_href = None, active_text = []\<rparr>) (\<lambda>st.
     Inr (found_links st))"

section \<open>Sections\<close>

text \<open>The line, level and text of each heading; its text is in the token that follows.\<close>

definition int_text :: "string \<Rightarrow> nat res" where
  "int_text s = (if s \<noteq> [] \<and> list_all is_digit s then Inr (digits_value s)
     else Inl (ValueError ''invalid literal for int()''))"

definition opens_heading :: "token \<Rightarrow> bool" where
  "opens_heading t \<longleftrightarrow> tok_type t = ''heading_open'' \<and> tok_line t \<noteq> None"

fun headings_of :: "token list \<Rightarrow> (nat \<times> nat \<times> string) list res" where
  "headings_of [] = Inr []"
| "headings_of (t # ts) =
     (if \<not> opens_heading t then headings_of ts
      else case ts of
          [] \<Rightarrow> Inl (IndexError ''list index out of range'')
        | next # _ \<Rightarrow>
            bindE (int_text (drop 1 (tok_tag t))) (\<lambda>level.
            bindE (headings_of ts) (\<lambda>hs.
            Inr ((the (tok_line t), level, tok_content next) # hs))))"

definition section_at ::
  "(string \<Rightarrow> string) \<Rightarrow> string \<Rightarrow> nat \<Rightarrow> nat option \<Rightarrow> nat \<Rightarrow> string option \<Rightarrow> string \<Rightarrow> section_record" where
  "section_at sha path ordinal parent level head text =
     \<lparr>sec_path = path, sec_ordinal = ordinal, parent_ordinal = parent, heading_level = level,
      heading = head, sec_body = text, sec_hash = sha (utf8 text)\<rparr>"

text \<open>The stack holds the level and the ordinal of the headings that are open.\<close>

fun nested_sections ::
  "(string \<Rightarrow> string) \<Rightarrow> string list \<Rightarrow> string \<Rightarrow> nat \<Rightarrow> (nat \<times> nat) list \<Rightarrow> (nat \<times> nat \<times> string) list
     \<Rightarrow> section_record list" where
  "nested_sections sha lines path ordinal stack [] = []"
| "nested_sections sha lines path ordinal stack ((line, level, head) # hs) =
     (let next_line = (case hs of [] \<Rightarrow> length lines | (l, _) # _ \<Rightarrow> l);
          text = concat (drop (line + 1) (take next_line lines));
          stack' = dropWhile (\<lambda>e. level \<le> fst e) stack;
          parent = (case stack' of [] \<Rightarrow> None | e # _ \<Rightarrow> Some (snd e))
      in section_at sha path ordinal parent level (Some head) text
           # nested_sections sha lines path (Suc ordinal) ((level, ordinal) # stack') hs)"

definition preamble_section :: "(string \<Rightarrow> string) \<Rightarrow> string list \<Rightarrow> string \<Rightarrow> (nat \<times> nat \<times> string) list \<Rightarrow> section_record list" where
  "preamble_section sha lines path hs =
     (let stop = (case hs of [] \<Rightarrow> length lines | (l, _) # _ \<Rightarrow> l); preamble = concat (take stop lines)
      in if (hs = [] \<or> list_ex (\<lambda>l. strip l \<noteq> []) (take stop lines)) \<and> preamble \<noteq> []
         then [section_at sha path 0 None 0 None preamble] else [])"

definition sections_of :: "(string \<Rightarrow> string) \<Rightarrow> string \<Rightarrow> token list \<Rightarrow> string \<Rightarrow> section_record list res" where
  "sections_of sha text tokens path =
     bindE (headings_of tokens) (\<lambda>hs.
     (let lines = split_lines text; first = preamble_section sha lines path hs
      in Inr (first @ nested_sections sha lines path (length first) [] hs)))"

section \<open>Which section a link is in\<close>

fun heading_starts :: "token list \<Rightarrow> nat list \<Rightarrow> (nat \<times> nat) list res" where
  "heading_starts [] ordinals = Inr []"
| "heading_starts (t # ts) ordinals =
     (if \<not> opens_heading t then heading_starts ts ordinals
      else case ordinals of
          [] \<Rightarrow> Inl StopIteration
        | i # is \<Rightarrow> bindE (heading_starts ts is) (\<lambda>r. Inr ((the (tok_line t), i) # r)))"

definition section_starts :: "section_record list \<Rightarrow> token list \<Rightarrow> (nat \<times> nat) list res" where
  "section_starts secs tokens =
     bindE (heading_starts tokens (map sec_ordinal (filter (\<lambda>s. heading s \<noteq> None) secs))) (\<lambda>r.
     Inr ((case secs of [] \<Rightarrow> [] | s # _ \<Rightarrow> if heading s = None then [(0, sec_ordinal s)] else []) @ r))"

definition section_for_line :: "(nat \<times> nat) list \<Rightarrow> nat \<Rightarrow> nat option" where
  "section_for_line starts line =
     (let applicable = map snd (filter (\<lambda>s. fst s \<le> line) starts)
      in if applicable = [] then None else Some (last applicable))"

definition token_links ::
  "string \<Rightarrow> (nat \<times> nat) list \<Rightarrow> token \<Rightarrow> link_occurrence list \<Rightarrow> link_occurrence list res" where
  "token_links path starts t found =
     (if tok_type t \<noteq> ''inline'' \<or> tok_children t = [] then Inr found
      else
        (let line = (case tok_line t of None \<Rightarrow> 0 | Some l \<Rightarrow> l)
         in bindE (inline_links path (section_for_line starts line) (tok_children t) (length found)) (\<lambda>ls.
            Inr (found @ ls))))"

definition link_occurrences :: "token list \<Rightarrow> section_record list \<Rightarrow> string \<Rightarrow> link_occurrence list res" where
  "link_occurrences tokens secs path =
     bindE (section_starts secs tokens) (\<lambda>starts. foldE (token_links path starts) tokens [])"

section \<open>Tags and categories\<close>

definition warning :: "string \<Rightarrow> string \<Rightarrow> string \<Rightarrow> validation_issue" where
  "warning code path text = \<lparr>severity = ''warning'', issue_code = code, issue_path = path, message = text\<rparr>"

definition string_list :: "yaml \<Rightarrow> string \<Rightarrow> string \<Rightarrow> (string list \<times> validation_issue list) res" where
  "string_list value fld path =
     (case value of
        YNull \<Rightarrow> Inr ([], [])
      | YList items \<Rightarrow> bindE (mapE yaml_text items) (\<lambda>ts. Inr (ts, []))
      | _ \<Rightarrow> Inr ([], [warning (fld @ ''-not-list'') path (fld @ '' is not a YAML list and was not expanded'')]))"

fun assign_categories ::
  "string \<Rightarrow> nat \<Rightarrow> string list \<Rightarrow> category_assignment list \<times> validation_issue list" where
  "assign_categories path ordinal [] = ([], [])"
| "assign_categories path ordinal (raw # raws) =
     (let wiki = startswith raw ''[['' \<and> endswith raw '']]'';
          bare = (if wiki then [] else [warning ''legacy-bare-category'' path
            ''category is a legacy bare name rather than an Obsidian wiki link'']);
          title = (if wiki then fst (split_wiki_target (slice raw 2 (length raw - 2))) else or_none (strip raw));
          rest = assign_categories path (Suc ordinal) raws
      in case title of
           None \<Rightarrow> (fst rest, bare @ [warning ''category-missing-title'' path
             ''category wiki link has no target title and was skipped''] @ snd rest)
         | Some t \<Rightarrow> (\<lparr>cat_path = path, cat_ordinal = ordinal, cat_raw = raw, cat_title = t\<rparr> # fst rest,
             bare @ snd rest))"

definition category_assignments :: "yaml \<Rightarrow> string \<Rightarrow> (category_assignment list \<times> validation_issue list) res" where
  "category_assignments value path =
     bindE (string_list value ''categories'' path) (\<lambda>(names, warned).
     (case assign_categories path 0 names of (assigned, added) \<Rightarrow> Inr (assigned, warned @ added)))"

section \<open>Parsing a source\<close>

record parsers =
  yaml_of :: yaml_lib
  tokens_of :: "string \<Rightarrow> token list"

definition optional_text :: "yaml \<Rightarrow> string option res" where
  "optional_text v = (if v = YNull then Inr None else bindE (yaml_text v) (\<lambda>s. Inr (Some s)))"

definition read_source :: "world \<Rightarrow> path \<Rightarrow> string \<Rightarrow> (string \<times> string) res" where
  "read_source w root path =
     bindE (read_bytes w (root @ posix_parts path)) (\<lambda>raw. bindE (utf8_decode raw) (\<lambda>text. Inr (raw, text)))"

definition parse_frontmatter :: "parsers \<Rightarrow> string \<Rightarrow> string \<Rightarrow> markdown_document res" where
  "parse_frontmatter P path text =
     (case parse_markdown (yaml_of P) text of
        Inl (FrontmatterError m) \<Rightarrow> Inl (ValueError (path @ '': '' @ m))
      | r \<Rightarrow> r)"

definition parse_source :: "(string \<Rightarrow> string) \<Rightarrow> parsers \<Rightarrow> world \<Rightarrow> path \<Rightarrow> source_file \<Rightarrow> source_document res" where
  "parse_source sha P w root source =
     bindE (read_source w root (src_path source)) (\<lambda>(raw, text).
     bindE (parse_frontmatter P (src_path source) text) (\<lambda>document.
     (let tokens = tokens_of P (md_body document); fm = frontmatter document; path = src_path source
      in bindE (sections_of sha (md_body document) tokens path) (\<lambda>secs.
         bindE (link_occurrences tokens secs path) (\<lambda>ls.
         bindE (string_list (yget fm ''tags'') ''tags'' path) (\<lambda>(ts, tag_warnings).
         bindE (category_assignments (yget fm ''categories'') path) (\<lambda>(cs, category_warnings).
         bindE (optional_text (yget fm ''date'')) (\<lambda>created.
         bindE (optional_text (yget fm ''updated'')) (\<lambda>updated.
         bindE (optional_text (yget fm ''last_verified'')) (\<lambda>verified.
         bindE (plain_json (YMap fm)) (\<lambda>plain.
         Inr \<lparr>doc_path = path, doc_kind = src_kind source, document_id = yget fm ''id'',
           doc_title = stem_of (name_of path), document_type = yget fm ''type'',
           doc_status = yget fm ''status'', authority = yget fm ''authority'', created_at = created,
           updated_at = updated, last_verified_at = verified, doc_hash = sha raw, raw_markdown = text,
           raw_frontmatter = plain, tags = ts, categories = cs, sections = secs, links = ls,
           doc_warnings = tag_warnings @ category_warnings\<rparr>)))))))))))"

definition parse_sources ::
  "(string \<Rightarrow> string) \<Rightarrow> parsers \<Rightarrow> world \<Rightarrow> path \<Rightarrow> source_file list \<Rightarrow> source_document list res" where
  "parse_sources sha P w root sources = mapE (parse_source sha P w root) sources"

end
