(* ===== verification/Inspection.thy ===== *)
theory Inspection
  imports Markdown Deployment
begin

text \<open>
  The inspection of a vault: the title index and the resolution of links (\<open>loader.py\<close>), the
  validation of the parsed documents, their counts and the three fingerprints (\<open>build.py\<close>).
\<close>

section \<open>Titles and links (loader.py)\<close>

text \<open>The case-folded last component of a target, without a Markdown suffix.\<close>

definition title_key :: "string \<Rightarrow> string" where
  "title_key value =
     (let title = name_of value
      in casefold (if endswith (lower title) ''.md'' then take (length title - 3) title else title))"

text \<open>The index from title keys to documents, with the empty list for a missing key.\<close>

definition title_index :: "source_document list \<Rightarrow> string \<Rightarrow> source_document list" where
  "title_index docs key = filter (\<lambda>d. title_key (doc_title d) = key) docs"

datatype link_state = Resolved | Unresolved | Ambiguous | Excluded

record resolved_link =
  link_state :: link_state
  target_id :: yaml
  target_path :: "string option"

definition no_target :: "link_state \<Rightarrow> resolved_link" where
  "no_target s = \<lparr>link_state = s, target_id = YNull, target_path = None\<rparr>"

definition target_document :: "source_document \<Rightarrow> resolved_link" where
  "target_document d = \<lparr>link_state = Resolved, target_id = document_id d, target_path = Some (doc_path d)\<rparr>"

definition resolve_link ::
  "link_occurrence \<Rightarrow> source_document \<Rightarrow> (string \<Rightarrow> source_document list) \<Rightarrow> string list \<Rightarrow> resolved_link" where
  "resolve_link link source selected known =
     (case kind_of link of
        External \<Rightarrow> no_target Resolved
      | Attachment \<Rightarrow> no_target Excluded
      | SameDocument \<Rightarrow> target_document source
      | Internal \<Rightarrow>
          (case target_title link of
             None \<Rightarrow> no_target Unresolved
           | Some title \<Rightarrow>
               (let found = selected (title_key title);
                    knowledge = filter (\<lambda>d. doc_kind d = ''knowledge'') found
                in if length knowledge = 1 then target_document (hd knowledge)
                   else if length knowledge > 1 then no_target Ambiguous
                   else if length found = 1 then target_document (hd found)
                   else if length found > 1 then no_target Ambiguous
                   else if title_key title \<in> set known then no_target Excluded
                   else no_target Unresolved)))"

fun state_text :: "link_state \<Rightarrow> string" where
  "state_text Resolved = ''resolved''"
| "state_text Unresolved = ''unresolved''"
| "state_text Ambiguous = ''ambiguous''"
| "state_text Excluded = ''excluded''"

section \<open>Validation\<close>

text \<open>A document ID as a dictionary key: booleans are integers, containers are not hashable.\<close>

fun hash_key :: "yaml \<Rightarrow> yaml res" where
  "hash_key (YBool b) = Inr (YInt (if b then 1 else 0))"
| "hash_key (YList xs) = Inl (TypeError ''unhashable type'')"
| "hash_key (YMap m) = Inl (TypeError ''unhashable type'')"
| "hash_key v = Inr v"

definition issue :: "string \<Rightarrow> string \<Rightarrow> string \<Rightarrow> json" where
  "issue code path text = JObj [(''code'', JStr code), (''source_path'', JStr path), (''message'', JStr text)]"

record id_check =
  id_errors :: "json list"
  ids_seen :: "(yaml \<times> string) list"

definition check_id :: "source_document \<Rightarrow> id_check \<Rightarrow> id_check res" where
  "check_id d st =
     (if \<not> ytruthy (document_id d) then
        Inr (st\<lparr>id_errors := id_errors st @ [issue ''missing-document-id'' (doc_path d)
          ''eligible source is missing an immutable document ID'']\<rparr>)
      else bindE (hash_key (document_id d)) (\<lambda>k.
        case map_of (ids_seen st) k of
          Some p \<Rightarrow> Inr (st\<lparr>id_errors := id_errors st @ [issue ''duplicate-document-id'' (doc_path d)
            (''document ID duplicates '' @ p)]\<rparr>)
        | None \<Rightarrow> Inr (st\<lparr>ids_seen := ids_seen st @ [(k, doc_path d)]\<rparr>)))"

text \<open>The paths of the documents by kind and title key, in the order in which the keys appear.\<close>

definition title_paths :: "source_document list \<Rightarrow> string list list" where
  "title_paths docs =
     (let key = (\<lambda>d. (doc_kind d, title_key (doc_title d)))
      in map (\<lambda>k. map doc_path (filter (\<lambda>d. key d = k) docs)) (rev (remdups (rev (map key docs)))))"

definition title_errors :: "source_document list \<Rightarrow> json list" where
  "title_errors docs =
     map (\<lambda>paths. issue ''ambiguous-document-title'' (hd paths)
         (''case-folded title within one source kind is shared by: '' @ join '', '' paths))
       (filter (\<lambda>paths. length paths > 1) (title_paths docs))"

definition category_keys :: "source_document list \<Rightarrow> string list" where
  "category_keys docs = map (\<lambda>d. title_key (doc_title d)) (filter (\<lambda>d. doc_kind d = ''category'') docs)"

definition category_errors :: "string list \<Rightarrow> source_document \<Rightarrow> json list" where
  "category_errors keys d =
     map (\<lambda>a. issue ''unresolved-category'' (doc_path d) (''category does not resolve: '' @ cat_raw a))
       (filter (\<lambda>a. title_key (cat_title a) \<notin> set keys) (categories d))"

text \<open>A \<open>Counter\<close>, in the order of first insertion.\<close>

type_synonym counter = "(string \<times> nat) list"

definition count_one :: "string \<Rightarrow> counter \<Rightarrow> counter" where
  "count_one k c = AList.update k (Suc (case map_of c k of None \<Rightarrow> 0 | Some n \<Rightarrow> n)) c"

definition count_all :: "string list \<Rightarrow> counter" where
  "count_all ks = fold count_one ks []"

text \<open>\<open>sorted(counter.items())\<close> and \<open>counter.most_common()\<close>.\<close>

definition by_key :: "counter \<Rightarrow> counter" where
  "by_key c = sort_key fst c"

definition most_common :: "counter \<Rightarrow> counter" where
  "most_common c = sort_key (\<lambda>p. - int (snd p)) c"

definition link_label :: "link_occurrence \<Rightarrow> string" where
  "link_label link = (case target_title link of Some t \<Rightarrow> (if t = [] then raw_target link else t)
     | None \<Rightarrow> raw_target link)"

text \<open>Every link of the documents with its resolution, in order.\<close>

definition resolutions ::
  "source_document list \<Rightarrow> string list \<Rightarrow> (source_document \<times> link_occurrence \<times> resolved_link) list" where
  "resolutions docs known =
     concat (map (\<lambda>d. map (\<lambda>l. (d, l, resolve_link l d (title_index docs) known)) (links d)) docs)"

definition labels_in_state :: "link_state \<Rightarrow> (source_document \<times> link_occurrence \<times> resolved_link) list \<Rightarrow> string list" where
  "labels_in_state s rs = map (\<lambda>(d, l, r). link_label l) (filter (\<lambda>(d, l, r). link_state r = s) rs)"

definition ambiguity_errors :: "counter \<Rightarrow> json list" where
  "ambiguity_errors c =
     map (\<lambda>(target, n). issue ''ambiguous-link-target'' []
       (target @ '' is ambiguous in '' @ nat_dec n @ '' link occurrence(s)'')) (by_key c)"

definition warning_json :: "validation_issue \<Rightarrow> json" where
  "warning_json i =
     JObj [(''severity'', JStr (severity i)), (''code'', JStr (issue_code i)),
       (''source_path'', JStr (issue_path i)), (''message'', JStr (message i))]"

definition counter_json :: "counter \<Rightarrow> json" where
  "counter_json c = JObj (map (\<lambda>(k, n). (k, JInt (int n))) c)"

record validation =
  errors :: "json list"
  warnings :: "json list"
  state_counts :: counter
  unresolved_targets :: counter

definition validate_documents :: "source_document list \<Rightarrow> string list \<Rightarrow> validation res" where
  "validate_documents docs known_titles =
     bindE (foldE check_id docs \<lparr>id_errors = [], ids_seen = []\<rparr>) (\<lambda>st.
     (let rs = resolutions docs (map title_key known_titles)
      in Inr \<lparr>errors = id_errors st @ title_errors docs
             @ concat (map (category_errors (category_keys docs)) docs)
             @ ambiguity_errors (count_all (labels_in_state Ambiguous rs)),
           warnings = map warning_json (concat (map doc_warnings docs)),
           state_counts = by_key (count_all (map (\<lambda>(d, l, r). state_text (link_state r)) rs)),
           unresolved_targets = most_common (count_all (labels_in_state Unresolved rs))\<rparr>))"

definition validation_json :: "validation \<Rightarrow> json" where
  "validation_json v =
     JObj [(''errors'', JList (errors v)), (''warnings'', JList (warnings v)),
       (''link_resolution_counts'', counter_json (state_counts v)),
       (''unresolved_targets'',
         JList (map (\<lambda>(t, n). JObj [(''target'', JStr t), (''occurrences'', JInt (int n))])
           (unresolved_targets v)))]"

section \<open>Counts\<close>

definition resolved_categories :: "string list \<Rightarrow> source_document \<Rightarrow> category_assignment list" where
  "resolved_categories keys d = filter (\<lambda>a. title_key (cat_title a) \<in> set keys) (categories d)"

definition counts_of :: "source_document list \<Rightarrow> validation \<Rightarrow> counter" where
  "counts_of docs v =
     fold (\<lambda>(k, n). AList.update (''links_'' @ k) n) (state_counts v)
      [(''ingestion_run'', 1),
       (''source_document'', length docs),
       (''knowledge_document'', length (filter (\<lambda>d. doc_kind d = ''knowledge'') docs)),
       (''category'', length (filter (\<lambda>d. doc_kind d = ''category'') docs)),
       (''document_content'', length docs),
       (''document_tag'', sum_list (map (\<lambda>d. length (tags d)) docs)),
       (''document_category'', sum_list (map (\<lambda>d. length (resolved_categories (category_keys docs) d)) docs)),
       (''section'', sum_list (map (\<lambda>d. length (sections d)) docs)),
       (''link_occurrence'', sum_list (map (\<lambda>d. length (links d)) docs))]"

section \<open>Fingerprints\<close>

definition opt_str :: "string option \<Rightarrow> json" where
  "opt_str v = (case v of None \<Rightarrow> JNull | Some s \<Rightarrow> JStr s)"

definition opt_nat :: "nat option \<Rightarrow> json" where
  "opt_nat v = (case v of None \<Rightarrow> JNull | Some n \<Rightarrow> JInt (int n))"

fun kind_text :: "link_kind \<Rightarrow> string" where
  "kind_text Internal = ''internal''"
| "kind_text External = ''external''"
| "kind_text Attachment = ''attachment''"
| "kind_text SameDocument = ''same-document''"

fun syntax_text :: "link_syntax \<Rightarrow> string" where
  "syntax_text Wikilink = ''wikilink''"
| "syntax_text MarkdownLink = ''markdown''"

definition section_json :: "section_record \<Rightarrow> json" where
  "section_json s =
     JObj [(''source_path'', JStr (sec_path s)), (''ordinal'', JInt (int (sec_ordinal s))),
       (''parent_ordinal'', opt_nat (parent_ordinal s)), (''heading_level'', JInt (int (heading_level s))),
       (''heading'', opt_str (heading s)), (''body'', JStr (sec_body s)), (''content_hash'', JStr (sec_hash s))]"

definition category_json :: "category_assignment \<Rightarrow> json" where
  "category_json a =
     JObj [(''source_path'', JStr (cat_path a)), (''ordinal'', JInt (int (cat_ordinal a))),
       (''raw_target'', JStr (cat_raw a)), (''target_title'', JStr (cat_title a))]"

definition link_json :: "link_occurrence \<Rightarrow> json" where
  "link_json l =
     JObj [(''source_path'', JStr (link_path l)), (''ordinal'', JInt (int (link_ordinal l))),
       (''source_section_ordinal'', opt_nat (link_section l)), (''syntax'', JStr (syntax_text (syntax_of l))),
       (''link_kind'', JStr (kind_text (kind_of l))), (''raw_target'', JStr (raw_target l)),
       (''target_title'', opt_str (target_title l)), (''target_heading'', opt_str (target_heading l)),
       (''target_block_id'', opt_str (target_block_id l)), (''display_text'', opt_str (display_text l)),
       (''is_embed'', JBool (is_embed l))]"

definition document_fingerprint :: "source_document \<Rightarrow> json res" where
  "document_fingerprint d =
     bindE (json_of (document_id d)) (\<lambda>i.
     bindE (json_of (document_type d)) (\<lambda>t.
     bindE (json_of (doc_status d)) (\<lambda>s.
     bindE (json_of (authority d)) (\<lambda>a.
     Inr (JObj [(''source_path'', JStr (doc_path d)), (''source_kind'', JStr (doc_kind d)),
       (''document_id'', i), (''title'', JStr (doc_title d)), (''document_type'', t), (''status'', s),
       (''authority'', a), (''created_at'', opt_str (created_at d)), (''updated_at'', opt_str (updated_at d)),
       (''last_verified_at'', opt_str (last_verified_at d)), (''content_hash'', JStr (doc_hash d)),
       (''raw_markdown'', JStr (raw_markdown d)), (''raw_frontmatter'', raw_frontmatter d),
       (''tags'', JList (map JStr (tags d))), (''categories'', JList (map category_json (categories d))),
       (''sections'', JList (map section_json (sections d))), (''links'', JList (map link_json (links d))),
       (''warnings'', JList (map warning_json
          (sort_key (\<lambda>i. [issue_path i, issue_code i]) (doc_warnings d))))])))))"

definition resolution_json :: "source_document \<times> link_occurrence \<times> resolved_link \<Rightarrow> json res" where
  "resolution_json e =
     (case e of (d, l, r) \<Rightarrow> bindE (json_of (target_id r)) (\<lambda>t.
        Inr (JObj [(''source_path'', JStr (doc_path d)), (''ordinal'', JInt (int (link_ordinal l))),
          (''state'', JStr (state_text (link_state r))), (''target_id'', t),
          (''target_path'', opt_str (target_path r))])))"

definition INGESTION_CONTRACT_VERSION :: json where
  "INGESTION_CONTRACT_VERSION = JStr ''homeops-v1''"

definition source_records :: "source_document list \<Rightarrow> json" where
  "source_records docs =
     JObj [(''ingestion_contract_version'', INGESTION_CONTRACT_VERSION), (''profile'', JStr ''knowledge''),
       (''sources'', JList (map (\<lambda>d. JObj [(''source_path'', JStr (doc_path d)), (''kind'', JStr (doc_kind d)),
          (''content_hash'', JStr (doc_hash d))]) docs))]"

definition logical_content :: "source_document list \<Rightarrow> string list \<Rightarrow> json res" where
  "logical_content docs known =
     bindE (mapE document_fingerprint docs) (\<lambda>ds.
     bindE (mapE resolution_json (resolutions docs (map title_key known))) (\<lambda>rs.
     Inr (JObj [(''documents'', JList ds), (''resolutions'', JList rs)])))"

section \<open>inspect\_vault\<close>

definition excluded_titles :: "inventory \<Rightarrow> string list" where
  "excluded_titles found =
     map (\<lambda>e. stem_of (name_of (fst e)))
       (filter (\<lambda>e. lower (suffix_of (name_of (fst e))) = ''.md'') (excluded found))"

record inspection =
  report :: dict
  documents :: "source_document list"
  known_source_titles :: "string list"

definition inspect_documents ::
  "(string \<Rightarrow> string) \<Rightarrow> path \<Rightarrow> inventory \<Rightarrow> source_document list \<Rightarrow> inspection res" where
  "inspect_documents sha root found docs =
     (let known = excluded_titles found
      in bindE (validate_documents docs known) (\<lambda>v.
         bindE (logical_content docs known) (\<lambda>logical.
         Inr \<lparr>report =
             [(''vault_root'', JStr (path_text root)), (''profile'', JStr ''knowledge''),
              (''source_fingerprint'', JStr (sha256_json sha (source_records docs))),
              (''artifact_fingerprint'', JStr (sha256_json sha (dget (obj_of (inventory_json found)) ''excluded''))),
              (''logical_fingerprint'', JStr (sha256_json sha logical)),
              (''counts'', counter_json (counts_of docs v)), (''validation'', validation_json v),
              (''inventory'', inventory_json found)],
           documents = docs, known_source_titles = known\<rparr>)))"

definition inspect_vault :: "(string \<Rightarrow> string) \<Rightarrow> parsers \<Rightarrow> world \<Rightarrow> path \<Rightarrow> inspection res" where
  "inspect_vault sha P w root =
     bindE (inventory_paths w root True) (\<lambda>found.
     bindE (discover_sources w root True) (\<lambda>sources.
     bindE (parse_sources sha P w root sources) (\<lambda>docs.
     inspect_documents sha root found docs)))"

text \<open>\<open>validation_report\<close>: the result without its private keys, as the other modules read it.\<close>

definition validation_report :: "(string \<Rightarrow> string) \<Rightarrow> parsers \<Rightarrow> world \<Rightarrow> path \<Rightarrow> dict res" where
  "validation_report sha P w root = bindE (inspect_vault sha P w root) (\<lambda>i. Inr (report i))"

end
