(* ===== verification/Loader.thy ===== *)
theory Loader
  imports Inspection
begin

text \<open>
  \<open>loader.py\<close> and \<open>schema.py\<close>: the rows of the nine relations that a build stores. The Cozo client is a parameter: one call takes
  a query with its rows and gives rows back, or raises, and changes the database.
\<close>

type_synonym row = "json list"

type_synonym 'db client = "string \<Rightarrow> row list \<Rightarrow> ('db, exn, row list) prog"

section \<open>Schema\<close>

definition relation_schemas :: "(string \<times> string) list" where
  "relation_schemas =
    [(''ingestion_run'', '':create ingestion_run {run_id: Uuid => source_root: String, source_fingerprint: String, logical_fingerprint: String?, started_at: String, completed_at: String?, result: String, counts: Json}''),
     (''source_document'', '':create source_document {document_id: Uuid => source_path: String, source_kind: String, title: String, content_hash: String, raw_frontmatter: Json}''),
     (''knowledge_document'', '':create knowledge_document {document_id: Uuid => document_type: String?, status: String?, authority: String?, created_at: String?, updated_at: String?, last_verified_at: String?}''),
     (''category'', '':create category {category_id: Uuid => name: String, status: String?}''),
     (''document_content'', '':create document_content {document_id: Uuid => raw_markdown: String}''),
     (''document_tag'', '':create document_tag {document_id: Uuid, tag: String =>}''),
     (''document_category'', '':create document_category {document_id: Uuid, category_id: Uuid => raw_target: String}''),
     (''section'', '':create section {document_id: Uuid, ordinal: Int => parent_ordinal: Int?, heading_level: Int, heading: String?, body: String, content_hash: String}''),
     (''link_occurrence'', '':create link_occurrence {source_document_id: Uuid, ordinal: Int => source_section_ordinal: Int?, syntax: String, link_kind: String, raw_target: String, target_title: String?, target_heading: String?, target_block_id: String?, display_text: String?, is_embed: Bool, resolution_state: String, resolved_target_id: Uuid?, resolved_target_path: String?}'')]"

definition relation_names :: "'db client \<Rightarrow> ('db, exn, json list) prog" where
  "relation_names run =
     bindM (run ''::relations'' []) (\<lambda>rows. liftM (mapE (\<lambda>r. case r of
         [] \<Rightarrow> Inl (IndexError ''list index out of range'') | n # _ \<Rightarrow> Inr n) rows))"

definition ensure_schema :: "'db client \<Rightarrow> ('db, exn, unit) prog" where
  "ensure_schema run =
     bindM (relation_names run) (\<lambda>existing.
     eachM (\<lambda>(name, statement). if JStr name \<in> set existing then retM ()
       else bindM (run statement []) (\<lambda>_. retM ())) relation_schemas)"

section \<open>Putting rows\<close>

record put_spec =
  relation :: string
  columns :: "string list"
  key_columns :: "string list"
  uuid_columns :: "string list"
  nullable_uuids :: "string list"

definition put_query :: "put_spec \<Rightarrow> string" where
  "put_query s =
     (let raw = map (\<lambda>c. if c \<in> set (uuid_columns s) then ''raw_'' @ c else c) (columns s);
          assign = map (\<lambda>c. if c \<in> set (nullable_uuids s)
              then c @ '' = if(is_null(raw_'' @ c @ ''), null, to_uuid(raw_'' @ c @ ''))''
              else c @ '' = to_uuid(raw_'' @ c @ '')'')
            (filter (\<lambda>c. c \<in> set (nullable_uuids s) \<or> c \<in> set (uuid_columns s)) (columns s));
          body = ''input['' @ join '', '' raw @ '']''
            @ (if assign = [] then [] else '', '' @ join '', '' assign);
          non_keys = filter (\<lambda>c. c \<notin> set (key_columns s)) (columns s);
          shape = join '', '' (key_columns s) @ (if non_keys = [] then [] else '' => '' @ join '', '' non_keys);
          nl = [CHR 0x0A]
      in ''input['' @ join '', '' raw @ ''] <- $rows'' @ nl
           @ ''?['' @ join '', '' (columns s) @ ''] := '' @ body @ nl
           @ '':put '' @ relation s @ '' {'' @ shape @ ''}'')"

definition put :: "'db client \<Rightarrow> put_spec \<Rightarrow> row list \<Rightarrow> ('db, exn, unit) prog" where
  "put run s rows = (if rows = [] then retM () else bindM (run (put_query s) rows) (\<lambda>_. retM ()))"

definition put_source_document :: put_spec where
  "put_source_document =
     \<lparr>relation = ''source_document'',
      columns = [''document_id'', ''source_path'', ''source_kind'', ''title'', ''content_hash'', ''raw_frontmatter''],
      key_columns = [''document_id''], uuid_columns = [''document_id''], nullable_uuids = []\<rparr>"

definition put_document_content :: put_spec where
  "put_document_content =
     \<lparr>relation = ''document_content'', columns = [''document_id'', ''raw_markdown''],
      key_columns = [''document_id''], uuid_columns = [''document_id''], nullable_uuids = []\<rparr>"

definition put_knowledge_document :: put_spec where
  "put_knowledge_document =
     \<lparr>relation = ''knowledge_document'',
      columns = [''document_id'', ''document_type'', ''status'', ''authority'', ''created_at'', ''updated_at'',
        ''last_verified_at''],
      key_columns = [''document_id''], uuid_columns = [''document_id''], nullable_uuids = []\<rparr>"

definition put_category :: put_spec where
  "put_category =
     \<lparr>relation = ''category'', columns = [''category_id'', ''name'', ''status''],
      key_columns = [''category_id''], uuid_columns = [''category_id''], nullable_uuids = []\<rparr>"

definition put_document_tag :: put_spec where
  "put_document_tag =
     \<lparr>relation = ''document_tag'', columns = [''document_id'', ''tag''],
      key_columns = [''document_id'', ''tag''], uuid_columns = [''document_id''], nullable_uuids = []\<rparr>"

definition put_document_category :: put_spec where
  "put_document_category =
     \<lparr>relation = ''document_category'', columns = [''document_id'', ''category_id'', ''raw_target''],
      key_columns = [''document_id'', ''category_id''], uuid_columns = [''document_id'', ''category_id''],
      nullable_uuids = []\<rparr>"

definition put_section :: put_spec where
  "put_section =
     \<lparr>relation = ''section'',
      columns = [''document_id'', ''ordinal'', ''parent_ordinal'', ''heading_level'', ''heading'', ''body'',
        ''content_hash''],
      key_columns = [''document_id'', ''ordinal''], uuid_columns = [''document_id''], nullable_uuids = []\<rparr>"

definition put_link_occurrence :: put_spec where
  "put_link_occurrence =
     \<lparr>relation = ''link_occurrence'',
      columns = [''source_document_id'', ''ordinal'', ''source_section_ordinal'', ''syntax'', ''link_kind'',
        ''raw_target'', ''target_title'', ''target_heading'', ''target_block_id'', ''display_text'',
        ''is_embed'', ''resolution_state'', ''resolved_target_id'', ''resolved_target_path''],
      key_columns = [''source_document_id'', ''ordinal''],
      uuid_columns = [''source_document_id'', ''resolved_target_id''],
      nullable_uuids = [''resolved_target_id'']\<rparr>"

definition put_ingestion_run :: put_spec where
  "put_ingestion_run =
     \<lparr>relation = ''ingestion_run'',
      columns = [''run_id'', ''source_root'', ''source_fingerprint'', ''logical_fingerprint'', ''started_at'',
        ''completed_at'', ''result'', ''counts''],
      key_columns = [''run_id''], uuid_columns = [''run_id''], nullable_uuids = []\<rparr>"

section \<open>The rows of a document\<close>

text \<open>
  A value that is handed to the database. Values of a class that JSON does not have are outside the
  model: \<open>load_documents\<close> is \<open>Unmodelled\<close> for them.
\<close>

definition cell :: "yaml \<Rightarrow> json" where
  "cell v = (case json_of v of Inr j \<Rightarrow> j | Inl e \<Rightarrow> JNull)"

definition source_row :: "source_document \<Rightarrow> row" where
  "source_row d = [cell (document_id d), JStr (doc_path d), JStr (doc_kind d), JStr (doc_title d),
     JStr (doc_hash d), raw_frontmatter d]"

definition content_row :: "source_document \<Rightarrow> row" where
  "content_row d = [cell (document_id d), JStr (raw_markdown d)]"

definition knowledge_row :: "source_document \<Rightarrow> row" where
  "knowledge_row d = [cell (document_id d), cell (document_type d), cell (doc_status d), cell (authority d),
     opt_str (created_at d), opt_str (updated_at d), opt_str (last_verified_at d)]"

definition category_row :: "source_document \<Rightarrow> row" where
  "category_row d = [cell (document_id d), JStr (doc_title d), cell (doc_status d)]"

definition tag_rows :: "source_document \<Rightarrow> row list" where
  "tag_rows d = map (\<lambda>t. [cell (document_id d), JStr t]) (tags d)"

text \<open>The dictionary from title keys to category documents: a later one replaces an earlier one.\<close>

definition category_index :: "source_document list \<Rightarrow> string \<Rightarrow> source_document option" where
  "category_index docs key =
     map_of (rev (map (\<lambda>d. (title_key (doc_title d), d)) (filter (\<lambda>d. doc_kind d = ''category'') docs))) key"

definition assignment_rows :: "source_document list \<Rightarrow> source_document \<Rightarrow> row list" where
  "assignment_rows docs d =
     concat (map (\<lambda>a. case category_index docs (title_key (cat_title a)) of
         None \<Rightarrow> []
       | Some c \<Rightarrow> [[cell (document_id d), cell (document_id c), JStr (cat_raw a)]]) (categories d))"

definition section_rows :: "source_document \<Rightarrow> row list" where
  "section_rows d =
     map (\<lambda>s. [cell (document_id d), JInt (int (sec_ordinal s)), opt_nat (parent_ordinal s),
       JInt (int (heading_level s)), opt_str (heading s), JStr (sec_body s), JStr (sec_hash s)]) (sections d)"

definition link_row :: "source_document \<times> link_occurrence \<times> resolved_link \<Rightarrow> row" where
  "link_row e = (case e of (d, l, r) \<Rightarrow>
     [cell (document_id d), JInt (int (link_ordinal l)), opt_nat (link_section l),
      JStr (syntax_text (syntax_of l)), JStr (kind_text (kind_of l)), JStr (raw_target l),
      opt_str (target_title l), opt_str (target_heading l), opt_str (target_block_id l),
      opt_str (display_text l), JBool (is_embed l), JStr (state_text (link_state r)), cell (target_id r),
      opt_str (target_path r)])"

section \<open>Loading\<close>

text \<open>\<open>_validate_documents\<close> of the loader.\<close>

record load_check =
  by_id :: "(yaml \<times> string) list"
  by_path :: "string list"

definition check_loadable :: "source_document \<Rightarrow> load_check \<Rightarrow> load_check res" where
  "check_loadable d st =
     bindE (hash_key (document_id d)) (\<lambda>k.
     bindE (case map_of (by_id st) k of
         Some p \<Rightarrow> Inl (LoadError (''duplicate document ID in '' @ doc_path d @ '' and '' @ p))
       | None \<Rightarrow> Inr ()) (\<lambda>_.
     bindE (raiseIf (doc_path d \<in> set (by_path st)) (LoadError (''duplicate source path: '' @ doc_path d))) (\<lambda>_.
     Inr \<lparr>by_id = by_id st @ [(k, doc_path d)], by_path = by_path st @ [doc_path d]\<rparr>)))"

definition validate_loadable :: "source_document list \<Rightarrow> unit res" where
  "validate_loadable docs =
     (let missing = map doc_path (filter (\<lambda>d. \<not> ytruthy (document_id d)) docs)
      in bindE (raiseIf (missing \<noteq> []) (LoadError (''documents are missing IDs: '' @ join '', '' missing))) (\<lambda>_.
         bindE (foldE check_loadable docs \<lparr>by_id = [], by_path = []\<rparr>) (\<lambda>_. Inr ())))"

definition plain_cells :: "source_document \<Rightarrow> bool" where
  "plain_cells d \<longleftrightarrow> list_all (\<lambda>v. case json_of v of Inr j \<Rightarrow> True | Inl e \<Rightarrow> False)
     [document_id d, document_type d, doc_status d, authority d]"

definition load_documents :: "'db client \<Rightarrow> source_document list \<Rightarrow> string list \<Rightarrow> ('db, exn, unit) prog" where
  "load_documents run docs known_titles =
     bindM (liftM (validate_loadable docs)) (\<lambda>_.
     bindM (liftM (raiseIf (\<not> list_all plain_cells docs) (Unmodelled ''value without JSON form''))) (\<lambda>_.
     bindM (ensure_schema run) (\<lambda>_.
     bindM (put run put_source_document (map source_row docs)) (\<lambda>_.
     bindM (put run put_document_content (map content_row docs)) (\<lambda>_.
     bindM (put run put_knowledge_document
       (map knowledge_row (filter (\<lambda>d. doc_kind d = ''knowledge'') docs))) (\<lambda>_.
     bindM (put run put_category (map category_row (filter (\<lambda>d. doc_kind d = ''category'') docs))) (\<lambda>_.
     bindM (put run put_document_tag (concat (map tag_rows docs))) (\<lambda>_.
     bindM (put run put_document_category (concat (map (assignment_rows docs) docs))) (\<lambda>_.
     bindM (put run put_section (concat (map section_rows docs))) (\<lambda>_.
     put run put_link_occurrence (map link_row (resolutions docs (map title_key known_titles)))))))))))))"

definition load_ingestion_run ::
  "'db client \<Rightarrow> string \<Rightarrow> string \<Rightarrow> string \<Rightarrow> string \<Rightarrow> string \<Rightarrow> string \<Rightarrow> string \<Rightarrow> json \<Rightarrow> ('db, exn, unit) prog" where
  "load_ingestion_run run run_id source_root source_fp logical_fp started completed outcome counts =
     bindM (ensure_schema run) (\<lambda>_.
     put run put_ingestion_run
       [[JStr run_id, JStr source_root, JStr source_fp, JStr logical_fp, JStr started, JStr completed,
         JStr outcome, counts]])"

end
