(* ===== verification/Verifier.thy ===== *)
theory Verifier
  imports Loader
begin

text \<open>
  \<open>verifier.py\<close>: the checks an independent process makes of a stored build, against its manifest,
  through read-only queries of its database.
\<close>

section \<open>Queries\<close>

record tables =
  stored_relations :: "string list"
  source_table :: "row list"
  knowledge_table :: "row list"
  category_table :: "row list"
  content_table :: "row list"
  tag_table :: "row list"
  assignment_table :: "row list"
  section_table :: "row list"
  link_table :: "row list"
  run_table :: "row list"

definition query_source :: string where
  "query_source = ''?[document_id, source_path, source_kind, title] := *source_document{document_id, source_path, source_kind, title}''"

definition query_knowledge :: string where
  "query_knowledge = ''?[document_id] := *knowledge_document{document_id}''"

definition query_category :: string where
  "query_category = ''?[category_id] := *category{category_id}''"

definition query_content :: string where
  "query_content = ''?[document_id] := *document_content{document_id}''"

definition query_tags :: string where
  "query_tags = ''?[document_id, tag] := *document_tag{document_id, tag}''"

definition query_assignments :: string where
  "query_assignments = ''?[document_id, category_id] := *document_category{document_id, category_id}''"

definition query_sections :: string where
  "query_sections = ''?[document_id, ordinal, parent_ordinal] := *section{document_id, ordinal, parent_ordinal}''"

definition query_links :: string where
  "query_links = ''?[source_document_id, ordinal, link_kind, resolution_state, resolved_target_id] := *link_occurrence{source_document_id, ordinal, link_kind, resolution_state, resolved_target_id}''"

definition query_runs :: string where
  "query_runs = ''?[run_id, source_root, source_fingerprint, logical_fingerprint, result] := *ingestion_run{run_id, source_root, source_fingerprint, logical_fingerprint, result}''"

text \<open>The documents reachable from the root document along resolved links.\<close>

definition query_reachable :: string where
  "query_reachable =
     ''root[id] := *source_document{document_id: id, title: '' @ [CHR 0x22] @ ''AI Context'' @ [CHR 0x22] @ ''}''
     @ [CHR 0x0A] @ ''edge[from, to] := *link_occurrence{source_document_id: from, resolved_target_id: to, resolution_state: ''
     @ [CHR 0x22] @ ''resolved'' @ [CHR 0x22] @ ''}, *source_document{document_id: to}''
     @ [CHR 0x0A] @ ''reachable[to] := root[to]''
     @ [CHR 0x0A] @ ''reachable[to] := reachable[from], edge[from, to]''
     @ [CHR 0x0A] @ ''?[count(id)] := reachable[id]''"

definition relation_texts :: "'db client \<Rightarrow> ('db, exn, string list) prog" where
  "relation_texts run =
     bindM (relation_names run) (\<lambda>names. liftM (mapE (\<lambda>v. case v of
         JStr s \<Rightarrow> Inr s | _ \<Rightarrow> Inl (Unmodelled ''relation name'')) names))"

definition read_tables :: "'db client \<Rightarrow> ('db, exn, tables) prog" where
  "read_tables run =
     bindM (relation_texts run) (\<lambda>names.
     bindM (run query_source []) (\<lambda>source.
     bindM (run query_knowledge []) (\<lambda>knowledge.
     bindM (run query_category []) (\<lambda>category.
     bindM (run query_content []) (\<lambda>content_rows.
     bindM (run query_tags []) (\<lambda>tag_list.
     bindM (run query_assignments []) (\<lambda>assignments.
     bindM (run query_sections []) (\<lambda>secs.
     bindM (run query_links []) (\<lambda>link_rows.
     bindM (run query_runs []) (\<lambda>runs.
     retM \<lparr>stored_relations = names, source_table = source, knowledge_table = knowledge,
       category_table = category, content_table = content_rows, tag_table = tag_list,
       assignment_table = assignments, section_table = secs, link_table = link_rows,
       run_table = runs\<rparr>))))))))))"

section \<open>The checks\<close>

text \<open>\<open>row[i]\<close> of a row with the columns the query asked for.\<close>

definition at :: "nat \<Rightarrow> row \<Rightarrow> json" where
  "at i r = (if i < length r then r ! i else JNull)"

definition column :: "nat \<Rightarrow> row list \<Rightarrow> json list" where
  "column i rows = map (at i) rows"

definition subset_list :: "json list \<Rightarrow> json list \<Rightarrow> bool" where
  "subset_list xs ys = list_all (\<lambda>x. x \<in> set ys) xs"

definition complain :: "bool \<Rightarrow> string \<Rightarrow> string list" where
  "complain bad text = (if bad then [text] else [])"

text \<open>\<open>str(value)\<close>, for the values a run or a count can have.\<close>

definition text_of :: "json \<Rightarrow> string" where
  "text_of v = (case v of
     JNull \<Rightarrow> ''None'' | JBool b \<Rightarrow> (if b then ''True'' else ''False'') | JInt i \<Rightarrow> int_dec i | JStr s \<Rightarrow> s
   | JList xs \<Rightarrow> dumps v | JObj d \<Rightarrow> dumps v)"

definition repr_list :: "string list \<Rightarrow> string" where
  "repr_list xs = ''['' @ join '', '' (map py_repr xs) @ '']''"

definition actual_counts :: "tables \<Rightarrow> counter" where
  "actual_counts T =
     [(''ingestion_run'', length (run_table T)), (''source_document'', length (source_table T)),
      (''knowledge_document'', length (knowledge_table T)), (''category'', length (category_table T)),
      (''document_content'', length (content_table T)), (''document_tag'', length (tag_table T)),
      (''document_category'', length (assignment_table T)), (''section'', length (section_table T)),
      (''link_occurrence'', length (link_table T))]
     @ map (\<lambda>s. (''links_'' @ state_text s,
         length (filter (\<lambda>r. at 3 r = JStr (state_text s)) (link_table T))))
       [Resolved, Unresolved, Ambiguous, Excluded]"

definition count_errors :: "dict \<Rightarrow> counter \<Rightarrow> string list" where
  "count_errors expected actual =
     concat (map (\<lambda>(k, v).
       (let n = (case map_of actual k of None \<Rightarrow> 0 | Some n \<Rightarrow> n)
        in complain (\<not> pyeq (JInt (int n)) v)
             (''count mismatch for '' @ k @ '': expected '' @ text_of v @ '', found '' @ nat_dec n))) expected)"

definition schema_errors :: "tables \<Rightarrow> string list" where
  "schema_errors T =
     complain (set (stored_relations T) \<noteq> set (map fst relation_schemas))
       (''schema mismatch: expected '' @ repr_list (sort (map fst relation_schemas))
        @ '', found '' @ repr_list (sorted_set (stored_relations T)))"

definition reference_errors :: "tables \<Rightarrow> string list" where
  "reference_errors T =
     (let ids = column 0 (source_table T); paths = column 1 (source_table T);
          titles = map (\<lambda>r. (text_of (at 2 r), casefold (text_of (at 3 r)))) (source_table T);
          category_ids = column 0 (category_table T);
          section_keys = map (\<lambda>r. [at 0 r, at 1 r]) (section_table T)
      in complain (\<not> distinct paths) ''source paths are not unique''
         @ complain (\<not> distinct titles) ''case-folded source titles within one source kind are not unique''
         @ complain (\<not> subset_list (column 0 (knowledge_table T)) ids) ''knowledge_document contains unknown document IDs''
         @ complain (\<not> subset_list category_ids ids) ''category contains unknown document IDs''
         @ complain (set (column 0 (content_table T)) \<noteq> set ids) ''document_content does not exactly cover source documents''
         @ complain (\<not> subset_list (column 0 (tag_table T)) ids) ''document_tag contains unknown document IDs''
         @ complain (\<not> list_all (\<lambda>r. at 0 r \<in> set ids \<and> at 1 r \<in> set category_ids) (assignment_table T))
             ''document_category contains invalid references''
         @ complain (\<not> subset_list (column 0 (section_table T)) ids) ''section contains unknown document IDs''
         @ complain (\<not> list_all (\<lambda>r. at 2 r = JNull \<or> [at 0 r, at 2 r] \<in> set section_keys) (section_table T))
             ''section contains invalid parent references''
         @ complain (\<not> subset_list (column 0 (link_table T)) ids) ''link_occurrence contains unknown source document IDs'')"

definition link_errors :: "json list \<Rightarrow> row \<Rightarrow> string list" where
  "link_errors ids r =
     (let source_id = at 0 r; kind = at 2 r; state = at 3 r; target = at 4 r
      in complain (state = JStr ''ambiguous'') ''ambiguous link occurrence reached a verified build''
         @ complain (target \<noteq> JNull \<and> target \<notin> set ids) ''link_occurrence resolved target is unknown''
         @ complain (state = JStr ''resolved'' \<and> kind \<in> set [JStr ''internal'', JStr ''same-document''] \<and> target = JNull)
             ''resolved internal link is missing a target ID''
         @ complain (state \<in> set [JStr ''unresolved'', JStr ''ambiguous'', JStr ''excluded''] \<and> target \<noteq> JNull)
             (str_of state @ '' link unexpectedly has a target ID'')
         @ complain (kind = JStr ''same-document'' \<and> target \<notin> set [JNull, source_id])
             ''same-document link resolves to another document'')"

definition run_errors :: "dict \<Rightarrow> row list \<Rightarrow> string list res" where
  "run_errors manifest runs =
     (case runs of
        [r] \<Rightarrow>
          bindE (mapE (didx manifest) [''run_id'', ''vault_root'', ''source_fingerprint'', ''logical_fingerprint'',
              ''ingestion_result'']) (\<lambda>expected.
          Inr (complain (map text_of r \<noteq> map text_of expected) ''ingestion_run does not match manifest''))
      | _ \<Rightarrow> Inr [''expected exactly one ingestion_run''])"

definition check_tables :: "dict \<Rightarrow> string \<Rightarrow> tables \<Rightarrow> string list res" where
  "check_tables manifest dir_name T =
     bindE (didx manifest ''counts'') (\<lambda>counts.
     bindE (case counts of JObj d \<Rightarrow> Inr d | _ \<Rightarrow> Inl (AttributeError ''items'')) (\<lambda>expected.
     bindE (run_errors manifest (run_table T)) (\<lambda>run_problems.
     Inr (complain (dget manifest ''run_id'' \<noteq> JStr dir_name) ''manifest run ID does not match build directory''
       @ schema_errors T
       @ count_errors expected (actual_counts T)
       @ reference_errors T
       @ concat (map (link_errors (column 0 (source_table T))) (link_table T))
       @ run_problems))))"

definition reachable_documents :: "'db client \<Rightarrow> ('db, exn, json + string) prog" where
  "reachable_documents run =
     catchM (bindM (run query_reachable []) (\<lambda>rows. case rows of
           [] \<Rightarrow> retM (Inl (JInt 0))
         | [] # _ \<Rightarrow> raiseM (IndexError ''list index out of range'')
         | (n # _) # _ \<Rightarrow> retM (Inl n)))
       (\<lambda>e. if e = Crash then None
            else Some (retM (Inr (''recursive AI Context query failed: '' @ exn_text e))))"

text \<open>The report of a build directory with this name, manifest and database.\<close>

definition verify_build :: "'db client \<Rightarrow> dict \<Rightarrow> string \<Rightarrow> string \<Rightarrow> ('db, exn, dict) prog" where
  "verify_build run manifest dir_name now =
     bindM (read_tables run) (\<lambda>T.
     bindM (liftM (check_tables manifest dir_name T)) (\<lambda>problems.
     bindM (reachable_documents run) (\<lambda>reach.
     bindM (liftM (didx manifest ''run_id'')) (\<lambda>run_id.
     (let errs = problems @ (case reach of Inl n \<Rightarrow> [] | Inr m \<Rightarrow> [m]);
          checks = [(''relations'', JList (map JStr (sorted_set (stored_relations T)))),
            (''counts'', counter_json (actual_counts T))]
            @ (case reach of Inl n \<Rightarrow> [(''ai_context_reachable_documents'', n)] | Inr m \<Rightarrow> [])
      in retM [(''schema_version'', JInt 1), (''run_id'', run_id), (''verified_at'', JStr now),
           (''valid'', JBool (errs = [])), (''errors'', JList (map JStr errs)), (''checks'', JObj checks)])))))"

end
