(* ===== verification/MarkdownProps.thy ===== *)
theory MarkdownProps
  imports Markdown
begin

text \<open>
  What the parser of a source guarantees: frontmatter round trips, the added inline rules make
  progress, wiki targets read back, the sections of a text cover it and form a forest, and links
  are numbered in order.
\<close>

section \<open>Substrings\<close>

lemma find_sub_bound: "find_sub p s = Some i \<Longrightarrow> i + length p \<le> length s"
proof (induction s arbitrary: i)
  case (Cons c s)
  then show ?case by (auto simp: startswith_def split: if_splits) (metis length_Cons length_take min.cobounded1)
qed (auto split: if_splits)

lemma find_from_bound: "find_from p s k = Some i \<Longrightarrow> k \<le> i \<and> i + length p \<le> length s"
  using find_sub_bound [of p "drop k s"] by (auto simp: find_from_def split: if_splits)

lemma find_char_none: "c \<notin> set s \<Longrightarrow> find_sub [c] s = None"
  by (induction s) auto

lemma find_char_some: "c \<notin> set s \<Longrightarrow> find_sub [c] (s @ c # t) = Some (length s)"
  by (induction s) auto

section \<open>Headings and sections\<close>

lemma nested_ordinals:
  "map sec_ordinal (nested_sections sha lines path n stack hs) = [n..<n + length hs]"
proof (induction hs arbitrary: n stack)
  case (Cons h hs)
  obtain l v t where "h = (l, v, t)" by (cases h)
  moreover have "[n..<n + length (h # hs)] = n # [Suc n..<Suc n + length hs]"
    by (subst upt_rec) simp
  ultimately show ?case using Cons [of "Suc n"] by (simp add: Let_def section_at_def del: upt_Suc)
qed simp

lemma nested_headings:
  "map heading (nested_sections sha lines path n stack hs) = map (\<lambda>h. Some (snd (snd h))) hs"
proof (induction hs arbitrary: n stack)
  case (Cons h hs)
  obtain l v t where "h = (l, v, t)" by (cases h)
  with Cons show ?case by (simp add: Let_def section_at_def)
qed simp

text \<open>The bodies with their heading lines are the text from the first heading on.\<close>

definition heading_lines :: "string list \<Rightarrow> (nat \<times> nat \<times> string) list \<Rightarrow> bool" where
  "heading_lines lines hs \<longleftrightarrow> sorted_wrt (<) (map fst hs) \<and> list_all (\<lambda>h. fst h < length lines) hs"

definition first_line :: "string list \<Rightarrow> (nat \<times> nat \<times> string) list \<Rightarrow> nat" where
  "first_line lines hs = (case hs of [] \<Rightarrow> length lines | (l, _) # _ \<Rightarrow> l)"

definition with_headings :: "string list \<Rightarrow> (nat \<times> nat \<times> string) list \<Rightarrow> section_record list \<Rightarrow> string" where
  "with_headings lines hs secs = concat (map2 (\<lambda>h s. lines ! fst h @ sec_body s) hs secs)"

lemma nested_cover:
  "heading_lines lines hs \<Longrightarrow>
     with_headings lines hs (nested_sections sha lines path n stack hs) = concat (drop (first_line lines hs) lines)"
proof (induction hs arbitrary: n stack)
  case (Cons h hs)
  obtain l v t where h: "h = (l, v, t)" by (cases h)
  let ?next = "first_line lines hs"
  have l: "l < length lines" "l < ?next" "?next \<le> length lines"
    using Cons.prems by (auto simp: heading_lines_def h first_line_def split: list.splits)
  have "drop l lines = lines ! l # drop (l + 1) lines"
    using l(1) by (simp add: Cons_nth_drop_Suc)
  also have "drop (l + 1) lines = drop (l + 1) (take ?next lines) @ drop ?next lines"
  proof -
    have "drop (l + 1) lines = drop (l + 1) (take ?next lines @ drop ?next lines)" by simp
    also have "\<dots> = drop (l + 1) (take ?next lines) @ drop (l + 1 - length (take ?next lines)) (drop ?next lines)"
      by (rule drop_append)
    also have "l + 1 - length (take ?next lines) = 0" using l by simp
    finally show ?thesis by simp
  qed
  finally have split: "concat (drop l lines) =
      lines ! l @ concat (drop (l + 1) (take ?next lines)) @ concat (drop ?next lines)" by simp
  have "heading_lines lines hs" using Cons.prems by (simp add: heading_lines_def)
  from Cons.IH [OF this] split show ?case
    by (simp add: h first_line_def with_headings_def Let_def section_at_def)
qed (simp add: first_line_def with_headings_def)

section \<open>The forest of the sections\<close>

text \<open>A parent comes earlier and has a lower level.\<close>

definition good_parent :: "section_record list \<Rightarrow> section_record \<Rightarrow> bool" where
  "good_parent secs s \<longleftrightarrow> (case parent_ordinal s of None \<Rightarrow> True
     | Some p \<Rightarrow> p < sec_ordinal s \<and> sec_ordinal (secs ! p) = p \<and> heading_level (secs ! p) < heading_level s)"

definition open_headings :: "section_record list \<Rightarrow> (nat \<times> nat) list \<Rightarrow> bool" where
  "open_headings secs stack \<longleftrightarrow>
     (\<forall>e \<in> set stack. snd e < length secs \<and> sec_ordinal (secs ! snd e) = snd e
        \<and> heading_level (secs ! snd e) = fst e)"

lemma good_parent_append:
  assumes "good_parent secs s" "sec_ordinal s \<le> length secs"
  shows "good_parent (secs @ rest) s"
  using assms by (auto simp: good_parent_def nth_append split: option.splits)

lemma dropWhile_head: "dropWhile P xs = y # ys \<Longrightarrow> \<not> P y \<and> y \<in> set xs"
  by (metis dropWhile_eq_Cons_conv in_set_conv_decomp)

lemma nested_forest:
  assumes "open_headings secs stack" "n = length secs" "map sec_ordinal secs = [0..<n]"
    and "\<forall>s \<in> set secs. good_parent secs s"
  shows "\<forall>s \<in> set (secs @ nested_sections sha lines path n stack hs).
     good_parent (secs @ nested_sections sha lines path n stack hs) s"
  using assms
proof (induction hs arbitrary: secs n stack)
  case (Cons h hs)
  obtain l v t where h: "h = (l, v, t)" by (cases h)
  define stack' where "stack' = dropWhile (\<lambda>e. v \<le> fst e) stack"
  define parent where "parent = (case stack' of [] \<Rightarrow> None | e # _ \<Rightarrow> Some (snd e))"
  define bdy where "bdy = concat (drop (l + 1) (take (first_line lines hs) lines))"
  define new where "new = section_at sha path n parent v (Some t) bdy"
  have unfolded: "nested_sections sha lines path n stack (h # hs)
      = new # nested_sections sha lines path (Suc n) ((v, n) # stack') hs"
    by (simp add: h new_def parent_def stack'_def bdy_def first_line_def Let_def)
  have new: "sec_ordinal new = n" "heading_level new = v" "parent_ordinal new = parent"
    by (simp_all add: new_def section_at_def)
  have sub: "set stack' \<subseteq> set stack"
    unfolding stack'_def by (meson set_dropWhileD subsetI)
  have stk: "open_headings (secs @ [new]) ((v, n) # stack')"
    using Cons.prems(1,2) sub new by (auto simp: open_headings_def nth_append)
  have "good_parent (secs @ [new]) new"
  proof (cases stack')
    case (Cons e es)
    then have "\<not> v \<le> fst e" "e \<in> set stack"
      using dropWhile_head [of "\<lambda>e. v \<le> fst e" stack e es] by (auto simp: stack'_def)
    with Cons Cons.prems(1,2) new show ?thesis
      by (auto simp: good_parent_def parent_def open_headings_def nth_append)
  qed (simp add: good_parent_def new parent_def)
  moreover have "\<forall>s \<in> set secs. good_parent (secs @ [new]) s"
  proof
    fix s assume s: "s \<in> set secs"
    then have "sec_ordinal s \<in> set (map sec_ordinal secs)" by simp
    then have "sec_ordinal s \<le> length secs" using Cons.prems(2,3) by auto
    with s Cons.prems(4) show "good_parent (secs @ [new]) s" by (auto intro: good_parent_append)
  qed
  ultimately have good: "\<forall>s \<in> set (secs @ [new]). good_parent (secs @ [new]) s" by auto
  have "\<forall>s \<in> set ((secs @ [new]) @ nested_sections sha lines path (Suc n) ((v, n) # stack') hs).
      good_parent ((secs @ [new]) @ nested_sections sha lines path (Suc n) ((v, n) # stack') hs) s"
    by (rule Cons.IH [OF stk]) (use Cons.prems(2,3) new good in auto)
  then show ?case by (simp add: unfolded)
qed simp

section \<open>All sections of a text\<close>

lemma sections_of_parts:
  assumes "sections_of sha text tokens path = Inr secs"
  obtains hs first where "headings_of tokens = Inr hs"
    "first = preamble_section sha (split_lines text) path hs"
    "secs = first @ nested_sections sha (split_lines text) path (length first) [] hs"
  using assms by (auto simp: sections_of_def bindE_eq_Inr Let_def)

lemma preamble_cases:
  "preamble_section sha lines path hs = []
   \<or> preamble_section sha lines path hs =
       [section_at sha path 0 None 0 None (concat (take (first_line lines hs) lines))]"
  by (simp add: preamble_section_def first_line_def Let_def)

lemma sections_outline:
  assumes "sections_of sha text tokens path = Inr secs"
  shows "map sec_ordinal secs = [0..<length secs] \<and> list_all (good_parent secs) secs"
  using assms
proof (rule sections_of_parts)
  fix hs first
  assume first: "first = preamble_section sha (split_lines text) path hs"
    and secs: "secs = first @ nested_sections sha (split_lines text) path (length first) [] hs"
  have ord: "map sec_ordinal first = [0..<length first]" and good: "\<forall>s \<in> set first. good_parent first s"
    using preamble_cases [of sha "split_lines text" path hs]
    by (auto simp: first section_at_def good_parent_def)
  have "length secs = length first + length hs"
    using arg_cong [OF nested_ordinals, of length] by (simp add: secs)
  then have "map sec_ordinal secs = [0..<length secs]"
    by (simp add: secs ord nested_ordinals upt_add_eq_append [symmetric])
  moreover have "\<forall>s \<in> set secs. good_parent secs s"
    unfolding secs by (rule nested_forest) (simp_all add: ord good open_headings_def)
  ultimately show ?thesis by (simp add: list_all_iff)
qed

lemma sections_cover:
  assumes "sections_of sha text tokens path = Inr secs" "headings_of tokens = Inr hs"
    and "heading_lines (split_lines text) hs"
  shows "concat (take (first_line (split_lines text) hs) (split_lines text))
     @ with_headings (split_lines text) hs (filter (\<lambda>s. heading s \<noteq> None) secs) = text"
  using assms(1)
proof (rule sections_of_parts)
  fix hs' first
  assume hs: "headings_of tokens = Inr hs'" and first: "first = preamble_section sha (split_lines text) path hs'"
    and secs: "secs = first @ nested_sections sha (split_lines text) path (length first) [] hs'"
  let ?lines = "split_lines text" and ?rest = "nested_sections sha (split_lines text) path (length first) [] hs"
  have eq: "hs' = hs" using hs assms(2) by simp
  have "filter (\<lambda>s. heading s \<noteq> None) first = []"
    using preamble_cases [of sha ?lines path hs'] by (auto simp: first section_at_def)
  moreover have "\<forall>s \<in> set ?rest. heading s \<noteq> None"
  proof
    fix s assume "s \<in> set ?rest"
    then have "heading s \<in> set (map heading ?rest)" by simp
    then show "heading s \<noteq> None" by (auto simp: nested_headings)
  qed
  ultimately have "filter (\<lambda>s. heading s \<noteq> None) secs = ?rest" by (simp add: secs eq)
  moreover have "concat (take n ?lines) @ concat (drop n ?lines) = text" for n
    using concat_append [of "take n ?lines" "drop n ?lines"] by simp
  ultimately show ?thesis using nested_cover [OF assms(3)] by simp
qed

section \<open>Links are numbered in order\<close>

lemma markdown_link_ordinal: "markdown_link p sec n t x = Inr l \<Longrightarrow> link_ordinal l = n \<and> link_section l = sec"
  by (auto simp: markdown_link_def bindE_eq_Inr)

lemma wiki_link_ordinal: "wiki_link p sec n t = Inr l \<Longrightarrow> link_ordinal l = n \<and> link_section l = sec"
  by (auto simp: wiki_link_def bindE_eq_Inr split: prod.splits)

lemma upt_snoc: "[a..<a + length xs] @ [a + length xs] = [a..<a + length (xs @ [x])]"
  by simp

lemma scan_inline_numbers:
  assumes "scan_inline p sec start tok st = Inr st'"
    and "map link_ordinal (found_links st) = [start..<start + length (found_links st)]
      \<and> (\<forall>l \<in> set (found_links st). link_section l = sec)"
  shows "map link_ordinal (found_links st') = [start..<start + length (found_links st')]
      \<and> (\<forall>l \<in> set (found_links st'). link_section l = sec)"
  using assms
  by (auto simp: scan_inline_def Let_def bindE_eq_Inr split: if_splits
      dest!: markdown_link_ordinal wiki_link_ordinal)

lemma inline_links_numbers:
  assumes "inline_links p sec kids start = Inr ls"
  shows "map link_ordinal ls = [start..<start + length ls] \<and> (\<forall>l \<in> set ls. link_section l = sec)"
proof -
  obtain st where st: "foldE (scan_inline p sec start) kids
      \<lparr>found_links = [], active_href = None, active_text = []\<rparr> = Inr st" "ls = found_links st"
    using assms by (auto simp: inline_links_def bindE_eq_Inr)
  from st(1) show ?thesis unfolding st(2)
    by (rule foldE_invariant) (simp, rule scan_inline_numbers)
qed

lemma section_for_line_in: "section_for_line starts n = Some i \<Longrightarrow> i \<in> set (map snd starts)"
  unfolding section_for_line_def Let_def
  using last_in_set [of "map snd (filter (\<lambda>s. fst s \<le> n) starts)"] by (auto split: if_splits)

lemma heading_starts_ordinals: "heading_starts ts is = Inr r \<Longrightarrow> set (map snd r) \<subseteq> set is"
  by (induction ts "is" arbitrary: r rule: heading_starts.induct)
     (fastforce simp: bindE_eq_Inr split: if_splits list.splits)+

lemma section_starts_ordinals:
  assumes "section_starts secs tokens = Inr r"
  shows "set (map snd r) \<subseteq> set (map sec_ordinal secs)"
proof -
  obtain r' where r': "heading_starts tokens (map sec_ordinal (filter (\<lambda>s. heading s \<noteq> None) secs)) = Inr r'"
    and r: "r = (case secs of [] \<Rightarrow> [] | s # _ \<Rightarrow> if heading s = None then [(0, sec_ordinal s)] else []) @ r'"
    using assms unfolding section_starts_def bindE_eq_Inr by auto
  have "set (map snd r') \<subseteq> set (map sec_ordinal secs)"
    using heading_starts_ordinals [OF r'] by auto
  then show ?thesis unfolding r by (cases secs) auto
qed

definition section_known :: "section_record list \<Rightarrow> link_occurrence \<Rightarrow> bool" where
  "section_known secs l \<longleftrightarrow> (case link_section l of None \<Rightarrow> True | Some i \<Rightarrow> i \<in> set (map sec_ordinal secs))"

lemma links_numbered:
  assumes "link_occurrences tokens secs path = Inr ls"
  shows "map link_ordinal ls = [0..<length ls] \<and> list_all (section_known secs) ls"
proof -
  obtain starts where starts: "section_starts secs tokens = Inr starts"
    and run: "foldE (token_links path starts) tokens [] = Inr ls"
    using assms by (auto simp: link_occurrences_def bindE_eq_Inr)
  have known: "section_for_line starts n = Some i \<Longrightarrow> i \<in> set (map sec_ordinal secs)" for n i
    using section_for_line_in section_starts_ordinals [OF starts] by fast
  from run show ?thesis
  proof (rule foldE_invariant)
    fix t found found'
    assume found: "map link_ordinal found = [0..<length found] \<and> list_all (section_known secs) found"
      and step: "token_links path starts t found = Inr found'"
    show "map link_ordinal found' = [0..<length found'] \<and> list_all (section_known secs) found'"
    proof (cases "tok_type t \<noteq> ''inline'' \<or> tok_children t = []")
      case False
      then obtain n more where more: "inline_links path (section_for_line starts n) (tok_children t)
          (length found) = Inr more" "found' = found @ more"
        using step by (auto simp: token_links_def bindE_eq_Inr Let_def)
      have "list_all (section_known secs) more"
        using inline_links_numbers [OF more(1)] known
        by (auto simp: list_all_iff section_known_def split: option.splits)
      with inline_links_numbers [OF more(1)] found show ?thesis
        by (simp add: more(2) upt_add_eq_append [symmetric])
    qed (use step found in \<open>auto simp: token_links_def\<close>)
  qed simp
qed

section \<open>Reading a wiki link\<close>

lemma find_close:
  "CHR '']'' \<notin> set s \<Longrightarrow> find_sub '']]'' (s @ '']]'' @ t) = Some (length s)"
  by (induction s) (auto simp: startswith_def)

lemma find_hash_caret:
  "CHR ''#'' \<notin> set t \<Longrightarrow> CHR ''#'' \<notin> set h \<Longrightarrow> h = [] \<or> hd h \<noteq> CHR ''^'' \<Longrightarrow> find_sub ''#^'' (t @ ''#'' @ h) = None"
proof (induction t)
  case Nil
  have "CHR ''#'' \<notin> set x \<Longrightarrow> find_sub ''#^'' x = None" for x
    by (induction x) (auto simp: startswith_def)
  with Nil show ?case by (cases h) (auto simp: startswith_def)
qed (auto simp: startswith_def)

lemma split_wiki_target_full:
  assumes "t \<noteq> []" "h \<noteq> []" "d \<noteq> []" "CHR ''#'' \<notin> set (t @ h)" "CHR ''|'' \<notin> set (t @ h)"
    and "hd h \<noteq> CHR ''^''" "last h \<noteq> CHR 0x5C"
  shows "split_wiki_target (t @ ''#'' @ h @ ''|'' @ d) = (Some t, Some h, None, Some d)"
proof -
  let ?x = "t @ ''#'' @ h"
  have bar: "find_sub ''|'' (?x @ ''|'' @ d) = Some (length ?x)"
    using find_char_some [of "CHR ''|''" ?x d] assms(5) by simp
  have last: "(?x @ ''|'' @ d) ! (length ?x - 1) = last h"
    using assms(2) by (simp add: nth_append last_conv_nth)
  have bar_split: "split_alias (?x @ ''|'' @ d) = (?x, Some d)"
    unfolding split_alias_def bar using last assms(3,7) by (simp add: or_none_def)
  have "\<not> contains ?x ''#^''"
    using find_hash_caret [of t h] assms(4,6) by (simp add: contains_def)
  moreover have "find_sub ''#'' ?x = Some (length t)"
    using find_char_some [of "CHR ''#''" t h] assms(4) by simp
  ultimately show ?thesis
    using bar_split assms(1,2)
    by (simp add: split_wiki_target_def contains_def split_once_def or_none_def)
qed

lemma wikilink_rule_reads:
  assumes "CHR '']'' \<notin> set raw" "startswith (drop (pos st) (src st)) (''[['' @ raw @ '']]'')"
  shows "wikilink_rule st False = (True, (push_token ''wikilink'' raw False st)\<lparr>pos := pos st + length raw + 4\<rparr>)"
proof -
  obtain rest where rest: "drop (pos st) (src st) = ''[['' @ raw @ '']]'' @ rest"
    using assms(2) by (metis startswith_def append_take_drop_id append_assoc)
  have "pos st < length (src st)"
  proof (rule ccontr)
    assume "\<not> pos st < length (src st)"
    with rest show False by simp
  qed
  moreover have "length (src st) - pos st \<ge> 2" using arg_cong [OF rest, of length] by simp
  ultimately have long: "pos st + 2 \<le> length (src st)" by simp
  have d: "drop (pos st + 2) (src st) = raw @ '']]'' @ rest"
    using arg_cong [OF rest, of "drop 2"] by (simp add: drop_drop add.commute)
  have f: "find_from '']]'' (src st) (pos st + 2) = Some (pos st + 2 + length raw)"
    using long unfolding find_from_def d find_close [OF assms(1)] by simp
  have cut: "slice (src st) (pos st + 2) (pos st + 2 + length raw) = raw"
    unfolding slice_def drop_take d by simp
  have "\<not> startswith (drop (pos st) (src st)) ''![[''" "startswith (drop (pos st) (src st)) ''[[''"
    using rest by (simp_all add: startswith_def)
  with f cut show ?thesis by (simp add: wikilink_rule_def Let_def numeral_eq_Suc)
qed

section \<open>The added rules make progress\<close>

lemma comment_rule_progress:
  assumes "comment_rule st silent = (True, st')" "pos st < pos_max st"
  shows "pos st < pos st' \<and> pos st' \<le> pos_max st 
    \<and> fst (comment_rule st (\<not> silent)) \<and> pos (snd (comment_rule st (\<not> silent))) = pos st'"
  using assms find_from_bound [of "''%%''" "src st" "pos st + 2"]
  by (fastforce simp: comment_rule_def Let_def push_token_def split: if_splits option.splits)

lemma wikilink_rule_progress:
  assumes "wikilink_rule st silent = (True, st')"
  shows "pos st < pos st' \<and> pos st' \<le> length (src st) 
    \<and> fst (wikilink_rule st (\<not> silent)) \<and> pos (snd (wikilink_rule st (\<not> silent))) = pos st'"
  using assms find_from_bound [of "'']]''" "src st"]
  by (fastforce simp: wikilink_rule_def Let_def push_token_def split: if_splits option.splits)

section \<open>Two surprises of the classification\<close>

text \<open>A title with a dot has a suffix, so a wiki link to such a note counts as an attachment.\<close>

lemma dotted_title_is_attachment: "classify_target (Some ''Node v1.2'') Wikilink = Inr Attachment"
  by code_simp

text \<open>A target that looks like an authority with an open bracket makes the whole inspection raise.\<close>

lemma bracketed_target_raises: "classify_target (Some ''//[draft'') Wikilink = Inl (ValueError ''Invalid IPv6 URL'')"
  by code_simp

section \<open>Properties\<close>

text \<open>C25: rendering a document with frontmatter and parsing the text gives the document back, whenever
  the YAML library reads its own output back and writes whole lines none of which is a fence; the
  body is kept to the byte, whatever it contains.\<close>

theorem markdown_roundtrip:
  assumes "dumps_cleanly Y (frontmatter d)" "had_frontmatter d"
  shows "parse_markdown Y (render_markdown Y d) = Inr d"
  using assms by (rule parse_render)

definition sample_yaml :: yaml_lib where
  "sample_yaml =
     \<lparr>yaml_load = \<lambda>s. if s = ''id: n1'' @ [CHR 0x0A] then Inr (YMap [(YStr ''id'', YStr ''n1'')]) else Inl ''unknown'',
      yaml_dump = \<lambda>m. ''id: n1'' @ [CHR 0x0A]\<rparr>"

theorem markdown_roundtrip_witness:
  "parse_markdown sample_yaml (render_markdown sample_yaml
      \<lparr>frontmatter = [(YStr ''id'', YStr ''n1'')], md_body = ''---'' @ [CHR 0x0A], had_frontmatter = True\<rparr>)
    = Inr \<lparr>frontmatter = [(YStr ''id'', YStr ''n1'')], md_body = ''---'' @ [CHR 0x0A], had_frontmatter = True\<rparr>"
proof -
  have "dumps_cleanly sample_yaml [(YStr ''id'', YStr ''n1'')]" by code_simp
  then show ?thesis
    using markdown_roundtrip [of sample_yaml "\<lparr>frontmatter = [(YStr ''id'', YStr ''n1'')],
      md_body = ''---'' @ [CHR 0x0A], had_frontmatter = True\<rparr>"] by simp
qed


definition sample_heading :: "nat \<Rightarrow> string \<Rightarrow> string \<Rightarrow> token list" where
  "sample_heading line tag text =
     [\<lparr>tok_type = ''heading_open'', tok_tag = tag, tok_line = Some line, tok_content = [], tok_children = []\<rparr>,
      \<lparr>tok_type = ''inline'', tok_tag = [], tok_line = Some line, tok_content = text,
        tok_children = [\<lparr>in_type = ''wikilink'', href = None, in_content = ''A note#Top|here'', embed_meta = False\<rparr>]\<rparr>]"

definition sample_tokens :: "token list" where
  "sample_tokens = sample_heading 1 ''h1'' ''One'' @ sample_heading 3 ''h2'' ''Two''"

definition sample_text :: string where
  "sample_text = ''x'' @ [CHR 0x0A] @ ''# One'' @ [CHR 0x0A] @ ''y'' @ [CHR 0x0A] @ ''## Two'' @ [CHR 0x0A] @ ''z''"

lemma sample_lines: "split_lines sample_text =
    [''x'' @ [CHR 0x0A], ''# One'' @ [CHR 0x0A], ''y'' @ [CHR 0x0A], ''## Two'' @ [CHR 0x0A], ''z'']"
  by (simp add: sample_text_def line_end_def code_of_def)

lemma sample_headings: "headings_of sample_tokens = Inr [(1, 1, ''One''), (3, 2, ''Two'')]"
  by code_simp

definition sample_sections :: "section_record list" where
  "sample_sections =
     (let lines = split_lines sample_text; hs = [(1, 1, ''One''), (3, 2, ''Two'')];
          first = preamble_section (\<lambda>s. s) lines ''n.md'' hs
      in first @ nested_sections (\<lambda>s. s) lines ''n.md'' (length first) [] hs)"

lemma sample_sections_run: "sections_of (\<lambda>s. s) sample_text sample_tokens ''n.md'' = Inr sample_sections"
  by (simp add: sections_of_def sample_headings sample_sections_def Let_def)


text \<open>the links of a source are numbered from zero in the order of the text, and each is attributed to
  no section or to a section of that source.\<close>

theorem links_numbered_in_order:
  assumes "link_occurrences tokens secs path = Inr ls"
  shows "map link_ordinal ls = [0..<length ls] \<and> list_all (section_known secs) ls"
  using assms by (rule links_numbered)

definition sample_links :: "link_occurrence list" where
  "sample_links = (case link_occurrences sample_tokens sample_sections ''n.md'' of Inr ls \<Rightarrow> ls | Inl e \<Rightarrow> [])"

lemma sample_links_run: "link_occurrences sample_tokens sample_sections ''n.md'' = Inr sample_links
    \<and> length sample_links = 2"
  by code_simp

theorem links_numbered_in_order_witness:
  "map link_ordinal sample_links = [0, 1] \<and> list_all (section_known sample_sections) sample_links"
  using links_numbered_in_order [of sample_tokens sample_sections "''n.md''" sample_links] sample_links_run
  by (simp add: upt_conv_Cons)

text \<open>A wiki link with a title, a heading and a display text is recognised at its position, the
  position moves behind it, and its three parts are read back exactly.\<close>

theorem wikilink_reads_back:
  assumes "t \<noteq> []" "h \<noteq> []" "d \<noteq> []" "CHR ''#'' \<notin> set (t @ h)" "CHR ''|'' \<notin> set (t @ h)"
    and "hd h \<noteq> CHR ''^''" "last h \<noteq> CHR 0x5C" "CHR '']'' \<notin> set (t @ h @ d)"
    and "startswith (drop (pos st) (src st)) (''[['' @ (t @ ''#'' @ h @ ''|'' @ d) @ '']]'')"
  shows "wikilink_rule st False
      = (True, (push_token ''wikilink'' (t @ ''#'' @ h @ ''|'' @ d) False st)
          \<lparr>pos := pos st + length (t @ ''#'' @ h @ ''|'' @ d) + 4\<rparr>)
    \<and> split_wiki_target (t @ ''#'' @ h @ ''|'' @ d) = (Some t, Some h, None, Some d)"
proof
  show "wikilink_rule st False
      = (True, (push_token ''wikilink'' (t @ ''#'' @ h @ ''|'' @ d) False st)
          \<lparr>pos := pos st + length (t @ ''#'' @ h @ ''|'' @ d) + 4\<rparr>)"
    using assms(8) by (intro wikilink_rule_reads assms(9)) simp
  show "split_wiki_target (t @ ''#'' @ h @ ''|'' @ d) = (Some t, Some h, None, Some d)"
    using assms(1-7) by (rule split_wiki_target_full)
qed

theorem wikilink_reads_back_witness:
  "split_wiki_target (''Pump'' @ ''#'' @ ''Wiring'' @ ''|'' @ ''the pump'') = (Some ''Pump'', Some ''Wiring'', None, Some ''the pump'')"
  using wikilink_reads_back [of "''Pump''" "''Wiring''" "''the pump''"
      "\<lparr>src = ''[[Pump#Wiring|the pump]]'', pos = 0, pos_max = 26, pushed = []\<rparr>"]
  by (simp add: startswith_def)

text \<open>Whenever one of the added inline rules matches, the position strictly advances and stays
  within the text, and it is the same whether the rule runs silently or not: the scan of an inline
  text that tries these rules ends.\<close>

theorem inline_rules_progress:
  "(case comment_rule st silent of (matched, st') \<Rightarrow> matched \<and> pos st < pos_max st \<longrightarrow>
      pos st < pos st' \<and> pos st' \<le> pos_max st \<and> fst (comment_rule st (\<not> silent))
        \<and> pos (snd (comment_rule st (\<not> silent))) = pos st')
   \<and> (case wikilink_rule st silent of (matched, st') \<Rightarrow> matched \<longrightarrow>
      pos st < pos st' \<and> pos st' \<le> length (src st) \<and> fst (wikilink_rule st (\<not> silent))
        \<and> pos (snd (wikilink_rule st (\<not> silent))) = pos st')"
proof -
  obtain m st1 n st2 where c: "comment_rule st silent = (m, st1)" and w: "wikilink_rule st silent = (n, st2)"
    by (metis surj_pair)
  have "m \<Longrightarrow> pos st < pos_max st \<Longrightarrow> pos st < pos st1 \<and> pos st1 \<le> pos_max st
      \<and> fst (comment_rule st (\<not> silent)) \<and> pos (snd (comment_rule st (\<not> silent))) = pos st1"
    using comment_rule_progress [of st silent st1] c by simp
  moreover have "n \<Longrightarrow> pos st < pos st2 \<and> pos st2 \<le> length (src st)
      \<and> fst (wikilink_rule st (\<not> silent)) \<and> pos (snd (wikilink_rule st (\<not> silent))) = pos st2"
    using wikilink_rule_progress [of st silent st2] w by simp
  ultimately show ?thesis using c w by simp
qed

theorem inline_rules_progress_witness:
  "fst (comment_rule \<lparr>src = ''%%a%% b'', pos = 0, pos_max = 7, pushed = []\<rparr> True)
   \<and> pos (snd (comment_rule \<lparr>src = ''%%a%% b'', pos = 0, pos_max = 7, pushed = []\<rparr> True)) = 5"
proof -
  have run: "comment_rule \<lparr>src = ''%%a%% b'', pos = 0, pos_max = 7, pushed = []\<rparr> False
      = (True, \<lparr>src = ''%%a%% b'', pos = 5, pos_max = 7,
          pushed = [\<lparr>in_type = ''obsidian_comment'', href = None, in_content = ''%%a%%'', embed_meta = False\<rparr>]\<rparr>)"
    by code_simp
  show ?thesis
    using inline_rules_progress [of "\<lparr>src = ''%%a%% b'', pos = 0, pos_max = 7, pushed = []\<rparr>" False]
    unfolding run by simp
qed

end
