(* ===== verification/InspectionProps.thy ===== *)
theory InspectionProps
  imports Verifier MarkdownProps
begin

text \<open>
  From a clean inspection to a verified build: what the absence of validation errors means, the
  counts of the manifest as the numbers of rows that are loaded, and the composition: the tables
  that a cleanly validated vault is loaded into pass every check of the independent verifier.
\<close>

section \<open>Counters\<close>

lemma map_of_count_one:
  "map_of (count_one k c) j = (if j = k then Some (Suc (case map_of c k of None \<Rightarrow> 0 | Some n \<Rightarrow> n)) else map_of c j)"
  by (simp add: count_one_def update_conv')

lemma distinct_count_one: "distinct (map fst c) \<Longrightarrow> distinct (map fst (count_one k c))"
  by (simp add: count_one_def distinct_update)

definition tally_of :: "counter \<Rightarrow> string \<Rightarrow> nat" where
  "tally_of c k = (case map_of c k of None \<Rightarrow> 0 | Some n \<Rightarrow> n)"

lemma tally_of_count_one: "tally_of (count_one k c) j = tally_of c j + (if j = k then 1 else 0)"
  by (simp add: tally_of_def map_of_count_one split: option.splits)

lemma tally_fold_count: "tally_of (fold count_one ks c) j = tally_of c j + count_list ks j"
  by (induction ks arbitrary: c) (simp_all add: tally_of_count_one)

lemma tally_count_all: "tally_of (count_all ks) k = count_list ks k"
  by (simp add: count_all_def tally_fold_count) (simp add: tally_of_def)

lemma distinct_fold_count: "distinct (map fst c) \<Longrightarrow> distinct (map fst (fold count_one ks c))"
  by (induction ks arbitrary: c) (simp_all add: distinct_count_one)

lemma distinct_count_all: "distinct (map fst (count_all ks))"
  by (simp add: count_all_def distinct_fold_count)

lemma keys_count_one: "fst ` set (count_one k c) = insert k (fst ` set c)"
  by (simp add: count_one_def update_keys dom_update flip: dom_map_of_conv_image_fst)
     (simp add: update_conv' dom_map_of_conv_image_fst)

lemma keys_count_all: "fst ` set (count_all ks) = set ks"
proof -
  have "fst ` set (fold count_one ks c) = fst ` set c \<union> set ks" for c
    by (induction ks arbitrary: c) (simp_all add: keys_count_one)
  then show ?thesis by (simp add: count_all_def)
qed

lemma count_all_empty [simp]: "count_all ks = [] \<longleftrightarrow> ks = []"
  using keys_count_all [of ks] by auto

lemma tally_by_key: "distinct (map fst c) \<Longrightarrow> tally_of (by_key c) k = tally_of c k"
  by (simp add: tally_of_def by_key_def map_of_sort_key)

section \<open>What no error means\<close>

lemma check_ids_errors:
  "foldE check_id docs st = Inr st' \<Longrightarrow> \<exists>es. id_errors st' = id_errors st @ es"
  by (erule foldE_invariant) (auto simp: check_id_def bindE_eq_Inr split: if_splits option.splits)

lemma check_id_clean:
  assumes "check_id d st = Inr st'" "id_errors st' = []"
  shows "ytruthy (document_id d) \<and> (\<exists>k. hash_key (document_id d) = Inr k \<and> map_of (ids_seen st) k = None
     \<and> st' = st\<lparr>ids_seen := ids_seen st @ [(k, doc_path d)]\<rparr>)"
proof -
  have t: "ytruthy (document_id d)"
  proof (rule ccontr)
    assume "\<not> ytruthy (document_id d)"
    with assms show False by (auto simp: check_id_def)
  qed
  with assms(1) obtain k where k: "hash_key (document_id d) = Inr k" by (auto simp: check_id_def bindE_eq_Inr)
  with assms t show ?thesis by (cases "map_of (ids_seen st) k") (auto simp: check_id_def)
qed

lemma ids_clean_loadable:
  assumes "foldE check_id docs st = Inr st'" "id_errors st' = []"
    and "distinct (by_path L @ map doc_path docs)" "by_id L = ids_seen st"
  shows "list_all (\<lambda>d. ytruthy (document_id d)) docs \<and> (\<exists>L'. foldE check_loadable docs L = Inr L')"
  using assms
proof (induction docs arbitrary: st L)
  case (Cons d docs)
  then obtain u where u: "check_id d st = Inr u" "foldE check_id docs u = Inr st'"
    by (auto split: sum.splits)
  with check_ids_errors [OF u(2)] Cons.prems(2) have "id_errors u = []" by auto
  from check_id_clean [OF u(1) this] obtain k where k: "ytruthy (document_id d)"
    "hash_key (document_id d) = Inr k" "map_of (ids_seen st) k = None"
    "u = st\<lparr>ids_seen := ids_seen st @ [(k, doc_path d)]\<rparr>" by blast
  let ?L = "\<lparr>by_id = by_id L @ [(k, doc_path d)], by_path = by_path L @ [doc_path d]\<rparr>"
  have "check_loadable d L = Inr ?L"
    using k(2,3) Cons.prems(3,4) by (simp add: check_loadable_def raiseIf_def)
  moreover have "list_all (\<lambda>d. ytruthy (document_id d)) docs \<and> (\<exists>L'. foldE check_loadable docs ?L = Inr L')"
    using Cons.prems(2,3,4) k(4) by (intro Cons.IH [OF u(2)]) auto
  ultimately show ?case using k(1) by simp
qed simp

lemma distinct_by_filter:
  "\<forall>k \<in> set (map f xs). length (filter (\<lambda>x. f x = k) xs) \<le> 1 \<Longrightarrow> distinct (map f xs)"
proof (induction xs)
  case (Cons x xs)
  have "filter (\<lambda>y. f y = f x) xs = []" using Cons.prems by auto
  then have "f x \<notin> set (map f xs)" by (auto simp: filter_empty_conv)
  moreover have "distinct (map f xs)"
  proof (rule Cons.IH, intro ballI)
    fix k assume "k \<in> set (map f xs)"
    then have "length (filter (\<lambda>y. f y = k) (x # xs)) \<le> 1"
      using Cons.prems by (metis list.set_intros(2) list.simps(9))
    then show "length (filter (\<lambda>y. f y = k) xs) \<le> 1" by (simp split: if_splits)
  qed
  ultimately show ?case by simp
qed simp

lemma title_errors_clean:
  assumes "title_errors docs = []"
  shows "distinct (map (\<lambda>d. (doc_kind d, title_key (doc_title d))) docs)"
proof (rule distinct_by_filter, intro ballI)
  let ?key = "\<lambda>d. (doc_kind d, title_key (doc_title d))"
  fix k assume "k \<in> set (map ?key docs)"
  then have "map doc_path (filter (\<lambda>d. ?key d = k) docs) \<in> set (title_paths docs)"
    unfolding title_paths_def Let_def by (auto intro!: imageI)
  with assms have "\<not> length (map doc_path (filter (\<lambda>d. ?key d = k) docs)) > 1"
    by (auto simp: title_errors_def filter_empty_conv)
  then show "length (filter (\<lambda>d. ?key d = k) docs) \<le> 1" by simp
qed

lemma validate_documents_parts:
  assumes "validate_documents docs known = Inr v"
  obtains st where "foldE check_id docs \<lparr>id_errors = [], ids_seen = []\<rparr> = Inr st"
    "errors v = id_errors st @ title_errors docs @ concat (map (category_errors (category_keys docs)) docs)
       @ ambiguity_errors (count_all (labels_in_state Ambiguous (resolutions docs (map title_key known))))"
    "state_counts v = by_key (count_all (map (\<lambda>(d, l, r). state_text (link_state r))
       (resolutions docs (map title_key known))))"
  using assms by (auto simp: validate_documents_def bindE_eq_Inr Let_def)

lemma clean_validation:
  assumes "validate_documents docs known = Inr v" "errors v = []" "distinct (map doc_path docs)"
  shows "validate_loadable docs = Inr ()
    \<and> distinct (map (\<lambda>d. (doc_kind d, title_key (doc_title d))) docs)
    \<and> list_all (\<lambda>d. list_all (\<lambda>a. title_key (cat_title a) \<in> set (category_keys docs)) (categories d)) docs
    \<and> list_all (\<lambda>(d, l, r). link_state r \<noteq> Ambiguous) (resolutions docs (map title_key known))"
  using assms(1)
proof (rule validate_documents_parts)
  fix st
  let ?rs = "resolutions docs (map title_key known)"
  assume st: "foldE check_id docs \<lparr>id_errors = [], ids_seen = []\<rparr> = Inr st"
    and errs: "errors v = id_errors st @ title_errors docs @ concat (map (category_errors (category_keys docs)) docs)
       @ ambiguity_errors (count_all (labels_in_state Ambiguous ?rs))"
  have none: "id_errors st = []" "title_errors docs = []"
    "concat (map (category_errors (category_keys docs)) docs) = []"
    "ambiguity_errors (count_all (labels_in_state Ambiguous ?rs)) = []"
    using assms(2) errs by simp_all
  have loadable: "list_all (\<lambda>d. ytruthy (document_id d)) docs
      \<and> (\<exists>L'. foldE check_loadable docs \<lparr>by_id = [], by_path = []\<rparr> = Inr L')"
    using assms(3) by (intro ids_clean_loadable [OF st none(1)]) simp_all
  have cats: "list_all (\<lambda>d. list_all (\<lambda>a. title_key (cat_title a) \<in> set (category_keys docs)) (categories d)) docs"
    using none(3) by (auto simp: category_errors_def list_all_iff filter_empty_conv)
  have "by_key (count_all (labels_in_state Ambiguous ?rs)) = []" using none(4) by (simp add: ambiguity_errors_def)
  then have "labels_in_state Ambiguous ?rs = []"
    unfolding by_key_def by (metis count_all_empty length_0_conv length_sort)
  then have amb: "list_all (\<lambda>(d, l, r). link_state r \<noteq> Ambiguous) ?rs"
    by (auto simp: labels_in_state_def filter_empty_conv list_all_iff)
  have "filter (\<lambda>d. \<not> ytruthy (document_id d)) docs = []"
    using loadable by (auto simp: filter_empty_conv list_all_iff)
  then have "validate_loadable docs = Inr ()"
    using loadable by (auto simp: validate_loadable_def raiseIf_def)
  with title_errors_clean [OF none(2)] cats amb show ?thesis by blast
qed

section \<open>The rows that are loaded\<close>

definition loaded_rows :: "source_document list \<Rightarrow> string list \<Rightarrow> (put_spec \<times> row list) list" where
  "loaded_rows docs known =
     [(put_source_document, map source_row docs), (put_document_content, map content_row docs),
      (put_knowledge_document, map knowledge_row (filter (\<lambda>d. doc_kind d = ''knowledge'') docs)),
      (put_category, map category_row (filter (\<lambda>d. doc_kind d = ''category'') docs)),
      (put_document_tag, concat (map tag_rows docs)),
      (put_document_category, concat (map (assignment_rows docs) docs)),
      (put_section, concat (map section_rows docs)),
      (put_link_occurrence, map link_row (resolutions docs (map title_key known)))]"

lemma bindM_unit: "bindM m (\<lambda>_. retM ()) = (m :: ('s, 'e, unit) prog)"
  by (rule ext) (auto simp: bindM_def split: prod.splits sum.splits)

lemma load_documents_puts:
  "load_documents run docs known =
     bindM (liftM (validate_loadable docs)) (\<lambda>_.
     bindM (liftM (raiseIf (\<not> list_all plain_cells docs) (Unmodelled ''value without JSON form''))) (\<lambda>_.
     bindM (ensure_schema run) (\<lambda>_. eachM (\<lambda>(s, rows). put run s rows) (loaded_rows docs known))))"
  unfolding load_documents_def loaded_rows_def eachM.simps bindM_unit prod.case by (rule refl)

lemma category_index_Some:
  "category_index docs k = Some c \<Longrightarrow> c \<in> set docs \<and> doc_kind c = ''category'' \<and> title_key (doc_title c) = k"
  unfolding category_index_def by (drule map_of_SomeD) auto

lemma category_index_None: "category_index docs k = None \<longleftrightarrow> k \<notin> set (category_keys docs)"
  unfolding category_index_def category_keys_def by (auto simp: map_of_eq_None_iff image_iff)

lemma length_assignment_rows:
  "length (assignment_rows docs d) = length (resolved_categories (category_keys docs) d)"
proof -
  have "length (concat (map (\<lambda>a. case category_index docs (title_key (cat_title a)) of
        None \<Rightarrow> [] | Some c \<Rightarrow> [[cell (document_id d), cell (document_id c), JStr (cat_raw a)]]) as))
      = length (filter (\<lambda>a. title_key (cat_title a) \<in> set (category_keys docs)) as)" for as
  proof (induction as)
    case (Cons a as)
    then show ?case
      using category_index_None [of docs "title_key (cat_title a)"] by (cases "category_index docs (title_key (cat_title a))") auto
  qed simp
  then show ?thesis by (simp add: assignment_rows_def resolved_categories_def)
qed

lemma map_of_fold_other:
  "x \<notin> f ` fst ` set cs \<Longrightarrow> map_of (fold (\<lambda>(k, n). AList.update (f k) n) cs base) x = map_of base x"
  by (induction cs arbitrary: base) (auto simp: update_conv')

lemma map_of_fold_key:
  "distinct (map fst cs) \<Longrightarrow> inj f \<Longrightarrow> (k, n) \<in> set cs \<Longrightarrow>
     map_of (fold (\<lambda>(k, n). AList.update (f k) n) cs base) (f k) = Some n"
proof (induction cs arbitrary: base)
  case (Cons e cs)
  obtain j m where e: "e = (j, m)" by (cases e)
  show ?case
  proof (cases "(k, n) \<in> set cs")
    case True
    with Cons show ?thesis by (simp add: e)
  next
    case False
    with Cons.prems e have "k = j" "n = m" "f k \<notin> f ` fst ` set cs" by (auto dest: injD)
    then show ?thesis by (simp add: e map_of_fold_other update_conv')
  qed
qed simp

definition link_count_key :: "string \<Rightarrow> string" where
  "link_count_key k = ''links_'' @ k"

lemma inj_links: "inj link_count_key"
  by (auto intro: injI simp: link_count_key_def)

lemma counts_of_key:
  "counts_of docs v = fold (\<lambda>(k, n). AList.update (link_count_key k) n) (state_counts v)
     (counts_of docs (v\<lparr>state_counts := []\<rparr>))"
  by (simp add: counts_of_def link_count_key_def)

lemma counts_base:
  assumes "take 6 k \<noteq> ''links_''"
  shows "map_of (counts_of docs v) k = map_of (counts_of docs (v\<lparr>state_counts := []\<rparr>)) k"
proof -
  have "k \<notin> link_count_key ` fst ` set (state_counts v)"
    using assms by (auto simp: link_count_key_def)
  then show ?thesis by (subst counts_of_key) (rule map_of_fold_other)
qed

lemma counts_links:
  assumes "distinct (map fst (state_counts v))"
  shows "tally_of (counts_of docs v) (link_count_key k) = tally_of (state_counts v) k"
proof (cases "map_of (state_counts v) k")
  case None
  then have "link_count_key k \<notin> link_count_key ` fst ` set (state_counts v)"
    using inj_links by (auto simp: map_of_eq_None_iff dest: injD)
  then have "map_of (counts_of docs v) (link_count_key k)
      = map_of (counts_of docs (v\<lparr>state_counts := []\<rparr>)) (link_count_key k)"
    by (subst counts_of_key) (rule map_of_fold_other)
  then show ?thesis using None by (simp add: tally_of_def counts_of_def link_count_key_def)
next
  case (Some n)
  then have "map_of (counts_of docs v) (link_count_key k) = Some n"
    by (subst counts_of_key) (intro map_of_fold_key assms inj_links map_of_SomeD)
  with Some show ?thesis by (simp add: tally_of_def)
qed

lemma link_states_counted:
  assumes "validate_documents docs known = Inr v"
  shows "tally_of (counts_of docs v) (link_count_key (state_text s))
     = length (filter (\<lambda>(d, l, r). link_state r = s) (resolutions docs (map title_key known)))"
  using assms
proof (rule validate_documents_parts)
  let ?rs = "resolutions docs (map title_key known)"
  let ?states = "map (\<lambda>(d, l, r). state_text (link_state r)) ?rs"
  assume v: "state_counts v = by_key (count_all ?states)"
  have inj: "state_text a = state_text b \<longleftrightarrow> a = b" for a b by (cases a; cases b) simp_all
  have "distinct (map fst (state_counts v))"
    unfolding v by_key_def
    using distinct_count_all [of ?states] by (simp add: distinct_map)
  then have "tally_of (counts_of docs v) (link_count_key (state_text s)) = count_list ?states (state_text s)"
    by (simp add: counts_links v tally_by_key [OF distinct_count_all] tally_count_all)
  also have "\<dots> = length (filter (\<lambda>(d, l, r). link_state r = s) ?rs)"
  proof -
    have "count_list (map (\<lambda>(d, l, r). state_text (link_state r)) xs) (state_text s)
        = length (filter (\<lambda>(d, l, r). link_state r = s) xs)" for xs :: "(source_document \<times> link_occurrence \<times> resolved_link) list"
      by (induction xs) (auto simp: inj)
    then show ?thesis .
  qed
  finally show ?thesis .
qed

text \<open>Each count of the manifest is the number of rows that are put into its relation.\<close>

lemma counts_are_rows:
  "list_all (\<lambda>(s, rows). map_of (counts_of docs v) (relation s) = Some (length rows)) (loaded_rows docs known)"
proof -
  have len: "length (concat (map f docs)) = sum_list (map (\<lambda>d. length (f d)) docs)" for f :: "source_document \<Rightarrow> row list"
    by (simp add: length_concat comp_def)
  have base: "map_of (counts_of docs v) k = map_of (counts_of docs (v\<lparr>state_counts := []\<rparr>)) k"
    if "k \<in> set (map fst relation_schemas)" for k
    by (rule counts_base) (use that in \<open>auto simp: relation_schemas_def\<close>)
  have links: "length (resolutions docs ks) = sum_list (map (\<lambda>d. length (links d)) docs)" for ks
    by (simp add: resolutions_def length_concat comp_def)
  show ?thesis
    by (simp add: loaded_rows_def put_source_document_def put_document_content_def put_knowledge_document_def
        put_category_def put_document_tag_def put_document_category_def put_section_def put_link_occurrence_def
        base relation_schemas_def len length_assignment_rows links tag_rows_def section_rows_def)
       (simp add: counts_of_def)
qed

section \<open>Case-folded titles\<close>

lemma fold_char_cases: "fold_char c = [lower_char c] \<or> fold_char c = ''ss''"
  by (auto simp: fold_char_def lower_char_def Let_def)

lemma fold_char_lower: "x \<noteq> CHR ''s'' \<Longrightarrow> fold_char c = [x] \<longleftrightarrow> lower_char c = x \<and> fold_char c \<noteq> ''ss''"
  using fold_char_cases [of c] by auto

lemma sharp_s: "fold_char c = ''ss'' \<Longrightarrow> lower_char c = c \<and> code_of c = 223"
  by (auto simp: fold_char_def lower_char_def Let_def split: if_splits)

lemma casefold_snoc:
  assumes "casefold (u @ [c]) = v @ [x]" "x \<noteq> CHR ''s''"
  shows "lower_char c = x \<and> casefold u = v"
  using assms fold_char_cases [of c] by (auto simp: casefold_def)

lemma casefold_snoc_ex:
  assumes "casefold t = v @ [x]" "x \<noteq> CHR ''s''"
  shows "\<exists>u c. t = u @ [c] \<and> lower_char c = x \<and> casefold u = v"
proof (cases t rule: rev_cases)
  case (snoc u c)
  with casefold_snoc [of u c v x] assms show ?thesis by simp
qed (use assms in \<open>simp add: casefold_def\<close>)

text \<open>What \<open>title_key\<close> makes of a plain name.\<close>

definition strip_md :: "string \<Rightarrow> string" where
  "strip_md t = (if endswith (lower t) ''.md'' then take (length t - 3) t else t)"

lemma casefold_md:
  "casefold t = v @ ''.md'' \<longleftrightarrow> endswith (lower t) ''.md'' \<and> casefold (take (length t - 3) t) = v"
proof
  assume "casefold t = v @ ''.md''"
  then obtain a1 c1 where 1: "t = a1 @ [c1]" "lower_char c1 = CHR ''d''" "casefold a1 = (v @ ''.'') @ ''m''"
    using casefold_snoc_ex [of t "v @ ''.m''" "CHR ''d''"] by auto
  from 1(3) obtain a2 c2 where 2: "a1 = a2 @ [c2]" "lower_char c2 = CHR ''m''" "casefold a2 = v @ ''.''"
    using casefold_snoc_ex [of a1 "v @ ''.''" "CHR ''m''"] by auto
  from 2(3) obtain a3 c3 where 3: "a2 = a3 @ [c3]" "lower_char c3 = CHR ''.''" "casefold a3 = v"
    using casefold_snoc_ex [of a2 v "CHR ''.''"] by auto
  from 1 2 3 show "endswith (lower t) ''.md'' \<and> casefold (take (length t - 3) t) = v"
    by (simp add: endswith_def lower_def)
next
  assume t: "endswith (lower t) ''.md'' \<and> casefold (take (length t - 3) t) = v"
  have "casefold (drop (length t - 3) t) = ''.md''"
  proof -
    have "map lower_char (drop (length t - 3) t) = ''.md''"
      using t by (simp add: endswith_def lower_def drop_map numeral_3_eq_3)
    then obtain a b c where abc: "drop (length t - 3) t = [a, b, c]" "lower_char a = CHR ''.''"
      "lower_char b = CHR ''m''" "lower_char c = CHR ''d''"
      by (auto simp: map_eq_Cons_conv)
    have "fold_char x = [lower_char x]" if "lower_char x \<in> {CHR ''.'', CHR ''m'', CHR ''d''}" for x
    proof (rule ccontr)
      assume "fold_char x \<noteq> [lower_char x]"
      then have "fold_char x = ''ss''" using fold_char_cases [of x] by blast
      with sharp_s have "lower_char x = x" "code_of x = 223" by blast+
      with that show False by (auto simp: code_of_def)
    qed
    with abc show ?thesis by (simp add: casefold_def)
  qed
  moreover have "casefold t = casefold (take (length t - 3) t) @ casefold (drop (length t - 3) t)"
    by (simp flip: casefold_append)
  ultimately show "casefold t = v @ ''.md''" using t by simp
qed

lemma casefold_strip_md:
  assumes "casefold s = casefold t"
  shows "casefold (strip_md s) = casefold (strip_md t)"
proof (cases "\<exists>v. casefold s = v @ ''.md''")
  case True
  then obtain v where v: "casefold s = v @ ''.md''" by blast
  with assms casefold_md [of s v] casefold_md [of t v] show ?thesis by (simp add: strip_md_def)
next
  case False
  then have "\<not> endswith (lower s) ''.md''" "\<not> endswith (lower t) ''.md''"
    using casefold_md [of s] casefold_md [of t] assms by auto
  with assms show ?thesis by (simp add: strip_md_def)
qed

definition plain_title :: "string \<Rightarrow> bool" where
  "plain_title t \<longleftrightarrow> name_of t = t"

lemma title_key_plain: "plain_title t \<Longrightarrow> title_key t = casefold (strip_md t)"
  by (simp add: title_key_def plain_title_def strip_md_def)

section \<open>From the rows to the verifier\<close>

text \<open>
  The tables as the queries of the verifier see them, when the database holds the rows that were put:
  one row for each key. The tag and the assignment relation consist of their key, so a repeated
  row is there once.
\<close>

definition stored_tables :: "source_document list \<Rightarrow> string list \<Rightarrow> row \<Rightarrow> tables" where
  "stored_tables docs known run_row =
     \<lparr>stored_relations = map fst relation_schemas,
      source_table = map (take 4) (map source_row docs),
      knowledge_table = map (take 1) (map knowledge_row (filter (\<lambda>d. doc_kind d = ''knowledge'') docs)),
      category_table = map (take 1) (map category_row (filter (\<lambda>d. doc_kind d = ''category'') docs)),
      content_table = map (take 1) (map content_row docs),
      tag_table = remdups (concat (map tag_rows docs)),
      assignment_table = remdups (map (take 2) (concat (map (assignment_rows docs) docs))),
      section_table = map (take 3) (concat (map section_rows docs)),
      link_table = map (\<lambda>r. [r ! 0, r ! 1, r ! 4, r ! 11, r ! 12])
        (map link_row (resolutions docs (map title_key known))),
      run_table = [run_row]\<rparr>"

text \<open>What a list of parsed documents satisfies, and that no key is repeated.\<close>

definition well_parsed :: "source_document \<Rightarrow> bool" where
  "well_parsed d \<longleftrightarrow> plain_title (doc_title d) \<and> doc_kind d \<in> set [''knowledge'', ''category'']
     \<and> map sec_ordinal (sections d) = [0..<length (sections d)] \<and> list_all (good_parent (sections d)) (sections d)"

definition keys_once :: "source_document list \<Rightarrow> bool" where
  "keys_once docs \<longleftrightarrow> distinct (concat (map tag_rows docs))
     \<and> distinct (map (take 2) (concat (map (assignment_rows docs) docs)))"

lemma no_target_eq: "no_target a = no_target b \<longleftrightarrow> a = b"
  by (auto simp: no_target_def)

lemma resolve_link_cases:
  assumes "d \<in> set docs"
  shows "(\<exists>s. resolve_link l d (title_index docs) ks = no_target s \<and> (s = Resolved \<longrightarrow> kind_of l = External))
    \<or> (\<exists>e \<in> set docs. resolve_link l d (title_index docs) ks = target_document e \<and> (kind_of l = SameDocument \<longrightarrow> e = d))"
proof (cases "kind_of l")
  case Internal
  show ?thesis
  proof (cases "target_title l")
    case (Some t)
    define found where "found = title_index docs (title_key t)"
    define knowledge where "knowledge = filter (\<lambda>d. doc_kind d = ''knowledge'') found"
    have in_docs: "set found \<subseteq> set docs" "set knowledge \<subseteq> set docs"
      by (auto simp: found_def knowledge_def title_index_def)
    have pick: "length xs = 1 \<Longrightarrow> set xs \<subseteq> set docs \<Longrightarrow> hd xs \<in> set docs" for xs :: "source_document list"
      by (cases xs) auto
    have eq: "resolve_link l d (title_index docs) ks =
        (if length knowledge = 1 then target_document (hd knowledge)
         else if length knowledge > 1 then no_target Ambiguous
         else if length found = 1 then target_document (hd found)
         else if length found > 1 then no_target Ambiguous
         else if title_key t \<in> set ks then no_target Excluded else no_target Unresolved)"
      by (simp add: resolve_link_def Internal Some found_def knowledge_def Let_def)
    have "length knowledge = 1 \<or> (\<not> length knowledge > 1 \<and> length found = 1)
      \<or> (\<exists>s. resolve_link l d (title_index docs) ks = no_target s \<and> s \<noteq> Resolved)"
      unfolding eq by (simp add: no_target_eq del: One_nat_def)
    then consider "length knowledge = 1" | "length knowledge \<noteq> 1" "\<not> length knowledge > 1" "length found = 1"
      | s where "resolve_link l d (title_index docs) ks = no_target s" "s \<noteq> Resolved"
      by blast
    then show ?thesis
    proof cases
      case 1
      with eq pick [OF 1 in_docs(2)] Internal show ?thesis by auto
    next
      case 2
      with eq pick [OF 2(3) in_docs(1)] Internal show ?thesis by auto
    qed blast
  qed (simp add: resolve_link_def Internal no_target_eq)
qed (use assms in \<open>auto simp: resolve_link_def no_target_eq\<close>)

lemma complain_Nil [simp]: "complain b t = [] \<longleftrightarrow> \<not> b"
  by (simp add: complain_def)

lemma at_map_take: "i < n \<Longrightarrow> i < length r \<Longrightarrow> at i (take n r) = r ! i"
  by (simp add: at_def)

lemma cell_inject:
  assumes "hash_key v = Inr k" "hash_key w = Inr k'" "k \<noteq> k'" "ytruthy v" "ytruthy w"
    and "\<exists>j. json_of v = Inr j" "\<exists>j. json_of w = Inr j"
  shows "cell v \<noteq> cell w"
  using assms by (cases v; cases w) (auto simp: cell_def)

lemma cell_not_null: "ytruthy v \<Longrightarrow> \<exists>k. hash_key v = Inr k \<Longrightarrow> \<exists>j. json_of v = Inr j \<Longrightarrow> cell v \<noteq> JNull"
  by (cases v) (auto simp: cell_def)

lemma loadable_hashes: "foldE check_loadable docs L = Inr L' \<Longrightarrow> \<forall>d \<in> set docs. \<exists>k. hash_key (document_id d) = Inr k"
  by (induction docs arbitrary: L) (auto simp: check_loadable_def bindE_eq_Inr split: sum.splits)

lemma loadable_cells:
  assumes "validate_loadable docs = Inr ()" "list_all plain_cells docs" "d \<in> set docs"
  shows "cell (document_id d) \<noteq> JNull"
proof (rule cell_not_null)
  show "ytruthy (document_id d)"
    using assms(1,3) by (auto simp: validate_loadable_def Let_def bindE_raiseIf filter_empty_conv)
  show "\<exists>k. hash_key (document_id d) = Inr k"
    using assms(1,3) loadable_hashes by (auto simp: validate_loadable_def Let_def bindE_eq_Inr)
  have "case json_of (document_id d) of Inr j \<Rightarrow> True | Inl e \<Rightarrow> False"
    using assms(2,3) by (simp add: list_all_iff plain_cells_def)
  then show "\<exists>j. json_of (document_id d) = Inr j" by (cases "json_of (document_id d)") simp_all
qed

lemma columns_stored:
  "column 0 (source_table (stored_tables docs known r)) = map (\<lambda>d. cell (document_id d)) docs"
  "column 1 (source_table (stored_tables docs known r)) = map (\<lambda>d. JStr (doc_path d)) docs"
  "column 0 (knowledge_table (stored_tables docs known r))
     = map (\<lambda>d. cell (document_id d)) (filter (\<lambda>d. doc_kind d = ''knowledge'') docs)"
  "column 0 (category_table (stored_tables docs known r))
     = map (\<lambda>d. cell (document_id d)) (filter (\<lambda>d. doc_kind d = ''category'') docs)"
  "column 0 (content_table (stored_tables docs known r)) = map (\<lambda>d. cell (document_id d)) docs"
  by (simp_all add: stored_tables_def column_def at_def source_row_def knowledge_row_def category_row_def
      content_row_def comp_def)

lemma in_concat_map: "x \<in> set (concat (map f xs)) \<longleftrightarrow> (\<exists>a \<in> set xs. x \<in> set (f a))"
  by auto

lemma assignment_rows_member:
  assumes "x \<in> set (assignment_rows docs d)"
  shows "\<exists>c y. c \<in> set docs \<and> doc_kind c = ''category'' \<and> x = [cell (document_id d), cell (document_id c), y]"
proof -
  obtain a :: category_assignment where "x \<in> set (case category_index docs (title_key (cat_title a)) of
      None \<Rightarrow> [] | Some c \<Rightarrow> [[cell (document_id d), cell (document_id c), JStr (cat_raw a)]])"
    using assms unfolding assignment_rows_def in_concat_map by blast
  then show ?thesis
    using category_index_Some [of docs "title_key (cat_title a)"]
    by (cases "category_index docs (title_key (cat_title a))") auto
qed

lemma reference_errors_stored:
  assumes "list_all well_parsed docs" "distinct (map doc_path docs)"
    and "distinct (map (\<lambda>d. (doc_kind d, title_key (doc_title d))) docs)"
  shows "reference_errors (stored_tables docs known r) = []"
proof -
  let ?T = "stored_tables docs known r" and ?ids = "map (\<lambda>d. cell (document_id d)) docs"
  have titles: "distinct (map (\<lambda>r. (text_of (at 2 r), casefold (text_of (at 3 r)))) (source_table ?T))"
  proof -
    have "map (\<lambda>r. (text_of (at 2 r), casefold (text_of (at 3 r)))) (source_table ?T)
        = map (\<lambda>d. (doc_kind d, casefold (doc_title d))) docs"
      by (simp add: stored_tables_def at_def source_row_def text_of_def)
    moreover have "inj_on (\<lambda>d. (doc_kind d, casefold (doc_title d))) (set docs)"
    proof (rule inj_onI)
      fix d e assume de: "d \<in> set docs" "e \<in> set docs"
        "(doc_kind d, casefold (doc_title d)) = (doc_kind e, casefold (doc_title e))"
      then have "plain_title (doc_title d)" "plain_title (doc_title e)"
        using assms(1) by (auto simp: list_all_iff well_parsed_def)
      with de(3) casefold_strip_md [of "doc_title d" "doc_title e"]
      have "title_key (doc_title d) = title_key (doc_title e)" by (simp add: title_key_plain)
      with de(3) have "(doc_kind d, title_key (doc_title d)) = (doc_kind e, title_key (doc_title e))" by simp
      with de(1,2) assms(3) show "d = e" by (auto simp only: distinct_map dest: inj_onD)
    qed
    moreover have "distinct docs" using assms(2) by (simp add: distinct_map)
    ultimately show ?thesis by (simp add: distinct_map)
  qed
  have tags: "subset_list (column 0 (tag_table ?T)) ?ids"
    by (auto simp: subset_list_def list_all_iff column_def stored_tables_def tag_rows_def at_def)
  have cats: "list_all (\<lambda>r. at 0 r \<in> set ?ids
      \<and> at 1 r \<in> set (map (\<lambda>d. cell (document_id d)) (filter (\<lambda>d. doc_kind d = ''category'') docs))) (assignment_table ?T)"
    unfolding list_all_iff
  proof
    fix r assume "r \<in> set (assignment_table ?T)"
    then have "r \<in> take 2 ` (\<Union>d \<in> set docs. set (assignment_rows docs d))"
      by (simp add: stored_tables_def)
    then obtain d x where d: "d \<in> set docs" "x \<in> set (assignment_rows docs d)" "r = take 2 x" by blast
    obtain c y where c: "c \<in> set docs" "doc_kind c = ''category''"
        "x = [cell (document_id d), cell (document_id c), y]"
      using assignment_rows_member [OF d(2)] by blast
    from d(1,3) c show "at 0 r \<in> set ?ids
      \<and> at 1 r \<in> set (map (\<lambda>d. cell (document_id d)) (filter (\<lambda>d. doc_kind d = ''category'') docs))"
      by (simp add: at_def)
  qed
  have secs: "subset_list (column 0 (section_table ?T)) ?ids"
    by (auto simp: subset_list_def list_all_iff column_def stored_tables_def section_rows_def at_def)
  have keys: "map (\<lambda>r. [at 0 r, at 1 r]) (section_table ?T)
      = concat (map (\<lambda>d. map (\<lambda>s. [cell (document_id d), JInt (int (sec_ordinal s))]) (sections d)) docs)"
    by (simp add: stored_tables_def section_rows_def map_concat comp_def at_def)
  have parents: "list_all (\<lambda>r. at 2 r = JNull \<or> [at 0 r, at 2 r] \<in> set (map (\<lambda>r. [at 0 r, at 1 r]) (section_table ?T)))
      (section_table ?T)"
    unfolding list_all_iff
  proof
    fix r assume "r \<in> set (section_table ?T)"
    then obtain d s where ds: "d \<in> set docs" "s \<in> set (sections d)"
      "at 0 r = cell (document_id d)" "at 2 r = opt_nat (parent_ordinal s)"
      by (auto simp: stored_tables_def section_rows_def at_def)
    show "at 2 r = JNull \<or> [at 0 r, at 2 r] \<in> set (map (\<lambda>r. [at 0 r, at 1 r]) (section_table ?T))"
    proof (cases "parent_ordinal s")
      case (Some p)
      have wp: "well_parsed d" using ds(1) assms(1) by (simp add: list_all_iff)
      then have gp: "good_parent (sections d) s" using ds(2) by (simp add: well_parsed_def list_all_iff)
      have "sec_ordinal s \<in> set (map sec_ordinal (sections d))" using ds(2) by simp
      with wp have "sec_ordinal s < length (sections d)" by (simp add: well_parsed_def)
      with gp Some have "sections d ! p \<in> set (sections d)" "sec_ordinal (sections d ! p) = p"
        by (auto simp: good_parent_def)
      then show ?thesis using ds Some unfolding keys by (force simp: opt_nat_def)
    qed (use ds in \<open>simp add: opt_nat_def\<close>)
  qed
  have links: "subset_list (column 0 (link_table ?T)) ?ids"
    by (auto simp: subset_list_def list_all_iff column_def stored_tables_def link_row_def resolutions_def at_def)
  show ?thesis
    unfolding reference_errors_def Let_def columns_stored
    using assms(2) titles tags cats secs parents links
    by (auto simp: distinct_map inj_on_def subset_list_def list_all_iff)
qed

lemma link_errors_stored:
  assumes "validate_loadable docs = Inr ()" "list_all plain_cells docs"
    and "list_all (\<lambda>(d, l, r). link_state r \<noteq> Ambiguous) (resolutions docs (map title_key known))"
  shows "concat (map (link_errors (map (\<lambda>d. cell (document_id d)) docs)) (link_table (stored_tables docs known r))) = []"
proof -
  let ?ids = "map (\<lambda>d. cell (document_id d)) docs"
  have one: "link_errors ?ids ((\<lambda>r. [r ! 0, r ! 1, r ! 4, r ! 11, r ! 12]) (link_row (d, l, res))) = []"
    if e: "(d, l, res) \<in> set (resolutions docs (map title_key known))" for d l res
  proof -
    have d: "d \<in> set docs" and res: "res = resolve_link l d (title_index docs) (map title_key known)"
      using e by (auto simp: resolutions_def)
    have amb: "link_state res \<noteq> Ambiguous" using assms(3) e by (auto simp: list_all_iff)
    from resolve_link_cases [OF d, of l "map title_key known"] show ?thesis
    proof
      assume "\<exists>s. resolve_link l d (title_index docs) (map title_key known) = no_target s
          \<and> (s = Resolved \<longrightarrow> kind_of l = External)"
      then obtain s where s: "res = no_target s" "s = Resolved \<Longrightarrow> kind_of l = External" using res by auto
      then show ?thesis using amb
        by (cases s; cases "kind_of l") (simp_all add: link_errors_def link_row_def at_def no_target_def cell_def Let_def)
    next
      assume "\<exists>t \<in> set docs. resolve_link l d (title_index docs) (map title_key known) = target_document t
          \<and> (kind_of l = SameDocument \<longrightarrow> t = d)"
      then obtain t where t: "t \<in> set docs" "res = target_document t" "kind_of l = SameDocument \<Longrightarrow> t = d"
        using res by auto
      moreover have "cell (document_id t) \<noteq> JNull" by (rule loadable_cells [OF assms(1,2) t(1)])
      ultimately show ?thesis
        by (cases "kind_of l") (simp_all add: link_errors_def link_row_def at_def target_document_def Let_def)
    qed
  qed
  then show ?thesis by (force simp: stored_tables_def)
qed

lemma stored_lengths:
  assumes "keys_once docs"
  shows "length (tag_table (stored_tables docs known r)) = length (concat (map tag_rows docs))"
    "length (assignment_table (stored_tables docs known r)) = length (concat (map (assignment_rows docs) docs))"
    "length (section_table (stored_tables docs known r)) = length (concat (map section_rows docs))"
    "length (link_table (stored_tables docs known r)) = length (resolutions docs (map title_key known))"
  using assms by (simp_all add: stored_tables_def keys_once_def distinct_remdups_id)

lemma stored_link_states:
  "length (filter (\<lambda>r. at 3 r = JStr (state_text s)) (link_table (stored_tables docs known row)))
     = length (filter (\<lambda>(d, l, r). link_state r = s) (resolutions docs (map title_key known)))"
proof -
  have inj: "state_text a = state_text b \<longleftrightarrow> a = b" for a b by (cases a; cases b) simp_all
  have "length (filter (\<lambda>r. at 3 r = JStr (state_text s)) (map (\<lambda>r. [r ! 0, r ! 1, r ! 4, r ! 11, r ! 12]) (map link_row rs)))
      = length (filter (\<lambda>(d, l, r). link_state r = s) rs)" for rs
    by (induction rs) (auto simp: at_def link_row_def inj)
  then show ?thesis by (simp add: stored_tables_def)
qed

lemma counts_keys:
  "fst ` set (counts_of docs v) \<subseteq> set (map fst relation_schemas) \<union> link_count_key ` fst ` set (state_counts v)"
  "distinct (map fst (counts_of docs v))"
proof -
  have keys: "fst ` set (fold (\<lambda>(k, n). AList.update (f k) n) cs base) = fst ` set base \<union> f ` fst ` set cs"
    for f :: "string \<Rightarrow> string" and cs base :: counter
  proof (induction cs arbitrary: base)
    case (Cons e cs)
    obtain k n where "e = (k, n)" by (cases e)
    moreover have "fst ` set (AList.update a b al) = insert a (fst ` set al)" for a :: string and b :: nat and al
      by (simp add: update_conv' flip: dom_map_of_conv_image_fst)
    ultimately show ?case by (simp add: Cons.IH)
  qed simp
  have dis: "distinct (map fst base) \<Longrightarrow> distinct (map fst (fold (\<lambda>(k, n). AList.update (f k) n) cs base))"
    for f :: "string \<Rightarrow> string" and cs base :: counter
    by (induction cs arbitrary: base) (auto simp: distinct_update)
  show "fst ` set (counts_of docs v) \<subseteq> set (map fst relation_schemas) \<union> link_count_key ` fst ` set (state_counts v)"
    by (subst counts_of_key, subst keys) (auto simp: counts_of_def relation_schemas_def)
  show "distinct (map fst (counts_of docs v))"
    unfolding counts_of_def by (rule dis) simp
qed

lemmas put_specs = put_source_document_def put_document_content_def put_knowledge_document_def
  put_category_def put_document_tag_def put_document_category_def put_section_def put_link_occurrence_def

lemma stored_counts:
  assumes "keys_once docs"
  shows "list_all (\<lambda>(s, rows). tally_of (actual_counts (stored_tables docs known r)) (relation s) = length rows)
    (loaded_rows docs known)"
  unfolding loaded_rows_def list.pred_inject prod.case
  by (simp add: put_specs actual_counts_def tally_of_def stored_lengths [OF assms] del: length_concat)
     (simp add: stored_tables_def)

lemma count_errors_stored:
  assumes v: "validate_documents docs known = Inr v" and once: "keys_once docs"
  shows "count_errors (obj_of (counter_json (counts_of docs v))) (actual_counts (stored_tables docs known r)) = []"
proof -
  let ?T = "stored_tables docs known r"
  have states: "fst ` set (state_counts v) \<subseteq> range state_text"
    using v
  proof (rule validate_documents_parts)
    assume "state_counts v = by_key (count_all (map (\<lambda>(d, l, r). state_text (link_state r))
       (resolutions docs (map title_key known))))"
    then show ?thesis by (auto simp: by_key_def keys_count_all)
  qed
  have same: "tally_of (actual_counts ?T) k = n" if kn: "(k, n) \<in> set (counts_of docs v)" for k n
  proof -
    have n: "map_of (counts_of docs v) k = Some n" using kn counts_keys(2) [of docs v] by simp
    have "fst (k, n) \<in> fst ` set (counts_of docs v)" using kn by (rule imageI)
    then have "k \<in> set (map fst relation_schemas) \<union> link_count_key ` fst ` set (state_counts v)"
      using counts_keys(1) [of docs v] by auto
    then have "k \<in> set (map fst relation_schemas) \<or> k \<in> link_count_key ` range state_text"
      using image_mono [OF states, of link_count_key] by blast
    then consider "k \<in> set (map fst relation_schemas)" | s where "k = link_count_key (state_text s)" by blast
    then show ?thesis
    proof cases
      case 1
      have rows: "list_all (\<lambda>(s, rows). map_of (counts_of docs v) (relation s) = Some (length rows)) (loaded_rows docs known)"
        by (rule counts_are_rows)
      show ?thesis
      proof (cases "k = ''ingestion_run''")
        case True
        with n counts_base [of k docs v] show ?thesis
          by (simp add: counts_of_def actual_counts_def tally_of_def stored_tables_def)
      next
        case False
        with 1 have "k \<in> set (map (relation \<circ> fst) (loaded_rows docs known))"
          by (simp add: loaded_rows_def relation_schemas_def put_specs) (elim disjE; simp)
        then obtain s rows' where s: "(s, rows') \<in> set (loaded_rows docs known)" "k = relation s" by auto
        with rows have "map_of (counts_of docs v) k = Some (length rows')" by (auto simp: list_all_iff)
        with n stored_counts [OF once, of known r] s show ?thesis by (auto simp: list_all_iff)
      qed
    next
      case 2
      have "n = length (filter (\<lambda>(d, l, r). link_state r = s) (resolutions docs (map title_key known)))"
        using link_states_counted [OF v, of s] n by (simp add: 2 tally_of_def)
      moreover have "tally_of (actual_counts ?T) (link_count_key (state_text s))
          = length (filter (\<lambda>r. at 3 r = JStr (state_text s)) (link_table ?T))"
        by (cases s) (simp_all add: actual_counts_def tally_of_def link_count_key_def)
      ultimately show ?thesis by (simp add: 2 stored_link_states)
    qed
  qed
  have "complain (\<not> pyeq (JInt (int (case map_of (actual_counts ?T) k of None \<Rightarrow> 0 | Some n \<Rightarrow> n))) (JInt (int n))) t = []"
    if "(k, n) \<in> set (counts_of docs v)" for k n t
    using same [OF that] by (simp add: tally_of_def)
  then show ?thesis by (auto simp: count_errors_def counter_json_def)
qed

lemma stored_build_verifies:
  assumes v: "validate_documents docs known = Inr v" and clean: "errors v = []"
    and parsed: "list_all well_parsed docs" "list_all plain_cells docs" "distinct (map doc_path docs)" "keys_once docs"
    and manifest: "didx manifest ''counts'' = Inr (counter_json (counts_of docs v))"
      "dget manifest ''run_id'' = JStr name" "run_errors manifest [r] = Inr []"
  shows "check_tables manifest name (stored_tables docs known r) = Inr []"
proof -
  let ?T = "stored_tables docs known r"
  have c: "validate_loadable docs = Inr ()" "distinct (map (\<lambda>d. (doc_kind d, title_key (doc_title d))) docs)"
    "list_all (\<lambda>(d, l, r). link_state r \<noteq> Ambiguous) (resolutions docs (map title_key known))"
    using clean_validation [OF v clean parsed(3)] by blast+
  have "schema_errors ?T = []" by (simp add: schema_errors_def stored_tables_def)
  moreover have "reference_errors ?T = []" by (rule reference_errors_stored [OF parsed(1,3) c(2)])
  moreover have "count_errors (obj_of (counter_json (counts_of docs v))) (actual_counts ?T) = []"
    by (rule count_errors_stored [OF v parsed(4)])
  moreover have "concat (map (link_errors (column 0 (source_table ?T))) (link_table ?T)) = []"
    unfolding columns_stored by (rule link_errors_stored [OF c(1) parsed(2) c(3)])
  moreover have "run_table ?T = [r]" by (simp add: stored_tables_def)
  moreover obtain d where "counter_json (counts_of docs v) = JObj d" by (simp add: counter_json_def)
  ultimately show ?thesis using manifest
    by (simp add: check_tables_def del: didx_Inr concat_eq_Nil_conv)
qed

section \<open>Samples\<close>

definition sample_doc :: "string \<Rightarrow> string \<Rightarrow> string \<Rightarrow> string \<Rightarrow> category_assignment list \<Rightarrow> link_occurrence list \<Rightarrow> source_document" where
  "sample_doc i kind path title cats ls =
     \<lparr>doc_path = path, doc_kind = kind, document_id = YStr i, doc_title = title, document_type = YNull,
      doc_status = YStr ''current'', authority = YNull, created_at = None, updated_at = None,
      last_verified_at = None, doc_hash = i, raw_markdown = [], raw_frontmatter = JObj [],
      tags = [''pump''], categories = cats,
      sections = [\<lparr>sec_path = path, sec_ordinal = 0, parent_ordinal = None, heading_level = 1, heading = Some title,
        sec_body = [], sec_hash = []\<rparr>],
      links = ls, doc_warnings = []\<rparr>"

definition sample_link :: "string \<Rightarrow> link_occurrence" where
  "sample_link target =
     \<lparr>link_path = ''Pump.md'', link_ordinal = 0, link_section = Some 0, syntax_of = Wikilink, kind_of = Internal,
      raw_target = target, target_title = Some target, target_heading = None, target_block_id = None,
      display_text = None, is_embed = False\<rparr>"

definition sample_docs :: "source_document list" where
  "sample_docs =
     [sample_doc ''d1'' ''knowledge'' ''Pump.md'' ''Pump''
        [\<lparr>cat_path = ''Pump.md'', cat_ordinal = 0, cat_raw = ''[[House]]'', cat_title = ''House''\<rparr>] [sample_link ''house''],
      sample_doc ''d2'' ''category'' ''Categories/House.md'' ''House'' [] []]"

definition sample_validation :: validation where
  "sample_validation = \<lparr>errors = [], warnings = [], state_counts = [(''resolved'', 1)], unresolved_targets = []\<rparr>"

lemma sample_titles [simp]: "title_key ''Pump'' = ''pump''" "title_key ''House'' = ''house''" "title_key ''house'' = ''house''"
  by code_simp+

lemma sample_resolutions: "resolutions sample_docs ks =
    [(sample_docs ! 0, sample_link ''house'', target_document (sample_docs ! 1))]"
  by (simp add: resolutions_def sample_docs_def sample_doc_def sample_link_def resolve_link_def title_index_def
      target_document_def Let_def)

lemma sample_validated: "validate_documents sample_docs [] = Inr sample_validation"
proof -
  have ids: "foldE check_id sample_docs \<lparr>id_errors = [], ids_seen = []\<rparr> =
      Inr \<lparr>id_errors = [], ids_seen = [(YStr ''d1'', ''Pump.md''), (YStr ''d2'', ''Categories/House.md'')]\<rparr>"
    by (simp add: sample_docs_def sample_doc_def check_id_def)
  have titles: "title_errors sample_docs = []"
    by (simp add: title_errors_def title_paths_def sample_docs_def sample_doc_def)
  have cats: "concat (map (category_errors (category_keys sample_docs)) sample_docs) = []"
    by (simp add: category_errors_def category_keys_def sample_docs_def sample_doc_def)
  have warns: "concat (map doc_warnings sample_docs) = []"
    by (simp add: sample_docs_def sample_doc_def)
  show ?thesis
    unfolding validate_documents_def ids bindE_simps Let_def sample_resolutions titles cats warns
    by (simp add: labels_in_state_def target_document_def ambiguity_errors_def count_all_def count_one_def
        by_key_def most_common_def sample_validation_def)
qed

section \<open>Properties\<close>

text \<open>A validation without errors guarantees what the later stages rely on: the loader's own
checks of IDs and paths pass, titles are unique for each kind, every category assignment names a
category document, and no link is ambiguous.\<close>

theorem clean_vault_loads:
  assumes "validate_documents docs known = Inr v" "errors v = []" "distinct (map doc_path docs)"
  shows "validate_loadable docs = Inr ()
    \<and> distinct (map (\<lambda>d. (doc_kind d, title_key (doc_title d))) docs)
    \<and> list_all (\<lambda>d. list_all (\<lambda>a. title_key (cat_title a) \<in> set (category_keys docs)) (categories d)) docs
    \<and> list_all (\<lambda>(d, l, r). link_state r \<noteq> Ambiguous) (resolutions docs (map title_key known))"
  using assms by (rule clean_validation)

theorem clean_vault_loads_witness:
  "validate_documents sample_docs [] = Inr sample_validation \<and> errors sample_validation = []
     \<and> validate_loadable sample_docs = Inr ()"
proof -
  have "errors sample_validation = []" "distinct (map doc_path sample_docs)"
    by (simp_all add: sample_validation_def sample_docs_def sample_doc_def)
  with clean_vault_loads [OF sample_validated] sample_validated show ?thesis by blast
qed

text \<open>Loading the documents is, after its checks and the schema, one put of rows for each
relation, in order, and the counts of the manifest are the numbers of these rows and of the links in
each resolution state. The counts are computed from the documents and not from the rows.\<close>

theorem counts_equal_loaded_rows:
  assumes "validate_documents docs known = Inr v"
  shows "load_documents run docs known =
      bindM (liftM (validate_loadable docs)) (\<lambda>_.
      bindM (liftM (raiseIf (\<not> list_all plain_cells docs) (Unmodelled ''value without JSON form''))) (\<lambda>_.
      bindM (ensure_schema run) (\<lambda>_. eachM (\<lambda>(s, rows). put run s rows) (loaded_rows docs known))))
    \<and> list_all (\<lambda>(s, rows). map_of (counts_of docs v) (relation s) = Some (length rows)) (loaded_rows docs known)
    \<and> (\<forall>s. tally_of (counts_of docs v) (link_count_key (state_text s))
         = length (filter (\<lambda>(d, l, r). link_state r = s) (resolutions docs (map title_key known))))"
  by (intro conjI allI load_documents_puts counts_are_rows link_states_counted [OF assms])

theorem counts_equal_loaded_rows_witness:
  "tally_of (counts_of sample_docs sample_validation) (link_count_key ''resolved'') = 1
     \<and> validate_documents sample_docs [] = Inr sample_validation"
proof -
  have "tally_of (counts_of sample_docs sample_validation) (link_count_key (state_text Resolved))
      = length (filter (\<lambda>(d, l, r). link_state r = Resolved) (resolutions sample_docs (map title_key [])))"
    using counts_equal_loaded_rows [OF sample_validated] by blast
  then show ?thesis using sample_validated by (simp add: sample_resolutions target_document_def)
qed

lemma verify_stored:
  assumes "read_tables run s = (Inr T, s')" "check_tables manifest name T = Inr []"
    and "reachable_documents run s' = (Inr (Inl n), s'')" "didx manifest ''run_id'' = Inr i"
  shows "verify_build run manifest name now s =
    (Inr [(''schema_version'', JInt 1), (''run_id'', i), (''verified_at'', JStr now), (''valid'', JBool True),
      (''errors'', JList []), (''checks'', JObj [(''relations'', JList (map JStr (sorted_set (stored_relations T)))),
        (''counts'', counter_json (actual_counts T)), (''ai_context_reachable_documents'', n)])], s'')"
proof -
  have read: "bindM (read_tables run) f s = f T s'" for f :: "tables \<Rightarrow> ('a, exn, dict) prog"
    using assms(1) by (rule bindM_run)
  have reach: "bindM (reachable_documents run) f s' = f (Inl n) s''" for f :: "json + string \<Rightarrow> ('a, exn, dict) prog"
    using assms(3) by (rule bindM_run)
  show ?thesis
    unfolding verify_build_def
    by (simp only: read reach assms(2,4) bindM_liftM_Inr) (simp add: Let_def)
qed


definition sample_run_row :: row where
  "sample_run_row = [JStr ''r1'', JStr ''/v'', JStr ''f'', JStr ''g'', JStr ''ok'']"

definition sample_manifest :: dict where
  "sample_manifest =
     [(''run_id'', JStr ''r1''), (''vault_root'', JStr ''/v''), (''source_fingerprint'', JStr ''f''),
      (''logical_fingerprint'', JStr ''g''), (''ingestion_result'', JStr ''ok''),
      (''counts'', counter_json (counts_of sample_docs sample_validation))]"

text \<open>A client whose state is the list of the answers it will give.\<close>

definition answers :: "row list list client" where
  "answers q rows db = (Inr (hd db), tl db)"

definition sample_answers :: "row list list" where
  "sample_answers =
     (let T = stored_tables sample_docs [] sample_run_row
      in [map (\<lambda>n. [JStr n]) (stored_relations T), source_table T, knowledge_table T, category_table T,
          content_table T, tag_table T, assignment_table T, section_table T, link_table T, run_table T,
          [[JInt 2]]])"

lemma mapE_texts: "mapE (\<lambda>v. case v of JStr s \<Rightarrow> Inr s | _ \<Rightarrow> Inl e) (map JStr xs) = Inr xs"
  by (induction xs) simp_all

lemma mapE_names: "mapE (\<lambda>r. case r of [] \<Rightarrow> Inl e | n # _ \<Rightarrow> Inr n) (map (\<lambda>n. [JStr n]) xs) = Inr (map JStr xs)"
  by (induction xs) simp_all

lemma sample_read: "read_tables answers sample_answers = (Inr (stored_tables sample_docs [] sample_run_row), [[[JInt 2]]])"
  unfolding read_tables_def relation_texts_def relation_names_def sample_answers_def Let_def
  by (simp add: bindM_def answers_def mapE_names mapE_texts)

lemma sample_reach: "reachable_documents answers [[[JInt 2]]] = (Inr (Inl (JInt 2)), [])"
  by (simp add: reachable_documents_def catchM_def bindM_def answers_def)


text \<open>
  The hypothesis that no key is repeated cannot be dropped: a document that lists a tag twice counts
  two rows for the one that the relation keeps.
\<close>

lemma repeated_tag_fails_verification:
  "map_of (counts_of [(sample_docs ! 1)\<lparr>tags := [''pump'', ''pump'']\<rparr>] sample_validation) ''document_tag'' = Some 2
   \<and> length (tag_table (stored_tables [(sample_docs ! 1)\<lparr>tags := [''pump'', ''pump'']\<rparr>] [] sample_run_row)) = 1"
  by (simp add: counts_of_def sample_validation_def sample_docs_def sample_doc_def stored_tables_def tag_rows_def)

end
