(* ===== verification/Timestamps.thy ===== *)
theory Timestamps
  imports JsonText
begin

text \<open>
  \<open>datetime\<close> as the program uses it: instants in UTC, in microseconds since 1970, the ISO 8601 form
  that \<open>isoformat\<close> writes, and the reader \<open>fromisoformat\<close> on that form.

  The reader covers the extended form with seconds, an optional fraction of three or six digits and
  an optional offset. A text that does not begin with a year is a \<open>ValueError\<close>, as is a field out of
  range; the other forms of the standard, and years outside of 1970 to 2241 (beyond them two instants
  of a microsecond's distance can have the same \<open>timestamp()\<close>), are \<open>Unmodelled\<close>.
\<close>

section \<open>The calendar\<close>

definition leap_year :: "nat \<Rightarrow> bool" where
  "leap_year y \<longleftrightarrow> y mod 4 = 0 \<and> (y mod 100 \<noteq> 0 \<or> y mod 400 = 0)"

definition days_in_month :: "nat \<Rightarrow> nat \<Rightarrow> nat" where
  "days_in_month y m =
     (if m = 2 then (if leap_year y then 29 else 28)
      else if m \<in> {4, 6, 9, 11} then 30 else 31)"

definition days_in_year :: "nat \<Rightarrow> nat" where
  "days_in_year y = (if leap_year y then 366 else 365)"

lemma days_in_year_pos [termination_simp]: "\<not> n < days_in_year y \<Longrightarrow> n - days_in_year y < n"
  by (simp add: days_in_year_def split: if_splits)

text \<open>Days from the first of January of the year 1.\<close>

definition days_before_year :: "nat \<Rightarrow> nat" where
  "days_before_year y = (y - 1) * 365 + (y - 1) div 4 - (y - 1) div 100 + (y - 1) div 400"

definition days_before_month :: "nat \<Rightarrow> nat \<Rightarrow> nat" where
  "days_before_month y m = sum_list (map (days_in_month y) [1..<m])"

definition ordinal :: "nat \<Rightarrow> nat \<Rightarrow> nat \<Rightarrow> nat" where
  "ordinal y m d = days_before_year y + days_before_month y m + (d - 1)"

text \<open>The date of a day: count off the years, then the months.\<close>

fun month_of :: "nat \<Rightarrow> nat \<Rightarrow> nat list \<Rightarrow> nat \<times> nat" where
  "month_of y n [] = (12, n + 1)"
| "month_of y n (m # ms) =
     (if n < days_in_month y m then (m, n + 1) else month_of y (n - days_in_month y m) ms)"

fun date_from :: "nat \<Rightarrow> nat \<Rightarrow> nat \<times> nat \<times> nat" where
  "date_from y n =
     (if n < days_in_year y then (y, month_of y n [1..<13])
      else date_from (y + 1) (n - days_in_year y))"

declare date_from.simps [simp del]

definition date_of :: "nat \<Rightarrow> nat \<times> nat \<times> nat" where
  "date_of n =
     (let cycles = n div 146097 in case date_from 1 (n mod 146097) of (y, m, d) \<Rightarrow> (400 * cycles + y, m, d))"

section \<open>Instants\<close>

type_synonym instant = int

definition epoch_day :: nat where
  "epoch_day = ordinal 1970 1 1"

definition instant_of :: "nat \<Rightarrow> nat \<Rightarrow> nat \<Rightarrow> nat \<Rightarrow> nat \<Rightarrow> nat \<Rightarrow> nat \<Rightarrow> int \<Rightarrow> instant" where
  "instant_of y m d h mi s micro offset =
     (((int (ordinal y m d) - int epoch_day) * 86400 + int h * 3600 + int mi * 60 + int s - offset) * 1000000
      + int micro)"

definition two_digits :: "nat \<Rightarrow> string" where
  "two_digits n = [char_of (48 + n div 10), char_of (48 + n mod 10)]"

definition padded :: "nat \<Rightarrow> nat \<Rightarrow> string" where
  "padded k n = (let t = nat_dec n in replicate (k - length t) (CHR ''0'') @ t)"

text \<open>\<open>isoformat()\<close> of an instant in UTC.\<close>

definition iso_utc :: "instant \<Rightarrow> string" where
  "iso_utc t =
     (let micro = nat (t mod 1000000); seconds = t div 1000000; day = nat (seconds div 86400 + int epoch_day);
          s = nat (seconds mod 86400)
      in case date_of day of (y, m, d) \<Rightarrow>
           padded 4 y @ ''-'' @ two_digits m @ ''-'' @ two_digits d @ ''T'' @ two_digits (s div 3600) @ '':''
           @ two_digits (s div 60 mod 60) @ '':'' @ two_digits (s mod 60)
           @ (if micro = 0 then [] else ''.'' @ padded 6 micro) @ ''+00:00'')"

section \<open>Reading\<close>

datatype iso_reading = Aware instant | Naive | NotIso | OtherIso

definition all_digits :: "string \<Rightarrow> bool" where
  "all_digits s \<longleftrightarrow> list_all is_digit s"

text \<open>The offset: none, or \<open>+hh:mm\<close> in seconds.\<close>

definition read_offset :: "string \<Rightarrow> int option option" where
  "read_offset s =
     (case s of
        [] \<Rightarrow> Some None
      | [sign, a, b, colon, c, d] \<Rightarrow>
          if sign \<in> set ''+-'' \<and> colon = CHR '':'' \<and> all_digits [a, b, c, d] \<and> digits_value [c, d] < 60
          then Some (Some ((if sign = CHR ''-'' then -1 else 1)
            * (int (digits_value [a, b]) * 3600 + int (digits_value [c, d]) * 60)))
          else None
      | _ \<Rightarrow> None)"

definition read_fraction :: "string \<Rightarrow> (nat \<times> string) option" where
  "read_fraction s =
     (case s of
        (CHR ''.'') # t \<Rightarrow>
          (let f = takeWhile is_digit t; rest = dropWhile is_digit t
           in if length f = 3 then Some (digits_value f * 1000, rest)
              else if length f = 6 then Some (digits_value f, rest) else None)
      | _ \<Rightarrow> Some (0, s))"

text \<open>The shape \<open>YYYY-MM-DDThh:mm:ss\<close>, with a blank allowed for the \<open>T\<close>.\<close>

definition iso_shape :: "string \<Rightarrow> bool" where
  "iso_shape s \<longleftrightarrow> length s = 19
     \<and> list_all (\<lambda>i. is_digit (s ! i)) [0, 1, 2, 3, 5, 6, 8, 9, 11, 12, 14, 15, 17, 18]
     \<and> s ! 4 = CHR ''-'' \<and> s ! 7 = CHR ''-'' \<and> s ! 10 \<in> set ''T '' \<and> s ! 13 = CHR '':'' \<and> s ! 16 = CHR '':''"

definition date_in_range :: "nat \<Rightarrow> nat \<Rightarrow> nat \<Rightarrow> bool" where
  "date_in_range y m d \<longleftrightarrow> 1 \<le> y \<and> 1 \<le> m \<and> m \<le> 12 \<and> 1 \<le> d \<and> d \<le> days_in_month y m"

definition time_in_range :: "nat \<Rightarrow> nat \<Rightarrow> nat \<Rightarrow> bool" where
  "time_in_range h mi s \<longleftrightarrow> h < 24 \<and> mi < 60 \<and> s < 60"

definition offset_in_range :: "string \<Rightarrow> bool" where
  "offset_in_range s \<longleftrightarrow> s = [] \<or> digits_value (slice s 1 3) < 24"

definition fromisoformat :: "string \<Rightarrow> iso_reading" where
  "fromisoformat s =
     (if length s < 4 \<or> \<not> all_digits (take 4 s) then NotIso
      else if \<not> iso_shape (take 19 s) then OtherIso
      else (case read_fraction (drop 19 s) of
          None \<Rightarrow> OtherIso
        | Some (micro, tail) \<Rightarrow>
            (case read_offset tail of
               None \<Rightarrow> OtherIso
             | Some offset \<Rightarrow>
                 (let y = digits_value (slice s 0 4); m = digits_value (slice s 5 7); d = digits_value (slice s 8 10);
                      h = digits_value (slice s 11 13); mi = digits_value (slice s 14 16); sec = digits_value (slice s 17 19)
                  in if \<not> date_in_range y m d \<or> \<not> time_in_range h mi sec \<or> \<not> offset_in_range tail then NotIso
                     else if y < 1970 \<or> 2242 \<le> y then OtherIso
                     else (case offset of None \<Rightarrow> Naive | Some k \<Rightarrow> Aware (instant_of y m d h mi sec micro k))))))"

text \<open>\<open>value.replace("Z", "+00:00")\<close>.\<close>

definition replace_zulu :: "string \<Rightarrow> string" where
  "replace_zulu s = concat (map (\<lambda>c. if c = CHR ''Z'' then ''+00:00'' else [c]) s)"

end
