(* ===== verification/Notes.thy ===== *)
theory Notes
  imports Frontmatter Paths JsonRoundtrip Snapshot Timestamps
begin

text \<open>
  \<open>write_broker.py\<close>, the part without effects: the wire format of the write protocol, the checks
  of identities and request IDs, the normal form of a captured note, its file name and the Markdown
  text it is rendered to.

  NFKC normalisation is written out for the modelled code points; a character whose normal form has
  a code point above 255 is \<open>Unmodelled\<close>. A creation time is the form that \<open>isoformat\<close> with
  seconds writes; another form that \<open>fromisoformat\<close> reads is \<open>Unmodelled\<close>.
\<close>

section \<open>Limits\<close>

definition PROTOCOL :: string where "PROTOCOL = ''homeops.write/v1''"
definition MAX_REQUEST_BYTES :: nat where "MAX_REQUEST_BYTES = 128 * 1024"
definition MAX_RESPONSE_BYTES :: nat where "MAX_RESPONSE_BYTES = 64 * 1024"
definition MAX_TITLE_CHARS :: nat where "MAX_TITLE_CHARS = 160"
definition MAX_BODY_BYTES :: nat where "MAX_BODY_BYTES = 64 * 1024"
definition MAX_CATEGORIES :: nat where "MAX_CATEGORIES = 8"
definition MAX_CATEGORY_CHARS :: nat where "MAX_CATEGORY_CHARS = 120"
definition MAX_TAGS :: nat where "MAX_TAGS = 16"
definition MAX_TAG_CHARS :: nat where "MAX_TAG_CHARS = 64"
definition MAX_SUBJECT_CHARS :: nat where "MAX_SUBJECT_CHARS = 512"
definition MAX_CLIENT_ID_CHARS :: nat where "MAX_CLIENT_ID_CHARS = 512"
definition MAX_VALIDATION_ERRORS :: nat where "MAX_VALIDATION_ERRORS = 16"

section \<open>Wire format and identities\<close>

definition broker_json :: "json \<Rightarrow> string" where
  "broker_json v = utf8 (render escape_raw (\<lambda>_. []) [] 0 (jsort v) @ [CHR 0x0A])"

definition protocol_error :: "string \<Rightarrow> exn" where
  "protocol_error m = WriteBrokerProtocolError m"

definition has_control :: "string \<Rightarrow> bool" where
  "has_control s \<longleftrightarrow> list_ex (\<lambda>c. code_of c < 32) s"

definition validate_uuid4 :: "json \<Rightarrow> string \<Rightarrow> string res" where
  "validate_uuid4 value fld =
     (case value of
        JStr s \<Rightarrow> if length s = 36 \<and> is_uuid4 s then Inr s
          else Inl (protocol_error (fld @ '' must be a canonical UUIDv4''))
      | _ \<Rightarrow> Inl (protocol_error (fld @ '' must be a canonical UUIDv4'')))"

definition validate_identity :: "json \<Rightarrow> string \<Rightarrow> nat \<Rightarrow> string res" where
  "validate_identity value fld maximum =
     (case value of
        JStr s \<Rightarrow> if 1 \<le> length s \<and> length s \<le> maximum \<and> \<not> has_control s then Inr s
          else Inl (protocol_error (fld @ '' is invalid''))
      | _ \<Rightarrow> Inl (protocol_error (fld @ '' is invalid'')))"

definition fingerprint :: "(string \<Rightarrow> string) \<Rightarrow> string \<Rightarrow> string \<Rightarrow> string" where
  "fingerprint sha kind value = sha (utf8 (PROTOCOL @ [CHR 0x00] @ kind @ [CHR 0x00] @ value))"

definition same_vault_identity :: "dict \<Rightarrow> dict \<Rightarrow> bool" where
  "same_vault_identity first second =
     list_all (\<lambda>f. pyeq (dget first f) (dget second f))
       [''source_fingerprint'', ''artifact_fingerprint'', ''logical_fingerprint'']"

section \<open>Normalising a note\<close>

definition nfkc_char :: "char \<Rightarrow> char res" where
  "nfkc_char c =
     (let n = code_of c in
      if n = 160 then Inr (CHR '' '')
      else if n = 170 then Inr (CHR ''a'') else if n = 186 then Inr (CHR ''o'')
      else if n = 178 then Inr (CHR ''2'') else if n = 179 then Inr (CHR ''3'')
      else if n = 185 then Inr (CHR ''1'')
      else if n \<in> {168, 175, 180, 181, 184, 188, 189, 190} then Inl (Unmodelled ''NFKC above code point 255'')
      else Inr c)"

definition nfkc :: "string \<Rightarrow> string res" where
  "nfkc s = mapE nfkc_char s"

definition category_name :: "json \<Rightarrow> string res" where
  "category_name value =
     (case value of
        JStr s \<Rightarrow>
          bindE (nfkc s) (\<lambda>n.
          (let bare = strip n;
               cleaned = (if startswith bare ''[['' \<and> endswith bare '']]'' then strip (slice bare 2 (length bare - 2))
                          else bare)
           in if \<not> (1 \<le> length cleaned \<and> length cleaned \<le> MAX_CATEGORY_CHARS)
                \<or> list_ex (\<lambda>c. c \<in> set [CHR ''['', CHR '']'', CHR ''#'', CHR ''|'', CHR ''/'', CHR 0x5C]) cleaned
                \<or> has_control cleaned
              then Inl (protocol_error ''category name is invalid'') else Inr cleaned))
      | _ \<Rightarrow> Inl (protocol_error ''categories must contain strings''))"

text \<open>Names that are equal case-folded are kept once, at their first place.\<close>

type_synonym kept = "string list \<times> string list"

definition keep_name :: "string \<Rightarrow> kept \<Rightarrow> kept" where
  "keep_name name = (\<lambda>(names, seen). (names @ [name], seen @ [casefold name]))"

definition add_category :: "json \<Rightarrow> kept \<Rightarrow> kept res" where
  "add_category value st =
     bindE (category_name value) (\<lambda>category.
     Inr (if casefold category \<in> set (snd st) then st else keep_name category st))"

definition tag_char :: "char \<Rightarrow> bool" where
  "tag_char c \<longleftrightarrow> is_alnum c \<or> c \<in> set ''_./-''"

definition tag_pattern :: "string \<Rightarrow> bool" where
  "tag_pattern t \<longleftrightarrow> t \<noteq> [] \<and> is_alnum (hd t) \<and> list_all tag_char (tl t)"

definition mcp_capture :: string where
  "mcp_capture = ''mcp-capture''"

definition remove_hash :: "string \<Rightarrow> string" where
  "remove_hash s = (if startswith s ''#'' then drop 1 s else s)"

definition add_tag :: "json \<Rightarrow> kept \<Rightarrow> kept res" where
  "add_tag value st =
     (case value of
        JStr s \<Rightarrow>
          bindE (nfkc s) (\<lambda>n.
          (let tag = remove_hash (strip n)
           in bindE (raiseIf (\<not> (1 \<le> length tag \<and> length tag \<le> MAX_TAG_CHARS) \<or> \<not> tag_pattern tag)
                (protocol_error ''tag is invalid'')) (\<lambda>_.
              Inr (if casefold tag \<notin> set (snd st) \<and> casefold tag \<noteq> mcp_capture then keep_name tag st else st))))
      | _ \<Rightarrow> Inl (protocol_error ''tags must contain strings''))"

text \<open>\<open>\r\n\<close> and a single \<open>\r\<close> become \<open>\n\<close>.\<close>

fun unix_newlines :: "string \<Rightarrow> string" where
  "unix_newlines [] = []"
| "unix_newlines (c # s) =
     (if c \<noteq> CHR 0x0D then c # unix_newlines s
      else CHR 0x0A # (case s of [] \<Rightarrow> [] | d # t \<Rightarrow> if d = CHR 0x0A then unix_newlines t else unix_newlines (d # t)))"

definition normalize_title :: "json \<Rightarrow> string res" where
  "normalize_title raw =
     (case raw of
        JStr s \<Rightarrow>
          bindE (nfkc s) (\<lambda>n.
          (let title = strip n
           in if \<not> (1 \<le> length title \<and> length title \<le> MAX_TITLE_CHARS) \<or> has_control title
              then Inl (protocol_error ''title is invalid'') else Inr title))
      | _ \<Rightarrow> Inl (protocol_error ''title must be a string''))"

definition normalize_body :: "json \<Rightarrow> string res" where
  "normalize_body raw =
     (case raw of
        JStr s \<Rightarrow>
          (let body = strip (unix_newlines s)
           in if body = [] \<or> list_ex (\<lambda>c. code_of c < 32 \<and> c \<noteq> CHR 0x0A \<and> c \<noteq> CHR 0x09) body
                \<or> MAX_BODY_BYTES < length (utf8 body)
              then Inl (protocol_error ''body is empty, contains control characters, or exceeds the size limit'')
              else Inr body)
      | _ \<Rightarrow> Inl (protocol_error ''body must be a string''))"

definition normalize_categories :: "json \<Rightarrow> string list res" where
  "normalize_categories raw =
     (case raw of
        JList vs \<Rightarrow>
          if 1 \<le> length vs \<and> length vs \<le> MAX_CATEGORIES
          then bindE (foldE add_category vs ([], [])) (\<lambda>st. Inr (fst st))
          else Inl (protocol_error (''categories must contain between 1 and '' @ nat_dec MAX_CATEGORIES @ '' entries''))
      | _ \<Rightarrow> Inl (protocol_error (''categories must contain between 1 and '' @ nat_dec MAX_CATEGORIES @ '' entries'')))"

definition normalize_tags :: "json \<Rightarrow> string list res" where
  "normalize_tags raw =
     (case raw of
        JList vs \<Rightarrow>
          if MAX_TAGS < length vs then Inl (protocol_error (''tags must contain at most '' @ nat_dec MAX_TAGS @ '' entries''))
          else bindE (foldE add_tag vs ([], [])) (\<lambda>st.
            bindE (raiseIf (MAX_TAGS \<le> length (fst st))
              (protocol_error (''tags must contain at most '' @ nat_dec (MAX_TAGS - 1) @ '' non-mcp entries''))) (\<lambda>_.
            Inr (fst st @ [mcp_capture])))
      | _ \<Rightarrow> Inl (protocol_error (''tags must contain at most '' @ nat_dec MAX_TAGS @ '' entries'')))"

definition note_fields :: "string list" where
  "note_fields = [''title'', ''body'', ''categories'', ''tags'']"

definition note_json :: "string \<Rightarrow> string \<Rightarrow> string list \<Rightarrow> string list \<Rightarrow> dict" where
  "note_json title body cats tags =
     [(''title'', JStr title), (''body'', JStr body), (''categories'', JList (map JStr cats)),
      (''tags'', JList (map JStr tags))]"

definition normalize_note :: "json \<Rightarrow> dict res" where
  "normalize_note raw =
     bindE (raiseIf (\<not> is_obj raw \<or> \<not> same_fields (obj_of raw) note_fields)
       (protocol_error ''note has an invalid shape'')) (\<lambda>_.
     bindE (normalize_title (dget (obj_of raw) ''title'')) (\<lambda>title.
     bindE (normalize_body (dget (obj_of raw) ''body'')) (\<lambda>body.
     bindE (normalize_categories (dget (obj_of raw) ''categories'')) (\<lambda>cats.
     bindE (normalize_tags (dget (obj_of raw) ''tags'')) (\<lambda>tags.
     Inr (note_json title body cats tags))))))"

section \<open>The file name\<close>

definition invalid_filename_char :: "char \<Rightarrow> bool" where
  "invalid_filename_char c \<longleftrightarrow> code_of c < 32
     \<or> c \<in> set [CHR ''<'', CHR ''>'', CHR '':'', CHR 0x22, CHR ''/'', CHR 0x5C, CHR ''|'', CHR ''?'', CHR ''*'']"

text \<open>\<open>re.sub(r"\s+", " ", s)\<close>.\<close>

fun squeeze_blanks :: "string \<Rightarrow> string" where
  "squeeze_blanks [] = []"
| "squeeze_blanks (c # s) =
     (if \<not> is_space c then c # squeeze_blanks s
      else (case s of [] \<Rightarrow> '' '' | d # t \<Rightarrow> if is_space d then squeeze_blanks s else CHR '' '' # squeeze_blanks s))"

definition strip_set :: "string \<Rightarrow> string \<Rightarrow> string" where
  "strip_set cs s = rstrip_set cs (dropWhile (\<lambda>c. c \<in> set cs) s)"

definition trim_chars :: string where
  "trim_chars = '' .-''"

lemma length_rstrip_set: "length (rstrip_set cs s) \<le> length s"
  using length_dropWhile_le [of "\<lambda>c. c \<in> set cs" "rev s"] by (simp add: rstrip_set_def)

text \<open>The loop that shortens the name until its UTF-8 form has at most 120 bytes.\<close>

function shorten :: "string \<Rightarrow> string" where
  "shorten cleaned =
     (if 120 < length (utf8 cleaned) then shorten (rstrip_set trim_chars (butlast cleaned)) else cleaned)"
  by pat_completeness auto
termination
proof (relation "measure length")
  fix cleaned :: string
  assume "120 < length (utf8 cleaned)"
  then have "cleaned \<noteq> []" by (auto simp: utf8_def)
  then show "(rstrip_set trim_chars (butlast cleaned), cleaned) \<in> measure length"
    using length_rstrip_set [of trim_chars "butlast cleaned"] by (cases cleaned rule: rev_cases) simp_all
qed simp

declare shorten.simps [simp del]

definition safe_filename_title :: "string \<Rightarrow> string" where
  "safe_filename_title title =
     (let cleaned = strip_set trim_chars
            (squeeze_blanks (map (\<lambda>c. if invalid_filename_char c then CHR ''-'' else c) title));
          short = shorten (if cleaned = [] then ''Untitled'' else cleaned)
      in if short = [] then ''Untitled'' else short)"

definition capture_target :: "string \<Rightarrow> string \<Rightarrow> string" where
  "capture_target title rid = ''Capture - '' @ safe_filename_title title @ '' - '' @ take 8 rid @ ''.md''"

section \<open>The rendered note\<close>

text \<open>The form \<open>YYYY-MM-DDThh:mm:ss+hh:mm\<close>, with a four-digit year from 1000 on.\<close>

definition iso_seconds :: "string \<Rightarrow> bool" where
  "iso_seconds s \<longleftrightarrow>
     length s = 25
     \<and> list_all (\<lambda>i. is_digit (s ! i)) [0, 1, 2, 3, 5, 6, 8, 9, 11, 12, 14, 15, 17, 18, 20, 21, 23, 24]
     \<and> list_all (\<lambda>(i, c). s ! i = c) [(4, CHR ''-''), (7, CHR ''-''), (10, CHR ''T''), (13, CHR '':''),
         (16, CHR '':''), (22, CHR '':'')]
     \<and> s ! 19 \<in> set ''+-''
     \<and> (let y = digits_value (take 4 s); m = digits_value (slice s 5 7); d = digits_value (slice s 8 10)
        in 1000 \<le> y \<and> 1 \<le> m \<and> m \<le> 12 \<and> 1 \<le> d \<and> d \<le> days_in_month y m)
     \<and> digits_value (slice s 11 13) < 24 \<and> digits_value (slice s 14 16) < 60 \<and> digits_value (slice s 17 19) < 60
     \<and> digits_value (slice s 20 22) < 24 \<and> digits_value (slice s 23 25) < 60"

text \<open>\<open>fromisoformat\<close> and then \<open>strftime("%Y-%m-%d,%H:%M")\<close>, \<open>strftime("%Y-%m-%d")\<close>.\<close>

definition created_texts :: "json \<Rightarrow> (string \<times> string) res" where
  "created_texts v =
     (case v of
        JStr s \<Rightarrow> if iso_seconds s then Inr (take 10 s @ '','' @ slice s 11 16, take 10 s)
          else Inl (Unmodelled ''another ISO 8601 form'')
      | _ \<Rightarrow> Inl (TypeError ''fromisoformat: argument must be str''))"

fun yaml_of_json :: "json \<Rightarrow> yaml" where
  "yaml_of_json JNull = YNull"
| "yaml_of_json (JBool b) = YBool b"
| "yaml_of_json (JInt i) = YInt i"
| "yaml_of_json (JStr s) = YStr s"
| "yaml_of_json (JList xs) = YList (map yaml_of_json xs)"
| "yaml_of_json (JObj d) = YMap (map (\<lambda>p. (YStr (fst p), yaml_of_json (snd p))) d)"

text \<open>A value in an f-string; stored intents have strings there.\<close>

definition formatted :: "json \<Rightarrow> string res" where
  "formatted v = (case v of JStr s \<Rightarrow> Inr s | _ \<Rightarrow> Inl (Unmodelled ''str() of a stored value''))"

definition stored_categories :: "json \<Rightarrow> string list res" where
  "stored_categories v =
     (case v of JList vs \<Rightarrow> mapE formatted vs | _ \<Rightarrow> Inl (Unmodelled ''iteration over a stored value''))"

definition capture_document :: "dict \<Rightarrow> markdown_document res" where
  "capture_document intent =
     bindE (didx intent ''note'') (\<lambda>note.
     bindE (didx intent ''created_at'') (\<lambda>made.
     bindE (created_texts made) (\<lambda>(date, updated).
     bindE (didx intent ''document_id'') (\<lambda>i.
     bindE (jidx note ''categories'') (\<lambda>cs.
     bindE (stored_categories cs) (\<lambda>cats.
     bindE (jidx note ''tags'') (\<lambda>ts.
     bindE (didx intent ''request_id'') (\<lambda>rid.
     bindE (jidx note ''title'') (\<lambda>t.
     bindE (formatted t) (\<lambda>title.
     bindE (jidx note ''body'') (\<lambda>b.
     bindE (formatted b) (\<lambda>text.
     Inr \<lparr>frontmatter =
         [(YStr ''id'', yaml_of_json i), (YStr ''categories'', YList (map (\<lambda>c. YStr (''[['' @ c @ '']]'')) cats)),
          (YStr ''tags'', yaml_of_json ts), (YStr ''date'', YStr date), (YStr ''type'', YStr ''reference''),
          (YStr ''status'', YStr ''current''), (YStr ''updated'', YStr updated),
          (YStr ''authority'', YStr ''supporting''), (YStr ''mcp_request_id'', yaml_of_json rid)],
       md_body = [CHR 0x0A] @ ''# '' @ title @ [CHR 0x0A, CHR 0x0A] @ text @ [CHR 0x0A],
       had_frontmatter = True\<rparr>))))))))))))"

definition render_capture :: "yaml_lib \<Rightarrow> dict \<Rightarrow> string res" where
  "render_capture Y intent = bindE (capture_document intent) (\<lambda>d. Inr (utf8 (render_markdown Y d)))"

section \<open>The client\<close>

text \<open>
  \<open>exchange\<close> stands for the Unix socket: what the server answers to a frame, or that it cannot be
  reached. The client reads at most one byte more than it accepts.
\<close>

definition unavailable :: exn where
  "unavailable = WriteBrokerError ''write broker is unavailable''"

definition invalid_response :: exn where
  "invalid_response = WriteBrokerError ''write broker returned an invalid response''"

definition client_request :: "(string \<Rightarrow> string res) \<Rightarrow> dict \<Rightarrow> dict res" where
  "client_request exchange payload =
     (let frame = broker_json (JObj payload)
      in bindE (raiseIf (MAX_REQUEST_BYTES < length frame)
           (WriteBrokerError ''write request exceeds the broker limit'')) (\<lambda>_.
         bindE (rewrap is_os_error (\<lambda>_. unavailable) (exchange frame)) (\<lambda>answer.
         (let response = take (MAX_RESPONSE_BYTES + 1) answer
          in bindE (raiseIf (response = [] \<or> MAX_RESPONSE_BYTES < length response) invalid_response) (\<lambda>_.
             bindE (rewrap is_json_error (\<lambda>_. invalid_response) (json_loads_bytes response)) (\<lambda>parsed.
             if is_obj parsed \<and> pyeq (dget (obj_of parsed) ''schema_version'') (JInt 1)
               \<and> pyeq (dget (obj_of parsed) ''protocol'') (JStr PROTOCOL)
               \<and> is_str (dget (obj_of parsed) ''outcome'')
             then Inr (obj_of parsed) else Inl invalid_response)))))) "

definition actor_json :: "string \<Rightarrow> string \<Rightarrow> json" where
  "actor_json subject client_id = JObj [(''subject'', JStr subject), (''client_id'', JStr client_id)]"

definition capture_request :: "string \<Rightarrow> string \<Rightarrow> string \<Rightarrow> string \<Rightarrow> string \<Rightarrow> string list \<Rightarrow> string list \<Rightarrow> dict" where
  "capture_request request_id subject client_id title body cats tags =
     [(''schema_version'', JInt 1), (''protocol'', JStr PROTOCOL), (''operation'', JStr ''capture_note''),
      (''request_id'', JStr request_id), (''actor'', actor_json subject client_id),
      (''note'', JObj (note_json title body cats tags))]"

definition status_request :: "string \<Rightarrow> string \<Rightarrow> string \<Rightarrow> dict" where
  "status_request request_id subject client_id =
     [(''schema_version'', JInt 1), (''protocol'', JStr PROTOCOL), (''operation'', JStr ''write_status''),
      (''request_id'', JStr request_id), (''actor'', actor_json subject client_id)]"

end
