(* ===== verification/WriteBroker.thy ===== *)
theory WriteBroker
  imports Notes Verifier
begin

text \<open>
  \<open>write_broker.py\<close>, the broker: durable intents and results, the capture of a note into the vault
  and the request handler.

  Other programs edit the vault while the broker works. \<open>others E k\<close> is what they have done to
  the world by the time the broker reaches its \<open>k\<close>-th access of the vault; it is arbitrary, so a
  statement about every \<open>E\<close> is one about every interleaving. An exclusive write is two steps, the
  creation of the empty file and the write of its content: a process that dies in between leaves
  the empty file, and one that dies within the write leaves a prefix, which no more parses as the
  document than the empty file does. Permission bits, the socket itself and its set-up are not
  modelled.
\<close>

section \<open>Environment\<close>

record broker_env =
  sha_of :: "string \<Rightarrow> string"
  lib :: parsers
  others :: "nat \<Rightarrow> world \<Rightarrow> world"
  fresh :: "nat \<Rightarrow> string"
  local_now :: "nat \<Rightarrow> string"

record broker =
  vault_root :: path
  state_dir :: path
  allowed_subjects :: "string list"

text \<open>\<open>uuid.uuid4()\<close> (also the random part of a temporary name) and the local time.\<close>

definition fresh_name :: "broker_env \<Rightarrow> string wprog" where
  "fresh_name E w = (Inr (fresh E (ticks w)), w\<lparr>ticks := Suc (ticks w)\<rparr>)"

definition now_text :: "broker_env \<Rightarrow> string wprog" where
  "now_text E w = (Inr (local_now E (ticks w)), w\<lparr>ticks := Suc (ticks w)\<rparr>)"

definition meanwhile :: "broker_env \<Rightarrow> nat \<Rightarrow> unit wprog" where
  "meanwhile E k = modifyM (others E k)"

definition inspect :: "broker_env \<Rightarrow> path \<Rightarrow> dict wprog" where
  "inspect E root = askM (\<lambda>w. validation_report (sha_of E) (lib E) w root)"

text \<open>\<open>except (OSError, ValueError)\<close>.\<close>

definition unreadable :: "exn \<Rightarrow> bool" where
  "unreadable e \<longleftrightarrow> is_os_error e \<or> is_value_error e"

text \<open>\<open>try: x = m except caught: return alternative\<close>, and then the rest of the function.\<close>

definition attempt :: "(exn \<Rightarrow> bool) \<Rightarrow> 'a wprog \<Rightarrow> ('a \<Rightarrow> 'b wprog) \<Rightarrow> (exn \<Rightarrow> 'b wprog) \<Rightarrow> 'b wprog" where
  "attempt caught m rest alternative w =
     (case m w of
        (Inr x, w') \<Rightarrow> rest x w'
      | (Inl e, w') \<Rightarrow> if caught e then alternative e w' else (Inl e, w'))"

section \<open>Broker files\<close>

definition broker_error :: "string \<Rightarrow> exn" where
  "broker_error m = WriteBrokerError m"

definition read_bounded_regular :: "world \<Rightarrow> path \<Rightarrow> nat \<Rightarrow> string res" where
  "read_bounded_regular w p maximum =
     (case lstat w p of
        Some (File c) \<Rightarrow>
          if 0 < length c \<and> length c \<le> maximum then Inr c else Inl (broker_error ''broker state is invalid'')
      | Some Dir \<Rightarrow> Inl (broker_error ''broker state is invalid'')
      | _ \<Rightarrow> Inl (broker_error ''broker state is unavailable''))"

definition load_broker_json :: "world \<Rightarrow> path \<Rightarrow> nat \<Rightarrow> dict res" where
  "load_broker_json w p maximum =
     bindE (rewrap is_json_error (\<lambda>_. broker_error ''broker state is invalid'')
       (bindE (read_bounded_regular w p maximum) json_loads_bytes)) (\<lambda>value.
     case value of JObj d \<Rightarrow> Inr d | _ \<Rightarrow> Inl (broker_error ''broker state is invalid''))"

text \<open>\<open>open(O_WRONLY | O_CREAT | O_EXCL)\<close>.\<close>

definition create_new :: "path \<Rightarrow> unit wprog" where
  "create_new p w =
     (if lexists w p then (Inl (FileExistsError (''already exists: '' @ path_text p)), w)
      else if \<not> is_dir w (butlast p) then (Inl (OSError (''no such directory: '' @ path_text (butlast p))), w)
      else put_file p [] w)"

definition write_exclusive :: "path \<Rightarrow> string \<Rightarrow> unit wprog" where
  "write_exclusive p c =
     bindM (create_new p) (\<lambda>_.
     bindM (catchM (put_file p c)
       (\<lambda>e. if e = Crash then None else Some (bindM (unlink_quietly p) (\<lambda>_. raiseM e)))) (\<lambda>_.
     fsync_path (butlast p)))"

definition requests_dir :: "broker \<Rightarrow> path" where "requests_dir b = state_dir b @ [''requests'']"
definition results_dir :: "broker \<Rightarrow> path" where "results_dir b = state_dir b @ [''results'']"
definition staging_dir :: "broker \<Rightarrow> path" where "staging_dir b = state_dir b @ [''staging'']"

definition request_path :: "broker \<Rightarrow> string \<Rightarrow> path" where
  "request_path b rid = requests_dir b @ [rid @ ''.json'']"

definition result_path :: "broker \<Rightarrow> string \<Rightarrow> path" where
  "result_path b rid = results_dir b @ [rid @ ''.json'']"

section \<open>Opening a broker\<close>

definition validate_real_directory :: "world \<Rightarrow> path \<Rightarrow> string \<Rightarrow> path res" where
  "validate_real_directory w p name =
     bindE (raiseIf (\<not> lexists w p) (WriteBrokerConfigurationError (''cannot inspect '' @ name))) (\<lambda>_.
     bindE (raiseIf (lstat w p \<noteq> Some Dir)
       (WriteBrokerConfigurationError (name @ '' must be a real directory''))) (\<lambda>_.
     bindE (raiseIf (through_link w p) (Unmodelled ''target of a symbolic link'')) (\<lambda>_. Inr p)))"

definition ensure_private_directory :: "path \<Rightarrow> unit wprog" where
  "ensure_private_directory p =
     bindM (make_dirs p) (\<lambda>_. bindM (askM (\<lambda>w. validate_real_directory w p ''state directory'')) (\<lambda>_. retM ()))"

definition open_broker_lock :: "path \<Rightarrow> unit wprog" where
  "open_broker_lock p w =
     (case lstat w p of
        None \<Rightarrow> put_file p [] w
      | Some (File c) \<Rightarrow> (Inr (), w)
      | _ \<Rightarrow> (Inl (OSError (''cannot open '' @ path_text p)), w))"

definition open_broker :: "path \<Rightarrow> path \<Rightarrow> string list \<Rightarrow> broker wprog" where
  "open_broker vault state subjects =
     bindM (askM (\<lambda>w. validate_real_directory w vault ''vault root'')) (\<lambda>v.
     bindM (askM (\<lambda>w. validate_real_directory w state ''state directory'')) (\<lambda>s.
     bindM (liftM (raiseIf (s = v \<or> below v s \<or> below s v)
       (WriteBrokerConfigurationError ''write-broker state must be outside the synced vault''))) (\<lambda>_.
     bindM (liftM (raiseIf (subjects = [] \<or> 16 < length subjects)
       (WriteBrokerConfigurationError ''between 1 and 16 write subjects must be configured''))) (\<lambda>_.
     bindM (liftM (rewrap (\<lambda>e. case e of WriteBrokerProtocolError m \<Rightarrow> True | _ \<Rightarrow> False)
         (\<lambda>e. WriteBrokerConfigurationError (exn_text e))
         (mapE (\<lambda>x. validate_identity (JStr x) ''write subject'' MAX_SUBJECT_CHARS) subjects))) (\<lambda>allowed.
     bindM (liftM (raiseIf (\<not> distinct allowed)
       (WriteBrokerConfigurationError ''write subjects must be unique''))) (\<lambda>_.
     (let b = \<lparr>vault_root = v, state_dir = s, allowed_subjects = allowed\<rparr>
      in bindM (ensure_private_directory (requests_dir b)) (\<lambda>_.
         bindM (ensure_private_directory (results_dir b)) (\<lambda>_.
         bindM (ensure_private_directory (staging_dir b)) (\<lambda>_.
         bindM (open_broker_lock (state_dir b @ [''broker.lock''])) (\<lambda>_.
         retM b)))))))))))"

definition with_lock :: "broker \<Rightarrow> 'a wprog \<Rightarrow> 'a wprog" where
  "with_lock b body =
     (let p = state_dir b @ [''broker.lock'']
      in bindM (acquire p False True (OSError ''lock'')) (\<lambda>_. finallyM body (release p False)))"

section \<open>Responses and results\<close>

definition response :: "string \<Rightarrow> dict \<Rightarrow> dict" where
  "response outcome fs =
     [(''schema_version'', JInt 1), (''protocol'', JStr PROTOCOL), (''outcome'', JStr outcome)] @ fs"

definition not_found :: "string \<Rightarrow> dict" where
  "not_found rid = response ''NOT_FOUND'' [(''request_id'', JStr rid)]"

definition rejected :: "json \<Rightarrow> string \<Rightarrow> dict \<Rightarrow> dict" where
  "rejected rid text more_fields =
     response ''REJECTED'' ([(''request_id'', rid), (''retryable'', JBool False), (''message'', JStr text)] @ more_fields)"

definition stored_result :: "world \<Rightarrow> broker \<Rightarrow> string \<Rightarrow> dict option res" where
  "stored_result w b rid =
     (if \<not> exists_path w (result_path b rid) then Inr None
      else bindE (load_broker_json w (result_path b rid) MAX_RESPONSE_BYTES) (\<lambda>result.
        bindE (raiseIf (\<not> pyeq (dget result ''schema_version'') (JInt 1)
            \<or> \<not> pyeq (dget result ''protocol'') (JStr PROTOCOL)
            \<or> \<not> pyeq (dget result ''request_id'') (JStr rid))
          (broker_error ''broker result state is invalid'')) (\<lambda>_.
        Inr (Some result))))"

definition publish_result :: "broker \<Rightarrow> dict \<Rightarrow> dict wprog" where
  "publish_result b result =
     (let rid = str_of (dget result ''request_id'')
      in attempt (\<lambda>e. case e of FileExistsError m \<Rightarrow> True | _ \<Rightarrow> False)
           (write_exclusive (result_path b rid) (broker_json (JObj result)))
           (\<lambda>_. retM result)
           (\<lambda>_. bindM (askM (\<lambda>w. stored_result w b rid)) (\<lambda>existing.
              case existing of
                Some old \<Rightarrow> if pyeq (JObj old) (JObj result) then retM old
                  else raiseM (broker_error ''broker result state conflicts'')
              | None \<Rightarrow> raiseM (broker_error ''broker result state conflicts''))))"

definition item_text :: "dict \<Rightarrow> string \<Rightarrow> string \<Rightarrow> nat \<Rightarrow> json" where
  "item_text item k fallback limit =
     JStr (take limit (text_of (case map_of item k of None \<Rightarrow> JStr fallback | Some v \<Rightarrow> v)))"

definition validation_errors :: "dict \<Rightarrow> json list" where
  "validation_errors inspected =
     map (\<lambda>v. JObj [(''code'', item_text (obj_of v) ''code'' ''validation-error'' 128),
         (''source_path'', item_text (obj_of v) ''source_path'' [] 512),
         (''message'', item_text (obj_of v) ''message'' ''validation failed'' 1024)])
       (filter is_obj (take MAX_VALIDATION_ERRORS
         (list_of (dget (obj_of (dget inspected ''validation'')) ''errors''))))"

definition pending :: "dict \<Rightarrow> string \<Rightarrow> dict res" where
  "pending intent state =
     bindE (didx intent ''request_id'') (\<lambda>rid.
     bindE (didx intent ''document_id'') (\<lambda>doc.
     bindE (didx intent ''target'') (\<lambda>target.
     Inr (response ''ACCEPTED'' [(''request_id'', rid), (''retryable'', JBool True), (''state'', JStr state),
       (''document_id'', doc), (''source_path'', target)]))))"

definition applied :: "dict \<Rightarrow> dict \<Rightarrow> string \<Rightarrow> bool \<Rightarrow> bool \<Rightarrow> dict res" where
  "applied intent inspected now recovered changed =
     bindE (didx intent ''request_id'') (\<lambda>rid.
     bindE (didx intent ''document_id'') (\<lambda>doc.
     bindE (didx intent ''target'') (\<lambda>target.
     bindE (didx intent ''content_sha256'') (\<lambda>h.
     bindE (didx inspected ''source_fingerprint'') (\<lambda>f.
     Inr (response ''APPLIED'' [(''request_id'', rid), (''retryable'', JBool False), (''document_id'', doc),
       (''source_path'', target), (''content_sha256'', h), (''source_fingerprint'', f),
       (''applied_at'', JStr now), (''recovered'', JBool recovered),
       (''concurrent_source_change'', JBool changed)]))))))"

definition publish_applied :: "broker_env \<Rightarrow> broker \<Rightarrow> dict \<Rightarrow> dict \<Rightarrow> bool \<Rightarrow> bool \<Rightarrow> bool \<Rightarrow> dict wprog" where
  "publish_applied E b intent inspected recovered idempotent changed =
     bindM (now_text E) (\<lambda>now.
     bindM (liftM (applied intent inspected now recovered changed)) (\<lambda>result.
     bindM (publish_result b result) (\<lambda>stored.
     retM (dput stored ''idempotent'' (JBool idempotent)))))"

section \<open>Publishing a note\<close>

text \<open>The link call creates the name only if nothing has it.\<close>

definition link_new :: "path \<Rightarrow> string \<Rightarrow> unit wprog" where
  "link_new p c w =
     (if lexists w p then (Inl (FileExistsError (''already exists: '' @ path_text p)), w)
      else durable (AList.update p (File c)) w)"

definition partial_name :: "string \<Rightarrow> string" where
  "partial_name u = ''.'' @ u @ ''.homeops-partial''"

definition publish_note :: "broker_env \<Rightarrow> broker \<Rightarrow> string \<Rightarrow> string \<Rightarrow> unit wprog" where
  "publish_note E b target content =
     bindM (failIf (\<lambda>w. lstat w (vault_root b) \<noteq> Some Dir)
       (OSError (''cannot open '' @ path_text (vault_root b)))) (\<lambda>_.
     bindM (fresh_name E) (\<lambda>u.
     (let temporary = vault_root b @ [partial_name u]
      in finallyDo
           (bindM (create_new temporary) (\<lambda>_.
            bindM (put_file temporary content) (\<lambda>_.
            bindM (link_new (vault_root b @ [target]) content) (\<lambda>_.
            fsync_path (vault_root b)))))
           (bindM (getsM (\<lambda>w. lexists w temporary)) (\<lambda>there.
            whenM there (bindM (unlink temporary) (\<lambda>_. fsync_path (vault_root b))))))))"

section \<open>Processing an intent\<close>

definition valid_target :: "json \<Rightarrow> bool" where
  "valid_target v = (case v of JStr t \<Rightarrow> name_of t = t \<and> endswith t ''.md'' | _ \<Rightarrow> False)"

text \<open>The content and the target of an intent, both checked.\<close>

definition intent_content :: "broker_env \<Rightarrow> dict \<Rightarrow> (string \<times> string) res" where
  "intent_content E intent =
     bindE (render_capture (yaml_of (lib E)) intent) (\<lambda>content.
     bindE (raiseIf (\<not> pyeq (dget intent ''content_sha256'') (JStr (sha_of E content)))
       (broker_error ''broker intent content is invalid'')) (\<lambda>_.
     bindE (raiseIf (\<not> valid_target (dget intent ''target''))
       (broker_error ''broker intent target is invalid'')) (\<lambda>_.
     Inr (content, str_of (dget intent ''target'')))))"

definition lstat_there :: "world \<Rightarrow> path \<Rightarrow> bool res" where
  "lstat_there w p =
     (if lexists w p then Inr True
      else if lexists w (butlast p) \<and> \<not> is_dir w (butlast p) then Inl (OSError (''cannot inspect '' @ path_text p))
      else Inr False)"

definition present_content :: "world \<Rightarrow> path \<Rightarrow> string res" where
  "present_content w p =
     (case read_bounded_regular w p MAX_REQUEST_BYTES of
        Inl (WriteBrokerError m) \<Rightarrow> Inr [] | r \<Rightarrow> r)"

text \<open>The target exists: it is the note of an earlier attempt, or another file.\<close>

definition recover_note :: "broker_env \<Rightarrow> broker \<Rightarrow> dict \<Rightarrow> string \<Rightarrow> string \<Rightarrow> dict wprog" where
  "recover_note E b intent content target =
     bindM (askM (\<lambda>w. present_content w (vault_root b @ [target]))) (\<lambda>existing.
     if existing \<noteq> content then
       publish_result b (rejected (dget intent ''request_id'') ''capture target already exists with different content'' [])
     else
       bindM (meanwhile E 1) (\<lambda>_.
       attempt unreadable (inspect E (vault_root b))
         (\<lambda>inspected.
            if validation_errors inspected \<noteq> [] then liftM (pending intent ''waiting-for-valid-vault'')
            else publish_applied E b intent inspected True True False)
         (\<lambda>_. liftM (pending intent ''waiting-for-readable-vault''))))"

text \<open>The vault with the new note, staged in a private directory and inspected there.\<close>

definition stage_candidate :: "broker_env \<Rightarrow> broker \<Rightarrow> string \<Rightarrow> string \<Rightarrow> string \<Rightarrow> dict option wprog" where
  "stage_candidate E b rid target content =
     bindM (fresh_name E) (\<lambda>suffix.
     (let temporary = staging_dir b @ [rid @ ''.'' @ suffix]; candidate = temporary @ [''vault'']
      in bindM (make_dir temporary) (\<lambda>_.
         finallyDo
           (attempt unreadable
             (bindM (meanwhile E 2) (\<lambda>_.
              bindM (fresh_name E) (\<lambda>u.
              bindM (export_snapshot u (vault_root b) candidate) (\<lambda>_.
              bindM (put_file (candidate @ [target]) content) (\<lambda>_.
              inspect E candidate)))))
             (\<lambda>i. retM (Some i)) (\<lambda>_. retM None))
           (remove_tree temporary))))"

definition changed_by_others :: "broker_env \<Rightarrow> broker \<Rightarrow> dict \<Rightarrow> bool wprog" where
  "changed_by_others E b candidate =
     bindM (meanwhile E 5) (\<lambda>_.
     attempt unreadable (inspect E (vault_root b))
       (\<lambda>published. retM (validation_errors published \<noteq> [] \<or> \<not> same_vault_identity published candidate))
       (\<lambda>_. retM True))"

definition publish_checked ::
  "broker_env \<Rightarrow> broker \<Rightarrow> dict \<Rightarrow> string \<Rightarrow> string \<Rightarrow> dict \<Rightarrow> dict \<Rightarrow> bool \<Rightarrow> dict wprog" where
  "publish_checked E b intent content target baseline candidate idempotent =
     bindM (meanwhile E 3) (\<lambda>_.
     attempt unreadable (inspect E (vault_root b))
       (\<lambda>before.
          if \<not> same_vault_identity before baseline \<or> validation_errors before \<noteq> []
          then liftM (pending intent ''waiting-for-stable-vault'')
          else
            bindM (meanwhile E 4) (\<lambda>_.
            attempt is_os_error (publish_note E b target content)
              (\<lambda>_. bindM (changed_by_others E b candidate) (\<lambda>changed.
                 publish_applied E b intent candidate False idempotent changed))
              (\<lambda>e. liftM (pending intent (case e of
                  FileExistsError m \<Rightarrow> ''waiting-for-stable-vault'' | _ \<Rightarrow> ''waiting-for-writable-vault'')))))
       (\<lambda>_. liftM (pending intent ''waiting-for-stable-vault'')))"

definition capture_into_vault :: "broker_env \<Rightarrow> broker \<Rightarrow> dict \<Rightarrow> string \<Rightarrow> string \<Rightarrow> bool \<Rightarrow> dict wprog" where
  "capture_into_vault E b intent content target idempotent =
     bindM (meanwhile E 1) (\<lambda>_.
     attempt unreadable (inspect E (vault_root b))
       (\<lambda>baseline.
          if validation_errors baseline \<noteq> [] then liftM (pending intent ''waiting-for-valid-vault'')
          else
            bindM (stage_candidate E b (str_of (dget intent ''request_id'')) target content) (\<lambda>staged.
            case staged of
              None \<Rightarrow> liftM (pending intent ''waiting-for-stable-vault'')
            | Some candidate \<Rightarrow>
                if validation_errors candidate \<noteq> [] then
                  publish_result b (rejected (dget intent ''request_id'')
                    ''capture would violate the vault validation contract''
                    [(''validation_errors'', JList (validation_errors candidate))])
                else publish_checked E b intent content target baseline candidate idempotent))
       (\<lambda>_. liftM (pending intent ''waiting-for-readable-vault'')))"

definition process_intent :: "broker_env \<Rightarrow> broker \<Rightarrow> dict \<Rightarrow> bool \<Rightarrow> dict wprog" where
  "process_intent E b intent idempotent =
     bindM (liftM (validate_uuid4 (dget intent ''request_id'') ''stored request_id'')) (\<lambda>rid.
     bindM (askM (\<lambda>w. stored_result w b rid)) (\<lambda>found.
     case found of
       Some result \<Rightarrow> retM (dput result ''idempotent'' (JBool True))
     | None \<Rightarrow>
         bindM (liftM (intent_content E intent)) (\<lambda>(content, target).
         bindM (meanwhile E 0) (\<lambda>_.
         attempt is_os_error (askM (\<lambda>w. lstat_there w (vault_root b @ [target])))
           (\<lambda>there. if there then recover_note E b intent content target
              else capture_into_vault E b intent content target idempotent)
           (\<lambda>_. liftM (pending intent ''waiting-for-readable-vault''))))))"

section \<open>Requests\<close>

definition new_intent :: "broker_env \<Rightarrow> string \<Rightarrow> string \<Rightarrow> string \<Rightarrow> string \<Rightarrow> string \<Rightarrow> string \<Rightarrow> dict \<Rightarrow> dict res" where
  "new_intent E rid request_hash actor client now uuid note =
     (let intent =
        [(''schema_version'', JInt 1), (''protocol'', JStr PROTOCOL), (''request_id'', JStr rid),
         (''request_hash'', JStr request_hash), (''actor_fingerprint'', JStr actor),
         (''client_fingerprint'', JStr client), (''created_at'', JStr now), (''document_id'', JStr uuid),
         (''target'', JStr (capture_target (str_of (dget note ''title'')) rid)), (''note'', JObj note)]
      in bindE (render_capture (yaml_of (lib E)) intent) (\<lambda>content.
         Inr (intent @ [(''content_sha256'', JStr (sha_of E content))])))"

definition conflict :: "string \<Rightarrow> dict" where
  "conflict rid = response ''REQUEST_ID_CONFLICT'' [(''request_id'', JStr rid), (''retryable'', JBool False)]"

definition capture_locked :: "broker_env \<Rightarrow> broker \<Rightarrow> string \<Rightarrow> string \<Rightarrow> string \<Rightarrow> dict \<Rightarrow> dict wprog" where
  "capture_locked E b rid actor client note =
     (let request_hash = sha_of E (broker_json (JObj note)); p = request_path b rid
      in bindM (getsM (\<lambda>w. exists_path w p)) (\<lambda>known.
         if known then
           bindM (askM (\<lambda>w. load_broker_json w p MAX_REQUEST_BYTES)) (\<lambda>intent.
           if \<not> pyeq (dget intent ''request_hash'') (JStr request_hash)
             \<or> \<not> pyeq (dget intent ''actor_fingerprint'') (JStr actor)
           then retM (conflict rid) else process_intent E b intent True)
         else
           bindM (now_text E) (\<lambda>now.
           bindM (fresh_name E) (\<lambda>uuid.
           bindM (liftM (new_intent E rid request_hash actor client now uuid note)) (\<lambda>intent.
           bindM (write_exclusive p (broker_json (JObj intent))) (\<lambda>_.
           process_intent E b intent False))))))"

definition capture :: "broker_env \<Rightarrow> broker \<Rightarrow> string \<Rightarrow> string \<Rightarrow> string \<Rightarrow> dict \<Rightarrow> dict wprog" where
  "capture E b rid actor client note = with_lock b (capture_locked E b rid actor client note)"

definition status_locked :: "broker_env \<Rightarrow> broker \<Rightarrow> string \<Rightarrow> string \<Rightarrow> dict wprog" where
  "status_locked E b rid actor = askM (\<lambda>w.
     if \<not> exists_path w (request_path b rid) then Inr (not_found rid)
     else
       bindE (load_broker_json w (request_path b rid) MAX_REQUEST_BYTES) (\<lambda>intent.
       if \<not> pyeq (dget intent ''actor_fingerprint'') (JStr actor) then Inr (not_found rid)
       else
         bindE (stored_result w b rid) (\<lambda>found.
         case found of
           Some result \<Rightarrow> Inr (dput result ''idempotent'' (JBool True))
         | None \<Rightarrow>
             bindE (intent_content E intent) (\<lambda>(content, target).
             bindE (lstat_there w (vault_root b @ [target])) (\<lambda>there.
             if \<not> there then pending intent ''awaiting-capture-retry''
             else
               bindE (present_content w (vault_root b @ [target])) (\<lambda>existing.
               if existing \<noteq> content
               then Inr (rejected (JStr rid) ''capture target exists with different content'' [])
               else pending intent ''capture-present-awaiting-retry''))))))"

definition status :: "broker_env \<Rightarrow> broker \<Rightarrow> string \<Rightarrow> string \<Rightarrow> dict wprog" where
  "status E b rid actor = with_lock b (status_locked E b rid actor)"

definition request_shape :: "string list" where
  "request_shape = [''schema_version'', ''protocol'', ''operation'', ''request_id'', ''actor'']"

text \<open>The checks that every request passes: its ID, its subject and its client.\<close>

definition request_head :: "json \<Rightarrow> (string \<times> string \<times> string) res" where
  "request_head request =
     bindE (raiseIf (\<not> is_obj request) (protocol_error ''request must be an object'')) (\<lambda>_.
     bindE (raiseIf (\<not> pyeq (dget (obj_of request) ''schema_version'') (JInt 1)
         \<or> \<not> pyeq (dget (obj_of request) ''protocol'') (JStr PROTOCOL))
       (protocol_error ''unsupported write-broker protocol'')) (\<lambda>_.
     bindE (validate_uuid4 (dget (obj_of request) ''request_id'') ''request_id'') (\<lambda>rid.
     (let actor = dget (obj_of request) ''actor''
      in bindE (raiseIf (\<not> is_obj actor \<or> \<not> same_fields (obj_of actor) [''subject'', ''client_id''])
           (protocol_error ''actor has an invalid shape'')) (\<lambda>_.
         bindE (validate_identity (dget (obj_of actor) ''subject'') ''subject'' MAX_SUBJECT_CHARS) (\<lambda>subject.
         bindE (validate_identity (dget (obj_of actor) ''client_id'') ''client_id'' MAX_CLIENT_ID_CHARS) (\<lambda>client.
         Inr (rid, subject, client))))))))"

definition is_protocol_error :: "exn \<Rightarrow> bool" where
  "is_protocol_error e = (case e of WriteBrokerProtocolError m \<Rightarrow> True | _ \<Rightarrow> False)"

definition handle :: "broker_env \<Rightarrow> broker \<Rightarrow> json \<Rightarrow> dict wprog" where
  "handle E b request =
     bindM (liftM (request_head request)) (\<lambda>(rid, subject, client).
     if subject \<notin> set (allowed_subjects b) then retM (not_found rid)
     else
       (let fs = obj_of request; operation = dget fs ''operation'';
            actor = fingerprint (sha_of E) ''subject'' subject; origin = fingerprint (sha_of E) ''client'' client
        in if pyeq operation (JStr ''capture_note'') then
             bindM (liftM (raiseIf (\<not> same_fields fs (request_shape @ [''note'']))
               (protocol_error ''capture request has an invalid shape''))) (\<lambda>_.
             attempt is_protocol_error (liftM (normalize_note (dget fs ''note'')))
               (\<lambda>note. capture E b rid actor origin note)
               (\<lambda>e. retM (response ''REJECTED'' [(''request_id'', JStr rid), (''retryable'', JBool False),
                  (''message'', JStr (exn_text e))])))
           else if pyeq operation (JStr ''write_status'') then
             bindM (liftM (raiseIf (\<not> same_fields fs request_shape)
               (protocol_error ''status request has an invalid shape''))) (\<lambda>_.
             status E b rid actor)
           else raiseM (protocol_error ''unknown write-broker operation'')))"

section \<open>The request handler\<close>

text \<open>\<open>readline(limit)\<close>.\<close>

definition read_line :: "nat \<Rightarrow> string \<Rightarrow> string" where
  "read_line limit s =
     take limit (case find_sub [CHR 0x0A] s of None \<Rightarrow> s | Some i \<Rightarrow> take (Suc i) s)"

definition protocol_rejected :: dict where
  "protocol_rejected = response ''PROTOCOL_REJECTED'' [(''retryable'', JBool False)]"

definition internal_error :: dict where
  "internal_error = response ''INTERNAL_ERROR'' [(''retryable'', JBool True)]"

text \<open>A crash is no exception, and what is not modelled stays so.\<close>

definition answer_for :: "exn \<Rightarrow> dict res" where
  "answer_for e =
     (if is_json_error e \<or> is_protocol_error e \<or> is_os_error e then Inr protocol_rejected
      else case e of Crash \<Rightarrow> Inl e | Unmodelled m \<Rightarrow> Inl e | _ \<Rightarrow> Inr internal_error)"

definition serve :: "broker_env \<Rightarrow> broker \<Rightarrow> string \<Rightarrow> string option wprog" where
  "serve E b input =
     (let frame = read_line (MAX_REQUEST_BYTES + 1) input; more_input = drop (length frame) input
      in bindM
           (if frame = [] \<or> MAX_REQUEST_BYTES < length frame \<or> \<not> endswith frame [CHR 0x0A] \<or> more_input \<noteq> []
            then retM protocol_rejected
            else attempt (\<lambda>e. True) (bindM (liftM (json_loads_bytes frame)) (handle E b)) retM
              (\<lambda>e. liftM (answer_for e))) (\<lambda>answer.
         (let encoded = broker_json (JObj answer)
          in retM (if length encoded \<le> MAX_RESPONSE_BYTES then Some encoded else None))))"

end
