(* ===== verification/NotesProps.thy ===== *)
theory NotesProps
  imports Notes
begin

text \<open>
  The normal form of a note and the name of its file: normalising is idempotent and bounded, and the
  name of a captured note is a plain file name of at most 144 bytes whatever its title is.
\<close>

section \<open>Stripping and NFKC\<close>

lemma set_strip: "set (strip s) \<subseteq> set s"
  unfolding strip_def by (auto dest!: set_dropWhileD)

lemma strip_ends:
  assumes "s = [] \<or> \<not> is_space (hd s) \<and> \<not> is_space (last s)"
  shows "strip s = s"
proof (cases "s = []")
  case False
  then have "dropWhile is_space s = s" using assms by (cases s) auto
  moreover have "dropWhile is_space (rev s) = rev s"
    using False assms by (cases s rule: rev_cases) auto
  ultimately show ?thesis by (simp add: strip_def)
qed (simp add: strip_def)

lemma ends_strip: "strip s \<noteq> [] \<Longrightarrow> \<not> is_space (hd (strip s)) \<and> \<not> is_space (last (strip s))"
proof -
  let ?d = "dropWhile is_space s"
  assume ne: "strip s \<noteq> []"
  have "strip s = rev (dropWhile is_space (rev ?d))" by (simp add: strip_def)
  then have 1: "\<not> is_space (last (strip s))"
    using ne hd_dropWhile [of is_space "rev ?d"] by (auto simp: last_rev)
  have "\<exists>z. ?d = strip s @ z"
    using takeWhile_dropWhile_id [of is_space "rev ?d"]
    by (metis \<open>strip s = rev (dropWhile is_space (rev ?d))\<close> rev_append rev_rev_ident)
  then have same: "hd ?d = hd (strip s)" using ne by auto
  have "?d \<noteq> []" using ne unfolding strip_def by (metis dropWhile.simps(1) rev.simps(1))
  then have "\<not> is_space (hd ?d)" by (rule hd_dropWhile)
  then have "\<not> is_space (hd (strip s))" unfolding same .
  with 1 show ?thesis by blast
qed

lemma strip_strip [simp]: "strip (strip s) = strip s"
  using ends_strip [of s] by (intro strip_ends) blast

definition stable_char :: "char \<Rightarrow> bool" where
  "stable_char c \<longleftrightarrow> nfkc_char c = Inr c"

lemma nfkc_char_stable: "nfkc_char c = Inr d \<Longrightarrow> stable_char d"
  by (auto simp: nfkc_char_def stable_char_def Let_def code_of_def split: if_splits)

lemma nfkc_fixed: "(\<And>c. c \<in> set s \<Longrightarrow> stable_char c) \<Longrightarrow> nfkc s = Inr s"
  unfolding nfkc_def by (induction s) (auto simp: stable_char_def)

lemma nfkc_stable: "nfkc s = Inr n \<Longrightarrow> c \<in> set n \<Longrightarrow> stable_char c"
  unfolding nfkc_def
  by (drule mapE_InrD) (auto simp: list_all2_conv_all_nth in_set_conv_nth intro: nfkc_char_stable)

lemma stable_ascii: "code_of c < 128 \<Longrightarrow> stable_char c"
  by (simp add: stable_char_def nfkc_char_def)

section \<open>Titles and bodies\<close>

lemma normalize_title_fixed:
  assumes "normalize_title raw = Inr t"
  shows "normalize_title (JStr t) = Inr t \<and> 1 \<le> length t \<and> length t \<le> MAX_TITLE_CHARS \<and> \<not> has_control t \<and> strip t = t"
proof -
  obtain s n where s: "raw = JStr s" "nfkc s = Inr n" "t = strip n"
    and t: "1 \<le> length t" "length t \<le> MAX_TITLE_CHARS" "\<not> has_control t"
    using assms by (auto simp: normalize_title_def bindE_eq_Inr Let_def split: json.splits if_splits)
  have "nfkc t = Inr t"
    using s set_strip [of n] by (intro nfkc_fixed) (auto intro: nfkc_stable)
  with s t show ?thesis by (simp add: normalize_title_def)
qed

lemma unix_newlines_no_cr: "CHR 0x0D \<notin> set (unix_newlines s)"
  by (induction s rule: unix_newlines.induct) (auto split: list.splits)

lemma unix_newlines_id: "CHR 0x0D \<notin> set s \<Longrightarrow> unix_newlines s = s"
  by (induction s) auto

lemma normalize_body_fixed:
  assumes "normalize_body raw = Inr t"
  shows "normalize_body (JStr t) = Inr t \<and> t \<noteq> [] \<and> length (utf8 t) \<le> MAX_BODY_BYTES \<and> strip t = t
    \<and> list_all (\<lambda>c. 32 \<le> code_of c \<or> c = CHR 0x0A \<or> c = CHR 0x09) t"
proof -
  obtain s where s: "raw = JStr s" "t = strip (unix_newlines s)" "t \<noteq> []" "length (utf8 t) \<le> MAX_BODY_BYTES"
    "\<not> list_ex (\<lambda>c. code_of c < 32 \<and> c \<noteq> CHR 0x0A \<and> c \<noteq> CHR 0x09) t"
    using assms by (auto simp: normalize_body_def Let_def split: json.splits if_splits)
  have "CHR 0x0D \<notin> set t" using s(2) set_strip [of "unix_newlines s"] unix_newlines_no_cr [of s] by auto
  then have "strip (unix_newlines t) = t" using s(2) by (simp add: unix_newlines_id)
  moreover have "list_all (\<lambda>c. 32 \<le> code_of c \<or> c = CHR 0x0A \<or> c = CHR 0x09) t"
    using s(5) by (auto simp: list_ex_iff list_all_iff)
  ultimately show ?thesis using s by (simp add: normalize_body_def)
qed

section \<open>Categories and tags\<close>

lemma startswith_hd: "startswith s (c # p) \<Longrightarrow> s \<noteq> [] \<and> hd s = c"
  by (cases s) (auto simp: startswith_def)

lemma category_name_fixed:
  assumes "category_name v = Inr c"
  shows "category_name (JStr c) = Inr c \<and> 1 \<le> length c \<and> length c \<le> MAX_CATEGORY_CHARS"
proof -
  obtain s n where s: "v = JStr s" "nfkc s = Inr n"
    using assms by (auto simp: category_name_def bindE_eq_Inr split: json.splits)
  define bare where "bare = strip n"
  have c: "c = (if startswith bare ''[['' \<and> endswith bare '']]'' then strip (slice bare 2 (length bare - 2)) else bare)"
    and ok: "1 \<le> length c" "length c \<le> MAX_CATEGORY_CHARS"
      "\<not> list_ex (\<lambda>c. c \<in> set [CHR ''['', CHR '']'', CHR ''#'', CHR ''|'', CHR ''/'', CHR 0x5C]) c" "\<not> has_control c"
    using assms s by (auto simp: category_name_def Let_def bare_def split: if_splits)
  have "set (slice bare i j) \<subseteq> set bare" for i j
    unfolding slice_def by (metis set_drop_subset set_take_subset subset_trans)
  then have "set c \<subseteq> set bare"
    using set_strip [of "slice bare 2 (length bare - 2)"] unfolding c by (simp split: if_splits) blast
  then have sub: "set c \<subseteq> set n" using set_strip [of n] unfolding bare_def by blast
  then have "nfkc c = Inr c" using s(2) by (intro nfkc_fixed) (auto intro: nfkc_stable)
  moreover have "strip c = c" unfolding c bare_def by simp
  moreover have "\<not> startswith c ''[[''"
  proof
    assume "startswith c ''[[''"
    with ok(3) show False by (cases c) (auto dest: startswith_hd)
  qed
  ultimately show ?thesis using ok by (simp add: category_name_def)
qed

definition kept_ok :: "kept \<Rightarrow> bool" where
  "kept_ok st \<longleftrightarrow> snd st = map casefold (fst st) \<and> distinct (map casefold (fst st))"

lemma keep_name_ok: "kept_ok st \<Longrightarrow> casefold n \<notin> set (snd st) \<Longrightarrow> kept_ok (keep_name n st)"
  by (cases st) (simp add: keep_name_def kept_ok_def)

lemma fst_keep_name [simp]: "fst (keep_name n st) = fst st @ [n]" "snd (keep_name n st) = snd st @ [casefold n]"
  by (cases st; simp add: keep_name_def)+

lemma add_categories_kept:
  assumes "foldE add_category vs st = Inr st'" "kept_ok st" "\<forall>c \<in> set (fst st). category_name (JStr c) = Inr c"
  shows "kept_ok st' \<and> (\<forall>c \<in> set (fst st'). category_name (JStr c) = Inr c)
    \<and> length (fst st') \<le> length (fst st) + length vs \<and> (vs \<noteq> [] \<or> fst st \<noteq> [] \<longrightarrow> fst st' \<noteq> [])"
  using assms
proof (induction vs arbitrary: st)
  case (Cons v vs)
  then obtain u where u: "add_category v st = Inr u" "foldE add_category vs u = Inr st'" by (auto split: sum.splits)
  then obtain c where c: "category_name v = Inr c" "u = (if casefold c \<in> set (snd st) then st else keep_name c st)"
    by (auto simp: add_category_def bindE_eq_Inr)
  have ok: "kept_ok u" "\<forall>c \<in> set (fst u). category_name (JStr c) = Inr c"
    using Cons.prems(2,3) c category_name_fixed [OF c(1)] by (auto intro: keep_name_ok)
  have "fst u \<noteq> []"
    using c(2) Cons.prems(2) by (auto simp: kept_ok_def)
  moreover have "length (fst u) \<le> Suc (length (fst st))" using c(2) by simp
  ultimately show ?case using Cons.IH [OF u(2) ok] by auto
qed simp

lemma add_category_again:
  assumes "category_name (JStr c) = Inr c" "casefold c \<notin> set (snd st)"
  shows "add_category (JStr c) st = Inr (keep_name c st)"
  using assms by (simp add: add_category_def)

lemma refold:
  assumes "\<And>c st. c \<in> set cs \<Longrightarrow> casefold c \<notin> set (snd st) \<Longrightarrow> add (JStr c) st = Inr (keep_name c st)"
    and "distinct (snd st @ map casefold cs)"
  shows "foldE add (map JStr cs) st = Inr (fst st @ cs, snd st @ map casefold cs)"
  using assms
proof (induction cs arbitrary: st)
  case (Cons c cs)
  have "add (JStr c) st = Inr (keep_name c st)" using Cons.prems by simp
  moreover have "foldE add (map JStr cs) (keep_name c st)
      = Inr (fst (keep_name c st) @ cs, snd (keep_name c st) @ map casefold cs)"
    using Cons.prems by (intro Cons.IH) simp_all
  ultimately show ?case by simp
qed simp

lemma normalize_categories_fixed:
  assumes "normalize_categories raw = Inr cs"
  shows "normalize_categories (JList (map JStr cs)) = Inr cs \<and> 1 \<le> length cs \<and> length cs \<le> MAX_CATEGORIES
    \<and> distinct (map casefold cs)"
proof -
  obtain vs st where vs: "raw = JList vs" "1 \<le> length vs" "length vs \<le> MAX_CATEGORIES"
    "foldE add_category vs ([], []) = Inr st" "cs = fst st"
    using assms by (auto simp: normalize_categories_def bindE_eq_Inr split: json.splits if_splits)
  have k: "kept_ok st" "\<forall>c \<in> set (fst st). category_name (JStr c) = Inr c" "length (fst st) \<le> length vs" "fst st \<noteq> []"
    using add_categories_kept [OF vs(4)] vs(2) by (auto simp: kept_ok_def)
  then have d: "distinct (map casefold cs)" by (simp add: kept_ok_def vs(5))
  then have "foldE add_category (map JStr cs) ([], []) = Inr (cs, map casefold cs)"
    using refold [of cs add_category "([], [])"] k(2) vs(5) by (simp add: add_category_again)
  moreover have "1 \<le> length cs" using k(4) vs(5) by (metis One_nat_def Suc_leI length_greater_0_conv)
  ultimately show ?thesis using k d vs by (simp add: normalize_categories_def)
qed

definition good_tag :: "string \<Rightarrow> bool" where
  "good_tag t \<longleftrightarrow> tag_pattern t \<and> length t \<le> MAX_TAG_CHARS"

lemma tag_char_code: "tag_char c \<Longrightarrow> 32 < code_of c \<and> code_of c < 128 \<and> c \<noteq> CHR ''#''"
  by (auto simp: tag_char_def is_alnum_def is_digit_def is_alpha_def code_of_def)

lemma tag_pattern_chars: "tag_pattern t \<Longrightarrow> t \<noteq> [] \<and> list_all tag_char t"
  by (cases t) (auto simp: tag_pattern_def tag_char_def)

lemma add_good_tag:
  assumes "good_tag t"
  shows "add_tag (JStr t) st =
    Inr (if casefold t \<notin> set (snd st) \<and> casefold t \<noteq> mcp_capture then keep_name t st else st)"
proof -
  have chars: "t \<noteq> []" "\<forall>c \<in> set t. tag_char c"
    using assms tag_pattern_chars by (auto simp: good_tag_def list_all_iff)
  then have "nfkc t = Inr t" by (intro nfkc_fixed stable_ascii) (auto dest: tag_char_code)
  moreover have sp: "\<not> is_space c" if "c \<in> set t" for c
    using chars(2) that tag_char_code [of c] by (auto simp: is_space_def Let_def)
  then have "strip t = t" using chars(1) by (intro strip_ends) auto
  moreover have "remove_hash t = t"
    using chars tag_char_code by (cases t) (auto simp: remove_hash_def startswith_def)
  moreover have "1 \<le> length t" using chars(1) by (cases t) auto
  ultimately show ?thesis using assms by (simp add: add_tag_def good_tag_def raiseIf_def)
qed

lemma add_tag_good:
  assumes "add_tag v st = Inr st'"
  shows "st' = st \<or> (\<exists>t. good_tag t \<and> casefold t \<notin> set (snd st) \<and> casefold t \<noteq> mcp_capture \<and> st' = keep_name t st)"
  using assms by (auto simp: add_tag_def good_tag_def bindE_eq_Inr bindE_raiseIf Let_def split: json.splits if_splits)

lemma add_tags_kept:
  assumes "foldE add_tag vs st = Inr st'" "kept_ok st" "\<forall>t \<in> set (fst st). good_tag t \<and> casefold t \<noteq> mcp_capture"
  shows "kept_ok st' \<and> (\<forall>t \<in> set (fst st'). good_tag t \<and> casefold t \<noteq> mcp_capture)"
  using assms(1)
proof (rule foldE_invariant)
  fix v st st' assume "kept_ok st \<and> (\<forall>t \<in> set (fst st). good_tag t \<and> casefold t \<noteq> mcp_capture)" "add_tag v st = Inr st'"
  then show "kept_ok st' \<and> (\<forall>t \<in> set (fst st'). good_tag t \<and> casefold t \<noteq> mcp_capture)"
    using add_tag_good [of v st st'] by (auto intro: keep_name_ok)
qed (use assms in blast)

lemma mcp_capture_good: "good_tag mcp_capture" "casefold mcp_capture = mcp_capture"
  by (simp_all add: good_tag_def mcp_capture_def tag_pattern_def tag_char_def is_alnum_def is_alpha_def is_digit_def
      code_of_def MAX_TAG_CHARS_def casefold_def fold_char_def)

lemma normalize_tags_fixed:
  assumes "normalize_tags raw = Inr ts"
  shows "normalize_tags (JList (map JStr ts)) = Inr ts \<and> length ts \<le> MAX_TAGS \<and> list_all good_tag ts
    \<and> distinct (map casefold ts) \<and> last ts = mcp_capture \<and> ts \<noteq> []"
proof -
  obtain vs st where st: "foldE add_tag vs ([], []) = Inr st" "\<not> MAX_TAGS \<le> length (fst st)" "ts = fst st @ [mcp_capture]"
    using assms by (auto simp: normalize_tags_def bindE_eq_Inr bindE_raiseIf split: json.splits if_splits)
  have k: "kept_ok st" "\<forall>t \<in> set (fst st). good_tag t \<and> casefold t \<noteq> mcp_capture"
    using add_tags_kept [OF st(1)] by (auto simp: kept_ok_def)
  have "foldE add_tag (map JStr (fst st)) ([], []) = Inr (fst st, map casefold (fst st))"
    using refold [of "fst st" add_tag "([], [])"] k by (simp add: add_good_tag kept_ok_def)
  then have "foldE add_tag (map JStr ts) ([], []) = Inr (fst st, map casefold (fst st))"
    by (simp add: st(3) foldE_append add_good_tag mcp_capture_good)
  with st(2) have "normalize_tags (JList (map JStr ts)) = Inr ts"
    by (simp add: normalize_tags_def st(3) raiseIf_def)
  moreover have "casefold mcp_capture \<notin> set (map casefold (fst st))" using k(2) by (auto simp: mcp_capture_good(2))
  ultimately show ?thesis using k st(2) mcp_capture_good(1)
    by (auto simp: st(3) kept_ok_def list_all_iff)
qed

lemma normalize_note_parts:
  assumes "normalize_note raw = Inr n"
  obtains title body cats tags where "n = note_json title body cats tags"
    "normalize_title (dget (obj_of raw) ''title'') = Inr title" "normalize_body (dget (obj_of raw) ''body'') = Inr body"
    "normalize_categories (dget (obj_of raw) ''categories'') = Inr cats" "normalize_tags (dget (obj_of raw) ''tags'') = Inr tags"
  using assms by (auto simp: normalize_note_def bindE_eq_Inr bindE_raiseIf)

section \<open>File names\<close>

lemma utf8_append: "utf8 (s @ t) = utf8 s @ utf8 t"
  by (simp add: utf8_def)

lemma utf8_ascii: "list_all (\<lambda>c. code_of c < 128) s \<Longrightarrow> utf8 s = s"
  by (induction s) (simp_all add: utf8_def utf8_char_def)

lemma set_rstrip: "set (rstrip_set cs s) \<subseteq> set s"
  unfolding rstrip_set_def by (auto dest!: set_dropWhileD)

lemma set_strip_set: "set (strip_set cs s) \<subseteq> set s"
  unfolding strip_set_def using set_rstrip by (meson set_dropWhileD subset_iff)

lemma shorten_props: "length (utf8 (shorten s)) \<le> 120 \<and> set (shorten s) \<subseteq> set s"
proof (induction s rule: shorten.induct)
  case (1 s)
  show ?case
  proof (cases "120 < length (utf8 s)")
    case True
    have "set (butlast s) \<subseteq> set s" by (meson in_set_butlastD subsetI)
    moreover have "shorten s = shorten (rstrip_set trim_chars (butlast s))"
      using True by (simp add: shorten.simps [of s])
    ultimately show ?thesis using 1 [OF True] set_rstrip [of trim_chars "butlast s"] by auto
  qed (simp add: shorten.simps)
qed

lemma set_squeeze: "set (squeeze_blanks s) \<subseteq> insert (CHR '' '') (set s)"
proof (induction s)
  case (Cons c s)
  have "squeeze_blanks (c # s) = c # squeeze_blanks s \<or> squeeze_blanks (c # s) = CHR '' '' # squeeze_blanks s
      \<or> squeeze_blanks (c # s) = squeeze_blanks s"
    by (cases s) (simp_all del: squeeze_blanks.simps(2) add: squeeze_blanks.simps(2) [of c])
  with Cons show ?case by (elim disjE) (simp_all only: list.set, blast+)
qed simp

definition plain_filename :: "string \<Rightarrow> bool" where
  "plain_filename s \<longleftrightarrow> list_all (\<lambda>c. \<not> invalid_filename_char c) s"

lemma safe_filename_title_props:
  "safe_filename_title title \<noteq> [] \<and> length (utf8 (safe_filename_title title)) \<le> 120 \<and> plain_filename (safe_filename_title title)"
proof -
  let ?m = "map (\<lambda>c. if invalid_filename_char c then CHR ''-'' else c) title"
  define cleaned where "cleaned = strip_set trim_chars (squeeze_blanks ?m)"
  have good: "\<not> invalid_filename_char (CHR '' '')" "\<not> invalid_filename_char (CHR ''-'')"
    by (simp_all add: invalid_filename_char_def code_of_def)
  have un: "plain_filename ''Untitled''" "length (utf8 ''Untitled'') \<le> 120"
    by (simp_all add: plain_filename_def invalid_filename_char_def code_of_def utf8_def utf8_char_def)
  have "plain_filename cleaned"
    using set_strip_set [of trim_chars "squeeze_blanks ?m"] set_squeeze [of ?m] good
    by (auto simp: cleaned_def plain_filename_def list_all_iff split: if_splits)
  then have start: "plain_filename (if cleaned = [] then ''Untitled'' else cleaned)" using un(1) by simp
  let ?s = "shorten (if cleaned = [] then ''Untitled'' else cleaned)"
  have "plain_filename ?s" "length (utf8 ?s) \<le> 120"
    using start shorten_props [of "if cleaned = [] then ''Untitled'' else cleaned"]
    by (auto simp: plain_filename_def list_all_iff)
  with un show ?thesis by (simp add: safe_filename_title_def cleaned_def [symmetric] Let_def)
qed

lemma uuid_prefix:
  assumes "is_uuid4 rid"
  shows "length (take 8 rid) = 8 \<and> list_all is_lower_hex (take 8 rid)"
proof -
  obtain a b c d e where s: "split_char (CHR ''-'') rid = [a, b, c, d, e]"
    "list_all is_lower_hex (a @ b @ c @ d @ e)" "length a = 8"
    using assms unfolding is_uuid4_def by (auto split: list.splits)
  have "rid = join [CHR ''-''] [a, b, c, d, e]" using join_split_char [of "CHR ''-''" rid] s(1) by simp
  then have "take 8 rid = a" using s(3) by simp
  with s show ?thesis by simp
qed

section \<open>Properties\<close>

text \<open>C30: an accepted note is in normal form: normalising it again changes nothing, so equal requests
have equal digests; its title, body, categories and tags are within their limits, no two
categories and no two tags are equal case-folded, and it ends with the tag of the capture tool.\<close>

theorem normalize_note_normal_form:
  assumes "normalize_note raw = Inr n"
  shows "normalize_note (JObj n) = Inr n
    \<and> (\<exists>title body cats tags. n = note_json title body cats tags
        \<and> 1 \<le> length title \<and> length title \<le> 160 \<and> \<not> has_control title
        \<and> body \<noteq> [] \<and> length (utf8 body) \<le> 65536
        \<and> 1 \<le> length cats \<and> length cats \<le> 8 \<and> distinct (map casefold cats)
        \<and> length tags \<le> 16 \<and> list_all good_tag tags \<and> distinct (map casefold tags) \<and> last tags = mcp_capture)"
proof -
  obtain title body cats tags where n: "n = note_json title body cats tags"
    and p: "normalize_title (dget (obj_of raw) ''title'') = Inr title" "normalize_body (dget (obj_of raw) ''body'') = Inr body"
      "normalize_categories (dget (obj_of raw) ''categories'') = Inr cats" "normalize_tags (dget (obj_of raw) ''tags'') = Inr tags"
    using assms by (rule normalize_note_parts)
  note f = normalize_title_fixed [OF p(1)] normalize_body_fixed [OF p(2)] normalize_categories_fixed [OF p(3)]
    normalize_tags_fixed [OF p(4)]
  have "same_fields (note_json title body cats tags) note_fields"
    by (auto simp: same_fields_def note_json_def note_fields_def)
  then have "normalize_note (JObj n) = Inr n"
    using f by (simp add: normalize_note_def n raiseIf_def) (simp add: note_json_def)
  then show ?thesis
    using f n by (auto simp: MAX_TITLE_CHARS_def MAX_BODY_BYTES_def MAX_CATEGORIES_def MAX_TAGS_def)
qed

definition sample_note :: json where
  "sample_note =
     JObj [(''title'', JStr '' Pump '' ), (''body'', JStr (''Bleed it.'' @ [CHR 0x0D, CHR 0x0A])),
       (''categories'', JList [JStr ''[[House]]'', JStr ''house'']), (''tags'', JList [JStr ''#heat'', JStr ''MCP-capture''])]"

definition sample_normal :: dict where
  "sample_normal = note_json ''Pump'' ''Bleed it.'' [''House''] [''heat'', ''mcp-capture'']"

lemmas char_rules = nfkc_def nfkc_char_def code_of_def is_space_def strip_def Let_def

lemmas tag_rules = char_rules remove_hash_def startswith_def MAX_TAG_CHARS_def tag_pattern_def tag_char_def
  is_alnum_def is_alpha_def is_digit_def raiseIf_def mcp_capture_def

lemma sample_parts:
  "normalize_title (JStr '' Pump '') = Inr ''Pump''"
  "normalize_body (JStr (''Bleed it.'' @ [CHR 0x0D, CHR 0x0A])) = Inr ''Bleed it.''"
  "category_name (JStr ''[[House]]'') = Inr ''House''" "category_name (JStr ''house'') = Inr ''house''"
  "nfkc ''#heat'' = Inr ''#heat''" "nfkc ''MCP-capture'' = Inr ''MCP-capture''"
  by (simp_all add: normalize_title_def normalize_body_def category_name_def char_rules has_control_def startswith_def
      endswith_def slice_def MAX_TITLE_CHARS_def MAX_BODY_BYTES_def MAX_CATEGORY_CHARS_def utf8_def utf8_char_def)

lemma sample_folds: "casefold ''House'' = ''house''" "casefold ''house'' = ''house''" "casefold ''heat'' = ''heat''"
    "casefold ''MCP-capture'' = ''mcp-capture''"
  by code_simp+

lemma sample_normalized: "normalize_note sample_note = Inr sample_normal"
proof -
  have "normalize_categories (JList [JStr ''[[House]]'', JStr ''house'']) = Inr [''House'']"
    by (simp add: normalize_categories_def MAX_CATEGORIES_def add_category_def sample_parts sample_folds)
  moreover have "normalize_tags (JList [JStr ''#heat'', JStr ''MCP-capture'']) = Inr [''heat'', mcp_capture]"
  proof -
    have 1: "add_tag (JStr ''#heat'') ([], []) = Inr ([''heat''], [''heat''])"
      by (simp add: add_tag_def sample_parts)
         (simp add: tag_rules sample_folds keep_name_def)
    have 2: "add_tag (JStr ''MCP-capture'') ([''heat''], [''heat'']) = Inr ([''heat''], [''heat''])"
      by (simp add: add_tag_def sample_parts) (simp add: tag_rules sample_folds)
    show ?thesis by (simp add: normalize_tags_def MAX_TAGS_def 1 2 raiseIf_def)
  qed
  moreover have "same_fields (obj_of sample_note) note_fields"
    by (auto simp: same_fields_def sample_note_def note_fields_def)
  ultimately show ?thesis
    by (simp add: normalize_note_def raiseIf_def) (simp add: sample_note_def sample_parts sample_parts(2) [simplified] sample_normal_def mcp_capture_def)
qed

theorem normalize_note_normal_form_witness:
  "normalize_note sample_note = Inr sample_normal \<and> normalize_note (JObj sample_normal) = Inr sample_normal"
  using normalize_note_normal_form [OF sample_normalized] sample_normalized by blast

text \<open>The name of the file of a captured note is, for every title, a plain file name that ends
in \<open>.md\<close>, has no character that a file system refuses, passes the check of the stored
intent and has at most 144 bytes; the loop that shortens the title ends, as the function is total.\<close>

theorem capture_target_bounded:
  assumes "is_uuid4 rid"
  shows "list_all (\<lambda>c. \<not> invalid_filename_char c) (capture_target title rid)
    \<and> name_of (capture_target title rid) = capture_target title rid
    \<and> endswith (capture_target title rid) ''.md''
    \<and> length (utf8 (capture_target title rid)) \<le> 144"
proof -
  let ?t = "capture_target title rid"
  have hex: "\<not> invalid_filename_char c \<and> code_of c < 128" if "is_lower_hex c" for c
    using that by (auto simp: is_lower_hex_def is_digit_def invalid_filename_char_def code_of_def)
  have rid: "list_all (\<lambda>c. \<not> invalid_filename_char c) (take 8 rid)" "list_all (\<lambda>c. code_of c < 128) (take 8 rid)"
    "length (take 8 rid) = 8"
    using uuid_prefix [OF assms] hex by (auto simp: list_all_iff)
  have plain: "list_all (\<lambda>c. \<not> invalid_filename_char c) ?t"
    using safe_filename_title_props [of title] rid(1)
    by (simp add: capture_target_def plain_filename_def) (simp add: invalid_filename_char_def code_of_def)
  then have "CHR ''/'' \<notin> set ?t" by (auto simp: list_all_iff invalid_filename_char_def)
  then have "split_char (CHR ''/'') ?t = [?t]" using split_char_join [of "[?t]" "CHR ''/''"] by simp
  then have "name_of ?t = ?t" by (simp add: name_of_def posix_parts_def) (simp add: capture_target_def)
  moreover have "endswith ?t ''.md''"
  proof -
    have "?t = (''Capture - '' @ safe_filename_title title @ '' - '' @ take 8 rid) @ ''.md''"
      by (simp add: capture_target_def)
    then show ?thesis unfolding endswith_def by (metis append_eq_conv_conj length_append diff_add_inverse2 le_add2)
  qed
  moreover have "length (utf8 ?t) \<le> 144"
  proof -
    have "utf8 ?t = ''Capture - '' @ utf8 (safe_filename_title title) @ '' - '' @ take 8 rid @ ''.md''"
      unfolding capture_target_def utf8_append using utf8_ascii [OF rid(2)]
      by (simp add: utf8_def utf8_char_def code_of_def)
    then show ?thesis using safe_filename_title_props [of title] rid(3) by simp
  qed
  ultimately show ?thesis using plain by blast
qed

theorem capture_target_bounded_witness:
  "length (utf8 (capture_target (replicate 300 (CHR ''x'')) ''01234567-89ab-4def-8123-456789abcdef'')) \<le> 144
   \<and> endswith (capture_target ''a/b?'' ''01234567-89ab-4def-8123-456789abcdef'') ''.md''"
proof -
  have "is_uuid4 ''01234567-89ab-4def-8123-456789abcdef''" by code_simp
  then show ?thesis using capture_target_bounded by blast
qed

end
