(* ===== verification/WriteBrokerProps.thy ===== *)
theory WriteBrokerProps
  imports WriteBroker NotesProps Documents
begin

text \<open>
  What the broker guarantees of the vault and of its answers. The guarantees are of the
  rely-guarantee kind: the other programs that edit the vault are arbitrary up to the relation that
  the guarantee itself keeps.
\<close>

section \<open>What is kept\<close>

text \<open>
  A file of the vault other than a partial file of the broker, a stored request, or a stored result:
  once there, it keeps its content.
\<close>

definition note_path :: "path \<Rightarrow> path \<Rightarrow> bool" where
  "note_path v p \<longleftrightarrow> below v p \<and> p \<noteq> v \<and> \<not> endswith (last p) ''.homeops-partial''"

definition protected :: "broker \<Rightarrow> path \<Rightarrow> bool" where
  "protected b p \<longleftrightarrow> note_path (vault_root b) p \<or> below (requests_dir b) p \<or> below (results_dir b) p"

text \<open>What is at these paths stays there: the node itself, not only its content.\<close>

definition kept :: "(path \<Rightarrow> bool) \<Rightarrow> world \<Rightarrow> world \<Rightarrow> bool" where
  "kept P w w' \<longleftrightarrow> (\<forall>p n. P p \<longrightarrow> lstat w p = Some n \<longrightarrow> lstat w' p = Some n)"

interpretation kept: step_preorder "kept P" for P
  by unfold_locales (simp_all add: kept_def)

lemma keptD: "kept P w w' \<Longrightarrow> P p \<Longrightarrow> lstat w p = Some n \<Longrightarrow> lstat w' p = Some n"
  by (simp add: kept_def)

lemma file_at_lstat: "file_at w p = Some c \<Longrightarrow> \<exists>n. lstat w p = Some n"
  by (cases "lstat w p") (simp_all add: file_at_def stat_def)

lemma kept_file: "kept P w w' \<Longrightarrow> P p \<Longrightarrow> file_at w p = Some c \<Longrightarrow> file_at w' p = Some c"
  by (frule file_at_lstat) (auto simp: file_at_def stat_def dest: keptD)

definition apart :: "path \<Rightarrow> path \<Rightarrow> bool" where
  "apart p v \<longleftrightarrow> \<not> below p v \<and> \<not> below v p"

text \<open>Nothing protected is at a path or below it.\<close>

definition free :: "(path \<Rightarrow> bool) \<Rightarrow> path \<Rightarrow> bool" where
  "free P p \<longleftrightarrow> (\<forall>q. below p q \<longrightarrow> \<not> P q)"

lemma below_take: "below p q \<longleftrightarrow> (\<exists>r. q = p @ r)"
  unfolding below_def by (metis append_eq_conv_conj)

lemma below_refl [simp]: "below p p" "below p (p @ q)"
  by (auto simp: below_take)

lemma apart_below: "apart p v \<Longrightarrow> below p q \<Longrightarrow> \<not> below v q"
  unfolding apart_def below_take by (metis append_eq_append_conv2)

lemma free_append: "free P p \<Longrightarrow> free P (p @ r)"
  unfolding free_def below_take by (metis append.assoc)

lemma free_not_protected: "free P p \<Longrightarrow> \<not> P (p @ q)"
  unfolding free_def below_take by blast


section \<open>Steps\<close>

lemma map_of_rename:
  assumes "\<not> below p x" "\<not> below q x"
  shows "map_of (map (\<lambda>e. if below p (fst e) then (q @ drop (length p) (fst e), snd e) else e)
      (filter (\<lambda>e. \<not> below q (fst e)) t)) x = map_of t x"
proof (induction t)
  case (Cons e t)
  obtain a n where "e = (a, n)" by (cases e)
  with Cons assms show ?case by (auto simp: below_take)
qed simp

lemma kept_durable:
  assumes "\<And>t q n. P q \<Longrightarrow> map_of t q = Some n \<Longrightarrow> map_of (u t) q = Some n"
  shows "keeps (kept P) (durable u)"
proof (rule keepsI)
  fix w r w' assume "durable u w = (r, w')"
  then show "kept P w w'"
    by (rule durable_cases) (use assms in \<open>auto simp: kept_def lstat_def\<close>)
qed

lemma kept_put_file: "\<not> P p \<Longrightarrow> keeps (kept P) (put_file p c)"
proof (rule keepsI)
  fix w r w' assume p: "\<not> P p" and a: "put_file p c w = (r, w')"
  have "keeps (kept P) (durable (\<lambda>t. AList.update p (put_node (File c) (map_of t p)) (add_dirs (butlast p) t)))"
    using p by (intro kept_durable) (auto simp: update_conv' map_of_add_dirs)
  with a show "kept P w w'" by (auto simp: put_file_def kept.R_refl split: if_splits dest: keepsD)
qed

lemma kept_unlink: "\<not> P p \<Longrightarrow> keeps (kept P) (unlink p)"
  unfolding unlink_def by (rule kept_durable) (auto simp: delete_conv')

lemma map_of_drop: "\<not> below p q \<Longrightarrow> map_of (filter (\<lambda>e. \<not> below p (fst e)) t) q = map_of t q"
  by (induction t) auto

lemma kept_remove_tree: "free P p \<Longrightarrow> keeps (kept P) (remove_tree p)"
  unfolding remove_tree_def by (rule kept_durable) (subst map_of_drop; auto simp: free_def)

lemma kept_rename: "free P p \<Longrightarrow> free P q \<Longrightarrow> keeps (kept P) (rename p q)"
  unfolding rename_def by (rule kept_durable) (subst map_of_rename; auto simp: free_def)

lemma kept_same: "keeps (kept P) (durable (\<lambda>t. t))"
  by (rule kept_durable)

lemma kept_fsync: "keeps (kept P) (fsync_path p)"
  by (rule keepsI) (auto simp: fsync_path_def kept.R_refl split: if_splits dest: keepsD [OF kept_same])

lemma kept_make_dirs: "keeps (kept P) (make_dirs p)"
proof (rule keepsI)
  fix w r w' assume a: "make_dirs p w = (r, w')"
  have "keeps (kept P) (durable (add_dirs p))" by (rule kept_durable) (simp add: map_of_add_dirs)
  with a show "kept P w w'" by (auto simp: make_dirs_def kept.R_refl split: if_splits dest: keepsD)
qed

lemma kept_ask: "keeps (kept P) (askM f)"
  by (auto simp: keeps_def askM_def kept_def)

lemma kept_fail: "keeps (kept P) (failIf c e)"
  by (auto simp: keeps_def failIf_def kept_def)

lemma kept_when: "keeps (kept P) m \<Longrightarrow> keeps (kept P) (whenM c m)"
  by (auto simp: whenM_def kept.keeps_pure)

lemma kept_fresh: "keeps (kept P) (fresh_name E)" "keeps (kept P) (now_text E)"
  by (auto simp: keeps_def fresh_name_def now_text_def kept_def lstat_def)

lemma kept_attempt:
  assumes "keeps (kept P) m" "\<And>x. keeps (kept P) (f x)" "\<And>e. keeps (kept P) (g e)"
  shows "keeps (kept P) (attempt c m f g)"
proof (rule keepsI)
  fix s r t assume a: "attempt c m f g s = (r, t)"
  obtain x s' where m: "m s = (x, s')" by (cases "m s")
  with assms(1) have "kept P s s'" by (rule keepsD)
  moreover have "kept P s' t"
    using a m assms(2,3) by (cases x) (auto simp: attempt_def kept.R_refl split: if_splits dest: keepsD)
  ultimately show "kept P s t" by (rule kept.R_trans)
qed

lemma kept_finallyDo:
  assumes "keeps (kept P) m" "keeps (kept P) f"
  shows "keeps (kept P) (finallyDo m f)"
proof (rule keepsI)
  fix s r t assume a: "finallyDo m f s = (r, t)"
  obtain x s' where m: "m s = (x, s')" by (cases "m s")
  then have "kept P s s'" using assms(1) keepsD by fast
  moreover have "kept P s' t"
    using a m assms(2) by (auto simp: finallyDo_def kept.R_refl split: if_splits prod.splits sum.splits dest: keepsD)
  ultimately show "kept P s t" by (rule kept.R_trans)
qed

lemma kept_create_new: "\<not> P p \<Longrightarrow> keeps (kept P) (create_new p)"
  by (rule keepsI) (auto simp: create_new_def kept.R_refl split: if_splits dest: keepsD [OF kept_put_file])

lemma kept_unlink_quietly: "\<not> P p \<Longrightarrow> keeps (kept P) (unlink_quietly p)"
  by (rule keepsI) (auto simp: unlink_quietly_def kept.R_refl split: if_splits dest: keepsD [OF kept_unlink])

text \<open>A step that touches one path, and only when nothing is there, keeps everything.\<close>

lemma kept_when_missing:
  assumes "kept (\<lambda>q. P q \<and> q \<noteq> p) w w'" "\<not> lexists w p"
  shows "kept P w w'"
  using assms by (auto simp: kept_def lexists_def)

lemma kept_link_new: "keeps (kept P) (link_new p c)"
proof (rule keepsI)
  fix w r w' assume a: "link_new p c w = (r, w')"
  have "keeps (kept (\<lambda>q. P q \<and> q \<noteq> p)) (durable (AList.update p (File c)))"
    by (rule kept_durable) (auto simp: update_conv')
  with a show "kept P w w'"
    by (auto simp: link_new_def kept.R_refl split: if_splits intro: kept_when_missing dest: keepsD)
qed

lemma kept_make_dir: "keeps (kept P) (make_dir p)"
  by (rule keepsI) (auto simp: make_dir_def kept.R_refl split: if_splits dest: keepsD [OF kept_make_dirs])

lemma kept_catch_some:
  "keeps (kept P) m \<Longrightarrow> (\<And>e. keeps (kept P) (g e)) \<Longrightarrow>
     keeps (kept P) (catchM m (\<lambda>e. if c e then Some (g e) else None))"
  by (rule kept.keeps_catch) (auto split: if_splits)

lemma kept_catch_none:
  "keeps (kept P) m \<Longrightarrow> (\<And>e. keeps (kept P) (g e)) \<Longrightarrow>
     keeps (kept P) (catchM m (\<lambda>e. if c e then None else Some (g e)))"
  by (rule kept.keeps_catch) (auto split: if_splits)

lemmas kept_intros = kept.keeps_pure kept.keeps_bind kept.keeps_each kept_put_file kept_unlink kept_remove_tree
  kept_rename kept_fsync kept_make_dirs kept_ask kept_fail kept_when kept_fresh kept_attempt kept_finallyDo
  keeps_option keeps_prod keeps_if kept_create_new kept_unlink_quietly kept_link_new kept_make_dir kept_catch_some
  kept_catch_none

text \<open>An exclusive write touches one path, and only if nothing is there.\<close>

lemma keeps_unlink_quietly: "p \<in> S \<Longrightarrow> keeps (same_outside S) (unlink_quietly p)"
  by (rule keepsI) (auto simp: unlink_quietly_def frame.R_refl split: if_splits dest: keepsD [OF keeps_unlink])

lemma keeps_create_new: "p \<in> S \<Longrightarrow> keeps (same_outside S) (create_new p)"
  by (rule keepsI) (auto simp: create_new_def frame.R_refl split: if_splits dest: keepsD [OF keeps_put_file])

lemma keeps_write_exclusive: "p \<in> S \<Longrightarrow> keeps (same_outside S) (write_exclusive p c)"
  unfolding write_exclusive_def
  by (intro frame_intros frame.keeps_catch keeps_create_new)
     (auto split: if_splits intro!: frame_intros keeps_unlink_quietly)

lemma write_exclusive_taken: "lexists w p \<Longrightarrow> write_exclusive p c w = (Inl (FileExistsError (''already exists: '' @ path_text p)), w)"
  by (simp add: write_exclusive_def bindM_def create_new_def)

lemma kept_write_exclusive: "keeps (kept P) (write_exclusive p c)"
proof (rule keepsI)
  fix w r w' assume a: "write_exclusive p c w = (r, w')"
  have "keeps (kept (\<lambda>q. P q \<and> q \<noteq> p)) (write_exclusive p c)"
    unfolding write_exclusive_def by (intro kept_intros) simp_all
  then have "kept (\<lambda>q. P q \<and> q \<noteq> p) w w'" using a by (rule keepsD)
  with a show "kept P w w'"
    by (cases "lexists w p") (simp_all add: write_exclusive_taken kept.R_refl kept_when_missing)
qed

lemma kept_export_snapshot:
  assumes "free P s" "output = s @ [x, y]"
  shows "keeps (kept P) (export_snapshot u root output)"
proof -
  have t: "export_temporary output u = s @ [x, ''.'' @ y @ ''.'' @ u @ ''.tmp'']"
    by (simp add: export_temporary_def assms(2) butlast_append)
  have "free P (export_temporary output u)" "free P output" "\<not> P (export_temporary output u @ q)" for q
    unfolding t using assms free_append [OF assms(1)] free_not_protected [OF assms(1)] by simp_all
  then show ?thesis
    unfolding export_snapshot_def Let_def export_copy_def export_placeholder_def remove_tree_quietly_def
    by (intro kept_intros)
qed

section \<open>The broker\<close>

definition separate :: "broker \<Rightarrow> bool" where
  "separate b \<longleftrightarrow> apart (state_dir b) (vault_root b)"

definition considerate :: "broker_env \<Rightarrow> broker \<Rightarrow> bool" where
  "considerate E b \<longleftrightarrow> (\<forall>k w. kept (protected b) w (others E k w))"

lemma kept_meanwhile: "considerate E b \<Longrightarrow> keeps (kept (protected b)) (meanwhile E k)"
  by (auto simp: meanwhile_def considerate_def intro: kept.keeps_modify)

lemma kept_inspect: "keeps (kept (protected b)) (inspect E root)"
  unfolding inspect_def by (rule kept_ask)

lemma endswith_append: "endswith (s @ p) p"
  by (simp add: endswith_def)

lemma partial_not_protected:
  assumes "separate b"
  shows "\<not> protected b (vault_root b @ [partial_name u])"
proof -
  have "partial_name u = (''.'' @ u) @ ''.homeops-partial''" by (simp add: partial_name_def)
  then have "endswith (partial_name u) ''.homeops-partial''" by (simp only: endswith_append)
  moreover have "apart (state_dir b) (vault_root b)" using assms by (simp add: separate_def)
  then have "\<not> below (state_dir b @ q) (vault_root b @ r)" for q r
    using apart_below [of "state_dir b" "vault_root b" "vault_root b @ r"] by (auto simp: below_take)
  ultimately show ?thesis by (simp add: protected_def note_path_def requests_dir_def results_dir_def)
qed

lemma free_staging: "separate b \<Longrightarrow> free (protected b) (staging_dir b)"
proof -
  assume "separate b"
  then have "\<not> below (vault_root b) (state_dir b @ q)" for q
    using apart_below [of "state_dir b" "vault_root b"] by (simp add: separate_def)
  then show ?thesis
    by (auto simp: free_def protected_def note_path_def below_take staging_dir_def requests_dir_def results_dir_def)
qed

lemma kept_publish_note: "separate b \<Longrightarrow> keeps (kept (protected b)) (publish_note E b target content)"
  unfolding publish_note_def Let_def by (intro kept_intros partial_not_protected)

definition polite :: "broker_env \<Rightarrow> broker \<Rightarrow> bool" where
  "polite E b \<longleftrightarrow> separate b \<and> considerate E b"

lemma polite_sep: "polite E b \<Longrightarrow> separate b"
  by (simp add: polite_def)

lemma polite_rely: "polite E b \<Longrightarrow> considerate E b"
  by (simp add: polite_def)


lemma kept_publish_result: "polite E b \<Longrightarrow> keeps (kept (protected b)) (publish_result b result)"
  unfolding publish_result_def Let_def
  by (intro kept_intros kept_write_exclusive)

lemma kept_publish_applied: "polite E b \<Longrightarrow> keeps (kept (protected b)) (publish_applied E b i d x y z)"
  unfolding publish_applied_def by (intro kept_intros kept_publish_result)

lemma kept_recover: "polite E b \<Longrightarrow> keeps (kept (protected b)) (recover_note E b i content target)"
  unfolding recover_note_def
  by (intro kept_intros kept_publish_result kept_meanwhile polite_rely kept_inspect kept_publish_applied)

lemma kept_stage: "polite E b \<Longrightarrow> keeps (kept (protected b)) (stage_candidate E b rid target content)"
proof -
  assume p: "polite E b"
  then have f: "free (protected b) (staging_dir b)" by (intro free_staging polite_sep)
  have "keeps (kept (protected b)) (export_snapshot u root ((staging_dir b @ [x]) @ [''vault'']))" for u root x
    using f by (rule kept_export_snapshot) simp
  moreover have "\<not> protected b (((staging_dir b @ [x]) @ [''vault'']) @ [y])" for x y
    using free_not_protected [OF f, of "[x, ''vault'', y]"] by simp
  ultimately show ?thesis
    unfolding stage_candidate_def Let_def
    by (intro kept_intros kept_meanwhile polite_rely [OF p] kept_inspect free_append [OF f])
qed

lemma kept_changed: "polite E b \<Longrightarrow> keeps (kept (protected b)) (changed_by_others E b c)"
  unfolding changed_by_others_def by (intro kept_intros kept_meanwhile polite_rely kept_inspect)

lemma kept_publish_checked: "polite E b \<Longrightarrow> keeps (kept (protected b)) (publish_checked E b i content target base cand x)"
  unfolding publish_checked_def
  by (intro kept_intros kept_meanwhile polite_rely kept_inspect kept_publish_note polite_sep kept_changed kept_publish_applied)

lemma kept_capture_into: "polite E b \<Longrightarrow> keeps (kept (protected b)) (capture_into_vault E b i content target x)"
  unfolding capture_into_vault_def
  by (intro kept_intros kept_meanwhile polite_rely kept_inspect kept_stage kept_publish_result kept_publish_checked)

lemma kept_process: "polite E b \<Longrightarrow> keeps (kept (protected b)) (process_intent E b i x)"
  unfolding process_intent_def
  by (intro kept_intros kept_meanwhile polite_rely kept_recover kept_capture_into)

lemma kept_with_lock: "keeps (kept (protected b)) m \<Longrightarrow> keeps (kept (protected b)) (with_lock b m)"
  unfolding with_lock_def Let_def
proof (intro kept_intros)
  show "keeps (kept (protected b)) (acquire p False True e)" for p e
    by (auto simp: keeps_def acquire_def kept_def lstat_def)
  show "keeps (kept (protected b)) (finallyM m (release p s))"
    if "keeps (kept (protected b)) m" for p s
    using that by (fastforce simp: keeps_def finallyM_def release_def kept_def lstat_def split: prod.splits)
qed

lemma kept_capture: "polite E b \<Longrightarrow> keeps (kept (protected b)) (capture E b rid a c n)"
  unfolding capture_def capture_locked_def Let_def
  by (intro kept_with_lock kept_intros kept_process kept_write_exclusive)

lemma kept_handle: "polite E b \<Longrightarrow> keeps (kept (protected b)) (handle E b request)"
  unfolding handle_def Let_def status_def status_locked_def
  by (intro kept_intros kept_with_lock kept_capture)

section \<open>Publishing\<close>

lemma put_file_lstat:
  assumes "put_file p c w = (r, w')" "\<not> below q p"
  shows "lstat w' q = lstat w q"
proof (cases "is_dir w p \<or> \<not> parents_ok w p")
  case True
  with assms show ?thesis by (auto simp: put_file_def)
next
  case False
  have "below q p" if "below q (butlast p)"
  proof (cases p rule: rev_cases)
    case (snoc x y)
    with that show ?thesis by (auto simp: below_take)
  qed (use that in \<open>simp add: below_take\<close>)
  with assms(2) have "\<not> below q (butlast p)" "q \<noteq> p" by (auto simp: below_take)
  moreover from False assms(1) have "durable (\<lambda>t. AList.update p (put_node (File c) (map_of t p)) (add_dirs (butlast p) t)) w = (r, w')"
    by (simp add: put_file_def)
  ultimately show ?thesis
    by (elim durable_cases) (auto simp: lstat_def update_conv' map_of_add_dirs split: option.splits)
qed

lemma link_new_cases [consumes 1, case_names linked failed]:
  assumes "link_new p c w = (r, w')"
  obtains "r = Inr ()" "\<not> lexists w p" "\<And>q. file_at w' q = (if q = p then Some c else file_at w q)"
  | e where "r = Inl e" "\<And>q. file_at w' q = file_at w q"
proof (cases "lexists w p")
  case True
  with assms have "r = Inl (FileExistsError (''already exists: '' @ path_text p))" "w' = w"
    by (simp_all add: link_new_def)
  then show thesis by (intro that(2)) simp_all
next
  case False
  with assms have "durable (AList.update p (File c)) w = (r, w')" by (simp add: link_new_def)
  then show thesis
    by (rule durable_cases) (use that False in \<open>auto simp: file_at_tree update_conv'\<close>)
qed

lemma fsync_files: "fsync_path p w = (r, w') \<Longrightarrow> file_at w' q = file_at w q"
  using keepsD [OF keeps_fsync [where S = "{}"]] by (fastforce simp: same_outside_def)

lemma create_new_lstat: "create_new p w = (r, w') \<Longrightarrow> \<not> below q p \<Longrightarrow> lstat w' q = lstat w q"
  by (auto simp: create_new_def split: if_splits dest: put_file_lstat)

text \<open>The body of the publication: the temporary file, the link, and nothing else.\<close>

lemma publish_body:
  assumes "bindM (create_new t) (\<lambda>_. bindM (put_file t c) (\<lambda>_. bindM (link_new p c) (\<lambda>_. fsync_path v))) w = (r, w')"
    and "\<not> below p t"
  shows "same_outside {t, p} w w' \<and> (file_at w' p = file_at w p \<or> \<not> lexists w p \<and> file_at w' p = Some c)
    \<and> (r = Inr () \<longrightarrow> \<not> lexists w p \<and> file_at w' p = Some c)"
proof -
  have pt: "p \<noteq> t" using assms(2) by (auto simp: below_take)
  have stat_eq: "lstat x p = lstat w p \<Longrightarrow> file_at x p = file_at w p" for x by (simp add: file_at_def stat_def)
  from assms(1) show ?thesis
  proof (cases rule: bindM_cases)
    case (fails e)
    have "same_outside {t, p} w w'" by (rule keepsD [OF keeps_create_new [of t "{t, p}"] fails(1)]) simp
    moreover have "file_at w' p = file_at w p" using create_new_lstat [OF fails(1) assms(2)] by (rule stat_eq)
    ultimately show ?thesis using fails(2) by simp
  next
    case (continues u1 w1)
    have 1: "same_outside {t, p} w w1" "lstat w1 p = lstat w p"
      using keepsD [OF keeps_create_new [of t "{t, p}"] continues(1)] create_new_lstat [OF continues(1) assms(2)] by simp_all
    from continues(2) show ?thesis
    proof (cases rule: bindM_cases)
      case (fails e)
      have "same_outside {t, p} w1 w'" by (rule keepsD [OF keeps_put_file fails(1)]) simp
      with 1(1) have "same_outside {t, p} w w'" by (rule frame.R_trans)
      moreover have "file_at w' p = file_at w p" using put_file_lstat [OF fails(1) assms(2)] 1(2) by (intro stat_eq) simp
      ultimately show ?thesis using fails(2) by simp
    next
      case (continues u2 w2)
      have "same_outside {t, p} w1 w2" by (rule keepsD [OF keeps_put_file continues(1)]) simp
      with 1(1) have 2: "same_outside {t, p} w w2" by (rule frame.R_trans)
      have 3: "lstat w2 p = lstat w p" using put_file_lstat [OF continues(1) assms(2)] 1(2) by simp
      have there: "lexists w2 p \<longleftrightarrow> lexists w p" using 3 by (simp add: lexists_def)
      have 4: "file_at w2 p = file_at w p" using 3 by (rule stat_eq)
      from continues(2) show ?thesis
      proof (cases rule: bindM_cases)
        case (fails e)
        from fails(1) show ?thesis
        proof (cases rule: link_new_cases)
          case (failed e')
          with 2 4 fails show ?thesis by (auto simp: same_outside_def)
        qed (use fails in simp)
      next
        case (continues u3 w3)
        from continues(1) show ?thesis
        proof (cases rule: link_new_cases)
          case linked
          with 2 there fsync_files [OF continues(2)] show ?thesis by (simp add: same_outside_def)
        qed simp
      qed
    qed
  qed
qed

lemma cleanup_partial:
  assumes "bindM (getsM (\<lambda>w. lexists w t)) (\<lambda>there. whenM there (bindM (unlink t) (\<lambda>_. fsync_path v))) w = (r, w')"
  shows "same_outside {t} w w' \<and> (r = Inr () \<longrightarrow> file_at w' t = None)"
proof (cases "lexists w t")
  case False
  then have "file_at w t = None" using file_at_lexists by fastforce
  with False assms show ?thesis by (auto simp: whenM_def same_outside_def)
next
  case True
  have "keeps (same_outside {t}) (bindM (getsM (\<lambda>w. lexists w t))
      (\<lambda>there. whenM there (bindM (unlink t) (\<lambda>_. fsync_path v))))"
    by (intro frame_intros) simp
  then have frame: "same_outside {t} w w'" using assms by (rule keepsD)
  from True assms have "bindM (unlink t) (\<lambda>_. fsync_path v) w = (r, w')" by (simp add: whenM_def)
  then show ?thesis
  proof (cases rule: bindM_cases)
    case (continues u w1)
    with unlink_gone [of t w w1] fsync_files [OF continues(2)] frame show ?thesis by simp
  qed (use frame in simp)
qed

lemma publish_note_spec:
  fixes v t tmp
  assumes "publish_note E b target content w = (r, w')" "endswith target ''.md''"
  defines "t \<equiv> vault_root b @ [target]" and "tmp \<equiv> vault_root b @ [partial_name (fresh E (ticks w))]"
  shows "same_outside {tmp, t} w w' \<and> (file_at w' t = file_at w t \<or> \<not> lexists w t \<and> file_at w' t = Some content)
    \<and> (r = Inr () \<longrightarrow> \<not> lexists w t \<and> file_at w' t = Some content \<and> file_at w' tmp = None)"
proof (cases "lstat w (vault_root b) = Some Dir")
  case False
  with assms(1) show ?thesis
    by (auto simp: publish_note_def bindM_def failIf_def same_outside_def)
next
  case True
  let ?w1 = "w\<lparr>ticks := Suc (ticks w)\<rparr>"
  have ne: "target \<noteq> partial_name u" for u
  proof
    assume "target = partial_name u"
    with assms(2) show False by (simp add: partial_name_def endswith_def)
  qed
  then have p: "\<not> below t tmp" "t \<noteq> tmp" by (auto simp: below_take t_def tmp_def)
  let ?body = "bindM (create_new tmp) (\<lambda>_. bindM (put_file tmp content) (\<lambda>_. bindM (link_new t content) (\<lambda>_. fsync_path (vault_root b))))"
  let ?clean = "bindM (getsM (\<lambda>w. lexists w tmp)) (\<lambda>there. whenM there (bindM (unlink tmp) (\<lambda>_. fsync_path (vault_root b))))"
  have run: "finallyDo ?body ?clean ?w1 = (r, w')"
    using assms(1) True by (simp add: publish_note_def bindM_def failIf_def fresh_name_def tmp_def t_def Let_def)
  obtain r1 w1 where body: "?body ?w1 = (r1, w1)" by (cases "?body ?w1")
  obtain r2 w2 where clean: "?clean w1 = (r2, w2)" by (cases "?clean w1")
  have same: "file_at ?w1 q = file_at w q" "lexists ?w1 q \<longleftrightarrow> lexists w q" for q
    by (simp_all add: lexists_def lstat_def)
  note B = publish_body [OF body p(1)] and C = cleanup_partial [OF clean]
  show ?thesis
  proof (cases "crashed r1")
    case True
    then have "r \<noteq> Inr ()" "w' = w1" using run body by (auto simp: finallyDo_def crashed_def)
    with B show ?thesis by (simp add: same same_outside_def)
  next
    case False
    then have w': "w' = w2" "r = Inr () \<longrightarrow> r1 = Inr () \<and> r2 = Inr ()"
      using run body clean by (auto simp: finallyDo_def split: sum.splits)
    have "file_at w2 t = file_at w1 t" using C p(2) by (simp add: same_outside_def)
    with B C w' show ?thesis by (auto simp: same same_outside_def)
  qed
qed

section \<open>Sizes\<close>

text \<open>An upper bound of the length of a document in the wire format, before its UTF-8 encoding.\<close>

fun room :: "json \<Rightarrow> nat" where
  "room JNull = 4"
| "room (JBool b) = 5"
| "room (JInt i) = length (int_dec i)"
| "room (JStr s) = 2 + 6 * length s"
| "room (JList xs) = 2 + sum_list (map (\<lambda>v. 1 + room v) xs)"
| "room (JObj ps) = 2 + sum_list (map (\<lambda>p. 4 + 6 * length (fst p) + room (snd p)) ps)"

lemma sum_list_insort: "sum_list (map f (insort_key g x xs)) = (f x + sum_list (map f xs) :: nat)"
  by (induction xs) simp_all

lemma sum_list_sorted: "sum_list (map f (sort_key g xs)) = (sum_list (map f xs) :: nat)"
  by (induction xs) (simp_all add: sum_list_insort)

lemma room_jsort: "room (jsort v) = room v"
  by (induction v rule: jsort.induct) (simp_all add: sum_list_sorted comp_def cong: map_cong)

lemma length_join: "length (join sep ws) \<le> sum_list (map (\<lambda>w. length sep + length w) ws)"
proof (induction ws)
  case (Cons a ws)
  then show ?case by (cases ws) simp_all
qed simp

lemma length_quote: "length (quote escape_raw s) \<le> 2 + 6 * length s"
proof (induction s)
  case (Cons c s)
  have "length (escape_raw c) \<le> 6" by (simp add: escape_raw_def escape_char_def Let_def)
  with Cons show ?case by (simp add: quote_def)
qed (simp add: quote_def)

lemma length_render: "length (render escape_raw (\<lambda>_. []) [] d v) \<le> room v"
proof (induction v arbitrary: d)
  case (JStr s)
  then show ?case using length_quote by simp
next
  case (JList xs)
  let ?ws = "map (render escape_raw (\<lambda>_. []) [] (Suc d)) xs"
  have "sum_list (map (\<lambda>w. length '','' + length w) ?ws) \<le> sum_list (map (\<lambda>v. 1 + room v) xs)"
    by (simp add: comp_def, rule sum_list_mono) (use JList in auto)
  with length_join [of "'',''" ?ws] show ?case by simp
next
  case (JObj ps)
  let ?ws = "map (\<lambda>p. quote escape_raw (fst p) @ '':'' @ render escape_raw (\<lambda>_. []) [] (Suc d) (snd p)) ps"
  have "sum_list (map (\<lambda>w. length '','' + length w) ?ws) \<le> sum_list (map (\<lambda>p. 4 + 6 * length (fst p) + room (snd p)) ps)"
  proof (simp add: comp_def, rule sum_list_mono)
    fix x assume "x \<in> set ps"
    then have "length (render escape_raw (\<lambda>_. []) [] (Suc d) (snd x)) \<le> room (snd x)"
      by (rule JObj) (cases x, simp)
    then show "Suc (Suc (length (quote escape_raw (fst x)) + length (render escape_raw (\<lambda>_. []) [] (Suc d) (snd x))))
        \<le> 4 + 6 * length (fst x) + room (snd x)"
      using length_quote [of "fst x"] by simp
  qed
  with length_join [of "'',''" ?ws] show ?case by simp
qed simp_all

lemma broker_json_room: "length (broker_json v) \<le> 2 * room v + 2"
proof -
  have "length (utf8 s) \<le> 2 * length s" for s
    by (induction s) (simp_all add: utf8_def utf8_char_def Let_def)
  from this [of "render escape_raw (\<lambda>_. []) [] 0 (jsort v) @ [CHR 0x0A]"] length_render [of 0 "jsort v"]
  show ?thesis by (simp add: broker_json_def room_jsort)
qed

end
