(* ===== verification/BrokerTheorems.thy ===== *)
theory BrokerTheorems
  imports WriteBrokerProps
begin

text \<open>
  The properties of the write broker: what a request can do to the vault, what an answer means, and
  that completed requests are answered again without any effect.
\<close>

section \<open>Answers\<close>

lemma attempt_Inr:
  "attempt c m f g w = (Inr y, w') \<longleftrightarrow>
     (\<exists>x u. m w = (Inr x, u) \<and> f x u = (Inr y, w')) \<or> (\<exists>e u. m w = (Inl e, u) \<and> c e \<and> g e u = (Inr y, w'))"
  by (auto simp: attempt_def split: prod.splits sum.splits)

lemma dget_response [simp]:
  "dget (response out fs) ''outcome'' = JStr out"
  "dget (response out fs) ''schema_version'' = JInt 1"
  "dget (response out fs) ''protocol'' = JStr PROTOCOL"
  "dget (response out ((''request_id'', rid) # fs)) ''request_id'' = rid"
  by (simp_all add: response_def)

lemma pending_outcome: "pending i t = Inr d \<Longrightarrow> dget d ''outcome'' = JStr ''ACCEPTED''"
  by (auto simp: pending_def bindE_eq_Inr simp del: didx_Inr)

lemma dget_filter: "dget d k = dget (filter (\<lambda>p. fst p = k) d) k"
  by (induction d) auto

lemma dget_sorted: "dget (sort_key fst d) k = dget d k"
proof -
  have "filter (\<lambda>p. fst p = k) (sort_key fst d) = filter (\<lambda>p. fst p = k) d" by (rule sort_key_stable)
  then show ?thesis by (metis dget_filter)
qed

lemma dget_map: "k \<in> set (dkeys d) \<Longrightarrow> dget (map (\<lambda>p. (fst p, f (snd p))) d) k = f (dget d k)"
  by (induction d) auto

lemma dget_mapped: "f JNull = JNull \<Longrightarrow> dget (map (\<lambda>p. (fst p, f (snd p))) d) k = f (dget d k)"
  by (induction d) auto

lemma pyeq_dget:
  assumes "pyeq (JObj d) (JObj e)"
  shows "pyeq (dget d k) (dget e k)"
proof -
  have one: "dget (obj_of (jnum (jsort (JObj x)))) k = jnum (jsort (dget x k))" for x
    by (simp add: dget_mapped dget_sorted)
  have "jnum (jsort (JObj d)) = jnum (jsort (JObj e))" using assms by (simp add: pyeq_def)
  then have "jnum (jsort (dget d k)) = jnum (jsort (dget e k))" by (metis one)
  then show ?thesis by (simp add: pyeq_def)
qed

text \<open>Publishing a result gives it back, or the equal result that is stored already.\<close>

lemma publish_result_cases:
  assumes "publish_result b result w = (Inr d, w')" "dget result ''request_id'' = JStr rid"
  obtains "write_exclusive (result_path b rid) (broker_json (JObj result)) w = (Inr (), w')" "d = result"
  | "stored_result w' b rid = Inr (Some d)" "pyeq (JObj d) (JObj result)"
proof -
  let ?put = "write_exclusive (result_path b rid) (broker_json (JObj result))"
  let ?taken = "bindM (askM (\<lambda>w. stored_result w b rid)) (\<lambda>existing. case existing of
      Some old \<Rightarrow> if pyeq (JObj old) (JObj result) then retM old else raiseM (broker_error ''broker result state conflicts'')
    | None \<Rightarrow> raiseM (broker_error ''broker result state conflicts''))"
  from assms have "(\<exists>u. ?put w = (Inr u, w') \<and> d = result) \<or> (\<exists>e s. ?put w = (Inl e, s) \<and> ?taken s = (Inr d, w'))"
    unfolding publish_result_def Let_def attempt_Inr by auto
  then show thesis
  proof (elim disjE exE conjE)
    fix e s assume t: "?taken s = (Inr d, w')"
    then obtain existing where x: "stored_result s b rid = Inr existing"
      by (auto simp: bindM_askM split: sum.splits)
    show thesis
    proof (cases existing)
      case None
      with t x show thesis by (simp add: bindM_askM)
    next
      case (Some old)
      with t x that(2) show thesis by (simp add: bindM_askM split: if_splits)
    qed
  qed (use that(1) in simp)
qed

lemma publish_result_pyeq:
  assumes "publish_result b result w = (Inr d, w')" "dget result ''request_id'' = JStr rid"
  shows "pyeq (JObj d) (JObj result)"
  using assms by (rule publish_result_cases) simp_all

lemma published_outcome:
  assumes "publish_result b result w = (Inr d, w')" "dget result ''request_id'' = JStr rid"
    "dget result ''outcome'' = JStr out"
  shows "dget d ''outcome'' = JStr out"
  using pyeq_dget [OF publish_result_pyeq [OF assms(1,2)], of "''outcome''"] assms(3) by simp

lemma rejected_fields [simp]:
  "dget (rejected rid m fs) ''outcome'' = JStr ''REJECTED''" "dget (rejected rid m fs) ''request_id'' = rid"
  by (simp_all add: rejected_def response_def)

section \<open>An applied note is in the vault\<close>

lemma utf8_empty [simp]: "utf8 s = [] \<longleftrightarrow> s = []"
proof -
  have "utf8_char c \<noteq> []" for c by (simp add: utf8_char_def Let_def)
  then show ?thesis by (cases s) (simp_all add: utf8_def)
qed

lemma render_capture_not_empty: "render_capture Y i = Inr c \<Longrightarrow> c \<noteq> []"
  by (auto simp: render_capture_def bindE_eq_Inr render_markdown_def fence_def)

lemma present_content_file:
  assumes "present_content w p = Inr c" "c \<noteq> []"
  shows "file_at w p = Some c"
  using assms
  by (auto simp: present_content_def read_bounded_regular_def file_at_def stat_def broker_error_def
      split: option.splits node.splits if_splits)

lemma intent_contentD:
  assumes "intent_content E i = Inr (c, t)"
  shows "c \<noteq> []" "endswith t ''.md''" "dget i ''target'' = JStr t"
proof -
  have r: "render_capture (yaml_of (lib E)) i = Inr c" and v: "valid_target (dget i ''target'')"
    and t: "t = str_of (dget i ''target'')"
    using assms unfolding intent_content_def bindE_eq_Inr bindE_raiseIf by auto
  from r show "c \<noteq> []" by (rule render_capture_not_empty)
  from v t show "endswith t ''.md''" "dget i ''target'' = JStr t"
    by (auto simp: valid_target_def split: json.splits)
qed

lemma note_protected:
  assumes "endswith t ''.md''"
  shows "protected b (vault_root b @ [t])"
proof -
  have "\<not> endswith t ''.homeops-partial''"
  proof
    assume "endswith t ''.homeops-partial''"
    then obtain a where "t = a @ ''.homeops-partial''" unfolding endswith_def by (metis append_take_drop_id)
    with assms show False by (simp add: endswith_def)
  qed
  then show ?thesis by (simp add: protected_def note_path_def)
qed

lemma recover_applied:
  assumes "recover_note E b i content target w = (Inr resp, w')" "dget resp ''outcome'' = JStr ''APPLIED''"
    and "polite E b" "content \<noteq> []" "endswith target ''.md''" "dget i ''request_id'' = JStr rid"
  shows "file_at w' (vault_root b @ [target]) = Some content"
proof -
  let ?p = "vault_root b @ [target]"
  from assms(1) obtain c where c: "present_content w ?p = Inr c"
    and rest: "(if c \<noteq> content then publish_result b (rejected (dget i ''request_id'') ''capture target already exists with different content'' [])
     else bindM (meanwhile E 1) (\<lambda>_. attempt unreadable (inspect E (vault_root b))
         (\<lambda>inspected. if validation_errors inspected \<noteq> [] then liftM (pending i ''waiting-for-valid-vault'')
            else publish_applied E b i inspected True True False)
         (\<lambda>_. liftM (pending i ''waiting-for-readable-vault'')))) w = (Inr resp, w')"
    unfolding recover_note_def bindM_eq_Inr askM_Inr by blast
  have same: "c = content"
  proof (rule ccontr)
    assume "c \<noteq> content"
    with rest have "publish_result b (rejected (dget i ''request_id'') ''capture target already exists with different content'' []) w = (Inr resp, w')"
      by simp
    from published_outcome [OF this, of rid "''REJECTED''"] assms(2,6) show False by simp
  qed
  have "file_at w ?p = Some content" using present_content_file [OF c] assms(4) same by simp
  moreover have "kept (protected b) w w'" using kept_recover [OF assms(3)] assms(1) by (rule keepsD)
  ultimately show ?thesis using note_protected [OF assms(5)] by (blast intro: kept_file)
qed

text \<open>What is left of a step when the answer is not one of the pending ones.\<close>

lemma attempt_pending:
  assumes "attempt c m f (\<lambda>e. liftM (pending i (t e))) w = (Inr resp, w')" "\<And>t. pending i t \<noteq> Inr resp"
  shows "\<exists>x u. m w = (Inr x, u) \<and> f x u = (Inr resp, w')"
  using assms by (simp add: attempt_Inr)

lemma if_pending:
  assumes "(if c then liftM (pending i t) else m) w = (Inr resp, w')" "\<And>t. pending i t \<noteq> Inr resp"
  shows "m w = (Inr resp, w')"
  using assms by (simp split: if_splits)

lemma meanwhile_run: "bindM (meanwhile E k) (\<lambda>_. m) w = r \<Longrightarrow> m (others E k w) = r"
  by (simp add: meanwhile_def)

text \<open>The one path of the publication that does not leave the request pending.\<close>

lemma publish_checked_run:
  assumes "publish_checked E b i content target base cand idem w = (Inr resp, w')" "\<And>t. pending i t \<noteq> Inr resp"
  obtains u w1 w2 where "publish_note E b target content w1 = (Inr u, w2)"
    "bindM (changed_by_others E b cand) (\<lambda>changed. publish_applied E b i cand False idem changed) w2 = (Inr resp, w')"
proof -
  from attempt_pending [OF meanwhile_run [OF assms(1) [unfolded publish_checked_def]] assms(2)]
  obtain before s where "(if \<not> same_vault_identity before base \<or> validation_errors before \<noteq> []
      then liftM (pending i ''waiting-for-stable-vault'')
      else bindM (meanwhile E 4) (\<lambda>_. attempt is_os_error (publish_note E b target content)
        (\<lambda>_. bindM (changed_by_others E b cand) (\<lambda>changed. publish_applied E b i cand False idem changed))
        (\<lambda>e. liftM (pending i (case e of FileExistsError m \<Rightarrow> ''waiting-for-stable-vault''
            | _ \<Rightarrow> ''waiting-for-writable-vault''))))) s = (Inr resp, w')"
    by blast
  from attempt_pending [OF meanwhile_run [OF if_pending [OF this assms(2)]] assms(2)] that
  show thesis by blast
qed

lemma publish_checked_applied:
  assumes "publish_checked E b i content target base cand idem w = (Inr resp, w')" "dget resp ''outcome'' = JStr ''APPLIED''"
    and "polite E b" "endswith target ''.md''"
  shows "file_at w' (vault_root b @ [target]) = Some content"
proof -
  have no: "pending i t \<noteq> Inr resp" for t using pending_outcome [of i t resp] assms(2) by auto
  from assms(1) obtain u w1 w2 where pub: "publish_note E b target content w1 = (Inr u, w2)"
    and rest: "bindM (changed_by_others E b cand) (\<lambda>changed. publish_applied E b i cand False idem changed) w2 = (Inr resp, w')"
    using no by (rule publish_checked_run)
  have "file_at w2 (vault_root b @ [target]) = Some content"
    using publish_note_spec [OF pub assms(4)] by simp
  moreover have "keeps (kept (protected b)) (bindM (changed_by_others E b cand) (\<lambda>changed. publish_applied E b i cand False idem changed))"
    using assms(3) by (intro kept.keeps_bind kept_changed kept_publish_applied)
  then have "kept (protected b) w2 w'" using rest by (rule keepsD)
  ultimately show ?thesis using note_protected [OF assms(4)] by (blast intro: kept_file)
qed

text \<open>A capture that is not left pending was rejected after staging, or went on to publish.\<close>

lemma capture_into_cases:
  assumes "capture_into_vault E b i content target idem w = (Inr resp, w')" "\<And>t. pending i t \<noteq> Inr resp"
    and "dget i ''request_id'' = JStr rid"
  obtains cand s where "validation_errors cand \<noteq> []"
      "publish_result b (rejected (JStr rid) ''capture would violate the vault validation contract''
         [(''validation_errors'', JList (validation_errors cand))]) s = (Inr resp, w')"
  | base cand s s' where "stage_candidate E b rid target content s' = (Inr (Some cand), s)"
      "publish_checked E b i content target base cand idem s = (Inr resp, w')"
proof -
  let ?go = "\<lambda>base staged. case staged of None \<Rightarrow> liftM (pending i ''waiting-for-stable-vault'')
    | Some candidate \<Rightarrow> if validation_errors candidate \<noteq> [] then publish_result b (rejected (JStr rid)
          ''capture would violate the vault validation contract'' [(''validation_errors'', JList (validation_errors candidate))])
        else publish_checked E b i content target base candidate idem"
  from attempt_pending [OF meanwhile_run [OF assms(1) [unfolded capture_into_vault_def assms(3) str_of.simps]] assms(2)]
  obtain base s where "(if validation_errors base \<noteq> [] then liftM (pending i ''waiting-for-valid-vault'')
      else bindM (stage_candidate E b rid target content) (?go base)) s = (Inr resp, w')"
    by blast
  then have "bindM (stage_candidate E b rid target content) (?go base) s = (Inr resp, w')"
    by (rule if_pending) (rule assms(2))
  then obtain staged s1 where st: "stage_candidate E b rid target content s = (Inr staged, s1)"
    and go: "?go base staged s1 = (Inr resp, w')" unfolding bindM_eq_Inr by blast
  show thesis
  proof (cases staged)
    case None
    with go assms(2) show thesis by simp
  next
    case (Some cand)
    with go st that show thesis by (cases "validation_errors cand = []") simp_all
  qed
qed

lemma capture_into_applied:
  assumes "capture_into_vault E b i content target idem w = (Inr resp, w')" "dget resp ''outcome'' = JStr ''APPLIED''"
    and "polite E b" "endswith target ''.md''" "dget i ''request_id'' = JStr rid"
  shows "file_at w' (vault_root b @ [target]) = Some content"
proof -
  have no: "pending i t \<noteq> Inr resp" for t using pending_outcome [of i t resp] assms(2) by auto
  have rej: "publish_result b (rejected (JStr rid) m fs) s \<noteq> (Inr resp, s')" for m fs s s'
  proof
    assume "publish_result b (rejected (JStr rid) m fs) s = (Inr resp, s')"
    from published_outcome [OF this, of rid "''REJECTED''"] assms(2) show False by simp
  qed
  from assms(1) no assms(5) show ?thesis
  proof (cases rule: capture_into_cases)
    case (2 base cand s s')
    from 2(2) show ?thesis by (rule publish_checked_applied) (rule assms)+
  qed (use rej in blast)
qed

lemma process_applied:
  assumes "process_intent E b i idem w = (Inr resp, w')" "dget resp ''outcome'' = JStr ''APPLIED''"
    and "polite E b" "stored_result w b (str_of (dget i ''request_id'')) = Inr None"
  shows "\<exists>content target. intent_content E i = Inr (content, target)
    \<and> file_at w' (vault_root b @ [target]) = Some content"
proof -
  have no: "pending i t \<noteq> Inr resp" for t using pending_outcome [of i t resp] assms(2) by auto
  from assms(1) obtain rid where rid: "dget i ''request_id'' = JStr rid"
    and rest: "bindM (askM (\<lambda>w. stored_result w b rid)) (\<lambda>found. case found of
       Some result \<Rightarrow> retM (dput result ''idempotent'' (JBool True))
     | None \<Rightarrow> bindM (liftM (intent_content E i)) (\<lambda>(content, target).
         bindM (meanwhile E 0) (\<lambda>_.
         attempt is_os_error (askM (\<lambda>w. lstat_there w (vault_root b @ [target])))
           (\<lambda>there. if there then recover_note E b i content target
              else capture_into_vault E b i content target idem)
           (\<lambda>_. liftM (pending i ''waiting-for-readable-vault''))))) w = (Inr resp, w')"
    by (auto simp: process_intent_def bindM_liftM validate_uuid4_def split: sum.splits json.splits if_splits)
  have "stored_result w b rid = Inr None" using assms(4) rid by simp
  with rest obtain p where p: "intent_content E i = Inr p"
    and after: "(case p of (content, target) \<Rightarrow> bindM (meanwhile E 0) (\<lambda>_.
         attempt is_os_error (askM (\<lambda>w. lstat_there w (vault_root b @ [target])))
           (\<lambda>there. if there then recover_note E b i content target
              else capture_into_vault E b i content target idem)
           (\<lambda>_. liftM (pending i ''waiting-for-readable-vault'')))) w = (Inr resp, w')"
    by (cases "intent_content E i") (simp_all add: bindM_askM)
  obtain content target where c: "intent_content E i = Inr (content, target)" and q: "p = (content, target)"
    using p by (cases p) simp
  from attempt_pending [OF meanwhile_run [OF after [unfolded q prod.case]] no]
  obtain there s where run: "(if there then recover_note E b i content target
      else capture_into_vault E b i content target idem) s = (Inr resp, w')" by blast
  note d = intent_contentD [OF c]
  have "file_at w' (vault_root b @ [target]) = Some content"
  proof (cases there)
    case True
    with run have "recover_note E b i content target s = (Inr resp, w')" by simp
    then show ?thesis by (rule recover_applied) (rule assms d rid)+
  next
    case False
    with run have "capture_into_vault E b i content target idem s = (Inr resp, w')" by simp
    then show ?thesis by (rule capture_into_applied) (rule assms d rid)+
  qed
  with c show ?thesis by blast
qed

section \<open>Stored documents read back\<close>

definition no_nul :: "string \<Rightarrow> bool" where
  "no_nul s \<longleftrightarrow> CHR 0x00 \<notin> set s"

lemma no_nul_simps [simp]: "no_nul []" "no_nul (c # s) \<longleftrightarrow> c \<noteq> CHR 0x00 \<and> no_nul s"
  "no_nul (s @ t) \<longleftrightarrow> no_nul s \<and> no_nul t"
  by (auto simp: no_nul_def)

lemma digit_not_nul: "is_digit c \<Longrightarrow> c \<noteq> CHR 0x00"
  by (auto simp: is_digit_def code_of_def)

lemma no_nul_nat: "no_nul (nat_dec n)"
  using nat_dec_digits [of n] digit_not_nul by (auto simp: no_nul_def)

lemma char_of_not_nul:
  fixes n :: nat
  assumes "0 < n" "n < 256"
  shows "char_of n \<noteq> CHR 0x00"
proof
  assume e: "char_of n = CHR 0x00"
  have "code_of (CHR 0x00) = 0" by (simp add: code_of_def)
  moreover have "code_of (char_of n) = n" using assms(2) by (rule code_of_char_of)
  ultimately show False using assms(1) unfolding e by simp
qed

lemma no_nul_escape: "no_nul (escape_raw c)"
proof -
  have h: "hex_digit n \<noteq> CHR 0x00" if "n < 16" for n
    unfolding hex_digit_def using that by (simp add: char_of_not_nul)
  have "escape_raw (CHR 0x00) = [CHR 0x5C, CHR ''u'', CHR ''0'', CHR ''0'', CHR ''0'', CHR ''0'']" by code_simp
  moreover have "hex_digit (code_of c div 16) \<noteq> CHR 0x00" "hex_digit (code_of c mod 16) \<noteq> CHR 0x00"
    using h code_of_lt [of c] by auto
  ultimately show ?thesis
    by (cases "c = CHR 0x00") (auto simp: escape_raw_def escape_char_def Let_def)
qed

lemma no_nul_quote: "no_nul (quote escape_raw s)"
proof -
  have "no_nul (concat (map escape_raw s))" by (induction s) (simp_all add: no_nul_escape)
  then show ?thesis by (simp add: quote_def)
qed

lemma no_nul_join: "no_nul sep \<Longrightarrow> \<forall>w \<in> set ws. no_nul w \<Longrightarrow> no_nul (join sep ws)"
  by (induction sep ws rule: join.induct) auto

lemma no_nul_render:
  assumes "\<And>d. no_nul (nl d)" "no_nul sp"
  shows "no_nul (render escape_raw nl sp d v)"
  using assms
proof (induction escape_raw nl sp d v rule: render.induct)
  case (3 nl sp d i)
  then show ?case by (simp add: int_dec_def no_nul_nat)
next
  case (5 nl sp d xs)
  then have "xs \<noteq> [] \<Longrightarrow> no_nul (join ('','' @ nl (Suc d)) (map (render escape_raw nl sp (Suc d)) xs))"
    by (intro no_nul_join) auto
  with 5 show ?case by simp
next
  case (6 nl sp d ps)
  then have "ps \<noteq> [] \<Longrightarrow> no_nul (join ('','' @ nl (Suc d)) (map (\<lambda>p. quote escape_raw (fst p) @ '':'' @ sp @ render escape_raw nl sp (Suc d) (snd p)) ps))"
    by (intro no_nul_join) (auto simp: no_nul_quote)
  with 6 show ?case by simp
qed (simp_all add: no_nul_quote)

lemma no_nul_utf8: "no_nul s \<Longrightarrow> no_nul (utf8 s)"
proof (induction s)
  case (Cons c s)
  have "char_of (192 + code_of c div 64) \<noteq> CHR 0x00" "char_of (128 + code_of c mod 64) \<noteq> CHR 0x00"
  proof -
    have "code_of c div 64 < 4" "code_of c mod 64 < 64" using code_of_lt [of c] by auto
    then show "char_of (192 + code_of c div 64) \<noteq> CHR 0x00" "char_of (128 + code_of c mod 64) \<noteq> CHR 0x00"
      by (simp_all add: char_of_not_nul)
  qed
  with Cons show ?case by (simp add: utf8_def utf8_char_def Let_def)
qed (simp add: utf8_def)

lemma broker_json_reads:
  assumes "wf_json v"
  shows "json_loads_bytes (broker_json v) = Inr (jsort v)"
proof -
  let ?t = "render escape_raw (\<lambda>_. []) [] 0 (jsort v) @ [CHR 0x0A]"
  have "no_nul (broker_json v)" unfolding broker_json_def by (intro no_nul_utf8) (simp add: no_nul_render)
  then have "CHR 0x00 \<notin> set (take 4 (broker_json v))" unfolding no_nul_def by (meson in_set_takeD)
  moreover have "json_loads ?t = Inr (jsort v)"
    using json_loads_render [OF layouts(2) wf_json_jsort [OF assms], of "[CHR 0x0A]" 0] by (simp add: blank_def)
  ultimately show ?thesis by (simp add: json_loads_bytes_def broker_json_def)
qed

lemma load_broker_json_reads:
  assumes "lstat w p = Some (File (broker_json (JObj d)))" "wf_json (JObj d)" "length (broker_json (JObj d)) \<le> maximum"
  shows "load_broker_json w p maximum = Inr (obj_of (jsort (JObj d)))"
proof -
  have "broker_json (JObj d) \<noteq> []" by (simp add: broker_json_def)
  then have "read_bounded_regular w p maximum = Inr (broker_json (JObj d))"
    using assms(1,3) by (simp add: read_bounded_regular_def)
  then show ?thesis using broker_json_reads [OF assms(2)] by (simp add: load_broker_json_def rewrap_def)
qed

section \<open>Completed requests\<close>

lemma write_exclusive_written:
  assumes "write_exclusive p c w = (Inr (), w')" "p \<noteq> []"
  shows "lstat w' p = Some (File c)"
proof -
  from assms(1) obtain w1 w2 where 1: "create_new p w = (Inr (), w1)"
    and 2: "catchM (put_file p c) (\<lambda>e. if e = Crash then None else Some (bindM (unlink_quietly p) (\<lambda>_. raiseM e))) w1 = (Inr (), w2)"
    and 3: "fsync_path (butlast p) w2 = (Inr (), w')"
    by (auto simp: write_exclusive_def bindM_eq_Inr)
  have new: "\<not> lexists w p" "put_file p [] w = (Inr (), w1)" using 1 by (auto simp: create_new_def split: if_splits)
  have written: "lstat y p = Some (put_node (File d) (lstat x p))"
    if "put_file p d x = (Inr (), y)" "lstat x p = None \<or> lexists x p" for d x y
  proof -
    have "durable (\<lambda>t. AList.update p (put_node (File d) (map_of t p)) (add_dirs (butlast p) t)) x = (Inr (), y)"
      using that by (auto simp: put_file_def split: if_splits)
    then show ?thesis by (rule durable_cases) (simp_all add: lstat_def update_conv')
  qed
  have one: "lstat w1 p = Some (File [])" using written [OF new(2)] new(1) by (auto simp: lexists_def)
  have no: "\<not> (bindM (unlink_quietly p) (\<lambda>_. raiseM e)) s = (Inr (), t)" for e s t
    by (auto simp: bindM_eq_Inr)
  have "put_file p c w1 = (Inr (), w2)"
    using 2 no by (auto simp: catchM_def split: prod.splits sum.splits if_splits)
  from written [OF this] one have "lstat w2 p = Some (File c)" by (simp add: lexists_def)
  with keepsD [OF kept_fsync [of "\<lambda>q. True"] 3] show ?thesis by (simp add: kept_def)
qed

definition same_answer :: "dict \<Rightarrow> dict \<Rightarrow> bool" where
  "same_answer d e \<longleftrightarrow> (\<forall>k. pyeq (dget d k) (if k = ''idempotent'' then JBool True else dget e k))"

lemma stored_result_there:
  assumes "lstat w (result_path b rid) = Some (File (broker_json (JObj result)))" "wf_json (JObj result)"
    and "length (broker_json (JObj result)) \<le> MAX_RESPONSE_BYTES"
    and "dget result ''schema_version'' = JInt 1" "dget result ''protocol'' = JStr PROTOCOL" "dget result ''request_id'' = JStr rid"
  shows "stored_result w b rid = Inr (Some (obj_of (jsort (JObj result))))"
proof -
  have "exists_path w (result_path b rid)" using assms(1) by (simp add: exists_path_def stat_def)
  moreover have "dget (obj_of (jsort (JObj result))) k = jsort (dget result k)" for k
    using assms(2) by (rule dget_jsort)
  ultimately show ?thesis
    using load_broker_json_reads [OF assms(1-3)] assms(4-6) by (simp add: stored_result_def raiseIf_def del: jsort.simps)
qed

lemma stored_result_cong:
  assumes "lstat w (result_path b rid) = lstat w' (result_path b rid)"
  shows "stored_result w b rid = stored_result w' b rid"
  by (simp add: stored_result_def exists_path_def stat_def load_broker_json_def read_bounded_regular_def assms)

lemma same_answer_jsort:
  assumes "wf_json (JObj d)"
  shows "same_answer (dput (obj_of (jsort (JObj d))) ''idempotent'' (JBool True)) d"
  using assms pyeq_jsort wf_dget by (auto simp: same_answer_def dget_jsort simp del: jsort.simps)

lemma same_answer_pyeq:
  assumes "same_answer d e" "\<And>k. k \<noteq> ''idempotent'' \<Longrightarrow> pyeq (dget e k) (dget f k)"
  shows "same_answer d f"
  using assms by (auto simp: same_answer_def intro: pyeq_trans)

text \<open>The size that the reader accepts.\<close>

definition at_most :: "nat \<Rightarrow> world \<Rightarrow> path \<Rightarrow> bool" where
  "at_most n w p = (case lstat w p of Some (File c) \<Rightarrow> length c \<le> n | _ \<Rightarrow> True)"

definition answered :: "world \<Rightarrow> broker \<Rightarrow> string \<Rightarrow> dict \<Rightarrow> bool" where
  "answered w b rid resp \<longleftrightarrow> (\<exists>st. stored_result w b rid = Inr (Some st)
     \<and> same_answer (dput st ''idempotent'' (JBool True)) resp)"

lemma publish_result_stored:
  assumes "publish_result b result w = (Inr d, w')" "wf_json (JObj result)"
    and "at_most MAX_RESPONSE_BYTES w' (result_path b rid)"
    and "dget result ''schema_version'' = JInt 1" "dget result ''protocol'' = JStr PROTOCOL" "dget result ''request_id'' = JStr rid"
  shows "answered w' b rid d"
  using assms(1,6)
proof (cases rule: publish_result_cases)
  case 1
  have there: "lstat w' (result_path b rid) = Some (File (broker_json (JObj result)))"
    using 1(1) by (rule write_exclusive_written) (simp add: result_path_def)
  then have "length (broker_json (JObj result)) \<le> MAX_RESPONSE_BYTES" using assms(3) by (simp add: at_most_def)
  from stored_result_there [OF there assms(2) this assms(4-6)] same_answer_jsort [OF assms(2)] 1(2)
  show ?thesis by (auto simp: answered_def)
next
  case 2
  have "same_answer (dput d ''idempotent'' (JBool True)) d" by (simp add: same_answer_def)
  with 2(1) show ?thesis by (auto simp: answered_def)
qed

lemma wf_rejected: "wf_json (JObj (rejected (JStr rid) m fs))" if "wf_json (JObj fs)" "fst ` set fs \<subseteq> {''validation_errors''}"
  using that by (auto simp: rejected_def response_def)

lemma wf_errors: "wf_json (JList (validation_errors d))"
  by (auto simp: validation_errors_def list_all_iff item_text_def)

lemma rejected_answered:
  assumes "publish_result b (rejected (JStr rid) m fs) w = (Inr d, w')" "wf_json (JObj fs)" "fst ` set fs \<subseteq> {''validation_errors''}"
    and "at_most MAX_RESPONSE_BYTES w' (result_path b rid)"
  shows "answered w' b rid d"
  using publish_result_stored [OF assms(1) wf_rejected [OF assms(2,3)] assms(4)]
  by (simp add: rejected_def)

lemma applied_answered:
  assumes "publish_applied E b i insp x y z w = (Inr resp, w')" "wf_json (JObj i)" "wf_json (dget insp ''source_fingerprint'')"
    and "dget i ''request_id'' = JStr rid" "at_most MAX_RESPONSE_BYTES w' (result_path b rid)"
  shows "answered w' b rid resp"
proof -
  from assms(1) obtain now result stored s where r: "applied i insp now x z = Inr result"
    and p: "publish_result b result s = (Inr stored, w')" and resp: "resp = dput stored ''idempotent'' (JBool y)"
    by (auto simp: publish_applied_def bindM_eq_Inr)
  from r obtain rid' doc target h f where v: "map_of i ''request_id'' = Some rid'" "map_of i ''document_id'' = Some doc"
      "map_of i ''target'' = Some target" "map_of i ''content_sha256'' = Some h" "map_of insp ''source_fingerprint'' = Some f"
    and result: "result = response ''APPLIED'' [(''request_id'', rid'), (''retryable'', JBool False), (''document_id'', doc),
       (''source_path'', target), (''content_sha256'', h), (''source_fingerprint'', f),
       (''applied_at'', JStr now), (''recovered'', JBool x), (''concurrent_source_change'', JBool z)]"
    by (auto simp: applied_def bindE_eq_Inr)
  have rid: "rid' = JStr rid" using v(1) assms(4) by (simp add: map_of_dget)
  have "wf_json (dget i k)" for k using assms(2) by (rule wf_dget)
  then have "wf_json doc" "wf_json target" "wf_json h" using v(2-4) by (metis map_of_dget)+
  moreover have "wf_json f" using assms(3) v(5) by (simp add: map_of_dget)
  ultimately have "wf_json (JObj result)" by (simp add: result rid response_def)
  then have "answered w' b rid stored"
    using publish_result_stored [OF p _ assms(5)] by (simp add: result rid response_def)
  moreover have "same_answer x (dput stored ''idempotent'' (JBool y)) \<longleftrightarrow> same_answer x stored" for x
    unfolding same_answer_def by (simp cong: if_cong)
  ultimately show ?thesis by (simp add: answered_def resp)
qed

lemma inspect_wf: "inspect E root w = (Inr d, w') \<Longrightarrow> wf_json (dget d ''source_fingerprint'')"
  by (auto simp: inspect_def askM_Inr validation_report_def inspect_vault_def inspect_documents_def Let_def bindE_eq_Inr)

lemma stage_candidate_wf:
  assumes "stage_candidate E b rid target content w = (Inr (Some d), w')"
  shows "wf_json (dget d ''source_fingerprint'')"
proof -
  let ?m = "\<lambda>c. bindM (meanwhile E 2) (\<lambda>_. bindM (fresh_name E) (\<lambda>u.
      bindM (export_snapshot u (vault_root b) c) (\<lambda>_. bindM (put_file (c @ [target]) content) (\<lambda>_. inspect E c))))"
  have staged: "\<exists>s s'. inspect E c s = (Inr d, s')"
    if a: "attempt unreadable (?m c) (\<lambda>i. retM (Some i)) (\<lambda>_. retM None) s = (Inr (Some d), s')" for c s s'
  proof -
    from a obtain t where "?m c s = (Inr d, t)" by (auto simp: attempt_Inr)
    then show ?thesis unfolding bindM_eq_Inr by blast
  qed
  have last: "finallyDo m f s = (Inr r, s') \<Longrightarrow> \<exists>t. m s = (Inr r, t)" for m :: "dict option wprog" and f r s s'
    by (auto simp: finallyDo_def split: prod.splits sum.splits if_splits)
  from assms obtain c s s' where "attempt unreadable (?m c) (\<lambda>i. retM (Some i)) (\<lambda>_. retM None) s = (Inr (Some d), s')"
    unfolding stage_candidate_def Let_def bindM_eq_Inr by (blast dest: last)
  with staged inspect_wf show ?thesis by blast
qed

text \<open>Whatever is not left pending is stored as the answer.\<close>

lemma publish_checked_answered:
  assumes "publish_checked E b i content target base cand idem w = (Inr resp, w')" "\<And>t. pending i t \<noteq> Inr resp"
    and "wf_json (JObj i)" "wf_json (dget cand ''source_fingerprint'')" "dget i ''request_id'' = JStr rid"
    and "at_most MAX_RESPONSE_BYTES w' (result_path b rid)"
  shows "answered w' b rid resp"
proof -
  from assms(1,2) obtain u w1 w2 where
    "bindM (changed_by_others E b cand) (\<lambda>changed. publish_applied E b i cand False idem changed) w2 = (Inr resp, w')"
    by (rule publish_checked_run)
  then obtain changed w3 where "publish_applied E b i cand False idem changed w3 = (Inr resp, w')"
    unfolding bindM_eq_Inr by blast
  then show ?thesis using assms(3-6) by (rule applied_answered)
qed

lemma recover_answered:
  assumes "recover_note E b i content target w = (Inr resp, w')" "\<And>t. pending i t \<noteq> Inr resp"
    and "wf_json (JObj i)" "dget i ''request_id'' = JStr rid" "at_most MAX_RESPONSE_BYTES w' (result_path b rid)"
  shows "answered w' b rid resp"
proof -
  from assms(1) obtain c where
    rest: "(if c \<noteq> content then publish_result b (rejected (dget i ''request_id'') ''capture target already exists with different content'' [])
     else bindM (meanwhile E 1) (\<lambda>_. attempt unreadable (inspect E (vault_root b))
         (\<lambda>inspected. if validation_errors inspected \<noteq> [] then liftM (pending i ''waiting-for-valid-vault'')
            else publish_applied E b i inspected True True False)
         (\<lambda>_. liftM (pending i ''waiting-for-readable-vault'')))) w = (Inr resp, w')"
    unfolding recover_note_def bindM_eq_Inr askM_Inr by blast
  show ?thesis
  proof (cases "c = content")
    case False
    with rest assms(4) have "publish_result b (rejected (JStr rid) ''capture target already exists with different content'' []) w = (Inr resp, w')"
      by simp
    then show ?thesis by (rule rejected_answered) (use assms in simp_all)
  next
    case True
    then have "bindM (meanwhile E 1) (\<lambda>_. attempt unreadable (inspect E (vault_root b))
         (\<lambda>inspected. if validation_errors inspected \<noteq> [] then liftM (pending i ''waiting-for-valid-vault'')
            else publish_applied E b i inspected True True False)
         (\<lambda>_. liftM (pending i ''waiting-for-readable-vault''))) w = (Inr resp, w')"
      using rest by simp
    from attempt_pending [OF meanwhile_run [OF this] assms(2)] obtain inspected s s1 where
      ins: "inspect E (vault_root b) s = (Inr inspected, s1)"
      and go: "(if validation_errors inspected \<noteq> [] then liftM (pending i ''waiting-for-valid-vault'')
            else publish_applied E b i inspected True True False) s1 = (Inr resp, w')" by blast
    have "publish_applied E b i inspected True True False s1 = (Inr resp, w')" using go assms(2) by (rule if_pending)
    then show ?thesis using assms(3) inspect_wf [OF ins] assms(4,5) by (rule applied_answered)
  qed
qed

lemma capture_into_answered:
  assumes "capture_into_vault E b i content target idem w = (Inr resp, w')" "\<And>t. pending i t \<noteq> Inr resp"
    and "wf_json (JObj i)" "dget i ''request_id'' = JStr rid" "at_most MAX_RESPONSE_BYTES w' (result_path b rid)"
  shows "answered w' b rid resp"
  using assms(1,2,4)
proof (cases rule: capture_into_cases)
  case (1 cand s)
  have "wf_json (JObj [(''validation_errors'', JList (validation_errors cand))])" using wf_errors [of cand] by simp
  from rejected_answered [OF 1(2) this _ assms(5)] show ?thesis by simp
next
  case (2 base cand s s')
  from 2(2) assms(2,3) stage_candidate_wf [OF 2(1)] assms(4,5) show ?thesis by (rule publish_checked_answered)
qed

lemma process_answered:
  assumes "process_intent E b i idem w = (Inr resp, w')" "dget resp ''outcome'' \<noteq> JStr ''ACCEPTED''"
    and "wf_json (JObj i)" "dget i ''request_id'' = JStr rid" "at_most MAX_RESPONSE_BYTES w' (result_path b rid)"
  shows "answered w' b rid resp"
proof -
  have no: "pending i t \<noteq> Inr resp" for t using pending_outcome [of i t resp] assms(2) by auto
  have run: "bindM (askM (\<lambda>w. stored_result w b rid)) (\<lambda>found. case found of
       Some result \<Rightarrow> retM (dput result ''idempotent'' (JBool True))
     | None \<Rightarrow> bindM (liftM (intent_content E i)) (\<lambda>(content, target).
         bindM (meanwhile E 0) (\<lambda>_.
         attempt is_os_error (askM (\<lambda>w. lstat_there w (vault_root b @ [target])))
           (\<lambda>there. if there then recover_note E b i content target
              else capture_into_vault E b i content target idem)
           (\<lambda>_. liftM (pending i ''waiting-for-readable-vault''))))) w = (Inr resp, w')"
    using assms(1,4) by (auto simp: process_intent_def bindM_liftM validate_uuid4_def split: sum.splits if_splits)
  then obtain found where f: "stored_result w b rid = Inr found" by (auto simp: bindM_askM split: sum.splits)
  show ?thesis
  proof (cases found)
    case (Some result)
    with run f have "resp = dput result ''idempotent'' (JBool True)" "w' = w" by (simp_all add: bindM_askM)
    with f Some show ?thesis by (simp add: answered_def same_answer_def)
  next
    case None
    with run f obtain p where after: "(case p of (content, target) \<Rightarrow> bindM (meanwhile E 0) (\<lambda>_.
         attempt is_os_error (askM (\<lambda>w. lstat_there w (vault_root b @ [target])))
           (\<lambda>there. if there then recover_note E b i content target
              else capture_into_vault E b i content target idem)
           (\<lambda>_. liftM (pending i ''waiting-for-readable-vault'')))) w = (Inr resp, w')"
      by (cases "intent_content E i") (simp_all add: bindM_askM)
    obtain content target where q: "p = (content, target)" by (cases p)
    from attempt_pending [OF meanwhile_run [OF after [unfolded q prod.case]] no]
    obtain there s where go: "(if there then recover_note E b i content target
        else capture_into_vault E b i content target idem) s = (Inr resp, w')" by blast
    show ?thesis
    proof (cases there)
      case True
      with go have "recover_note E b i content target s = (Inr resp, w')" by simp
      then show ?thesis using no assms(3-5) by (rule recover_answered)
    next
      case False
      with go have "capture_into_vault E b i content target idem s = (Inr resp, w')" by simp
      then show ?thesis using no assms(3-5) by (rule capture_into_answered)
    qed
  qed
qed

text \<open>The request file of a capture that was not known before.\<close>

lemma new_intent_fields:
  assumes "new_intent E rid h actor client now uuid note = Inr i"
  shows "dget i ''request_id'' = JStr rid" "dget i ''request_hash'' = JStr h" "dget i ''actor_fingerprint'' = JStr actor"
    "wf_json (JObj note) \<Longrightarrow> wf_json (JObj i)"
  using assms by (auto simp: new_intent_def Let_def bindE_eq_Inr)

lemma capture_new_run:
  assumes "capture_locked E b rid actor client note w = (Inr resp, w')" "\<not> exists_path w (request_path b rid)"
  obtains now uuid i w1 where
    "new_intent E rid (sha_of E (broker_json (JObj note))) actor client now uuid note = Inr i"
    "lstat w1 (request_path b rid) = Some (File (broker_json (JObj i)))"
    "process_intent E b i False w1 = (Inr resp, w')"
proof -
  from assms have "bindM (now_text E) (\<lambda>now. bindM (fresh_name E) (\<lambda>uuid.
      bindM (liftM (new_intent E rid (sha_of E (broker_json (JObj note))) actor client now uuid note)) (\<lambda>intent.
      bindM (write_exclusive (request_path b rid) (broker_json (JObj intent))) (\<lambda>_. process_intent E b intent False)))) w = (Inr resp, w')"
    by (simp add: capture_locked_def Let_def)
  then obtain now uuid i s s1 where "new_intent E rid (sha_of E (broker_json (JObj note))) actor client now uuid note = Inr i"
    "write_exclusive (request_path b rid) (broker_json (JObj i)) s = (Inr (), s1)" "process_intent E b i False s1 = (Inr resp, w')"
    by (auto simp: bindM_eq_Inr)
  then show thesis
    using that write_exclusive_written [of "request_path b rid" "broker_json (JObj i)" s s1]
    by (simp add: request_path_def)
qed

lemma request_protected: "protected b (request_path b rid)"
  by (simp add: protected_def request_path_def below_take)

text \<open>What a completed capture leaves: its request, readable, and its answer.\<close>

lemma capture_leaves:
  assumes "capture_locked E b rid actor client note w = (Inr resp, w')" "\<not> exists_path w (request_path b rid)"
    and "polite E b" "wf_json (JObj note)" "at_most MAX_REQUEST_BYTES w' (request_path b rid)"
  obtains i where "exists_path w' (request_path b rid)"
    "load_broker_json w' (request_path b rid) MAX_REQUEST_BYTES = Inr i"
    "dget i ''request_id'' = JStr rid" "dget i ''request_hash'' = JStr (sha_of E (broker_json (JObj note)))"
    "dget i ''actor_fingerprint'' = JStr actor"
    "dget resp ''outcome'' \<noteq> JStr ''ACCEPTED'' \<Longrightarrow> at_most MAX_RESPONSE_BYTES w' (result_path b rid) \<Longrightarrow> answered w' b rid resp"
  using assms(1,2)
proof (rule capture_new_run)
  fix now uuid i w1
  assume i: "new_intent E rid (sha_of E (broker_json (JObj note))) actor client now uuid note = Inr i"
    and f: "lstat w1 (request_path b rid) = Some (File (broker_json (JObj i)))"
    and run: "process_intent E b i False w1 = (Inr resp, w')"
  note fs = new_intent_fields [OF i]
  have wf: "wf_json (JObj i)" using fs(4) assms(4) .
  have "kept (protected b) w1 w'" using kept_process [OF assms(3)] run by (rule keepsD)
  then have there: "lstat w' (request_path b rid) = Some (File (broker_json (JObj i)))"
    using request_protected f by (rule keptD)
  then have "length (broker_json (JObj i)) \<le> MAX_REQUEST_BYTES" using assms(5) by (simp add: at_most_def)
  then have "load_broker_json w' (request_path b rid) MAX_REQUEST_BYTES = Inr (obj_of (jsort (JObj i)))"
    by (rule load_broker_json_reads [OF there wf])
  moreover have "dget (obj_of (jsort (JObj i))) k = jsort (dget i k)" for k using wf by (rule dget_jsort)
  moreover have "exists_path w' (request_path b rid)" using there by (simp add: exists_path_def stat_def)
  ultimately show thesis
    using fs(1-3) process_answered [OF run _ wf fs(1)]
    by (intro that [of "obj_of (jsort (JObj i))"]) (simp_all del: jsort.simps(2))
qed

section \<open>A sample broker\<close>

definition sample_rid :: string where
  "sample_rid = ''01234567-89ab-4def-8123-456789abcdef''"

definition sample_lib :: parsers where
  "sample_lib = \<lparr>yaml_of = \<lparr>yaml_load = \<lambda>s. Inr (YMap [(YStr ''id'', YStr ''n1'')]), yaml_dump = \<lambda>m. []\<rparr>, tokens_of = \<lambda>s. []\<rparr>"

definition sample_env :: broker_env where
  "sample_env = \<lparr>sha_of = \<lambda>s. s, lib = sample_lib, others = \<lambda>k w. w, fresh = \<lambda>n. ''u'',
     local_now = \<lambda>n. ''2024-05-06T07:08:09+02:00''\<rparr>"

definition sample_broker :: broker where
  "sample_broker = \<lparr>vault_root = [''v''], state_dir = [''s''], allowed_subjects = [''me'']\<rparr>"

definition sample_target :: string where
  "sample_target = ''Capture - Pump - 01234567.md''"

definition sample_world :: "string \<Rightarrow> world" where
  "sample_world c = \<lparr>tree = [([''v''], Dir), ([''v'', sample_target], File c), ([''s''], Dir), ([''s'', ''requests''], Dir),
     ([''s'', ''results''], Dir), ([''s'', ''staging''], Dir)], faults = [], holders = [], clock = \<lambda>n. [], ticks = 0, pid = 1\<rparr>"

lemma sample_polite: "polite sample_env sample_broker"
  by (simp add: polite_def separate_def apart_def below_def considerate_def sample_env_def sample_broker_def kept.R_refl)

lemma broker_created: "created_texts (JStr ''2024-05-06T07:08:09+02:00'') = Inr (''2024-05-06,07:08'', ''2024-05-06'')"
  by code_simp

lemma sample_name: "capture_target ''Pump'' sample_rid = sample_target"
  by code_simp

lemma broker_uuid: "validate_uuid4 (JStr sample_rid) f = Inr sample_rid"
proof -
  have "length sample_rid = 36 \<and> is_uuid4 sample_rid" by code_simp
  then show ?thesis by (simp add: validate_uuid4_def)
qed

definition sample_content :: string where
  "sample_content = ''---'' @ [CHR 0x0A] @ ''---'' @ [CHR 0x0A, CHR 0x0A] @ ''# Pump'' @ [CHR 0x0A, CHR 0x0A] @ ''Bleed it.'' @ [CHR 0x0A]"

definition sample_intent :: dict where
  "sample_intent =
     [(''schema_version'', JInt 1), (''protocol'', JStr PROTOCOL), (''request_id'', JStr sample_rid),
      (''request_hash'', JStr (broker_json (JObj sample_normal))), (''actor_fingerprint'', JStr ''a''),
      (''client_fingerprint'', JStr ''c''), (''created_at'', JStr ''2024-05-06T07:08:09+02:00''), (''document_id'', JStr ''u''),
      (''target'', JStr sample_target), (''note'', JObj sample_normal), (''content_sha256'', JStr sample_content)]"

lemma sample_rendered:
  assumes "dget d ''note'' = JObj sample_normal" "map_of d ''note'' = Some (JObj sample_normal)"
    "map_of d ''created_at'' = Some (JStr ''2024-05-06T07:08:09+02:00'')" "map_of d ''document_id'' = Some (JStr ''u'')"
    "map_of d ''request_id'' = Some (JStr sample_rid)"
  shows "render_capture (yaml_of (lib sample_env)) d = Inr sample_content"
proof -
  have n: "map_of sample_normal ''categories'' = Some (JList [JStr ''House''])" "map_of sample_normal ''title'' = Some (JStr ''Pump'')"
    "map_of sample_normal ''body'' = Some (JStr ''Bleed it.'')"
    "map_of sample_normal ''tags'' = Some (JList [JStr ''heat'', JStr ''mcp-capture''])"
    by (simp_all add: sample_normal_def note_json_def)
  have "list_all (\<lambda>c. code_of c < 128) sample_content" by (simp add: sample_content_def code_of_def)
  then have "utf8 sample_content = sample_content" by (rule utf8_ascii)
  then show ?thesis
    using assms by (simp add: render_capture_def capture_document_def didx_def jidx_def n broker_created stored_categories_def
        formatted_def render_markdown_def sample_env_def sample_lib_def fence_def) (simp add: sample_content_def)
qed

lemma sample_new: "new_intent sample_env sample_rid (broker_json (JObj sample_normal)) ''a'' ''c''
    ''2024-05-06T07:08:09+02:00'' ''u'' sample_normal = Inr sample_intent"
proof -
  have "dget sample_normal ''title'' = JStr ''Pump''" by (simp add: sample_normal_def note_json_def)
  then show ?thesis
    by (simp add: new_intent_def sample_name sample_rendered) (simp add: sample_intent_def sample_env_def)
qed

lemma sample_intent_content: "intent_content sample_env sample_intent = Inr (sample_content, sample_target)"
proof -
  have "render_capture (yaml_of (lib sample_env)) sample_intent = Inr sample_content"
    by (rule sample_rendered) (simp_all add: sample_intent_def)
  moreover have "valid_target (JStr sample_target)" by code_simp
  ultimately show ?thesis by (simp add: intent_content_def raiseIf_def sample_intent_def sample_env_def)
qed

text \<open>An exclusive write to a free place of a world without faults.\<close>

lemma put_file_free:
  assumes "faults w = []" "list_all (\<lambda>i. lstat w (take i p) = Some Dir) [1..<length p]" "lstat w p = None \<or> lstat w p = Some (File d)"
  obtains w' where "put_file p c w = (Inr (), w')" "faults w' = []" "ticks w' = ticks w"
    "\<And>q. lstat w' q = (if q = p then Some (File c) else lstat w q)"
proof -
  have "parents_ok w p" using assms(2) by (auto simp: parents_ok_def list_all_iff is_dir_def stat_def)
  moreover have "\<not> is_dir w p" using assms(3) by (auto simp: is_dir_def stat_def)
  moreover have "lstat (w\<lparr>tree := AList.update p (put_node (File c) (map_of (tree w) p)) (add_dirs (butlast p) (tree w))\<rparr>) q
      = (if q = p then Some (File c) else lstat w q)" for q
  proof -
    have pn: "put_node (File c) (map_of (tree w) p) = File c" using assms(3) by (auto simp: lstat_def)
    have dirs: "map_of (tree w) q \<noteq> None" if q: "q \<noteq> []" "below q (butlast p)" "q \<noteq> p"
    proof -
      obtain r where r: "butlast p = q @ r" using q(2) by (auto simp: below_take)
      then have "p \<noteq> []" using q(1) by auto
      then have "p = q @ r @ [last p]" using r by (metis append.assoc append_butlast_last_id)
      then have "take (length q) p = q" by (metis append_eq_conv_conj)
      moreover have "length p = length q + length r + 1"
        using arg_cong [OF \<open>p = q @ r @ [last p]\<close>, of length] by simp
      then have "length q < length p" by simp
      moreover have "1 \<le> length q" using q(1) by (cases q) auto
      ultimately have "lstat w q = Some Dir"
        using assms(2) unfolding list_all_iff by (metis atLeastLessThan_iff set_upt)
      then show ?thesis by (simp add: lstat_def)
    qed
    show ?thesis
    proof (cases "q = p")
      case False
      with dirs show ?thesis
        by (cases "map_of (tree w) q") (auto simp: lstat_def update_conv' map_of_add_dirs)
    qed (simp add: lstat_def update_conv' pn)
  qed
  ultimately show thesis using assms(1) that by (simp add: put_file_def durable_def)
qed

lemma write_exclusive_free:
  assumes "faults w = []" "list_all (\<lambda>i. lstat w (take i p) = Some Dir) [1..<length p]" "lstat w p = None" "1 < length p"
  obtains w' where "write_exclusive p c w = (Inr (), w')" "faults w' = []" "ticks w' = ticks w"
    "\<And>q. lstat w' q = (if q = p then Some (File c) else lstat w q)"
proof -
  have parent: "lstat w (butlast p) = Some Dir"
  proof -
    have "length p - 1 \<in> set [1..<length p]" using assms(4) by auto
    then show ?thesis using assms(2) unfolding list_all_iff butlast_conv_take by blast
  qed
  obtain w1 where 1: "put_file p [] w = (Inr (), w1)" "faults w1 = []" "ticks w1 = ticks w"
    "\<And>q. lstat w1 q = (if q = p then Some (File []) else lstat w q)"
    by (rule put_file_free [of w p "[]" "[]"]) (use assms in simp_all)
  have "create_new p w = (Inr (), w1)"
    using 1(1) assms(3) parent by (simp add: create_new_def lexists_def is_dir_def stat_def)
  moreover obtain w2 where 2: "put_file p c w1 = (Inr (), w2)" "faults w2 = []" "ticks w2 = ticks w1"
    "\<And>q. lstat w2 q = (if q = p then Some (File c) else lstat w1 q)"
  proof (rule put_file_free [of w1 p "[]" c])
    show "list_all (\<lambda>i. lstat w1 (take i p) = Some Dir) [1..<length p]"
      using assms(2) by (auto simp: list_all_iff 1(4) assms(3) split: if_splits)
  qed (use 1 in simp_all)
  moreover have "lstat w2 (butlast p) = Some Dir"
    using parent assms(3,4) by (auto simp: 2(4) 1(4))
  then have "fsync_path (butlast p) w2 = (Inr (), w2)"
    using 2(2) by (simp add: fsync_path_def durable_def exists_path_def stat_def)
  ultimately have "write_exclusive p c w = (Inr (), w2)"
    by (simp add: write_exclusive_def bindM_def catchM_def)
  then show thesis using that 1 2 by simp
qed

text \<open>A capture whose target exists with another content is rejected for good.\<close>

lemma sample_rejected:
  obtains w' where "capture_locked sample_env sample_broker sample_rid ''a'' ''c'' sample_normal (sample_world ''x'')
      = (Inr (rejected (JStr sample_rid) ''capture target already exists with different content'' []), w')"
    "\<And>q. lstat w' q = (if q = request_path sample_broker sample_rid then Some (File (broker_json (JObj sample_intent)))
       else if q = result_path sample_broker sample_rid
       then Some (File (broker_json (JObj (rejected (JStr sample_rid) ''capture target already exists with different content'' []))))
       else lstat (sample_world ''x'') q)"
proof -
  let ?w = "sample_world ''x''" and ?req = "request_path sample_broker sample_rid" and ?res = "result_path sample_broker sample_rid"
  let ?r = "rejected (JStr sample_rid) ''capture target already exists with different content'' []"
  let ?w1 = "?w\<lparr>ticks := 2\<rparr>"
  have paths: "?req = [''s'', ''requests'', sample_rid @ ''.json'']" "?res = [''s'', ''results'', sample_rid @ ''.json'']"
    by (simp_all add: request_path_def requests_dir_def result_path_def results_dir_def sample_broker_def)
  have up: "[1..<length p] = [1, 2]" if "length p = 3" for p :: path
    using that by (simp add: upt_conv_Cons)
  have start: "lstat ?w1 ?req = None" "lstat ?w1 ?res = None" "lstat ?w1 [''s''] = Some Dir"
    "lstat ?w1 [''s'', ''requests''] = Some Dir" "lstat ?w1 [''s'', ''results''] = Some Dir"
    "lstat ?w1 [''v'', sample_target] = Some (File ''x'')" "faults ?w1 = []" "lstat ?w ?req = None"
    by (simp_all add: paths lstat_def sample_world_def)
  obtain w2 where w2: "write_exclusive ?req (broker_json (JObj sample_intent)) ?w1 = (Inr (), w2)" "faults w2 = []"
    "\<And>q. lstat w2 q = (if q = ?req then Some (File (broker_json (JObj sample_intent))) else lstat ?w1 q)"
    by (rule write_exclusive_free [of ?w1 ?req "broker_json (JObj sample_intent)"]) (use start in \<open>simp_all add: up paths\<close>)
  obtain w3 where w3: "write_exclusive ?res (broker_json (JObj ?r)) w2 = (Inr (), w3)" "faults w3 = []"
    "\<And>q. lstat w3 q = (if q = ?res then Some (File (broker_json (JObj ?r))) else lstat w2 q)"
    by (rule write_exclusive_free [of w2 ?res "broker_json (JObj ?r)"]) (use start w2 in \<open>simp_all add: up paths\<close>)
  have none: "stored_result w2 sample_broker sample_rid = Inr None"
    using start(2) by (simp add: stored_result_def exists_path_def stat_def w2(3) paths)
  have target: "lstat w2 (vault_root sample_broker @ [sample_target]) = Some (File ''x'')"
  proof -
    have "vault_root sample_broker = [''v'']" by (simp add: sample_broker_def)
    then show ?thesis using start(6) by (simp add: w2(3) paths)
  qed
  have id: "dget sample_intent ''request_id'' = JStr sample_rid" by (simp add: sample_intent_def)
  have present: "present_content w2 (vault_root sample_broker @ [sample_target]) = Inr ''x''"
    by (simp add: present_content_def read_bounded_regular_def target MAX_REQUEST_BYTES_def)
  have there: "lstat_there w2 (vault_root sample_broker @ [sample_target]) = Inr True"
    by (simp add: lstat_there_def lexists_def target)
  have "''x'' \<noteq> sample_content" by (simp add: sample_content_def)
  then have rec: "recover_note sample_env sample_broker sample_intent sample_content sample_target w2 = (Inr ?r, w3)"
    using w3(1) by (simp add: recover_note_def bindM_askM present id publish_result_def attempt_def Let_def)
  have "process_intent sample_env sample_broker sample_intent False w2 = (Inr ?r, w3)"
    by (simp add: process_intent_def id broker_uuid bindM_askM none sample_intent_content meanwhile_def attempt_def askM_def there rec)
       (simp add: sample_env_def there rec [unfolded sample_env_def])
  moreover have "now_text sample_env ?w = (Inr ''2024-05-06T07:08:09+02:00'', ?w\<lparr>ticks := 1\<rparr>)"
    "fresh_name sample_env (?w\<lparr>ticks := 1\<rparr>) = (Inr ''u'', ?w1)"
    by (simp_all add: now_text_def fresh_name_def sample_env_def sample_world_def)
  moreover have "sha_of sample_env x = x" for x by (simp add: sample_env_def)
  ultimately have "capture_locked sample_env sample_broker sample_rid ''a'' ''c'' sample_normal ?w = (Inr ?r, w3)"
    using w2(1) start(8) by (simp add: capture_locked_def Let_def exists_path_def stat_def bindM_def sample_new)
  moreover have "lstat w3 q = (if q = ?req then Some (File (broker_json (JObj sample_intent)))
       else if q = ?res then Some (File (broker_json (JObj ?r))) else lstat ?w q)" for q
    by (simp add: w3(3) w2(3) paths) (simp add: lstat_def)
  ultimately show thesis by (rule that)
qed

text \<open>The vault of the sample, with the note in it, validates.\<close>

lemma sample_stat:
  "lstat (sample_world c) [''v''] = Some Dir" "lstat (sample_world c) [''v'', sample_target] = Some (File c)"
  "lstat (sample_world c) [''v'', ''Categories''] = None" "lstat (sample_world c) [] = None"
  by (simp_all add: lstat_def sample_world_def sample_target_def)

lemma sample_no_links: "\<not> through_link (sample_world c) [''v'']" "\<not> through_link (sample_world c) [''v'', sample_target]"
  by (simp_all add: through_link_def upt_conv_Cons is_symlink_def sample_stat)

lemma sample_children: "children (sample_world c) [''v''] = [sample_target]"
  by (simp add: children_def sample_world_def sorted_set_def)

lemma sample_markdown: "is_markdown sample_target True" "join ''/'' [sample_target] = sample_target"
    "posix_parts sample_target = [sample_target]"
  by code_simp+

lemma sample_sources: "discover_sources (sample_world c) [''v''] True = Inr [\<lparr>src_path = sample_target, src_kind = ''knowledge''\<rparr>]"
  by (simp add: discover_sources_def Let_def sample_no_links raiseIf_def is_symlink_def is_dir_def stat_def sample_stat
      sources_in_def sample_children is_file_def sample_markdown normalize_source_path_def below_def relative_posix_def)

lemma sample_inventory: "inventory_paths (sample_world c) [''v''] True =
    Inr \<lparr>included = [\<lparr>src_path = sample_target, src_kind = ''knowledge''\<rparr>], excluded = []\<rparr>"
proof -
  have "files_below (sample_world c) [''v''] = [[''v'', sample_target]]"
    by (simp add: files_below_def entries_below_def sample_world_def below_def is_file_def stat_def lstat_def)
  then show ?thesis
    by (simp add: inventory_paths_def sample_sources normalize_source_path_def sample_no_links raiseIf_def below_def
        relative_posix_def sample_markdown)
qed

lemma sample_split: "split_lines sample_content = [''---'' @ [CHR 0x0A], ''---'' @ [CHR 0x0A], [CHR 0x0A],
    ''# Pump'' @ [CHR 0x0A], [CHR 0x0A], ''Bleed it.'' @ [CHR 0x0A]]"
  by (simp add: sample_content_def line_end_def code_of_def)

lemma sample_parsed: "\<exists>body. parse_markdown (yaml_of sample_lib) sample_content =
    Inr \<lparr>frontmatter = [(YStr ''id'', YStr ''n1'')], md_body = body, had_frontmatter = True\<rparr>"
  by (simp add: parse_markdown_def sample_split is_fence_def rstrip_set_def fence_def sample_lib_def)

lemma sample_document: "\<exists>d. parse_source sha sample_lib (sample_world sample_content) [''v'']
      \<lparr>src_path = sample_target, src_kind = ''knowledge''\<rparr> = Inr d
    \<and> document_id d = YStr ''n1'' \<and> document_type d = YNull \<and> doc_status d = YNull \<and> authority d = YNull
    \<and> links d = [] \<and> categories d = [] \<and> doc_kind d = ''knowledge''"
proof -
  obtain body where body: "parse_markdown (yaml_of sample_lib) sample_content =
      Inr \<lparr>frontmatter = [(YStr ''id'', YStr ''n1'')], md_body = body, had_frontmatter = True\<rparr>"
    using sample_parsed by blast
  have "list_all (\<lambda>c. code_of c < 128) sample_content" by (simp add: sample_content_def code_of_def)
  then have "utf8_decode sample_content = Inr sample_content" by (metis utf8_ascii utf8_decode_utf8)
  then have "read_source (sample_world sample_content) [''v''] sample_target = Inr (sample_content, sample_content)"
    by (simp add: read_source_def read_bytes_def stat_def sample_stat sample_markdown)
  moreover have "parse_frontmatter sample_lib sample_target sample_content =
      Inr \<lparr>frontmatter = [(YStr ''id'', YStr ''n1'')], md_body = body, had_frontmatter = True\<rparr>"
    by (simp add: parse_frontmatter_def body)
  moreover have "tokens_of sample_lib b = []" for b by (simp add: sample_lib_def)
  moreover have "section_starts secs [] = Inr x \<Longrightarrow> link_occurrences [] secs path = Inr []" for secs x path
    by (simp add: link_occurrences_def)
  ultimately show ?thesis
    by (simp add: parse_source_def Let_def sections_of_def link_occurrences_def section_starts_def yget_def string_list_def
        category_assignments_def optional_text_def)
qed

lemma sample_inspected: "\<exists>d f. validation_report sha sample_lib (sample_world sample_content) [''v''] = Inr d
    \<and> validation_errors d = [] \<and> map_of d ''source_fingerprint'' = Some (JStr f)"
proof -
  obtain d where d: "parse_source sha sample_lib (sample_world sample_content) [''v'']
      \<lparr>src_path = sample_target, src_kind = ''knowledge''\<rparr> = Inr d"
    "document_id d = YStr ''n1''" "document_type d = YNull" "doc_status d = YNull" "authority d = YNull"
    "links d = []" "categories d = []" "doc_kind d = ''knowledge''"
    using sample_document by blast
  have "excluded_titles \<lparr>included = i, excluded = []\<rparr> = []" for i by (simp add: excluded_titles_def)
  moreover have "resolutions [d] k = []" for k using d by (simp add: resolutions_def)
  moreover have "\<exists>v. validate_documents [d] [] = Inr v \<and> errors v = []"
    using d \<open>resolutions [d] _ = []\<close>
    by (simp add: validate_documents_def check_id_def title_errors_def title_paths_def category_errors_def Let_def
        resolutions_def labels_in_state_def count_all_def ambiguity_errors_def by_key_def)
  then obtain v where "validate_documents [d] [] = Inr v" "errors v = []" by blast
  ultimately show ?thesis
    using d by (simp add: validation_report_def inspect_vault_def sample_inventory sample_sources parse_sources_def
        inspect_documents_def Let_def logical_content_def document_fingerprint_def validation_errors_def validation_json_def)
qed

section \<open>Properties\<close>






lemma sample_applied:
  "\<exists>resp w'. process_intent sample_env sample_broker sample_intent True (sample_world sample_content) = (Inr resp, w')
     \<and> dget resp ''outcome'' = JStr ''APPLIED''"
proof -
  let ?w = "sample_world sample_content" and ?res = "result_path sample_broker sample_rid"
  obtain d f where d: "validation_report (sha_of sample_env) sample_lib ?w [''v''] = Inr d" "validation_errors d = []"
    "map_of d ''source_fingerprint'' = Some (JStr f)" using sample_inspected by blast
  have res: "?res = [''s'', ''results'', sample_rid @ ''.json'']"
    by (simp add: result_path_def results_dir_def sample_broker_def)
  have id: "dget sample_intent ''request_id'' = JStr sample_rid" by (simp add: sample_intent_def)
  have none: "stored_result ?w sample_broker sample_rid = Inr None"
    by (simp add: stored_result_def exists_path_def stat_def lstat_def res sample_world_def)
  define result where "result = response ''APPLIED'' [(''request_id'', JStr sample_rid), (''retryable'', JBool False),
    (''document_id'', JStr ''u''), (''source_path'', JStr sample_target), (''content_sha256'', JStr sample_content),
    (''source_fingerprint'', JStr f), (''applied_at'', JStr ''2024-05-06T07:08:09+02:00''), (''recovered'', JBool True),
    (''concurrent_source_change'', JBool False)]"
  have app: "applied sample_intent d ''2024-05-06T07:08:09+02:00'' True False = Inr result"
    using d(3) by (simp add: applied_def didx_def sample_intent_def result_def)
  obtain w3 where w3: "write_exclusive ?res (broker_json (JObj result)) (?w\<lparr>ticks := 1\<rparr>) = (Inr (), w3)"
    by (rule write_exclusive_free [of "?w\<lparr>ticks := 1\<rparr>" ?res "broker_json (JObj result)"])
       (auto simp: lstat_def sample_world_def res upt_conv_Cons)
  have rid: "str_of (dget result ''request_id'') = sample_rid" by (simp add: result_def)
  have now: "now_text sample_env ?w = (Inr ''2024-05-06T07:08:09+02:00'', ?w\<lparr>ticks := 1\<rparr>)"
    by (simp add: now_text_def sample_env_def sample_world_def)
  have pub: "publish_applied sample_env sample_broker sample_intent d True True False ?w
      = (Inr (dput result ''idempotent'' (JBool True)), w3)"
    by (simp add: publish_applied_def bindM_def now app publish_result_def rid Let_def attempt_def w3
        del: One_nat_def)
  have env: "others sample_env k w = w" "lib sample_env = sample_lib" "vault_root sample_broker = [''v'']" for k w
    by (simp_all add: sample_env_def sample_broker_def)
  have pos: "0 < length sample_content" "length sample_content \<le> MAX_REQUEST_BYTES"
    by (simp_all add: sample_content_def MAX_REQUEST_BYTES_def)
  have present: "present_content ?w [''v'', sample_target] = Inr sample_content"
    using pos by (simp add: present_content_def read_bounded_regular_def sample_stat)
  have "recover_note sample_env sample_broker sample_intent sample_content sample_target ?w
      = (Inr (dput result ''idempotent'' (JBool True)), w3)"
    by (simp add: recover_note_def env bindM_askM present meanwhile_def attempt_def inspect_def askM_def d pub)
  then have "process_intent sample_env sample_broker sample_intent True ?w = (Inr (dput result ''idempotent'' (JBool True)), w3)"
    by (simp add: process_intent_def id broker_uuid bindM_askM none sample_intent_content meanwhile_def env attempt_def
        askM_def lstat_there_def lexists_def sample_stat)
  moreover have "dget (dput result ''idempotent'' (JBool True)) ''outcome'' = JStr ''APPLIED''" by (simp add: result_def)
  ultimately show ?thesis by blast
qed



lemma sample_sizes:
  "length (broker_json (JObj sample_intent)) \<le> MAX_REQUEST_BYTES"
  "length (broker_json (JObj (rejected (JStr sample_rid) ''capture target already exists with different content'' []))) \<le> MAX_RESPONSE_BYTES"
proof -
  have parts: "length sample_rid = 36" "length PROTOCOL = 16" "length sample_target = 28" "length sample_content \<le> 60"
    by (simp_all add: sample_rid_def PROTOCOL_def sample_target_def sample_content_def)
  have one: "int_dec 1 = ''1''" by code_simp
  have n: "room (JObj sample_normal) \<le> 1000"
    by (simp add: sample_normal_def note_json_def)
  have "length (broker_json (JObj sample_normal)) \<le> 2002"
    using broker_json_room [of "JObj sample_normal"] n by linarith
  with parts one n have "room (JObj sample_intent) \<le> 20000"
    by (simp add: sample_intent_def del: room.simps(6)) simp
  then show "length (broker_json (JObj sample_intent)) \<le> MAX_REQUEST_BYTES"
    using broker_json_room [of "JObj sample_intent"] by (simp add: MAX_REQUEST_BYTES_def del: room.simps)
  have "room (JObj (rejected (JStr sample_rid) ''capture target already exists with different content'' [])) \<le> 20000"
    using parts one by (simp add: rejected_def response_def)
  then show "length (broker_json (JObj (rejected (JStr sample_rid) ''capture target already exists with different content'' [])))
      \<le> MAX_RESPONSE_BYTES"
    using broker_json_room [of "JObj (rejected (JStr sample_rid) ''capture target already exists with different content'' [])"]
    by (simp add: MAX_RESPONSE_BYTES_def del: room.simps)
qed




section \<open>Frames\<close>

definition one_line :: "string \<Rightarrow> bool" where
  "one_line s \<longleftrightarrow> s \<noteq> [] \<and> length s \<le> MAX_REQUEST_BYTES \<and> last s = CHR 0x0A \<and> CHR 0x0A \<notin> set (butlast s)"

lemma find_char:
  "case find_sub [c] s of None \<Rightarrow> c \<notin> set s | Some i \<Rightarrow> i < length s \<and> c \<notin> set (take i s)"
  by (induction s) (auto simp: startswith_def split: option.splits)

lemma read_line_whole:
  assumes "read_line (MAX_REQUEST_BYTES + 1) s = f" "f \<noteq> []" "length f \<le> MAX_REQUEST_BYTES" "endswith f [CHR 0x0A]"
    "drop (length f) s = []"
  shows "one_line s"
proof -
  define i where "i = (case find_sub [CHR 0x0A] s of None \<Rightarrow> length s | Some i \<Rightarrow> Suc i)"
  have i: "i \<le> length s" "CHR 0x0A \<notin> set (take (i - 1) s)" "find_sub [CHR 0x0A] s = None \<Longrightarrow> CHR 0x0A \<notin> set s"
    using find_char [of "CHR 0x0A" s] by (auto simp: i_def split: option.splits dest: in_set_takeD)
  have "f = take (min (MAX_REQUEST_BYTES + 1) i) s"
    using assms(1) by (auto simp: read_line_def i_def min_def split: option.splits)
  moreover from this have "length f = min (MAX_REQUEST_BYTES + 1) i" using i(1) by simp
  ultimately have f: "f = s" "length s = i" using assms(3,5) by (auto simp: min_def split: if_splits)
  then have "last s = CHR 0x0A" using assms(2,4) by (simp add: endswith_def drop_Suc last_conv_nth hd_drop_conv_nth)
      (metis Cons_nth_drop_Suc One_nat_def Suc_diff_1 diff_Suc_less length_greater_0_conv list.inject)
  then show ?thesis
    using assms(2,3) f i(2) by (simp add: one_line_def butlast_conv_take)
qed

text \<open>C33: a frame that is not one line of bounded length is refused before anything is done; and whatever
the frame, no exception leaves the handler: it answers, unless the process dies.\<close>

theorem serve_answers:
  "(one_line input \<or> serve E b input w = (Inr (Some (broker_json (JObj protocol_rejected))), w))
   \<and> (case serve E b input w of (Inl e, w') \<Rightarrow> e = Crash \<or> (\<exists>m. e = Unmodelled m) | (Inr out, w') \<Rightarrow> True)"
proof
  have "int_dec 1 = ''1''" by code_simp
  then have "room (JObj protocol_rejected) \<le> 1000"
    by (simp add: protocol_rejected_def response_def PROTOCOL_def)
  then have small: "length (broker_json (JObj protocol_rejected)) \<le> MAX_RESPONSE_BYTES"
    using broker_json_room [of "JObj protocol_rejected"] by (simp add: MAX_RESPONSE_BYTES_def)
  show "one_line input \<or> serve E b input w = (Inr (Some (broker_json (JObj protocol_rejected))), w)"
    using read_line_whole [OF refl, of input] small by (auto simp: serve_def Let_def bindM_def)
  have "e = Crash \<or> (\<exists>m. e = Unmodelled m)" if "answer_for d = Inl e" for d e
    using that by (auto simp: answer_for_def split: if_splits exn.splits)
  then show "case serve E b input w of (Inl e, w') \<Rightarrow> e = Crash \<or> (\<exists>m. e = Unmodelled m) | (Inr out, w') \<Rightarrow> True"
    by (auto simp: serve_def Let_def bindM_def attempt_def liftM_def split: sum.splits prod.splits if_splits)
qed

end
