(* ===== verification/Retention.thy ===== *)
theory Retention
  imports Promotion Sources Timestamps
begin

text \<open>
  \<open>retention.py\<close>, the reading half of the planner of deployment retention: paths that must not
  leave the pipeline root or go through a link, JSON documents below it, and the validation of a
  deployment with its build, its snapshot and its promotion history, of the records of the
  publication protocol and of the manifest of a failed build.

  Everything here only reads the world. A directory that is modified while the planner holds its
  locks is not modelled.
\<close>

section \<open>Paths below the pipeline root\<close>

fun output_walk :: "world \<Rightarrow> path list \<Rightarrow> unit res" where
  "output_walk w [] = Inr ()"
| "output_walk w (p # ps) =
     (if \<not> lexists w p then Inr ()
      else if is_symlink w p then Inl (RetentionError ''retention output path must not traverse a symlink'')
      else output_walk w ps)"

text \<open>\<open>output\<close> is the absolute, normalised path of the report.\<close>

definition validate_retention_output :: "world \<Rightarrow> path \<Rightarrow> path \<Rightarrow> path res" where
  "validate_retention_output w root output =
     bindE (raiseIf (\<not> exists_path w root) (RetentionError (''pipeline root does not exist: '' @ path_text root))) (\<lambda>_.
     bindE (raiseIf (through_link w root) (Unmodelled ''target of a symbolic link'')) (\<lambda>_.
     bindE (output_walk w (map (\<lambda>i. take i output) [1..<Suc (length output)])) (\<lambda>_.
     bindE (raiseIf (below root output) (RetentionError ''retention output must be outside the inspected root'')) (\<lambda>_.
     bindE (raiseIf (lexists w output \<and> \<not> is_file w output)
       (RetentionError ''retention output must be a regular file'')) (\<lambda>_.
     Inr output)))))"

definition keep_policy :: "json \<Rightarrow> nat res" where
  "keep_policy v =
     (case v of
        JInt i \<Rightarrow> if 0 \<le> i then Inr (nat i)
          else Inl (RetentionError ''keep_additional_verified must be a non-negative integer'')
      | _ \<Rightarrow> Inl (RetentionError ''keep_additional_verified must be a non-negative integer''))"

definition relative_text :: "path \<Rightarrow> path \<Rightarrow> string" where
  "relative_text root p = (if below root p then relative_posix root p else path_text p)"

definition steps_below :: "path \<Rightarrow> path \<Rightarrow> path list" where
  "steps_below root p = map (\<lambda>i. take i p) [Suc (length root)..<Suc (length p)]"

definition resolve_input :: "world \<Rightarrow> path \<Rightarrow> path \<Rightarrow> string \<Rightarrow> path res" where
  "resolve_input w root p fld =
     bindE (raiseIf (\<not> below root p) (RetentionError (fld @ '' escapes the pipeline root''))) (\<lambda>_.
     bindE (eachE (\<lambda>q.
         bindE (raiseIf (\<not> lexists w q) (RetentionError (fld @ '' is missing''))) (\<lambda>_.
         raiseIf (is_symlink w q) (RetentionError (fld @ '' traverses a symlink'')))) (steps_below root p)) (\<lambda>_.
     bindE (raiseIf (\<not> exists_path w p) (RetentionError (fld @ '' is missing''))) (\<lambda>_.
     Inr p)))"

definition safe_directory :: "world \<Rightarrow> path \<Rightarrow> path \<Rightarrow> string \<Rightarrow> unit res" where
  "safe_directory w root p fld =
     bindE (resolve_input w root p fld) (\<lambda>q.
     raiseIf (\<not> is_dir w q) (RetentionError (fld @ '' is not a real directory'')))"

section \<open>Documents\<close>

definition document_error :: "exn \<Rightarrow> bool" where
  "document_error e \<longleftrightarrow> is_os_error e \<or> is_deployment_error e"

definition read_object :: "world \<Rightarrow> path \<Rightarrow> path \<Rightarrow> dict res" where
  "read_object w root p =
     bindE (resolve_input w root p ''JSON path'') (\<lambda>q.
     bindE (raiseIf (\<not> is_file w q) (RetentionError ''path is not a regular file'')) (\<lambda>_.
     bindE (rewrap document_error (\<lambda>e. RetentionError (exn_text e)) (read_document w q)) (\<lambda>v.
     case v of JObj d \<Rightarrow> Inr d | _ \<Rightarrow> Inl (RetentionError ''JSON value is not an object''))))"

definition read_canonical_object :: "world \<Rightarrow> path \<Rightarrow> path \<Rightarrow> string list \<Rightarrow> dict res" where
  "read_canonical_object w root p order =
     bindE (resolve_input w root p ''canonical JSON path'') (\<lambda>q.
     bindE (raiseIf (\<not> is_file w q) (RetentionError ''canonical JSON path is not a regular file'')) (\<lambda>_.
     bindE (rewrap document_error (\<lambda>e. RetentionError (exn_text e)) (read_bytes w q)) (\<lambda>raw.
     bindE (rewrap document_error (\<lambda>e. RetentionError (exn_text e)) (strict_loads_bytes raw)) (\<lambda>v.
     bindE (raiseIf (\<not> is_obj v \<or> dkeys (obj_of v) \<noteq> order)
       (RetentionError ''canonical JSON has missing, reordered, or unknown fields'')) (\<lambda>_.
     bindE (raiseIf (raw \<noteq> receiver_json_bytes v) (RetentionError ''canonical JSON bytes are not canonical'')) (\<lambda>_.
     Inr (obj_of v)))))))"

definition parse_time :: "json \<Rightarrow> string \<Rightarrow> instant res" where
  "parse_time v fld =
     (case v of
        JStr s \<Rightarrow>
          if s = [] then Inl (RetentionError (fld @ '' is not a timestamp''))
          else (case fromisoformat (replace_zulu s) of
              Aware t \<Rightarrow> Inr t
            | Naive \<Rightarrow> Inl (RetentionError (fld @ '' lacks a timezone''))
            | NotIso \<Rightarrow> Inl (RetentionError (fld @ '' is not an ISO-8601 timestamp''))
            | OtherIso \<Rightarrow> Inl (Unmodelled ''another ISO 8601 form''))
      | _ \<Rightarrow> Inl (RetentionError (fld @ '' is not a timestamp'')))"

section \<open>A deployment and what belongs to it\<close>

text \<open>The fields of a manifest that have to be those of the deployment.\<close>

definition manifest_agrees :: "string \<Rightarrow> dict \<Rightarrow> dict \<Rightarrow> unit res" where
  "manifest_agrees what manifest expected =
     eachE (\<lambda>(f, v). raiseIf (\<not> pyeq (dget manifest f) v)
       (RetentionError (what @ '' manifest '' @ f @ '' disagrees with deployment''))) expected"

definition expected_build :: "dict \<Rightarrow> dict" where
  "expected_build rec =
     [(''run_id'', dget rec ''run_id''), (''result'', JStr ''verified''),
      (''source_fingerprint'', dget rec ''source_fingerprint''),
      (''artifact_fingerprint'', dget rec ''artifact_fingerprint''),
      (''logical_fingerprint'', dget rec ''logical_fingerprint''),
      (''completed_at'', dget rec ''build_completed_at''), (''verified_at'', dget rec ''build_verified_at''),
      (''schema_version'', dget rec ''build_schema_version''),
      (''build_contract_version'', dget rec ''build_contract_version''),
      (''homeops_version'', dget rec ''homeops_version''), (''source_revision'', dget rec ''source_revision''),
      (''image_digest'', dget rec ''image_digest'')]"

definition validate_build :: "world \<Rightarrow> path \<Rightarrow> path \<Rightarrow> dict \<Rightarrow> path res" where
  "validate_build w root data rec =
     (let build_dir = data @ [''builds'', str_of (dget rec ''run_id'')]
      in bindE (safe_directory w root build_dir ''build directory'') (\<lambda>_.
         bindE (read_object w root (build_dir @ [''manifest.json''])) (\<lambda>manifest.
         bindE (manifest_agrees ''build'' manifest (expected_build rec)) (\<lambda>_.
         bindE (safe_directory w root (build_dir @ [''cozo.db'']) ''Cozo database'') (\<lambda>_.
         Inr build_dir)))))"

definition expected_snapshot :: "dict \<Rightarrow> dict" where
  "expected_snapshot rec =
     [(''snapshot_id'', dget rec ''snapshot_id''), (''source_fingerprint'', dget rec ''source_fingerprint''),
      (''artifact_fingerprint'', dget rec ''artifact_fingerprint''),
      (''logical_fingerprint'', dget rec ''logical_fingerprint''),
      (''created_at'', dget rec ''snapshot_created_at''), (''schema_version'', dget rec ''snapshot_schema_version''),
      (''snapshot_contract_version'', dget rec ''snapshot_contract_version'')]"

definition validate_snapshot :: "env \<Rightarrow> world \<Rightarrow> path \<Rightarrow> dict \<Rightarrow> path res" where
  "validate_snapshot E w root rec =
     (let home = root @ [''vault-snapshots'', str_of (dget rec ''snapshot_id'')]
      in bindE (safe_directory w root home ''snapshot directory'') (\<lambda>_.
         bindE (rewrap (\<lambda>e. is_os_error e \<or> is_snapshot_error e)
             (\<lambda>e. RetentionError (''snapshot manifest is invalid: '' @ exn_text e))
             (bindE (resolve_input w root (home @ [''snapshot.json'']) ''snapshot manifest'')
               (read_manifest (digest E) w))) (\<lambda>manifest.
         bindE (manifest_agrees ''snapshot'' manifest (expected_snapshot rec)) (\<lambda>_.
         bindE (safe_directory w root (home @ [''vault'']) ''snapshot vault'') (\<lambda>_.
         bindE (rewrap is_snapshot_error (\<lambda>e. RetentionError (''snapshot bytes are invalid: '' @ exn_text e))
             (verify_snapshot (digest E) (Some (inspect_vault E)) w (home @ [''vault'']) (JObj manifest))) (\<lambda>_.
         Inr home))))))"

definition same_identity :: "dict \<Rightarrow> dict \<Rightarrow> string \<Rightarrow> unit res" where
  "same_identity d e failure =
     bindE (deployment_identity d) (\<lambda>a.
     bindE (deployment_identity e) (\<lambda>b.
     raiseIf (\<not> pyeq (JObj a) (JObj b)) (RetentionError failure)))"

definition history_event :: "env \<Rightarrow> world \<Rightarrow> path \<Rightarrow> path \<Rightarrow> dict \<Rightarrow> string \<Rightarrow> (instant \<times> string) res" where
  "history_event E w root dir rec name =
     bindE (raiseIf (suffix_of name \<noteq> ''.json'') (RetentionError ''deployment history has an unexpected entry'')) (\<lambda>_.
     bindE (read_object w root (dir @ [name])) (\<lambda>v.
     bindE (validate_deployment_record (digest E) (JObj v)) (\<lambda>event.
     bindE (raiseIf (\<not> pyeq (dget event ''deployment_id'') (dget rec ''deployment_id''))
       (RetentionError ''deployment history ID disagrees with its directory'')) (\<lambda>_.
     bindE (same_identity event rec ''deployment history identity disagrees with record'') (\<lambda>_.
     bindE (parse_time (dget event ''promoted_at'') ''history promoted_at'') (\<lambda>t.
     Inr (t, str_of (dget event ''promoted_at''))))))))"

definition validate_history ::
  "env \<Rightarrow> world \<Rightarrow> path \<Rightarrow> path \<Rightarrow> dict \<Rightarrow> (path option \<times> string list \<times> instant) res" where
  "validate_history E w root data rec =
     (let dir = data @ [''deployment-history'', str_of (dget rec ''deployment_id'')]
      in bindE (if lexists w dir
                then bindE (safe_directory w root dir ''deployment history'') (\<lambda>_.
                  mapE (history_event E w root dir rec) (children w dir))
                else Inr []) (\<lambda>times.
         bindE (parse_time (dget rec ''build_verified_at'') ''build_verified_at'') (\<lambda>verified.
         Inr (if lexists w dir then Some dir else None, map snd times, fold max (map fst times) verified))))"

record owned =
  deployment :: dict
  record_file :: path
  build_home :: path
  snapshot_home :: path
  history_home :: "path option"
  history_times :: "string list"
  effective :: instant

definition run_of :: "owned \<Rightarrow> string" where
  "run_of b = str_of (dget (deployment b) ''run_id'')"

definition snapshot_of :: "owned \<Rightarrow> string" where
  "snapshot_of b = str_of (dget (deployment b) ''snapshot_id'')"

definition read_owned :: "env \<Rightarrow> world \<Rightarrow> path \<Rightarrow> string \<Rightarrow> (string \<times> owned) res" where
  "read_owned E w root name =
     (let data = root @ [''data'']; p = data @ [''deployments'', name]
      in bindE (validate_safe_id (JStr (stem_of name)) ''deployment_id'') (\<lambda>i.
         bindE (read_object w root p) (\<lambda>v.
         bindE (validate_deployment_record (digest E) (JObj v)) (\<lambda>rec.
         bindE (raiseIf (\<not> pyeq (JStr i) (dget rec ''deployment_id''))
           (RetentionError ''deployment filename disagrees with deployment_id'')) (\<lambda>_.
         bindE (validate_build w root data rec) (\<lambda>build_dir.
         bindE (validate_snapshot E w root rec) (\<lambda>snapshot_dir.
         bindE (validate_history E w root data rec) (\<lambda>(history_dir, times, t).
         Inr (i, \<lparr>deployment = rec, record_file = p, build_home = build_dir, snapshot_home = snapshot_dir,
           history_home = history_dir, history_times = times, effective = t\<rparr>)))))))))"

section \<open>Fields of protocol records\<close>

definition optional_sha256 :: "json \<Rightarrow> string \<Rightarrow> string option res" where
  "optional_sha256 v fld =
     (if v = JNull \<or> v = JStr [] then Inr None
      else if is_sha_json v then Inr (Some (str_of v))
      else Inl (RetentionError (fld @ '' is not a lowercase SHA-256'')))"

definition required_sha256 :: "json \<Rightarrow> string \<Rightarrow> string res" where
  "required_sha256 v fld =
     bindE (optional_sha256 v fld) (\<lambda>r. case r of
       None \<Rightarrow> Inl (RetentionError (fld @ '' is required'')) | Some s \<Rightarrow> Inr s)"

definition expected_deployment_id :: "json \<Rightarrow> string \<Rightarrow> string option res" where
  "expected_deployment_id v fld =
     (if v = JStr [] then Inr None
      else if is_sha_json v then Inr (Some (str_of v))
      else Inl (RetentionError (fld @ '' must be empty or a lowercase SHA-256'')))"

definition uuid4 :: "json \<Rightarrow> string \<Rightarrow> string res" where
  "uuid4 v fld =
     (case v of
        JStr s \<Rightarrow> if is_uuid4 s then Inr s else Inl (RetentionError (fld @ '' must be a lowercase UUIDv4''))
      | _ \<Rightarrow> Inl (RetentionError (fld @ '' must be a lowercase UUIDv4'')))"

definition valid_request_id :: "string \<Rightarrow> string res" where
  "valid_request_id rid = uuid4 (JStr rid) ''request_id''"

definition optional_run :: "json \<Rightarrow> string option res" where
  "optional_run v =
     (if v = JNull \<or> v = JStr [] then Inr None
      else bindE (validate_safe_id v ''run_id'') (\<lambda>s. Inr (Some s)))"

definition result_common_fields :: "string list" where
  "result_common_fields =
    [''schema_version'', ''protocol'', ''request_id'', ''publisher_id'', ''outcome'', ''retryable'']"

definition result_ready_fields :: "string list" where
  "result_ready_fields =
    [''candidate_deployment_id'', ''expected_current_deployment_id'', ''snapshot_id'', ''run_id'',
     ''release_policy_id'', ''promotion_policy_id'']"

definition queued_request_fields :: "string list" where
  "queued_request_fields =
    [''schema_version'', ''protocol'', ''request_id'', ''publisher_id'', ''release_policy_id'', ''snapshot_id'',
     ''expected_current_deployment_id'', ''snapshot_manifest_sha256'']"

definition commit_fields :: "string list" where
  "commit_fields =
    [''schema_version'', ''protocol'', ''request_id'', ''publisher_id'', ''candidate_deployment_id'',
     ''expected_current_deployment_id'', ''submission_archive_sha256'']"

definition commit_journal_fields :: "string list" where
  "commit_journal_fields =
    [''schema_version'', ''protocol'', ''state'', ''request_id'', ''publisher_id'', ''candidate_deployment_id'',
     ''expected_current_deployment_id'', ''release_policy_id'', ''started_at'']"

definition success_outcomes :: "string list" where
  "success_outcomes = [''UNCHANGED'', ''PROMOTED'']"

definition terminal_outcomes :: "string list" where
  "terminal_outcomes =
    [''UNCHANGED'', ''PROMOTED'', ''LOCAL_VAULT_INVALID'', ''LOCAL_SOURCE_CHANGED'', ''PROMOTED_SOURCE_MOVED'',
     ''AUTHORIZATION_FAILED'', ''TRANSFER_FAILED'', ''REMOTE_SNAPSHOT_INVALID'', ''BUILD_FAILED'',
     ''EVALUATION_FAILED'', ''PROMOTION_CONFLICT'', ''POST_PROMOTION_MISMATCH'', ''HOMEOPS_UNAVAILABLE'',
     ''TIMEOUT'', ''INTERNAL_ERROR'']"

section \<open>Records of the publication protocol\<close>

definition need_sha :: "dict \<Rightarrow> string \<Rightarrow> unit res" where
  "need_sha d f = bindE (required_sha256 (dget d f) f) (\<lambda>_. Inr ())"

definition need_expected :: "dict \<Rightarrow> unit res" where
  "need_expected d =
     bindE (expected_deployment_id (dget d ''expected_current_deployment_id'') ''expected_current_deployment_id'') (\<lambda>_.
     Inr ())"

definition validate_ready_references :: "dict \<Rightarrow> unit res" where
  "validate_ready_references d =
     bindE (need_sha d ''candidate_deployment_id'') (\<lambda>_.
     bindE (need_expected d) (\<lambda>_.
     bindE (need_sha d ''snapshot_id'') (\<lambda>_.
     bindE (optional_run (dget d ''run_id'')) (\<lambda>run.
     bindE (raiseIf (run = None) (RetentionError ''run_id is required'')) (\<lambda>_.
     bindE (need_sha d ''release_policy_id'') (\<lambda>_.
     need_sha d ''promotion_policy_id''))))))"

text \<open>The fields that have to agree with the place of a record.\<close>

definition foreign_record :: "dict \<Rightarrow> int \<Rightarrow> string \<Rightarrow> string \<Rightarrow> bool" where
  "foreign_record d schema publisher rid \<longleftrightarrow>
     \<not> pyeq (dget d ''schema_version'') (JInt schema) \<or> \<not> pyeq (dget d ''protocol'') (JStr ''homeops.receiver/v1'')
     \<or> \<not> pyeq (dget d ''publisher_id'') (JStr publisher) \<or> \<not> pyeq (dget d ''request_id'') (JStr rid)"

definition ready_result_fields :: "string list" where
  "ready_result_fields = result_common_fields @ result_ready_fields @ [''submission_archive_sha256'']"

definition validate_ready_result :: "dict \<Rightarrow> unit res" where
  "validate_ready_result d =
     bindE (validate_ready_references d) (\<lambda>_. need_sha d ''submission_archive_sha256'')"

definition validate_success :: "dict \<Rightarrow> unit res" where
  "validate_success d =
     bindE (raiseIf (dget d ''retryable'' = JBool True
         \<or> \<not> (same_fields d (ready_result_fields @ [''promoted_at''])
            \<or> dget d ''outcome'' \<noteq> JStr ''PROMOTED'' \<and> same_fields d ready_result_fields))
       (RetentionError ''successful result contract is invalid'')) (\<lambda>_.
     bindE (validate_ready_result d) (\<lambda>_.
     if dhas d ''promoted_at'' then bindE (parse_time (dget d ''promoted_at'') ''result promoted_at'') (\<lambda>_. Inr ())
     else Inr ()))"

definition validate_failure :: "dict \<Rightarrow> unit res" where
  "validate_failure d =
     (let simple = result_common_fields @ [''diagnostic'']; candidate = ready_result_fields @ [''diagnostic'']
      in bindE (raiseIf (\<not> same_fields d simple \<and> \<not> same_fields d candidate)
           (RetentionError ''failure result contract is invalid'')) (\<lambda>_.
         bindE (raiseIf (case dget d ''diagnostic'' of JStr s \<Rightarrow> s = [] \<or> 500 < length s | _ \<Rightarrow> True)
           (RetentionError ''failure result diagnostic is invalid'')) (\<lambda>_.
         if same_fields d candidate then validate_ready_result d else Inr ())))"

definition validate_result_record :: "dict \<Rightarrow> string \<Rightarrow> string \<Rightarrow> dict res" where
  "validate_result_record d publisher rid =
     bindE (raiseIf (foreign_record d 1 publisher rid)
       (RetentionError ''result protocol identity disagrees with its path'')) (\<lambda>_.
     bindE (valid_request_id rid) (\<lambda>_.
     bindE (in_strs (dget d ''outcome'') (terminal_outcomes @ [''CANDIDATE_READY''])) (\<lambda>known.
     bindE (raiseIf (\<not> known) (RetentionError ''result outcome is unknown'')) (\<lambda>_.
     bindE (raiseIf (\<not> is_bool (dget d ''retryable'')) (RetentionError ''result retryable flag is invalid'')) (\<lambda>_.
     bindE
       (if dget d ''outcome'' = JStr ''CANDIDATE_READY'' then
          bindE (raiseIf (dget d ''retryable'' = JBool True \<or> \<not> same_fields d ready_result_fields)
            (RetentionError ''candidate-ready result contract is invalid'')) (\<lambda>_. validate_ready_result d)
        else if str_of (dget d ''outcome'') \<in> set success_outcomes then validate_success d
        else validate_failure d) (\<lambda>_.
     Inr d))))))"

definition validate_queued_request :: "dict \<Rightarrow> string \<Rightarrow> string \<Rightarrow> dict res" where
  "validate_queued_request d publisher rid =
     bindE (raiseIf (dkeys d \<noteq> queued_request_fields)
       (RetentionError ''queued request has missing or unknown fields'')) (\<lambda>_.
     bindE (raiseIf (foreign_record d 1 publisher rid)
       (RetentionError ''queued request protocol identity disagrees with its path'')) (\<lambda>_.
     bindE (need_sha d ''release_policy_id'') (\<lambda>_.
     bindE (need_sha d ''snapshot_id'') (\<lambda>_.
     bindE (valid_request_id rid) (\<lambda>_.
     bindE (need_expected d) (\<lambda>_.
     bindE (need_sha d ''snapshot_manifest_sha256'') (\<lambda>_.
     Inr d)))))))"

definition validate_commit_reference :: "dict \<Rightarrow> string \<Rightarrow> string \<Rightarrow> dict res" where
  "validate_commit_reference d publisher rid =
     bindE (raiseIf (dkeys d \<noteq> commit_fields) (RetentionError ''commit marker has missing or unknown fields'')) (\<lambda>_.
     bindE (raiseIf (foreign_record d 1 publisher rid)
       (RetentionError ''commit marker protocol identity disagrees with its path'')) (\<lambda>_.
     bindE (need_sha d ''candidate_deployment_id'') (\<lambda>_.
     bindE (valid_request_id rid) (\<lambda>_.
     bindE (need_expected d) (\<lambda>_.
     bindE (need_sha d ''submission_archive_sha256'') (\<lambda>_.
     Inr d))))))"

definition validate_commit_journal_reference :: "dict \<Rightarrow> string \<Rightarrow> string \<Rightarrow> dict res" where
  "validate_commit_journal_reference d publisher rid =
     bindE (raiseIf (\<not> same_fields d commit_journal_fields)
       (RetentionError ''commit journal has missing or unknown fields'')) (\<lambda>_.
     bindE (raiseIf (foreign_record d 1 publisher rid \<or> \<not> pyeq (dget d ''state'') (JStr ''APPLYING''))
       (RetentionError ''commit journal protocol identity disagrees with its path'')) (\<lambda>_.
     bindE (valid_request_id rid) (\<lambda>_.
     bindE (need_sha d ''candidate_deployment_id'') (\<lambda>_.
     bindE (need_expected d) (\<lambda>_.
     bindE (need_sha d ''release_policy_id'') (\<lambda>_.
     bindE (parse_time (dget d ''started_at'') ''commit journal started_at'') (\<lambda>_.
     Inr d)))))))"

section \<open>Failed builds\<close>

definition failed_build_fields :: "string list" where
  "failed_build_fields =
    [''schema_version'', ''build_contract_version'', ''run_id'', ''profile'', ''vault_root'', ''database_path'',
     ''source_fingerprint'', ''artifact_fingerprint'', ''logical_fingerprint'', ''counts'', ''inventory'',
     ''unresolved_targets'', ''started_at'', ''completed_at'', ''result'', ''ingestion_result'',
     ''homeops_version'', ''source_revision'', ''image_digest'', ''failed_at'', ''failure'']"

definition is_source_revision :: "json \<Rightarrow> bool" where
  "is_source_revision v =
     (case v of JStr s \<Rightarrow> 7 \<le> length s \<and> length s \<le> 64 \<and> list_all is_lower_hex s | _ \<Rightarrow> False)"

definition is_image_digest :: "json \<Rightarrow> bool" where
  "is_image_digest v = (case v of JStr s \<Rightarrow> startswith s ''sha256:'' \<and> is_sha256 (drop 7 s) | _ \<Rightarrow> False)"

definition natural_counts :: "json \<Rightarrow> bool" where
  "natural_counts v =
     (case v of JObj d \<Rightarrow> list_all (\<lambda>p. case snd p of JInt i \<Rightarrow> 0 \<le> i | _ \<Rightarrow> False) d | _ \<Rightarrow> False)"

definition failed_inventory :: "json \<Rightarrow> bool" where
  "failed_inventory v \<longleftrightarrow> is_obj v \<and> same_fields (obj_of v) [''included'', ''excluded'']
     \<and> list_all (\<lambda>p. is_list (snd p)) (obj_of v)"

text \<open>The times of a failed build, in order.\<close>

definition failed_times :: "dict \<Rightarrow> instant res" where
  "failed_times m =
     bindE (parse_time (dget m ''started_at'') ''failed build started_at'') (\<lambda>started.
     bindE (if dget m ''completed_at'' = JNull then Inr None
            else bindE (parse_time (dget m ''completed_at'') ''failed build completed_at'') (\<lambda>t. Inr (Some t))) (\<lambda>completed.
     bindE (parse_time (dget m ''failed_at'') ''failed build failed_at'') (\<lambda>failed.
     bindE (raiseIf (failed < started
         \<or> (case completed of None \<Rightarrow> False | Some c \<Rightarrow> c < started \<or> failed < c))
       (RetentionError ''failed build timestamps are inconsistent'')) (\<lambda>_.
     Inr failed))))"

definition failed_identity :: "path \<Rightarrow> dict \<Rightarrow> unit res" where
  "failed_identity p m =
     bindE (uuid4 (dget m ''run_id'') ''failed build run_id'') (\<lambda>run.
     bindE (raiseIf (run \<noteq> last p) (RetentionError ''failed build run_id disagrees with its directory'')) (\<lambda>_.
     bindE (if \<not> pyeq (dget m ''schema_version'') (JInt 1)
              \<or> \<not> pyeq (dget m ''build_contract_version'') (JStr ''homeops-build-v1'')
              \<or> \<not> pyeq (dget m ''result'') (JStr ''failed'') then Inr False
            else in_strs (dget m ''ingestion_result'') [''candidate'', ''verified'']) (\<lambda>ok.
     raiseIf (\<not> ok) (RetentionError ''failed build schema or state is invalid''))))"

definition nonempty_text :: "json \<Rightarrow> bool" where
  "nonempty_text v = (case v of JStr s \<Rightarrow> s \<noteq> [] | _ \<Rightarrow> False)"

definition failed_places :: "world \<Rightarrow> path \<Rightarrow> dict \<Rightarrow> unit res" where
  "failed_places w p m =
     bindE (eachE (\<lambda>f. raiseIf (\<not> nonempty_text (dget m f)) (RetentionError (''failed build '' @ f @ '' is invalid'')))
       [''profile'', ''vault_root'', ''homeops_version'', ''failure'']) (\<lambda>_.
     bindE (raiseIf (\<not> startswith (str_of (dget m ''vault_root'')) ''/'')
       (RetentionError ''failed build vault_root is not absolute'')) (\<lambda>_.
     bindE (raiseIf (is_symlink w (p @ [''cozo.db''])) (Unmodelled ''target of a symbolic link'')) (\<lambda>_.
     raiseIf (\<not> pyeq (dget m ''database_path'') (JStr (path_text (p @ [''cozo.db'']))))
       (RetentionError ''failed build database_path disagrees with its directory''))))"

definition validate_failed_build_manifest :: "world \<Rightarrow> path \<Rightarrow> dict \<Rightarrow> instant res" where
  "validate_failed_build_manifest w p m =
     bindE (raiseIf (\<not> same_fields m failed_build_fields)
       (RetentionError ''failed build manifest has missing or unknown fields'')) (\<lambda>_.
     bindE (failed_identity p m) (\<lambda>_.
     bindE (failed_places w p m) (\<lambda>_.
     bindE (eachE (\<lambda>f. bindE (required_sha256 (dget m f) (''failed build '' @ f)) (\<lambda>_. Inr ())) fingerprint_fields) (\<lambda>_.
     bindE (raiseIf (\<not> is_source_revision (dget m ''source_revision''))
       (RetentionError ''failed build source_revision is invalid'')) (\<lambda>_.
     bindE (raiseIf (\<not> is_image_digest (dget m ''image_digest''))
       (RetentionError ''failed build image_digest is invalid'')) (\<lambda>_.
     bindE (raiseIf (\<not> natural_counts (dget m ''counts'')) (RetentionError ''failed build counts are invalid'')) (\<lambda>_.
     bindE (raiseIf (\<not> failed_inventory (dget m ''inventory''))
       (RetentionError ''failed build inventory is invalid'')) (\<lambda>_.
     bindE (raiseIf (\<not> is_list (dget m ''unresolved_targets''))
       (RetentionError ''failed build unresolved_targets is invalid'')) (\<lambda>_.
     failed_times m)))))))))"

end
