(* ===== verification/RetentionPlan.thy ===== *)
theory RetentionPlan
  imports Retention
begin

text \<open>
  \<open>retention.py\<close>, the planner: a survey of the pipeline root collects the deployments, what the
  pipeline still refers to and every finding that it cannot resolve; the plan then names what may be
  removed. The survey is a program over its own state (the collections of the planner), because an
  exception that a section of it catches leaves the collections as they are at that point; the world
  is only read. \<open>mtime\<close> gives the modification time of a path as \<open>datetime.fromtimestamp\<close> does.
\<close>

text \<open>A target: its kind and its path.\<close>

type_synonym target = "string \<times> path"

type_synonym identity_claim = "string \<times> string \<times> string \<times> string"

record survey =
  ref_deployments :: "string set"
  ref_runs :: "string set"
  ref_snapshots :: "string set"
  failure_deployments :: "string set"
  failure_runs :: "string set"
  failure_snapshots :: "string set"
  identity_claims :: "identity_claim list"
  unresolved :: "(string \<times> string \<times> string) list"
  blocks_all :: bool
  owned_records :: "(string \<times> owned) list"
  results_seen :: "((string \<times> string) \<times> dict) list"
  evidence :: "dict list"
  age_targets :: "target list"
  pinned :: "string set"

type_synonym 'a scan = "(survey, exn, 'a) prog"

definition no_survey :: survey where
  "no_survey = \<lparr>ref_deployments = {}, ref_runs = {}, ref_snapshots = {}, failure_deployments = {}, failure_runs = {},
     failure_snapshots = {}, identity_claims = [], unresolved = [], blocks_all = False, owned_records = [],
     results_seen = [], evidence = [], age_targets = [], pinned = {}\<rparr>"

text \<open>\<open>_unresolved\<close>: a code, the path below the root and a detail.\<close>

definition unresolved_at :: "path \<Rightarrow> path \<Rightarrow> string \<Rightarrow> string \<Rightarrow> bool \<Rightarrow> unit scan" where
  "unresolved_at root p code detail blocks =
     modifyM (\<lambda>s. s\<lparr>unresolved := unresolved s @ [(code, relative_text root p, detail)],
       blocks_all := blocks_all s \<or> blocks\<rparr>)"

text \<open>\<open>try: m except caught as error: handler(error)\<close>.\<close>

definition guarded :: "(exn \<Rightarrow> bool) \<Rightarrow> unit scan \<Rightarrow> (exn \<Rightarrow> unit scan) \<Rightarrow> unit scan" where
  "guarded caught m handler = catchM m (\<lambda>e. if caught e then Some (handler e) else None)"

definition inventory_error :: "exn \<Rightarrow> bool" where
  "inventory_error e \<longleftrightarrow> is_deployment_error e \<or> is_retention_error e"

definition pipeline_error :: "exn \<Rightarrow> bool" where
  "pipeline_error e \<longleftrightarrow> is_deployment_error e \<or> is_retention_error e \<or> is_snapshot_error e"

section \<open>Deployments\<close>

definition inventory_deployment :: "env \<Rightarrow> world \<Rightarrow> path \<Rightarrow> string \<Rightarrow> unit scan" where
  "inventory_deployment E w root name =
     (let p = root @ [''data'', ''deployments'', name]
      in if suffix_of name \<noteq> ''.json'' then
           unresolved_at root p ''unexpected-deployment-entry'' ''deployment store contains a non-record entry'' True
         else guarded inventory_error
           (bindM (liftM (read_owned E w root name)) (\<lambda>(i, b).
            modifyM (\<lambda>s. s\<lparr>owned_records := AList.update i b (owned_records s)\<rparr>)))
           (\<lambda>e. unresolved_at root p ''deployment-bundle-invalid'' (exn_text e) True))"

definition inventory_deployments :: "env \<Rightarrow> world \<Rightarrow> path \<Rightarrow> unit scan" where
  "inventory_deployments E w root =
     (let store = root @ [''data'', ''deployments'']
      in if \<not> is_dir w store \<or> is_symlink w store then
           unresolved_at root store ''deployment-store-invalid'' ''deployment store is not a real directory'' True
         else eachM (inventory_deployment E w root) (children w store))"

definition owners_of :: "(string \<times> owned) list \<Rightarrow> string \<Rightarrow> string list" where
  "owners_of rs run = map fst (filter (\<lambda>(i, b). run_of b = run) rs)"

definition build_path :: "path \<Rightarrow> string \<Rightarrow> path" where
  "build_path root run = root @ [''data'', ''builds'', run]"

definition check_owners :: "path \<Rightarrow> (string \<times> owned) list \<Rightarrow> string \<Rightarrow> unit scan" where
  "check_owners root rs run =
     (let owners = owners_of rs run
      in if 1 < length owners then
           unresolved_at root (build_path root run) ''duplicate-build-ownership''
             (''one build run is owned by multiple deployment records: '' @ join '','' (sort owners)) True
         else retM ())"

definition validate_build_ownership :: "path \<Rightarrow> unit scan" where
  "validate_build_ownership root =
     bindM (getsM owned_records) (\<lambda>rs.
     eachM (check_owners root rs) (sorted_set (map (\<lambda>(i, b). run_of b) rs)))"

definition check_reference :: "path \<Rightarrow> (string \<times> owned) list \<Rightarrow> string \<Rightarrow> unit scan" where
  "check_reference root rs i =
     (if map_of rs i = None then
        unresolved_at root (root @ [''data'', ''deployments'', i @ ''.json'']) ''referenced-deployment-missing''
          ''pipeline state names no valid immutable deployment bundle'' True
      else retM ())"

definition check_run_reference :: "path \<Rightarrow> (string \<times> owned) list \<Rightarrow> string \<Rightarrow> unit scan" where
  "check_run_reference root rs run =
     (if owners_of rs run = [] then
        unresolved_at root (build_path root run) ''referenced-build-missing''
          ''pipeline state names no valid deployment-owned build'' True
      else retM ())"

definition check_claim :: "path \<Rightarrow> (string \<times> owned) list \<Rightarrow> identity_claim \<Rightarrow> unit scan" where
  "check_claim root rs = (\<lambda>(i, run, snapshot, kind).
     case map_of rs i of
       None \<Rightarrow> retM ()
     | Some b \<Rightarrow>
         if run_of b \<noteq> run \<or> snapshot_of b \<noteq> snapshot then
           unresolved_at root (record_file b) ''pipeline-identity-mismatch''
             ''pipeline deployment/run/snapshot identity is inconsistent'' True
         else retM ())"

definition validate_reference_integrity :: "path \<Rightarrow> unit scan" where
  "validate_reference_integrity root =
     bindM (getsM (\<lambda>s. s)) (\<lambda>s.
     (let rs = owned_records s
      in bindM (eachM (check_reference root rs)
           (sorted_list_of_set (ref_deployments s \<union> failure_deployments s))) (\<lambda>_.
         bindM (eachM (check_run_reference root rs) (sorted_list_of_set (ref_runs s \<union> failure_runs s))) (\<lambda>_.
         eachM (check_claim root rs) (sort (identity_claims s))))))"

section \<open>What the pipeline refers to\<close>

definition refer :: "string option \<Rightarrow> (string \<Rightarrow> survey \<Rightarrow> survey) \<Rightarrow> unit scan" where
  "refer r add = modifyM (case r of None \<Rightarrow> (\<lambda>s. s) | Some x \<Rightarrow> add x)"

definition add_deployment :: "bool \<Rightarrow> string \<Rightarrow> survey \<Rightarrow> survey" where
  "add_deployment failure x s =
     (if failure then s\<lparr>failure_deployments := insert x (failure_deployments s)\<rparr>
      else s\<lparr>ref_deployments := insert x (ref_deployments s)\<rparr>)"

definition add_snapshot :: "bool \<Rightarrow> string \<Rightarrow> survey \<Rightarrow> survey" where
  "add_snapshot failure x s =
     (if failure then s\<lparr>failure_snapshots := insert x (failure_snapshots s)\<rparr>
      else s\<lparr>ref_snapshots := insert x (ref_snapshots s)\<rparr>)"

definition add_run :: "bool \<Rightarrow> string \<Rightarrow> survey \<Rightarrow> survey" where
  "add_run failure x s =
     (if failure then s\<lparr>failure_runs := insert x (failure_runs s)\<rparr>
      else s\<lparr>ref_runs := insert x (ref_runs s)\<rparr>)"

definition add_claim :: "identity_claim \<Rightarrow> survey \<Rightarrow> survey" where
  "add_claim c s = s\<lparr>identity_claims := identity_claims s @ [c]\<rparr>"

definition add_identity_references :: "dict \<Rightarrow> bool \<Rightarrow> unit scan" where
  "add_identity_references d failure =
     bindM (liftM (optional_sha256 (dget d ''candidate_deployment_id'') ''candidate_deployment_id'')) (\<lambda>candidate.
     bindM (refer candidate (add_deployment failure)) (\<lambda>_.
     bindM (liftM (optional_sha256 (dget d ''expected_current_deployment_id'') ''expected_current_deployment_id'')) (\<lambda>expected.
     bindM (refer expected (add_deployment False)) (\<lambda>_.
     bindM (liftM (optional_sha256 (dget d ''snapshot_id'') ''snapshot_id'')) (\<lambda>snapshot.
     bindM (refer snapshot (add_snapshot failure)) (\<lambda>_.
     bindM (liftM (optional_run (dget d ''run_id''))) (\<lambda>run.
     bindM (refer run (add_run failure)) (\<lambda>_.
     case (candidate, snapshot, run) of
       (Some c, Some sn, Some r) \<Rightarrow> modifyM (add_claim (c, r, sn, if failure then ''failure'' else ''unresolved''))
     | _ \<Rightarrow> retM ()))))))))"

text \<open>A loop over the directories of the publishers in a name space.\<close>

definition each_publisher :: "world \<Rightarrow> path \<Rightarrow> path \<Rightarrow> string \<Rightarrow> string list \<Rightarrow> (string \<Rightarrow> unit scan) \<Rightarrow> unit scan" where
  "each_publisher w root base fld names body =
     eachM (\<lambda>name.
       bindM (liftM (safe_directory w root (base @ [name]) fld)) (\<lambda>_.
       bindM (liftM (validate_publisher_id (JStr name))) (\<lambda>_. body name))) names"

definition json_request_id :: "string \<Rightarrow> string \<Rightarrow> string res" where
  "json_request_id label name =
     bindE (raiseIf (suffix_of name \<noteq> ''.json'') (RetentionError (label @ '' path is not a JSON record''))) (\<lambda>_.
     validate_safe_id (JStr (stem_of name)) ''request_id'')"

definition unfinished :: "dict \<Rightarrow> bool" where
  "unfinished d \<longleftrightarrow> dget d ''outcome'' = JStr ''CANDIDATE_READY'' \<or> dget d ''retryable'' = JBool True"

definition scan_result :: "world \<Rightarrow> path \<Rightarrow> string \<Rightarrow> string \<Rightarrow> unit scan" where
  "scan_result w root publisher name =
     (let p = root @ [''results'', publisher, name]
      in bindM (liftM (json_request_id ''result'' name)) (\<lambda>rid.
         bindM (liftM (bindE (read_object w root p) (\<lambda>v. validate_result_record v publisher rid))) (\<lambda>result.
         bindM (modifyM (\<lambda>s. s\<lparr>results_seen := AList.update (publisher, rid) result (results_seen s)\<rparr>)) (\<lambda>_.
         if unfinished result then
           bindM (add_identity_references result False) (\<lambda>_.
           unresolved_at root p ''pipeline-attempt-unresolved''
             (''remote result remains '' @ str_of (dget result ''outcome'')) False)
         else if str_of (dget result ''outcome'') \<notin> set success_outcomes then
           bindM (liftM (optional_sha256 (dget result ''candidate_deployment_id'') ''candidate_deployment_id'')) (\<lambda>candidate.
           if candidate \<noteq> None then add_identity_references result True else retM ())
         else retM ()))))"

definition result_references :: "world \<Rightarrow> path \<Rightarrow> unit scan" where
  "result_references w root =
     (let base = root @ [''results'']
      in if \<not> lexists w base then retM ()
         else guarded pipeline_error
           (bindM (liftM (safe_directory w root base ''results directory'')) (\<lambda>_.
            each_publisher w root base ''publisher results directory'' (children w base) (\<lambda>publisher.
              eachM (scan_result w root publisher) (children w (base @ [publisher])))))
           (\<lambda>e. unresolved_at root base ''results-inventory-invalid'' (exn_text e) True))"

definition still_pending :: "survey \<Rightarrow> string \<Rightarrow> string \<Rightarrow> bool" where
  "still_pending s publisher rid =
     (case map_of (results_seen s) (publisher, rid) of None \<Rightarrow> True | Some d \<Rightarrow> unfinished d)"

text \<open>A record without a final result keeps what it names.\<close>

definition keep_pending :: "path \<Rightarrow> path \<Rightarrow> string \<Rightarrow> string \<Rightarrow> dict \<Rightarrow> string \<Rightarrow> string \<Rightarrow> unit scan" where
  "keep_pending root p publisher rid d code detail =
     bindM (getsM (\<lambda>s. still_pending s publisher rid)) (\<lambda>pending.
     if pending then
       bindM (add_identity_references d False) (\<lambda>_. unresolved_at root p code detail False)
     else retM ())"

definition scan_request :: "world \<Rightarrow> path \<Rightarrow> string \<Rightarrow> string \<Rightarrow> unit scan" where
  "scan_request w root publisher name =
     (let p = root @ [''incoming'', publisher, name]
      in bindM (liftM (safe_directory w root p ''incoming request directory'')) (\<lambda>_.
         bindM (liftM (validate_safe_id (JStr name) ''request_id'')) (\<lambda>rid.
         bindM (liftM (bindE (read_canonical_object w root (p @ [''payload'', ''request.json'']) queued_request_fields)
             (\<lambda>v. validate_queued_request v publisher rid))) (\<lambda>request.
         keep_pending root p publisher rid request ''incoming-request-unresolved''
           ''incoming request has no final non-retryable result''))))"

definition is_upload :: "string \<Rightarrow> bool" where
  "is_upload name = startswith name ''.upload-''"

definition incoming_references :: "world \<Rightarrow> path \<Rightarrow> unit scan" where
  "incoming_references w root =
     (let base = root @ [''incoming'']
      in if \<not> lexists w base then retM ()
         else guarded pipeline_error
           (bindM (liftM (safe_directory w root base ''incoming directory'')) (\<lambda>_.
            each_publisher w root base ''publisher incoming directory''
              (filter (\<lambda>name. \<not> is_upload name) (children w base)) (\<lambda>publisher.
                eachM (scan_request w root publisher) (children w (base @ [publisher])))))
           (\<lambda>e. unresolved_at root base ''incoming-inventory-invalid'' (exn_text e) True))"

definition read_commit :: "world \<Rightarrow> path \<Rightarrow> path \<Rightarrow> string \<Rightarrow> string \<Rightarrow> string \<Rightarrow> dict res" where
  "read_commit w root p label publisher rid =
     (if label = ''commit'' then
        bindE (read_canonical_object w root p commit_fields) (\<lambda>v. validate_commit_reference v publisher rid)
      else bindE (read_object w root p) (\<lambda>v. validate_commit_journal_reference v publisher rid))"

definition scan_commit :: "world \<Rightarrow> path \<Rightarrow> path \<Rightarrow> string \<Rightarrow> string \<Rightarrow> string \<Rightarrow> unit scan" where
  "scan_commit w root base label publisher name =
     (let p = base @ [publisher, name]
      in bindM (liftM (json_request_id label name)) (\<lambda>rid.
         bindM (liftM (read_commit w root p label publisher rid)) (\<lambda>v.
         keep_pending root p publisher rid v (label @ ''-unresolved'')
           (label @ '' has no final non-retryable result''))))"

definition commit_references :: "world \<Rightarrow> path \<Rightarrow> path \<Rightarrow> string \<Rightarrow> unit scan" where
  "commit_references w root base label =
     (if \<not> lexists w base then retM ()
      else guarded pipeline_error
        (bindM (liftM (safe_directory w root base (label @ '' directory''))) (\<lambda>_.
         each_publisher w root base (''publisher '' @ label @ '' directory'') (children w base) (\<lambda>publisher.
           eachM (scan_commit w root base label publisher) (children w (base @ [publisher])))))
        (\<lambda>e. unresolved_at root base (label @ ''-inventory-invalid'') (exn_text e) True))"

definition add_rollback_slot :: "json \<Rightarrow> survey \<Rightarrow> survey" where
  "add_rollback_slot v s =
     (if truthy v then
        (let d = obj_of v; i = str_of (dget d ''deployment_id''); run = str_of (dget d ''run_id'');
             snapshot = str_of (dget d ''snapshot_id'')
         in add_claim (i, run, snapshot, ''rollback'')
              (add_snapshot False snapshot (add_run False run (add_deployment False i s))))
      else s)"

definition rollback_state :: "env \<Rightarrow> dict \<Rightarrow> string \<Rightarrow> unit scan" where
  "rollback_state E value fld =
     bindM (liftM (validate_state (digest E) (dget value fld) False)) (\<lambda>state.
     bindM (modifyM (add_rollback_slot (dget state ''current_deployment''))) (\<lambda>_.
     modifyM (add_rollback_slot (dget state ''previous_deployment''))))"

definition rollback_references :: "env \<Rightarrow> world \<Rightarrow> path \<Rightarrow> unit scan" where
  "rollback_references E w root =
     (let p = root @ [''data'', ''pipeline-transactions'', ''rollback.json'']
      in if \<not> lexists w p then retM ()
         else guarded inventory_error
           (bindM (liftM (read_object w root p)) (\<lambda>value.
            bindM (eachM (rollback_state E value) [''source_state'', ''target_state'']) (\<lambda>_.
            unresolved_at root p ''rollback-transaction-unresolved''
              ''a durable rollback transaction must finish before cleanup'' True)))
           (\<lambda>e. unresolved_at root p ''rollback-transaction-invalid'' (exn_text e) True))"

definition quarantine_references :: "world \<Rightarrow> path \<Rightarrow> unit scan" where
  "quarantine_references w root =
     (let p = root @ [''quarantine'']
      in if \<not> lexists w p then retM ()
         else guarded is_retention_error
           (bindM (liftM (safe_directory w root p ''quarantine directory'')) (\<lambda>_.
            if children w p \<noteq> [] then
              unresolved_at root p ''quarantine-not-empty''
                ''quarantined input may contain unresolved deployment references'' True
            else retM ()))
           (\<lambda>e. unresolved_at root p ''quarantine-invalid'' (exn_text e) True))"

definition pipeline_references :: "env \<Rightarrow> world \<Rightarrow> path \<Rightarrow> unit scan" where
  "pipeline_references E w root =
     bindM (result_references w root) (\<lambda>_.
     bindM (incoming_references w root) (\<lambda>_.
     bindM (commit_references w root (root @ [''commits'']) ''commit'') (\<lambda>_.
     bindM (commit_references w root (root @ [''pipeline-state'', ''commit-journal'']) ''commit-journal'') (\<lambda>_.
     bindM (rollback_references E w root) (\<lambda>_.
     quarantine_references w root)))))"

section \<open>The active state\<close>

type_synonym choice = "dict option \<times> string option \<times> string option"

definition check_role :: "(string \<times> owned) list \<Rightarrow> string \<Rightarrow> json \<Rightarrow> unit res" where
  "check_role rs role v =
     (if v = JNull then Inr ()
      else (case map_of rs (str_of (dget (obj_of v) ''deployment_id'')) of
          None \<Rightarrow> Inl (RetentionError (role @ '' deployment has no valid immutable bundle''))
        | Some b \<Rightarrow> same_identity (deployment b) (obj_of v)
            (role @ '' deployment identity disagrees with its record'')))"

definition slot_id :: "json \<Rightarrow> string option" where
  "slot_id v = (if truthy v then Some (str_of (dget (obj_of v) ''deployment_id'')) else None)"

definition read_selection :: "env \<Rightarrow> world \<Rightarrow> path \<Rightarrow> (string \<times> owned) list \<Rightarrow> choice res" where
  "read_selection E w root rs =
     bindE (read_object w root (root @ [''data'', ''active.json''])) (\<lambda>v.
     bindE (validate_state (digest E) (JObj v) False) (\<lambda>state.
     bindE (raiseIf (\<not> pyeq (dget state ''schema_version'') (JInt DEPLOYMENT_SCHEMA_VERSION))
       (RetentionError ''retention requires schema-v2 active state'')) (\<lambda>_.
     (let current = dget state ''current_deployment''; previous = dget state ''previous_deployment''
      in bindE (raiseIf (current = JNull) (RetentionError ''retention requires an active deployment'')) (\<lambda>_.
         bindE (check_role rs ''current'' current) (\<lambda>_.
         bindE (check_role rs ''previous'' previous) (\<lambda>_.
         bindE (read_object w root (projection_path root)) (\<lambda>published.
         bindE (current_projection (digest E) (JObj state)) (\<lambda>projection.
         bindE (raiseIf (\<not> pyeq (JObj published) (JObj projection))
           (RetentionError ''published current projection disagrees with active state'')) (\<lambda>_.
         Inr (Some state, Some (str_of (dget (obj_of current) ''deployment_id'')), slot_id previous)))))))))))"

definition validate_active_state :: "env \<Rightarrow> world \<Rightarrow> path \<Rightarrow> choice scan" where
  "validate_active_state E w root =
     bindM (getsM owned_records) (\<lambda>rs.
     case read_selection E w root rs of
       Inr sel \<Rightarrow> retM sel
     | Inl e \<Rightarrow>
         if inventory_error e then
           bindM (unresolved_at root (root @ [''data'', ''active.json'']) ''active-state-invalid'' (exn_text e) True)
             (\<lambda>_. retM (None, None, None))
         else raiseM e)"

section \<open>Targets\<close>

definition upload_name :: "string \<Rightarrow> bool" where
  "upload_name n \<longleftrightarrow>
     is_upload n
     \<and> (let body = drop 8 n; k = length body - 33
        in 33 < length body \<and> body ! k = CHR ''-'' \<and> list_all is_lower_hex (drop (k + 1) body)
           \<and> validate_publisher_id (JStr (take k body)) = Inr (take k body))"

text \<open>The allowlist of the kinds, on the components below the root.\<close>

definition allowed_target :: "string \<Rightarrow> path \<Rightarrow> bool" where
  "allowed_target kind cs =
     (case cs of
        [a, n] \<Rightarrow>
          kind = ''snapshot'' \<and> a = ''vault-snapshots'' \<and> is_sha256 n
          \<or> kind = ''incomplete-upload'' \<and> a = ''incoming'' \<and> upload_name n
      | [a, b, n] \<Rightarrow>
          a = ''data''
          \<and> (kind = ''deployment-record'' \<and> b = ''deployments'' \<and> is_sha256 (take 64 n) \<and> drop 64 n = ''.json''
             \<or> kind = ''deployment-history'' \<and> b = ''deployment-history'' \<and> is_sha256 n
             \<or> kind \<in> {''build'', ''failed-build''} \<and> b = ''builds'' \<and> safe_id n)
      | _ \<Rightarrow> False)"

definition retention_target :: "world \<Rightarrow> path \<Rightarrow> path \<Rightarrow> string \<Rightarrow> target res" where
  "retention_target w root p kind =
     bindE (raiseIf (is_symlink w p \<or> \<not> exists_path w p)
       (RetentionError (''retention target is missing or a symlink: '' @ path_text p))) (\<lambda>_.
     bindE (raiseIf (through_link w p) (Unmodelled ''target of a symbolic link'')) (\<lambda>_.
     bindE (raiseIf (\<not> below root p) (RetentionError (''retention target escapes pipeline root: '' @ path_text p))) (\<lambda>_.
     bindE (raiseIf (\<not> allowed_target kind (drop (length root) p))
       (RetentionError (''retention target is not allowlisted: '' @ relative_posix root p))) (\<lambda>_.
     Inr (kind, p)))))"

section \<open>What belongs to no deployment\<close>

definition FAILED_BUILD_RETENTION :: int where
  "FAILED_BUILD_RETENTION = 7 * 86400 * 1000000"

definition INCOMPLETE_UPLOAD_RETENTION :: int where
  "INCOMPLETE_UPLOAD_RETENTION = 24 * 3600 * 1000000"

definition add_evidence :: "dict \<Rightarrow> unit scan" where
  "add_evidence d = modifyM (\<lambda>s. s\<lparr>evidence := evidence s @ [d]\<rparr>)"

definition add_age_target :: "world \<Rightarrow> path \<Rightarrow> path \<Rightarrow> string \<Rightarrow> unit scan" where
  "add_age_target w root p kind =
     bindM (liftM (retention_target w root p kind)) (\<lambda>t.
     modifyM (\<lambda>s. s\<lparr>age_targets := age_targets s @ [t]\<rparr>))"

definition aged_evidence :: "string \<Rightarrow> string \<Rightarrow> string \<Rightarrow> instant \<Rightarrow> instant \<Rightarrow> dict" where
  "aged_evidence kind decision relative observed eligible =
     [(''kind'', JStr kind), (''decision'', JStr decision), (''path'', JStr relative),
      (''observed_at'', JStr (iso_utc observed)), (''eligible_at'', JStr (iso_utc eligible))]"

definition scan_failed_build :: "world \<Rightarrow> path \<Rightarrow> instant \<Rightarrow> string \<Rightarrow> unit scan" where
  "scan_failed_build w root as_of name =
     (let p = build_path root name
      in guarded is_retention_error
        (bindM (liftM (safe_directory w root p ''unassociated build'')) (\<lambda>_.
         bindM (liftM (read_object w root (p @ [''manifest.json'']))) (\<lambda>manifest.
         bindM (liftM (validate_failed_build_manifest w p manifest)) (\<lambda>failed.
         bindM (liftM (raiseIf (as_of < failed) (RetentionError ''failed build timestamp is in the future''))) (\<lambda>_.
         bindM (getsM (\<lambda>s. name \<in> ref_runs s \<union> failure_runs s)) (\<lambda>referenced.
         (let eligible = failed + FAILED_BUILD_RETENTION; stale = eligible \<le> as_of
          in bindM (add_evidence (aged_evidence ''failed-build''
               (if referenced then ''retain-pipeline-reference''
                else if stale then ''remove-stale'' else ''retain-failure-evidence'')
               (relative_text root p) failed eligible)) (\<lambda>_.
             if stale \<and> \<not> referenced then add_age_target w root p ''failed-build'' else retM ()))))))))
        (\<lambda>e. unresolved_at root p ''unassociated-build'' (exn_text e) True))"

definition scan_snapshot :: "path \<Rightarrow> string \<Rightarrow> unit scan" where
  "scan_snapshot root name =
     (let p = root @ [''vault-snapshots'', name]
      in bindM (getsM (\<lambda>s. name \<in> ref_snapshots s)) (\<lambda>referenced.
         if referenced then
           add_evidence [(''decision'', JStr ''retain-unresolved-pipeline''), (''path'', JStr (relative_text root p))]
         else unresolved_at root p ''unassociated-snapshot'' ''snapshot has no validated deployment record'' True))"

definition scan_history :: "path \<Rightarrow> string \<Rightarrow> unit scan" where
  "scan_history root name =
     unresolved_at root (root @ [''data'', ''deployment-history'', name]) ''unassociated-deployment-history''
       ''history has no validated deployment record'' True"

definition scan_upload :: "world \<Rightarrow> (path \<Rightarrow> instant) \<Rightarrow> path \<Rightarrow> instant \<Rightarrow> string \<Rightarrow> unit scan" where
  "scan_upload w mtime root as_of name =
     (let p = root @ [''incoming'', name]; observed = mtime p
      in bindM (liftM (raiseIf (\<not> upload_name name) (RetentionError ''incomplete upload name is invalid''))) (\<lambda>_.
         bindM (liftM (safe_directory w root p ''incomplete upload'')) (\<lambda>_.
         bindM (liftM (raiseIf (as_of < observed) (RetentionError ''incomplete upload timestamp is in the future''))) (\<lambda>_.
         (let eligible = observed + INCOMPLETE_UPLOAD_RETENTION; stale = eligible \<le> as_of
          in bindM (add_evidence (aged_evidence ''incomplete-upload''
               (if stale then ''remove-stale'' else ''retain-incomplete'') (relative_text root p) observed eligible)) (\<lambda>_.
             if stale then add_age_target w root p ''incomplete-upload'' else retM ()))))))"

definition real_directory :: "world \<Rightarrow> path \<Rightarrow> bool" where
  "real_directory w p \<longleftrightarrow> is_dir w p \<and> \<not> is_symlink w p"

definition entries_of :: "world \<Rightarrow> path \<Rightarrow> string list" where
  "entries_of w p = (if real_directory w p then children w p else [])"

definition upload_orphans :: "world \<Rightarrow> (path \<Rightarrow> instant) \<Rightarrow> path \<Rightarrow> instant \<Rightarrow> unit scan" where
  "upload_orphans w mtime root as_of =
     (let base = root @ [''incoming'']
      in if \<not> lexists w base then retM ()
         else guarded is_retention_error
           (bindM (liftM (safe_directory w root base ''incoming directory'')) (\<lambda>_.
            eachM (scan_upload w mtime root as_of) (filter is_upload (children w base))))
           (\<lambda>e. unresolved_at root base ''incomplete-upload-inventory-invalid'' (exn_text e) True))"

definition scan_orphans ::
  "world \<Rightarrow> (path \<Rightarrow> instant) \<Rightarrow> path \<Rightarrow> instant \<Rightarrow> (string \<times> owned) list \<Rightarrow> unit scan" where
  "scan_orphans w mtime root as_of rs =
     bindM (eachM (scan_failed_build w root as_of)
       (filter (\<lambda>n. owners_of rs n = []) (entries_of w (root @ [''data'', ''builds''])))) (\<lambda>_.
     bindM (eachM (scan_snapshot root)
       (filter (\<lambda>n. n \<notin> (snapshot_of \<circ> snd) ` set rs) (entries_of w (root @ [''vault-snapshots''])))) (\<lambda>_.
     bindM (eachM (scan_history root)
       (filter (\<lambda>n. map_of rs n = None) (entries_of w (root @ [''data'', ''deployment-history''])))) (\<lambda>_.
     upload_orphans w mtime root as_of)))"

definition inventory_orphans :: "world \<Rightarrow> (path \<Rightarrow> instant) \<Rightarrow> path \<Rightarrow> instant \<Rightarrow> unit scan" where
  "inventory_orphans w mtime root as_of = bindM (getsM owned_records) (scan_orphans w mtime root as_of)"

section \<open>Pins\<close>

definition check_pin :: "world \<Rightarrow> path \<Rightarrow> string \<times> owned \<Rightarrow> unit scan" where
  "check_pin w root = (\<lambda>(i, b).
     (let data = root @ [''data'']
      in case run_is_pinned w data (JStr (run_of b)) of
           Inr p \<Rightarrow> if p then modifyM (\<lambda>s. s\<lparr>pinned := insert i (pinned s)\<rparr>) else retM ()
         | Inl e \<Rightarrow>
             if is_deployment_error e then
               unresolved_at root (data @ [''run-pins'', run_of b @ ''.lock'']) ''run-pin-invalid'' (exn_text e) True
             else raiseM e))"

definition take_survey :: "env \<Rightarrow> world \<Rightarrow> (path \<Rightarrow> instant) \<Rightarrow> path \<Rightarrow> instant \<Rightarrow> choice scan" where
  "take_survey E w mtime root as_of =
     bindM (inventory_deployments E w root) (\<lambda>_.
     bindM (validate_build_ownership root) (\<lambda>_.
     bindM (pipeline_references E w root) (\<lambda>_.
     bindM (validate_reference_integrity root) (\<lambda>_.
     bindM (validate_active_state E w root) (\<lambda>sel.
     bindM (inventory_orphans w mtime root as_of) (\<lambda>_.
     bindM (getsM owned_records) (\<lambda>rs.
     bindM (eachM (check_pin w root) rs) (\<lambda>_.
     retM sel))))))))"

section \<open>Decisions\<close>

definition selected :: "choice \<Rightarrow> string set" where
  "selected = (\<lambda>(state, current, previous). set_option current \<union> set_option previous)"

definition unpromoted :: "choice \<Rightarrow> survey \<Rightarrow> string set" where
  "unpromoted sel s = {i \<in> set (map fst (owned_records s)).
     (case map_of (owned_records s) i of None \<Rightarrow> False | Some b \<Rightarrow> history_times b = []) \<and> i \<notin> selected sel}"

definition failure_evidence :: "choice \<Rightarrow> survey \<Rightarrow> string set" where
  "failure_evidence sel s = failure_deployments s \<union> unpromoted sel s"

definition reserved :: "choice \<Rightarrow> survey \<Rightarrow> string set" where
  "reserved sel s = selected sel \<union> pinned s \<union> ref_deployments s \<union> failure_evidence sel s"

definition newest_first :: "(string \<times> owned) list \<Rightarrow> string list" where
  "newest_first rs = map fst (sort_key (\<lambda>(i, b). (- effective b, i)) rs)"

definition additional :: "nat \<Rightarrow> choice \<Rightarrow> survey \<Rightarrow> string list" where
  "additional keep sel s =
     take keep (newest_first (filter (\<lambda>(i, b). i \<notin> reserved sel s) (owned_records s)))"

definition unresolved_reference :: "survey \<Rightarrow> string \<Rightarrow> owned \<Rightarrow> bool" where
  "unresolved_reference s i b \<longleftrightarrow>
     i \<in> ref_deployments s \<or> run_of b \<in> ref_runs s \<or> snapshot_of b \<in> ref_snapshots s"

definition failure_reference :: "choice \<Rightarrow> survey \<Rightarrow> string \<Rightarrow> owned \<Rightarrow> bool" where
  "failure_reference sel s i b \<longleftrightarrow>
     i \<in> failure_evidence sel s \<or> run_of b \<in> failure_runs s \<or> snapshot_of b \<in> failure_snapshots s"

definition reasons :: "nat \<Rightarrow> choice \<Rightarrow> survey \<Rightarrow> string \<times> owned \<Rightarrow> string list" where
  "reasons keep sel s = (\<lambda>(i, b).
     (case sel of (state, current, previous) \<Rightarrow>
        (if current = Some i then [''current''] else [])
        @ (if previous = Some i then [''previous''] else []))
     @ (if i \<in> pinned s then [''live-pinned''] else [])
     @ (if unresolved_reference s i b then [''unresolved-pipeline''] else [])
     @ (if failure_reference sel s i b then [''failure-evidence''] else [])
     @ (if i \<in> set (additional keep sel s) then [''additional-verified''] else []))"

definition by_id :: "survey \<Rightarrow> (string \<times> owned) list" where
  "by_id s = sort_key fst (owned_records s)"

definition removable :: "nat \<Rightarrow> choice \<Rightarrow> survey \<Rightarrow> (string \<times> owned) list" where
  "removable keep sel s = filter (\<lambda>r. reasons keep sel s r = []) (by_id s)"

definition deployment_json :: "nat \<Rightarrow> choice \<Rightarrow> survey \<Rightarrow> string \<times> owned \<Rightarrow> dict" where
  "deployment_json keep sel s = (\<lambda>(i, b).
     (let rs = reasons keep sel s (i, b)
      in [(''deployment_id'', JStr i), (''run_id'', JStr (run_of b)), (''snapshot_id'', JStr (snapshot_of b)),
          (''effective_at'', JStr (iso_utc (effective b))),
          (''decision'', JStr (if rs = [] then ''remove'' else ''retain'')), (''reasons'', JList (map JStr rs))]))"

section \<open>The plan\<close>

text \<open>What goes with a deployment: its record, its history and its build.\<close>

definition deployment_targets :: "world \<Rightarrow> path \<Rightarrow> string \<times> owned \<Rightarrow> target list res" where
  "deployment_targets w root = (\<lambda>(i, b).
     bindE (retention_target w root (record_file b) ''deployment-record'') (\<lambda>t.
     bindE (case history_home b of
         None \<Rightarrow> Inr []
       | Some h \<Rightarrow> bindE (retention_target w root h ''deployment-history'') (\<lambda>x. Inr [x])) (\<lambda>hs.
     bindE (retention_target w root (build_home b) ''build'') (\<lambda>u.
     Inr (t # hs @ [u])))))"

definition removable_snapshot :: "nat \<Rightarrow> choice \<Rightarrow> survey \<Rightarrow> string \<Rightarrow> bool" where
  "removable_snapshot keep sel s snapshot \<longleftrightarrow>
     list_all (\<lambda>(i, b). snapshot_of b = snapshot \<longrightarrow> i \<in> fst ` set (removable keep sel s)) (owned_records s)
     \<and> snapshot \<notin> ref_snapshots s \<and> snapshot \<notin> failure_snapshots s"

definition snapshot_targets :: "world \<Rightarrow> path \<Rightarrow> nat \<Rightarrow> choice \<Rightarrow> survey \<Rightarrow> target list res" where
  "snapshot_targets w root keep sel s =
     mapE (\<lambda>snapshot. retention_target w root (root @ [''vault-snapshots'', snapshot]) ''snapshot'')
       (filter (removable_snapshot keep sel s) (sorted_set (map (\<lambda>(i, b). snapshot_of b) (owned_records s))))"

definition delete_targets :: "world \<Rightarrow> path \<Rightarrow> nat \<Rightarrow> choice \<Rightarrow> survey \<Rightarrow> target list res" where
  "delete_targets w root keep sel s =
     (if blocks_all s then Inr []
      else bindE (mapE (deployment_targets w root) (removable keep sel s)) (\<lambda>ts.
        bindE (snapshot_targets w root keep sel s) (\<lambda>us.
        Inr (sort_key (\<lambda>(kind, p). (kind, relative_posix root p)) (age_targets s @ concat ts @ us)))))"

definition opt_json :: "string option \<Rightarrow> json" where
  "opt_json v = (case v of None \<Rightarrow> JNull | Some s \<Rightarrow> JStr s)"

definition policy_json :: "nat \<Rightarrow> json" where
  "policy_json keep =
     JObj [(''keep_current'', JBool True), (''keep_previous'', JBool True),
       (''keep_additional_verified'', JInt (int keep)), (''keep_live_pinned'', JBool True),
       (''keep_unresolved'', JBool True),
       (''failed_build_retention_seconds'', JInt (FAILED_BUILD_RETENTION div 1000000)),
       (''incomplete_upload_retention_seconds'', JInt (INCOMPLETE_UPLOAD_RETENTION div 1000000)),
       (''quarantine_cleanup_supported'', JBool False)]"

definition active_json :: "choice \<Rightarrow> json" where
  "active_json = (\<lambda>(state, current, previous).
     JObj [(''schema_version'', case state of None \<Rightarrow> JNull | Some d \<Rightarrow> dget d ''schema_version''),
       (''current_deployment_id'', opt_json current), (''previous_deployment_id'', opt_json previous)])"

definition summary_json :: "nat \<Rightarrow> choice \<Rightarrow> survey \<Rightarrow> target list \<Rightarrow> json" where
  "summary_json keep sel s targets =
     (let n = length (owned_records s); m = length (removable keep sel s)
      in JObj [(''deployment_count'', JInt (int n)), (''retained_count'', JInt (int (n - m))),
           (''removable_count'', JInt (int m)), (''delete_target_count'', JInt (int (length targets))),
           (''unresolved_count'', JInt (int (length (unresolved s)))), (''blocked'', JBool (blocks_all s))])"

definition unresolved_json :: "string \<times> string \<times> string \<Rightarrow> json" where
  "unresolved_json = (\<lambda>(code, p, detail).
     JObj [(''code'', JStr code), (''path'', JStr p), (''detail'', JStr detail)])"

definition target_json :: "path \<Rightarrow> target \<Rightarrow> json" where
  "target_json root = (\<lambda>(kind, p).
     JObj [(''kind'', JStr kind), (''path'', JStr (relative_posix root p)), (''resolved_path'', JStr (path_text p))])"

definition evidence_key :: "dict \<Rightarrow> string \<times> string" where
  "evidence_key d = (str_of (dget d ''decision''), str_of (dget d ''path''))"

definition plan_body :: "path \<Rightarrow> instant \<Rightarrow> nat \<Rightarrow> choice \<Rightarrow> survey \<Rightarrow> target list \<Rightarrow> dict" where
  "plan_body root as_of keep sel s targets =
     [(''schema_version'', JInt 1), (''kind'', JStr ''homeops-deployment-retention-plan''), (''mode'', JStr ''dry-run''),
      (''deletion_enabled'', JBool False), (''root'', JStr (path_text root)), (''as_of'', JStr (iso_utc as_of)),
      (''policy'', policy_json keep), (''active'', active_json sel), (''summary'', summary_json keep sel s targets),
      (''deployments'', JList (map (\<lambda>r. JObj (deployment_json keep sel s r)) (by_id s))),
      (''evidence'', JList (map JObj (sort_key evidence_key (evidence s)))),
      (''unresolved'', JList (map unresolved_json (sort (unresolved s)))),
      (''delete_targets'', JList (map (target_json root) targets))]"

text \<open>The two digests: the first over the body, the second over the body with the first.\<close>

definition sealed :: "(string \<Rightarrow> string) \<Rightarrow> dict \<Rightarrow> dict" where
  "sealed sha body =
     (let d = dput body ''inventory_digest'' (JStr (sha256_json sha (JObj body)))
      in dput d ''plan_id'' (JStr (sha256_json sha (JObj d))))"

definition make_plan :: "env \<Rightarrow> world \<Rightarrow> (path \<Rightarrow> instant) \<Rightarrow> path \<Rightarrow> instant \<Rightarrow> nat \<Rightarrow> dict res" where
  "make_plan E w mtime root as_of keep =
     (case take_survey E w mtime root as_of no_survey of
        (Inl e, s) \<Rightarrow> Inl e
      | (Inr sel, s) \<Rightarrow>
          bindE (delete_targets w root keep sel s) (\<lambda>targets.
          Inr (sealed (digest E) (plan_body root as_of keep sel s targets))))"

definition plan_deployment_retention ::
  "env \<Rightarrow> (path \<Rightarrow> instant) \<Rightarrow> path \<Rightarrow> nat \<Rightarrow> instant \<Rightarrow> dict wprog" where
  "plan_deployment_retention E mtime root keep as_of =
     (let data = root @ [''data'']
      in bindM (askM (\<lambda>w. raiseIf (is_symlink w root) (RetentionError ''pipeline root must not be a symlink''))) (\<lambda>_.
         bindM (askM (\<lambda>w. raiseIf (\<not> exists_path w root)
           (RetentionError (''pipeline root does not exist: '' @ path_text root)))) (\<lambda>_.
         bindM (askM (\<lambda>w. raiseIf (through_link w root)
           (RetentionError ''pipeline root must not traverse a symlink''))) (\<lambda>_.
         bindM (askM (\<lambda>w. safe_directory w root root ''pipeline root'')) (\<lambda>_.
         bindM (askM (\<lambda>w. safe_directory w root data ''data directory'')) (\<lambda>_.
         (\<lambda>w. case retention_lock data True True False (deployment_lock data True True False
                (askM (\<lambda>v. make_plan E v mtime root as_of keep))) w of
              (r, w') \<Rightarrow> (rewrap is_deployment_error (\<lambda>e. RetentionError (exn_text e)) r, w'))))))))"

end
