(* ===== verification/RetentionSample.thy ===== *)
theory RetentionSample
  imports RetentionPlan PromotionProps
begin

text \<open>
  A concrete pipeline root for the planner: one deployment, selected and published, with its build and
  its snapshot, and the directory of one incomplete upload that is old enough to be removed. The survey
  of it and its plan are computed here, for the instances of the theorems of \<open>RetentionProps\<close>.
\<close>

abbreviation kept_id :: string where
  "kept_id \<equiv> replicate 64 (CHR ''a'')"

definition upload_dir :: string where
  "upload_dir = ''.upload-p-'' @ replicate 32 (CHR ''0'')"

abbreviation kept_root :: path where
  "kept_root \<equiv> [''r'']"

definition kept_record :: dict where
  "kept_record = dput promo_record ''build_verified_at'' (JStr ''2026-01-01T00:00:00+00:00'')"

definition kept_build :: dict where
  "kept_build = dput promo_build ''verified_at'' (JStr ''2026-01-01T00:00:00+00:00'')"

definition kept_state :: dict where
  "kept_state = mk_state (JStr ''run-a'') JNull (JObj kept_record) JNull (JStr ''t5'')"

definition kept_projection :: dict where
  "kept_projection = (case current_projection a_sha (JObj kept_state) of Inr p \<Rightarrow> p | Inl e \<Rightarrow> [])"

definition kept_world :: world where
  "kept_world = fresh_world\<lparr>tree :=
     [([''r''], Dir), ([''r'', ''data''], Dir), ([''r'', ''data'', ''deployments''], Dir),
      ([''r'', ''data'', ''deployments'', kept_id @ ''.json''], File (dumps (JObj kept_record))),
      ([''r'', ''data'', ''builds''], Dir), ([''r'', ''data'', ''builds'', ''run-a''], Dir),
      ([''r'', ''data'', ''builds'', ''run-a'', ''manifest.json''], File (dumps (JObj kept_build))),
      ([''r'', ''data'', ''builds'', ''run-a'', ''cozo.db''], Dir),
      ([''r'', ''data'', ''active.json''], File (dumps (JObj kept_state))),
      ([''r'', ''data'', ''deployment.lock''], File []), ([''r'', ''data'', ''retention.lock''], File []),
      ([''r'', ''pipeline-state''], Dir),
      ([''r'', ''pipeline-state'', ''current.json''], File (dumps (JObj kept_projection))),
      ([''r'', ''incoming''], Dir), ([''r'', ''incoming'', upload_dir], Dir),
      ([''r'', ''vault-snapshots''], Dir), ([''r'', ''vault-snapshots'', kept_id], Dir),
      ([''r'', ''vault-snapshots'', kept_id, ''snapshot.json''], File (dumps (JObj sample_manifest))),
      ([''r'', ''vault-snapshots'', kept_id, ''vault''], Dir),
      ([''r'', ''vault-snapshots'', kept_id, ''vault'', ''a.md''], File ''hi'')]\<rparr>"

text \<open>The world of the planner: the two locks are held. Only the tree is read, and the locks by the pins.\<close>

definition kept_view :: world where
  "kept_view = kept_world\<lparr>holders := [([''r'', ''data'', ''deployment.lock''], True), ([''r'', ''data'', ''retention.lock''], True)]\<rparr>"

lemma kept_tree: "tree kept_view = tree kept_world"
  by (simp add: kept_view_def)

lemma kept_record_valid: "valid_record a_sha kept_record"
proof -
  have "same_fields promo_record record_fields"
    using promo_record_valid by (simp add: valid_record_def)
  then have "same_fields kept_record record_fields"
    unfolding kept_record_def by (intro same_fields_dput) (simp_all add: record_fields_def)
  then show ?thesis
    using sample_text sample_ids
    unfolding valid_record_def
    by (simp add: kept_record_def promo_record_def sample_record_def safe_id_json_def sha256_field_def
        fingerprint_fields_def text_fields_def nonempty_str_def sha256_json_def a_sha_def)
qed

lemma kept_state_valid: "valid_state a_sha kept_state"
proof -
  have "valid_slot a_sha (JObj kept_record) (JStr ''run-a'')"
    using valid_slot_record [OF kept_record_valid]
    by (simp add: kept_record_def promo_record_def sample_record_def)
  then show ?thesis unfolding kept_state_def
    by (intro valid_mk_state) (simp_all add: valid_slot_def ActiveState.nonempty_str_def)
qed

lemma kept_projected:
  "current_projection a_sha (JObj kept_state) = Inr kept_projection" "wf_json (JObj kept_projection)"
proof -
  obtain pr where p: "current_projection a_sha (JObj kept_state) = Inr pr" "dkeys pr = projection_fields"
    "\<forall>f \<in> set copied_fields. dget pr f = shown_field (fst (abs_state kept_state)) f"
    "dget pr ''current_deployment_id'' = shown_field (fst (abs_state kept_state)) ''deployment_id''"
    "\<exists>s. dget pr ''promoted_at'' = JStr s" "dget pr ''schema_version'' = JInt 2"
    by (rule current_projection_valid [OF kept_state_valid])
  then show "current_projection a_sha (JObj kept_state) = Inr kept_projection" by (simp add: kept_projection_def)
  then have "pr = kept_projection" using p(1) by simp
  with projection_wf [OF p(2) shown_field_wf [OF kept_state_valid] p(3-6)] show "wf_json (JObj kept_projection)" by simp
qed

lemma kept_wf: "wf_json (JObj kept_record)" "wf_json (JObj kept_build)" "wf_json (JObj kept_state)"
  "wf_json (JObj sample_manifest)"
  by (simp_all add: kept_state_def mk_state_def kept_record_def promo_record_def sample_record_def kept_build_def promo_build_def
      sample_build_def sample_manifest_def sample_item_def inventory_item_def dput_def)

section \<open>Looking at the tree\<close>

lemma kept_paths:
  "lstat kept_view [''r''] = Some Dir" "lstat kept_view [''r'', ''data''] = Some Dir"
  "lstat kept_view [''r'', ''data'', ''deployments''] = Some Dir"
  "lstat kept_view [''r'', ''data'', ''deployments'', kept_id @ ''.json''] = Some (File (dumps (JObj kept_record)))"
  "lstat kept_view [''r'', ''data'', ''builds''] = Some Dir"
  "lstat kept_view [''r'', ''data'', ''builds'', ''run-a''] = Some Dir"
  "lstat kept_view [''r'', ''data'', ''builds'', ''run-a'', ''manifest.json''] = Some (File (dumps (JObj kept_build)))"
  "lstat kept_view [''r'', ''data'', ''builds'', ''run-a'', ''cozo.db''] = Some Dir"
  "lstat kept_view [''r'', ''data'', ''active.json''] = Some (File (dumps (JObj kept_state)))"
  "lstat kept_view [''r'', ''pipeline-state''] = Some Dir"
  "lstat kept_view [''r'', ''pipeline-state'', ''current.json''] = Some (File (dumps (JObj kept_projection)))"
  "lstat kept_view [''r'', ''incoming''] = Some Dir" "lstat kept_view [''r'', ''incoming'', upload_dir] = Some Dir"
  "lstat kept_view [''r'', ''vault-snapshots''] = Some Dir" "lstat kept_view [''r'', ''vault-snapshots'', kept_id] = Some Dir"
  "lstat kept_view [''r'', ''vault-snapshots'', kept_id, ''snapshot.json''] = Some (File (dumps (JObj sample_manifest)))"
  "lstat kept_view [''r'', ''vault-snapshots'', kept_id, ''vault''] = Some Dir"
  "lstat kept_view [''r'', ''vault-snapshots'', kept_id, ''vault'', ''a.md''] = Some (File ''hi'')"
  "lstat kept_view [''r'', ''data'', ''deployment-history'', kept_id] = None"
  "lstat kept_view [''r'', ''data'', ''deployment-history''] = None"
  "lstat kept_view [''r'', ''results''] = None" "lstat kept_view [''r'', ''commits''] = None"
  "lstat kept_view [''r'', ''pipeline-state'', ''commit-journal''] = None"
  "lstat kept_view [''r'', ''data'', ''pipeline-transactions'', ''rollback.json''] = None"
  "lstat kept_view [''r'', ''quarantine''] = None" "lstat kept_view [''r'', ''data'', ''run-pins''] = None"
  "lstat kept_view [''r'', ''data'', ''run-pins'', ''run-a.lock''] = None"
  by (simp_all add: lstat_def kept_tree kept_world_def)

lemma kept_children:
  "children kept_view [''r'', ''data'', ''deployments''] = [kept_id @ ''.json'']"
  "children kept_view [''r'', ''data'', ''builds''] = [''run-a'']"
  "children kept_view [''r'', ''incoming''] = [upload_dir]"
  "children kept_view [''r'', ''vault-snapshots''] = [kept_id]"
  by (simp_all add: children_def kept_tree kept_world_def sorted_set_def)

lemma read_object_dumps:
  assumes "resolve_input w root p ''JSON path'' = Inr p" "lstat w p = Some (File (dumps (JObj d)))" "wf_json (JObj d)"
  shows "read_object w root p = Inr d"
proof -
  have "is_file w p" "file_at w p = Some (dumps (JObj d))"
    using assms(2) by (simp_all add: is_file_def file_at_def stat_def)
  then show ?thesis
    using read_document_dumps [OF _ assms(3)] assms(1) by (simp add: read_object_def raiseIf_def rewrap_def)
qed

lemma resolve_kept:
  "resolve_input w root p f = Inr p" if
  "below root p" "list_all (\<lambda>q. lstat w q \<noteq> None \<and> \<not> is_symlink w q) (steps_below root p)" "exists_path w p"
  using that by (simp add: resolve_input_def bindE_raiseIf bindE_eq_Inr lexists_def list_all_iff)

lemmas kept_look = kept_paths below_def steps_below_def is_symlink_def exists_path_def stat_def upt_rec

lemma kept_directory:
  "safe_directory kept_view kept_root [''r'', ''data'', ''builds'', ''run-a''] f = Inr ()"
  "safe_directory kept_view kept_root [''r'', ''data'', ''builds'', ''run-a'', ''cozo.db''] f = Inr ()"
  "safe_directory kept_view kept_root [''r'', ''vault-snapshots'', kept_id] f = Inr ()"
  "safe_directory kept_view kept_root [''r'', ''vault-snapshots'', kept_id, ''vault''] f = Inr ()"
  "safe_directory kept_view kept_root [''r'', ''incoming''] f = Inr ()"
  "safe_directory kept_view kept_root [''r'', ''incoming'', upload_dir] f = Inr ()"
  unfolding safe_directory_def by (subst resolve_kept; simp add: kept_look is_dir_def raiseIf_def)+

lemma kept_objects:
  "read_object kept_view kept_root [''r'', ''data'', ''deployments'', kept_id @ ''.json''] = Inr kept_record"
  "read_object kept_view kept_root [''r'', ''data'', ''builds'', ''run-a'', ''manifest.json''] = Inr kept_build"
  "read_object kept_view kept_root [''r'', ''data'', ''active.json''] = Inr kept_state"
  "read_object kept_view kept_root [''r'', ''pipeline-state'', ''current.json''] = Inr kept_projection"
  by (rule read_object_dumps [OF resolve_kept _ kept_wf(1)] read_object_dumps [OF resolve_kept _ kept_wf(2)]
      read_object_dumps [OF resolve_kept _ kept_wf(3)] read_object_dumps [OF resolve_kept _ kept_projected(2)];
      simp add: kept_look)+

section \<open>The deployment\<close>

lemma kept_record_fields:
  "dget kept_record ''deployment_id'' = JStr kept_id" "dget kept_record ''run_id'' = JStr ''run-a''"
  "dget kept_record ''snapshot_id'' = JStr kept_id"
  "dget kept_record ''build_verified_at'' = JStr ''2026-01-01T00:00:00+00:00''"
  by (simp_all add: kept_record_def promo_record_def sample_record_def)

lemma kept_build_agrees: "manifest_agrees m kept_build (expected_build kept_record) = Inr ()"
  by (simp add: manifest_agrees_def expected_build_def raiseIf_def kept_build_def promo_build_def sample_build_def
      kept_record_def promo_record_def sample_record_def)

lemma kept_snapshot_agrees: "manifest_agrees m sample_manifest (expected_snapshot kept_record) = Inr ()"
  by (simp add: manifest_agrees_def expected_snapshot_def raiseIf_def sample_manifest_def
      kept_record_def promo_record_def sample_record_def)

lemma kept_build_valid:
  "validate_build kept_view kept_root [''r'', ''data''] kept_record = Inr [''r'', ''data'', ''builds'', ''run-a'']"
  by (simp add: validate_build_def kept_record_fields kept_directory kept_objects kept_build_agrees)

lemma kept_snapshot_valid:
  "validate_snapshot sample_env kept_view kept_root kept_record = Inr [''r'', ''vault-snapshots'', kept_id]"
proof -
  let ?home = "[''r'', ''vault-snapshots'', kept_id]"
  have "resolve_input kept_view kept_root (?home @ [''snapshot.json'']) f = Inr (?home @ [''snapshot.json''])" for f
    by (rule resolve_kept) (simp_all add: kept_look)
  moreover have "file_at kept_view (?home @ [''snapshot.json'']) = Some (dumps (JObj sample_manifest))"
    by (simp add: file_at_def kept_look)
  from read_document_dumps [OF this kept_wf(4)]
  have "read_manifest a_sha kept_view (?home @ [''snapshot.json'']) = Inr sample_manifest"
    by (simp add: read_manifest_def sample_manifest_checked rewrap_def)
  moreover have "verify_snapshot a_sha (Some sample_look) kept_view (?home @ [''vault'']) (JObj sample_manifest)
      = Inr sample_manifest"
    by (rule sample_vault_verified)
      (simp_all add: file_at_def kept_look entries_below_def kept_tree, simp add: kept_world_def)
  ultimately show ?thesis
    by (simp add: validate_snapshot_def kept_record_fields kept_directory kept_snapshot_agrees sample_env_def rewrap_def)
qed

lemma kept_time: "parse_time (JStr ''2026-01-01T00:00:00+00:00'') f = Inr 1767225600000000"
proof -
  have "fromisoformat (replace_zulu ''2026-01-01T00:00:00+00:00'') = Aware 1767225600000000"
    by (simp add: fromisoformat_def replace_zulu_def all_digits_def iso_shape_def read_fraction_def read_offset_def slice_def
        is_digit_def code_of_def digits_value_def date_in_range_def time_in_range_def offset_in_range_def days_in_month_def
        instant_of_def ordinal_def epoch_day_def days_before_year_def days_before_month_def)
  then show ?thesis by (simp add: parse_time_def)
qed

lemma kept_history:
  "validate_history sample_env kept_view kept_root [''r'', ''data''] kept_record = Inr (None, [], 1767225600000000)"
  by (simp add: validate_history_def kept_record_fields lexists_def kept_paths kept_time)

definition kept_owned :: owned where
  "kept_owned = \<lparr>deployment = kept_record, record_file = [''r'', ''data'', ''deployments'', kept_id @ ''.json''],
     build_home = [''r'', ''data'', ''builds'', ''run-a''], snapshot_home = [''r'', ''vault-snapshots'', kept_id],
     history_home = None, history_times = [], effective = 1767225600000000\<rparr>"

lemma kept_stem: "stem_of (kept_id @ ''.json'') = kept_id" "suffix_of (kept_id @ ''.json'') = ''.json''"
  by code_simp+

lemma kept_read: "read_owned sample_env kept_view kept_root (kept_id @ ''.json'') = Inr (kept_id, kept_owned)"
proof -
  have "validate_deployment_record (digest sample_env) (JObj kept_record) = Inr kept_record"
    using kept_record_valid by (simp add: validate_deployment_record_obj sample_env_def)
  moreover have "validate_safe_id (JStr kept_id) f = Inr kept_id" for f
    using sample_ids by (simp add: validate_safe_id_def)
  ultimately show ?thesis
    by (simp add: read_owned_def kept_stem kept_objects [simplified] kept_record_fields raiseIf_def kept_build_valid kept_snapshot_valid
        kept_history kept_owned_def)
qed

section \<open>The survey\<close>

definition kept_survey :: survey where
  "kept_survey = no_survey\<lparr>owned_records := [(kept_id, kept_owned)],
     evidence := [aged_evidence ''incomplete-upload'' ''remove-stale'' (relative_text kept_root [''r'', ''incoming'', upload_dir])
       0 INCOMPLETE_UPLOAD_RETENTION],
     age_targets := [(''incomplete-upload'', [''r'', ''incoming'', upload_dir])]\<rparr>"

definition kept_choice :: choice where
  "kept_choice = (Some kept_state, Some kept_id, None)"

lemma kept_owned_ids: "run_of kept_owned = ''run-a''" "snapshot_of kept_owned = kept_id"
  by (simp_all add: run_of_def snapshot_of_def kept_owned_def kept_record_fields)

lemma kept_selection: "read_selection sample_env kept_view kept_root [(kept_id, kept_owned)] = Inr kept_choice"
proof -
  have state: "dget kept_state ''schema_version'' = JInt DEPLOYMENT_SCHEMA_VERSION"
    "dget kept_state ''current_deployment'' = JObj kept_record" "dget kept_state ''previous_deployment'' = JNull"
    by (simp_all add: kept_state_def mk_state_def)
  have valid: "validate_state (digest sample_env) (JObj kept_state) False = Inr kept_state"
    using validate_state_valid [OF kept_state_valid] by (simp add: sample_env_def)
  have "same_fields kept_record record_fields" using kept_record_valid by (simp add: valid_record_def)
  then have "same_identity kept_record kept_record m = Inr ()" for m
    by (simp add: same_identity_def deployment_identity_Inr raiseIf_def)
  then have role: "check_role [(kept_id, kept_owned)] ''current'' (JObj kept_record) = Inr ()"
    by (simp add: check_role_def kept_record_fields kept_owned_def)
  have proj: "projection_path kept_root = [''r'', ''pipeline-state'', ''current.json'']" by (simp add: projection_path_def)
  have "current_projection (digest sample_env) (JObj kept_state) = Inr kept_projection"
    using kept_projected(1) by (simp add: sample_env_def)
  then show ?thesis
    unfolding read_selection_def append.simps kept_objects bindE_simps valid state Let_def role proj
    by (simp add: raiseIf_def check_role_def kept_choice_def slot_id_def kept_record_fields)
qed

lemmas kept_progs = bindM_def catchM_def liftM_def retM_def modifyM_def getsM_def

lemma kept_inventory:
  "inventory_deployments sample_env kept_view kept_root no_survey
     = (Inr (), no_survey\<lparr>owned_records := [(kept_id, kept_owned)]\<rparr>)"
  by (simp add: inventory_deployments_def is_dir_def is_symlink_def stat_def kept_paths kept_children
      inventory_deployment_def kept_stem guarded_def kept_read no_survey_def kept_progs)

lemma kept_ownership:
  "validate_build_ownership kept_root s = (Inr (), s)" if "owned_records s = [(kept_id, kept_owned)]"
  using that by (simp add: validate_build_ownership_def sorted_set_def check_owners_def owners_of_def kept_owned_ids)

lemma kept_uploads: "upload_name upload_dir" "is_upload upload_dir"
proof -
  show "is_upload upload_dir" by (simp add: is_upload_def upload_dir_def startswith_def)
  moreover have "validate_publisher_id (JStr ''p'') = Inr ''p''" by code_simp
  moreover have "drop 8 upload_dir = ''p-'' @ replicate 32 (CHR ''0'')" by (simp add: upload_dir_def)
  ultimately show "upload_name upload_dir"
    by (simp add: upload_name_def is_lower_hex_def is_digit_def code_of_def list_all_iff)
qed

lemma kept_pipeline: "pipeline_references sample_env kept_view kept_root s = (Inr (), s)"
  by (simp add: pipeline_references_def result_references_def incoming_references_def commit_references_def
      rollback_references_def quarantine_references_def lexists_def kept_paths kept_directory kept_children kept_uploads
      each_publisher_def guarded_def kept_progs)

lemma kept_integrity: "validate_reference_integrity kept_root s = (Inr (), s)" if
  "ref_deployments s = {}" "failure_deployments s = {}" "ref_runs s = {}" "failure_runs s = {}" "identity_claims s = []"
  using that by (simp add: validate_reference_integrity_def)

lemma kept_upload_target:
  "retention_target kept_view kept_root [''r'', ''incoming'', upload_dir] ''incomplete-upload''
     = Inr (''incomplete-upload'', [''r'', ''incoming'', upload_dir])"
  by (simp add: retention_target_def raiseIf_def kept_look through_link_def allowed_target_def kept_uploads)

lemma kept_orphans:
  "scan_orphans kept_view (\<lambda>p. 0) kept_root 1000000000000 [(kept_id, kept_owned)] s
     = (Inr (), s\<lparr>evidence := evidence s @ [aged_evidence ''incomplete-upload'' ''remove-stale''
         (relative_text kept_root [''r'', ''incoming'', upload_dir]) 0 INCOMPLETE_UPLOAD_RETENTION],
       age_targets := age_targets s @ [(''incomplete-upload'', [''r'', ''incoming'', upload_dir])]\<rparr>)"
  by (simp add: scan_orphans_def entries_of_def real_directory_def is_dir_def is_symlink_def stat_def kept_paths kept_children
      owners_of_def kept_owned_ids upload_orphans_def lexists_def guarded_def kept_progs kept_directory kept_uploads
      scan_upload_def raiseIf_def INCOMPLETE_UPLOAD_RETENTION_def add_evidence_def add_age_target_def kept_upload_target Let_def)

lemma kept_pins: "run_is_pinned kept_view [''r'', ''data''] (JStr ''run-a'') = Inr False"
  by (simp add: run_is_pinned_def run_pin_path_def validate_safe_id_def sample_text lexists_def kept_paths
      is_symlink_def raiseIf_def)

lemma kept_surveyed:
  "take_survey sample_env kept_view (\<lambda>p. 0) kept_root 1000000000000 no_survey = (Inr kept_choice, kept_survey)"
proof -
  have empty: "ref_deployments no_survey = {}" "failure_deployments no_survey = {}" "ref_runs no_survey = {}"
    "failure_runs no_survey = {}" "identity_claims no_survey = []" "evidence no_survey = []" "age_targets no_survey = []"
    by (simp_all add: no_survey_def)
  show ?thesis
    by (simp add: take_survey_def bindM_def kept_inventory kept_ownership kept_pipeline kept_integrity empty
        validate_active_state_def kept_selection inventory_orphans_def kept_orphans check_pin_def kept_owned_ids kept_pins
        kept_survey_def)
qed

section \<open>The plan\<close>

lemma kept_removable: "removable keep kept_choice kept_survey = []"
  by (simp add: removable_def by_id_def kept_survey_def reasons_def kept_choice_def)

lemma kept_targets:
  "delete_targets kept_view kept_root keep kept_choice kept_survey
     = Inr [(''incomplete-upload'', [''r'', ''incoming'', upload_dir])]"
proof -
  have "blocks_all kept_survey = False" "owned_records kept_survey = [(kept_id, kept_owned)]"
    "age_targets kept_survey = [(''incomplete-upload'', [''r'', ''incoming'', upload_dir])]"
    by (simp_all add: kept_survey_def no_survey_def)
  then show ?thesis
    by (simp add: delete_targets_def snapshot_targets_def kept_removable removable_snapshot_def kept_owned_ids sorted_set_def)
qed

lemma shared_lock_runs:
  assumes "lstat w data = Some Dir" "lstat w (data @ [name]) = Some (File c)" "\<forall>h \<in> set (holders w). snd h"
    and "body (w\<lparr>holders := (data @ [name], True) # holders w\<rparr>) = (r, w\<lparr>holders := (data @ [name], True) # holders w\<rparr>)"
  shows "data_lock data name True True False owner body w = (r, w)"
  using assms by (auto simp: data_lock_def bindM_def failIf_def is_symlink_def is_dir_def stat_def open_lock_def acquire_def
      conflicts_def finallyM_def release_def Let_def)

lemma kept_planned:
  obtains plan where
    "plan_deployment_retention sample_env (\<lambda>p. 0) kept_root keep 1000000000000 kept_world = (Inr plan, kept_world)"
    "list_of (dget plan ''delete_targets'') \<noteq> []"
proof -
  let ?m = "askM (\<lambda>v. make_plan sample_env v (\<lambda>p. 0) kept_root 1000000000000 keep)"
  obtain plan where plan: "make_plan sample_env kept_view (\<lambda>p. 0) kept_root 1000000000000 keep = Inr plan"
    "list_of (dget plan ''delete_targets'') \<noteq> []"
    by (simp add: make_plan_def kept_surveyed kept_targets plan_body_def sealed_def Let_def dget_dput)
  have look: "\<not> is_symlink kept_world kept_root" "exists_path kept_world kept_root" "\<not> through_link kept_world kept_root"
    "safe_directory kept_world kept_root kept_root f = Inr ()" "safe_directory kept_world kept_root [''r'', ''data''] f = Inr ()" for f
    unfolding safe_directory_def
    by (simp_all add: is_symlink_def exists_path_def through_link_def stat_def lstat_def kept_world_def upt_rec resolve_input_def
        below_def steps_below_def raiseIf_def is_dir_def lexists_def)
  have locks: "retention_lock [''r'', ''data''] True True False (deployment_lock [''r'', ''data''] True True False ?m) kept_world
      = (Inr plan, kept_world)"
    unfolding retention_lock_def deployment_lock_def
    by (intro shared_lock_runs [where c = "[]"])
      (simp_all add: lstat_def kept_world_def fresh_world_def askM_def, use plan(1) in \<open>simp add: kept_view_def kept_world_def fresh_world_def\<close>)
  have "plan_deployment_retention sample_env (\<lambda>p. 0) kept_root keep 1000000000000 kept_world = (Inr plan, kept_world)"
    using look by (simp add: plan_deployment_retention_def askM_def kept_progs raiseIf_def locks rewrap_def Let_def)
  then show thesis using plan(2) by (rule that)
qed

end
