(* ===== verification/RetentionProps.thy ===== *)
theory RetentionProps
  imports RetentionSample
begin

text \<open>
  The planner of deployment retention: the survey only collects (a relation that every step of it
  keeps), a plan with a target rests on a survey without a blocking finding, and no target belongs to
  a deployment that is selected, pinned or named by an unfinished attempt.
\<close>

section \<open>The survey only collects\<close>

text \<open>A target that belongs to no deployment of the survey.\<close>

definition loose :: "path \<Rightarrow> (string \<times> owned) list \<Rightarrow> target \<Rightarrow> bool" where
  "loose root rs t \<longleftrightarrow>
     (\<exists>n. t = (''failed-build'', build_path root n) \<and> owners_of rs n = [])
     \<or> (\<exists>n. t = (''incomplete-upload'', root @ [''incoming'', n]))"

definition grows :: "path \<Rightarrow> (string \<times> owned) list \<Rightarrow> survey \<Rightarrow> survey \<Rightarrow> bool" where
  "grows root rs s t \<longleftrightarrow>
     owned_records t = owned_records s \<and> (blocks_all s \<longrightarrow> blocks_all t)
     \<and> ref_deployments s \<subseteq> ref_deployments t \<and> pinned s \<subseteq> pinned t
     \<and> (\<forall>x \<in> set (age_targets t). x \<in> set (age_targets s) \<or> loose root rs x)"

interpretation grows: step_preorder "grows root rs" for root rs
  by unfold_locales (auto simp: grows_def)

lemma growsD:
  assumes "grows root rs s t"
  shows "owned_records t = owned_records s" "\<not> blocks_all t \<Longrightarrow> \<not> blocks_all s"
    "i \<in> ref_deployments s \<Longrightarrow> i \<in> ref_deployments t" "i \<in> pinned s \<Longrightarrow> i \<in> pinned t"
  using assms by (auto simp: grows_def)

lemma grows_unresolved: "keeps (grows root rs) (unresolved_at q p c d b)"
  by (auto simp: unresolved_at_def grows_def intro!: grows.keeps_modify)

lemma grows_guarded: "keeps (grows root rs) m \<Longrightarrow> (\<And>e. keeps (grows root rs) (h e)) \<Longrightarrow> keeps (grows root rs) (guarded c m h)"
  by (auto simp: guarded_def intro!: grows.keeps_catch split: if_splits)

lemma grows_adds:
  "keeps (grows root rs) (refer r (add_deployment f))" "keeps (grows root rs) (refer r (add_snapshot f))"
  "keeps (grows root rs) (refer r (add_run f))" "keeps (grows root rs) (modifyM (add_claim c))"
  "keeps (grows root rs) (modifyM (add_rollback_slot v))"
  "keeps (grows root rs) (modifyM (\<lambda>s. s\<lparr>results_seen := g s\<rparr>))"
  "keeps (grows root rs) (add_evidence d)"
  "keeps (grows root rs) (modifyM (\<lambda>s. s\<lparr>pinned := insert i (pinned s)\<rparr>))"
  unfolding refer_def add_evidence_def
  by (auto simp: grows_def add_deployment_def add_snapshot_def add_run_def add_claim_def add_rollback_slot_def Let_def
      intro!: grows.keeps_modify split: option.splits)

lemmas grows_intros = grows.keeps_intros keeps_option keeps_prod keeps_if keeps_sum grows_unresolved grows_guarded grows_adds

lemma grows_identity: "keeps (grows root rs) (add_identity_references d f)"
  unfolding add_identity_references_def by (intro grows_intros)

lemma grows_publishers:
  "(\<And>p. keeps (grows root rs) (body p)) \<Longrightarrow> keeps (grows root rs) (each_publisher w q base fld names body)"
  unfolding each_publisher_def by (intro grows_intros)

lemma grows_result: "keeps (grows root rs) (scan_result w q p n)"
  unfolding scan_result_def Let_def by (intro grows_intros grows_identity)

lemma grows_results: "keeps (grows root rs) (result_references w q)"
  unfolding result_references_def Let_def by (intro grows_intros grows_publishers grows_result)

lemma grows_pending: "keeps (grows root rs) (keep_pending q p a b d c t)"
  unfolding keep_pending_def by (intro grows_intros grows_identity)

lemma grows_incoming: "keeps (grows root rs) (incoming_references w q)"
  unfolding incoming_references_def scan_request_def Let_def by (intro grows_intros grows_publishers grows_pending)

lemma grows_commits: "keeps (grows root rs) (commit_references w q base l)"
  unfolding commit_references_def scan_commit_def Let_def by (intro grows_intros grows_publishers grows_pending)

lemma grows_rollback: "keeps (grows root rs) (rollback_references E w q)"
  unfolding rollback_references_def rollback_state_def Let_def by (intro grows_intros)

lemma grows_quarantine: "keeps (grows root rs) (quarantine_references w q)"
  unfolding quarantine_references_def Let_def by (intro grows_intros)

lemma grows_pipeline: "keeps (grows root rs) (pipeline_references E w q)"
  unfolding pipeline_references_def
  by (intro grows_intros grows_results grows_incoming grows_commits grows_rollback grows_quarantine)

lemma grows_ownership: "keeps (grows root rs) (validate_build_ownership q)"
  unfolding validate_build_ownership_def check_owners_def Let_def by (intro grows_intros)

lemma grows_integrity: "keeps (grows root rs) (validate_reference_integrity q)"
  unfolding validate_reference_integrity_def check_reference_def check_run_reference_def check_claim_def Let_def
  by (intro grows_intros)

lemma grows_active: "keeps (grows root rs) (validate_active_state E w q)"
  unfolding validate_active_state_def by (intro grows_intros)

lemma grows_pin: "keeps (grows root rs) (check_pin w q x)"
  unfolding check_pin_def Let_def by (intro grows_intros)

lemma grows_age:
  assumes "loose root rs (kind, p)"
  shows "keeps (grows root rs) (add_age_target w q p kind)"
proof (rule keepsI)
  fix s t :: survey and r
  assume "add_age_target w q p kind s = (r, t)"
  then show "grows root rs s t"
    using assms by (auto simp: add_age_target_def bindM_liftM retention_target_def grows_def bindE_eq_Inr split: sum.splits)
qed

lemma grows_orphans: "keeps (grows root rs) (scan_orphans w mtime root as_of rs)"
proof -
  have "keeps (grows root rs) (scan_failed_build w root as_of n)" if "owners_of rs n = []" for n
    unfolding scan_failed_build_def Let_def using that
    by (intro grows_intros grows_age) (auto simp: loose_def)
  moreover have "keeps (grows root rs) (scan_upload w mtime root as_of n)" for n
    unfolding scan_upload_def Let_def by (intro grows_intros grows_age) (auto simp: loose_def)
  moreover have "keeps (grows root rs) (scan_snapshot root n)" "keeps (grows root rs) (scan_history root n)" for n
    unfolding scan_snapshot_def scan_history_def Let_def by (intro grows_intros)+
  ultimately show ?thesis
    unfolding scan_orphans_def upload_orphans_def Let_def
    by (intro grows_intros) auto
qed

section \<open>A survey without a blocking finding\<close>

lemma bindM_liftME:
  assumes "bindM (liftM r) f s = (Inr y, t)"
  obtains x where "r = Inr x" "f x s = (Inr y, t)"
  using assms by (cases r) simp_all

lemma unresolved_blocks: "unresolved_at root p c d True s = (Inr u, t) \<Longrightarrow> blocks_all t"
  by (auto simp: unresolved_at_def)

text \<open>A guarded section whose handler blocks ran without an exception.\<close>

lemma guarded_clean:
  assumes "guarded caught m (\<lambda>e. unresolved_at root p c (d e) True) s = (Inr u, t)" "\<not> blocks_all t"
  shows "m s = (Inr u, t)"
  using assms unresolved_blocks
  by (fastforce simp: guarded_def catchM_def split: prod.splits sum.splits option.splits if_splits)

lemma json_name: "suffix_of name = ''.json'' \<Longrightarrow> stem_of name @ ''.json'' = name"
  using stem_suffix [of name] by simp

lemma read_owned_parts:
  assumes "read_owned E w root name = Inr (i, b)"
  obtains v where "validate_safe_id (JStr (stem_of name)) ''deployment_id'' = Inr i"
    "validate_deployment_record (digest E) (JObj v) = Inr (deployment b)"
    "dget (deployment b) ''deployment_id'' = JStr i"
    "validate_build w root (root @ [''data'']) (deployment b) = Inr (build_home b)"
    "validate_snapshot E w root (deployment b) = Inr (snapshot_home b)"
    "validate_history E w root (root @ [''data'']) (deployment b) = Inr (history_home b, history_times b, effective b)"
    "record_file b = root @ [''data'', ''deployments'', name]"
  using assms that unfolding read_owned_def Let_def
  by (elim bindE_InrE) (auto simp: bindE_raiseIf raiseIf_def split: if_splits)

lemma build_place: "validate_build w root data rec = Inr p \<Longrightarrow> p = data @ [''builds'', str_of (dget rec ''run_id'')]"
  unfolding validate_build_def Let_def by (elim bindE_InrE) simp

lemma snapshot_place:
  "validate_snapshot E w root rec = Inr p \<Longrightarrow> p = root @ [''vault-snapshots'', str_of (dget rec ''snapshot_id'')]"
  unfolding validate_snapshot_def Let_def by (elim bindE_InrE) simp

lemma history_place:
  "validate_history E w root data rec = Inr (h, ts, t)
    \<Longrightarrow> h = None \<or> h = Some (data @ [''deployment-history'', str_of (dget rec ''deployment_id'')])"
  unfolding validate_history_def Let_def by (elim bindE_InrE) (auto split: if_splits)

lemma read_owned_id:
  assumes "read_owned E w root name = Inr (i, b)"
  shows "i = stem_of name" "dget (deployment b) ''deployment_id'' = JStr i"
    "record_file b = root @ [''data'', ''deployments'', name]" "build_home b = build_path root (run_of b)"
    "snapshot_home b = root @ [''vault-snapshots'', snapshot_of b]"
    "history_home b = None \<or> history_home b = Some (root @ [''data'', ''deployment-history'', i])"
proof -
  obtain v where v: "validate_safe_id (JStr (stem_of name)) ''deployment_id'' = Inr i"
    "dget (deployment b) ''deployment_id'' = JStr i"
    "validate_build w root (root @ [''data'']) (deployment b) = Inr (build_home b)"
    "validate_snapshot E w root (deployment b) = Inr (snapshot_home b)"
    "validate_history E w root (root @ [''data'']) (deployment b) = Inr (history_home b, history_times b, effective b)"
    "record_file b = root @ [''data'', ''deployments'', name]"
    using assms by (rule read_owned_parts)
  show "i = stem_of name" using v(1) by (simp add: validate_safe_id_def split: if_splits)
  show "dget (deployment b) ''deployment_id'' = JStr i" "record_file b = root @ [''data'', ''deployments'', name]"
    by (rule v)+
  show "build_home b = build_path root (run_of b)"
    using build_place [OF v(3)] by (simp add: build_path_def run_of_def)
  show "snapshot_home b = root @ [''vault-snapshots'', snapshot_of b]"
    using snapshot_place [OF v(4)] by (simp add: snapshot_of_def)
  show "history_home b = None \<or> history_home b = Some (root @ [''data'', ''deployment-history'', i])"
    using history_place [OF v(5)] v(2) by simp
qed

text \<open>The deployments of the survey are those of the store, each under its own ID.\<close>

definition store_record :: "env \<Rightarrow> world \<Rightarrow> path \<Rightarrow> string \<Rightarrow> owned option" where
  "store_record E w root i = (case read_owned E w root (i @ ''.json'') of Inr (j, b) \<Rightarrow> Some b | Inl e \<Rightarrow> None)"

lemma inventory_step:
  assumes "inventory_deployment E w root name s = (Inr u, t)" "\<not> blocks_all t"
  obtains i b where "name = i @ ''.json''" "read_owned E w root name = Inr (i, b)"
    "t = s\<lparr>owned_records := AList.update i b (owned_records s)\<rparr>"
proof (cases "suffix_of name = ''.json''")
  case True
  let ?h = "\<lambda>e. unresolved_at root (root @ [''data'', ''deployments'', name]) ''deployment-bundle-invalid'' (exn_text e) True"
  let ?m = "bindM (liftM (read_owned E w root name)) (\<lambda>(i, b).
      modifyM (\<lambda>s. s\<lparr>owned_records := AList.update i b (owned_records s)\<rparr>))"
  from assms(1) True have "guarded inventory_error ?m ?h s = (Inr u, t)"
    by (simp add: inventory_deployment_def Let_def)
  then have "?m s = (Inr u, t)" using assms(2) by (rule guarded_clean)
  then obtain i b where "read_owned E w root name = Inr (i, b)" "t = s\<lparr>owned_records := AList.update i b (owned_records s)\<rparr>"
    by (auto simp: bindM_liftM split: sum.splits)
  with read_owned_id(1) [OF this(1)] json_name [OF True] show thesis by (intro that) auto
next
  case False
  with assms unresolved_blocks show thesis by (simp add: inventory_deployment_def Let_def)
qed

definition collects :: "survey \<Rightarrow> survey \<Rightarrow> bool" where
  "collects s t \<longleftrightarrow> (blocks_all s \<longrightarrow> blocks_all t) \<and> age_targets t = age_targets s
     \<and> (distinct (map fst (owned_records s)) \<longrightarrow> distinct (map fst (owned_records t)))"

lemma blocks_inventory: "keeps collects (inventory_deployment E w root name)"
  by (rule keepsI)
    (auto simp: collects_def distinct_update inventory_deployment_def Let_def guarded_def catchM_def unresolved_at_def bindM_liftM
      split: if_splits sum.splits prod.splits option.splits)

interpretation blocking: step_preorder collects
  by unfold_locales (auto simp: collects_def)

lemma inventory_clean:
  assumes "eachM (inventory_deployment E w root) names s = (Inr u, t)" "\<not> blocks_all t"
  shows "\<forall>name \<in> set names. \<exists>i b. name = i @ ''.json'' \<and> read_owned E w root name = Inr (i, b)"
    and "map_of (owned_records t) i =
      (if i @ ''.json'' \<in> set names then store_record E w root i else map_of (owned_records s) i)"
  using assms
proof (induction names arbitrary: s)
  case (Cons name names)
  {
    case 1
    then obtain v s2 where run: "inventory_deployment E w root name s = (Inr v, s2)"
      "eachM (inventory_deployment E w root) names s2 = (Inr u, t)" by (auto simp: bindM_eq_Inr)
    have "\<not> blocks_all s2"
      using keepsD [OF blocking.keeps_each [OF blocks_inventory] run(2)] 1(2) by (auto simp: collects_def)
    with run(1) obtain j b where "name = j @ ''.json''" "read_owned E w root name = Inr (j, b)" by (rule inventory_step)
    with Cons.IH(1) [OF run(2) 1(2)] show ?case by simp
  next
    case 2
    then obtain v s2 where run: "inventory_deployment E w root name s = (Inr v, s2)"
      "eachM (inventory_deployment E w root) names s2 = (Inr u, t)" by (auto simp: bindM_eq_Inr)
    have "\<not> blocks_all s2"
      using keepsD [OF blocking.keeps_each [OF blocks_inventory] run(2)] 2(2) by (auto simp: collects_def)
    with run(1) obtain j b where j: "name = j @ ''.json''" "read_owned E w root name = Inr (j, b)"
      "s2 = s\<lparr>owned_records := AList.update j b (owned_records s)\<rparr>" by (rule inventory_step)
    with Cons.IH(2) [OF run(2) 2(2)] show ?case by (auto simp: update_conv' store_record_def)
  }
qed simp_all

text \<open>The steps of a survey that ends, each between states that the relation connects.\<close>

lemma survey_steps:
  assumes "take_survey E w mtime root as_of no_survey = (Inr sel, s)"
  obtains s1 s2 s3 s4 s5 s6 where
    "inventory_deployments E w root no_survey = (Inr (), s1)"
    "validate_build_ownership root s1 = (Inr (), s2)"
    "pipeline_references E w root s2 = (Inr (), s3)"
    "validate_reference_integrity root s3 = (Inr (), s4)"
    "validate_active_state E w root s4 = (Inr sel, s5)"
    "scan_orphans w mtime root as_of (owned_records s) s5 = (Inr (), s6)"
    "eachM (check_pin w root) (owned_records s) s6 = (Inr (), s)"
    "grows root (owned_records s) s1 s2" "grows root (owned_records s) s2 s3" "grows root (owned_records s) s3 s5"
    "grows root (owned_records s) s5 s"
proof -
  obtain s1 s2 s3 s4 s5 s6 where runs:
    "inventory_deployments E w root no_survey = (Inr (), s1)"
    "validate_build_ownership root s1 = (Inr (), s2)" "pipeline_references E w root s2 = (Inr (), s3)"
    "validate_reference_integrity root s3 = (Inr (), s4)" "validate_active_state E w root s4 = (Inr sel, s5)"
    "scan_orphans w mtime root as_of (owned_records s5) s5 = (Inr (), s6)"
    "eachM (check_pin w root) (owned_records s6) s6 = (Inr (), s)"
    using assms by (auto simp: take_survey_def inventory_orphans_def bindM_eq_Inr)
  have g5: "grows root (owned_records s5) s5 s6" using grows_orphans runs(6) by (rule keepsD)
  moreover have g6: "grows root (owned_records s5) s6 s"
    using grows.keeps_each [OF grows_pin] runs(7) by (rule keepsD)
  ultimately have same: "owned_records s6 = owned_records s" "owned_records s5 = owned_records s"
    by (simp_all add: growsD(1))
  have g: "grows root rs s1 s2" "grows root rs s2 s3" "grows root rs s3 s4" "grows root rs s4 s5" for rs
    by (rule keepsD [OF grows_ownership runs(2)] keepsD [OF grows_pipeline runs(3)]
        keepsD [OF grows_integrity runs(4)] keepsD [OF grows_active runs(5)])+
  show thesis
    using that [OF runs(1-5)] runs(6,7) g g5 g6 grows.R_trans unfolding same by blast
qed

lemma ownership_clean:
  assumes "validate_build_ownership root s = (Inr u, t)" "\<not> blocks_all t"
  shows "length (owners_of (owned_records s) run) \<le> 1"
proof (rule ccontr)
  let ?rs = "owned_records s"
  assume many: "\<not> length (owners_of ?rs run) \<le> 1"
  then have "owners_of ?rs run \<noteq> []" by auto
  then have "run \<in> set (sorted_set (map (\<lambda>(i, b). run_of b) ?rs))"
    by (force simp: owners_of_def filter_empty_conv)
  moreover have "eachM (check_owners root ?rs) (sorted_set (map (\<lambda>(i, b). run_of b) ?rs)) s = (Inr u, t)"
    using assms(1) by (simp add: validate_build_ownership_def)
  moreover have "keeps (grows root ?rs) (check_owners root ?rs x)" for x
    unfolding check_owners_def Let_def by (intro grows_intros)
  ultimately obtain s1 t1 v where v: "check_owners root ?rs run s1 = (Inr v, t1)" "grows root ?rs t1 t"
    by (metis grows.each_visits)
  from v(1) many have "blocks_all t1" by (auto simp: check_owners_def Let_def dest: unresolved_blocks)
  with growsD(2) [OF v(2) assms(2)] show False by simp
qed

lemma active_clean:
  assumes "validate_active_state E w root s = (Inr sel, t)" "\<not> blocks_all t"
  shows "read_selection E w root (owned_records s) = Inr sel"
  using assms by (auto simp: validate_active_state_def bindM_eq_Inr split: sum.splits if_splits dest: unresolved_blocks)

lemma transactions_clean:
  assumes "pipeline_references E w root s = (Inr u, t)" "\<not> blocks_all t"
  shows "\<not> lexists w (root @ [''data'', ''pipeline-transactions'', ''rollback.json''])"
    and "lexists w (root @ [''quarantine'']) \<Longrightarrow> children w (root @ [''quarantine'']) = []"
proof -
  obtain s4 s5 where runs: "rollback_references E w root s4 = (Inr (), s5)" "quarantine_references w root s5 = (Inr u, t)"
    using assms(1) by (auto simp: pipeline_references_def bindM_eq_Inr)
  have "\<not> blocks_all s5" using keepsD [OF grows_quarantine runs(2)] assms(2) by (rule growsD(2))
  then show "\<not> lexists w (root @ [''data'', ''pipeline-transactions'', ''rollback.json''])"
    using runs(1) by (auto simp: rollback_references_def Let_def bindM_eq_Inr dest!: guarded_clean unresolved_blocks)
  show "children w (root @ [''quarantine'']) = []" if "lexists w (root @ [''quarantine''])"
    using runs(2) that assms(2)
    by (auto simp: quarantine_references_def Let_def bindM_eq_Inr dest!: guarded_clean split: if_splits dest: unresolved_blocks)
qed

text \<open>An unfinished attempt keeps the deployment that it names.\<close>

lemma identity_candidate:
  assumes "add_identity_references d False s = (Inr u, t)" "dget d ''candidate_deployment_id'' = JStr i" "i \<noteq> []"
  shows "i \<in> ref_deployments t"
proof -
  define rest where "rest = (\<lambda>candidate::string option.
     bindM (liftM (optional_sha256 (dget d ''expected_current_deployment_id'') ''expected_current_deployment_id'')) (\<lambda>expected.
     bindM (refer expected (add_deployment False)) (\<lambda>_.
     bindM (liftM (optional_sha256 (dget d ''snapshot_id'') ''snapshot_id'')) (\<lambda>snapshot.
     bindM (refer snapshot (add_snapshot False)) (\<lambda>_.
     bindM (liftM (optional_run (dget d ''run_id''))) (\<lambda>run.
     bindM (refer run (add_run False)) (\<lambda>_.
     case (candidate, snapshot, run) of
       (Some c, Some sn, Some r) \<Rightarrow> modifyM (add_claim (c, r, sn, ''unresolved''))
     | _ \<Rightarrow> retM ())))))))"
  have "keeps (grows [] []) (rest c)" for c
    unfolding rest_def by (intro grows_intros)
  moreover have "add_identity_references d False =
      bindM (liftM (optional_sha256 (dget d ''candidate_deployment_id'') ''candidate_deployment_id'')) (\<lambda>candidate.
      bindM (refer candidate (add_deployment False)) (\<lambda>_. rest candidate))"
    by (simp add: add_identity_references_def rest_def cong: if_cong)
  with assms obtain s1 where "refer (Some i) (add_deployment False) s = (Inr (), s1)" "rest (Some i) s1 = (Inr u, t)"
    by (auto simp: bindM_eq_Inr optional_sha256_def split: if_splits)
  moreover from this(1) have "i \<in> ref_deployments s1" by (auto simp: refer_def add_deployment_def)
  ultimately show ?thesis by (metis growsD(3) keepsD)
qed

lemma scan_result_candidate:
  assumes "scan_result w root publisher name s = (Inr u, t)"
    and "read_object w root (root @ [''results'', publisher, name]) = Inr d" "unfinished d"
    and "dget d ''candidate_deployment_id'' = JStr i" "i \<noteq> []"
  shows "i \<in> ref_deployments t"
proof -
  let ?p = "root @ [''results'', publisher, name]"
  let ?note = "unresolved_at root ?p ''pipeline-attempt-unresolved'' (''remote result remains '' @ str_of (dget d ''outcome'')) False"
  let ?rest = "\<lambda>rid result. bindM (modifyM (\<lambda>s. s\<lparr>results_seen := AList.update (publisher, rid) result (results_seen s)\<rparr>)) (\<lambda>_.
         if unfinished result then
           bindM (add_identity_references result False) (\<lambda>_.
           unresolved_at root ?p ''pipeline-attempt-unresolved''
             (''remote result remains '' @ str_of (dget result ''outcome'')) False)
         else if str_of (dget result ''outcome'') \<notin> set success_outcomes then
           bindM (liftM (optional_sha256 (dget result ''candidate_deployment_id'') ''candidate_deployment_id'')) (\<lambda>candidate.
           if candidate \<noteq> None then add_identity_references result True else retM ())
         else retM ())"
  obtain rid where "bindM (liftM (bindE (read_object w root ?p) (\<lambda>v. validate_result_record v publisher rid))) (?rest rid) s
      = (Inr u, t)"
    using assms(1) unfolding scan_result_def Let_def by (rule bindM_liftME)
  then obtain r where r: "bindE (read_object w root ?p) (\<lambda>v. validate_result_record v publisher rid) = Inr r" "?rest rid r s = (Inr u, t)"
    by (rule bindM_liftME)
  have "validate_result_record d publisher rid = Inr r" using r(1) assms(2) by simp
  then have "r = d" unfolding validate_result_record_def by (elim bindE_InrE) simp
  with r(2) assms(3) obtain s1 where "bindM (add_identity_references d False) (\<lambda>_. ?note) s1 = (Inr u, t)" by simp
  then obtain s2 v where "add_identity_references d False s1 = (Inr v, s2)" "?note s2 = (Inr u, t)"
    unfolding bindM_eq_Inr by blast
  then show ?thesis
    using identity_candidate [OF _ assms(4,5)] growsD(3) [OF keepsD [OF grows_unresolved]] by blast
qed

lemma results_clean:
  assumes "result_references w root s = (Inr u, t)" "\<not> blocks_all t"
    and "publisher \<in> set (children w (root @ [''results'']))" "name \<in> set (children w (root @ [''results'', publisher]))"
    and "lexists w (root @ [''results''])"
    and "read_object w root (root @ [''results'', publisher, name]) = Inr d" "unfinished d"
    and "dget d ''candidate_deployment_id'' = JStr i" "i \<noteq> []"
  shows "i \<in> ref_deployments t"
proof -
  let ?body = "\<lambda>publisher. eachM (scan_result w root publisher) (children w ((root @ [''results'']) @ [publisher]))"
  have "each_publisher w root (root @ [''results'']) ''publisher results directory'' (children w (root @ [''results''])) ?body s
      = (Inr u, t)"
    using assms(1,2,5) by (auto simp: result_references_def Let_def bindM_eq_Inr dest!: guarded_clean)
  then have "eachM (\<lambda>name. bindM (liftM (safe_directory w root ((root @ [''results'']) @ [name]) ''publisher results directory'')) (\<lambda>_.
       bindM (liftM (validate_publisher_id (JStr name))) (\<lambda>_. ?body name))) (children w (root @ [''results''])) s = (Inr u, t)"
    by (simp only: each_publisher_def)
  moreover have "keeps (grows [] []) (bindM (liftM (safe_directory w root ((root @ [''results'']) @ [name]) ''publisher results directory'')) (\<lambda>_.
       bindM (liftM (validate_publisher_id (JStr name))) (\<lambda>_. ?body name)))" for name
    by (intro grows_intros grows_result)
  ultimately obtain s1 t1 v where "bindM (liftM (safe_directory w root ((root @ [''results'']) @ [publisher]) ''publisher results directory'')) (\<lambda>_.
       bindM (liftM (validate_publisher_id (JStr publisher))) (\<lambda>_. ?body publisher)) s1 = (Inr v, t1)" "grows [] [] t1 t"
    using assms(3) by (metis (no_types, lifting) grows.each_visits)
  moreover from this(1) have body: "eachM (scan_result w root publisher) (children w (root @ [''results'', publisher])) s1 = (Inr v, t1)"
    by (auto simp: bindM_eq_Inr)
  obtain s2 t2 v2 where "scan_result w root publisher name s2 = (Inr v2, t2)" "grows [] [] t2 t1"
    by (rule grows.each_visits [OF body assms(4) grows_result])
  moreover from this(1) have "i \<in> ref_deployments t2" using assms(6-9) by (rule scan_result_candidate)
  ultimately show ?thesis by (blast dest: growsD(3))
qed

lemma pipeline_candidate:
  assumes "pipeline_references E w root s = (Inr u, t)" "\<not> blocks_all t"
    and "lexists w (root @ [''results''])" "publisher \<in> set (children w (root @ [''results'']))"
    and "name \<in> set (children w (root @ [''results'', publisher]))"
    and "read_object w root (root @ [''results'', publisher, name]) = Inr d" "unfinished d"
    and "dget d ''candidate_deployment_id'' = JStr i" "i \<noteq> []"
  shows "i \<in> ref_deployments t"
proof -
  let ?rest = "bindM (incoming_references w root) (\<lambda>_.
     bindM (commit_references w root (root @ [''commits'']) ''commit'') (\<lambda>_.
     bindM (commit_references w root (root @ [''pipeline-state'', ''commit-journal'']) ''commit-journal'') (\<lambda>_.
     bindM (rollback_references E w root) (\<lambda>_.
     quarantine_references w root))))"
  obtain s1 v where runs: "result_references w root s = (Inr v, s1)" "?rest s1 = (Inr u, t)"
    using assms(1) unfolding pipeline_references_def bindM_eq_Inr [of "result_references w root"] by blast
  have "keeps (grows [] []) ?rest"
    by (intro grows_intros grows_incoming grows_commits grows_rollback grows_quarantine)
  then have "grows [] [] s1 t" using runs(2) by (rule keepsD)
  moreover from this have "\<not> blocks_all s1" using assms(2) by (rule growsD(2))
  with runs(1) have "i \<in> ref_deployments s1"
    by (rule results_clean) (use assms(3-) in auto)
  ultimately show ?thesis by (rule growsD(3))
qed

lemma pins_clean:
  assumes "eachM (check_pin w root) rs s = (Inr u, t)" "(i, b) \<in> set rs" "run_is_pinned w (root @ [''data'']) (JStr (run_of b)) = Inr True"
  shows "i \<in> pinned t"
proof -
  obtain s1 t1 v where "check_pin w root (i, b) s1 = (Inr v, t1)" "grows [] [] t1 t"
    using grows.each_visits [OF assms(1,2) grows_pin] by metis
  then show ?thesis using assms(3) growsD(4) by (fastforce simp: check_pin_def)
qed

section \<open>The plan\<close>

lemma mapE_in: "mapE f xs = Inr ys \<Longrightarrow> y \<in> set ys \<Longrightarrow> \<exists>x \<in> set xs. f x = Inr y"
  by (induction xs arbitrary: ys) (auto split: sum.splits)

lemma bindM_askME:
  assumes "bindM (askM f) g w = (Inr y, t)"
  obtains x where "f w = Inr x" "g x w = (Inr y, t)"
  using assms by (auto simp: bindM_askM split: sum.splits)

text \<open>The world while the planner holds its two shared locks.\<close>

definition under_locks :: "path \<Rightarrow> world \<Rightarrow> world" where
  "under_locks root w = w\<lparr>holders := (root @ [''data'', ''deployment.lock''], True)
     # (root @ [''data'', ''retention.lock''], True) # holders w\<rparr>"

lemma shared_lock:
  assumes "data_lock data name True True False owner body w = (Inr x, w')"
  obtains w1 where "body (w\<lparr>holders := (data @ [name], True) # holders w\<rparr>) = (Inr x, w1)" "w' = release (data @ [name]) True w1"
  using assms
  by (auto simp: data_lock_def bindM_def failIf_def open_lock_def acquire_def finallyM_def
      split: if_splits option.splits node.splits prod.splits sum.splits)

lemma release_own: "release p sh (w\<lparr>holders := (p, sh) # holders w\<rparr>) = w"
  by (simp add: release_def)

lemma plan_run:
  assumes "plan_deployment_retention E mtime root keep as_of w = (Inr plan, w')"
  obtains sel s targets where "w' = w"
    "take_survey E (under_locks root w) mtime root as_of no_survey = (Inr sel, s)"
    "delete_targets (under_locks root w) root keep sel s = Inr targets"
    "plan = sealed (digest E) (plan_body root as_of keep sel s targets)"
proof -
  let ?d = "root @ [''data'']" and ?v = "under_locks root w"
  let ?m = "askM (\<lambda>v. make_plan E v mtime root as_of keep)"
  have "retention_lock ?d True True False (deployment_lock ?d True True False ?m) w = (Inr plan, w')"
    using assms unfolding plan_deployment_retention_def Let_def
    by (elim bindM_askME) (auto simp: rewrap_def split: prod.splits sum.splits if_splits)
  then obtain w1 where w1: "deployment_lock ?d True True False ?m (w\<lparr>holders := (?d @ [''retention.lock''], True) # holders w\<rparr>) = (Inr plan, w1)"
    "w' = release (?d @ [''retention.lock'']) True w1"
    unfolding retention_lock_def by (rule shared_lock)
  from w1(1) obtain w2 where w2: "?m ?v = (Inr plan, w2)" "w1 = release (?d @ [''deployment.lock'']) True w2"
    unfolding deployment_lock_def by (rule shared_lock) (simp add: under_locks_def)
  then have plan: "make_plan E ?v mtime root as_of keep = Inr plan" "w2 = ?v" by (auto simp: askM_def)
  have "w' = w" using w1(2) w2(2) by (simp add: plan(2) under_locks_def release_def)
  with plan(1) show thesis
    by (auto simp: make_plan_def bindE_eq_Inr split: prod.splits sum.splits intro: that)
qed

lemma sealed_targets:
  "dget (sealed sha (plan_body root as_of keep sel s targets)) ''delete_targets'' = JList (map (target_json root) targets)"
  by (simp add: sealed_def Let_def dget_dput) (simp add: plan_body_def)

lemma target_place: "retention_target w root p kind = Inr t \<Longrightarrow> t = (kind, p)"
  unfolding retention_target_def by (elim bindE_InrE) simp

lemma targets_from:
  assumes "delete_targets w root keep sel s = Inr targets" "t \<in> set targets"
  shows "\<not> blocks_all s"
    and "t \<in> set (age_targets s)
      \<or> (\<exists>i b. (i, b) \<in> set (removable keep sel s) \<and> (t = (''deployment-record'', record_file b)
           \<or> t = (''build'', build_home b) \<or> (\<exists>h. history_home b = Some h \<and> t = (''deployment-history'', h))))
      \<or> (\<exists>sn. removable_snapshot keep sel s sn \<and> t = (''snapshot'', root @ [''vault-snapshots'', sn]))"
proof -
  show "\<not> blocks_all s" using assms by (auto simp: delete_targets_def)
  then obtain ts us where u: "mapE (deployment_targets w root) (removable keep sel s) = Inr ts"
    "snapshot_targets w root keep sel s = Inr us"
    "t \<in> set (age_targets s) \<or> (\<exists>xs \<in> set ts. t \<in> set xs) \<or> t \<in> set us"
    using assms by (auto simp: delete_targets_def bindE_eq_Inr)
  have "\<exists>i b. (i, b) \<in> set (removable keep sel s) \<and> (t = (''deployment-record'', record_file b)
      \<or> t = (''build'', build_home b) \<or> (\<exists>h. history_home b = Some h \<and> t = (''deployment-history'', h)))"
    if xs: "xs \<in> set ts" "t \<in> set xs" for xs
  proof -
    obtain i b where b: "(i, b) \<in> set (removable keep sel s)" "deployment_targets w root (i, b) = Inr xs"
      using mapE_in [OF u(1) xs(1)] by auto
    have "t = (''deployment-record'', record_file b)
      \<or> t = (''build'', build_home b) \<or> (\<exists>h. history_home b = Some h \<and> t = (''deployment-history'', h))"
      using b(2) xs(2)
      by (auto simp: deployment_targets_def bindE_eq_Inr split: option.splits dest!: target_place)
    with b(1) show ?thesis by blast
  qed
  moreover have "\<exists>sn. removable_snapshot keep sel s sn \<and> t = (''snapshot'', root @ [''vault-snapshots'', sn])" if us: "t \<in> set us"
  proof -
    obtain sn where "removable_snapshot keep sel s sn" "retention_target w root (root @ [''vault-snapshots'', sn]) ''snapshot'' = Inr t"
      using mapE_in [OF u(2) [unfolded snapshot_targets_def] us] by auto
    then show ?thesis by (blast dest: target_place)
  qed
  ultimately show "t \<in> set (age_targets s)
      \<or> (\<exists>i b. (i, b) \<in> set (removable keep sel s) \<and> (t = (''deployment-record'', record_file b)
           \<or> t = (''build'', build_home b) \<or> (\<exists>h. history_home b = Some h \<and> t = (''deployment-history'', h))))
      \<or> (\<exists>sn. removable_snapshot keep sel s sn \<and> t = (''snapshot'', root @ [''vault-snapshots'', sn]))"
    using u(3) by blast
qed

section \<open>What a plan with a target rests on\<close>

text \<open>The store of a survey without a blocking finding.\<close>

definition store_names :: "world \<Rightarrow> path \<Rightarrow> string list" where
  "store_names w root = children w (root @ [''data'', ''deployments''])"

lemma survey_store:
  assumes "take_survey E w mtime root as_of no_survey = (Inr sel, s)" "\<not> blocks_all s"
  shows "name \<in> set (store_names w root) \<Longrightarrow> \<exists>i b. name = i @ ''.json'' \<and> read_owned E w root name = Inr (i, b)"
    and "map_of (owned_records s) i = (if i @ ''.json'' \<in> set (store_names w root) then store_record E w root i else None)"
    and "length (owners_of (owned_records s) run) \<le> 1"
    and "read_selection E w root (owned_records s) = Inr sel"
    and "\<not> lexists w (root @ [''data'', ''pipeline-transactions'', ''rollback.json''])"
    and "lexists w (root @ [''quarantine'']) \<Longrightarrow> children w (root @ [''quarantine'']) = []"
    and "x \<in> set (age_targets s) \<Longrightarrow> loose root (owned_records s) x"
    and "(i, b) \<in> set (owned_records s) \<Longrightarrow> run_is_pinned w (root @ [''data'']) (JStr (run_of b)) = Inr True \<Longrightarrow> i \<in> pinned s"
    and "(i, b) \<in> set (owned_records s) \<Longrightarrow> read_owned E w root (i @ ''.json'') = Inr (i, b)"
    and "lexists w (root @ [''results'']) \<Longrightarrow> publisher \<in> set (children w (root @ [''results'']))
      \<Longrightarrow> name \<in> set (children w (root @ [''results'', publisher]))
      \<Longrightarrow> read_object w root (root @ [''results'', publisher, name]) = Inr d \<Longrightarrow> unfinished d
      \<Longrightarrow> dget d ''candidate_deployment_id'' = JStr i \<Longrightarrow> i \<noteq> [] \<Longrightarrow> i \<in> ref_deployments s"
proof -
  let ?rs = "owned_records s"
  obtain s1 s2 s3 s4 s5 s6 where st:
    "inventory_deployments E w root no_survey = (Inr (), s1)" "validate_build_ownership root s1 = (Inr (), s2)"
    "pipeline_references E w root s2 = (Inr (), s3)" "validate_reference_integrity root s3 = (Inr (), s4)"
    "validate_active_state E w root s4 = (Inr sel, s5)" "eachM (check_pin w root) ?rs s6 = (Inr (), s)"
    and g: "grows root ?rs s1 s2" "grows root ?rs s2 s3" "grows root ?rs s3 s5" "grows root ?rs s5 s"
    using assms(1) by (rule survey_steps)
  have nb: "\<not> blocks_all s5" "\<not> blocks_all s3" "\<not> blocks_all s2" "\<not> blocks_all s1"
    using assms(2) g growsD(2) by blast+
  have g45: "grows root ?rs s4 s5" using grows_active st(5) by (rule keepsD)
  have same: "owned_records s1 = ?rs" "owned_records s4 = ?rs"
    using g g45 by (simp_all add: growsD(1) [symmetric])
  have inv: "eachM (inventory_deployment E w root) (store_names w root) no_survey = (Inr (), s1)"
    using st(1) nb(4) by (auto simp: inventory_deployments_def store_names_def Let_def split: if_splits dest: unresolved_blocks)
  show "name \<in> set (store_names w root) \<Longrightarrow> \<exists>i b. name = i @ ''.json'' \<and> read_owned E w root name = Inr (i, b)"
    using inventory_clean(1) [OF inv nb(4)] by blast
  show "map_of ?rs i = (if i @ ''.json'' \<in> set (store_names w root) then store_record E w root i else None)"
    using inventory_clean(2) [OF inv nb(4)] by (simp add: same no_survey_def)
  show "length (owners_of ?rs run) \<le> 1" using ownership_clean [OF st(2) nb(3)] by (simp add: same)
  show "read_selection E w root ?rs = Inr sel" using active_clean [OF st(5) nb(1)] by (simp add: same)
  show "\<not> lexists w (root @ [''data'', ''pipeline-transactions'', ''rollback.json''])"
    "lexists w (root @ [''quarantine'']) \<Longrightarrow> children w (root @ [''quarantine'']) = []"
    using transactions_clean [OF st(3) nb(2)] by blast+
  show "i \<in> pinned s" if "(i, b) \<in> set ?rs" "run_is_pinned w (root @ [''data'']) (JStr (run_of b)) = Inr True"
    using st(6) that by (rule pins_clean)
  show "i \<in> ref_deployments s" if named: "lexists w (root @ [''results''])" "publisher \<in> set (children w (root @ [''results'']))"
      "name \<in> set (children w (root @ [''results'', publisher]))"
      "read_object w root (root @ [''results'', publisher, name]) = Inr d" "unfinished d"
      "dget d ''candidate_deployment_id'' = JStr i" "i \<noteq> []" for publisher name d
  proof -
    have "i \<in> ref_deployments s3" using st(3) nb(2) named by (rule pipeline_candidate)
    then show ?thesis using g(3,4) growsD(3) by blast
  qed
  have s1: "age_targets s1 = []" "distinct (map fst ?rs)"
    using keepsD [OF blocking.keeps_each [OF blocks_inventory] inv] by (simp_all add: no_survey_def collects_def same)
  show "read_owned E w root (i @ ''.json'') = Inr (i, b)" if "(i, b) \<in> set ?rs" for i b
  proof -
    have "map_of ?rs i = Some b" using s1(2) that by simp
    with inventory_clean(2) [OF inv nb(4), of i]
    have "i @ ''.json'' \<in> set (store_names w root)" "store_record E w root i = Some b"
      by (simp_all add: same no_survey_def split: if_splits)
    with inventory_clean(1) [OF inv nb(4)] show ?thesis by (fastforce simp: store_record_def)
  qed
  have "grows root ?rs s1 s" using g grows.R_trans by blast
  then show "x \<in> set (age_targets s) \<Longrightarrow> loose root ?rs x" using s1(1) by (auto simp: grows_def)
qed


lemma kept_under_locks: "under_locks kept_root kept_world = kept_view"
  by (simp add: under_locks_def kept_view_def kept_world_def fresh_world_def)


text \<open>A deployment that the planner has to spare: its run is pinned, it is selected, or a result of the
pipeline that is not final names it.\<close>

definition in_use :: "env \<Rightarrow> world \<Rightarrow> path \<Rightarrow> string \<Rightarrow> owned \<Rightarrow> bool" where
  "in_use E w root i b \<longleftrightarrow>
     run_is_pinned w (root @ [''data'']) (JStr (run_of b)) = Inr True
     \<or> (\<exists>d state. read_object w root (root @ [''data'', ''active.json'']) = Inr d
          \<and> validate_state (digest E) (JObj d) False = Inr state
          \<and> (slot_id (dget state ''current_deployment'') = Some i \<or> slot_id (dget state ''previous_deployment'') = Some i))
     \<or> (\<exists>publisher name d. lexists w (root @ [''results'']) \<and> publisher \<in> set (children w (root @ [''results'']))
          \<and> name \<in> set (children w (root @ [''results'', publisher]))
          \<and> read_object w root (root @ [''results'', publisher, name]) = Inr d \<and> unfinished d
          \<and> dget d ''candidate_deployment_id'' = JStr i)"

definition owned_paths :: "owned \<Rightarrow> path set" where
  "owned_paths b = {record_file b, build_home b, snapshot_home b} \<union> set_option (history_home b)"

lemma read_selection_slots:
  assumes "read_selection E w root rs = Inr sel" "read_object w root (root @ [''data'', ''active.json'']) = Inr d"
    "validate_state (digest E) (JObj d) False = Inr state"
  shows "sel = (Some state, slot_id (dget state ''current_deployment''), slot_id (dget state ''previous_deployment''))"
proof -
  have st: "valid_state (digest E) state" "d = state" using assms(3) by (simp_all add: validate_state_Inr)
  have parts: "sel = (Some state, Some (str_of (dget (obj_of (dget state ''current_deployment'')) ''deployment_id'')),
      slot_id (dget state ''previous_deployment''))" "dget state ''current_deployment'' \<noteq> JNull"
    using assms(1)
    by (simp_all only: read_selection_def assms(2) assms(3) bindE_simps bindE_raiseIf Let_def bindE_eq_Inr [of "check_role r n c" for r n c]
      bindE_eq_Inr [of "read_object w root q" for q] bindE_eq_Inr [of "current_projection sha q" for sha q] ex_simps simp_thms sum.inject)
      (elim conjE exE; simp)+
  have "truthy (dget state ''current_deployment'')"
    by (rule valid_slot_cases [OF valid_state_slots(1) [OF st(1)]]) (use parts(2) in simp_all)
  with parts(1) show ?thesis by (simp add: slot_id_def)
qed

text \<open>What the planner reserves it keeps.\<close>

lemma reserved_kept: "i \<in> reserved sel s \<Longrightarrow> (i, b) \<notin> set (removable keep sel s)"
  by (cases sel) (auto simp: removable_def reasons_def reserved_def selected_def unresolved_reference_def failure_reference_def)

lemma removable_owned: "(i, b) \<in> set (removable keep sel s) \<Longrightarrow> (i, b) \<in> set (owned_records s)"
  by (simp add: removable_def by_id_def)

lemma in_use_reserved:
  assumes "take_survey E w mtime root as_of no_survey = (Inr sel, s)" "\<not> blocks_all s"
    and "(i, b) \<in> set (owned_records s)" "in_use E w root i b" "i \<noteq> []"
  shows "i \<in> reserved sel s"
proof -
  note store = survey_store [OF assms(1,2)]
  consider (pin) "run_is_pinned w (root @ [''data'']) (JStr (run_of b)) = Inr True"
    | (active) d state where "read_object w root (root @ [''data'', ''active.json'']) = Inr d"
        "validate_state (digest E) (JObj d) False = Inr state"
        "slot_id (dget state ''current_deployment'') = Some i \<or> slot_id (dget state ''previous_deployment'') = Some i"
    | (result) publisher name d where "lexists w (root @ [''results''])" "publisher \<in> set (children w (root @ [''results'']))"
          "name \<in> set (children w (root @ [''results'', publisher]))"
          "read_object w root (root @ [''results'', publisher, name]) = Inr d" "unfinished d"
          "dget d ''candidate_deployment_id'' = JStr i"
    using assms(4) unfolding in_use_def by blast
  then show ?thesis
  proof cases
    case pin
    with store(8) assms(3) show ?thesis by (simp add: reserved_def)
  next
    case active
    have "sel = (Some state, slot_id (dget state ''current_deployment''), slot_id (dget state ''previous_deployment''))"
      using store(4) active(1,2) by (rule read_selection_slots)
    with active(3) show ?thesis by (auto simp: reserved_def selected_def)
  next
    case result
    then have "i \<in> ref_deployments s" using assms(5) by (rule store(10))
    then show ?thesis by (simp add: reserved_def)
  qed
qed

lemma target_spares:
  assumes "take_survey E w mtime root as_of no_survey = (Inr sel, s)"
    and "delete_targets w root keep sel s = Inr targets" "(kind, p) \<in> set targets"
    and "(i, b) \<in> set (owned_records s)" "i \<in> reserved sel s"
  shows "p \<notin> owned_paths b"
proof
  assume p: "p \<in> owned_paths b"
  note from_plan = targets_from [OF assms(2,3)]
  note store = survey_store [OF assms(1) from_plan(1)]
  note b = read_owned_id [OF store(9) [OF assms(4)]]
  have gone: "(i, c) \<notin> set (removable keep sel s)" for c using assms(5) by (rule reserved_kept)
  from from_plan(2) show False
  proof (elim disjE exE conjE)
    assume "(kind, p) \<in> set (age_targets s)"
    then have "loose root (owned_records s) (kind, p)" by (rule store(7))
    moreover have "i \<in> set (owners_of (owned_records s) (run_of b))"
      using assms(4) by (force simp: owners_of_def)
    ultimately show False using p b(3-6) by (auto simp: loose_def owned_paths_def build_path_def)
  next
    fix j c
    assume c: "(j, c) \<in> set (removable keep sel s)"
    note own_c = read_owned_id [OF store(9) [OF removable_owned [OF c]]]
    have other: "j \<noteq> i" using c gone by auto
    have runs: "run_of c \<noteq> run_of b"
    proof
      assume "run_of c = run_of b"
      then have "{i, j} \<subseteq> set (owners_of (owned_records s) (run_of b))"
        using assms(4) removable_owned [OF c] by (force simp: owners_of_def)
      with store(3) [of "run_of b"] other show False
        by (cases "owners_of (owned_records s) (run_of b)") (auto simp: le_Suc_eq)
    qed
    {
      assume "(kind, p) = (''deployment-record'', record_file c)"
      with p b(3-6) own_c(3) other show False by (auto simp: owned_paths_def build_path_def)
    next
      assume "(kind, p) = (''build'', build_home c)"
      with p b(3-6) own_c(4) runs show False by (auto simp: owned_paths_def build_path_def)
    next
      fix h
      assume "history_home c = Some h" "(kind, p) = (''deployment-history'', h)"
      with p b(3-6) own_c(6) other show False by (auto simp: owned_paths_def build_path_def)
    }
  next
    fix sn
    assume sn: "removable_snapshot keep sel s sn" "(kind, p) = (''snapshot'', root @ [''vault-snapshots'', sn])"
    with p b(3-6) have "snapshot_of b = sn" by (auto simp: owned_paths_def build_path_def)
    with sn(1) assms(4) have "i \<in> fst ` set (removable keep sel s)"
      by (auto simp: removable_snapshot_def list_all_iff)
    with gone show False by auto
  qed
qed

text \<open>C35: no target of a plan is the record, the build, the snapshot or the history of a deployment in use:
one whose run a process holds a pin on, one that the active state selects, or one that an unfinished
pipeline attempt names.\<close>

theorem plan_spares_what_is_in_use:
  assumes "plan_deployment_retention E mtime root keep as_of w = (Inr plan, w')"
    and "i @ ''.json'' \<in> set (store_names (under_locks root w) root)"
    and "read_owned E (under_locks root w) root (i @ ''.json'') = Inr (i, b)"
    and "in_use E (under_locks root w) root i b"
  shows "\<exists>targets. dget plan ''delete_targets'' = JList (map (target_json root) targets)
    \<and> snd ` set targets \<inter> owned_paths b = {}"
  using assms(1)
proof (rule plan_run)
  fix sel s targets
  assume run: "take_survey E (under_locks root w) mtime root as_of no_survey = (Inr sel, s)"
    and del: "delete_targets (under_locks root w) root keep sel s = Inr targets"
    and plan: "plan = sealed (digest E) (plan_body root as_of keep sel s targets)"
  have "p \<notin> owned_paths b" if t: "(kind, p) \<in> set targets" for kind p
  proof -
    have clean: "\<not> blocks_all s" using targets_from(1) [OF del t] .
    have "map_of (owned_records s) i = Some b"
      using survey_store(2) [OF run clean] assms(2,3) by (simp add: store_record_def)
    then have owned: "(i, b) \<in> set (owned_records s)" by (rule map_of_SomeD)
    have "i \<noteq> []" using read_owned_parts [OF assms(3)] by (metis safe_id_nonempty validate_safe_id_Inr)
    with run clean owned assms(4) have "i \<in> reserved sel s" by (rule in_use_reserved)
    with run del t owned show ?thesis by (rule target_spares)
  qed
  then show ?thesis by (intro exI [of _ targets]) (auto simp: plan sealed_targets)
qed

theorem plan_spares_what_is_in_use_witness:
  "\<exists>plan targets.
     plan_deployment_retention sample_env (\<lambda>p. 0) kept_root 0 1000000000000 kept_world = (Inr plan, kept_world)
     \<and> targets \<noteq> [] \<and> dget plan ''delete_targets'' = JList (map (target_json kept_root) targets)
     \<and> snd ` set targets \<inter> owned_paths kept_owned = {}"
proof -
  obtain plan where plan:
    "plan_deployment_retention sample_env (\<lambda>p. 0) kept_root 0 1000000000000 kept_world = (Inr plan, kept_world)"
    "list_of (dget plan ''delete_targets'') \<noteq> []"
    by (rule kept_planned)
  have "kept_id @ ''.json'' \<in> set (store_names kept_view kept_root)"
    by (simp add: store_names_def kept_children)
  moreover have "in_use sample_env kept_view kept_root kept_id kept_owned"
  proof -
    have "validate_state (digest sample_env) (JObj kept_state) False = Inr kept_state"
      using validate_state_valid [OF kept_state_valid] by (simp add: sample_env_def)
    moreover have "slot_id (dget kept_state ''current_deployment'') = Some kept_id"
    proof -
      have "dget kept_state ''current_deployment'' = JObj kept_record" "kept_record \<noteq> []"
        using valid_record_nonempty [OF kept_record_valid] by (simp_all add: kept_state_def mk_state_def)
      then show ?thesis by (simp add: slot_id_def kept_record_fields)
    qed
    ultimately show ?thesis unfolding in_use_def using kept_objects(3) by auto
  qed
  ultimately obtain targets where t: "dget plan ''delete_targets'' = JList (map (target_json kept_root) targets)"
    "snd ` set targets \<inter> owned_paths kept_owned = {}"
    using plan_spares_what_is_in_use [OF plan(1), of kept_id kept_owned] kept_read by (auto simp: kept_under_locks)
  with plan(2) have "targets \<noteq> []" by auto
  with plan(1) t show ?thesis by blast
qed

text \<open>The oldest beyond the number that the policy keeps.\<close>

lemma sorted_take_drop:
  assumes "sorted (map f xs)" "x \<in> set xs" "x \<notin> set (take n xs)"
  shows "length (take n xs) = n" "y \<in> set (take n xs) \<Longrightarrow> f y \<le> f x"
proof -
  from assms(2,3) have x: "x \<in> set (drop n xs)"
    by (metis UnE append_take_drop_id set_append)
  then have "drop n xs \<noteq> []" by auto
  then show "length (take n xs) = n" by simp
  show "f y \<le> f x" if "y \<in> set (take n xs)"
  proof -
    have "sorted (map f (take n xs) @ map f (drop n xs))"
      using assms(1) by (simp only: append_take_drop_id flip: map_append)
    then show ?thesis using that x by (auto simp: sorted_append)
  qed
qed

text \<open>C36: a deployment is removed only in favour of as many others as the policy keeps: the additional
deployments of the plan are then exactly \<open>keep\<close> different ones, the removed one is not among them, and each
of them became effective later, or at the same time with an ID that is not greater.\<close>

theorem removed_is_older:
  assumes "(i, b) \<in> set (removable keep sel s)" "distinct (map fst (owned_records s))"
  shows "distinct (additional keep sel s) \<and> length (additional keep sel s) = keep \<and> i \<notin> set (additional keep sel s)
    \<and> (\<forall>(j, c) \<in> set (owned_records s). j \<in> set (additional keep sel s) \<longrightarrow>
         effective b < effective c \<or> effective b = effective c \<and> j \<le> i)"
proof -
  define key where "key = (\<lambda>(i :: string, b :: owned). (- effective b, i))"
  define rs where "rs = sort_key key (filter (\<lambda>(i, b). i \<notin> reserved sel s) (owned_records s))"
  have add: "additional keep sel s = map fst (take keep rs)"
    by (simp add: additional_def newest_first_def rs_def key_def take_map)
  have dist: "distinct (map fst rs)"
    unfolding rs_def using assms(2) by (auto simp: distinct_map intro: inj_on_subset)
  have owned: "(i, b) \<in> set (owned_records s)" using assms(1) by (rule removable_owned)
  have out: "i \<notin> set (additional keep sel s)"
    using assms(1) by (cases sel) (auto simp: removable_def reasons_def)
  have "i \<notin> reserved sel s" using reserved_kept assms(1) by blast
  with owned have "(i, b) \<in> set rs" by (simp add: rs_def)
  moreover have "(i, b) \<notin> set (take keep rs)" using out by (force simp: add)
  moreover have "sorted (map key rs)" by (simp add: rs_def)
  ultimately have top: "length (take keep rs) = keep" "\<And>y. y \<in> set (take keep rs) \<Longrightarrow> key y \<le> key (i, b)"
    using sorted_take_drop [of key rs "(i, b)" keep] by simp_all
  have "effective b < effective c \<or> effective b = effective c \<and> j \<le> i"
    if c: "(j, c) \<in> set (owned_records s)" "j \<in> set (additional keep sel s)" for j c
  proof -
    obtain c' where c': "(j, c') \<in> set (take keep rs)" using c(2) by (auto simp: add)
    then have "(j, c') \<in> set (owned_records s)" by (auto simp: rs_def dest: in_set_takeD)
    with c(1) assms(2) have "c' = c" by (metis eq_key_imp_eq_value)
    with top(2) [OF c'] show ?thesis by (auto simp: key_def less_eq_prod_def)
  qed
  moreover have "distinct (additional keep sel s)" using dist by (simp add: add distinct_take flip: take_map)
  ultimately show ?thesis using out top(1) by (auto simp: add)
qed

theorem removed_is_older_witness:
  "let b = kept_owned\<lparr>effective := 1, history_times := [''t'']\<rparr>; c = b\<lparr>effective := 2\<rparr>;
       s = no_survey\<lparr>owned_records := [(''i'', b), (''j'', c)]\<rparr>; sel = (None, None, None)
   in (''i'', b) \<in> set (removable 1 sel s) \<and> length (additional 1 sel s) = 1 \<and> ''i'' \<notin> set (additional 1 sel s)"
proof -
  define b where "b = kept_owned\<lparr>effective := 1, history_times := [''t'']\<rparr>"
  define s where "s = no_survey\<lparr>owned_records := [(''i'', b), (''j'', b\<lparr>effective := 2\<rparr>)]\<rparr>"
  let ?sel = "(None, None, None) :: choice"
  have fields: "owned_records s = [(''i'', b), (''j'', b\<lparr>effective := 2\<rparr>)]" "pinned s = {}" "ref_deployments s = {}"
    "failure_deployments s = {}" "ref_runs s = {}" "ref_snapshots s = {}" "failure_runs s = {}" "failure_snapshots s = {}"
    by (simp_all add: s_def no_survey_def)
  have b: "effective b = 1" "history_times b = [''t'']" by (simp_all add: b_def)
  have fe: "failure_evidence ?sel s = {}"
    by (auto simp: failure_evidence_def unpromoted_def fields b selected_def split: if_splits)
  have "additional 1 ?sel s = [''j'']"
    by (simp add: additional_def newest_first_def fields reserved_def selected_def fe b less_eq_prod_def)
  then have "(''i'', b) \<in> set (removable 1 ?sel s)"
    by (simp add: removable_def by_id_def fields reasons_def unresolved_reference_def failure_reference_def fe)
  moreover from removed_is_older [OF this] have "length (additional 1 ?sel s) = 1" "''i'' \<notin> set (additional 1 ?sel s)"
    by (simp_all add: fields)
  ultimately show ?thesis by (simp add: b_def s_def Let_def)
qed

end
