(* ===== verification/Builds.thy ===== *)
theory Builds
  imports Promotion Sources
begin

text \<open>
  \<open>build.py\<close>, the part that makes builds: the materialisation of a snapshot in the immutable store,
  \<open>rebuild\<close> with the manifest it writes at every stage, the evaluation of a candidate and the
  adoption of a legacy state.

  \<open>workshop\<close> adds to the environment what these functions call outside this file: the database
  client (what loading the documents and recording the run do to the file system), the query
  engine and the suite runner of the evaluation, the generator of identifiers and the two
  environment variables.
\<close>

record workshop = env +
  fresh_id :: "nat \<Rightarrow> string"
  release_version :: json
  environ_revision :: json
  environ_digest :: json
  database_documents :: "path \<Rightarrow> dict \<Rightarrow> unit wprog"
  database_run :: "path \<Rightarrow> dict \<Rightarrow> string \<Rightarrow> string \<Rightarrow> string \<Rightarrow> string \<Rightarrow> unit wprog"
  smoke_summary :: "world \<Rightarrow> path \<Rightarrow> string \<Rightarrow> json \<Rightarrow> json res"
  suite_report :: "world \<Rightarrow> path \<Rightarrow> path \<Rightarrow> json \<Rightarrow> dict res"

definition the_env :: "workshop \<Rightarrow> env" where
  "the_env W = \<lparr>digest = digest W, inspect_vault = inspect_vault W, run_verifier = run_verifier W\<rparr>"

text \<open>\<open>inspected["validation"]["errors"]\<close>.\<close>

definition vault_errors :: "dict \<Rightarrow> bool res" where
  "vault_errors inspected =
     bindE (didx inspected ''validation'') (\<lambda>v. bindE (jidx v ''errors'') (\<lambda>e. Inr (truthy e)))"

definition agree_on :: "string list \<Rightarrow> dict \<Rightarrow> dict \<Rightarrow> bool" where
  "agree_on fs d e \<longleftrightarrow> list_all (\<lambda>f. pyeq (dget d f) (dget e f)) fs"

section \<open>The immutable snapshot store\<close>

text \<open>
  \<open>shutil.copytree(source, target, symlinks=False)\<close> as one step: what a crash can leave of it is part
  of a temporary directory.
\<close>

definition copy_tree :: "path \<Rightarrow> path \<Rightarrow> unit wprog" where
  "copy_tree source target w =
     (if lexists w target then (Inl (FileExistsError (''already exists: '' @ path_text target)), w)
      else if \<not> is_dir w source then (Inl (OSError (''cannot list '' @ path_text source)), w)
      else if list_ex (\<lambda>e. case snd e of Link t \<Rightarrow> True | _ \<Rightarrow> False) (entries_below w source)
        then (Inl (Unmodelled ''target of a symbolic link''), w)
      else durable (\<lambda>t. add_dirs target t
        @ map (\<lambda>e. (target @ drop (length source) (fst e), snd e)) (filter (\<lambda>e. below source (fst e) \<and> fst e \<noteq> source) t)) w)"

text \<open>\<open>sorted(path.rglob("*"), reverse=True)\<close>.\<close>

definition deepest_first :: "world \<Rightarrow> path \<Rightarrow> path list" where
  "deepest_first w p = rev (sort (map fst (entries_below w p)))"

definition partial_dir :: "path \<Rightarrow> string \<Rightarrow> path" where
  "partial_dir destination uuid = butlast destination @ [''.'' @ last destination @ ''.'' @ uuid @ ''.partial'']"

text \<open>Copy, verify, flush and rename; whatever fails, the temporary directory is removed.\<close>

definition publish_copy :: "env \<Rightarrow> path \<Rightarrow> path \<Rightarrow> path \<Rightarrow> dict \<Rightarrow> unit wprog" where
  "publish_copy E temporary source destination manifest =
     bindM (make_dir temporary) (\<lambda>_.
     catchM
       (bindM (copy_tree source (temporary @ [''vault''])) (\<lambda>_.
        bindM (write_manifest (digest E) (temporary @ [''snapshot.json'']) (JObj manifest)) (\<lambda>_.
        bindM (askM (\<lambda>w. verify_snapshot (digest E) (Some (inspect_vault E)) w (temporary @ [''vault'']) (JObj manifest))) (\<lambda>_.
        bindM (getsM (\<lambda>w. deepest_first w temporary)) (\<lambda>paths.
        bindM (eachM fsync_path paths) (\<lambda>_.
        bindM (fsync_path temporary) (\<lambda>_.
        bindM (rename temporary destination) (\<lambda>_.
        fsync_path (butlast destination)))))))))
       (\<lambda>e. if not_crash e then Some (bindM (remove_tree_quietly temporary) (\<lambda>_. raiseM e)) else None))"

definition materialize_snapshot :: "env \<Rightarrow> (nat \<Rightarrow> string) \<Rightarrow> path \<Rightarrow> path \<Rightarrow> json \<Rightarrow> path wprog" where
  "materialize_snapshot E ids root source manifest =
     (let sha = digest E; look = Some (inspect_vault E)
      in bindM (askM (\<lambda>w. raiseIf (\<not> exists_path w source) (OSError (''cannot resolve '' @ path_text source)))) (\<lambda>_.
         bindM (liftM (check_manifest sha manifest)) (\<lambda>checked.
         bindM (askM (\<lambda>w. verify_snapshot sha look w source (JObj checked))) (\<lambda>_.
         (let destination = root @ [''vault-snapshots'', str_of (dget checked ''snapshot_id'')]
          in bindM (getsM (\<lambda>w. exists_path w destination)) (\<lambda>there.
             if there then
               bindM (askM (\<lambda>w. read_manifest sha w (destination @ [''snapshot.json'']))) (\<lambda>existing.
               bindM (liftM (raiseIf (\<not> pyeq (dget existing ''snapshot_id'') (dget checked ''snapshot_id''))
                 (BuildError ''snapshot ID collision in immutable snapshot store''))) (\<lambda>_.
               bindM (askM (\<lambda>w. verify_snapshot sha look w (destination @ [''vault'']) (JObj existing))) (\<lambda>_.
               retM destination)))
             else
               bindM (make_dirs (butlast destination)) (\<lambda>_.
               bindM (draw ids) (\<lambda>u.
               bindM (publish_copy E (partial_dir destination u) source destination checked) (\<lambda>_.
               retM destination)))))))))"

section \<open>Is the active build the same?\<close>

definition dget_or :: "dict \<Rightarrow> string \<Rightarrow> json \<Rightarrow> json" where
  "dget_or d k v = (if dhas d k then dget d k else v)"

text \<open>The provenance of a build: version, source revision and image digest.\<close>

definition provenance_fields :: "string list" where
  "provenance_fields = [''homeops_version'', ''source_revision'', ''image_digest'']"

definition same_content :: "dict \<Rightarrow> dict \<Rightarrow> bool" where
  "same_content manifest inspected \<longleftrightarrow>
     dget manifest ''result'' = JStr ''verified'' \<and> agree_on fingerprint_fields manifest inspected"

definition same_strict_build :: "dict \<Rightarrow> dict \<Rightarrow> dict \<Rightarrow> json \<Rightarrow> dict \<Rightarrow> bool" where
  "same_strict_build state manifest snapshot current_id requested \<longleftrightarrow>
     (let selected = obj_of (dget state ''current_deployment'')
      in pyeq (dget state ''schema_version'') (JInt DEPLOYMENT_SCHEMA_VERSION)
         \<and> selected \<noteq> []
         \<and> pyeq (dget selected ''run_id'') current_id
         \<and> pyeq (dget selected ''snapshot_id'') (dget snapshot ''snapshot_id'')
         \<and> agree_on provenance_fields selected requested
         \<and> dget selected ''build_contract_version'' = JStr ''homeops-build-v1''
         \<and> pyeq (dget selected ''snapshot_contract_version'') (dget snapshot ''snapshot_contract_version'')
         \<and> dget manifest ''build_contract_version'' = JStr ''homeops-build-v1''
         \<and> agree_on provenance_fields manifest requested)"

definition same_plain_build :: "dict \<Rightarrow> dict \<Rightarrow> bool" where
  "same_plain_build manifest requested \<longleftrightarrow>
     dget_or manifest ''build_contract_version'' (JStr ''homeops-build-v1'') = JStr ''homeops-build-v1''
     \<and> list_all (\<lambda>f. pyeq (dget_or manifest f (dget requested f)) (dget requested f)) provenance_fields"

definition same_build :: "dict \<Rightarrow> dict \<Rightarrow> dict \<Rightarrow> dict option \<Rightarrow> json \<Rightarrow> dict \<Rightarrow> bool" where
  "same_build state manifest inspected strict current_id requested \<longleftrightarrow>
     same_content manifest inspected
     \<and> (case strict of Some snapshot \<Rightarrow> same_strict_build state manifest snapshot current_id requested
        | None \<Rightarrow> same_plain_build manifest requested)"

definition unchanged_build ::
  "world \<Rightarrow> path \<Rightarrow> dict \<Rightarrow> dict \<Rightarrow> dict option \<Rightarrow> dict \<Rightarrow> bool res" where
  "unchanged_build w data state inspected strict requested =
     (let current_id = dget state ''current''
      in bindE (manifest_path data current_id) (\<lambda>p.
         if \<not> is_file w p then Inr False
         else bindE (load_json w p) (\<lambda>manifest. Inr (same_build state manifest inspected strict current_id requested))))"

section \<open>The stages of a build\<close>

definition first_manifest :: "string \<Rightarrow> path \<Rightarrow> dict \<Rightarrow> string \<Rightarrow> dict \<Rightarrow> dict" where
  "first_manifest run_id database inspected started_at requested =
     [(''schema_version'', JInt 1), (''build_contract_version'', JStr ''homeops-build-v1''), (''run_id'', JStr run_id),
      (''profile'', dget inspected ''profile''), (''vault_root'', dget inspected ''vault_root''),
      (''database_path'', JStr (path_text database)), (''source_fingerprint'', dget inspected ''source_fingerprint''),
      (''artifact_fingerprint'', dget inspected ''artifact_fingerprint''),
      (''logical_fingerprint'', dget inspected ''logical_fingerprint''), (''counts'', dget inspected ''counts''),
      (''inventory'', dget inspected ''inventory''),
      (''unresolved_targets'', dget (obj_of (dget inspected ''validation'')) ''unresolved_targets''),
      (''started_at'', JStr started_at), (''completed_at'', JNull), (''result'', JStr ''building''),
      (''ingestion_result'', JStr ''candidate''), (''homeops_version'', dget requested ''homeops_version''),
      (''source_revision'', dget requested ''source_revision''), (''image_digest'', dget requested ''image_digest'')]"

text \<open>The handler around the stages: a stage fails with the manifest it has reached.\<close>

definition record_failure :: "path \<Rightarrow> dict \<Rightarrow> exn \<Rightarrow> 'a wprog" where
  "record_failure build_dir manifest e =
     bindM (case e of
         VerificationError report \<Rightarrow> durable_atomic_json (build_dir @ [''validation.json'']) report
       | _ \<Rightarrow> retM ()) (\<lambda>_.
     bindM (if dget manifest ''result'' = JStr ''verified'' then retM ()
            else bindM utc_now (\<lambda>now. durable_atomic_json (build_dir @ [''manifest.json''])
              (JObj (dmerge manifest [(''result'', JStr ''failed''), (''failed_at'', JStr now), (''failure'', JStr (exn_text e))])))) (\<lambda>_.
     raiseM e))"

definition stage :: "path \<Rightarrow> dict \<Rightarrow> 'a wprog \<Rightarrow> 'a wprog" where
  "stage build_dir manifest m =
     catchM m (\<lambda>e. if not_crash e then Some (record_failure build_dir manifest e) else None)"

definition save_manifest :: "path \<Rightarrow> dict \<Rightarrow> unit wprog" where
  "save_manifest build_dir manifest = durable_atomic_json (build_dir @ [''manifest.json'']) (JObj manifest)"

definition load_stage :: "workshop \<Rightarrow> path \<Rightarrow> dict \<Rightarrow> string \<Rightarrow> string \<Rightarrow> unit wprog" where
  "load_stage W build_dir inspected run_id started_at =
     bindM (database_documents W (build_dir @ [''cozo.db'']) inspected) (\<lambda>_.
     bindM utc_now (\<lambda>now.
     database_run W (build_dir @ [''cozo.db'']) inspected run_id started_at now ''candidate''))"

definition candidate_stage :: "workshop \<Rightarrow> path \<Rightarrow> dict \<Rightarrow> dict \<Rightarrow> string \<Rightarrow> string \<Rightarrow> string \<Rightarrow> unit wprog" where
  "candidate_stage W build_dir manifest inspected run_id started_at completed_at =
     bindM (save_manifest build_dir manifest) (\<lambda>_.
     bindM (askM (\<lambda>w. invoke_verifier (the_env W) w build_dir)) (\<lambda>_.
     database_run W (build_dir @ [''cozo.db'']) inspected run_id started_at completed_at ''verified''))"

definition verified_stage :: "workshop \<Rightarrow> path \<Rightarrow> dict \<Rightarrow> json wprog" where
  "verified_stage W build_dir manifest =
     bindM (save_manifest build_dir manifest) (\<lambda>_.
     bindM (askM (\<lambda>w. invoke_verifier (the_env W) w build_dir)) (\<lambda>validation.
     bindM (durable_atomic_json (build_dir @ [''validation.json'']) validation) (\<lambda>_.
     retM validation)))"

definition strict_deployment ::
  "workshop \<Rightarrow> path \<Rightarrow> dict \<Rightarrow> dict \<Rightarrow> dict \<Rightarrow> json \<Rightarrow> bool \<Rightarrow> json \<Rightarrow> (dict \<times> json) wprog" where
  "strict_deployment W data state snapshot manifest received_at promoting expected =
     (let sha = digest W
      in bindM (liftM (eachE (\<lambda>f. raiseIf (\<not> pyeq (dget snapshot f) (dget manifest f))
           (BuildError (''snapshot/build '' @ f @ '' mismatch''))) fingerprint_fields)) (\<lambda>_.
         bindM (liftM (create_deployment_record sha snapshot manifest received_at (dget manifest ''homeops_version'')
           (dget manifest ''source_revision'') (dget manifest ''image_digest'') JNull)) (\<lambda>deployment.
         bindM (store_deployment sha data (JObj deployment)) (\<lambda>_.
         if \<not> promoting then retM (deployment, JNull)
         else
           bindM (liftM (raiseIf (\<not> pyeq (dget state ''schema_version'') (JInt DEPLOYMENT_SCHEMA_VERSION))
             (BuildError ''legacy active state must be explicitly adopted before v2 promotion''))) (\<lambda>_.
           bindM utc_now (\<lambda>now.
           bindM (promote_locked (the_env W) data (JObj deployment) expected (JStr now) False) (\<lambda>promoted.
           retM (deployment, JObj promoted))))))))"

definition plain_promotion :: "path \<Rightarrow> dict \<Rightarrow> string \<Rightarrow> json wprog" where
  "plain_promotion data state run_id =
     bindM (askM (\<lambda>w. raiseIf (is_file w (active_path data) \<and> \<not> pyeq (dget state ''schema_version'') (JInt 1))
       (BuildError ''direct rebuild cannot replace schema-v2 deployment state; provide a strict snapshot manifest''))) (\<lambda>_.
     bindM utc_now (\<lambda>now.
     (let promoted = JObj [(''schema_version'', JInt 1), (''current'', JStr run_id),
        (''previous'', dget state ''current''), (''promoted_at'', JStr now)]
      in bindM (durable_atomic_json (active_path data) promoted) (\<lambda>_. retM promoted))))"

definition selection_stage ::
  "workshop \<Rightarrow> path \<Rightarrow> path \<Rightarrow> dict \<Rightarrow> dict option \<Rightarrow> dict \<Rightarrow> string \<Rightarrow> json \<Rightarrow> bool \<Rightarrow> json \<Rightarrow> (json \<times> json) wprog" where
  "selection_stage W data build_dir state strict manifest run_id received_at promoting expected =
     bindM (save_manifest build_dir manifest) (\<lambda>_.
     (case strict of
        Some snapshot \<Rightarrow> bindM (strict_deployment W data state snapshot manifest received_at promoting expected)
          (\<lambda>(deployment, promoted). retM (JObj deployment, promoted))
      | None \<Rightarrow>
          if promoting then bindM (plain_promotion data state run_id) (\<lambda>promoted. retM (JNull, promoted))
          else retM (JNull, JNull)))"

definition build_result :: "string \<Rightarrow> json \<Rightarrow> bool \<Rightarrow> json \<Rightarrow> json \<Rightarrow> json \<Rightarrow> dict" where
  "build_result run_id deployment promoting promoted counts validation =
     [(''result'', JStr ''verified''), (''run_id'', JStr run_id),
      (''deployment_id'', dget (obj_of deployment) ''deployment_id''), (''deployment'', deployment),
      (''promoted'', JBool promoting), (''active'', promoted), (''counts'', counts), (''validation'', validation)]"

definition run_build ::
  "workshop \<Rightarrow> path \<Rightarrow> dict \<Rightarrow> dict \<Rightarrow> dict option \<Rightarrow> dict \<Rightarrow> json \<Rightarrow> bool \<Rightarrow> json \<Rightarrow> dict wprog" where
  "run_build W data inspected state strict requested received_at promoting expected =
     bindM (draw (fresh_id W)) (\<lambda>run_id.
     (let build_dir = data @ [''builds'', run_id]
      in bindM utc_now (\<lambda>started_at.
         bindM (make_dir build_dir) (\<lambda>_.
         (let building = first_manifest run_id (build_dir @ [''cozo.db'']) inspected started_at requested
          in bindM (save_manifest build_dir building) (\<lambda>_.
             bindM (stage build_dir building (load_stage W build_dir inspected run_id started_at)) (\<lambda>_.
             bindM utc_now (\<lambda>completed_at.
             (let candidate = dmerge building [(''result'', JStr ''candidate''), (''completed_at'', JStr completed_at)]
              in bindM (stage build_dir candidate
                   (candidate_stage W build_dir candidate inspected run_id started_at completed_at)) (\<lambda>_.
                 (let ingested = dput candidate ''ingestion_result'' (JStr ''verified'')
                  in bindM (stage build_dir ingested (verified_stage W build_dir ingested)) (\<lambda>validation.
                     bindM utc_now (\<lambda>now.
                     (let verified = dmerge ingested [(''result'', JStr ''verified''), (''verified_at'', JStr now)]
                      in bindM (stage build_dir verified (selection_stage W data build_dir state strict verified run_id
                           (or_else received_at (JStr started_at)) promoting expected)) (\<lambda>(deployment, promoted).
                         retM (build_result run_id deployment promoting promoted (dget inspected ''counts'') validation))))))))))))))))"

section \<open>rebuild\<close>

record build_options =
  forced :: bool
  promoting :: bool
  strict_manifest :: "json option"
  received_at :: json
  asked_version :: json
  asked_revision :: json
  asked_digest :: json
  expected_current :: json

definition requested_identity :: "workshop \<Rightarrow> build_options \<Rightarrow> dict res" where
  "requested_identity W o' =
     (let version = or_else (asked_version o') (release_version W)
      in case strict_manifest o' of
           Some m \<Rightarrow>
             bindE (raiseIf (asked_revision o' = JNull \<or> asked_digest o' = JNull)
               (BuildError ''strict snapshot builds require source_revision and image_digest'')) (\<lambda>_.
             bindE (validate_release_provenance version (asked_revision o') (asked_digest o')) (\<lambda>(v, r, i).
             Inr [(''homeops_version'', v), (''source_revision'', r), (''image_digest'', i)]))
         | None \<Rightarrow> Inr [(''homeops_version'', version),
             (''source_revision'', or_else (asked_revision o') (environ_revision W)),
             (''image_digest'', or_else (asked_digest o') (environ_digest W))])"

definition strict_snapshot :: "workshop \<Rightarrow> world \<Rightarrow> path \<Rightarrow> json option \<Rightarrow> dict option res" where
  "strict_snapshot W w vault m =
     (case m of
        None \<Rightarrow> Inr None
      | Some manifest \<Rightarrow>
          rewrap is_snapshot_error (\<lambda>e. BuildError (''snapshot verification failed: '' @ exn_text e))
            (bindE (check_manifest (digest W) manifest) (\<lambda>checked.
             bindE (verify_snapshot (digest W) (Some (inspect_vault W)) w vault (JObj checked)) (\<lambda>_.
             Inr (Some checked)))))"

definition unchanged_result :: "dict \<Rightarrow> dict \<Rightarrow> dict" where
  "unchanged_result state inspected =
     [(''result'', JStr ''unchanged''), (''run_id'', dget state ''current''),
      (''deployment_id'', dget (obj_of (dget state ''current_deployment'')) ''deployment_id''),
      (''source_fingerprint'', dget inspected ''source_fingerprint''),
      (''artifact_fingerprint'', dget inspected ''artifact_fingerprint''),
      (''logical_fingerprint'', dget inspected ''logical_fingerprint'')]"

definition rebuild_locked :: "workshop \<Rightarrow> path \<Rightarrow> path \<Rightarrow> build_options \<Rightarrow> dict wprog" where
  "rebuild_locked W vault data o' =
     bindM (liftM (requested_identity W o')) (\<lambda>requested.
     bindM (askM (\<lambda>w. inspect_vault W w vault)) (\<lambda>inspected.
     bindM (liftM (vault_errors inspected)) (\<lambda>bad.
     bindM (liftM (raiseIf bad (BuildError ''vault validation failed; run `homeops-ai vault validate`''))) (\<lambda>_.
     bindM (askM (\<lambda>w. active_state (the_env W) w data)) (\<lambda>state.
     bindM (askM (\<lambda>w. strict_snapshot W w vault (strict_manifest o'))) (\<lambda>strict.
     bindM (if truthy (dget state ''current'') \<and> \<not> forced o'
            then askM (\<lambda>w. unchanged_build w data state inspected strict requested) else retM False) (\<lambda>same.
     if same then retM (unchanged_result state inspected)
     else run_build W data inspected state strict requested (received_at o') (promoting o') (expected_current o'))))))))"

definition rebuild :: "workshop \<Rightarrow> path \<Rightarrow> path \<Rightarrow> build_options \<Rightarrow> dict wprog" where
  "rebuild W vault data o' = rebuild_lock data (rebuild_locked W vault data o')"

section \<open>The evaluation of a candidate\<close>

definition smoke_names :: "string list" where
  "smoke_names = [''canonical-current'', ''link-inventory'', ''missing-lifecycle'']"

definition suite_entry :: "workshop \<Rightarrow> world \<Rightarrow> path \<Rightarrow> json \<Rightarrow> path \<Rightarrow> dict res" where
  "suite_entry W w data run_id suite =
     bindE (suite_report W w suite data run_id) (\<lambda>report.
     bindE (didx report ''suite_id'') (\<lambda>i.
     bindE (didx report ''passed'') (\<lambda>passed.
     bindE (didx report ''summary'') (\<lambda>summary.
     Inr [(''path'', JStr (path_text suite)), (''suite_id'', i), (''passed'', passed), (''summary'', summary)]))))"

definition evaluate_candidate :: "workshop \<Rightarrow> path \<Rightarrow> json \<Rightarrow> path list \<Rightarrow> dict wprog" where
  "evaluate_candidate W data run_id cases =
     bindM (liftM (validate_safe_id run_id ''run_id'')) (\<lambda>i.
     bindM (askM (\<lambda>w. verify_run (the_env W) w data run_id)) (\<lambda>_.
     bindM (askM (\<lambda>w. mapE (\<lambda>name. bindE (smoke_summary W w data name run_id) (\<lambda>s. Inr (name, s))) smoke_names)) (\<lambda>smoke.
     bindM (askM (\<lambda>w. mapE (suite_entry W w data run_id) cases)) (\<lambda>suites.
     bindM utc_now (\<lambda>now.
     (let report = [(''schema_version'', JInt 1), (''run_id'', run_id), (''evaluated_at'', JStr now),
        (''passed'', JBool (list_all (\<lambda>s. truthy (dget s ''passed'')) suites)),
        (''smoke_queries'', JObj smoke), (''suites'', JList (map JObj suites))]
      in bindM (durable_atomic_json (data @ [''builds'', i, ''promotion-evaluation.json'']) (JObj report)) (\<lambda>_.
         retM report)))))))"

section \<open>Adopting a legacy state\<close>

definition legacy_fields :: "dict \<Rightarrow> dict" where
  "legacy_fields manifest =
     dmerge manifest
       [(''schema_version'', dget_or manifest ''schema_version'' (JInt 1)),
        (''build_contract_version'', dget_or manifest ''build_contract_version'' (JStr ''homeops-build-v1'')),
        (''completed_at'', or_else (dget manifest ''completed_at'') (dget manifest ''verified_at'')),
        (''verified_at'', or_else (dget manifest ''verified_at'') (dget manifest ''completed_at''))]"

definition legacy_snapshot :: "workshop \<Rightarrow> path \<Rightarrow> dict \<Rightarrow> dict \<Rightarrow> dict wprog" where
  "legacy_snapshot W vault manifest inspected =
     (let sha = digest W; started = dget manifest ''started_at''
      in bindM (if truthy started then retM started else bindM utc_now (\<lambda>now. retM (JStr now))) (\<lambda>created_at.
         askM (\<lambda>w. rewrap is_snapshot_error (\<lambda>e. BuildError (''legacy snapshot verification failed: '' @ exn_text e))
           (bindE (create_snapshot_manifest sha w vault inspected created_at
              (dget_or manifest ''homeops_version'' (JStr ''legacy'')) (dget_or manifest ''source_revision'' (JStr ''legacy''))) (\<lambda>snapshot.
            bindE (verify_snapshot sha (Some (inspect_vault W)) w vault (JObj snapshot)) (\<lambda>_.
            Inr snapshot))))))"

definition legacy_record :: "workshop \<Rightarrow> path \<Rightarrow> json \<Rightarrow> path \<Rightarrow> json \<Rightarrow> (dict \<times> dict) wprog" where
  "legacy_record W data run_id vault promoted_at =
     bindM (askM (\<lambda>w. bindE (manifest_path data run_id) (load_json w))) (\<lambda>manifest.
     bindM (liftM (raiseIf (dget manifest ''result'' \<noteq> JStr ''verified'')
       (BuildError (''legacy active build is not verified: '' @ str_of run_id)))) (\<lambda>_.
     bindM (askM (\<lambda>w. verify_run (the_env W) w data run_id)) (\<lambda>_.
     bindM (askM (\<lambda>w. inspect_vault W w vault)) (\<lambda>inspected.
     bindM (liftM (vault_errors inspected)) (\<lambda>bad.
     bindM (liftM (raiseIf bad (BuildError (''legacy snapshot validation failed: '' @ path_text vault)))) (\<lambda>_.
     bindM (liftM (eachE (\<lambda>f. raiseIf (\<not> pyeq (dget inspected f) (dget manifest f))
       (BuildError (''legacy snapshot/build '' @ f @ '' mismatch for '' @ str_of run_id))) fingerprint_fields)) (\<lambda>_.
     bindM (legacy_snapshot W vault manifest inspected) (\<lambda>snapshot.
     bindM (liftM (create_deployment_record (digest W) snapshot (legacy_fields manifest) (dget snapshot ''created_at'')
       (dget_or manifest ''homeops_version'' (JStr ''legacy'')) (dget_or manifest ''source_revision'' (JStr ''legacy''))
       (dget_or manifest ''image_digest'' (JStr ''legacy-unrecorded'')) promoted_at)) (\<lambda>deployment.
     retM (deployment, snapshot))))))))))"

text \<open>A state that is adopted already is checked against its snapshots and published again.\<close>

definition check_adopted :: "env \<Rightarrow> world \<Rightarrow> path \<Rightarrow> json \<Rightarrow> unit res" where
  "check_adopted E w data deployment =
     (if deployment = JNull then Inr ()
      else (let dir = snapshot_dir data (dget (obj_of deployment) ''snapshot_id'')
        in bindE (read_manifest (digest E) w (dir @ [''snapshot.json''])) (\<lambda>manifest.
           bindE (verify_snapshot (digest E) (Some (inspect_vault E)) w (dir @ [''vault'']) (JObj manifest)) (\<lambda>_.
           Inr ()))))"

definition keep_adopted :: "workshop \<Rightarrow> path \<Rightarrow> dict \<Rightarrow> dict wprog" where
  "keep_adopted W data state =
     bindM (liftM (raiseIf (dget state ''current_deployment'' = JNull)
       (BuildError ''there is no legacy deployment state to adopt''))) (\<lambda>_.
     bindM (askM (\<lambda>w. eachE (check_adopted (the_env W) w data)
       [dget state ''current_deployment'', dget state ''previous_deployment''])) (\<lambda>_.
     bindM (publish_current_projection (digest W) (butlast data) (Some (JObj state))) (\<lambda>_.
     retM state)))"

definition keep_evidence :: "workshop \<Rightarrow> path \<Rightarrow> path \<Rightarrow> dict \<times> dict \<Rightarrow> unit wprog" where
  "keep_evidence W data vault pair =
     bindM (materialize_snapshot (the_env W) (fresh_id W) (butlast data) vault (JObj (snd pair))) (\<lambda>_.
     bindM (store_deployment (digest W) data (JObj (fst pair))) (\<lambda>_. retM ()))"

definition adopted_state :: "dict \<Rightarrow> dict \<Rightarrow> dict option \<Rightarrow> dict" where
  "adopted_state state current previous =
     [(''schema_version'', JInt DEPLOYMENT_SCHEMA_VERSION), (''current'', dget current ''run_id''),
      (''previous'', case previous of None \<Rightarrow> JNull | Some p \<Rightarrow> dget p ''run_id''),
      (''current_deployment'', JObj current),
      (''previous_deployment'', case previous of None \<Rightarrow> JNull | Some p \<Rightarrow> JObj p),
      (''promoted_at'', dget state ''promoted_at'')]"

definition adopt_legacy_locked :: "workshop \<Rightarrow> path \<Rightarrow> path \<Rightarrow> path option \<Rightarrow> dict wprog" where
  "adopt_legacy_locked W data current_vault previous_vault =
     bindM (askM (\<lambda>w. active_state (the_env W) w data)) (\<lambda>state.
     if pyeq (dget state ''schema_version'') (JInt DEPLOYMENT_SCHEMA_VERSION) then keep_adopted W data state
     else
       bindM (liftM (raiseIf (\<not> truthy (dget state ''current''))
         (BuildError ''legacy state has no current verified build''))) (\<lambda>_.
       bindM (liftM (raiseIf (truthy (dget state ''previous'') \<and> previous_vault = None)
         (BuildError ''legacy state has a previous build; --previous-vault is required to preserve exact-pair rollback''))) (\<lambda>_.
       bindM (legacy_record W data (dget state ''current'') current_vault (dget state ''promoted_at'')) (\<lambda>current.
       bindM (case previous_vault of
           Some vault \<Rightarrow>
             if truthy (dget state ''previous'')
             then bindM (legacy_record W data (dget state ''previous'') vault JNull) (\<lambda>p. retM (Some (vault, p)))
             else retM None
         | None \<Rightarrow> retM None) (\<lambda>previous.
       (let adopted = adopted_state state (fst current) (map_option (\<lambda>p. fst (snd p)) previous)
        in bindM (keep_evidence W data current_vault current) (\<lambda>_.
           bindM (case previous of Some (vault, p) \<Rightarrow> keep_evidence W data vault p | None \<Rightarrow> retM ()) (\<lambda>_.
           bindM (durable_atomic_json (active_path data) (JObj adopted)) (\<lambda>_.
           bindM (publish_current_projection (digest W) (butlast data) (Some (JObj adopted))) (\<lambda>_.
           retM adopted))))))))))"

definition adopt_legacy_state :: "workshop \<Rightarrow> path \<Rightarrow> path \<Rightarrow> path option \<Rightarrow> dict wprog" where
  "adopt_legacy_state W data current_vault previous_vault =
     rebuild_lock data (adopt_legacy_locked W data current_vault previous_vault)"

end
