(* ===== verification/Attempts.thy ===== *)
theory Attempts
  imports Builds
begin

text \<open>
  \<open>pipeline.py\<close>, the state that the workstation coordinator keeps on disk: the release policy, the
  redaction of results, the pending attempt with its six phases, its validation, and the files of it
  in the state directory (the attempt, the archive that belongs to it and the last result).

  Permission bits are not modelled. Where the code runs through a set the order is the one of the
  list here; it decides only which of several messages an exception carries.
\<close>

section \<open>Results\<close>

definition receiver_protocol :: string where
  "receiver_protocol = ''homeops.receiver/v1''"

definition pipeline_outcomes :: "string list" where
  "pipeline_outcomes =
    [''UNCHANGED'', ''PROMOTED'', ''LOCAL_VAULT_INVALID'', ''LOCAL_SOURCE_CHANGED'', ''PROMOTED_SOURCE_MOVED'',
     ''AUTHORIZATION_FAILED'', ''TRANSFER_FAILED'', ''REMOTE_SNAPSHOT_INVALID'', ''BUILD_FAILED'',
     ''EVALUATION_FAILED'', ''PROMOTION_CONFLICT'', ''POST_PROMOTION_MISMATCH'', ''HOMEOPS_UNAVAILABLE'',
     ''TIMEOUT'', ''INTERNAL_ERROR'']"

definition retryable_outcomes :: "string list" where
  "retryable_outcomes =
    [''BUILD_FAILED'', ''EVALUATION_FAILED'', ''HOMEOPS_UNAVAILABLE'', ''TIMEOUT'', ''INTERNAL_ERROR'']"

definition internal_error :: "string \<Rightarrow> exn" where
  "internal_error m = PipelineError ''INTERNAL_ERROR'' m False"

definition result_with :: "string \<Rightarrow> dict \<Rightarrow> dict wprog" where
  "result_with outcome values =
     bindM utc_now (\<lambda>now.
     retM (dmerge [(''schema_version'', JInt 1), (''protocol'', JStr receiver_protocol), (''outcome'', JStr outcome),
       (''at'', JStr now)] values))"

text \<open>\<open>str.split()\<close>.\<close>

fun split_blank :: "string \<Rightarrow> string list" where
  "split_blank [] = []"
| "split_blank (c # s) =
     (if is_space c then split_blank s
      else (case s of
          [] \<Rightarrow> [[c]]
        | d # t \<Rightarrow> if is_space d then [c] # split_blank s
            else (case split_blank s of [] \<Rightarrow> [[c]] | w # ws \<Rightarrow> (c # w) # ws)))"

fun class_name :: "exn \<Rightarrow> string" where
  "class_name (DeploymentError m) = ''DeploymentError''"
| "class_name (PromotionConflict m) = ''PromotionConflict''"
| "class_name (SnapshotError m) = ''SnapshotError''"
| "class_name (BuildError m) = ''BuildError''"
| "class_name (VerificationError r) = ''VerificationError''"
| "class_name (PipelineError out m r) = ''PipelineError''"
| "class_name (TransportError m) = ''TransportError''"
| "class_name (ReceiverRejected r) = ''ReceiverRejected''"
| "class_name (EvaluationError m) = ''EvaluationError''"
| "class_name (FrontmatterError m) = ''FrontmatterError''"
| "class_name (OSError m) = ''OSError''"
| "class_name (FileExistsError m) = ''FileExistsError''"
| "class_name (JSONDecodeError m) = ''JSONDecodeError''"
| "class_name e = ''ValueError''"

definition redacted_failure :: "exn \<Rightarrow> string" where
  "redacted_failure e =
     (let t = take 500 (join '' '' (split_blank (exn_text e))) in if t = [] then class_name e else t)"

definition same_fingerprints :: "dict \<Rightarrow> dict \<Rightarrow> bool" where
  "same_fingerprints = agree_on fingerprint_fields"

text \<open>Capability material never reaches a file that the user reads.\<close>

definition secret_key :: "string \<Rightarrow> bool" where
  "secret_key k \<longleftrightarrow> k \<in> {''capability_token'', ''capability_sha256''} \<or> startswith k ''_''"

fun redact :: "json \<Rightarrow> json" where
  "redact (JObj d) = JObj (map (\<lambda>p. (fst p, redact (snd p))) (filter (\<lambda>p. \<not> secret_key (fst p)) d))"
| "redact (JList xs) = JList (map redact xs)"
| "redact v = v"

definition redact_result :: "dict \<Rightarrow> dict" where
  "redact_result d = obj_of (redact (JObj d))"

section \<open>The release policy\<close>

definition released_identity :: "json \<Rightarrow> json \<Rightarrow> json \<Rightarrow> (json \<times> json \<times> json) res" where
  "released_identity package_version source_revision image_digest =
     bindE (raiseIf (source_revision = JNull \<or> image_digest = JNull)
       (internal_error ''released pipeline requires HOMEOPS_SOURCE_REVISION and HOMEOPS_IMAGE_DIGEST'')) (\<lambda>_.
     rewrap is_build_error (\<lambda>e. internal_error (exn_text e))
       (validate_release_provenance package_version source_revision image_digest))"

text \<open>The digest of one evaluation suite; the case is a path without links.\<close>

definition suite_digest :: "env \<Rightarrow> world \<Rightarrow> path \<Rightarrow> string res" where
  "suite_digest E w p =
     bindE (raiseIf (\<not> exists_path w p) (OSError (''cannot resolve '' @ path_text p))) (\<lambda>_.
     bindE (raiseIf (through_link w p) (Unmodelled ''target of a symbolic link'')) (\<lambda>_.
     bindE (raiseIf (\<not> is_file w p) (internal_error ''promotion evaluation policy is not a regular file'')) (\<lambda>_.
     file_sha256 (digest E) w p)))"

definition release_policy :: "env \<Rightarrow> world \<Rightarrow> json \<Rightarrow> json \<Rightarrow> json \<Rightarrow> path list \<Rightarrow> dict res" where
  "release_policy E w homeops_version source_revision image_digest cases =
     bindE (mapE (suite_digest E w) cases) (\<lambda>digests.
     Inr [(''schema_version'', JInt 1), (''homeops_version'', homeops_version), (''source_revision'', source_revision),
       (''image_digest'', image_digest), (''snapshot_schema_version'', JInt 1),
       (''snapshot_contract_version'', JStr ''homeops-snapshot-v1''), (''build_schema_version'', JInt 1),
       (''build_contract_version'', JStr ''homeops-build-v1''),
       (''evaluation_suite_sha256'', JList (map JStr (sort digests)))])"

definition policy_id :: "env \<Rightarrow> dict \<Rightarrow> string" where
  "policy_id E policy = sha256_json (digest E) (JObj policy)"

definition base_release_policy :: "dict \<Rightarrow> dict" where
  "base_release_policy policy = dput policy ''evaluation_suite_sha256'' (JList [])"

definition snapshot_fields :: "string list" where
  "snapshot_fields = [''snapshot_id'', ''source_fingerprint'', ''artifact_fingerprint'', ''logical_fingerprint'']"

definition snapshot_identity_of :: "dict \<Rightarrow> dict" where
  "snapshot_identity_of manifest = map (\<lambda>f. (f, dget manifest f)) snapshot_fields"

definition current_matches :: "dict \<Rightarrow> dict \<Rightarrow> json \<Rightarrow> json \<Rightarrow> json \<Rightarrow> json \<Rightarrow> json \<Rightarrow> bool" where
  "current_matches current manifest homeops_version source_revision image_digest deployment_id run_id \<longleftrightarrow>
     (deployment_id = JNull \<or> pyeq (dget current ''current_deployment_id'') deployment_id)
     \<and> (run_id = JNull \<or> pyeq (dget current ''run_id'') run_id)
     \<and> agree_on snapshot_fields current manifest
     \<and> pyeq (dget current ''homeops_version'') homeops_version
     \<and> pyeq (dget current ''source_revision'') source_revision
     \<and> pyeq (dget current ''image_digest'') image_digest
     \<and> dget current ''snapshot_contract_version'' = JStr ''homeops-snapshot-v1''
     \<and> dget current ''build_contract_version'' = JStr ''homeops-build-v1''"

section \<open>The pending attempt\<close>

definition policy_fields :: "string list" where
  "policy_fields =
    [''schema_version'', ''homeops_version'', ''source_revision'', ''image_digest'', ''snapshot_schema_version'',
     ''snapshot_contract_version'', ''build_schema_version'', ''build_contract_version'', ''evaluation_suite_sha256'']"

definition is_number :: "json \<Rightarrow> bool" where
  "is_number v = (case v of JInt i \<Rightarrow> True | JBool b \<Rightarrow> True | _ \<Rightarrow> False)"

text \<open>
  \<open>suites != sorted(set(suites)) or any(...)\<close>: a list or an object cannot be in a set, and of two
  different elements that are not both texts or both numbers one cannot be sorted.
\<close>

definition bad_suites :: "json list \<Rightarrow> bool res" where
  "bad_suites xs =
     (if list_ex (\<lambda>v. is_list v \<or> is_obj v) xs then Inl (TypeError ''unhashable type'')
      else if list_all is_str xs then
        Inr (map str_of xs \<noteq> sorted_set (map str_of xs) \<or> \<not> list_all is_sha_json xs)
      else if list_ex (\<lambda>v. \<not> pyeq v (hd xs)) xs \<and> \<not> list_all is_number xs then
        Inl (TypeError ''not supported between instances'')
      else Inr True)"

definition bad_policy :: "string \<Rightarrow> exn" where
  "bad_policy f = internal_error (''promotion policy '' @ f @ '' is invalid'')"

definition validate_policy :: "json \<Rightarrow> dict res" where
  "validate_policy policy =
     (let d = obj_of policy
      in bindE (raiseIf (\<not> is_obj policy \<or> \<not> same_fields d policy_fields)
           (internal_error ''promotion policy contract is invalid'')) (\<lambda>_.
         bindE (raiseIf (\<not> pyeq (dget d ''schema_version'') (JInt 1))
           (internal_error ''promotion policy schema is unsupported'')) (\<lambda>_.
         bindE (eachE (\<lambda>f. raiseIf (\<not> is_str (dget d f) \<or> \<not> truthy (dget d f)) (bad_policy f))
           [''homeops_version'', ''source_revision'', ''image_digest'', ''snapshot_contract_version'',
            ''build_contract_version'']) (\<lambda>_.
         bindE (eachE (\<lambda>f. raiseIf (\<not> positive_int (dget d f)) (bad_policy f))
           [''snapshot_schema_version'', ''build_schema_version'']) (\<lambda>_.
         bindE (case dget d ''evaluation_suite_sha256'' of JList xs \<Rightarrow> bad_suites xs | _ \<Rightarrow> Inr True) (\<lambda>bad.
         bindE (raiseIf bad (internal_error ''promotion evaluation policy is invalid'')) (\<lambda>_.
         Inr d)))))))"

definition attempt_phases :: "string list" where
  "attempt_phases =
    [''PREPARED'', ''SUBMITTING'', ''SUBMITTED'', ''COMMITTING'', ''COMMIT_REQUESTED'', ''TERMINAL'']"

definition attempt_fields :: "string list" where
  "attempt_fields =
    [''schema_version'', ''protocol'', ''phase'', ''request'', ''snapshot'', ''release_policy'', ''archive_sha256'',
     ''candidate_deployment_id'', ''promotion_policy_id'', ''created_at'', ''updated_at'', ''terminal_result'']"

definition check_attempt_schema :: "dict \<Rightarrow> unit res" where
  "check_attempt_schema d =
     bindE (if \<not> pyeq (dget d ''schema_version'') (JInt 1) \<or> dget d ''protocol'' \<noteq> JStr receiver_protocol then Inr False
            else in_strs (dget d ''phase'') attempt_phases) (\<lambda>ok.
     raiseIf (\<not> ok) (internal_error ''pending attempt schema is unsupported''))"

definition check_attempt_request :: "json \<Rightarrow> dict res" where
  "check_attempt_request request =
     bindE (raiseIf (\<not> is_obj request \<or> \<not> same_fields (obj_of request) request_fields)
       (internal_error ''pending request contract is invalid'')) (\<lambda>_.
     rewrap is_snapshot_error (\<lambda>e. internal_error (''pending request is invalid: '' @ exn_text e))
       (validate_request_message (map (\<lambda>f. (f, dget (obj_of request) f)) request_fields)))"

definition check_attempt_snapshot :: "json \<Rightarrow> dict \<Rightarrow> unit res" where
  "check_attempt_snapshot snapshot request =
     bindE (raiseIf (\<not> is_obj snapshot \<or> \<not> same_fields (obj_of snapshot) snapshot_fields)
       (internal_error ''pending snapshot identity is invalid'')) (\<lambda>_.
     bindE (eachE (\<lambda>f. raiseIf (\<not> is_sha_json (dget (obj_of snapshot) f))
       (internal_error (''pending snapshot '' @ f @ '' is invalid''))) snapshot_fields) (\<lambda>_.
     raiseIf (dget (obj_of snapshot) ''snapshot_id'' \<noteq> dget request ''snapshot_id'')
       (internal_error ''pending snapshot and request disagree'')))"

definition committing_phase :: "json \<Rightarrow> bool" where
  "committing_phase phase \<longleftrightarrow> phase = JStr ''COMMITTING'' \<or> phase = JStr ''COMMIT_REQUESTED''"

definition check_commit_identity :: "dict \<Rightarrow> unit res" where
  "check_commit_identity d =
     (let candidate = dget d ''candidate_deployment_id''; policy = dget d ''promotion_policy_id''
      in bindE (raiseIf (candidate \<noteq> JNull \<and> \<not> is_sha_json candidate)
           (internal_error ''pending candidate deployment is invalid'')) (\<lambda>_.
         bindE (raiseIf (committing_phase (dget d ''phase'') \<and> candidate = JNull)
           (internal_error ''pending commit lacks a candidate deployment'')) (\<lambda>_.
         bindE (raiseIf (policy \<noteq> JNull \<and> \<not> is_sha_json policy)
           (internal_error ''pending promotion policy is invalid'')) (\<lambda>_.
         raiseIf (committing_phase (dget d ''phase'') \<and> policy = JNull)
           (internal_error ''pending commit lacks promotion policy identity'')))))"

definition check_terminal :: "dict \<Rightarrow> unit res" where
  "check_terminal d =
     (let terminal = dget d ''terminal_result''
      in if dget d ''phase'' = JStr ''TERMINAL'' then
           bindE (if is_obj terminal then in_strs (dget (obj_of terminal) ''outcome'') pipeline_outcomes else Inr False) (\<lambda>ok.
           raiseIf (\<not> ok) (internal_error ''pending terminal result is invalid''))
         else raiseIf (terminal \<noteq> JNull) (internal_error ''nonterminal attempt contains a terminal result''))"

definition validate_pending_attempt :: "env \<Rightarrow> json \<Rightarrow> dict res" where
  "validate_pending_attempt E value =
     (let d = obj_of value
      in bindE (raiseIf (\<not> is_obj value \<or> \<not> same_fields d attempt_fields)
           (internal_error ''pending attempt contract is invalid'')) (\<lambda>_.
         bindE (check_attempt_schema d) (\<lambda>_.
         bindE (check_attempt_request (dget d ''request'')) (\<lambda>request.
         bindE (check_attempt_snapshot (dget d ''snapshot'') request) (\<lambda>_.
         bindE (validate_policy (dget d ''release_policy'')) (\<lambda>policy.
         bindE (raiseIf (dget request ''release_policy_id'' \<noteq> JStr (policy_id E policy))
           (internal_error ''pending request and release policy disagree'')) (\<lambda>_.
         bindE (raiseIf (\<not> is_sha_json (dget d ''archive_sha256''))
           (internal_error ''pending archive digest is invalid'')) (\<lambda>_.
         bindE (check_commit_identity d) (\<lambda>_.
         bindE (eachE (\<lambda>f. raiseIf (\<not> is_str (dget d f) \<or> \<not> truthy (dget d f))
           (internal_error (''pending attempt '' @ f @ '' is invalid''))) [''created_at'', ''updated_at'']) (\<lambda>_.
         bindE (check_terminal d) (\<lambda>_.
         Inr (dput (dput (dput (dput d ''request'' (JObj request)) ''snapshot'' (dget d ''snapshot''))
             ''release_policy'' (JObj policy)) ''terminal_result''
             (if dget d ''terminal_result'' = JNull then JNull else redact (dget d ''terminal_result''))))))))))))))"

section \<open>Its files\<close>

definition pending_path :: "path \<Rightarrow> path" where
  "pending_path state_dir = state_dir @ [''pending-attempt.json'']"

definition archive_path :: "path \<Rightarrow> path" where
  "archive_path state_dir = state_dir @ [''pending-submission.tar'']"

definition last_result_path :: "path \<Rightarrow> path" where
  "last_result_path state_dir = state_dir @ [''last-result.json'']"

definition write_last_result :: "path \<Rightarrow> dict \<Rightarrow> unit wprog" where
  "write_last_result state_dir result = durable_atomic_json (last_result_path state_dir) (JObj (redact_result result))"

definition write_pending_attempt :: "env \<Rightarrow> path \<Rightarrow> dict \<Rightarrow> dict wprog" where
  "write_pending_attempt E state_dir d =
     bindM (liftM (validate_pending_attempt E (JObj d))) (\<lambda>checked.
     bindM (make_dirs state_dir) (\<lambda>_.
     bindM (durable_atomic_json (pending_path state_dir) (JObj checked)) (\<lambda>_.
     retM checked)))"

definition archive_intact :: "env \<Rightarrow> world \<Rightarrow> path \<Rightarrow> dict \<Rightarrow> bool" where
  "archive_intact E w state_dir checked \<longleftrightarrow>
     is_file w (archive_path state_dir) \<and> \<not> is_symlink w (archive_path state_dir)
     \<and> file_sha256 (digest E) w (archive_path state_dir) = Inr (str_of (dget checked ''archive_sha256''))"

definition load_pending_attempt :: "env \<Rightarrow> world \<Rightarrow> path \<Rightarrow> dict option res" where
  "load_pending_attempt E w state_dir =
     (let p = pending_path state_dir
      in if \<not> exists_path w p then Inr None
         else bindE (raiseIf (is_symlink w p) (internal_error ''pending attempt permissions are not private'')) (\<lambda>_.
           bindE (rewrap (\<lambda>e. is_os_error e \<or> is_deployment_error e)
             (\<lambda>e. internal_error (''pending attempt cannot be read: '' @ exn_text e)) (read_document w p)) (\<lambda>parsed.
           bindE (validate_pending_attempt E parsed) (\<lambda>checked.
           bindE (raiseIf (dget checked ''phase'' \<noteq> JStr ''TERMINAL'' \<and> \<not> archive_intact E w state_dir checked)
             (internal_error ''pending submission archive is missing or invalid'')) (\<lambda>_.
           Inr (Some checked))))))"

text \<open>The archive is copied beside its final name and renamed, which is one step here.\<close>

definition persist_pending_archive :: "env \<Rightarrow> path \<Rightarrow> path \<Rightarrow> string wprog" where
  "persist_pending_archive E state_dir archive =
     bindM (make_dirs state_dir) (\<lambda>_.
     bindM (askM (\<lambda>w. read_bytes w archive)) (\<lambda>c.
     bindM (put_file (archive_path state_dir) c) (\<lambda>_.
     bindM (fsync_path state_dir) (\<lambda>_.
     askM (\<lambda>w. file_sha256 (digest E) w (archive_path state_dir))))))"

definition update_pending_attempt :: "env \<Rightarrow> path \<Rightarrow> dict \<Rightarrow> dict \<Rightarrow> dict wprog" where
  "update_pending_attempt E state_dir d changes =
     bindM utc_now (\<lambda>now.
     write_pending_attempt E state_dir (dput (dmerge d changes) ''updated_at'' (JStr now)))"

definition retire_pending_attempt :: "path \<Rightarrow> unit wprog" where
  "retire_pending_attempt state_dir =
     bindM (unlink_quietly (archive_path state_dir)) (\<lambda>_.
     bindM (unlink_quietly (pending_path state_dir)) (\<lambda>_.
     fsync_path state_dir))"

definition resolve_pending_attempt :: "env \<Rightarrow> path \<Rightarrow> dict \<Rightarrow> dict \<Rightarrow> dict wprog" where
  "resolve_pending_attempt E state_dir d result =
     bindM (update_pending_attempt E state_dir d
       [(''phase'', JStr ''TERMINAL''), (''terminal_result'', JObj (redact_result result))]) (\<lambda>terminal.
     bindM (write_last_result state_dir (redact_result result)) (\<lambda>_.
     bindM (retire_pending_attempt state_dir) (\<lambda>_.
     retM (obj_of (dget terminal ''terminal_result'')))))"

definition pending_failure :: "path \<Rightarrow> dict \<Rightarrow> dict wprog" where
  "pending_failure state_dir result =
     bindM (write_last_result state_dir (redact_result result)) (\<lambda>_. retM (redact_result result))"

definition terminal_matches_attempt :: "dict \<Rightarrow> dict \<Rightarrow> bool" where
  "terminal_matches_attempt terminal d \<longleftrightarrow>
     (let request = obj_of (dget d ''request'')
      in pyeq (dget terminal ''snapshot_id'') (dget (obj_of (dget d ''snapshot'')) ''snapshot_id'')
         \<and> (dget d ''candidate_deployment_id'' = JNull
            \<or> pyeq (dget terminal ''candidate_deployment_id'') (dget d ''candidate_deployment_id''))
         \<and> pyeq (dget terminal ''expected_current_deployment_id'') (dget request ''expected_current_deployment_id'')
         \<and> pyeq (dget terminal ''release_policy_id'') (dget request ''release_policy_id'')
         \<and> (dget d ''promotion_policy_id'' = JNull
            \<or> pyeq (dget terminal ''promotion_policy_id'') (dget d ''promotion_policy_id'')))"

end
