(* ===== verification/Publisher.thy ===== *)
theory Publisher
  imports Attempts
begin

text \<open>
  \<open>pipeline.py\<close>, the workstation coordinator: the export of a candidate, the transport to the
  receiver, the attempt that is resumed phase by phase until it is resolved, and \<open>reconcile\<close>.

  A site is the workstation (its files and its clock), everything else that can change meanwhile
  (the receiver, the people who edit the vault) as a state of an arbitrary type, and the monotonic
  clock in units of 1/128 of a second, in which every delay of the polling loop is a whole number.
  \<open>surroundings\<close> are the programs around: the ssh client, the editors of the vault, the generators of
  identifiers, the tar encoder. They are arbitrary, so a statement about them all is one about every
  answer of the receiver and every interleaving of edits with inspections.
\<close>

section \<open>Site\<close>

datatype ssh_reply = Unstarted string | Exited int string string

record 'r surroundings =
  env_of :: env
  package_version :: json
  ssh :: "string \<Rightarrow> string \<Rightarrow> 'r \<Rightarrow> ssh_reply \<times> nat \<times> 'r"
  hang_up :: "'r \<Rightarrow> exn option \<times> 'r"
  drift :: "'r \<Rightarrow> world \<Rightarrow> world \<times> 'r"
  new_uuid :: "nat \<Rightarrow> string"
  new_token :: "nat \<Rightarrow> string"
  tar_bytes :: "(string \<times> string) list \<Rightarrow> string"
  control_dir :: path
  temp_dir :: path

record 'r site =
  home :: world
  far :: 'r
  moment :: nat

type_synonym ('r, 'a) sprog = "('r site, exn, 'a) prog"

definition at_home :: "'a wprog \<Rightarrow> ('r, 'a) sprog" where
  "at_home m s = (case m (home s) of (r, w) \<Rightarrow> (r, s\<lparr>home := w\<rparr>))"

definition edited :: "'r surroundings \<Rightarrow> ('r, unit) sprog" where
  "edited G s = (case drift G (far s) (home s) of (w, r) \<Rightarrow> (Inr (), s\<lparr>home := w, far := r\<rparr>))"

text \<open>\<open>inspect_vault\<close>, after whatever the editors have done by then.\<close>

definition look :: "'r surroundings \<Rightarrow> path \<Rightarrow> ('r, dict) sprog" where
  "look G vault = bindM (edited G) (\<lambda>_. at_home (askM (\<lambda>w. inspect_vault (env_of G) w vault)))"

section \<open>The candidate\<close>

definition export_candidate :: "'r surroundings \<Rightarrow> path \<Rightarrow> path \<Rightarrow> json \<Rightarrow> ('r, dict \<times> dict) sprog" where
  "export_candidate G vault destination source_revision =
     bindM (look G vault) (\<lambda>before.
     bindM (liftM (vault_errors before)) (\<lambda>bad.
     bindM (liftM (raiseIf bad (PipelineError ''LOCAL_VAULT_INVALID'' ''local vault validation failed'' False))) (\<lambda>_.
     bindM (edited G) (\<lambda>_.
     bindM (at_home (bindM (draw (new_uuid G)) (\<lambda>u. export_snapshot u vault destination))) (\<lambda>_.
     bindM (look G destination) (\<lambda>candidate.
     bindM (liftM (vault_errors candidate)) (\<lambda>bad.
     bindM (liftM (raiseIf bad (PipelineError ''LOCAL_VAULT_INVALID'' ''exported candidate validation failed'' False))) (\<lambda>_.
     bindM (look G vault) (\<lambda>after.
     bindM (liftM (vault_errors after)) (\<lambda>bad.
     bindM (liftM (raiseIf (bad \<or> \<not> (same_fingerprints before candidate \<and> same_fingerprints candidate after))
       (PipelineError ''LOCAL_SOURCE_CHANGED'' ''vault changed during immutable candidate export'' True))) (\<lambda>_.
     bindM (at_home utc_now) (\<lambda>now.
     bindM (at_home (askM (\<lambda>w. create_snapshot_manifest (digest (env_of G)) w destination candidate (JStr now)
       (package_version G) source_revision))) (\<lambda>manifest.
     bindM (at_home (askM (\<lambda>w. verify_snapshot (digest (env_of G)) (Some (inspect_vault (env_of G))) w destination
       (JObj manifest)))) (\<lambda>_.
     retM (manifest, before)))))))))))))))"

section \<open>The transport\<close>

definition validate_receiver_envelope :: "json \<Rightarrow> dict res" where
  "validate_receiver_envelope response =
     (let d = obj_of response
      in bindE (raiseIf (\<not> is_obj response) (TransportError ''receiver response must be an object'')) (\<lambda>_.
         bindE (raiseIf (\<not> pyeq (dget d ''schema_version'') (JInt 1))
           (TransportError ''receiver response has unsupported schema version'')) (\<lambda>_.
         bindE (raiseIf (dget d ''protocol'' \<noteq> JStr receiver_protocol)
           (TransportError ''receiver response has unsupported protocol'')) (\<lambda>_.
         bindE (raiseIf (\<not> is_str (dget d ''outcome'') \<or> \<not> truthy (dget d ''outcome''))
           (TransportError ''receiver response lacks an outcome'')) (\<lambda>_.
         bindE (raiseIf (dhas d ''retryable'' \<and> \<not> is_bool (dget d ''retryable''))
           (TransportError ''receiver retryable flag is invalid'')) (\<lambda>_.
         Inr d))))))"

text \<open>The text of a \<open>ReceiverRejected\<close>; a message that is no text is outside the model.\<close>

definition rejected_text :: "dict \<Rightarrow> string res" where
  "rejected_text d =
     (let head = ''receiver rejected request: '' @ str_of (dget d ''outcome'')
      in if \<not> truthy (dget d ''message'') then Inr head
         else if is_str (dget d ''message'') then Inr (head @ '': '' @ str_of (dget d ''message''))
         else Inl (Unmodelled ''text of a JSON value''))"

definition mapped_outcome :: "string \<Rightarrow> bool \<Rightarrow> string" where
  "mapped_outcome outcome retryable =
     (if outcome = ''NOT_FOUND'' then ''AUTHORIZATION_FAILED''
      else if outcome \<in> {''COMMIT_MISMATCH'', ''COMMIT_CONFLICT''} then ''PROMOTION_CONFLICT''
      else if outcome \<in> {''PROTOCOL_REJECTED'', ''INVALID_REQUEST'', ''REQUEST_ID_CONFLICT'',
          ''ARCHIVE_LIMIT_EXCEEDED'', ''ARCHIVE_INVALID''} then ''TRANSFER_FAILED''
      else if outcome = ''COMMIT_NOT_READY'' then ''TIMEOUT''
      else if outcome = ''INTERNAL_ERROR'' then (if retryable then ''HOMEOPS_UNAVAILABLE'' else ''INTERNAL_ERROR'')
      else ''INTERNAL_ERROR'')"

definition pipeline_error_from_receiver :: "dict \<Rightarrow> exn res" where
  "pipeline_error_from_receiver d =
     (let outcome = str_of (dget d ''outcome''); retryable = truthy (dget d ''retryable'')
      in bindE (rejected_text d) (\<lambda>m. Inr (PipelineError (mapped_outcome outcome retryable) m retryable)))"

text \<open>\<open>splitlines()\<close>.\<close>

definition bare_line :: "string \<Rightarrow> string" where
  "bare_line l =
     (if l = [] then []
      else if 2 \<le> length l \<and> drop (length l - 2) l = [CHR 0x0D, CHR 0x0A] then butlast (butlast l)
      else if line_end (last l) then butlast l else l)"

definition rejection :: "string list \<Rightarrow> dict option res" where
  "rejection lines =
     (if length lines \<noteq> 1 then Inr None
      else (case strict_json_loads (hd lines) of
          Inl e \<Rightarrow> if is_deployment_error e then Inr None else Inl e
        | Inr v \<Rightarrow> bindE (validate_receiver_envelope v) (\<lambda>d. Inr (Some d))))"

definition receiver_response :: "ssh_reply \<Rightarrow> dict res" where
  "receiver_response reply =
     (case reply of
        Unstarted m \<Rightarrow> Inl (TransportError m)
      | Exited code out err \<Rightarrow>
          bindE (utf8_decode out) (\<lambda>t.
          (let lines = map bare_line (split_lines t)
           in if code \<noteq> 0 then
                bindE (rejection lines) (\<lambda>r.
                case r of
                  Some d \<Rightarrow> bindE (rejected_text d) (\<lambda>_. Inl (ReceiverRejected (JObj d)))
                | None \<Rightarrow>
                    bindE (utf8_decode err) (\<lambda>e.
                    (let diagnostic = strip (take 300 e)
                     in Inl (TransportError (''receiver exited '' @ int_dec code
                       @ (if diagnostic = [] then [] else '': '' @ diagnostic))))))
              else
                bindE (raiseIf (length lines \<noteq> 1)
                  (TransportError ''receiver did not return exactly one JSON line'')) (\<lambda>_.
                bindE (rewrap is_deployment_error (\<lambda>_. TransportError ''receiver returned invalid JSON'')
                  (strict_json_loads (hd lines))) validate_receiver_envelope))))"

definition receiver_verbs :: "string list" where
  "receiver_verbs = [''submit'', ''status'', ''commit'', ''current'']"

definition ask_receiver :: "'r surroundings \<Rightarrow> string \<Rightarrow> string \<Rightarrow> ('r, ssh_reply) sprog" where
  "ask_receiver G verb body s =
     (case ssh G verb body (far s) of (reply, duration, r) \<Rightarrow>
        (Inr reply, s\<lparr>far := r, moment := moment s + duration\<rparr>))"

definition call :: "'r surroundings \<Rightarrow> string \<Rightarrow> string \<Rightarrow> ('r, dict) sprog" where
  "call G verb body =
     bindM (liftM (raiseIf (verb \<notin> set receiver_verbs) (TransportError ''unsupported receiver verb''))) (\<lambda>_.
     bindM (at_home (make_dirs (control_dir G))) (\<lambda>_.
     bindM (ask_receiver G verb body) (\<lambda>reply.
     liftM (receiver_response reply))))"

definition close_transport :: "'r surroundings \<Rightarrow> ('r, unit) sprog" where
  "close_transport G s =
     (case hang_up G (far s) of (e, r) \<Rightarrow>
        ((case e of None \<Rightarrow> Inr () | Some x \<Rightarrow> Inl x), s\<lparr>far := r\<rparr>))"

definition current_fields :: "string list" where
  "current_fields =
    [''schema_version'', ''current_deployment_id'', ''snapshot_id'', ''run_id'', ''source_fingerprint'',
     ''artifact_fingerprint'', ''logical_fingerprint'', ''homeops_version'', ''source_revision'', ''image_digest'',
     ''snapshot_contract_version'', ''build_contract_version'', ''promoted_at'']"

definition check_current :: "dict \<Rightarrow> dict res" where
  "check_current response =
     (let current = obj_of (dget response ''current'')
      in bindE (raiseIf (dkeys response \<noteq> [''schema_version'', ''protocol'', ''outcome'', ''current'']
             \<or> dget response ''outcome'' \<noteq> JStr ''CURRENT'' \<or> \<not> is_obj (dget response ''current''))
           (TransportError ''receiver returned an invalid current envelope'')) (\<lambda>_.
         bindE (raiseIf (dkeys current \<noteq> current_fields \<or> \<not> pyeq (dget current ''schema_version'') (JInt 2))
           (TransportError ''receiver returned an invalid current deployment schema'')) (\<lambda>_.
         bindE (eachE (\<lambda>f. raiseIf (\<not> (dget current f = JStr [] \<or> is_sha_json (dget current f)))
             (TransportError (''receiver current '' @ f @ '' is invalid'')))
           [''current_deployment_id'', ''snapshot_id'', ''source_fingerprint'', ''artifact_fingerprint'',
            ''logical_fingerprint'']) (\<lambda>_.
         bindE (raiseIf (\<not> list_all (\<lambda>f. is_str (dget current f))
             [''run_id'', ''homeops_version'', ''source_revision'', ''image_digest'', ''snapshot_contract_version'',
              ''build_contract_version'', ''promoted_at''])
           (TransportError ''receiver current metadata is invalid'')) (\<lambda>_.
         Inr current)))))"

definition current :: "'r surroundings \<Rightarrow> ('r, dict) sprog" where
  "current G = bindM (call G ''current'' []) (\<lambda>response. liftM (check_current response))"

definition status_body :: "dict \<Rightarrow> string" where
  "status_body request = receiver_json_bytes (JObj
     [(''schema_version'', JInt 1), (''protocol'', JStr receiver_protocol), (''request_id'', dget request ''request_id''),
      (''publisher_id'', dget request ''publisher_id''), (''capability_token'', dget request ''capability_token'')])"

definition commit_body :: "dict \<Rightarrow> json \<Rightarrow> string" where
  "commit_body request deployment_id = receiver_json_bytes (JObj
     [(''schema_version'', JInt 1), (''protocol'', JStr receiver_protocol), (''request_id'', dget request ''request_id''),
      (''publisher_id'', dget request ''publisher_id''), (''capability_token'', dget request ''capability_token''),
      (''candidate_deployment_id'', deployment_id),
      (''expected_current_deployment_id'', dget request ''expected_current_deployment_id'')])"

section \<open>Polling\<close>

text \<open>One answer: a result to return, or nothing yet.\<close>

definition judge_status :: "dict \<Rightarrow> bool \<Rightarrow> dict \<Rightarrow> dict option res" where
  "judge_status request terminal_only response =
     (let result = obj_of (dget response ''result'')
      in bindE (raiseIf (\<not> pyeq (dget response ''request_id'') (dget request ''request_id''))
           (TransportError ''receiver status does not match request'')) (\<lambda>_.
         bindE (raiseIf (\<not> is_bool (dget response ''commit_accepted''))
           (TransportError ''receiver status lacks commit acceptance state'')) (\<lambda>_.
         if dget response ''outcome'' = JStr ''RESULT'' \<and> is_obj (dget response ''result'') then
           bindE (raiseIf (\<not> pyeq (dget result ''schema_version'') (JInt 1)
               \<or> dget result ''protocol'' \<noteq> JStr receiver_protocol
               \<or> \<not> pyeq (dget result ''request_id'') (dget request ''request_id'')
               \<or> \<not> pyeq (dget result ''publisher_id'') (dget request ''publisher_id'')
               \<or> \<not> is_str (dget result ''outcome'') \<or> \<not> is_bool (dget result ''retryable''))
             (TransportError ''receiver result does not match request'')) (\<lambda>_.
           Inr (if \<not> terminal_only \<or> str_of (dget result ''outcome'') \<in> set pipeline_outcomes
             then Some (dput result ''_commit_accepted'' (dget response ''commit_accepted'')) else None))
         else bindE (raiseIf (dget response ''outcome'' \<noteq> JStr ''PENDING'')
             (TransportError ''receiver returned an invalid status envelope'')) (\<lambda>_. Inr None))))"

definition poll_once :: "'r surroundings \<Rightarrow> dict \<Rightarrow> bool \<Rightarrow> ('r, dict option) sprog" where
  "poll_once G request terminal_only =
     bindM (call G ''status'' (status_body request)) (\<lambda>response. liftM (judge_status request terminal_only response))"

text \<open>Half a second first, then half as much again each time, at most five seconds.\<close>

fun delay_of :: "nat \<Rightarrow> nat" where
  "delay_of 0 = 64"
| "delay_of (Suc n) = min (delay_of n * 3 div 2) 640"

definition pause :: "nat \<Rightarrow> 'r site \<Rightarrow> 'r site" where
  "pause d s = s\<lparr>moment := moment s + d\<rparr>"

lemma delay_range: "64 \<le> delay_of n" "delay_of n \<le> 640"
  by (induction n) auto

text \<open>Time only passes.\<close>

definition later :: "'r site \<Rightarrow> 'r site \<Rightarrow> bool" where
  "later s t \<longleftrightarrow> moment s \<le> moment t"

interpretation later: step_preorder later
  by unfold_locales (auto simp: later_def)

lemma later_home: "keeps later (at_home m)"
  by (rule keepsI) (auto simp: at_home_def later_def split: prod.splits)

lemma later_ask: "keeps later (ask_receiver G verb body)"
  by (rule keepsI) (auto simp: ask_receiver_def later_def split: prod.splits)

lemma later_poll_once: "keeps later (poll_once G request only)"
  unfolding poll_once_def call_def by (intro later.keeps_intros later_home later_ask)

function poll ::
  "'r surroundings \<Rightarrow> dict \<Rightarrow> nat \<Rightarrow> bool \<Rightarrow> nat \<Rightarrow> 'r site \<Rightarrow> (exn + dict) \<times> 'r site" where
  "poll G request deadline terminal_only n s =
     (if deadline \<le> moment s then
        (Inl (PipelineError ''TIMEOUT'' ''remote pipeline status timed out'' True), s)
      else (case poll_once G request terminal_only s of
          (Inl e, t) \<Rightarrow> (Inl e, t)
        | (Inr (Some result), t) \<Rightarrow> (Inr result, t)
        | (Inr None, t) \<Rightarrow> poll G request deadline terminal_only (Suc n) (pause (delay_of n) t)))"
  by pat_completeness auto

termination
proof (relation "measure (\<lambda>(G, request, deadline, only, n, s). deadline - moment s)", goal_cases)
  case (2 G request deadline only n s x t y)
  have "later s t" by (rule keepsD [OF later_poll_once 2(2) [symmetric]])
  then have "moment s \<le> moment t" by (simp add: later_def)
  with 2(1) delay_range(1) [of n] show ?case by (simp add: pause_def)
qed simp

declare poll.simps [simp del]

section \<open>Resuming an attempt\<close>

definition source_matches_pending :: "'r surroundings \<Rightarrow> path \<Rightarrow> dict \<Rightarrow> ('r, bool) sprog" where
  "source_matches_pending G vault d =
     bindM (look G vault) (\<lambda>inspected.
     bindM (liftM (vault_errors inspected)) (\<lambda>bad.
     retM (\<not> bad \<and> same_fingerprints inspected (obj_of (dget d ''snapshot'')))))"

definition policy_current :: "dict \<Rightarrow> dict \<Rightarrow> bool" where
  "policy_current d policy \<longleftrightarrow> pyeq (dget d ''release_policy'') (JObj policy)"

text \<open>\<open>policy matches and source matches\<close>: the vault is inspected only for the right policy.\<close>

definition still_authorized :: "'r surroundings \<Rightarrow> path \<Rightarrow> dict \<Rightarrow> dict \<Rightarrow> ('r, bool) sprog" where
  "still_authorized G vault d policy =
     (if policy_current d policy then source_matches_pending G vault d else retM False)"

definition validate_remote_terminal :: "'r surroundings \<Rightarrow> dict \<Rightarrow> dict \<Rightarrow> ('r, unit) sprog" where
  "validate_remote_terminal G d terminal =
     (if str_of (dget terminal ''outcome'') \<notin> {''PROMOTED'', ''UNCHANGED''} then retM ()
      else
        bindM (liftM (raiseIf (\<not> terminal_matches_attempt terminal d)
          (PipelineError ''POST_PROMOTION_MISMATCH'' ''remote terminal result disagrees with pending attempt'' False))) (\<lambda>_.
        bindM (current G) (\<lambda>now.
        (let policy = obj_of (dget d ''release_policy'')
         in liftM (raiseIf (\<not> current_matches now (obj_of (dget d ''snapshot'')) (dget policy ''homeops_version'')
              (dget policy ''source_revision'') (dget policy ''image_digest'') (dget terminal ''candidate_deployment_id'')
              (dget terminal ''run_id''))
            (PipelineError ''POST_PROMOTION_MISMATCH'' ''selected deployment does not exactly match pending attempt'' False))))))"

definition resolve :: "'r surroundings \<Rightarrow> path \<Rightarrow> dict \<Rightarrow> dict \<Rightarrow> ('r, dict) sprog" where
  "resolve G state_dir d result = at_home (resolve_pending_attempt (env_of G) state_dir d result)"

definition advance :: "'r surroundings \<Rightarrow> path \<Rightarrow> dict \<Rightarrow> dict \<Rightarrow> ('r, dict) sprog" where
  "advance G state_dir d changes = at_home (update_pending_attempt (env_of G) state_dir d changes)"

definition request_of :: "dict \<Rightarrow> dict" where
  "request_of d = obj_of (dget d ''request'')"

definition resolve_changed :: "'r surroundings \<Rightarrow> path \<Rightarrow> dict \<Rightarrow> string \<Rightarrow> ('r, dict) sprog" where
  "resolve_changed G state_dir d diagnostic =
     bindM (at_home (result_with ''LOCAL_SOURCE_CHANGED''
       [(''request_id'', dget (request_of d) ''request_id''), (''publisher_id'', dget (request_of d) ''publisher_id''),
        (''snapshot_id'', dget (obj_of (dget d ''snapshot'')) ''snapshot_id''), (''retryable'', JBool True),
        (''diagnostic'', JStr diagnostic)])) (\<lambda>result.
     resolve G state_dir d result)"

definition in_phase :: "dict \<Rightarrow> string list \<Rightarrow> bool" where
  "in_phase d phases \<longleftrightarrow> str_of (dget d ''phase'') \<in> set phases"

definition is_terminal :: "dict \<Rightarrow> bool" where
  "is_terminal result \<longleftrightarrow> str_of (dget result ''outcome'') \<in> set pipeline_outcomes"

text \<open>\<open>PREPARED\<close> and \<open>SUBMITTING\<close>: send the archive.\<close>

definition submit_attempt :: "'r surroundings \<Rightarrow> path \<Rightarrow> dict \<Rightarrow> ('r, dict) sprog" where
  "submit_attempt G state_dir d =
     (if \<not> in_phase d [''PREPARED'', ''SUBMITTING''] then retM d
      else
        bindM (advance G state_dir d [(''phase'', JStr ''SUBMITTING'')]) (\<lambda>d.
        bindM (at_home (askM (\<lambda>w. read_bytes w (archive_path state_dir)))) (\<lambda>archive.
        bindM (call G ''submit'' archive) (\<lambda>accepted.
        bindM (liftM (raiseIf (dget accepted ''outcome'' \<noteq> JStr ''ACCEPTED''
            \<or> \<not> pyeq (dget accepted ''request_id'') (dget (request_of d) ''request_id'')
            \<or> \<not> pyeq (dget accepted ''archive_sha256'') (dget d ''archive_sha256''))
          (TransportError ''receiver did not accept pending submission''))) (\<lambda>_.
        advance G state_dir d [(''phase'', JStr ''SUBMITTED'')])))))"

text \<open>The phases between return the result of a resolved attempt (\<open>Inl\<close>) or the attempt to go on with.\<close>

definition check_candidate :: "dict \<Rightarrow> dict \<Rightarrow> unit res" where
  "check_candidate d ready =
     bindE (raiseIf (dget ready ''outcome'' \<noteq> JStr ''CANDIDATE_READY'')
       (TransportError ''remote processor returned an invalid candidate result'')) (\<lambda>_.
     bindE (raiseIf (\<not> is_str (dget ready ''candidate_deployment_id''))
       (TransportError ''candidate result lacks deployment ID'')) (\<lambda>_.
     raiseIf (\<not> pyeq (dget ready ''release_policy_id'') (dget (request_of d) ''release_policy_id'')
         \<or> \<not> is_sha_json (dget ready ''promotion_policy_id''))
       (TransportError ''candidate result has invalid release policy identity'')))"

definition await_candidate :: "'r surroundings \<Rightarrow> path \<Rightarrow> path \<Rightarrow> nat \<Rightarrow> dict \<Rightarrow> ('r, dict + dict) sprog" where
  "await_candidate G vault state_dir deadline d =
     (if \<not> in_phase d [''SUBMITTED''] then retM (Inr d)
      else
        bindM (poll G (request_of d) deadline False 0) (\<lambda>ready.
        if is_terminal ready then
          bindM (validate_remote_terminal G d ready) (\<lambda>_.
          bindM (resolve G state_dir d ready) (\<lambda>r. retM (Inl r)))
        else
          bindM (liftM (check_candidate d ready)) (\<lambda>_.
          bindM (source_matches_pending G vault d) (\<lambda>same.
          if \<not> same then
            bindM (resolve_changed G state_dir d ''local source changed before commit authorization'') (\<lambda>r. retM (Inl r))
          else
            bindM (advance G state_dir d [(''phase'', JStr ''COMMITTING''),
              (''candidate_deployment_id'', dget ready ''candidate_deployment_id''),
              (''promotion_policy_id'', dget ready ''promotion_policy_id'')]) (\<lambda>d. retM (Inr d))))))"

text \<open>A promotion that is seen after the source has moved is reported as such.\<close>

definition moved_result :: "dict \<Rightarrow> dict" where
  "moved_result result = dmerge result [(''outcome'', JStr ''PROMOTED_SOURCE_MOVED''), (''retryable'', JBool True)]"

definition await_authorization ::
  "'r surroundings \<Rightarrow> path \<Rightarrow> path \<Rightarrow> nat \<Rightarrow> dict \<Rightarrow> dict \<Rightarrow> ('r, dict + dict) sprog" where
  "await_authorization G vault state_dir deadline policy d =
     (if \<not> in_phase d [''COMMITTING''] then retM (Inr d)
      else
        bindM (poll G (request_of d) deadline False 0) (\<lambda>status.
        if is_terminal status then
          bindM (validate_remote_terminal G d status) (\<lambda>_.
          bindM (if dget status ''outcome'' = JStr ''PROMOTED'' then still_authorized G vault d policy else retM True) (\<lambda>same.
          bindM (resolve G state_dir d (if same then status else moved_result status)) (\<lambda>r. retM (Inl r))))
        else
          bindM (liftM (raiseIf (dget status ''outcome'' \<noteq> JStr ''CANDIDATE_READY'')
            (TransportError ''remote processor returned an invalid pending status''))) (\<lambda>_.
          if dget status ''_commit_accepted'' = JBool True then
            bindM (advance G state_dir d [(''phase'', JStr ''COMMIT_REQUESTED'')]) (\<lambda>d. retM (Inr d))
          else
            bindM (still_authorized G vault d policy) (\<lambda>same.
            if same then retM (Inr d)
            else bindM (resolve_changed G state_dir d ''pending commit authorization is no longer current'')
              (\<lambda>r. retM (Inl r))))))"

definition send_commit :: "'r surroundings \<Rightarrow> path \<Rightarrow> dict \<Rightarrow> ('r, dict) sprog" where
  "send_commit G state_dir d =
     (if \<not> in_phase d [''COMMITTING''] then retM d
      else
        bindM (call G ''commit'' (commit_body (request_of d) (dget d ''candidate_deployment_id''))) (\<lambda>committed.
        bindM (liftM (raiseIf (dget committed ''outcome'' \<noteq> JStr ''COMMIT_ACCEPTED''
            \<or> \<not> pyeq (dget committed ''request_id'') (dget (request_of d) ''request_id''))
          (TransportError ''receiver did not accept pending commit''))) (\<lambda>_.
        advance G state_dir d [(''phase'', JStr ''COMMIT_REQUESTED'')])))"

definition await_terminal :: "'r surroundings \<Rightarrow> path \<Rightarrow> path \<Rightarrow> nat \<Rightarrow> dict \<Rightarrow> ('r, dict) sprog" where
  "await_terminal G vault state_dir deadline d =
     bindM (poll G (request_of d) deadline True 0) (\<lambda>terminal.
     bindM (liftM (raiseIf (\<not> is_terminal terminal)
       (TransportError ''remote processor did not return a terminal result''))) (\<lambda>_.
     bindM (validate_remote_terminal G d terminal) (\<lambda>_.
     bindM (if dget terminal ''outcome'' = JStr ''PROMOTED'' then source_matches_pending G vault d else retM True) (\<lambda>same.
     resolve G state_dir d (if same then terminal else moved_result terminal)))))"

definition proceed :: "(dict + dict) \<Rightarrow> (dict \<Rightarrow> ('r, dict) sprog) \<Rightarrow> ('r, dict) sprog" where
  "proceed step f = (case step of Inl r \<Rightarrow> retM r | Inr d \<Rightarrow> f d)"

definition resume_from ::
  "'r surroundings \<Rightarrow> path \<Rightarrow> path \<Rightarrow> nat \<Rightarrow> dict \<Rightarrow> dict \<Rightarrow> ('r, dict) sprog" where
  "resume_from G vault state_dir deadline policy d =
     bindM (submit_attempt G state_dir d) (\<lambda>d.
     bindM (await_candidate G vault state_dir deadline d) (\<lambda>step. proceed step (\<lambda>d.
     bindM (await_authorization G vault state_dir deadline policy d) (\<lambda>step. proceed step (\<lambda>d.
     bindM (send_commit G state_dir d) (\<lambda>d.
     await_terminal G vault state_dir deadline d))))))"

definition resume_pending_attempt ::
  "'r surroundings \<Rightarrow> path \<Rightarrow> path \<Rightarrow> dict \<Rightarrow> dict \<Rightarrow> nat \<Rightarrow> ('r, dict) sprog" where
  "resume_pending_attempt G vault state_dir d policy timeout =
     bindM (liftM (validate_publisher_id (dget (request_of d) ''publisher_id''))) (\<lambda>_.
     if in_phase d [''TERMINAL''] then resolve G state_dir d (obj_of (dget d ''terminal_result''))
     else
       bindM (getsM (\<lambda>s. moment s + 128 * timeout)) (\<lambda>deadline.
       bindM (source_matches_pending G vault d) (\<lambda>same.
       if \<not> (policy_current d policy \<and> same) \<and> in_phase d [''PREPARED'', ''SUBMITTING'', ''SUBMITTED''] then
         resolve_changed G state_dir d
           (if \<not> policy_current d policy then ''pending attempt belongs to a different HomeOps release policy''
            else ''local source changed before commit authorization'')
       else resume_from G vault state_dir deadline policy d)))"

section \<open>Reconciliation\<close>

text \<open>The lock of the workstation; an attempt to take it twice is an outcome of its own.\<close>

definition open_plain_lock :: "path \<Rightarrow> unit wprog" where
  "open_plain_lock p w =
     (case lstat w p of
        None \<Rightarrow> put_file p [] w
      | Some (File c) \<Rightarrow> (Inr (), w)
      | Some Dir \<Rightarrow> (Inl (OSError (''cannot open '' @ path_text p)), w)
      | Some (Link t) \<Rightarrow> (Inl (Unmodelled ''target of a symbolic link''), w))"

definition pipeline_lock_path :: "path \<Rightarrow> path" where
  "pipeline_lock_path state_dir = state_dir @ [''pipeline.lock'']"

definition local_pipeline_lock :: "path \<Rightarrow> ('r, 'a) sprog \<Rightarrow> ('r, 'a) sprog" where
  "local_pipeline_lock state_dir body =
     bindM (at_home (make_dirs state_dir)) (\<lambda>_.
     bindM (at_home (open_plain_lock (pipeline_lock_path state_dir))) (\<lambda>_.
     bindM (at_home (acquire (pipeline_lock_path state_dir) False False
       (PipelineError ''UNCHANGED'' ''publisher reconciliation is already running'' False))) (\<lambda>_.
     finallyDo body (modifyM (\<lambda>s. s\<lparr>home := release (pipeline_lock_path state_dir) False (home s)\<rparr>)))))"

definition failed_values :: "exn \<Rightarrow> (string \<times> bool \<times> exn) option res" where
  "failed_values e =
     (case e of
        PipelineError outcome m retryable \<Rightarrow> Inr (Some (outcome, retryable, e))
      | ReceiverRejected v \<Rightarrow> bindE (pipeline_error_from_receiver (obj_of v)) (\<lambda>mapped.
          Inr (case mapped of PipelineError outcome m retryable \<Rightarrow> Some (outcome, retryable, mapped) | _ \<Rightarrow> None))
      | TransportError m \<Rightarrow> Inr (Some (''HOMEOPS_UNAVAILABLE'', True, e))
      | _ \<Rightarrow> Inr (if is_build_error e \<or> is_snapshot_error e \<or> is_os_error e \<or> is_value_error e
                then Some (''INTERNAL_ERROR'', False, e) else None))"

text \<open>The handlers of \<open>reconcile\<close>: what the body returned, or the result of its failure.\<close>

definition caught_failure :: "json \<Rightarrow> string \<Rightarrow> ('r, 'a) sprog \<Rightarrow> ('r, 'a + dict) sprog" where
  "caught_failure publisher_id request_id m =
     catchM (bindM m (\<lambda>x. retM (Inl x))) (\<lambda>e.
       case failed_values e of
         Inl e' \<Rightarrow> Some (raiseM e')
       | Inr None \<Rightarrow> None
       | Inr (Some (outcome, retryable, cause)) \<Rightarrow> Some (
           bindM (at_home (result_with outcome
             [(''request_id'', JStr request_id), (''publisher_id'', publisher_id), (''retryable'', JBool retryable),
              (''diagnostic'', JStr (redacted_failure cause))])) (\<lambda>result. retM (Inr result))))"

text \<open>\<open>with tempfile.TemporaryDirectory(prefix, dir)\<close>.\<close>

definition with_temporary_in :: "'r surroundings \<Rightarrow> path \<Rightarrow> string \<Rightarrow> (path \<Rightarrow> ('r, 'a) sprog) \<Rightarrow> ('r, 'a) sprog" where
  "with_temporary_in G dir prefix' body =
     bindM (at_home (draw (new_uuid G))) (\<lambda>u.
     (let temporary = dir @ [prefix' @ u]
      in bindM (at_home (make_dir temporary)) (\<lambda>_. finallyDo (body temporary) (at_home (remove_tree temporary)))))"

definition with_temporary :: "'r surroundings \<Rightarrow> (path \<Rightarrow> ('r, 'a) sprog) \<Rightarrow> ('r, 'a) sprog" where
  "with_temporary G = with_temporary_in G (temp_dir G) ''homeops-publish-''"

definition new_request :: "string \<Rightarrow> json \<Rightarrow> string \<Rightarrow> string \<Rightarrow> dict \<Rightarrow> json \<Rightarrow> string \<Rightarrow> dict" where
  "new_request request_id publisher_id token policy manifest expected manifest_sha =
     [(''schema_version'', JInt 1), (''protocol'', JStr receiver_protocol), (''request_id'', JStr request_id),
      (''publisher_id'', publisher_id), (''capability_token'', JStr token), (''release_policy_id'', JStr policy),
      (''snapshot_id'', dget manifest ''snapshot_id''), (''expected_current_deployment_id'', expected),
      (''snapshot_manifest_sha256'', JStr manifest_sha)]"

definition new_attempt :: "dict \<Rightarrow> dict \<Rightarrow> dict \<Rightarrow> string \<Rightarrow> string \<Rightarrow> dict" where
  "new_attempt request manifest policy archive_digest now =
     [(''schema_version'', JInt 1), (''protocol'', JStr receiver_protocol), (''phase'', JStr ''PREPARED''),
      (''request'', JObj request), (''snapshot'', JObj (snapshot_identity_of manifest)), (''release_policy'', JObj policy),
      (''archive_sha256'', JStr archive_digest), (''candidate_deployment_id'', JNull), (''promotion_policy_id'', JNull),
      (''created_at'', JStr now), (''updated_at'', JStr now), (''terminal_result'', JNull)]"

definition prepare_attempt ::
  "'r surroundings \<Rightarrow> path \<Rightarrow> path \<Rightarrow> dict \<Rightarrow> dict \<Rightarrow> json \<Rightarrow> json \<Rightarrow> string \<Rightarrow> ('r, dict) sprog" where
  "prepare_attempt G state_dir temporary policy manifest expected publisher_id request_id =
     (let E = env_of G; sha = digest E; manifest_file = temporary @ [''snapshot.json'']; archive = temporary @ [''submission.tar'']
      in at_home
        (bindM (draw (new_token G)) (\<lambda>token.
         bindM (write_manifest sha manifest_file (JObj manifest)) (\<lambda>_.
         bindM (askM (\<lambda>w. file_sha256 sha w manifest_file)) (\<lambda>manifest_sha.
         (let request = new_request request_id publisher_id token (policy_id E policy) manifest expected manifest_sha
          in bindM (liftM (validate_request_message request)) (\<lambda>_.
             bindM (askM (\<lambda>w. write_submission_archive sha (inspect_vault E) w request (JObj manifest)
               (temporary @ [''vault'']))) (\<lambda>members.
             bindM (put_file archive (tar_bytes G members)) (\<lambda>_.
             bindM (persist_pending_archive E state_dir archive) (\<lambda>archive_digest.
             bindM utc_now (\<lambda>now.
             write_pending_attempt E state_dir (new_attempt request manifest policy archive_digest now))))))))))))"

definition publish_new ::
  "'r surroundings \<Rightarrow> path \<Rightarrow> path \<Rightarrow> json \<times> json \<times> json \<Rightarrow> dict \<Rightarrow> json \<Rightarrow> nat \<Rightarrow> string \<Rightarrow> ('r, dict) sprog" where
  "publish_new G vault state_dir released policy publisher_id timeout request_id =
     with_temporary G (\<lambda>temporary.
     (case released of (version, revision, pinned_image) \<Rightarrow>
       bindM (export_candidate G vault (temporary @ [''vault'']) revision) (\<lambda>(manifest, before).
       bindM (current G) (\<lambda>now.
       (let expected = dget now ''current_deployment_id''
        in if current_matches now manifest version revision pinned_image JNull JNull then
             bindM (at_home (result_with ''UNCHANGED''
               [(''request_id'', JStr request_id), (''publisher_id'', publisher_id),
                (''deployment_id'', or_else expected JNull), (''snapshot_id'', dget manifest ''snapshot_id''),
                (''run_id'', or_else (dget now ''run_id'') JNull), (''retryable'', JBool False)])) (\<lambda>result.
             bindM (at_home (write_last_result state_dir result)) (\<lambda>_. retM result))
           else
             bindM (prepare_attempt G state_dir temporary policy manifest expected publisher_id request_id) (\<lambda>d.
             resume_pending_attempt G vault state_dir d policy timeout))))))"

definition resume_loaded ::
  "'r surroundings \<Rightarrow> path \<Rightarrow> path \<Rightarrow> dict \<Rightarrow> json \<Rightarrow> nat \<Rightarrow> dict \<Rightarrow> ('r, dict) sprog" where
  "resume_loaded G vault state_dir policy publisher_id timeout d =
     bindM (liftM (raiseIf (\<not> pyeq (dget (request_of d) ''publisher_id'') publisher_id)
       (internal_error ''pending attempt publisher differs from configured publisher''))) (\<lambda>_.
     resume_pending_attempt G vault state_dir d policy timeout)"

definition reconcile_attempt ::
  "'r surroundings \<Rightarrow> path \<Rightarrow> path \<Rightarrow> json \<times> json \<times> json \<Rightarrow> dict \<Rightarrow> json \<Rightarrow> nat \<Rightarrow> ('r, dict + dict) sprog" where
  "reconcile_attempt G vault state_dir released policy publisher_id timeout =
     bindM (caught_failure publisher_id ''unavailable''
       (at_home (askM (\<lambda>w. load_pending_attempt (env_of G) w state_dir)))) (\<lambda>loaded.
     case loaded of
       Inr failed \<Rightarrow> retM (Inr failed)
     | Inl (Some d) \<Rightarrow>
         caught_failure publisher_id (str_of (dget (request_of d) ''request_id''))
           (resume_loaded G vault state_dir policy publisher_id timeout d)
     | Inl None \<Rightarrow>
         bindM (at_home (draw (new_uuid G))) (\<lambda>request_id.
         caught_failure publisher_id request_id
           (publish_new G vault state_dir released policy publisher_id timeout request_id)))"

definition reconcile ::
  "'r surroundings \<Rightarrow> path \<Rightarrow> path \<Rightarrow> json \<Rightarrow> json \<Rightarrow> json \<Rightarrow> nat \<Rightarrow> ('r, dict) sprog" where
  "reconcile G vault state_dir publisher_id source_revision image_digest timeout =
     bindM (liftM (validate_publisher_id publisher_id)) (\<lambda>_.
     bindM (liftM (released_identity (package_version G) source_revision image_digest)) (\<lambda>released.
     bindM (at_home (askM (\<lambda>w. case released of (version, revision, pinned_image) \<Rightarrow>
       release_policy (env_of G) w version revision pinned_image []))) (\<lambda>policy.
     local_pipeline_lock state_dir
       (bindM (finallyDo (reconcile_attempt G vault state_dir released policy publisher_id timeout) (close_transport G)) (\<lambda>outcome.
        case outcome of
          Inl result \<Rightarrow> retM result
        | Inr failed \<Rightarrow> at_home (pending_failure state_dir failed))))))"

end
