(* ===== verification/AttemptProps.thy ===== *)
theory AttemptProps
  imports Attempts PromotionProps
begin

text \<open>
  The pending attempt on disk: what redaction leaves of a result, that a validated attempt is
  loaded back as it was written (the key order of the file apart), and that the resolution of an
  attempt can break off at any of its durable steps without losing its result.
\<close>

section \<open>Redaction\<close>

fun mentions :: "string \<Rightarrow> json \<Rightarrow> bool" where
  "mentions k (JObj d) \<longleftrightarrow> list_ex (\<lambda>p. fst p = k \<or> mentions k (snd p)) d"
| "mentions k (JList xs) \<longleftrightarrow> list_ex (mentions k) xs"
| "mentions k v \<longleftrightarrow> False"

lemma mentions_jsort: "mentions k (jsort v) = mentions k v"
  by (induction v rule: jsort.induct) (auto simp: list_ex_iff)

lemma mentions_redact: "secret_key k \<Longrightarrow> \<not> mentions k (redact v)"
  by (induction v rule: redact.induct) (auto simp: list_ex_iff)

lemma redact_idem [simp]: "redact (redact v) = redact v"
  by (induction v rule: redact.induct) (auto simp: filter_map o_def)

lemma wf_redact: "wf_json v \<Longrightarrow> wf_json (redact v)"
proof (induction v rule: redact.induct)
  case (1 d)
  then show ?case by (auto simp: o_def list_all_iff distinct_map_filter)
qed (auto simp: list_all_iff)

lemma redact_JObj: "redact (JObj d) = JObj (redact_result d)"
  by (simp add: redact_result_def)

lemma redact_obj: "is_obj v \<Longrightarrow> redact v = JObj (redact_result (obj_of v))"
  by (cases v) (simp_all add: redact_result_def)

lemma wf_redact_result: "wf_json (JObj d) \<Longrightarrow> wf_json (JObj (redact_result d))"
  using wf_redact [of "JObj d"] by (simp only: redact_JObj)

lemma redact_result_idem [simp]: "redact_result (redact_result d) = redact_result d"
  using redact_idem [of "JObj d"] by (simp only: redact_JObj json.inject)

lemma dget_redact: "\<not> secret_key k \<Longrightarrow> dget (redact_result d) k = redact (dget d k)"
  by (induction d) (auto simp: redact_result_def)

lemma secret_keys [simp]: "secret_key ''capability_token''" "secret_key ''capability_sha256''"
  "\<not> secret_key ''outcome''" "secret_key ''_commit_accepted''"
  by (simp_all add: secret_key_def startswith_def)

lemma insort_key_map: "insort_key f (g x) (map g xs) = map g (insort_key (\<lambda>y. f (g y)) x xs)"
  by (induction xs) auto

lemma sort_key_map: "sort_key f (map g xs) = map g (sort_key (\<lambda>y. f (g y)) xs)"
  by (induction xs) (simp_all add: insort_key_map)

lemma redact_jsort: "redact (jsort v) = jsort (redact v)"
proof (induction v rule: jsort.induct)
  case (2 d)
  have "map (\<lambda>p. (fst p, redact (jsort (snd p)))) d = map (\<lambda>p. (fst p, jsort (redact (snd p)))) d"
    using 2 by simp
  then show ?case by (simp add: sort_key_map filter_map filter_sort o_def)
qed auto

section \<open>What was written is loaded again\<close>

lemma in_strs_jsort: "in_strs (jsort v) xs = in_strs v xs"
  by (cases v) (simp_all add: in_strs_def)

lemma pyeq_jsort_left: "wf_json v \<Longrightarrow> pyeq (jsort v) w = pyeq v w"
  by (metis pyeq_jsort pyeq_sym pyeq_trans)

lemma is_sha_jsort [simp]: "is_sha_json (jsort v) = is_sha_json v"
  by (cases v) (simp_all add: is_sha_json_def)

lemma sort_key_Nil: "sort_key f xs = [] \<longleftrightarrow> xs = []"
  by (metis length_0_conv length_sort)

lemma truthy_jsort [simp]: "truthy (jsort v) = truthy v"
  by (cases v) (simp_all add: sort_key_Nil)

lemma same_fields_canon: "same_fields (canon d) fs = same_fields d fs"
  by (simp add: same_fields_def dkeys_canon)

lemma attempt_schema_canon:
  assumes "wf_json (JObj d)"
  shows "check_attempt_schema (canon d) = check_attempt_schema d"
  by (simp add: check_attempt_schema_def dget_canon [OF assms] in_strs_jsort pyeq_jsort_left [OF wf_dget [OF assms]])

lemma commit_identity_canon:
  assumes "wf_json (JObj d)"
  shows "check_commit_identity (canon d) = check_commit_identity d"
  by (simp add: check_commit_identity_def dget_canon [OF assms] committing_phase_def Let_def)

text \<open>Every field of an accepted request is a text, but for the schema version.\<close>

lemma request_leaves:
  assumes "validate_request_message d = Inr r" "f \<in> set request_fields"
  shows "jsort (dget d f) = dget d f"
proof -
  have "pyeq (dget d ''schema_version'') (JInt 1)" "dget d ''protocol'' = JStr ''homeops.receiver/v1''"
    and id: "case dget d ''request_id'' of JStr s \<Rightarrow> is_uuid4 s | _ \<Rightarrow> False"
    and pub: "\<exists>p. validate_publisher_id (dget d ''publisher_id'') = Inr p"
    and sha: "\<forall>f \<in> {''capability_token'', ''release_policy_id'', ''snapshot_id'', ''snapshot_manifest_sha256''}.
      is_sha_json (dget d f)"
    and cur: "case dget d ''expected_current_deployment_id'' of JStr s \<Rightarrow> s = [] \<or> is_sha256 s | _ \<Rightarrow> False"
    using assms(1) by (auto simp: validate_request_message_def bindE_eq_Inr bindE_raiseIf bindE_eachE
      simp del: eachE.simps split: json.splits)
  moreover have "is_str (dget d ''request_id'')" using id by (cases "dget d ''request_id''") simp_all
  moreover have "is_str (dget d ''publisher_id'')"
    using pub by (cases "dget d ''publisher_id''") (simp_all add: validate_publisher_id_def)
  moreover have "is_str (dget d ''expected_current_deployment_id'')"
    using cur by (cases "dget d ''expected_current_deployment_id''") simp_all
  moreover have "is_str v" if "is_sha_json v" for v using that by (cases v) (simp_all add: is_sha_json_def)
  moreover have "jsort v = v" if "is_str v" for v using that by (cases v) simp_all
  moreover have "jsort v = v" if "pyeq v (JInt 1)" for v using that by (auto simp: pyeq_JInt)
  ultimately show ?thesis using assms(2) unfolding request_fields_def by auto
qed

lemma validated_request: "validate_request_message d = Inr r \<Longrightarrow> r = d"
  by (auto simp: validate_request_message_def bindE_eq_Inr bindE_raiseIf bindE_eachE simp del: eachE.simps)

definition listed :: "string list \<Rightarrow> dict \<Rightarrow> dict" where
  "listed fs d = map (\<lambda>f. (f, dget d f)) fs"

lemma dget_listed: "dget (listed fs d) f = (if f \<in> set fs then dget d f else JNull)"
  unfolding listed_def by (induction fs) auto

lemma dkeys_listed [simp]: "dkeys (listed fs d) = fs"
  by (simp add: listed_def dkeys_def o_def)

lemma wf_listed: "wf_json (JObj d) \<Longrightarrow> distinct fs \<Longrightarrow> wf_json (JObj (listed fs d))"
  by (auto simp: listed_def o_def list_all_iff intro: wf_dget [simplified])

lemma listed_listed [simp]: "listed fs (listed fs d) = listed fs d"
  by (simp add: listed_def cong: map_cong) (simp add: dget_listed [unfolded listed_def])

lemma attempt_request_Inr:
  "check_attempt_request v = Inr req \<longleftrightarrow>
     is_obj v \<and> same_fields (obj_of v) request_fields \<and> req = listed request_fields (obj_of v)
     \<and> validate_request_message req = Inr req"
  by (auto simp: check_attempt_request_def listed_def bindE_raiseIf rewrap_def split: sum.splits
      dest: validated_request)

lemma attempt_request_canon:
  assumes "check_attempt_request v = Inr req" "wf_json v"
  shows "check_attempt_request (jsort (JObj req)) = Inr req"
proof -
  have req: "req = listed request_fields (obj_of v)" "validate_request_message req = Inr req"
    using assms unfolding attempt_request_Inr by blast+
  have d: "distinct request_fields" by (simp add: request_fields_def)
  have "v = JObj (obj_of v)" using assms(1) by (cases v) (simp_all add: attempt_request_Inr)
  with assms(2) have "wf_json (JObj (obj_of v))" by metis
  then have wf: "wf_json (JObj req)" unfolding req(1) by (rule wf_listed [OF _ d])
  have "listed request_fields (canon req) = req"
  proof -
    have "listed request_fields (canon req) = listed request_fields req"
      unfolding listed_def
      by (rule map_cong) (simp_all add: dget_canon [OF wf] request_leaves [OF req(2)])
    then show ?thesis by (simp add: req(1))
  qed
  moreover have "same_fields (canon req) request_fields" by (simp add: same_fields_canon req(1)) (simp add: same_fields_def)
  ultimately show ?thesis using req(2) by (simp add: attempt_request_Inr jsort_JObj del: jsort.simps)
qed

lemma validated_policy:
  "validate_policy v = Inr d \<Longrightarrow> v = JObj d"
  by (cases v) (auto simp: validate_policy_def bindE_eq_Inr bindE_raiseIf bindE_eachE Let_def simp del: eachE.simps)

lemma bad_suites_texts: "bad_suites xs = Inr False \<Longrightarrow> list_all is_str xs"
  by (auto simp: bad_suites_def split: if_splits)

lemma texts_jsort: "list_all is_str xs \<Longrightarrow> map jsort xs = xs"
  by (induction xs) (auto elim: is_str.elims)

lemma policy_canon:
  assumes "validate_policy (JObj d) = Inr d" "wf_json (JObj d)"
  shows "validate_policy (JObj (canon d)) = Inr (canon d)"
proof -
  note facts = dget_canon [OF assms(2)] same_fields_canon pyeq_jsort_left [OF wf_dget [OF assms(2)]]
  obtain b where b: "(case dget d ''evaluation_suite_sha256'' of JList xs \<Rightarrow> bad_suites xs | _ \<Rightarrow> Inr True) = Inr b" "\<not> b"
    using assms(1) by (auto simp: validate_policy_def bindE_eq_Inr bindE_raiseIf bindE_eachE Let_def simp del: eachE.simps)
  then obtain xs where xs: "dget d ''evaluation_suite_sha256'' = JList xs" "bad_suites xs = Inr False"
    by (auto split: json.splits)
  have same: "jsort (dget d ''evaluation_suite_sha256'') = dget d ''evaluation_suite_sha256''"
    using xs texts_jsort [OF bad_suites_texts] by simp
  have positive: "positive_int (jsort v) = positive_int v" for v by (cases v) (simp_all add: positive_int_def)
  from assms(1) show ?thesis
    by (simp add: validate_policy_def facts same positive Let_def bindE_eq_Inr bindE_raiseIf bindE_eachE
        del: eachE.simps jsort.simps)
qed

lemma policy_id_canon: "wf_json (JObj d) \<Longrightarrow> policy_id E (canon d) = policy_id E d"
  by (simp add: policy_id_def sha256_json_def canonical_json_bytes_def jsort_idem flip: jsort_JObj del: jsort.simps)

lemma attempt_snapshot_canon:
  assumes "check_attempt_snapshot v req = Inr u" "wf_json v"
  shows "check_attempt_snapshot (jsort v) req = Inr u"
proof -
  obtain d where v: "v = JObj d"
    using assms(1) by (cases v) (simp_all add: check_attempt_snapshot_def bindE_raiseIf)
  have wf: "wf_json (JObj d)" using assms(2) v by simp
  have "jsort (dget d ''snapshot_id'') = dget req ''snapshot_id'' \<longleftrightarrow> dget d ''snapshot_id'' = dget req ''snapshot_id''"
    if "is_sha_json (dget d ''snapshot_id'')"
    using that by (cases "dget d ''snapshot_id''") (simp_all add: is_sha_json_def)
  then show ?thesis using assms(1) unfolding v
    by (auto simp: check_attempt_snapshot_def jsort_JObj dget_canon [OF wf] same_fields_canon bindE_raiseIf bindE_eachE
        snapshot_fields_def simp del: jsort.simps eachE.simps)
qed

lemma terminal_canon:
  assumes "check_terminal d = Inr u" "wf_json (JObj d)"
  shows "check_terminal (canon d) = Inr u"
proof (cases "dget d ''terminal_result''")
  case (JObj t)
  have phase: "dget d ''phase'' = JStr ''TERMINAL''"
    using assms(1) JObj by (auto simp: check_terminal_def Let_def split: if_splits)
  have "wf_json (JObj t)" using wf_dget [OF assms(2), of "''terminal_result''"] JObj by simp
  with assms JObj phase show ?thesis
    by (auto simp: check_terminal_def dget_canon [OF assms(2)] jsort_JObj dget_canon in_strs_jsort Let_def
        simp del: jsort.simps)
qed (use assms in \<open>auto simp: check_terminal_def dget_canon [OF assms(2)] Let_def split: if_splits\<close>)

definition checked_attempt :: "dict \<Rightarrow> dict \<Rightarrow> dict \<Rightarrow> dict" where
  "checked_attempt d req pol =
     dput (dput (dput (dput d ''request'' (JObj req)) ''snapshot'' (dget d ''snapshot''))
       ''release_policy'' (JObj pol)) ''terminal_result''
       (if dget d ''terminal_result'' = JNull then JNull else redact (dget d ''terminal_result''))"

lemma validated_attempt_Inr:
  "validate_pending_attempt E (JObj d) = Inr c \<longleftrightarrow>
     (\<exists>req pol. same_fields d attempt_fields \<and> check_attempt_schema d = Inr ()
       \<and> check_attempt_request (dget d ''request'') = Inr req \<and> check_attempt_snapshot (dget d ''snapshot'') req = Inr ()
       \<and> validate_policy (dget d ''release_policy'') = Inr pol
       \<and> dget req ''release_policy_id'' = JStr (policy_id E pol) \<and> is_sha_json (dget d ''archive_sha256'')
       \<and> check_commit_identity d = Inr ()
       \<and> (\<forall>f \<in> {''created_at'', ''updated_at''}. is_str (dget d f) \<and> truthy (dget d f))
       \<and> check_terminal d = Inr () \<and> c = checked_attempt d req pol)"
  by (auto simp: validate_pending_attempt_def checked_attempt_def bindE_eq_Inr bindE_raiseIf bindE_eachE Let_def
      simp del: eachE.simps)

lemma dget_checked:
  "dget (checked_attempt d req pol) f =
     (if f = ''request'' then JObj req else if f = ''release_policy'' then JObj pol
      else if f = ''terminal_result'' then redact (dget d f) else dget d f)"
  by (simp add: checked_attempt_def)

lemma checked_fields: "same_fields d attempt_fields \<Longrightarrow> same_fields (checked_attempt d req pol) attempt_fields"
  unfolding checked_attempt_def by (intro same_fields_dput) (simp_all add: attempt_fields_def)

lemma wf_checked:
  "wf_json (JObj d) \<Longrightarrow> wf_json (JObj req) \<Longrightarrow> wf_json (JObj pol) \<Longrightarrow> wf_json (JObj (checked_attempt d req pol))"
  unfolding checked_attempt_def
  by (intro wf_obj_dput) (auto simp del: wf_json.simps(2) intro: wf_dget wf_redact)

lemma schema_checked: "check_attempt_schema (checked_attempt d req pol) = check_attempt_schema d"
  by (simp add: check_attempt_schema_def dget_checked)

lemma commit_identity_checked: "check_commit_identity (checked_attempt d req pol) = check_commit_identity d"
  by (simp add: check_commit_identity_def dget_checked)

lemma redact_JNull [simp]: "redact v = JNull \<longleftrightarrow> v = JNull"
  by (cases v) simp_all

lemma redact_JStr [simp]: "redact (JStr s) = JStr s"
  by simp

lemma in_strs_redact: "in_strs (redact v) xs = in_strs v xs"
  by (cases v) (simp_all add: in_strs_def)

lemma terminal_checked: "check_terminal d = Inr u \<Longrightarrow> check_terminal (checked_attempt d req pol) = Inr u"
  by (cases "dget d ''terminal_result''")
    (auto simp: check_terminal_def dget_checked Let_def dget_redact in_strs_redact redact_JObj simp del: redact.simps(1)
      split: if_splits)

text \<open>An attempt that was checked and written is accepted when it is read, with the same fields.\<close>

lemma attempt_reloads:
  assumes valid: "validate_pending_attempt E (JObj d) = Inr c" and wf: "wf_json (JObj d)"
  obtains t where "validate_pending_attempt E (jsort (JObj c)) = Inr t" "wf_json (JObj c)"
    "\<And>f. f \<noteq> ''request'' \<Longrightarrow> dget t f = jsort (dget c f)" "dget t ''request'' = dget c ''request''"
proof -
  obtain req pol where fields: "same_fields d attempt_fields"
    and schema: "check_attempt_schema d = Inr ()"
    and request: "check_attempt_request (dget d ''request'') = Inr req"
    and snapshot: "check_attempt_snapshot (dget d ''snapshot'') req = Inr ()"
    and policy: "validate_policy (dget d ''release_policy'') = Inr pol"
    and ids: "dget req ''release_policy_id'' = JStr (policy_id E pol)" "is_sha_json (dget d ''archive_sha256'')"
    and commit: "check_commit_identity d = Inr ()"
    and times: "\<forall>f \<in> {''created_at'', ''updated_at''}. is_str (dget d f) \<and> truthy (dget d f)"
    and terminal: "check_terminal d = Inr ()" and c: "c = checked_attempt d req pol"
    using valid unfolding validated_attempt_Inr by blast
  note wfs = wf_dget [OF wf]
  have pol: "dget d ''release_policy'' = JObj pol" by (rule validated_policy) (rule policy)
  have wf_pol: "wf_json (JObj pol)" using wfs [of "''release_policy''"] pol by simp
  have "is_obj (dget d ''request'')" and req: "req = listed request_fields (obj_of (dget d ''request''))"
    using request unfolding attempt_request_Inr by blast+
  then obtain r where "dget d ''request'' = JObj r" by (cases "dget d ''request''") auto
  with wfs [of "''request''"] have wf_req: "wf_json (JObj req)"
    unfolding req by (intro wf_listed) (simp_all add: request_fields_def)
  have wf_c: "wf_json (JObj c)" unfolding c by (rule wf_checked [OF wf wf_req wf_pol])
  let ?t = "checked_attempt (canon c) req (canon pol)"
  have get: "dget (canon c) f = jsort (dget c f)" for f by (rule dget_canon [OF wf_c])
  have c_get: "dget c f = (if f = ''request'' then JObj req else if f = ''release_policy'' then JObj pol
      else if f = ''terminal_result'' then redact (dget d f) else dget d f)" for f
    unfolding c by (rule dget_checked)
  have ok: "validate_pending_attempt E (JObj (canon c)) = Inr ?t"
    unfolding validated_attempt_Inr
  proof (rule exI [of _ req], rule exI [of _ "canon pol"], intro conjI)
    show "same_fields (canon c) attempt_fields"
      unfolding same_fields_canon c by (rule checked_fields [OF fields])
    show "check_attempt_schema (canon c) = Inr ()"
      unfolding attempt_schema_canon [OF wf_c] unfolding c schema_checked by (rule schema)
    show "check_attempt_request (dget (canon c) ''request'') = Inr req"
      unfolding get c_get using attempt_request_canon [OF request wfs] by simp
    show "check_attempt_snapshot (dget (canon c) ''snapshot'') req = Inr ()"
      unfolding get c_get using attempt_snapshot_canon [OF snapshot wfs] by simp
    show "validate_policy (dget (canon c) ''release_policy'') = Inr (canon pol)"
      unfolding get c_get using policy_canon [OF policy [unfolded pol] wf_pol] by (simp add: jsort_JObj del: jsort.simps)
    show "dget req ''release_policy_id'' = JStr (policy_id E (canon pol))"
      unfolding policy_id_canon [OF wf_pol] by (rule ids)
    show "is_sha_json (dget (canon c) ''archive_sha256'')" unfolding get c_get using ids by simp
    show "check_commit_identity (canon c) = Inr ()"
      unfolding commit_identity_canon [OF wf_c] unfolding c commit_identity_checked by (rule commit)
    show "\<forall>f \<in> {''created_at'', ''updated_at''}. is_str (dget (canon c) f) \<and> truthy (dget (canon c) f)"
      unfolding get c_get using times by simp
    show "check_terminal (canon c) = Inr ()"
      by (rule terminal_canon [OF _ wf_c]) (unfold c, rule terminal_checked [OF terminal])
  qed (rule refl)
  show thesis
  proof (rule that [of ?t])
    show "validate_pending_attempt E (jsort (JObj c)) = Inr ?t" using ok by (simp only: jsort_JObj)
    show "wf_json (JObj c)" by (rule wf_c)
    show "dget ?t f = jsort (dget c f)" if "f \<noteq> ''request''" for f
      using that by (simp add: dget_checked get c_get jsort_JObj redact_jsort del: jsort.simps)
    show "dget ?t ''request'' = dget c ''request''" by (simp add: dget_checked c_get)
  qed
qed

section \<open>The files of the state directory\<close>

text \<open>What a step leaves alone among the entries of one directory.\<close>

definition entries_kept :: "path \<Rightarrow> string set \<Rightarrow> world \<Rightarrow> world \<Rightarrow> bool" where
  "entries_kept D S w w' \<longleftrightarrow> (\<forall>x. x \<notin> S \<longrightarrow> lstat w' (D @ [x]) = lstat w (D @ [x]))"

interpretation entries: step_preorder "entries_kept D S" for D S
  by unfold_locales (simp_all add: entries_kept_def)

lemma entries_keptD: "entries_kept D S w w' \<Longrightarrow> x \<notin> S \<Longrightarrow> lstat w' (D @ [x]) = lstat w (D @ [x])"
  by (simp add: entries_kept_def)

lemma entries_kept_mono: "entries_kept D S w w' \<Longrightarrow> S \<subseteq> T \<Longrightarrow> entries_kept D T w w'"
  by (auto simp: entries_kept_def)

lemma durable_entries:
  assumes "durable u w = (r, w')" "\<And>t x. x \<notin> S \<Longrightarrow> map_of (u t) (D @ [x]) = map_of t (D @ [x])"
  shows "entries_kept D S w w'"
  using assms(1) by (rule durable_cases) (use assms(2) in \<open>auto simp: entries_kept_def lstat_def\<close>)

lemma durable_stopped: "durable u w = (Inl e, w') \<Longrightarrow> entries_kept D {} w w'"
  by (erule durable_cases) (auto simp: entries_kept_def lstat_def)

lemma not_below_dir: "\<not> below (D @ [x]) D"
  by (simp add: below_def)

lemma put_file_entries: "put_file (D @ [y]) c w = (r, w') \<Longrightarrow> entries_kept D {y} w w'"
  by (auto simp: put_file_def entries.R_refl split: if_splits
      elim!: durable_entries simp: update_conv' map_of_add_dirs not_below_dir split: option.splits)

lemma put_file_stopped: "put_file p c w = (Inl e, w') \<Longrightarrow> entries_kept D {} w w'"
  by (auto simp: put_file_def entries.R_refl split: if_splits elim: durable_stopped)

lemma put_file_node:
  assumes "put_file p c w = (Inr u, w')"
  shows "\<exists>n. lstat w' p = Some (put_node (File c) n) \<and> (n = lstat w p \<or> n = Some Dir)"
  using assms by (auto simp: put_file_def split: if_splits elim!: durable_cases)
    (auto simp: lstat_def update_conv')

lemma make_dirs_entries: "make_dirs D w = (r, w') \<Longrightarrow> entries_kept D {} w w'"
  by (auto simp: make_dirs_def entries.R_refl split: if_splits
      elim!: durable_entries simp: map_of_add_dirs not_below_dir split: option.splits)

lemma unlink_entries: "unlink_quietly (D @ [y]) w = (r, w') \<Longrightarrow> entries_kept D {y} w w'"
  by (auto simp: unlink_quietly_def unlink_def entries.R_refl split: if_splits
      elim!: durable_entries simp: delete_conv')

lemma unlink_stopped: "unlink_quietly p w = (Inl e, w') \<Longrightarrow> entries_kept D {} w w'"
  by (auto simp: unlink_quietly_def unlink_def split: if_splits elim: durable_stopped)

lemma unlink_done: "unlink_quietly p w = (Inr u, w') \<Longrightarrow> lstat w' p = None"
  by (auto simp: unlink_quietly_def unlink_def lexists_def split: if_splits elim!: durable_cases)
    (simp add: lstat_def delete_conv')

lemma fsync_entries: "fsync_path p w = (r, w') \<Longrightarrow> entries_kept D {} w w'"
  by (auto simp: fsync_path_def entries.R_refl split: if_splits elim!: durable_entries)

lemma now_entries: "utc_now w = (r, w') \<Longrightarrow> entries_kept D S w w'"
  by (auto simp: utc_now_def entries_kept_def lstat_def)

text \<open>Loading looks at two entries.\<close>

lemma read_document_lstat: "lstat w p = lstat w' p \<Longrightarrow> read_document w p = read_document w' p"
  by (rule read_document_cong) (simp add: file_at_def stat_def)

lemma load_pending_cong:
  assumes "lstat w' (pending_path D) = lstat w (pending_path D)" "lstat w' (archive_path D) = lstat w (archive_path D)"
  shows "load_pending_attempt E w' D = load_pending_attempt E w D"
proof -
  have "is_symlink w' (pending_path D) = is_symlink w (pending_path D)"
    "exists_path w' (pending_path D) = exists_path w (pending_path D)"
    using assms(1) by (simp_all add: is_symlink_def exists_path_def stat_def)
  moreover have "archive_intact E w' D = archive_intact E w D"
    using assms(2) by (simp add: fun_eq_iff archive_intact_def is_symlink_def is_file_def file_sha256_def read_bytes_def stat_def)
  ultimately show ?thesis using read_document_lstat [OF assms(1)]
    by (simp add: load_pending_attempt_def Let_def)
qed

lemma load_kept: "entries_kept D {''last-result.json''} w w' \<Longrightarrow> load_pending_attempt E w' D = load_pending_attempt E w D"
  by (rule load_pending_cong) (simp_all add: pending_path_def archive_path_def entries_keptD)

lemma load_gone: "lstat w (pending_path D) = None \<Longrightarrow> load_pending_attempt E w D = Inr None"
  by (simp add: load_pending_attempt_def exists_path_def stat_def)

lemma load_terminal:
  assumes "read_document w (pending_path D) = Inr v" "\<not> is_symlink w (pending_path D)"
    and "validate_pending_attempt E v = Inr t" "dget t ''phase'' = JStr ''TERMINAL''"
  shows "load_pending_attempt E w D = Inr (Some t)"
proof -
  have "exists_path w (pending_path D)"
    using file_at_of_document [OF assms(1)] by (auto simp: is_file_def exists_path_def split: option.splits)
  with assms show ?thesis by (simp add: load_pending_attempt_def rewrap_def raiseIf_def)
qed

lemma loaded_attempt:
  assumes "load_pending_attempt E w D = Inr (Some d)"
  obtains v where "read_document w (pending_path D) = Inr v" "validate_pending_attempt E v = Inr d"
    "\<not> is_symlink w (pending_path D)"
  using assms
  by (auto simp: load_pending_attempt_def bindE_eq_Inr bindE_raiseIf rewrap_def Let_def split: if_splits sum.splits)

lemma document_wf: "read_document w p = Inr v \<Longrightarrow> wf_json v"
  by (auto simp: read_document_def bindE_eq_Inr intro: strict_json_loads_wf)

lemma loaded_wf: "load_pending_attempt E w D = Inr (Some d) \<Longrightarrow> wf_json (JObj d)"
proof (erule loaded_attempt)
  fix v assume v: "read_document w (pending_path D) = Inr v" "validate_pending_attempt E v = Inr d"
  then obtain d0 where "v = JObj d0"
    by (cases v) (simp_all add: validate_pending_attempt_def bindE_raiseIf Let_def)
  with v document_wf [OF v(1)] show "wf_json (JObj d)" by (metis attempt_reloads)
qed

lemma checked_request:
  "validate_pending_attempt E v = Inr c \<Longrightarrow>
     dget c ''request'' = JObj (listed request_fields (obj_of (dget (obj_of v) ''request'')))"
proof (cases v)
  case (JObj d)
  assume "validate_pending_attempt E v = Inr c"
  then obtain req pol where "check_attempt_request (dget d ''request'') = Inr req" "c = checked_attempt d req pol"
    unfolding JObj validated_attempt_Inr by blast
  then show ?thesis unfolding attempt_request_Inr JObj by (simp add: dget_checked)
qed (simp_all add: validate_pending_attempt_def bindE_raiseIf Let_def)

section \<open>Resolution\<close>

text \<open>An update replaces the attempt by the checked one, or touches nothing.\<close>

lemma update_outcome:
  assumes "update_pending_attempt E D d changes w = (r, w')"
  obtains (stopped) e where "r = Inl e" "entries_kept D {} w w'"
  | (updated) now c where "r = Inr c"
      "validate_pending_attempt E (JObj (dput (dmerge d changes) ''updated_at'' (JStr now))) = Inr c"
      "entries_kept D {''pending-attempt.json''} w w'"
      "wf_json (JObj c) \<longrightarrow> read_document w' (pending_path D) = Inr (jsort (JObj c))"
      "\<not> is_symlink w (pending_path D) \<longrightarrow> \<not> is_symlink w' (pending_path D)"
proof -
  obtain now w1 where w1: "utc_now w = (Inr now, w1)" by (simp add: utc_now_def)
  let ?v = "JObj (dput (dmerge d changes) ''updated_at'' (JStr now))"
  have e1: "entries_kept D S w w1" for S by (rule now_entries [OF w1])
  have run: "write_pending_attempt E D (dput (dmerge d changes) ''updated_at'' (JStr now)) w1 = (r, w')"
    using assms by (simp add: update_pending_attempt_def bindM_run(1) [where m = utc_now, OF w1])
  show thesis
  proof (cases "validate_pending_attempt E ?v")
    case (Inl e)
    with run have "r = Inl e" "w' = w1" by (simp_all add: write_pending_attempt_def)
    with e1 show thesis by (intro stopped) simp_all
  next
    case (Inr c)
    with run have "bindM (make_dirs D) (\<lambda>_. bindM (durable_atomic_json (pending_path D) (JObj c)) (\<lambda>_. retM c)) w1 = (r, w')"
      by (simp add: write_pending_attempt_def)
    then show thesis
    proof (cases rule: bindM_cases)
      case (fails e)
      then show thesis using stopped entries.R_trans [OF e1 make_dirs_entries] by blast
    next
      case (continues u w2)
      have e2: "entries_kept D {} w w2" by (rule entries.R_trans [OF e1 make_dirs_entries [OF continues(1)]])
      from continues(2) show thesis
      proof (cases rule: bindM_cases)
        case (fails e)
        then show thesis
          using stopped entries.R_trans [OF e2 put_file_stopped] by (auto simp: durable_atomic_json_def)
      next
        case continues2: (continues u w3)
        then have saved: "durable_atomic_json (pending_path D) (JObj c) w2 = (Inr (), w')" and r: "r = Inr c" by simp_all
        have kept: "lstat w2 (pending_path D) = lstat w (pending_path D)"
          unfolding pending_path_def by (rule entries_keptD [OF e2]) simp
        have "entries_kept D {''pending-attempt.json''} w2 w'"
          using saved unfolding durable_atomic_json_def pending_path_def by (rule put_file_entries)
        with entries_kept_mono [OF e2] have "entries_kept D {''pending-attempt.json''} w w'"
          by (meson entries.R_trans empty_subsetI)
        moreover have "\<not> is_symlink w' (pending_path D)" if "\<not> is_symlink w (pending_path D)"
          using put_file_node [OF saved [unfolded durable_atomic_json_def]] that kept
          by (auto simp: is_symlink_def split: option.splits node.splits)
        ultimately show thesis using updated [OF r Inr] durable_json.written [OF saved] by blast
      qed
    qed
  qed
qed

lemma load_none_or_some:
  "entries_kept D {} w w' \<Longrightarrow> load_pending_attempt E w' D = load_pending_attempt E w D
     \<and> read_document w' (last_result_path D) = read_document w (last_result_path D)"
  using load_kept [OF entries_kept_mono] read_document_lstat [OF entries_keptD, of D "{}" w w']
  by (auto simp: last_result_path_def)

lemma terminal_loads:
  assumes "read_document w (pending_path D) = Inr v" "validate_pending_attempt E v = Inr t"
    "\<not> is_symlink w (pending_path D)" "dget t ''phase'' = JStr ''TERMINAL''"
    and "entries_kept D {''last-result.json'', ''pending-submission.tar''} w w'"
  shows "load_pending_attempt E w' D = Inr (Some t)"
proof -
  have "lstat w' (pending_path D) = lstat w (pending_path D)"
    unfolding pending_path_def by (rule entries_keptD [OF assms(5)]) simp
  with assms(1,3) have "read_document w' (pending_path D) = Inr v" "\<not> is_symlink w' (pending_path D)"
    using read_document_lstat [of w' "pending_path D" w] by (simp_all add: is_symlink_def)
  then show ?thesis using assms(2,4) by (rule load_terminal)
qed

lemma retire_outcome:
  assumes "retire_pending_attempt D w = (r, w')"
  shows "entries_kept D {''pending-submission.tar'', ''pending-attempt.json''} w w'
    \<and> (entries_kept D {''pending-submission.tar''} w w' \<and> (\<exists>e. r = Inl e) \<or> lstat w' (pending_path D) = None)"
  using assms unfolding retire_pending_attempt_def
proof (cases rule: bindM_cases)
  case (fails e)
  from unlink_stopped [OF fails(1)] show ?thesis using fails(2) by (blast intro: entries_kept_mono)
next
  case (continues u w1)
  have e1: "entries_kept D {''pending-submission.tar''} w w1"
    using continues(1) unfolding archive_path_def by (rule unlink_entries)
  from continues(2) show ?thesis
  proof (cases rule: bindM_cases)
    case (fails e)
    have "entries_kept D {''pending-submission.tar''} w w'"
      by (rule entries.R_trans [OF e1 entries_kept_mono [OF unlink_stopped [OF fails(1)]]]) simp
    with fails(2) show ?thesis by (blast intro: entries_kept_mono)
  next
    case (continues u w2)
    have gone: "lstat w2 (pending_path D) = None" by (rule unlink_done [OF continues(1)])
    have "lstat w' (pending_path D) = None"
      using entries_keptD [OF fsync_entries [OF continues(2)], of "''pending-attempt.json''" D] gone
      by (simp add: pending_path_def)
    moreover have "entries_kept D {''pending-submission.tar'', ''pending-attempt.json''} w w'"
      by (rule entries.R_trans [OF entries_kept_mono [OF e1]], simp,
        rule entries.R_trans [OF entries_kept_mono [OF unlink_entries [OF continues(1) [unfolded pending_path_def]]]], simp,
        rule entries_kept_mono [OF fsync_entries [OF continues(2)]], simp)
    ultimately show ?thesis by simp
  qed
qed

text \<open>C38: wherever the resolution of an attempt breaks off, by an error of the device, an error of the
  code or the loss of the process, the state directory is in one of three states. Nothing has
  happened; or the stored attempt is \<open>TERMINAL\<close>, carries the redacted result, belongs to the same
  request and is accepted by the next run (which needs the archive no more, so it may be gone); or
  the attempt is gone and \<open>last-result.json\<close> has the result. The call returns only in the last.
\<close>

theorem resolution_survives_crash:
  assumes "load_pending_attempt E w D = Inr (Some d)"
    and "wf_json (JObj result)"
    and "resolve_pending_attempt E D d result w = (r, w')"
  shows "((\<exists>e. r = Inl e) \<and> load_pending_attempt E w' D = Inr (Some d)
        \<and> read_document w' (last_result_path D) = read_document w (last_result_path D))
     \<or> ((\<exists>e. r = Inl e) \<and> (\<exists>t. load_pending_attempt E w' D = Inr (Some t) \<and> dget t ''phase'' = JStr ''TERMINAL''
          \<and> dget t ''terminal_result'' = jsort (JObj (redact_result result)) \<and> dget t ''request'' = dget d ''request''))
     \<or> (load_pending_attempt E w' D = Inr None
        \<and> read_document w' (last_result_path D) = Inr (jsort (JObj (redact_result result)))
        \<and> (\<forall>x. r = Inr x \<longrightarrow> x = redact_result result))"
    (is "?before \<or> ?terminal \<or> ?after")
proof -
  let ?changes = "[(''phase'', JStr ''TERMINAL''), (''terminal_result'', JObj (redact_result result))]"
  obtain v where v: "validate_pending_attempt E v = Inr d" "\<not> is_symlink w (pending_path D)"
    using assms(1) by (rule loaded_attempt)
  have wf_d: "wf_json (JObj d)" by (rule loaded_wf [OF assms(1)])
  have wf_r: "wf_json (JObj (redact_result result))" by (rule wf_redact_result [OF assms(2)])
  from assms(3) show ?thesis unfolding resolve_pending_attempt_def
  proof (cases rule: bindM_cases)
    case (fails e)
    from fails(1) have "entries_kept D {} w w'" by (rule update_outcome) simp_all
    with load_none_or_some assms(1) fails(2) show ?thesis by fastforce
  next
    case (continues c w1)
    from continues(1) obtain now where
      c: "validate_pending_attempt E (JObj (dput (dmerge d ?changes) ''updated_at'' (JStr now))) = Inr c"
      and kept: "entries_kept D {''pending-attempt.json''} w w1"
      and written: "wf_json (JObj c) \<longrightarrow> read_document w1 (pending_path D) = Inr (jsort (JObj c))"
      and link: "\<not> is_symlink w1 (pending_path D)"
      by (rule update_outcome) (use v(2) in simp_all)
    let ?u = "dput (dmerge d ?changes) ''updated_at'' (JStr now)"
    have wf_u: "wf_json (JObj ?u)" using wf_d wf_r by (simp only: dmerge_simps) (intro wf_obj_dput; simp)
    obtain t where t: "validate_pending_attempt E (jsort (JObj c)) = Inr t" "wf_json (JObj c)"
      "\<And>f. f \<noteq> ''request'' \<Longrightarrow> dget t f = jsort (dget c f)" "dget t ''request'' = dget c ''request''"
      by (rule attempt_reloads [OF c wf_u]) blast
    obtain req pol where cc: "c = checked_attempt ?u req pol" using c unfolding validated_attempt_Inr by blast
    have fields: "dget c ''phase'' = JStr ''TERMINAL''" "dget c ''terminal_result'' = JObj (redact_result result)"
      unfolding cc by (simp_all add: dget_checked redact_JObj del: redact.simps)
    have request: "dget c ''request'' = dget d ''request''"
      using checked_request [OF c] checked_request [OF v(1)] by simp
    have t_fields: "dget t ''phase'' = JStr ''TERMINAL''" "dget t ''terminal_result'' = jsort (JObj (redact_result result))"
      "dget t ''request'' = dget d ''request''"
      using t(3) [of "''phase''"] t(3) [of "''terminal_result''"] t(4) fields request by (simp_all del: jsort.simps(2))
    have loads: "load_pending_attempt E w2 D = Inr (Some t)"
      if "entries_kept D {''last-result.json'', ''pending-submission.tar''} w1 w2" for w2
      by (rule terminal_loads [OF _ t(1) link t_fields(1) that]) (use written t(2) in simp)
    have stop: ?terminal if "\<exists>e. r = Inl e" "entries_kept D {''last-result.json'', ''pending-submission.tar''} w1 w'"
      using that(1) loads [OF that(2)] t_fields by blast
    from continues(2) show ?thesis
    proof (cases rule: bindM_cases)
      case (fails e)
      then show ?thesis
        using stop entries_kept_mono [OF put_file_stopped] by (auto simp: write_last_result_def durable_atomic_json_def)
    next
      case (continues u w2)
      have saved: "durable_atomic_json (last_result_path D) (JObj (redact_result result)) w1 = (Inr u, w2)"
        using continues(1) by (simp add: write_last_result_def)
      have e12: "entries_kept D {''last-result.json''} w1 w2"
        using saved unfolding durable_atomic_json_def last_result_path_def by (rule put_file_entries)
      have result: "read_document w2 (last_result_path D) = Inr (jsort (JObj (redact_result result)))"
        using durable_json.written [OF _ wf_r] saved by simp
      obtain r2 w3 where retire: "retire_pending_attempt D w2 = (r2, w3)" by (cases "retire_pending_attempt D w2")
      have w': "w' = w3" and r: "\<And>e. r2 = Inl e \<Longrightarrow> r = Inl e" "\<And>x. r = Inr x \<Longrightarrow> x = redact_result result"
        using continues(2) retire fields(2) by (auto simp: bindM_def split: sum.splits)
      have last: "read_document w3 (last_result_path D) = Inr (jsort (JObj (redact_result result)))"
      proof -
        have "lstat w3 (last_result_path D) = lstat w2 (last_result_path D)"
          unfolding last_result_path_def by (rule entries_keptD [OF conjunct1 [OF retire_outcome [OF retire]]]) simp
        then show ?thesis using result read_document_lstat by metis
      qed
      from conjunct2 [OF retire_outcome [OF retire]] show ?thesis
      proof
        assume 1: "entries_kept D {''pending-submission.tar''} w2 w3 \<and> (\<exists>e. r2 = Inl e)"
        have "entries_kept D {''last-result.json'', ''pending-submission.tar''} w1 w'"
          unfolding w' by (rule entries.R_trans [OF entries_kept_mono [OF e12] entries_kept_mono [OF conjunct1 [OF 1]]]) simp_all
        with 1 r(1) stop show ?thesis by metis
      next
        assume "lstat w3 (pending_path D) = None"
        with last r(2) load_gone show ?thesis unfolding w' by blast
      qed
    qed
  qed
qed

section \<open>A concrete attempt\<close>

definition attempt_env :: env where
  "attempt_env = sample_env\<lparr>digest := (\<lambda>c. replicate 64 (CHR ''b''))\<rparr>"

definition sample_policy :: dict where
  "sample_policy =
    [(''schema_version'', JInt 1), (''homeops_version'', JStr ''1''), (''source_revision'', JStr ''r''),
     (''image_digest'', JStr ''i''), (''snapshot_schema_version'', JInt 1),
     (''snapshot_contract_version'', JStr ''homeops-snapshot-v1''), (''build_schema_version'', JInt 1),
     (''build_contract_version'', JStr ''homeops-build-v1''), (''evaluation_suite_sha256'', JList [])]"

definition sample_identity :: dict where
  "sample_identity =
    [(''snapshot_id'', JStr (replicate 64 (CHR ''a''))), (''source_fingerprint'', JStr (replicate 64 (CHR ''a''))),
     (''artifact_fingerprint'', JStr (replicate 64 (CHR ''b''))), (''logical_fingerprint'', JStr (replicate 64 (CHR ''c'')))]"

definition sample_attempt :: "string \<Rightarrow> dict" where
  "sample_attempt phase =
    [(''schema_version'', JInt 1), (''protocol'', JStr receiver_protocol), (''phase'', JStr phase),
     (''request'', JObj sample_request), (''snapshot'', JObj sample_identity), (''release_policy'', JObj sample_policy),
     (''archive_sha256'', JStr (replicate 64 (CHR ''b''))),
     (''candidate_deployment_id'', JStr (replicate 64 (CHR ''c''))),
     (''promotion_policy_id'', JStr (replicate 64 (CHR ''c''))),
     (''created_at'', JStr ''t''), (''updated_at'', JStr ''t''), (''terminal_result'', JNull)]"

lemma sample_policy_ok: "validate_policy (JObj sample_policy) = Inr sample_policy"
  by (simp add: validate_policy_def sample_policy_def same_fields_def policy_fields_def raiseIf_def positive_int_def
      bad_suites_def sorted_set_def)

lemma sample_attempt_ok:
  assumes "phase \<in> set attempt_phases" "phase \<noteq> ''TERMINAL''"
  shows "validate_pending_attempt attempt_env (JObj (sample_attempt phase)) = Inr (sample_attempt phase)"
  unfolding validated_attempt_Inr
proof (rule exI [of _ sample_request], rule exI [of _ sample_policy], intro conjI)
  let ?d = "sample_attempt phase"
  have get: "dget ?d ''request'' = JObj sample_request" "dget ?d ''snapshot'' = JObj sample_identity"
    "dget ?d ''release_policy'' = JObj sample_policy" by (simp_all add: sample_attempt_def)
  show "same_fields ?d attempt_fields" by (simp add: same_fields_def sample_attempt_def attempt_fields_def)
  show "check_attempt_schema ?d = Inr ()" using assms
    by (simp add: check_attempt_schema_def sample_attempt_def raiseIf_def)
  show "check_attempt_request (dget ?d ''request'') = Inr sample_request"
    unfolding get attempt_request_Inr using sample_request_ok
    by (simp add: listed_def request_fields_def same_fields_def sample_request_def)
  show "check_attempt_snapshot (dget ?d ''snapshot'') sample_request = Inr ()"
    unfolding get by (simp add: check_attempt_snapshot_def sample_identity_def same_fields_def snapshot_fields_def
        raiseIf_def is_sha_json_def sample_text sample_request_def)
  show "validate_policy (dget ?d ''release_policy'') = Inr sample_policy" unfolding get by (rule sample_policy_ok)
  show "dget sample_request ''release_policy_id'' = JStr (policy_id attempt_env sample_policy)"
    by (simp add: sample_request_def policy_id_def sha256_json_def attempt_env_def)
  show "is_sha_json (dget ?d ''archive_sha256'')" by (simp add: sample_attempt_def is_sha_json_def sample_text)
  show "check_commit_identity ?d = Inr ()"
    by (simp add: check_commit_identity_def sample_attempt_def raiseIf_def is_sha_json_def sample_text)
  show "\<forall>f \<in> {''created_at'', ''updated_at''}. is_str (dget ?d f) \<and> truthy (dget ?d f)"
    by (simp add: sample_attempt_def)
  show "check_terminal ?d = Inr ()" using assms(2) by (simp add: check_terminal_def sample_attempt_def raiseIf_def)
  show "?d = checked_attempt ?d sample_request sample_policy"
    by (simp add: checked_attempt_def sample_attempt_def dput_def)
qed

definition attempt_world :: "string \<Rightarrow> fault list \<Rightarrow> world" where
  "attempt_world phase script =
    \<lparr>tree = [([''s''], Dir), ([''s'', ''pending-attempt.json''], File (receiver_json_bytes (JObj (sample_attempt phase)))),
        ([''s'', ''pending-submission.tar''], File ''archive'')],
     faults = script, holders = [], clock = (\<lambda>n. ''t''), ticks = 0, pid = 1\<rparr>"

lemma sample_attempt_wf: "wf_json (JObj (sample_attempt phase))"
  by (simp add: sample_attempt_def sample_request_def sample_identity_def sample_policy_def)

lemma attempt_world_loads:
  assumes "phase \<in> set attempt_phases" "phase \<noteq> ''TERMINAL''"
  shows "load_pending_attempt attempt_env (attempt_world phase script) [''s''] = Inr (Some (sample_attempt phase))"
proof -
  let ?w = "attempt_world phase script"
  have at: "file_at ?w [''s'', ''pending-attempt.json''] = Some (receiver_json_bytes (JObj (sample_attempt phase)))"
    by (simp add: attempt_world_def file_at_def stat_def lstat_def)
  have "read_document ?w (pending_path [''s'']) = Inr (JObj (sample_attempt phase))"
    using read_text_ascii [OF at ascii_receiver] strict_json_loads_receiver [OF sample_attempt_wf]
    by (simp add: read_document_def pending_path_def)
  moreover have "exists_path ?w (pending_path [''s''])" "\<not> is_symlink ?w (pending_path [''s''])"
    "archive_intact attempt_env ?w [''s''] (sample_attempt phase)"
    by (simp_all add: attempt_world_def exists_path_def is_symlink_def stat_def lstat_def pending_path_def archive_path_def
        archive_intact_def is_file_def file_sha256_def read_bytes_def attempt_env_def sample_attempt_def)
  ultimately show ?thesis
    by (simp add: load_pending_attempt_def rewrap_def raiseIf_def sample_attempt_ok [OF assms])
qed

text \<open>The process dies at the fourth write: the archive is gone, the attempt is not.\<close>

lemma resolution_survives_crash_witness:
  "let w = attempt_world ''COMMITTING'' [Fine, Fine, Fine, Halt]; d = sample_attempt ''COMMITTING'';
       result = [(''outcome'', JStr ''PROMOTED'')]; x = resolve_pending_attempt attempt_env [''s''] d result w
   in load_pending_attempt attempt_env (snd x) [''s''] = Inr (Some d)
        \<or> (\<exists>t. load_pending_attempt attempt_env (snd x) [''s''] = Inr (Some t) \<and> dget t ''phase'' = JStr ''TERMINAL'')
        \<or> load_pending_attempt attempt_env (snd x) [''s''] = Inr None"
  using resolution_survives_crash [of attempt_env "attempt_world ''COMMITTING'' [Fine, Fine, Fine, Halt]" "[''s'']"
      "sample_attempt ''COMMITTING''" "[(''outcome'', JStr ''PROMOTED'')]", OF attempt_world_loads _ prod.collapse [symmetric]]
  by (simp add: attempt_phases_def Let_def del: jsort.simps) blast



end
