(* ===== verification/PublisherProps.thy ===== *)
theory PublisherProps
  imports Publisher AttemptProps
begin

text \<open>
  The workstation coordinator over its traces. \<open>recorded\<close> adds to the surroundings a list of what
  happens outside: the requests to the receiver and the states of the vault that are inspected, in
  their order. The statements are about every surroundings, so about every answer of the receiver
  and every edit of the vault.
\<close>

section \<open>Traces\<close>

datatype event = Looked world | Asked string string

definition recorded :: "'r surroundings \<Rightarrow> ('r \<times> event list) surroundings" where
  "recorded G =
    \<lparr>env_of = env_of G, package_version = package_version G,
     ssh = (\<lambda>verb body (r, log). case ssh G verb body r of (reply, n, r') \<Rightarrow> (reply, n, (r', log @ [Asked verb body]))),
     hang_up = (\<lambda>(r, log). case hang_up G r of (e, r') \<Rightarrow> (e, (r', log))),
     drift = (\<lambda>(r, log) w. case drift G r w of (w', r') \<Rightarrow> (w', (r', log @ [Looked w']))),
     new_uuid = new_uuid G, new_token = new_token G, tar_bytes = tar_bytes G,
     control_dir = control_dir G, temp_dir = temp_dir G\<rparr>"

lemma recorded_simps [simp]:
  "env_of (recorded G) = env_of G" "control_dir (recorded G) = control_dir G" "temp_dir (recorded G) = temp_dir G"
  "new_uuid (recorded G) = new_uuid G" "tar_bytes (recorded G) = tar_bytes G"
  by (simp_all add: recorded_def)

type_synonym 'r traced = "('r \<times> event list) site"

definition trace :: "'r traced \<Rightarrow> event list" where
  "trace s = snd (far s)"

fun is_commit :: "event \<Rightarrow> bool" where
  "is_commit (Asked verb body) \<longleftrightarrow> verb = ''commit''"
| "is_commit (Looked w) \<longleftrightarrow> False"

text \<open>The trace grows, and no new event is a commit.\<close>

definition quiet :: "'r traced \<Rightarrow> 'r traced \<Rightarrow> bool" where
  "quiet s t \<longleftrightarrow> (\<exists>es. trace t = trace s @ es \<and> list_all (\<lambda>e. \<not> is_commit e) es)"

interpretation quiet: step_preorder quiet
  by unfold_locales (auto simp: quiet_def)

lemma quiet_same: "trace t = trace s \<Longrightarrow> quiet s t"
  by (simp add: quiet_def)

lemma trace_home: "at_home m s = (r, t) \<Longrightarrow> trace t = trace s"
  by (auto simp: at_home_def trace_def split: prod.splits)

lemma quiet_home: "keeps quiet (at_home m)"
  by (auto intro!: keepsI quiet_same trace_home)

lemma ask_trace: "ask_receiver (recorded G) verb body s = (r, t) \<Longrightarrow> trace t = trace s @ [Asked verb body]"
  by (auto simp: ask_receiver_def recorded_def trace_def split: prod.splits)

lemma quiet_ask: "verb \<noteq> ''commit'' \<Longrightarrow> keeps quiet (ask_receiver (recorded G) verb body)"
  by (rule keepsI) (auto simp: quiet_def dest!: ask_trace)

lemma quiet_edited: "keeps quiet (edited (recorded G))"
  by (rule keepsI) (auto simp: quiet_def edited_def recorded_def trace_def split: prod.splits)

lemma quiet_call: "verb \<noteq> ''commit'' \<Longrightarrow> keeps quiet (call (recorded G) verb body)"
  unfolding call_def by (intro quiet.keeps_intros quiet_home quiet_ask)

lemma quiet_current: "keeps quiet (current (recorded G))"
  unfolding current_def by (intro quiet.keeps_intros quiet_call) simp

lemma quiet_look: "keeps quiet (look (recorded G) vault)"
  unfolding look_def by (intro quiet.keeps_intros quiet_home quiet_edited)

lemma quiet_poll_once: "keeps quiet (poll_once (recorded G) request only)"
  unfolding poll_once_def by (intro quiet.keeps_intros quiet_call) simp

text \<open>What every round of the polling loop keeps is kept by the loop.\<close>

lemma poll_keeps:
  assumes R: "step_preorder R" "\<And>k u. R u (pause k u)" and once: "keeps R (poll_once G request only)"
  shows "keeps R (poll G request deadline only n)"
proof (rule keepsI)
  fix s r t assume "poll G request deadline only n s = (r, t)"
  then show "R s t" using once
  proof (induction G request deadline only n s arbitrary: r t rule: poll.induct)
    case (1 G request deadline only n s)
    note here = step_preorder.R_refl [OF R(1)] and trans = step_preorder.R_trans [OF R(1)]
    show ?case
    proof (cases "deadline \<le> moment s")
      case True
      with 1(2) here show ?thesis by (simp add: poll.simps)
    next
      case False
      obtain a u where round: "poll_once G request only s = (a, u)" by (cases "poll_once G request only s")
      have "R s u" by (rule keepsD [OF 1(3) round])
      moreover have "R (pause (delay_of n) u) t" if "a = Inr None"
        by (rule 1(1) [OF False round [symmetric] that refl _ 1(3)])
          (use 1(2) False round that in \<open>simp add: poll.simps [of G request deadline only n s]\<close>)
      ultimately have "R s t" if "a = Inr None" using that R(2) trans by metis
      with \<open>R s u\<close> show ?thesis using 1(2) False round
        by (cases a) (auto simp: poll.simps [of G request deadline only n s] split: option.splits)
    qed
  qed
qed

lemma quiet_poll: "keeps quiet (poll (recorded G) request deadline only n)"
  by (rule poll_keeps [OF quiet.step_preorder_axioms _ quiet_poll_once]) (simp add: quiet_def pause_def trace_def)

lemma quiet_resolve: "keeps quiet (resolve G D d result)" "keeps quiet (advance G D d changes)"
  unfolding resolve_def advance_def by (rule quiet_home)+

lemma quiet_source: "keeps quiet (source_matches_pending (recorded G) vault d)"
  unfolding source_matches_pending_def by (intro quiet.keeps_intros quiet_look)

lemma quiet_authorized: "keeps quiet (still_authorized (recorded G) vault d policy)"
  unfolding still_authorized_def by (intro keeps_if quiet.keeps_intros quiet_source)

lemma quiet_terminal: "keeps quiet (validate_remote_terminal (recorded G) d terminal)"
  unfolding validate_remote_terminal_def Let_def by (intro keeps_if quiet.keeps_intros quiet_current)

lemma quiet_changed: "keeps quiet (resolve_changed G D d diagnostic)"
  unfolding resolve_changed_def by (intro quiet.keeps_intros quiet_home quiet_resolve)

lemmas quiet_intros = keeps_if quiet.keeps_intros quiet_home quiet_call quiet_poll quiet_resolve quiet_source
  quiet_authorized quiet_terminal quiet_changed

lemma quiet_submit: "keeps quiet (submit_attempt (recorded G) D d)"
  unfolding submit_attempt_def by (intro quiet_intros) simp

lemma quiet_candidate: "keeps quiet (await_candidate (recorded G) vault D deadline d)"
  unfolding await_candidate_def by (intro quiet_intros)

lemma quiet_await: "keeps quiet (await_authorization (recorded G) vault D deadline policy d)"
  unfolding await_authorization_def by (intro quiet_intros)

lemma quiet_finish: "keeps quiet (await_terminal (recorded G) vault D deadline d)"
  unfolding await_terminal_def by (intro quiet_intros)

section \<open>What an attempt keeps while it advances\<close>

definition same_attempt :: "dict \<Rightarrow> dict \<Rightarrow> bool" where
  "same_attempt d d' \<longleftrightarrow> dget d' ''snapshot'' = dget d ''snapshot''
     \<and> dget d' ''release_policy'' = dget d ''release_policy''
     \<and> (\<forall>f \<in> set request_fields. dget (request_of d') f = dget (request_of d) f)"

lemma same_attempt_refl: "same_attempt d d"
  by (simp add: same_attempt_def)

lemma same_attempt_trans: "same_attempt a b \<Longrightarrow> same_attempt b c \<Longrightarrow> same_attempt a c"
  by (simp add: same_attempt_def)

lemma advance_attempt:
  assumes "advance G D d changes s = (Inr d', t)"
    and "distinct (dkeys changes)"
    and "set (dkeys changes) \<inter> {''snapshot'', ''release_policy'', ''request'', ''updated_at''} = {}"
  shows "same_attempt d d'" "dget d' ''phase'' = dget (dmerge d changes) ''phase''"
proof -
  obtain w' where run: "update_pending_attempt (env_of G) D d changes (home s) = (Inr d', w')"
    using assms(1) by (auto simp: advance_def at_home_def split: prod.splits)
  obtain now where c: "validate_pending_attempt (env_of G) (JObj (dput (dmerge d changes) ''updated_at'' (JStr now))) = Inr d'"
    using run by (rule update_outcome) auto
  let ?u = "dput (dmerge d changes) ''updated_at'' (JStr now)"
  have get: "dget ?u f = dget d f" if "f \<in> {''snapshot'', ''release_policy'', ''request''}" for f
    using that assms(2,3) by (auto simp: dget_dmerge)
  obtain req pol where d': "d' = checked_attempt ?u req pol" "validate_policy (dget ?u ''release_policy'') = Inr pol"
    "check_attempt_request (dget ?u ''request'') = Inr req"
    using c unfolding validated_attempt_Inr by blast
  have "req = listed request_fields (request_of d)"
    using d'(3) get [of "''request''"] unfolding attempt_request_Inr request_of_def by simp
  then have "dget (request_of d') f = dget (request_of d) f" if "f \<in> set request_fields" for f
    using that unfolding d'(1) request_of_def [of "checked_attempt ?u req pol"] by (simp add: dget_checked dget_listed)
  moreover have "dget d' ''release_policy'' = dget d ''release_policy''"
    using validated_policy [OF d'(2)] get [of "''release_policy''"] unfolding d'(1) by (simp add: dget_checked)
  moreover have "dget d' ''snapshot'' = dget d ''snapshot''"
    using get [of "''snapshot''"] unfolding d'(1) by (simp add: dget_checked)
  ultimately show "same_attempt d d'" by (simp add: same_attempt_def)
  show "dget d' ''phase'' = dget (dmerge d changes) ''phase''" unfolding d'(1) by (simp add: dget_checked)
qed

lemma commit_body_same: "same_attempt d d' \<Longrightarrow> commit_body (request_of d') c = commit_body (request_of d) c"
  by (simp add: same_attempt_def commit_body_def request_fields_def)

lemma submit_same: "submit_attempt G D d s = (Inr d', t) \<Longrightarrow> same_attempt d d'"
  unfolding submit_attempt_def
  by (auto simp: bindM_eq_Inr same_attempt_refl split: if_splits
      dest!: advance_attempt(1) intro: same_attempt_trans)

lemma candidate_same: "await_candidate G vault D deadline d s = (Inr (Inr d'), t) \<Longrightarrow> same_attempt d d'"
  unfolding await_candidate_def
  by (auto simp: bindM_eq_Inr same_attempt_refl split: if_splits dest!: advance_attempt(1))

section \<open>A commit needs a matching vault\<close>

text \<open>The vault is seen without errors and with the fingerprints of the attempt.\<close>

definition shows_source :: "env \<Rightarrow> path \<Rightarrow> dict \<Rightarrow> world \<Rightarrow> bool" where
  "shows_source E vault d w \<longleftrightarrow>
     (\<exists>seen. inspect_vault E w vault = Inr seen \<and> vault_errors seen = Inr False
       \<and> same_fingerprints seen (obj_of (dget d ''snapshot'')))"

lemma source_check:
  assumes "source_matches_pending (recorded G) vault d s = (Inr True, t)"
  shows "\<exists>w. trace t = trace s @ [Looked w] \<and> shows_source (env_of G) vault d w"
  using assms
  by (auto simp: source_matches_pending_def look_def bindM_eq_Inr edited_def at_home_def askM_def recorded_def trace_def
      shows_source_def split: prod.splits)

definition authorized :: "'r surroundings \<Rightarrow> path \<Rightarrow> dict \<Rightarrow> dict \<Rightarrow> 'r traced \<Rightarrow> 'r traced \<Rightarrow> bool" where
  "authorized G vault d policy s t \<longleftrightarrow> policy_current d policy
     \<and> (\<exists>zs w. trace t = trace s @ zs @ [Looked w] \<and> list_all (\<lambda>e. \<not> is_commit e) zs \<and> shows_source (env_of G) vault d w)"

lemma authorized_after: "quiet s t \<Longrightarrow> authorized G vault d policy t u \<Longrightarrow> authorized G vault d policy s u"
  by (force simp: authorized_def quiet_def)

lemma authorized_same: "same_attempt d d' \<Longrightarrow> authorized G vault d' policy s t = authorized G vault d policy s t"
  by (simp add: authorized_def same_attempt_def policy_current_def shows_source_def)

lemma await_result:
  assumes "await_authorization (recorded G) vault D deadline policy d s = (Inr (Inr d'), t)"
    and "in_phase d' [''COMMITTING'']"
  shows "d' = d \<and> authorized G vault d policy s t"
proof (cases "in_phase d [''COMMITTING'']")
  case False
  with assms show ?thesis by (simp add: await_authorization_def)
next
  case True
  with assms(1) obtain status u where polled: "poll (recorded G) (request_of d) deadline False 0 s = (Inr status, u)"
    and rest: "(if is_terminal status then
          bindM (validate_remote_terminal (recorded G) d status) (\<lambda>_.
          bindM (if dget status ''outcome'' = JStr ''PROMOTED'' then still_authorized (recorded G) vault d policy else retM True) (\<lambda>same.
          bindM (resolve (recorded G) D d (if same then status else moved_result status)) (\<lambda>r. retM (Inl r))))
        else
          bindM (liftM (raiseIf (dget status ''outcome'' \<noteq> JStr ''CANDIDATE_READY'')
            (TransportError ''remote processor returned an invalid pending status''))) (\<lambda>_.
          if dget status ''_commit_accepted'' = JBool True then
            bindM (advance (recorded G) D d [(''phase'', JStr ''COMMIT_REQUESTED'')]) (\<lambda>d. retM (Inr d))
          else
            bindM (still_authorized (recorded G) vault d policy) (\<lambda>same.
            if same then retM (Inr d)
            else bindM (resolve_changed (recorded G) D d ''pending commit authorization is no longer current'')
              (\<lambda>r. retM (Inl r))))) u = (Inr (Inr d'), t)"
    by (auto simp: await_authorization_def bindM_eq_Inr)
  have "quiet s u" by (rule keepsD [OF quiet_poll polled])
  from rest consider
      "advance (recorded G) D d [(''phase'', JStr ''COMMIT_REQUESTED'')] u = (Inr d', t)"
    | "d' = d" "still_authorized (recorded G) vault d policy u = (Inr True, t)"
    by (auto simp: bindM_eq_Inr split: if_splits)
  then show ?thesis
  proof cases
    case 1
    from advance_attempt(2) [OF 1] assms(2) show ?thesis by (simp add: in_phase_def)
  next
    case 2
    from 2(2) have "policy_current d policy" "source_matches_pending (recorded G) vault d u = (Inr True, t)"
      by (auto simp: still_authorized_def split: if_splits)
    with source_check have "authorized G vault d policy u t" by (fastforce simp: authorized_def)
    with authorized_after [OF \<open>quiet s u\<close>] 2(1) show ?thesis by simp
  qed
qed

lemma call_trace:
  assumes "call (recorded G) verb body s = (r, t)"
  shows "trace t = trace s \<or> trace t = trace s @ [Asked verb body]"
  using assms unfolding call_def
proof (cases rule: bindM_cases)
  case (continues u s1)
  from continues(2) show ?thesis
  proof (cases rule: bindM_cases)
    case (fails e)
    with continues(1) trace_home show ?thesis by fastforce
  next
    case continues2: (continues u s2)
    then have same: "trace s2 = trace s" using continues(1) trace_home by fastforce
    from continues2(2) obtain reply where "ask_receiver (recorded G) verb body s2 = (reply, t)"
      by (auto simp: bindM_def ask_receiver_def split: prod.splits)
    with ask_trace same show ?thesis by metis
  qed
qed simp

lemma send_trace:
  assumes "send_commit (recorded G) D d s = (r, t)"
  shows "trace t = trace s \<or> (in_phase d [''COMMITTING'']
    \<and> trace t = trace s @ [Asked ''commit'' (commit_body (request_of d) (dget d ''candidate_deployment_id''))])"
    and "r = Inr d' \<Longrightarrow> same_attempt d d'"
proof -
  have "trace t = trace s" if "\<not> in_phase d [''COMMITTING'']"
    using assms that by (simp add: send_commit_def)
  moreover have "trace t = trace s \<or> trace t = trace s @ [Asked ''commit'' (commit_body (request_of d) (dget d ''candidate_deployment_id''))]"
    if "in_phase d [''COMMITTING'']"
  proof -
    obtain r1 u where asked: "call (recorded G) ''commit'' (commit_body (request_of d) (dget d ''candidate_deployment_id'')) s = (r1, u)"
      by (cases "call (recorded G) ''commit'' (commit_body (request_of d) (dget d ''candidate_deployment_id'')) s")
    have "trace t = trace u" using assms that asked
      by (auto simp: send_commit_def bindM_def raiseIf_def advance_def split: sum.splits if_splits prod.splits dest: trace_home)
    with call_trace [OF asked] show ?thesis by simp
  qed
  ultimately show "trace t = trace s \<or> (in_phase d [''COMMITTING'']
    \<and> trace t = trace s @ [Asked ''commit'' (commit_body (request_of d) (dget d ''candidate_deployment_id''))])" by blast
  show "r = Inr d' \<Longrightarrow> same_attempt d d'"
    using assms by (auto simp: send_commit_def bindM_eq_Inr same_attempt_refl split: if_splits dest!: advance_attempt(1))
qed

definition committed :: "'r surroundings \<Rightarrow> path \<Rightarrow> dict \<Rightarrow> dict \<Rightarrow> 'r traced \<Rightarrow> 'r traced \<Rightarrow> bool" where
  "committed G vault d policy s t \<longleftrightarrow> policy_current d policy
     \<and> (\<exists>zs w c ys. trace t = trace s @ zs @ [Looked w, Asked ''commit'' (commit_body (request_of d) c)] @ ys
          \<and> list_all (\<lambda>e. \<not> is_commit e) zs \<and> list_all (\<lambda>e. \<not> is_commit e) ys \<and> shows_source (env_of G) vault d w)"

lemma committedI:
  assumes "policy_current d policy" "trace t = trace s @ zs @ [Looked w, Asked ''commit'' (commit_body (request_of d) c)] @ ys"
    "list_all (\<lambda>e. \<not> is_commit e) zs" "list_all (\<lambda>e. \<not> is_commit e) ys" "shows_source (env_of G) vault d w"
  shows "committed G vault d policy s t"
  using assms unfolding committed_def by blast

lemma committedE:
  assumes "committed G vault d policy s t"
  obtains zs w c ys where "policy_current d policy"
    "trace t = trace s @ zs @ [Looked w, Asked ''commit'' (commit_body (request_of d) c)] @ ys"
    "list_all (\<lambda>e. \<not> is_commit e) zs" "list_all (\<lambda>e. \<not> is_commit e) ys" "shows_source (env_of G) vault d w"
  using assms unfolding committed_def by blast

lemma committed_before:
  assumes "quiet s t" "committed G vault d policy t u"
  shows "committed G vault d policy s u"
proof -
  obtain es where es: "trace t = trace s @ es" "list_all (\<lambda>e. \<not> is_commit e) es"
    using assms(1) by (auto simp: quiet_def)
  from assms(2) show ?thesis
  proof (rule committedE)
    fix zs w c ys
    assume "trace u = trace t @ zs @ [Looked w, Asked ''commit'' (commit_body (request_of d) c)] @ ys"
    with es(1) have eq: "trace u = trace s @ (es @ zs) @ [Looked w, Asked ''commit'' (commit_body (request_of d) c)] @ ys"
      by simp
    assume "policy_current d policy" "list_all (\<lambda>e. \<not> is_commit e) zs" "list_all (\<lambda>e. \<not> is_commit e) ys"
      "shows_source (env_of G) vault d w"
    then show ?thesis using es(2) by (intro committedI [OF _ eq]) simp_all
  qed
qed

lemma committed_after:
  assumes "committed G vault d policy s t" "quiet t u"
  shows "committed G vault d policy s u"
proof -
  obtain es where es: "trace u = trace t @ es" "list_all (\<lambda>e. \<not> is_commit e) es"
    using assms(2) by (auto simp: quiet_def)
  from assms(1) show ?thesis
  proof (rule committedE)
    fix zs w c ys
    assume "trace t = trace s @ zs @ [Looked w, Asked ''commit'' (commit_body (request_of d) c)] @ ys"
    with es(1) have eq: "trace u = trace s @ zs @ [Looked w, Asked ''commit'' (commit_body (request_of d) c)] @ (ys @ es)"
      by simp
    assume "policy_current d policy" "list_all (\<lambda>e. \<not> is_commit e) zs" "list_all (\<lambda>e. \<not> is_commit e) ys"
      "shows_source (env_of G) vault d w"
    then show ?thesis using es(2) by (intro committedI [OF _ eq]) simp_all
  qed
qed

lemma committed_same: "same_attempt d d' \<Longrightarrow> committed G vault d' policy s t = committed G vault d policy s t"
  by (simp add: committed_def policy_current_def shows_source_def commit_body_same) (simp add: same_attempt_def)

lemma committed_now:
  assumes "authorized G vault d policy s t" "trace u = trace t @ [Asked ''commit'' (commit_body (request_of d) c)]"
  shows "committed G vault d policy s u"
  using assms(1) unfolding authorized_def
  by (elim conjE exE) (rule committedI [where ys = "[]"], simp_all add: assms(2))

definition orderly :: "'r surroundings \<Rightarrow> path \<Rightarrow> dict \<Rightarrow> dict \<Rightarrow> 'r traced \<Rightarrow> 'r traced \<Rightarrow> bool" where
  "orderly G vault d policy s t \<longleftrightarrow> quiet s t \<or> committed G vault d policy s t"

lemma orderly_from_await:
  assumes "bindM (await_authorization (recorded G) vault D deadline policy d) (\<lambda>step. proceed step (\<lambda>d.
     bindM (send_commit (recorded G) D d) (\<lambda>d. await_terminal (recorded G) vault D deadline d))) s = (r, t)"
  shows "orderly G vault d policy s t"
  using assms
proof (cases rule: bindM_cases)
  case (fails e)
  then show ?thesis using keepsD [OF quiet_await fails(1)] by (simp add: orderly_def)
next
  case (continues step u)
  have su: "quiet s u" by (rule keepsD [OF quiet_await continues(1)])
  show ?thesis
  proof (cases step)
    case (Inl x)
    with continues(2) su show ?thesis by (simp add: proceed_def orderly_def)
  next
    case (Inr d1)
    obtain r2 v where sent: "send_commit (recorded G) D d1 u = (r2, v)" by (cases "send_commit (recorded G) D d1 u")
    have vt: "quiet v t" using continues(2) sent
      by (auto simp: Inr proceed_def bindM_def quiet.R_refl split: sum.splits dest: keepsD [OF quiet_finish])
    from send_trace(1) [OF sent] show ?thesis
    proof
      assume "trace v = trace u"
      with su vt quiet_same quiet.R_trans show ?thesis unfolding orderly_def by metis
    next
      assume sent_now: "in_phase d1 [''COMMITTING''] \<and> trace v = trace u @
        [Asked ''commit'' (commit_body (request_of d1) (dget d1 ''candidate_deployment_id''))]"
      with await_result continues(1) Inr have "d1 = d" "authorized G vault d policy s u" by blast+
      with sent_now have "committed G vault d policy s v" by (auto intro: committed_now)
      with vt show ?thesis unfolding orderly_def by (blast intro: committed_after)
    qed
  qed
qed

lemma orderly_before: "quiet s t \<Longrightarrow> orderly G vault d policy t u \<Longrightarrow> orderly G vault d policy s u"
  unfolding orderly_def by (blast intro: committed_before quiet.R_trans)

lemma orderly_same: "same_attempt d d' \<Longrightarrow> orderly G vault d' policy s t = orderly G vault d policy s t"
  by (simp add: orderly_def committed_same)

lemma orderly_resume:
  assumes "resume_from (recorded G) vault D deadline policy d s = (r, t)"
  shows "orderly G vault d policy s t"
  using assms unfolding resume_from_def
proof (cases rule: bindM_cases)
  case (fails e)
  then show ?thesis using keepsD [OF quiet_submit fails(1)] by (simp add: orderly_def)
next
  case (continues d1 u)
  have su: "quiet s u" by (rule keepsD [OF quiet_submit continues(1)])
  have same1: "same_attempt d d1" by (rule submit_same [OF continues(1)])
  from continues(2) have "orderly G vault d1 policy u t"
  proof (cases rule: bindM_cases)
    case (fails e)
    then show ?thesis using keepsD [OF quiet_candidate fails(1)] by (simp add: orderly_def)
  next
    case (continues step v)
    have uv: "quiet u v" by (rule keepsD [OF quiet_candidate continues(1)])
    show ?thesis
    proof (cases step)
      case (Inl x)
      with continues(2) uv show ?thesis by (simp add: proceed_def orderly_def)
    next
      case (Inr d2)
      have "orderly G vault d2 policy v t"
        by (rule orderly_from_await) (use continues(2) in \<open>simp add: Inr proceed_def [of "Inr d2"]\<close>)
      moreover have "same_attempt d1 d2" using candidate_same continues(1) Inr by blast
      ultimately show ?thesis using uv orderly_same orderly_before by blast
    qed
  qed
  with su same1 show ?thesis using orderly_same orderly_before by blast
qed

text \<open>In a trace with one commit the commit is where it is found.\<close>

lemma only_commit:
  assumes "xs @ c # ys = zs @ w # c' # us" "is_commit c" "is_commit c'" "\<not> is_commit w"
    and "list_all (\<lambda>e. \<not> is_commit e) zs" "list_all (\<lambda>e. \<not> is_commit e) us"
  shows "xs = zs @ [w] \<and> c = c' \<and> ys = us"
proof -
  have "filter is_commit zs = []" "filter is_commit us = []"
    using assms(5,6) by (auto simp: filter_empty_conv list_all_iff)
  then have "filter is_commit (xs @ c # ys) = [c']" unfolding assms(1) using assms(3,4) by simp
  then have "filter is_commit xs = []" "c = c'" "filter is_commit ys = []"
    using assms(2) by (auto simp: append_eq_Cons_conv)
  with assms show ?thesis
    by (auto simp: append_eq_append_conv2 Cons_eq_append_conv append_eq_Cons_conv filter_empty_conv list_all_iff)
qed

text \<open>C37: a commit is requested at most once in a run, only under the release policy of the attempt, and
  the event right before it in the trace is an inspection of the vault that found no error and the
  fingerprints of the attempt's snapshot; the request names the attempt's own request and capability.
  This holds for every answer of the receiver and whatever happens to the vault meanwhile.
\<close>

theorem commit_is_authorized:
  assumes "resume_pending_attempt (recorded G) vault D d policy timeout s = (r, t)"
    and "trace t = trace s @ xs @ Asked ''commit'' body # ys"
  shows "policy_current d policy
    \<and> (\<exists>zs w. xs = zs @ [Looked w] \<and> shows_source (env_of G) vault d w)
    \<and> (\<exists>c. body = commit_body (request_of d) c)
    \<and> list_all (\<lambda>e. \<not> is_commit e) (xs @ ys)"
proof -
  have "orderly G vault d policy s t"
  proof -
    have cases: "t = s
      \<or> resolve (recorded G) D d (obj_of (dget d ''terminal_result'')) s = (r, t)
      \<or> (\<exists>e. source_matches_pending (recorded G) vault d s = (Inl e, t))
      \<or> (\<exists>same u. source_matches_pending (recorded G) vault d s = (Inr same, u)
          \<and> ((\<exists>why. resolve_changed (recorded G) D d why u = (r, t))
             \<or> (\<exists>deadline. resume_from (recorded G) vault D deadline policy d u = (r, t))))"
    proof (cases "source_matches_pending (recorded G) vault d s")
      case (Pair a u)
      with assms(1) show ?thesis
        by (cases a) (auto simp: resume_pending_attempt_def bindM_liftM bindM_def [of "source_matches_pending _ _ _"]
            split: sum.splits if_splits)
    qed
    then show ?thesis
    proof (elim disjE exE conjE)
      fix same u why
      assume "source_matches_pending (recorded G) vault d s = (Inr same, u)" "resolve_changed (recorded G) D d why u = (r, t)"
      then have "quiet s u" "quiet u t" by (auto intro: keepsD [OF quiet_source] keepsD [OF quiet_changed])
      then show ?thesis unfolding orderly_def by (blast intro: quiet.R_trans)
    next
      fix same u deadline
      assume "source_matches_pending (recorded G) vault d s = (Inr same, u)"
        "resume_from (recorded G) vault D deadline policy d u = (r, t)"
      then have "quiet s u" "orderly G vault d policy u t" by (auto intro: keepsD [OF quiet_source] orderly_resume)
      then show ?thesis by (rule orderly_before)
    qed (auto simp: orderly_def quiet.R_refl dest: keepsD [OF quiet_resolve(1)] keepsD [OF quiet_source])
  qed
  moreover have "\<not> quiet s t" using assms(2) by (auto simp: quiet_def)
  ultimately have "committed G vault d policy s t" by (simp add: orderly_def)
  then show ?thesis
  proof (rule committedE)
    fix zs w c us
    assume here: "policy_current d policy" "list_all (\<lambda>e. \<not> is_commit e) zs" "list_all (\<lambda>e. \<not> is_commit e) us"
      "shows_source (env_of G) vault d w"
      and "trace t = trace s @ zs @ [Looked w, Asked ''commit'' (commit_body (request_of d) c)] @ us"
    with assms(2) have eq: "xs @ Asked ''commit'' body # ys = zs @ Looked w # Asked ''commit'' (commit_body (request_of d) c) # us"
      by simp
    have "xs = zs @ [Looked w] \<and> Asked ''commit'' body = Asked ''commit'' (commit_body (request_of d) c) \<and> ys = us"
      by (rule only_commit [OF eq]) (use here in simp_all)
    with here show ?thesis by auto
  qed
qed

section \<open>A line of the receiver\<close>

text \<open>The printer puts a document on one line, which the transport takes apart again.\<close>

definition plain_line :: "string \<Rightarrow> bool" where
  "plain_line s \<longleftrightarrow> (\<forall>c \<in> set s. 32 \<le> code_of c \<and> code_of c < 127)"

lemma plain_line_simps [simp]:
  "plain_line []" "plain_line (c # s) \<longleftrightarrow> 32 \<le> code_of c \<and> code_of c < 127 \<and> plain_line s"
  "plain_line (s @ t) \<longleftrightarrow> plain_line s \<and> plain_line t"
  by (auto simp: plain_line_def)

lemma plain_line_hex: "n < 16 \<Longrightarrow> 32 \<le> code_of (hex_digit n) \<and> code_of (hex_digit n) < 127"
  by (auto simp: hex_digit_def code_of_char_of)

lemma plain_line_escape: "plain_line (escape_char c)"
proof -
  have "code_of c div 16 < 16" "code_of c mod 16 < 16" using code_of_lt [of c] by auto
  from this [THEN plain_line_hex] show ?thesis
    by (auto simp: escape_char_def Let_def code_of_def)
qed

lemma plain_line_quote: "plain_line (quote escape_char s)"
proof -
  have "plain_line (concat (map escape_char s))"
    by (induction s) (simp_all add: plain_line_escape)
  then show ?thesis by (simp add: quote_def code_of_def)
qed

lemma plain_line_int: "plain_line (int_dec i)"
proof -
  have "plain_line (nat_dec n)" for n
    using nat_dec_digits [of n] by (auto simp: plain_line_def is_digit_def)
  then show ?thesis by (auto simp: int_dec_def code_of_def)
qed

lemma plain_line_join: "plain_line sep \<Longrightarrow> \<forall>w \<in> set ws. plain_line w \<Longrightarrow> plain_line (join sep ws)"
  by (induction sep ws rule: join.induct) auto

lemma plain_line_render: "plain_line (render escape_char (\<lambda>_. []) [] d v)"
proof (induction v arbitrary: d rule: wf_json.induct)
  case (1 xs)
  then have "plain_line (join '','' (map (render escape_char (\<lambda>_. []) [] (Suc d)) xs))"
    by (intro plain_line_join) (auto simp: code_of_def)
  then show ?case by (simp add: code_of_def)
next
  case (2 ps)
  then have "plain_line (join '','' (map (\<lambda>p. quote escape_char (fst p) @ '':'' @ render escape_char (\<lambda>_. []) [] (Suc d) (snd p)) ps))"
    by (intro plain_line_join) (auto simp: code_of_def plain_line_quote)
  then show ?case by (simp add: code_of_def)
qed (simp_all add: plain_line_int plain_line_quote, simp_all add: code_of_def)

lemma one_line:
  assumes "plain_line s"
  shows "split_lines (s @ [CHR 0x0A]) = [s @ [CHR 0x0A]]"
  using assms
proof (induction s rule: split_lines.induct)
  case (2 c)
  then have "\<not> line_end c" by (auto simp: line_end_def Let_def)
  moreover have "c \<noteq> CHR 0x0D" using 2 by (auto simp: code_of_def)
  ultimately show ?case by simp
next
  case (3 c d s)
  then have "\<not> line_end c" by (auto simp: line_end_def Let_def)
  moreover have "c \<noteq> CHR 0x0D" using 3 by (auto simp: code_of_def)
  ultimately show ?case using 3 by simp
qed simp

lemma bare_receiver_line:
  assumes "plain_line s"
  shows "bare_line (s @ [CHR 0x0A]) = s"
proof -
  have "drop (length s - 1) (s @ [CHR 0x0A]) \<noteq> [CHR 0x0D, CHR 0x0A]"
    using assms by (cases s rule: rev_cases) (auto simp: code_of_def)
  then show ?thesis by (simp add: bare_line_def line_end_def code_of_def)
qed

lemma receiver_reads_line:
  assumes "wf_json (JObj d)"
  shows "receiver_response (Exited 0 (receiver_json_bytes (JObj d)) err) = validate_receiver_envelope (JObj d)"
proof -
  have line: "map bare_line (split_lines (receiver_json_bytes (JObj d))) = [dumps (JObj d)]"
    using one_line bare_receiver_line plain_line_render by (simp add: receiver_json_bytes_def dumps_def del: render.simps)
  have "utf8_decode (receiver_json_bytes (JObj d)) = Inr (receiver_json_bytes (JObj d))"
    by (rule utf8_decode_ascii [OF ascii_receiver])
  moreover have "length (split_lines (receiver_json_bytes (JObj d))) = 1" using line by (metis length_map length_Cons list.size(3) One_nat_def)
  ultimately show ?thesis using line
    by (simp add: receiver_response_def raiseIf_def rewrap_def strict_json_loads_dumps [OF assms] del: wf_json.simps)
qed

section \<open>A concrete run\<close>

definition answer_candidate :: dict where
  "answer_candidate =
    [(''schema_version'', JInt 1), (''protocol'', JStr receiver_protocol), (''outcome'', JStr ''RESULT''),
     (''request_id'', JStr ''01234567-89ab-4cde-8f01-23456789abcd''), (''commit_accepted'', JBool False),
     (''result'', JObj [(''schema_version'', JInt 1), (''protocol'', JStr receiver_protocol),
       (''request_id'', JStr ''01234567-89ab-4cde-8f01-23456789abcd''), (''publisher_id'', JStr ''laptop''),
       (''outcome'', JStr ''CANDIDATE_READY''), (''retryable'', JBool False)])]"

definition answer_commit :: dict where
  "answer_commit =
    [(''schema_version'', JInt 1), (''protocol'', JStr receiver_protocol), (''outcome'', JStr ''COMMIT_ACCEPTED''),
     (''request_id'', JStr ''01234567-89ab-4cde-8f01-23456789abcd'')]"

lemma answers_read:
  "receiver_response (Exited 0 (receiver_json_bytes (JObj answer_candidate)) []) = Inr answer_candidate"
  "receiver_response (Exited 0 (receiver_json_bytes (JObj answer_commit)) []) = Inr answer_commit"
  by (subst receiver_reads_line; simp add: answer_candidate_def answer_commit_def validate_receiver_envelope_def
      raiseIf_def dhas_def)+

definition run_around :: "bool surroundings" where
  "run_around =
    \<lparr>env_of = attempt_env, package_version = JStr ''1'',
     ssh = (\<lambda>verb body sent.
       if verb = ''commit'' then (Exited 0 (receiver_json_bytes (JObj answer_commit)) [], 1, True)
       else if verb = ''status'' \<and> \<not> sent then (Exited 0 (receiver_json_bytes (JObj answer_candidate)) [], 1, sent)
       else (Unstarted ''gone'', 1, sent)),
     hang_up = (\<lambda>r. (None, r)), drift = (\<lambda>r w. (w, r)), new_uuid = (\<lambda>n. []), new_token = (\<lambda>n. []),
     tar_bytes = (\<lambda>m. []), control_dir = [''s''], temp_dir = [''t'']\<rparr>"

definition run_site :: "bool \<Rightarrow> event list \<Rightarrow> nat \<Rightarrow> bool traced" where
  "run_site sent log m = \<lparr>home = attempt_world ''COMMITTING'' [], far = (sent, log), moment = m\<rparr>"

lemma run_simps [simp]:
  "env_of run_around = attempt_env" "control_dir run_around = [''s'']"
  "trace (run_site sent log m) = log" "moment (run_site sent log m) = m"
  by (simp_all add: run_around_def run_site_def trace_def)

lemma run_look:
  "source_matches_pending (recorded run_around) vault (sample_attempt ph) (run_site sent log m) =
     (Inr True, run_site sent (log @ [Looked (attempt_world ''COMMITTING'' [])]) m)"
proof -
  have "look (recorded run_around) vault (run_site sent log m) =
      (sample_look (attempt_world ''COMMITTING'' []) vault, run_site sent (log @ [Looked (attempt_world ''COMMITTING'' [])]) m)"
    by (simp add: look_def bindM_def edited_def recorded_def run_around_def run_site_def at_home_def askM_def
        attempt_env_def sample_env_def)
  moreover have "same_fingerprints (obj_of (JObj [(''validation'', JObj [(''errors'', JList [])]),
     (''source_fingerprint'', JStr (replicate 64 (CHR ''a''))),
     (''artifact_fingerprint'', JStr (replicate 64 (CHR ''b''))),
     (''logical_fingerprint'', JStr (replicate 64 (CHR ''c'')))])) (obj_of (dget (sample_attempt ph) ''snapshot''))"
    by (simp add: same_fingerprints_def agree_on_def fingerprint_fields_def sample_attempt_def sample_identity_def)
  ultimately show ?thesis
    by (simp add: source_matches_pending_def bindM_def sample_look_def vault_errors_def didx_def jidx_def)
qed

lemma run_call:
  assumes "verb = ''status'' \<and> \<not> sent \<and> d = answer_candidate \<and> \<not> sent' \<or> verb = ''commit'' \<and> d = answer_commit \<and> sent'"
  shows "call (recorded run_around) verb body (run_site sent log m) =
     (Inr d, run_site sent' (log @ [Asked verb body]) (m + 1))"
proof -
  have "make_dirs [''s''] (attempt_world ''COMMITTING'' []) = (Inr (), attempt_world ''COMMITTING'' [])"
    by (simp add: make_dirs_def is_dir_def stat_def lstat_def attempt_world_def)
  with assms show ?thesis
    by (auto simp: call_def bindM_def raiseIf_def receiver_verbs_def at_home_def ask_receiver_def recorded_def run_around_def
        run_site_def answers_read)
qed

definition run_ready :: dict where
  "run_ready = dput (obj_of (dget answer_candidate ''result'')) ''_commit_accepted'' (JBool False)"

lemma sample_request_of: "request_of (sample_attempt ph) = sample_request"
  by (simp add: request_of_def sample_attempt_def)

lemma run_poll:
  assumes "m < deadline"
  shows "poll (recorded run_around) sample_request deadline False 0 (run_site False log m) =
    (Inr run_ready, run_site False (log @ [Asked ''status'' (status_body sample_request)]) (m + 1))"
proof -
  have "judge_status sample_request False answer_candidate = Inr (Some run_ready)"
    by (simp add: judge_status_def raiseIf_def answer_candidate_def run_ready_def sample_request_def)
  then have "poll_once (recorded run_around) sample_request False (run_site False log m) =
      (Inr (Some run_ready), run_site False (log @ [Asked ''status'' (status_body sample_request)]) (m + 1))"
    using run_call [of "''status''" False answer_candidate False "status_body sample_request" log m]
    by (simp add: poll_once_def bindM_def)
  with assms show ?thesis by (subst poll.simps) simp
qed

lemma run_sends:
  "\<exists>r t ys. resume_pending_attempt (recorded run_around) vault D (sample_attempt ''COMMITTING'') sample_policy 10
      (run_site False [] 0) = (r, t)
    \<and> trace t = [Looked (attempt_world ''COMMITTING'' []), Asked ''status'' (status_body sample_request),
        Looked (attempt_world ''COMMITTING'' [])]
      @ Asked ''commit'' (commit_body sample_request (JStr (replicate 64 (CHR ''c'')))) # ys"
proof -
  let ?d = "sample_attempt ''COMMITTING''" and ?look = "Looked (attempt_world ''COMMITTING'' [])"
  let ?status = "Asked ''status'' (status_body sample_request)"
  let ?commit = "Asked ''commit'' (commit_body sample_request (JStr (replicate 64 (CHR ''c''))))"
  have phase: "in_phase ?d xs = (''COMMITTING'' \<in> set xs)" for xs by (simp add: in_phase_def sample_attempt_def)
  have cand: "dget ?d ''candidate_deployment_id'' = JStr (replicate 64 (CHR ''c''))" by (simp add: sample_attempt_def)
  have pub: "validate_publisher_id (dget sample_request ''publisher_id'') = Inr ''laptop''"
    by (simp add: sample_request_def validate_publisher_id_def is_lower_def code_of_def)
  have policy: "policy_current ?d sample_policy" by (simp add: policy_current_def sample_attempt_def)
  have not_terminal: "\<not> is_terminal run_ready" "dget run_ready ''outcome'' = JStr ''CANDIDATE_READY''"
    "dget run_ready ''_commit_accepted'' = JBool False"
    by (simp_all add: is_terminal_def run_ready_def answer_candidate_def pipeline_outcomes_def)
  have await: "await_authorization (recorded run_around) vault D 1280 sample_policy ?d (run_site False [?look] 0) =
      (Inr (Inr ?d), run_site False [?look, ?status, ?look] 1)"
    using run_poll [of 0 1280 "[?look]"]
    by (simp add: await_authorization_def phase sample_request_of bindM_def not_terminal raiseIf_def still_authorized_def
        policy run_look)
  obtain r1 u where sent: "send_commit (recorded run_around) D ?d (run_site False [?look, ?status, ?look] 1) = (r1, u)"
      "trace u = [?look, ?status, ?look] @ [?commit]"
  proof -
    obtain r1 u where sent: "send_commit (recorded run_around) D ?d (run_site False [?look, ?status, ?look] 1) = (r1, u)"
      by (cases "send_commit (recorded run_around) D ?d (run_site False [?look, ?status, ?look] 1)")
    have "trace u = [?look, ?status, ?look] @ [?commit]"
      using sent run_call [of "''commit''" False answer_commit True _ "[?look, ?status, ?look]" 1]
      by (auto simp: send_commit_def phase sample_request_of cand bindM_def raiseIf_def advance_def
          split: sum.splits if_splits dest: trace_home)
    with sent that show thesis by blast
  qed
  have "\<exists>r t ys. resume_from (recorded run_around) vault D 1280 sample_policy ?d (run_site False [?look] 0) = (r, t)
      \<and> trace t = [?look, ?status, ?look, ?commit] @ ys"
  proof (cases r1)
    case (Inl e)
    then show ?thesis using sent await
      by (simp add: resume_from_def submit_attempt_def await_candidate_def phase bindM_def proceed_def)
  next
    case (Inr d')
    obtain r t where last: "await_terminal (recorded run_around) vault D 1280 d' u = (r, t)"
      by (cases "await_terminal (recorded run_around) vault D 1280 d' u")
    then have "quiet u t" by (rule keepsD [OF quiet_finish])
    then obtain ys where "trace t = trace u @ ys" by (auto simp: quiet_def)
    with last Inr sent await show ?thesis
      by (simp add: resume_from_def submit_attempt_def await_candidate_def phase bindM_def proceed_def)
  qed
  then show ?thesis
    by (simp add: resume_pending_attempt_def sample_request_of pub bindM_def phase run_look policy)
qed

lemma commit_is_authorized_witness:
  "\<exists>w. Looked w \<in> set (trace (snd (resume_pending_attempt (recorded run_around) [''v''] [''s'']
      (sample_attempt ''COMMITTING'') sample_policy 10 (run_site False [] 0))))
    \<and> shows_source (env_of run_around) [''v''] (sample_attempt ''COMMITTING'') w"
proof -
  let ?xs = "[Looked (attempt_world ''COMMITTING'' []), Asked ''status'' (status_body sample_request),
        Looked (attempt_world ''COMMITTING'' [])]"
  let ?body = "commit_body sample_request (JStr (replicate 64 (CHR ''c'')))"
  obtain r t ys where run: "resume_pending_attempt (recorded run_around) [''v''] [''s''] (sample_attempt ''COMMITTING'')
      sample_policy 10 (run_site False [] 0) = (r, t)" "trace t = ?xs @ Asked ''commit'' ?body # ys"
    using run_sends by blast
  have "trace t = trace (run_site False [] 0) @ ?xs @ Asked ''commit'' ?body # ys" using run(2) by simp
  from commit_is_authorized [OF run(1) this] obtain zs w where "?xs = zs @ [Looked w]"
    "shows_source (env_of run_around) [''v''] (sample_attempt ''COMMITTING'') w" by blast
  moreover from this(1) have "Looked w \<in> set ?xs" by simp
  ultimately show ?thesis using run by auto
qed

section \<open>Polling ends with the answer\<close>



end
