(* ===== verification/Submissions.thy ===== *)
theory Submissions
  imports Attempts
begin

text \<open>
  \<open>pipeline.py\<close>, the processor's side of a submission: the queued request, the receipt with its file
  proofs, the copy into the snapshot store, the build and its evaluation, and the result it writes.
\<close>

section \<open>The queued request\<close>

definition queued_fields :: "string list" where
  "queued_fields =
    [''schema_version'', ''protocol'', ''request_id'', ''publisher_id'', ''release_policy_id'', ''snapshot_id'',
     ''expected_current_deployment_id'', ''snapshot_manifest_sha256'']"

text \<open>The wire form of the request, with zeros for the token that only its digest is kept of.\<close>

definition zero_token_wire :: "dict \<Rightarrow> dict" where
  "zero_token_wire request =
     map (\<lambda>f. (f, if f = ''capability_token'' then JStr (replicate 64 (CHR ''0'')) else dget request f)) request_fields"

definition load_canonical_request :: "world \<Rightarrow> path \<Rightarrow> dict res" where
  "load_canonical_request w p =
     bindE (read_bytes w p) (\<lambda>raw.
     bindE (rewrap is_deployment_error (\<lambda>_. SnapshotError ''request.json is invalid JSON'') (strict_loads_bytes raw)) (\<lambda>v.
     (let request = obj_of v
      in bindE (raiseIf (\<not> is_obj v \<or> dkeys request \<noteq> queued_fields)
           (SnapshotError ''queued request has missing, reordered, or unknown fields'')) (\<lambda>_.
         bindE (raiseIf (dhas request ''capability_token'')
           (SnapshotError ''queued request persisted a raw capability token'')) (\<lambda>_.
         bindE (validate_request_message (zero_token_wire request)) (\<lambda>wire.
         (let checked = map (\<lambda>f. (f, dget wire f)) queued_fields
          in bindE (raiseIf (raw \<noteq> receiver_json_bytes (JObj checked)) (SnapshotError ''request.json is not canonical'')) (\<lambda>_.
             Inr checked))))))))"

section \<open>The receipt\<close>

definition receipt_fields :: "string list" where
  "receipt_fields =
    [''schema_version'', ''protocol'', ''request_id'', ''publisher_id'', ''capability_sha256'', ''release_policy_id'',
     ''snapshot_id'', ''expected_current_deployment_id'', ''snapshot_manifest_sha256'', ''archive_sha256'',
     ''archive_bytes'', ''extracted_bytes'', ''file_count'', ''vault_file_count'', ''files'']"

definition check_receipt_head :: "dict \<Rightarrow> dict \<Rightarrow> unit res" where
  "check_receipt_head receipt request =
     bindE (raiseIf (dkeys receipt \<noteq> receipt_fields)
       (SnapshotError ''receipt has missing, reordered, or unknown fields'')) (\<lambda>_.
     bindE (raiseIf (\<not> pyeq (dget receipt ''schema_version'') (JInt 1) \<or> dget receipt ''protocol'' \<noteq> JStr receiver_protocol)
       (SnapshotError ''receipt protocol is unsupported'')) (\<lambda>_.
     bindE (raiseIf (\<not> list_all (\<lambda>f. is_sha_json (dget receipt f))
         [''capability_sha256'', ''release_policy_id'', ''snapshot_id'', ''snapshot_manifest_sha256'', ''archive_sha256''])
       (SnapshotError ''receipt lacks submission archive SHA-256'')) (\<lambda>_.
     eachE (\<lambda>f. raiseIf (\<not> pyeq (dget receipt f) (dget request f))
         (SnapshotError (''receipt '' @ f @ '' disagrees with request'')))
       [''request_id'', ''publisher_id'', ''release_policy_id'', ''snapshot_id'', ''expected_current_deployment_id'',
        ''snapshot_manifest_sha256''])))"

definition counting_int :: "json \<Rightarrow> bool" where
  "counting_int v = (case v of JInt i \<Rightarrow> 0 \<le> i | _ \<Rightarrow> False)"

type_synonym proofs = "(string \<times> dict) list"

definition add_proof :: "json \<Rightarrow> proofs \<Rightarrow> proofs res" where
  "add_proof p proofs =
     (let d = obj_of p
      in bindE (raiseIf (\<not> is_obj p \<or> dkeys d \<noteq> [''path'', ''size'', ''sha256''])
           (SnapshotError ''receipt file proof contract is invalid'')) (\<lambda>_.
         bindE (safe_relative_path (dget d ''path'')) (\<lambda>at.
         bindE (raiseIf (at \<in> set (map fst proofs)) (SnapshotError ''receipt contains a duplicate file proof'')) (\<lambda>_.
         bindE (raiseIf (\<not> counting_int (dget d ''size'') \<or> \<not> is_sha_json (dget d ''sha256''))
           (SnapshotError ''receipt file proof value is invalid'')) (\<lambda>_.
         Inr (proofs @ [(at, d)]))))))"

definition read_proofs :: "dict \<Rightarrow> proofs res" where
  "read_proofs receipt =
     (case dget receipt ''files'' of
        JList ps \<Rightarrow> foldE add_proof ps []
      | _ \<Rightarrow> Inl (SnapshotError ''receipt file proofs are invalid''))"

definition vault_name :: "json \<Rightarrow> string" where
  "vault_name item = ''vault/'' @ item_path item"

definition expected_paths :: "dict \<Rightarrow> string list" where
  "expected_paths manifest = ''request.json'' # ''snapshot.json'' # map vault_name (list_of (dget manifest ''inventory''))"

definition proof_of :: "proofs \<Rightarrow> string \<Rightarrow> dict" where
  "proof_of proofs p = (case map_of proofs p of Some d \<Rightarrow> d | None \<Rightarrow> [])"

definition check_proofs :: "env \<Rightarrow> world \<Rightarrow> path \<Rightarrow> dict \<Rightarrow> dict \<Rightarrow> proofs \<Rightarrow> unit res" where
  "check_proofs E w manifest_file request manifest proofs =
     bindE (raiseIf (set (map fst proofs) \<noteq> set (expected_paths manifest))
       (SnapshotError ''receipt file proofs do not exactly cover the submission'')) (\<lambda>_.
     bindE (raiseIf (size_of (dget (proof_of proofs ''request.json'') ''size'')
         \<noteq> int (length (receiver_json_bytes (JObj (zero_token_wire request)))))
       (SnapshotError ''wire request proof has an impossible size'')) (\<lambda>_.
     bindE (file_sha256 (digest E) w manifest_file) (\<lambda>manifest_sha.
     bindE (raiseIf (size_of (dget (proof_of proofs ''snapshot.json'') ''size'') \<noteq> int (file_size w manifest_file)
         \<or> dget (proof_of proofs ''snapshot.json'') ''sha256'' \<noteq> JStr manifest_sha)
       (SnapshotError ''snapshot.json does not match receipt proof'')) (\<lambda>_.
     eachE (\<lambda>item. raiseIf (\<not> pyeq (dget (proof_of proofs (vault_name item)) ''size'') (dget (obj_of item) ''size'')
           \<or> \<not> pyeq (dget (proof_of proofs (vault_name item)) ''sha256'') (dget (obj_of item) ''sha256''))
         (SnapshotError (''vault file does not match receipt proof: '' @ item_path item)))
       (list_of (dget manifest ''inventory''))))))"

definition check_receipt_counts :: "dict \<Rightarrow> dict \<Rightarrow> proofs \<Rightarrow> unit res" where
  "check_receipt_counts receipt manifest proofs =
     bindE (raiseIf (\<not> pyeq (dget receipt ''vault_file_count'') (dget manifest ''file_count''))
       (SnapshotError ''receipt vault file count disagrees with manifest'')) (\<lambda>_.
     bindE (raiseIf (\<not> pyeq (dget receipt ''file_count'') (JInt (int (length proofs))))
       (SnapshotError ''receipt file count disagrees with file proofs'')) (\<lambda>_.
     bindE (raiseIf (\<not> list_all (\<lambda>f. counting_int (dget receipt f))
         [''archive_bytes'', ''extracted_bytes'', ''file_count'', ''vault_file_count''])
       (SnapshotError ''receipt numeric bounds are invalid'')) (\<lambda>_.
     bindE (raiseIf (sum_list (map (\<lambda>p. size_of (dget (snd p) ''size'')) proofs) \<noteq> size_of (dget receipt ''extracted_bytes''))
       (SnapshotError ''receipt extracted byte count disagrees with file proofs'')) (\<lambda>_.
     bindE (raiseIf (size_of (dget receipt ''file_count'') \<noteq> size_of (dget manifest ''file_count'') + 2)
       (SnapshotError ''receipt file count disagrees with manifest inventory'')) (\<lambda>_.
     raiseIf (size_of (dget receipt ''archive_bytes'') < size_of (dget receipt ''extracted_bytes''))
       (SnapshotError ''receipt archive size is smaller than extracted data''))))))"

definition validate_untrusted_payload :: "env \<Rightarrow> world \<Rightarrow> path \<Rightarrow> path \<Rightarrow> (dict \<times> dict \<times> json) res" where
  "validate_untrusted_payload E w payload receipt_file =
     (let manifest_file = payload @ [''snapshot.json'']
      in bindE (raiseIf (is_symlink w payload \<or> is_symlink w receipt_file)
           (SnapshotError ''incoming request contains a symlink'')) (\<lambda>_.
         bindE (load_canonical_request w (payload @ [''request.json''])) (\<lambda>request.
         bindE (read_manifest (digest E) w manifest_file) (\<lambda>manifest.
         bindE (raiseIf (\<not> pyeq (dget request ''snapshot_id'') (dget manifest ''snapshot_id''))
           (SnapshotError ''request and manifest snapshot IDs disagree'')) (\<lambda>_.
         bindE (file_sha256 (digest E) w manifest_file) (\<lambda>manifest_sha.
         bindE (raiseIf (dget request ''snapshot_manifest_sha256'' \<noteq> JStr manifest_sha)
           (SnapshotError ''snapshot manifest hash disagrees with request'')) (\<lambda>_.
         bindE (rewrap is_deployment_error (\<lambda>_. SnapshotError ''receipt is invalid JSON'') (read_document w receipt_file)) (\<lambda>v.
         bindE (raiseIf (\<not> is_obj v) (SnapshotError ''receipt must be an object'')) (\<lambda>_.
         bindE (check_receipt_head (obj_of v) request) (\<lambda>_.
         bindE (read_proofs (obj_of v)) (\<lambda>proofs.
         bindE (check_proofs E w manifest_file request manifest proofs) (\<lambda>_.
         bindE (check_receipt_counts (obj_of v) manifest proofs) (\<lambda>_.
         bindE (verify_snapshot (digest E) (Some (inspect_vault E)) w (payload @ [''vault'']) (JObj manifest)) (\<lambda>_.
         Inr (request, manifest, dget (obj_of v) ''archive_sha256'')))))))))))))))"

section \<open>The copy\<close>

definition copy_verified_snapshot :: "env \<Rightarrow> (nat \<Rightarrow> string) \<Rightarrow> path \<Rightarrow> path \<Rightarrow> dict \<Rightarrow> unit wprog" where
  "copy_verified_snapshot E ids source destination manifest =
     (let sha = digest E; stored = destination @ [''snapshot.json'']
      in bindM (getsM (\<lambda>w. exists_path w destination)) (\<lambda>there.
         if there then
           bindM (askM (\<lambda>w. read_manifest sha w stored)) (\<lambda>existing.
           bindM (askM (\<lambda>w. verify_snapshot sha (Some (inspect_vault E)) w (destination @ [''vault'']) (JObj existing))) (\<lambda>_.
           liftM (raiseIf (\<not> pyeq (dget existing ''snapshot_id'') (dget manifest ''snapshot_id''))
             (SnapshotError ''snapshot ID collision in immutable store''))))
         else
           bindM (make_dirs (butlast destination)) (\<lambda>_.
           bindM (draw ids) (\<lambda>u.
           publish_copy E (partial_dir destination u) source destination manifest))))"

section \<open>Results\<close>

definition remote_result_path :: "path \<Rightarrow> json \<Rightarrow> string \<Rightarrow> path res" where
  "remote_result_path root publisher request_id =
     bindE (validate_publisher_id publisher) (\<lambda>p.
     bindE (validate_safe_id (JStr request_id) ''request_id'') (\<lambda>i.
     Inr (root @ [''results'', p, i @ ''.json''])))"

definition write_remote_result :: "path \<Rightarrow> json \<Rightarrow> string \<Rightarrow> dict \<Rightarrow> unit wprog" where
  "write_remote_result root publisher request_id result =
     bindM (liftM (remote_result_path root publisher request_id)) (\<lambda>p.
     durable_atomic_json p
       (JObj (filter (\<lambda>e. fst e \<notin> {''capability_token'', ''capability_sha256''}) result)))"

definition ready_result :: "dict \<Rightarrow> dict \<Rightarrow> string \<Rightarrow> dict" where
  "ready_result request deployment promotion_policy =
     [(''schema_version'', JInt 1), (''protocol'', JStr receiver_protocol), (''request_id'', dget request ''request_id''),
      (''publisher_id'', dget request ''publisher_id''), (''outcome'', JStr ''CANDIDATE_READY''),
      (''candidate_deployment_id'', dget deployment ''deployment_id''),
      (''expected_current_deployment_id'', dget request ''expected_current_deployment_id''),
      (''snapshot_id'', dget deployment ''snapshot_id''), (''run_id'', dget deployment ''run_id''),
      (''release_policy_id'', dget request ''release_policy_id''), (''promotion_policy_id'', JStr promotion_policy),
      (''retryable'', JBool False)]"

section \<open>A submission\<close>

record remote_release =
  rel_cases :: "path list"
  rel_version :: json
  rel_revision :: json
  rel_digest :: json
  rel_policy :: dict

definition unchanged_submission :: "dict \<Rightarrow> json \<Rightarrow> dict \<Rightarrow> string \<Rightarrow> json \<Rightarrow> dict" where
  "unchanged_submission request publisher current promotion_policy archive_digest =
     [(''schema_version'', JInt 1), (''protocol'', JStr receiver_protocol), (''request_id'', dget request ''request_id''),
      (''publisher_id'', publisher), (''outcome'', JStr ''UNCHANGED''),
      (''candidate_deployment_id'', dget current ''deployment_id''),
      (''expected_current_deployment_id'', dget request ''expected_current_deployment_id''),
      (''snapshot_id'', dget current ''snapshot_id''), (''run_id'', dget current ''run_id''),
      (''release_policy_id'', dget request ''release_policy_id''), (''promotion_policy_id'', JStr promotion_policy),
      (''submission_archive_sha256'', archive_digest), (''retryable'', JBool False)]"

definition build_failed :: "string \<Rightarrow> exn" where
  "build_failed m = PipelineError ''BUILD_FAILED'' m False"

definition check_submission :: "env \<Rightarrow> remote_release \<Rightarrow> json \<Rightarrow> string \<Rightarrow> dict \<Rightarrow> dict \<Rightarrow> unit res" where
  "check_submission E rel publisher name request manifest =
     bindE (raiseIf (\<not> pyeq (dget request ''publisher_id'') publisher \<or> dget request ''request_id'' \<noteq> JStr name)
       (SnapshotError ''incoming request path disagrees with request body'')) (\<lambda>_.
     bindE (raiseIf (dget request ''release_policy_id'' \<noteq> JStr (policy_id E (base_release_policy (rel_policy rel))))
       (build_failed ''queued request belongs to a different release policy'')) (\<lambda>_.
     bindE (raiseIf (\<not> pyeq (dget manifest ''exporter'')
         (JObj [(''package_version'', rel_version rel), (''source_revision'', rel_revision rel)]))
       (build_failed ''queued snapshot exporter does not match this release policy'')) (\<lambda>_.
     raiseIf (\<not> pyeq (dget manifest ''schema_version'') (dget (rel_policy rel) ''snapshot_schema_version'')
         \<or> \<not> pyeq (dget manifest ''snapshot_contract_version'') (dget (rel_policy rel) ''snapshot_contract_version''))
       (build_failed ''queued snapshot contract does not match this release policy''))))"

definition evaluated :: "workshop \<Rightarrow> path \<Rightarrow> remote_release \<Rightarrow> json \<Rightarrow> dict wprog" where
  "evaluated W data rel run_id =
     catchM (evaluate_candidate W data run_id (rel_cases rel)) (\<lambda>e.
       if not_crash e
       then Some (raiseM (PipelineError ''EVALUATION_FAILED'' (''promotion-safe evaluation failed: '' @ exn_text e) False))
       else None)"

definition finish_candidate ::
  "workshop \<Rightarrow> path \<Rightarrow> remote_release \<Rightarrow> dict \<Rightarrow> dict \<Rightarrow> json \<Rightarrow> dict wprog" where
  "finish_candidate W data rel request build archive_digest =
     (let policy = policy_id (the_env W) (rel_policy rel); run_id = dget build ''run_id''
      in bindM (evaluated W data rel run_id) (\<lambda>evaluation.
         bindM (liftM (raiseIf (\<not> truthy (dget evaluation ''passed''))
           (PipelineError ''EVALUATION_FAILED'' ''promotion-safe evaluation failed'' False))) (\<lambda>_.
         bindM (durable_atomic_json (data @ [''builds'', str_of run_id, ''promotion-evaluation.json''])
           (JObj (dput evaluation ''promotion_policy_id'' (JStr policy)))) (\<lambda>_.
         retM (dput (ready_result request (obj_of (dget build ''deployment'')) policy)
           ''submission_archive_sha256'' archive_digest)))))"

definition submission_options :: "remote_release \<Rightarrow> dict \<Rightarrow> string \<Rightarrow> build_options" where
  "submission_options rel manifest now =
     \<lparr>forced = False, promoting = False, strict_manifest = Some (JObj manifest), received_at = JStr now,
      asked_version = rel_version rel, asked_revision = rel_revision rel, asked_digest = rel_digest rel,
      expected_current = JNull\<rparr>"

definition process_submission :: "workshop \<Rightarrow> path \<Rightarrow> remote_release \<Rightarrow> json \<Rightarrow> string \<Rightarrow> dict wprog" where
  "process_submission W root rel publisher name =
     (let E = the_env W; sha = digest W; dir = root @ [''incoming'', str_of publisher, name]; data = root @ [''data''];
          payload = dir @ [''payload'']
      in bindM (askM (\<lambda>w. validate_untrusted_payload E w payload (dir @ [''receipt.json'']))) (\<lambda>(request, manifest, archive_digest).
         bindM (liftM (check_submission E rel publisher name request manifest)) (\<lambda>_.
         (let destination = root @ [''vault-snapshots'', str_of (dget manifest ''snapshot_id'')]
          in bindM (copy_verified_snapshot E (fresh_id W) (payload @ [''vault'']) destination manifest) (\<lambda>_.
             bindM (askM (\<lambda>w. read_manifest sha w (destination @ [''snapshot.json'']))) (\<lambda>stored.
             bindM (askM (\<lambda>w. verify_snapshot sha (Some (inspect_vault W)) w (destination @ [''vault'']) (JObj stored))) (\<lambda>_.
             bindM utc_now (\<lambda>now.
             bindM (rebuild W (destination @ [''vault'']) data (submission_options rel stored now)) (\<lambda>build.
             if dget build ''result'' = JStr ''unchanged'' then
               bindM (askM (\<lambda>w. active_state E w data)) (\<lambda>state.
               (let current = obj_of (dget state ''current_deployment'')
                in if current \<noteq> [] \<and> pyeq (dget current ''snapshot_id'') (dget manifest ''snapshot_id'')
                   then retM (unchanged_submission request publisher current (policy_id E (rel_policy rel)) archive_digest)
                   else raiseM (BuildError ''unchanged build does not match active deployment snapshot'')))
             else finish_candidate W data rel request build archive_digest)))))))))"

end
