(* ===== verification/Processor.thy ===== *)
theory Processor
  imports Submissions
begin

text \<open>
  \<open>pipeline.py\<close>, the processor: the commit marker and its journal, the application of a commit, the
  scan over submissions and commits, and the verification of the active deployment.
\<close>

section \<open>The commit marker\<close>

definition marker_fields :: "string list" where
  "marker_fields =
    [''schema_version'', ''protocol'', ''request_id'', ''publisher_id'', ''candidate_deployment_id'',
     ''expected_current_deployment_id'', ''submission_archive_sha256'']"

definition promotion_conflict :: "string \<Rightarrow> exn" where
  "promotion_conflict m = PipelineError ''PROMOTION_CONFLICT'' m False"

definition validate_commit :: "world \<Rightarrow> path \<Rightarrow> dict \<Rightarrow> json \<Rightarrow> dict res" where
  "validate_commit w marker ready receipt_digest =
     bindE (read_bytes w marker) (\<lambda>raw.
     bindE (rewrap is_deployment_error (\<lambda>_. promotion_conflict ''commit marker is invalid JSON'') (strict_loads_bytes raw)) (\<lambda>v.
     (let commit = obj_of v
      in bindE (raiseIf (\<not> is_obj v \<or> dkeys commit \<noteq> marker_fields)
           (promotion_conflict ''commit marker contract is invalid'')) (\<lambda>_.
         bindE (raiseIf (raw \<noteq> receiver_json_bytes v) (promotion_conflict ''commit marker is not canonical'')) (\<lambda>_.
         bindE (eachE (\<lambda>f. raiseIf (\<not> pyeq (dget commit f) (dget ready f))
             (promotion_conflict (''commit '' @ f @ '' disagrees with candidate'')))
           [''request_id'', ''publisher_id'', ''candidate_deployment_id'', ''expected_current_deployment_id'']) (\<lambda>_.
         bindE (raiseIf (\<not> pyeq (dget commit ''submission_archive_sha256'') receipt_digest)
           (promotion_conflict ''commit archive digest disagrees with receipt'')) (\<lambda>_.
         Inr commit)))))))"

definition deployment_matches_policy :: "env \<Rightarrow> json \<Rightarrow> dict \<Rightarrow> bool res" where
  "deployment_matches_policy E deployment policy =
     bindE (validate_deployment_record (digest E) deployment) (\<lambda>checked.
     Inr (agree_on [''homeops_version'', ''source_revision'', ''image_digest'', ''snapshot_schema_version'',
       ''snapshot_contract_version'', ''build_schema_version'', ''build_contract_version''] checked policy))"

section \<open>The journal of a commit\<close>

definition commit_journal_path :: "path \<Rightarrow> json \<Rightarrow> string \<Rightarrow> path res" where
  "commit_journal_path root publisher request_id =
     bindE (validate_publisher_id publisher) (\<lambda>p.
     bindE (validate_safe_id (JStr request_id) ''request_id'') (\<lambda>i.
     Inr (root @ [''pipeline-state'', ''commit-journal'', p, i @ ''.json''])))"

definition journal_fields :: "string list" where
  "journal_fields =
    [''schema_version'', ''protocol'', ''state'', ''request_id'', ''publisher_id'', ''candidate_deployment_id'',
     ''expected_current_deployment_id'', ''release_policy_id'', ''started_at'']"

definition write_commit_journal :: "path \<Rightarrow> json \<Rightarrow> string \<Rightarrow> json \<Rightarrow> json \<Rightarrow> string \<Rightarrow> dict wprog" where
  "write_commit_journal root publisher request_id candidate expected release_policy_id =
     bindM utc_now (\<lambda>now.
     (let journal =
        [(''schema_version'', JInt 1), (''protocol'', JStr receiver_protocol), (''state'', JStr ''APPLYING''),
         (''request_id'', JStr request_id), (''publisher_id'', publisher), (''candidate_deployment_id'', candidate),
         (''expected_current_deployment_id'', expected), (''release_policy_id'', JStr release_policy_id),
         (''started_at'', JStr now)]
      in bindM (liftM (commit_journal_path root publisher request_id)) (\<lambda>p.
         bindM (durable_atomic_json p (JObj journal)) (\<lambda>_.
         retM journal))))"

definition bad_commit_journal :: "json \<Rightarrow> json \<Rightarrow> string \<Rightarrow> bool" where
  "bad_commit_journal v publisher request_id \<longleftrightarrow>
     (let d = obj_of v
      in \<not> is_obj v \<or> \<not> same_fields d journal_fields \<or> \<not> pyeq (dget d ''schema_version'') (JInt 1)
         \<or> dget d ''protocol'' \<noteq> JStr receiver_protocol \<or> dget d ''state'' \<noteq> JStr ''APPLYING''
         \<or> dget d ''request_id'' \<noteq> JStr request_id \<or> \<not> pyeq (dget d ''publisher_id'') publisher)"

definition load_commit_journal :: "world \<Rightarrow> path \<Rightarrow> json \<Rightarrow> string \<Rightarrow> dict option res" where
  "load_commit_journal w root publisher request_id =
     bindE (commit_journal_path root publisher request_id) (\<lambda>p.
     if \<not> is_file w p then Inr None
     else bindE (read_document w p) (\<lambda>v.
       bindE (raiseIf (bad_commit_journal v publisher request_id) (promotion_conflict ''commit journal is invalid'')) (\<lambda>_.
       Inr (Some (obj_of v)))))"

section \<open>Applying a commit\<close>

definition current_id :: "dict \<Rightarrow> json" where
  "current_id state = dget (obj_of (dget state ''current_deployment'')) ''deployment_id''"

text \<open>\<open>current and current.get("deployment_id") == deployment_id\<close>.\<close>

definition is_selected :: "dict \<Rightarrow> json \<Rightarrow> bool" where
  "is_selected state deployment_id \<longleftrightarrow> truthy (dget state ''current_deployment'') \<and> pyeq (current_id state) deployment_id"

definition promoted_result :: "dict \<Rightarrow> string \<Rightarrow> dict \<Rightarrow> dict res" where
  "promoted_result ready outcome state =
     bindE (jidx (dget state ''current_deployment'') ''promoted_at'') (\<lambda>at.
     Inr (dmerge ready [(''outcome'', JStr outcome), (''promoted_at'', at)]))"

text \<open>A journal from an earlier run: the commit was applied, or it cannot be applied any more.\<close>

definition replay_commit :: "env \<Rightarrow> path \<Rightarrow> dict \<Rightarrow> dict \<Rightarrow> json \<Rightarrow> string \<Rightarrow> dict wprog" where
  "replay_commit E data ready journal deployment_id release_policy_id =
     bindM (liftM (raiseIf (\<not> pyeq (dget journal ''candidate_deployment_id'') deployment_id
         \<or> \<not> pyeq (dget journal ''expected_current_deployment_id'') (dget ready ''expected_current_deployment_id'')
         \<or> dget journal ''release_policy_id'' \<noteq> JStr release_policy_id)
       (promotion_conflict ''commit journal disagrees with candidate''))) (\<lambda>_.
     bindM (askM (\<lambda>w. active_state E w data)) (\<lambda>state.
     if is_selected state deployment_id then
       bindM (repair_selected_bookkeeping E data deployment_id) (\<lambda>repaired.
       liftM (promoted_result ready ''PROMOTED'' repaired))
     else raiseM (promotion_conflict ''commit was already applied or interrupted and cannot be replayed'')))"

text \<open>The handlers of the promotion: an I/O error after the selection is repaired.\<close>

definition repair_after_error :: "env \<Rightarrow> path \<Rightarrow> json \<Rightarrow> exn \<Rightarrow> dict wprog" where
  "repair_after_error E data deployment_id e =
     bindM (askM (\<lambda>w. active_state E w data)) (\<lambda>state.
     if \<not> is_selected state deployment_id then raiseM e
     else bindM (repair_selected_bookkeeping E data deployment_id) (\<lambda>repaired.
       retM (dmerge [(''result'', JStr ''promoted'')] repaired)))"

definition apply_promotion :: "env \<Rightarrow> path \<Rightarrow> json \<Rightarrow> json \<Rightarrow> json \<Rightarrow> dict wprog" where
  "apply_promotion E data deployment deployment_id expected =
     catchM (promote E data deployment expected True) (\<lambda>e.
       if is_os_error e then Some (repair_after_error E data deployment_id e)
       else if is_build_error e \<or> is_deployment_error e
         then Some (raiseM (PipelineError
           (if contains (exn_text e) ''changed'' then ''PROMOTION_CONFLICT'' else ''BUILD_FAILED'') (exn_text e) False))
       else None)"

definition check_evaluation :: "json \<Rightarrow> string \<Rightarrow> unit res" where
  "check_evaluation v policy =
     raiseIf (\<not> is_obj v \<or> dget (obj_of v) ''passed'' \<noteq> JBool True \<or> dget (obj_of v) ''promotion_policy_id'' \<noteq> JStr policy)
       (promotion_conflict ''candidate evaluation does not match release policy'')"

text \<open>Everything that is checked before the journal is looked at; the candidate and its record.\<close>

definition check_commit :: "env \<Rightarrow> world \<Rightarrow> path \<Rightarrow> json \<Rightarrow> string \<Rightarrow> path \<Rightarrow> dict \<Rightarrow> dict \<Rightarrow> (json \<times> json) res" where
  "check_commit E w root publisher request_id marker policy ready =
     (let data = root @ [''data'']; deployment_id = dget ready ''candidate_deployment_id''
      in bindE (read_document w (root @ [''incoming'', str_of publisher, request_id, ''receipt.json''])) (\<lambda>receipt.
         bindE (jidx receipt ''archive_sha256'') (\<lambda>receipt_digest.
         bindE (validate_commit w marker ready receipt_digest) (\<lambda>_.
         bindE (didx ready ''candidate_deployment_id'') (\<lambda>_.
         bindE (raiseIf (dget ready ''release_policy_id'' \<noteq> JStr (policy_id E (base_release_policy policy))
             \<or> dget ready ''promotion_policy_id'' \<noteq> JStr (policy_id E policy))
           (promotion_conflict ''candidate belongs to a different release policy'')) (\<lambda>_.
         bindE (raiseIf (\<not> is_str deployment_id) (Unmodelled ''text of a JSON value'')) (\<lambda>_.
         bindE (read_document w (data @ [''deployments'', str_of deployment_id @ ''.json''])) (\<lambda>deployment.
         bindE (deployment_matches_policy E deployment policy) (\<lambda>same.
         bindE (raiseIf (\<not> same) (promotion_conflict ''candidate deployment does not match release policy'')) (\<lambda>_.
         bindE (jidx deployment ''run_id'') (\<lambda>run.
         bindE (read_document w (data @ [''builds'', str_of run, ''promotion-evaluation.json''])) (\<lambda>evaluation.
         bindE (check_evaluation evaluation (policy_id E policy)) (\<lambda>_.
         bindE (didx ready ''expected_current_deployment_id'') (\<lambda>_.
         Inr (deployment_id, deployment)))))))))))))))"

definition first_commit :: "env \<Rightarrow> path \<Rightarrow> json \<Rightarrow> string \<Rightarrow> dict \<Rightarrow> dict \<Rightarrow> json \<Rightarrow> json \<Rightarrow> dict wprog" where
  "first_commit E root publisher request_id policy ready deployment_id deployment =
     (let expected = dget ready ''expected_current_deployment_id''
      in bindM (write_commit_journal root publisher request_id deployment_id expected (policy_id E (base_release_policy policy))) (\<lambda>_.
         bindM (apply_promotion E (root @ [''data'']) deployment deployment_id (or_else expected JNull)) (\<lambda>promoted.
         bindM (liftM (raiseIf (\<not> is_selected promoted deployment_id)
           (PipelineError ''POST_PROMOTION_MISMATCH'' ''selected deployment differs from commit'' False))) (\<lambda>_.
         liftM (promoted_result ready
           (if dget promoted ''result'' = JStr ''promoted'' then ''PROMOTED'' else ''UNCHANGED'') promoted)))))"

definition process_commit :: "env \<Rightarrow> path \<Rightarrow> json \<Rightarrow> path \<Rightarrow> dict \<Rightarrow> dict wprog" where
  "process_commit E root publisher marker policy =
     (let request_id = stem_of (last marker)
      in bindM (liftM (remote_result_path root publisher request_id)) (\<lambda>p.
         bindM (askM (\<lambda>w. read_document w p)) (\<lambda>v.
         bindM (liftM (jget v ''outcome'')) (\<lambda>outcome.
         bindM (liftM (in_strs outcome pipeline_outcomes)) (\<lambda>terminal.
         if terminal then retM (obj_of v)
         else
           bindM (liftM (raiseIf (outcome \<noteq> JStr ''CANDIDATE_READY'')
             (promotion_conflict ''commit has no candidate-ready result''))) (\<lambda>_.
           bindM (askM (\<lambda>w. check_commit E w root publisher request_id marker policy (obj_of v))) (\<lambda>(deployment_id, deployment).
           bindM (askM (\<lambda>w. load_commit_journal w root publisher request_id)) (\<lambda>journal.
           case journal of
             Some j \<Rightarrow> replay_commit E (root @ [''data'']) (obj_of v) j deployment_id (policy_id E (base_release_policy policy))
           | None \<Rightarrow> first_commit E root publisher request_id policy (obj_of v) deployment_id deployment))))))))"

section \<open>The scan\<close>

definition failed_submission :: "json \<Rightarrow> string \<Rightarrow> string \<Rightarrow> bool \<Rightarrow> exn \<Rightarrow> dict" where
  "failed_submission publisher name outcome retryable e =
     [(''schema_version'', JInt 1), (''protocol'', JStr receiver_protocol), (''request_id'', JStr name),
      (''publisher_id'', publisher), (''outcome'', JStr outcome), (''retryable'', JBool retryable),
      (''diagnostic'', JStr (redacted_failure e))]"

definition submission_failure :: "json \<Rightarrow> string \<Rightarrow> exn \<Rightarrow> dict option" where
  "submission_failure publisher name e =
     (case e of
        PipelineError outcome m retryable \<Rightarrow> Some (failed_submission publisher name outcome retryable e)
      | SnapshotError m \<Rightarrow> Some (failed_submission publisher name ''REMOTE_SNAPSHOT_INVALID'' False e)
      | _ \<Rightarrow> if is_build_error e \<or> is_os_error e \<or> is_value_error e
          then Some (failed_submission publisher name ''BUILD_FAILED'' False e) else None)"

text \<open>A result is final unless it says that it can be tried again.\<close>

definition settled_result :: "world \<Rightarrow> path \<Rightarrow> bool res" where
  "settled_result w p =
     (if \<not> is_file w p then Inr False
      else bindE (read_document w p) (\<lambda>v.
        if \<not> is_obj v \<or> dget (obj_of v) ''retryable'' \<noteq> JBool True then Inr True
        else bindE (in_strs (dget (obj_of v) ''outcome'') retryable_outcomes) (\<lambda>again. Inr (\<not> again))))"

fun process_submissions :: "workshop \<Rightarrow> path \<Rightarrow> remote_release \<Rightarrow> json \<Rightarrow> string list \<Rightarrow> dict list \<Rightarrow> dict list wprog" where
  "process_submissions W root rel publisher [] processed = retM processed"
| "process_submissions W root rel publisher (name # names) processed =
     bindM (liftM (remote_result_path root publisher name)) (\<lambda>p.
     bindM (askM (\<lambda>w. settled_result w p)) (\<lambda>settled.
     if settled then process_submissions W root rel publisher names processed
     else
       bindM (catchM (process_submission W root rel publisher name)
         (\<lambda>e. map_option retM (submission_failure publisher name e))) (\<lambda>result.
       bindM (write_remote_result root publisher name result) (\<lambda>_.
       process_submissions W root rel publisher names (processed @ [result])))))"

definition publish_current_status :: "env \<Rightarrow> path \<Rightarrow> dict wprog" where
  "publish_current_status E root = publish_current_projection (digest E) root None"

definition commit_failure :: "dict \<Rightarrow> exn \<Rightarrow> dict option" where
  "commit_failure ready e =
     (case e of
        PipelineError outcome m retryable \<Rightarrow> Some (dmerge ready
          [(''outcome'', JStr outcome), (''retryable'', JBool retryable), (''diagnostic'', JStr (redacted_failure e))])
      | _ \<Rightarrow> None)"

definition commit_candidate :: "world \<Rightarrow> path \<Rightarrow> dict option res" where
  "commit_candidate w p =
     (if \<not> is_file w p then Inr None
      else bindE (read_document w p) (\<lambda>v.
        bindE (jget v ''outcome'') (\<lambda>outcome.
        Inr (if outcome = JStr ''CANDIDATE_READY'' then Some (obj_of v) else None))))"

fun process_commits :: "workshop \<Rightarrow> path \<Rightarrow> remote_release \<Rightarrow> json \<Rightarrow> string list \<Rightarrow> dict list \<Rightarrow> dict list wprog" where
  "process_commits W root rel publisher [] processed = retM processed"
| "process_commits W root rel publisher (name # names) processed =
     bindM (liftM (remote_result_path root publisher (stem_of name))) (\<lambda>p.
     bindM (askM (\<lambda>w. commit_candidate w p)) (\<lambda>candidate.
     case candidate of
       None \<Rightarrow> process_commits W root rel publisher names processed
     | Some ready \<Rightarrow>
         bindM (catchM
           (process_commit (the_env W) root publisher (root @ [''commits'', str_of publisher, name]) (rel_policy rel))
           (\<lambda>e. map_option retM (commit_failure ready e))) (\<lambda>result.
         bindM (write_remote_result root publisher (stem_of name) result) (\<lambda>_.
         bindM (whenM (dget result ''outcome'' \<in> {JStr ''PROMOTED'', JStr ''UNCHANGED''})
           (bindM (publish_current_status (the_env W) root) (\<lambda>_. retM ()))) (\<lambda>_.
         process_commits W root rel publisher names (processed @ [result]))))))"

text \<open>\<open>sorted(path.iterdir())\<close> of directories, \<open>sorted(path.glob("*.json"))\<close>.\<close>

definition incoming_names :: "world \<Rightarrow> path \<Rightarrow> string list" where
  "incoming_names w dir = (if is_dir w dir then filter (\<lambda>n. is_dir w (dir @ [n])) (children w dir) else [])"

definition marker_names :: "world \<Rightarrow> path \<Rightarrow> string list" where
  "marker_names w dir = (if is_dir w dir then filter (\<lambda>n. endswith n ''.json'') (children w dir) else [])"

definition scan_all :: "workshop \<Rightarrow> path \<Rightarrow> remote_release \<Rightarrow> json \<Rightarrow> dict wprog" where
  "scan_all W root rel publisher =
     bindM (getsM (\<lambda>w. incoming_names w (root @ [''incoming'', str_of publisher]))) (\<lambda>names.
     bindM (process_submissions W root rel publisher names []) (\<lambda>processed.
     bindM (getsM (\<lambda>w. marker_names w (root @ [''commits'', str_of publisher]))) (\<lambda>markers.
     bindM (process_commits W root rel publisher markers processed) (\<lambda>processed.
     bindM (publish_current_projection (digest W) root None) (\<lambda>_.
     retM [(''schema_version'', JInt 1), (''processed'', JInt (int (length processed))),
       (''outcomes'', JList (map (\<lambda>r. dget r ''outcome'') processed))])))))"

definition process_remote :: "workshop \<Rightarrow> path \<Rightarrow> json \<Rightarrow> path list \<Rightarrow> json \<Rightarrow> json \<Rightarrow> dict wprog" where
  "process_remote W root publisher_id cases source_revision image_digest =
     bindM (recover_pending_rollback (the_env W) (root @ [''data''])) (\<lambda>_.
     bindM (liftM (validate_publisher_id publisher_id)) (\<lambda>publisher.
     bindM (liftM (released_identity (release_version W) source_revision image_digest)) (\<lambda>(version, revision, pinned).
     bindM (askM (\<lambda>w. release_policy (the_env W) w version revision pinned cases)) (\<lambda>policy.
     bindM (publish_current_projection (digest W) root None) (\<lambda>_.
     scan_all W root \<lparr>rel_cases = cases, rel_version = version, rel_revision = revision, rel_digest = pinned, rel_policy = policy\<rparr>
       (JStr publisher))))))"

section \<open>The active deployment\<close>

definition check_active_snapshot :: "env \<Rightarrow> world \<Rightarrow> path \<Rightarrow> dict \<Rightarrow> unit res" where
  "check_active_snapshot E w root deployment =
     (let dir = root @ [''vault-snapshots'', str_of (dget deployment ''snapshot_id'')]
      in bindE (read_manifest (digest E) w (dir @ [''snapshot.json''])) (\<lambda>manifest.
         bindE (verify_snapshot (digest E) (Some (inspect_vault E)) w (dir @ [''vault'']) (JObj manifest)) (\<lambda>_.
         eachE (\<lambda>f. raiseIf (\<not> pyeq (dget deployment f) (dget manifest f))
           (PipelineError ''POST_PROMOTION_MISMATCH'' (''active '' @ f @ '' mismatch'') False)) fingerprint_fields)))"

definition verify_active :: "env \<Rightarrow> path \<Rightarrow> dict wprog" where
  "verify_active E root =
     (let data = root @ [''data'']
      in bindM (askM (\<lambda>w. active_state E w data)) (\<lambda>state.
         bindM (liftM (raiseIf (\<not> pyeq (dget state ''schema_version'') (JInt DEPLOYMENT_SCHEMA_VERSION))
           (internal_error ''active deployment state is not schema v2''))) (\<lambda>_.
         bindM (liftM (raiseIf (dget state ''current_deployment'' = JNull)
           (internal_error ''there is no active deployment''))) (\<lambda>_.
         (let deployment = obj_of (dget state ''current_deployment'')
          in bindM (askM (\<lambda>w. verify_run E w data (dget deployment ''run_id''))) (\<lambda>verification.
             bindM (askM (\<lambda>w. check_active_snapshot E w root deployment)) (\<lambda>_.
             bindM (publish_current_status E root) (\<lambda>_.
             retM [(''schema_version'', JInt 1), (''outcome'', JStr ''VERIFIED''),
               (''deployment_id'', dget deployment ''deployment_id''), (''snapshot_id'', dget deployment ''snapshot_id''),
               (''run_id'', dget deployment ''run_id''), (''verification'', verification)]))))))))"

end
