(* ===== verification/ProcessorFrames.thy ===== *)
theory ProcessorFrames
  imports Processor PromotionProps
begin

text \<open>
  Which files the operations of the builds and of the processor can change: one frame lemma per
  operation, each from those of the operations it calls, and the decomposition of a commit into the
  checks that change nothing and the run that may.
\<close>

section \<open>Frames of the file operations\<close>

definition below_set :: "path \<Rightarrow> path set" where
  "below_set p = {q. below p q}"

lemma map_of_filter_keys: "map_of (filter (\<lambda>e. P (fst e)) t) q = (if P q then map_of t q else None)"
  by (induction t) auto

lemma map_of_rebased:
  "\<not> below p q \<Longrightarrow> \<not> below r q \<Longrightarrow>
     map_of (map (\<lambda>e. if below p (fst e) then (r @ drop (length p) (fst e), snd e) else e) t) q = map_of t q"
  by (induction t) (auto simp: below_def)

lemma keeps_remove_tree: "below_set p \<subseteq> S \<Longrightarrow> keeps (same_outside S) (remove_tree p)"
  unfolding remove_tree_def
  by (rule keeps_durable) (auto simp: below_set_def map_of_filter_keys [where P = "\<lambda>k. \<not> below p k"])

lemma keeps_remove_quietly: "below_set p \<subseteq> S \<Longrightarrow> keeps (same_outside S) (remove_tree_quietly p)"
  unfolding remove_tree_quietly_def
  by (auto intro!: frame.keeps_catch keeps_remove_tree frame.keeps_pure split: if_splits)

lemma keeps_rename: "below_set p \<subseteq> S \<Longrightarrow> below_set r \<subseteq> S \<Longrightarrow> keeps (same_outside S) (rename p r)"
  unfolding rename_def
proof (rule keeps_durable)
  fix t :: "(path \<times> node) list" and q
  assume "below_set p \<subseteq> S" "below_set r \<subseteq> S" "q \<notin> S"
  then have "\<not> below p q" "\<not> below r q" by (auto simp: below_set_def)
  then show "map_of (map (\<lambda>e. if below p (fst e) then (r @ drop (length p) (fst e), snd e) else e)
      (filter (\<lambda>e. \<not> below r (fst e)) t)) q = map_of t q"
    by (simp add: map_of_rebased map_of_filter_keys [where P = "\<lambda>k. \<not> below r k"])
qed

lemma map_of_copied:
  "\<not> below r q \<Longrightarrow> map_of (map (\<lambda>e. (r @ f e, snd e)) t) q = None"
  by (induction t) (auto simp: below_def)

lemma keeps_copy_tree: "below_set r \<subseteq> S \<Longrightarrow> keeps (same_outside S) (copy_tree p r)"
proof (rule keepsI)
  fix w x w'
  assume S: "below_set r \<subseteq> S" and run: "copy_tree p r w = (x, w')"
  show "same_outside S w w'"
    unfolding same_outside_def
  proof (intro allI impI)
    fix q assume "q \<notin> S"
    with S have q: "\<not> below r q" by (auto simp: below_set_def)
    from run show "file_at w' q = file_at w q"
      using q unfolding copy_tree_def
      by (auto simp: file_at_tree map_add_def map_of_copied map_of_add_dirs split: if_splits option.splits
          elim!: durable_cases)
  qed
qed

lemma keeps_make_dir: "keeps (same_outside S) (make_dir p)"
proof (rule keepsI)
  fix w r w' assume "make_dir p w = (r, w')"
  then show "same_outside S w w'"
    by (auto simp: make_dir_def frame.R_refl split: if_splits intro: keepsD [OF keeps_make_dirs])
qed

lemma keeps_draw: "keeps (same_outside S) (draw f)"
  by (auto simp: keeps_def draw_def same_outside_def)

lemma keeps_write_manifest: "p \<in> S \<Longrightarrow> keeps (same_outside S) (write_manifest sha p m)"
  unfolding write_manifest_def by (intro frame_intros)

lemma in_below_set [simp]: "p @ q \<in> below_set p" "p \<in> below_set p"
  by (simp_all add: below_set_def below_def)

lemma below_set_append: "below_set (p @ q) \<subseteq> below_set p"
proof
  fix r assume "r \<in> below_set (p @ q)"
  then have "take (length p) r = p" by (auto simp: below_set_def below_def dest: arg_cong [of _ _ "take (length p)"])
  then show "r \<in> below_set p" by (simp add: below_set_def below_def)
qed

section \<open>Frames of locks and builds\<close>

lemma keeps_finally: "keeps (same_outside S) m \<Longrightarrow> keeps (same_outside S) (finallyM m (release p shared))"
  by (fastforce simp: keeps_def finallyM_def release_def same_outside_def split: prod.splits)

lemma keeps_acquire: "keeps (same_outside S) (acquire p shared blocking busy)"
  by (auto simp: keeps_def acquire_def same_outside_def split: if_splits)

lemma keeps_open_lock:
  assumes "p \<in> S"
  shows "keeps (same_outside S) (open_lock p create)"
  using assms keepsD [OF keeps_put_file]
  by (fastforce simp: keeps_def open_lock_def same_outside_def split: option.splits node.splits if_splits)

lemma keeps_lock_owner: "p \<in> S \<Longrightarrow> keeps (same_outside S) (\<lambda>w. put_file p (f w) w)"
  by (auto simp: keeps_def dest: keepsD [OF keeps_put_file])

lemma keeps_data_lock:
  assumes "data @ [name] \<in> S" "keeps (same_outside S) body"
  shows "keeps (same_outside S) (data_lock data name blocking shared create record_owner body)"
  unfolding data_lock_def
  by (intro frame_intros keeps_if keeps_finally keeps_acquire keeps_open_lock keeps_lock_owner assms)

lemma keeps_rebuild_lock:
  assumes "data @ [''deployment.lock''] \<in> S" "keeps (same_outside S) body"
  shows "keeps (same_outside S) (rebuild_lock data body)"
  using keepsD [OF keeps_data_lock [OF assms]]
  by (fastforce simp: keeps_def rebuild_lock_def deployment_lock_def split: prod.splits)


text \<open>What a pure step returns is known in what follows it.\<close>

lemma keeps_bind_lift:
  assumes "\<And>x. r = Inr x \<Longrightarrow> keeps (same_outside S) (f x)"
  shows "keeps (same_outside S) (bindM (liftM r) f)"
  using assms by (cases r) (auto simp: keeps_def bindM_liftM same_outside_def)

lemma keeps_store_deployment:
  assumes "below_set (data @ [''deployments'']) \<subseteq> S"
  shows "keeps (same_outside S) (store_deployment sha data v)"
  unfolding store_deployment_def
proof (rule keeps_bind_lift, rule keeps_bind_lift)
  fix d p assume "deployment_record_path data (dget d ''deployment_id'') = Inr p"
  then have "p \<in> below_set (data @ [''deployments''])"
    by (auto simp: deployment_record_path_def bindE_eq_Inr below_set_def below_def)
  with assms show "keeps (same_outside S) (bindM (durable_create_json p (JObj d)) (\<lambda>_. retM p))"
    by (intro frame_intros) auto
qed

definition build_files :: "path \<Rightarrow> path set" where
  "build_files data = below_set (data @ [''builds'']) \<union> below_set (data @ [''deployments'']) \<union> {data @ [''deployment.lock'']}"

text \<open>What the processor relies on: the database client works in the directory of the database.\<close>

definition database_local :: "workshop \<Rightarrow> bool" where
  "database_local W \<longleftrightarrow>
     (\<forall>db d. keeps (same_outside (below_set (butlast db))) (database_documents W db d))
     \<and> (\<forall>db d run started completed result.
         keeps (same_outside (below_set (butlast db))) (database_run W db d run started completed result))"

lemma keeps_database:
  assumes "database_local W" "below_set dir \<subseteq> S"
  shows "keeps (same_outside S) (database_documents W (dir @ [n]) d)"
    "keeps (same_outside S) (database_run W (dir @ [n]) d run started completed result)"
  using assms unfolding database_local_def by (metis butlast_snoc keeps_mono)+

lemma keeps_save_manifest: "below_set dir \<subseteq> S \<Longrightarrow> keeps (same_outside S) (save_manifest dir m)"
  unfolding save_manifest_def by (intro frame_intros) auto

lemma keeps_record_failure:
  assumes "below_set dir \<subseteq> S"
  shows "keeps (same_outside S) (record_failure dir m e)"
proof -
  have "keeps (same_outside S) (case e of VerificationError report \<Rightarrow>
      durable_atomic_json (dir @ [''validation.json'']) report | _ \<Rightarrow> retM ())"
    using assms by (cases e) (auto intro!: frame_intros)
  with assms show ?thesis
    unfolding record_failure_def by (intro frame_intros keeps_if) auto
qed

lemma keeps_stage:
  assumes "below_set dir \<subseteq> S" "keeps (same_outside S) m"
  shows "keeps (same_outside S) (stage dir manifest m)"
  unfolding stage_def
  by (rule frame.keeps_catch) (auto simp: assms keeps_record_failure split: if_splits)

lemma keeps_strict_deployment:
  assumes "below_set (data @ [''deployments'']) \<subseteq> S"
  shows "keeps (same_outside S) (strict_deployment W data state snapshot manifest received False expected)"
  unfolding strict_deployment_def Let_def
  by (intro frame_intros keeps_store_deployment assms) (simp add: frame.keeps_pure)

lemma keeps_selection:
  assumes "below_set dir \<subseteq> S" "below_set (data @ [''deployments'']) \<subseteq> S"
  shows "keeps (same_outside S) (selection_stage W data dir state strict manifest run_id received False expected)"
  unfolding selection_stage_def
  using assms by (cases strict)
    (auto intro!: frame_intros keeps_save_manifest keeps_strict_deployment split: prod.splits)

lemma keeps_stages:
  assumes "database_local W" "below_set dir \<subseteq> S"
  shows "keeps (same_outside S) (load_stage W dir inspected run_id started_at)"
    "keeps (same_outside S) (candidate_stage W dir manifest inspected run_id started_at completed_at)"
    "keeps (same_outside S) (verified_stage W dir manifest)"
  unfolding load_stage_def candidate_stage_def verified_stage_def
  using assms by (auto intro!: frame_intros keeps_database keeps_save_manifest)

lemma keeps_run_build:
  assumes "database_local W" "build_files data \<subseteq> S"
  shows "keeps (same_outside S) (run_build W data inspected state strict requested received False expected)"
proof -
  have d: "below_set (data @ [''builds'', i]) \<subseteq> S" for i
    using assms(2) below_set_append [of "data @ [''builds'']" "[i]"] by (auto simp: build_files_def)
  have s: "below_set (data @ [''deployments'']) \<subseteq> S" using assms(2) by (auto simp: build_files_def)
  show ?thesis
    unfolding run_build_def Let_def
    by (intro frame_intros keeps_draw keeps_make_dir keeps_save_manifest keeps_stage keeps_stages keeps_selection
        keeps_prod d s assms(1))
qed

lemma keeps_rebuild:
  assumes "database_local W" "build_files data \<subseteq> S" "\<not> promoting o'"
  shows "keeps (same_outside S) (rebuild W vault data o')"
  unfolding rebuild_def rebuild_locked_def
  using assms
  by (intro keeps_rebuild_lock frame_intros keeps_if) (auto simp: build_files_def intro!: keeps_run_build)

lemma keeps_evaluate:
  assumes "below_set (data @ [''builds'']) \<subseteq> S"
  shows "keeps (same_outside S) (evaluate_candidate W data run_id cases)"
  unfolding evaluate_candidate_def Let_def
  using assms by (intro frame_intros) (auto simp: below_set_def below_def)


section \<open>Frames of the processor\<close>

definition submission_files :: "path \<Rightarrow> path set" where
  "submission_files root = build_files (root @ [''data'']) \<union> below_set (root @ [''vault-snapshots''])"

lemma keeps_publish_copy:
  assumes "below_set temporary \<subseteq> S" "below_set destination \<subseteq> S"
  shows "keeps (same_outside S) (publish_copy E temporary source destination manifest)"
proof -
  have "below_set (temporary @ [''vault'']) \<subseteq> S" using assms(1) below_set_append by blast
  with assms show ?thesis
    unfolding publish_copy_def
    by (intro frame_intros keeps_make_dir frame.keeps_catch keeps_copy_tree keeps_write_manifest keeps_rename)
       (auto intro!: frame_intros keeps_remove_quietly split: if_splits)
qed

lemma keeps_copy_verified:
  assumes "below_set (root @ [''vault-snapshots'']) \<subseteq> S"
  shows "keeps (same_outside S) (copy_verified_snapshot E ids source (root @ [''vault-snapshots'', i]) manifest)"
proof -
  have "below_set (root @ [''vault-snapshots'', j]) \<subseteq> S" for j
    using assms below_set_append [of "root @ [''vault-snapshots'']" "[j]"] by auto
  then show ?thesis
    unfolding copy_verified_snapshot_def Let_def partial_dir_def
    by (intro frame_intros keeps_if keeps_draw keeps_publish_copy) (simp_all add: butlast_append)
qed

lemma keeps_finish:
  assumes "below_set (data @ [''builds'']) \<subseteq> S"
  shows "keeps (same_outside S) (finish_candidate W data rel request build archive)"
proof -
  have "keeps (same_outside S) (evaluated W data rel run_id)" for run_id
    unfolding evaluated_def using assms
    by (auto intro!: frame.keeps_catch keeps_evaluate frame.keeps_pure split: if_splits)
  moreover have "data @ [''builds'', r, n] \<in> S" for r n
    using assms by (auto simp: below_set_def below_def)
  ultimately show ?thesis
    unfolding finish_candidate_def Let_def by (intro frame_intros)
qed

lemma keeps_submission:
  assumes "database_local W" "submission_files root \<subseteq> S"
  shows "keeps (same_outside S) (process_submission W root rel publisher name)"
proof -
  have S: "below_set (root @ [''vault-snapshots'']) \<subseteq> S" "build_files (root @ [''data'']) \<subseteq> S"
    "below_set ((root @ [''data'']) @ [''builds'']) \<subseteq> S"
    using assms(2) by (auto simp: submission_files_def build_files_def)
  have "\<not> promoting (submission_options rel m now)" for m now by (simp add: submission_options_def)
  with S assms(1) show ?thesis
    unfolding process_submission_def Let_def
    by (intro frame_intros keeps_prod keeps_if keeps_copy_verified keeps_rebuild keeps_finish)
qed

text \<open>What applying a commit can change: the selection and its bookkeeping, and the journal.\<close>

definition selection_files :: "path \<Rightarrow> path set" where
  "selection_files root = {root @ [''data'', ''active.json''], root @ [''data'', ''deployment.lock''], projection_path root}
     \<union> below_set (root @ [''data'', ''deployments'']) \<union> below_set (root @ [''data'', ''deployment-history''])"

lemma history_below: "history_files data = below_set (data @ [''deployment-history''])"
  by (simp add: history_files_def below_set_def)

definition repair_files :: "path \<Rightarrow> path set" where
  "repair_files root = {root @ [''data'', ''deployment.lock''], projection_path root}
     \<union> below_set (root @ [''data'', ''deployment-history''])"

lemma keeps_repair_selected:
  "keeps (same_outside (repair_files root)) (repair_selected_bookkeeping E (root @ [''data'']) i)"
  unfolding repair_selected_bookkeeping_def
  by (intro keeps_rebuild_lock keeps_mono [OF keeps_repair])
     (auto simp: repair_files_def bookkeeping_files_def history_below)

lemma repair_in_selection: "repair_files root \<subseteq> selection_files root"
  by (auto simp: repair_files_def selection_files_def)

lemma keeps_promote_locked:
  "keeps (same_outside (selection_files root)) (promote_locked E (root @ [''data'']) candidate expected at req)"
  unfolding promote_locked_def
  by (intro frame_intros keeps_if keeps_prod keeps_store_deployment keeps_mono [OF keeps_repair])
     (auto simp: selection_files_def bookkeeping_files_def history_below active_path_def)

lemma keeps_promote:
  "keeps (same_outside (selection_files root)) (promote E (root @ [''data'']) deployment expected req)"
  unfolding promote_def
  by (intro keeps_rebuild_lock frame_intros keeps_promote_locked) (simp add: selection_files_def)

lemma keeps_apply_promotion:
  "keeps (same_outside (selection_files root)) (apply_promotion E (root @ [''data'']) deployment i expected)"
  unfolding apply_promotion_def repair_after_error_def
  by (rule frame.keeps_catch [OF keeps_promote])
     (auto intro!: frame_intros keeps_if keeps_mono [OF keeps_repair_selected repair_in_selection] split: if_splits)

lemma keeps_replay:
  "keeps (same_outside (repair_files root)) (replay_commit E (root @ [''data'']) ready j i policy)"
  unfolding replay_commit_def
  by (intro frame_intros keeps_if keeps_repair_selected)


section \<open>Runs of a commit\<close>

lemma lift_cases [consumes 1, case_names stops goes]:
  assumes "bindM (liftM q) f w = (r, w')"
  obtains e where "q = Inl e" "r = Inl e" "w' = w" | x where "q = Inr x" "f x w = (r, w')"
  using assms by (cases q) (auto simp: bindM_liftM)

lemma ask_cases [consumes 1, case_names stops goes]:
  assumes "bindM (askM g) f w = (r, w')"
  obtains e where "g w = Inl e" "r = Inl e" "w' = w" | x where "g w = Inr x" "f x w = (r, w')"
  using assms by (cases "g w") (auto simp: bindM_askM)

text \<open>A commit that is not ready is left alone; the others pass \<open>check_commit\<close> before anything changes.\<close>

definition commit_body_run :: "env \<Rightarrow> path \<Rightarrow> json \<Rightarrow> string \<Rightarrow> dict \<Rightarrow> dict \<Rightarrow> json \<Rightarrow> json \<Rightarrow> dict option \<Rightarrow> dict wprog" where
  "commit_body_run E root publisher request_id policy ready i d journal =
     (case journal of
        Some j \<Rightarrow> replay_commit E (root @ [''data'']) ready j i (policy_id E (base_release_policy policy))
      | None \<Rightarrow> first_commit E root publisher request_id policy ready i d)"

lemma process_commit_ready:
  assumes "process_commit E root publisher marker policy w = (r, w')"
    and "remote_result_path root publisher (stem_of (last marker)) = Inr p" "read_document w p = Inr v"
    and "jget v ''outcome'' = Inr (JStr ''CANDIDATE_READY'')"
  obtains (stops) e where "r = Inl e" "w' = w"
  | (runs) i d journal where
      "check_commit E w root publisher (stem_of (last marker)) marker policy (obj_of v) = Inr (i, d)"
      "load_commit_journal w root publisher (stem_of (last marker)) = Inr journal"
      "commit_body_run E root publisher (stem_of (last marker)) policy (obj_of v) i d journal w = (r, w')"
proof -
  let ?id = "stem_of (last marker)"
  have "bindM (askM (\<lambda>w. check_commit E w root publisher ?id marker policy (obj_of v))) (\<lambda>(i, d).
      bindM (askM (\<lambda>w. load_commit_journal w root publisher ?id))
        (commit_body_run E root publisher ?id policy (obj_of v) i d)) w = (r, w')"
    using assms unfolding process_commit_def Let_def commit_body_run_def
    by (simp add: bindM_askM bindM_liftM in_strs_def pipeline_outcomes_def raiseIf_def)
  then show thesis
  proof (cases rule: ask_cases)
    case (goes x)
    obtain i d where x: "x = (i, d)" by (cases x)
    from goes(2) show thesis
      unfolding x prod.case
      by (cases rule: ask_cases) (use goes(1) x stops runs in auto)
  qed (use stops in auto)
qed

lemma process_commit_idle:
  assumes "process_commit E root publisher marker policy w = (r, w')" "w' \<noteq> w"
  obtains p v where "remote_result_path root publisher (stem_of (last marker)) = Inr p" "read_document w p = Inr v"
    "jget v ''outcome'' = Inr (JStr ''CANDIDATE_READY'')"
  using assms unfolding process_commit_def Let_def
  by (auto simp: bindM_askM bindM_liftM raiseIf_def split: sum.splits if_splits)


lemma commit_journal_apart:
  "commit_journal_path root publisher i = Inr p \<Longrightarrow> p \<notin> selection_files root"
  by (auto simp: commit_journal_path_def bindE_eq_Inr selection_files_def below_set_def below_def projection_path_def)

lemma load_commit_journal_none:
  "load_commit_journal w root publisher i = Inr None \<Longrightarrow> commit_journal_path root publisher i = Inr p \<Longrightarrow> file_at w p = None"
  by (auto simp: load_commit_journal_def is_file_file_at bindE_eq_Inr split: if_splits)

lemma write_commit_journal_cases:
  assumes "write_commit_journal root publisher i c x policy w = (r, w')" "commit_journal_path root publisher i = Inr p"
  obtains (fails) e where "r = Inl e" "same_outside {} w w'"
  | (writes) j where "r = Inr j" "same_outside {p} w w'" "file_at w' p \<noteq> None"
proof -
  obtain j w1 where w1: "\<And>q. file_at w1 q = file_at w q"
    and run: "bindM (put_file p (dumps_indent (JObj j))) (\<lambda>_. retM j) w1 = (r, w')"
  proof -
    let ?w = "w\<lparr>ticks := Suc (ticks w)\<rparr>"
    have now: "bindM utc_now f w = f (clock w (ticks w)) ?w" for f :: "string \<Rightarrow> dict wprog"
      by (simp add: bindM_def utc_now_def)
    show thesis
      using assms(1)
      unfolding write_commit_journal_def Let_def durable_atomic_json_def now assms(2) bindM_liftM_Inr
      by (rule that [rotated]) simp
  qed
  from run show thesis
  proof (cases rule: bindM_cases)
    case (fails e)
    with w1 put_file_failed [OF fails(1)] that(1) show thesis by (simp add: same_outside_def)
  next
    case (continues u w2)
    from continues(1) show thesis
      by (rule put_file_cases) (use continues(2) w1 that(2) in \<open>auto simp: same_outside_def\<close>)
  qed
qed

lemma first_commit_cases:
  assumes "first_commit E root publisher i policy ready d deployment w = (r, w')" "commit_journal_path root publisher i = Inr p"
  shows "same_outside {} w w' \<or> file_at w' p \<noteq> None"
  using assms(1) unfolding first_commit_def Let_def
proof (cases rule: bindM_cases)
  case (fails e)
  from fails(1) assms(2) show ?thesis by (cases rule: write_commit_journal_cases) (use fails in auto)
next
  case (continues j w1)
  have j: "file_at w1 p \<noteq> None"
    by (rule write_commit_journal_cases [OF continues(1) assms(2)]) auto
  have "keeps (same_outside (selection_files root))
      (bindM (apply_promotion E (root @ [''data'']) deployment d expected) (\<lambda>promoted.
       bindM (liftM (q promoted)) (\<lambda>_. liftM (s promoted))))" for expected and q :: "dict \<Rightarrow> unit res" and s :: "dict \<Rightarrow> dict res"
    by (intro frame_intros keeps_apply_promotion)
  from keepsD [OF this continues(2)] j commit_journal_apart [OF assms(2)] show ?thesis
    by (auto dest: same_outsideD)
qed

lemma active_in_no_repair: "root @ [''data'', ''active.json''] \<notin> repair_files root"
  by (auto simp: repair_files_def below_set_def below_def projection_path_def)

text \<open>An existing journal stays, and with it the selection.\<close>

lemma journal_blocks:
  assumes run: "process_commit E root publisher marker policy w = (r, w')"
    and p: "commit_journal_path root publisher (stem_of (last marker)) = Inr p" "file_at w p \<noteq> None"
  shows "file_at w' (active_path (root @ [''data''])) = file_at w (active_path (root @ [''data'']))
    \<and> file_at w' p = file_at w p"
proof (cases "w' = w")
  case False
  from process_commit_idle [OF run False] obtain q v where
    q: "remote_result_path root publisher (stem_of (last marker)) = Inr q" "read_document w q = Inr v"
      "jget v ''outcome'' = Inr (JStr ''CANDIDATE_READY'')" .
  show ?thesis
  proof (cases rule: process_commit_ready [OF run q, case_names stops runs])
    case (runs i d journal)
    with p obtain j where "journal = Some j" using load_commit_journal_none by (cases journal) auto
    with runs(3) have "same_outside (repair_files root) w w'"
      by (auto simp: commit_body_run_def intro: keepsD [OF keeps_replay])
    with commit_journal_apart [OF p(1)] active_in_no_repair repair_in_selection show ?thesis
      by (auto simp: active_path_def same_outside_def)
  qed (use False in simp)
qed simp

lemma journal_left:
  assumes run: "process_commit E root publisher marker policy w = (r, w')"
    and p: "commit_journal_path root publisher (stem_of (last marker)) = Inr p"
    and moved: "file_at w' (active_path (root @ [''data''])) \<noteq> file_at w (active_path (root @ [''data'']))"
  shows "file_at w' p \<noteq> None"
proof -
  from moved have "w' \<noteq> w" by auto
  from process_commit_idle [OF run this] obtain q v where
    q: "remote_result_path root publisher (stem_of (last marker)) = Inr q" "read_document w q = Inr v"
      "jget v ''outcome'' = Inr (JStr ''CANDIDATE_READY'')" .
  show ?thesis
  proof (cases rule: process_commit_ready [OF run q, case_names stops runs])
    case (runs i d journal)
    show ?thesis
    proof (cases journal)
      case None
      with runs(3) have "first_commit E root publisher (stem_of (last marker)) policy (obj_of v) i d w = (r, w')"
        by (simp add: commit_body_run_def)
      from first_commit_cases [OF this p] moved show ?thesis by (auto simp: same_outside_def)
    next
      case (Some j)
      with runs(3) have "same_outside (repair_files root) w w'"
        by (auto simp: commit_body_run_def intro: keepsD [OF keeps_replay])
      with moved active_in_no_repair show ?thesis by (auto simp: active_path_def same_outside_def)
    qed
  qed (use moved in simp)
qed


end
