(* ===== verification/ProcessorSample.thy ===== *)
theory ProcessorSample
  imports ProcessorFrames
begin

text \<open>
  A concrete commit, run through the whole processor: a stored candidate with its build, its snapshot,
  its evaluation and its marker, on a plain tree of files.
\<close>

section \<open>Writes on a plain tree\<close>

text \<open>A tree without links, on a device without faults: a write to a free place succeeds.\<close>

definition tidy :: "world \<Rightarrow> bool" where
  "tidy w \<longleftrightarrow> faults w = [] \<and> (\<forall>p t. lstat w p \<noteq> Some (Link t))"

lemma tidy_file: "tidy w \<Longrightarrow> file_at w p = Some c \<longleftrightarrow> lstat w p = Some (File c)"
  by (auto simp: tidy_def file_at_def stat_def split: option.splits node.splits elim!: follow.elims)

lemma tidy_dir: "tidy w \<Longrightarrow> is_dir w p \<longleftrightarrow> lstat w p = Some Dir"
  by (auto simp: tidy_def is_dir_def stat_def split: option.splits node.splits elim!: follow.elims)

lemma tidy_exists: "tidy w \<Longrightarrow> lexists w p \<longleftrightarrow> is_dir w p \<or> file_at w p \<noteq> None"
  by (cases "lstat w p"; cases "the (lstat w p)") (auto simp: lexists_def tidy_dir tidy_file tidy_def)

lemma below_of_take: "below v (take i p) \<Longrightarrow> below v p"
proof -
  assume v: "below v (take i p)"
  then have "length (take (length v) (take i p)) = length v" by (simp add: below_def)
  then have "length v \<le> i" by simp
  with v show "below v p" by (simp add: below_def min_def)
qed

lemma add_dirs_entries:
  assumes "\<not> below v p"
  shows "filter (\<lambda>e. below v (fst e) \<and> fst e \<noteq> v) (add_dirs p t) = filter (\<lambda>e. below v (fst e) \<and> fst e \<noteq> v) t"
proof -
  have "\<forall>q \<in> set ps. \<not> below v q \<Longrightarrow> filter (\<lambda>e. below v (fst e) \<and> fst e \<noteq> v) (fold add_dir ps t)
      = filter (\<lambda>e. below v (fst e) \<and> fst e \<noteq> v) t" for ps
    by (induction ps arbitrary: t) (auto simp: add_dir_def)
  moreover have "\<forall>q \<in> set (map (\<lambda>i. take i p) [1..<Suc (length p)]). \<not> below v q"
    using assms by (auto simp del: upt_Suc dest: below_of_take)
  ultimately show ?thesis by (simp only: add_dirs_def)
qed

lemma update_entries:
  "\<not> below v p \<Longrightarrow> filter (\<lambda>e. below v (fst e) \<and> fst e \<noteq> v) (AList.update p n t) = filter (\<lambda>e. below v (fst e) \<and> fst e \<noteq> v) t"
  by (induction t) auto


text \<open>What a write leaves: the file, the directories above it, and everything else as it was.\<close>

definition written_at :: "path \<Rightarrow> string \<Rightarrow> world \<Rightarrow> world \<Rightarrow> bool" where
  "written_at p c w w' \<longleftrightarrow> tidy w' \<and> (\<forall>q. file_at w' q = (if q = p then Some c else file_at w q))
     \<and> (\<forall>q. is_dir w q \<longrightarrow> is_dir w' q) \<and> (\<forall>q. is_dir w' q \<longrightarrow> is_dir w q \<or> below q (butlast p))
     \<and> (\<forall>v. \<not> below v p \<longrightarrow> entries_below w' v = entries_below w v)
     \<and> holders w' = holders w \<and> clock w' = clock w \<and> ticks w' = ticks w"

definition free_place :: "world \<Rightarrow> path \<Rightarrow> bool" where
  "free_place w p \<longleftrightarrow> \<not> is_dir w p \<and> list_all (\<lambda>i. file_at w (take i p) = None) [1..<length p]"

lemma tidy_put:
  assumes "tidy w" "free_place w p"
  obtains w' where "put_file p c w = (Inr (), w')" "written_at p c w w'"
proof -
  let ?w = "w\<lparr>tree := AList.update p (put_node (File c) (map_of (tree w) p)) (add_dirs (butlast p) (tree w))\<rparr>"
  have par: "parents_ok w p"
    using assms tidy_exists [OF assms(1)] by (auto simp: parents_ok_def free_place_def list_all_iff)
  then have run: "put_file p c w = (Inr (), ?w)"
    using assms by (simp add: put_file_def durable_def free_place_def tidy_def)
  have put: "put_node (File c) (map_of (tree w) p) = File c"
  proof (cases "map_of (tree w) p")
    case (Some n)
    with assms(1) show ?thesis by (cases n) (auto simp: tidy_def lstat_def)
  qed simp
  have stat': "lstat ?w q = (if q = p then Some (File c)
      else case lstat w q of Some n \<Rightarrow> Some n | None \<Rightarrow> if q \<noteq> [] \<and> below q (butlast p) then Some Dir else None)" for q
    using put by (auto simp: lstat_def update_conv' map_of_add_dirs split: option.splits)
  have tidy: "tidy ?w" using assms(1) by (auto simp: tidy_def stat' split: if_splits option.splits)
  have files: "file_at ?w q = (if q = p then Some c else file_at w q)" for q by (rule file_at_update)
  have "\<not> below v p \<Longrightarrow> entries_below ?w v = entries_below w v" for v
  proof -
    assume v: "\<not> below v p"
    then have "\<not> below v (butlast p)" using below_of_take [of v "length p - 1" p] by (auto simp: butlast_conv_take)
    with v show ?thesis by (simp add: entries_below_def add_dirs_entries update_entries)
  qed
  moreover have "is_dir w q \<Longrightarrow> is_dir ?w q" "is_dir ?w q \<Longrightarrow> is_dir w q \<or> below q (butlast p)" for q
    using assms(2) by (auto simp: tidy_dir [OF tidy] tidy_dir [OF assms(1)] stat' free_place_def
        split: if_splits option.splits)
  ultimately show thesis using that [OF run] tidy files by (simp add: written_at_def)
qed


text \<open>A written file elsewhere leaves the evidence of the sample candidate as it is.\<close>

lemma evidence_written:
  assumes "promo_evidence data w" "tidy w" "written_at p c w w'"
    and "\<not> below (snapshot_dir data (JStr (replicate 64 (CHR ''a'')))) p"
    and "p \<noteq> data @ [''builds'', ''run-a'', ''manifest.json'']"
  shows "promo_evidence data w'"
proof -
  let ?dir = "snapshot_dir data (JStr (replicate 64 (CHR ''a'')))"
  have p: "p \<noteq> ?dir @ q" "\<not> below (?dir @ [''vault'']) p" for q
    using assms(4) below_set_append [of ?dir "[''vault'']"] by (auto simp: below_def below_set_def)
  have links: "\<not> is_symlink w' q" for q
    using assms(3) by (auto simp: written_at_def tidy_def is_symlink_def split: option.splits node.splits)
  have "exists_path w' (?dir @ [''vault''])"
  proof -
    have "exists_path w (?dir @ [''vault''])" using assms(1) by (simp add: promo_evidence_def Let_def)
    then have "is_dir w (?dir @ [''vault'']) \<or> file_at w (?dir @ [''vault'']) \<noteq> None"
      using assms(2) tidy_exists [OF assms(2)]
      by (auto simp: exists_path_def lexists_def stat_def simp del: not_None_eq split: option.splits elim!: follow.elims)
    then have "is_dir w' (?dir @ [''vault'']) \<or> file_at w' (?dir @ [''vault'']) \<noteq> None"
      using assms(3) p(1) by (auto simp: written_at_def)
    then show ?thesis by (auto simp: exists_path_def is_dir_def file_at_def split: option.splits)
  qed
  with assms(1,3) assms(5) [symmetric] p p(1) [symmetric] links show ?thesis
    by (simp add: promo_evidence_def Let_def written_at_def)
qed

lemma evidence_held: "promo_evidence data (w\<lparr>holders := hs\<rparr>) = promo_evidence data w"
  "promo_evidence data (w\<lparr>ticks := n\<rparr>) = promo_evidence data w"
  by (simp_all add: promo_evidence_def Let_def is_symlink_def exists_path_def stat_def lstat_def entries_below_def)

lemma store_existing:
  assumes "promo_like d"
    and "file_at w (data @ [''deployments'', replicate 64 (CHR ''a'') @ ''.json'']) = Some (dumps_indent (JObj d))"
  shows "\<exists>p. store_deployment a_sha data (JObj d) w = (Inr p, w)"
proof -
  have id: "dget d ''deployment_id'' = JStr (replicate 64 (CHR ''a''))"
    using assms(1) by (simp add: promo_like_def promo_record_def sample_record_def)
  have val: "validate_deployment_record a_sha (JObj d) = Inr d"
    using assms(1) by (simp add: promo_like_def validate_deployment_record_obj)
  show ?thesis
    using assms(2) file_at_lexists [OF assms(2)] sample_ids
    by (simp add: store_deployment_def val id deployment_record_path_def validate_safe_id_def
        durable_create_json_def read_bytes_file_at bindM_def)
qed

lemma promote_moves:
  assumes w: "tidy w" "promo_evidence data w" "promo_like d" "now \<noteq> []"
    and files: "file_at w (active_path data) = None" "file_at w (rollback_journal_path data) = None"
      "file_at w (data @ [''deployments'', replicate 64 (CHR ''a'') @ ''.json'']) = Some (dumps_indent (JObj d))"
    and free: "free_place w (active_path data)"
    and passed: "require_passing_evaluation w data (JObj d) = Inr ()"
  shows "\<exists>r w'. promote_locked sample_env data (JObj d) JNull (JStr now) True w = (r, w')
    \<and> file_at w' (active_path data) \<noteq> None"
proof -
  obtain st where st: "select_deployment a_sha (JObj empty_state) (JObj d) JNull (JStr now) = Inr (st, ''promoted'')"
    using promo_selects [OF w(3,4)] by blast
  obtain w2 where w2: "put_file (active_path data) (dumps_indent (JObj st)) w = (Inr (), w2)"
    "written_at (active_path data) (dumps_indent (JObj st)) w w2" using tidy_put [OF w(1) free] .
  obtain p where store: "store_deployment a_sha data (JObj d) w = (Inr p, w)" using store_existing [OF w(3) files(3)] by blast
  let ?repair = "\<lambda>i. bindM (repair_selected_bookkeeping_locked sample_env data i)
      (\<lambda>repaired. retM (dmerge [(''result'', JStr ''promoted'')] repaired))"
  let ?i = "dget (obj_of (dget st ''current_deployment'')) ''deployment_id''"
  have writes: "bindM (whenM True (bindM (store_deployment a_sha data (JObj d))
      (\<lambda>_. durable_atomic_json (active_path data) (JObj st)))) f w = f () w2" for f :: "unit \<Rightarrow> dict wprog"
    using store w2(1) by (simp add: whenM_def bindM_def durable_atomic_json_def)
  have load: "active_state sample_env w data = Inr empty_state"
    using files(1) by (simp add: active_state_Inr load_state_def is_file_file_at)
  have v2: "dget empty_state ''schema_version'' = JInt 2" "digest sample_env = a_sha"
    by (simp_all add: empty_state_def DEPLOYMENT_SCHEMA_VERSION_def sample_env_def)
  have run: "promote_locked sample_env data (JObj d) JNull (JStr now) True w = ?repair ?i w2"
    unfolding promote_locked_def using files(2) v2
    by (simp add: bindM_askM promo_matches [OF w(2,3)] raiseIf_def load st DEPLOYMENT_SCHEMA_VERSION_def writes passed
        is_file_file_at)
  obtain r w' where rw: "?repair ?i w2 = (r, w')" by (cases "?repair ?i w2") blast
  have "keeps (same_outside (bookkeeping_files data)) (?repair ?i)"
    by (intro frame_intros keeps_repair)
  from keepsD [OF this rw] active_not_bookkeeping [of data] w2(2) have "file_at w' (active_path data) \<noteq> None"
    by (simp add: same_outside_def written_at_def)
  with run rw show ?thesis by auto
qed

text \<open>A free lock is taken: the body runs with the lock held.\<close>

lemma rebuild_lock_taken:
  assumes "tidy w" "is_dir w data" "file_at w (data @ [''deployment.lock'']) = Some c"
    and "free_place w (data @ [''deployment.lock''])" "holders w = []"
  obtains c' w1 where "written_at (data @ [''deployment.lock'']) c' (w\<lparr>holders := [(data @ [''deployment.lock''], False)]\<rparr>) w1"
    "\<And>body. rebuild_lock data body w = (case body w1 of (r, w2) \<Rightarrow>
      (build_error_from_deployment r, release (data @ [''deployment.lock'']) False w2))"
proof -
  let ?L = "data @ [''deployment.lock'']"
  let ?w = "w\<lparr>holders := [(?L, False)]\<rparr>"
  have same: "tidy ?w" "free_place ?w ?L"
    using assms(1,4) by (auto simp: tidy_def lstat_def free_place_def is_dir_def stat_def)
  obtain w1 where w1: "put_file ?L (nat_dec (pid ?w) @ [CHR 0x0A]) ?w = (Inr (), w1)"
    "written_at ?L (nat_dec (pid ?w) @ [CHR 0x0A]) ?w w1" using tidy_put [OF same] .
  have open': "lstat w ?L = Some (File c)" "\<not> is_symlink w data"
    using assms(1-3) by (auto simp: tidy_file is_symlink_def tidy_def split: option.splits node.splits)
  have "rebuild_lock data body w = (case body w1 of (r, w2) \<Rightarrow> (build_error_from_deployment r, release ?L False w2))" for body :: "'z wprog"
    using open' assms(2,5) w1(1)
    by (simp add: rebuild_lock_def deployment_lock_def data_lock_def failIf_def bindM_def make_dirs_def open_lock_def
        acquire_def conflicts_def finallyM_def Let_def split: prod.splits)
  with w1(2) show thesis using that by blast
qed


section \<open>A concrete commit\<close>

definition commit_policy :: dict where
  "commit_policy = map (\<lambda>f. (f, dget promo_record f))
     [''homeops_version'', ''source_revision'', ''image_digest'', ''snapshot_schema_version'',
      ''snapshot_contract_version'', ''build_schema_version'', ''build_contract_version'']"

definition commit_ready :: dict where
  "commit_ready =
    [(''outcome'', JStr ''CANDIDATE_READY''), (''request_id'', JStr ''req''), (''publisher_id'', JStr ''pub''),
     (''candidate_deployment_id'', JStr (replicate 64 (CHR ''a''))), (''expected_current_deployment_id'', JStr []),
     (''release_policy_id'', JStr (replicate 64 (CHR ''a''))), (''promotion_policy_id'', JStr (replicate 64 (CHR ''a'')))]"

definition commit_marker :: dict where
  "commit_marker =
    [(''schema_version'', JInt 1), (''protocol'', JStr receiver_protocol), (''request_id'', JStr ''req''),
     (''publisher_id'', JStr ''pub''), (''candidate_deployment_id'', JStr (replicate 64 (CHR ''a''))),
     (''expected_current_deployment_id'', JStr []), (''submission_archive_sha256'', JStr (replicate 64 (CHR ''b'')))]"

definition commit_receipt :: dict where
  "commit_receipt = [(''archive_sha256'', JStr (replicate 64 (CHR ''b'')))]"

definition commit_evaluation :: dict where
  "commit_evaluation = [(''passed'', JBool True), (''promotion_policy_id'', JStr (replicate 64 (CHR ''a'')))]"

definition marker_path :: path where
  "marker_path = [''r'', ''commits'', ''pub'', ''req.json'']"

definition commit_files :: "world \<Rightarrow> bool" where
  "commit_files w \<longleftrightarrow>
     file_at w [''r'', ''results'', ''pub'', ''req.json''] = Some (dumps (JObj commit_ready))
     \<and> file_at w [''r'', ''incoming'', ''pub'', ''req'', ''receipt.json''] = Some (dumps (JObj commit_receipt))
     \<and> file_at w marker_path = Some (receiver_json_bytes (JObj commit_marker))
     \<and> file_at w [''r'', ''data'', ''deployments'', replicate 64 (CHR ''a'') @ ''.json''] = Some (dumps_indent (JObj promo_record))
     \<and> file_at w [''r'', ''data'', ''builds'', ''run-a'', ''promotion-evaluation.json''] = Some (dumps (JObj commit_evaluation))"

lemma promo_record_wf: "wf_json (JObj promo_record)"
  by (simp add: promo_record_def sample_record_def dput_def)

lemma canon_like: "promo_like (canon promo_record)"
proof -
  have "jsort (dget promo_record f) = dget promo_record f" for f
    by (simp add: promo_record_def sample_record_def dput_def dget_def split: if_splits)
  then show ?thesis
    by (simp add: promo_like_def valid_record_canon [OF promo_record_wf promo_record_valid] dget_canon [OF promo_record_wf])
qed

lemma canon_run: "jidx (JObj (canon promo_record)) ''run_id'' = Inr (JStr ''run-a'')"
proof -
  have "dget (canon promo_record) f = dget promo_record f" for f using canon_like by (simp add: promo_like_def)
  from this [of "''run_id''"] have "dget (canon promo_record) ''run_id'' = JStr ''run-a''"
    by (simp add: promo_record_def sample_record_def)
  then show ?thesis by (auto simp: jidx_def didx_def dget_def split: option.splits)
qed

lemma sample_policy_id: "policy_id sample_env p = replicate 64 (CHR ''a'')"
  by (simp add: policy_id_def sha256_json_def sample_env_def a_sha_def)

lemma marker_accepted:
  assumes "file_at w marker_path = Some (receiver_json_bytes (JObj commit_marker))"
  shows "validate_commit w marker_path commit_ready (JStr (replicate 64 (CHR ''b''))) = Inr commit_marker"
proof -
  have wf: "wf_json (JObj commit_marker)" by (simp add: commit_marker_def)
  have "CHR 0x00 \<notin> set (take 4 (receiver_json_bytes (JObj commit_marker)))"
    by code_simp
  then have "strict_loads_bytes (receiver_json_bytes (JObj commit_marker)) = Inr (JObj commit_marker)"
    by (simp add: strict_loads_bytes_def utf8_decode_ascii ascii_receiver strict_json_loads_receiver [OF wf])
  moreover have "dkeys commit_marker = marker_fields"
    by (simp add: commit_marker_def marker_fields_def dkeys_def)
  ultimately show ?thesis
    using assms by (simp add: validate_commit_def read_bytes_file_at rewrap_def raiseIf_def commit_marker_def commit_ready_def)
qed

lemma commit_checked:
  assumes "commit_files w"
  shows "check_commit sample_env w [''r''] (JStr ''pub'') ''req'' marker_path commit_policy commit_ready
    = Inr (JStr (replicate 64 (CHR ''a'')), JObj (canon promo_record))"
proof -
  let ?d = "canon promo_record"
  have wf: "wf_json (JObj commit_receipt)" "wf_json (JObj commit_evaluation)"
    by (simp_all add: commit_receipt_def commit_evaluation_def)
  note f = assms [unfolded commit_files_def]
  have receipt: "read_document w [''r'', ''incoming'', ''pub'', ''req'', ''receipt.json''] = Inr (JObj commit_receipt)"
    using f wf by (blast intro: read_document_dumps)
  have evaluation: "read_document w [''r'', ''data'', ''builds'', ''run-a'', ''promotion-evaluation.json''] = Inr (JObj commit_evaluation)"
    using f wf by (blast intro: read_document_dumps)
  have rec: "read_document w [''r'', ''data'', ''deployments'', replicate 64 (CHR ''a'') @ ''.json''] = Inr (JObj ?d)"
    using f strict_json_loads_dumps_indent [OF promo_record_wf]
    by (simp only: read_document_def read_text_ascii ascii_dumps_indent bindE_simps jsort_JObj)
  have val: "validate_deployment_record (digest sample_env) (JObj ?d) = Inr ?d"
    using canon_like by (simp add: promo_like_def validate_deployment_record_obj sample_env_def)
  have g: "dget ?d f = dget promo_record f" for f using canon_like by (simp add: promo_like_def)
  have same: "deployment_matches_policy sample_env (JObj ?d) commit_policy = Inr True"
    unfolding deployment_matches_policy_def val
    by (simp add: agree_on_def g commit_policy_def)
  note run = canon_run
  have "jidx (JObj commit_receipt) ''archive_sha256'' = Inr (JStr (replicate 64 (CHR ''b'')))"
    by (simp add: commit_receipt_def jidx_def didx_def)
  moreover have "didx commit_ready ''candidate_deployment_id'' = Inr (JStr (replicate 64 (CHR ''a'')))"
    "didx commit_ready ''expected_current_deployment_id'' = Inr (JStr [])"
    "dget commit_ready ''candidate_deployment_id'' = JStr (replicate 64 (CHR ''a''))"
    "dget commit_ready ''release_policy_id'' = JStr (replicate 64 (CHR ''a''))"
    "dget commit_ready ''promotion_policy_id'' = JStr (replicate 64 (CHR ''a''))"
    by (simp_all add: commit_ready_def didx_def)
  moreover have "check_evaluation (JObj commit_evaluation) (replicate 64 (CHR ''a'')) = Inr ()"
    by (simp add: check_evaluation_def commit_evaluation_def raiseIf_def)
  ultimately show ?thesis
    using f by (simp add: check_commit_def didx_def Let_def receipt marker_accepted sample_policy_id raiseIf_def rec same run evaluation)
qed


lemma sample_req: "validate_publisher_id (JStr ''pub'') = Inr ''pub''" "validate_safe_id (JStr ''req'') f = Inr ''req''"
  by (simp_all add: validate_publisher_id_def validate_safe_id_def is_lower_def is_digit_def code_of_def
      safe_id_def safe_id_char_def is_alnum_def is_alpha_def)

text \<open>Past the checks, a first commit writes its journal and promotes.\<close>

lemma commit_starts:
  assumes "commit_files w" "file_at w [''r'', ''pipeline-state'', ''commit-journal'', ''pub'', ''req.json''] = None"
  shows "process_commit sample_env [''r''] (JStr ''pub'') marker_path commit_policy w
    = first_commit sample_env [''r''] (JStr ''pub'') ''req'' commit_policy commit_ready
        (JStr (replicate 64 (CHR ''a''))) (JObj (canon promo_record)) w"
proof -
  have wf: "wf_json (JObj commit_ready)" by (simp add: commit_ready_def)
  have ready: "read_document w [''r'', ''results'', ''pub'', ''req.json''] = Inr (JObj commit_ready)"
    using assms(1) wf by (auto simp: commit_files_def intro: read_document_dumps)
  have stem: "stem_of (last marker_path) = ''req''"
    by (simp add: marker_path_def stem_of_def split_name_def rfind_char_def)
  have paths: "remote_result_path [''r''] (JStr ''pub'') ''req'' = Inr [''r'', ''results'', ''pub'', ''req.json'']"
    "load_commit_journal w [''r''] (JStr ''pub'') ''req'' = Inr None"
    using assms(2) sample_req by (simp_all add: remote_result_path_def load_commit_journal_def commit_journal_path_def is_file_file_at)
  have "jget (JObj commit_ready) ''outcome'' = Inr (JStr ''CANDIDATE_READY'')"
    by (simp add: jget_def commit_ready_def)
  then show ?thesis
    unfolding process_commit_def Let_def stem
    by (simp add: paths bindM_askM ready in_strs_def pipeline_outcomes_def raiseIf_def commit_checked [OF assms(1)])
qed

lemma journal_put:
  assumes "tidy w" "free_place w [''r'', ''pipeline-state'', ''commit-journal'', ''pub'', ''req.json'']"
  obtains c j w1 where "write_commit_journal [''r''] (JStr ''pub'') ''req'' i x policy w = (Inr j, w1)"
    "written_at [''r'', ''pipeline-state'', ''commit-journal'', ''pub'', ''req.json''] c (w\<lparr>ticks := Suc (ticks w)\<rparr>) w1"
proof -
  let ?w = "w\<lparr>ticks := Suc (ticks w)\<rparr>" and ?p = "[''r'', ''pipeline-state'', ''commit-journal'', ''pub'', ''req.json'']"
  have same: "tidy ?w" "free_place ?w ?p"
    using assms by (auto simp: tidy_def lstat_def free_place_def is_dir_def stat_def)
  define j where "j = [(''schema_version'', JInt 1), (''protocol'', JStr receiver_protocol), (''state'', JStr ''APPLYING''),
         (''request_id'', JStr ''req''), (''publisher_id'', JStr ''pub''), (''candidate_deployment_id'', i),
         (''expected_current_deployment_id'', x), (''release_policy_id'', JStr policy),
         (''started_at'', JStr (clock w (ticks w)))]"
  obtain w1 where w1: "put_file ?p (dumps_indent (JObj j)) ?w = (Inr (), w1)" "written_at ?p (dumps_indent (JObj j)) ?w w1"
    using tidy_put [OF same] .
  have "commit_journal_path [''r''] (JStr ''pub'') ''req'' = Inr ?p"
    using sample_req by (simp add: commit_journal_path_def)
  with w1(1) have "write_commit_journal [''r''] (JStr ''pub'') ''req'' i x policy w = (Inr j, w1)"
    by (simp add: write_commit_journal_def Let_def bindM_def utc_now_def durable_atomic_json_def liftM_def j_def)
  with w1(2) show thesis using that by blast
qed


lemma dumps_indent_canon: "wf_json (JObj d) \<Longrightarrow> dumps_indent (JObj (canon d)) = dumps_indent (JObj d)"
  by (simp add: dumps_indent_def jsort_idem flip: jsort_JObj del: jsort.simps)

lemma commit_passes:
  assumes "file_at w [''r'', ''data'', ''builds'', ''run-a'', ''promotion-evaluation.json''] = Some (dumps (JObj commit_evaluation))"
  shows "require_passing_evaluation w [''r'', ''data''] (JObj (canon promo_record)) = Inr ()"
proof -
  have wf: "wf_json (JObj commit_evaluation)" by (simp add: commit_evaluation_def)
  have "load_json w [''r'', ''data'', ''builds'', ''run-a'', ''promotion-evaluation.json''] = Inr commit_evaluation"
    by (simp add: load_json_def read_document_dumps [OF assms wf])
  moreover have "dget commit_evaluation ''passed'' = JBool True" by (simp add: commit_evaluation_def)
  ultimately show ?thesis
    using assms canon_run by (simp add: require_passing_evaluation_def Let_def is_file_file_at raiseIf_def)
qed

definition commit_tree :: "(path \<times> node) list" where
  "commit_tree =
     [([''r''], Dir), ([''r'', ''data''], Dir), ([''r'', ''data'', ''deployment.lock''], File []),
      ([''r'', ''data'', ''builds'', ''run-a'', ''manifest.json''], File (dumps (JObj promo_build))),
      ([''r'', ''data'', ''builds'', ''run-a'', ''promotion-evaluation.json''], File (dumps (JObj commit_evaluation))),
      ([''r'', ''data'', ''deployments'', replicate 64 (CHR ''a'') @ ''.json''], File (dumps_indent (JObj promo_record))),
      ([''r'', ''vault-snapshots'', replicate 64 (CHR ''a''), ''snapshot.json''], File (dumps (JObj sample_manifest))),
      ([''r'', ''vault-snapshots'', replicate 64 (CHR ''a''), ''vault''], Dir),
      ([''r'', ''vault-snapshots'', replicate 64 (CHR ''a''), ''vault'', ''a.md''], File ''hi''),
      ([''r'', ''results'', ''pub'', ''req.json''], File (dumps (JObj commit_ready))),
      ([''r'', ''incoming'', ''pub'', ''req'', ''receipt.json''], File (dumps (JObj commit_receipt))),
      (marker_path, File (receiver_json_bytes (JObj commit_marker)))]"

definition commit_world :: world where
  "commit_world = fresh_world\<lparr>tree := commit_tree\<rparr>"

lemma commit_world_files:
  "tidy commit_world" "commit_files commit_world" "promo_evidence [''r'', ''data''] commit_world"
  "file_at commit_world [''r'', ''pipeline-state'', ''commit-journal'', ''pub'', ''req.json''] = None"
  "file_at commit_world [''r'', ''data'', ''active.json''] = None"
  "file_at commit_world (rollback_journal_path [''r'', ''data'']) = None"
  "file_at commit_world [''r'', ''data'', ''deployment.lock''] = Some []"
  "is_dir commit_world [''r'', ''data'']" "holders commit_world = []"
  "free_place commit_world [''r'', ''pipeline-state'', ''commit-journal'', ''pub'', ''req.json'']"
  "free_place commit_world [''r'', ''data'', ''deployment.lock'']"
  "free_place commit_world [''r'', ''data'', ''active.json'']"
proof -
  have links: "map_of commit_tree p \<noteq> Some (Link t)" for p t
    by (auto simp: commit_tree_def dest!: map_of_SomeD)
  then show "tidy commit_world" by (simp add: tidy_def commit_world_def fresh_world_def lstat_def)
  show "commit_files commit_world"
    by (simp add: commit_files_def file_at_tree commit_world_def commit_tree_def marker_path_def)
  show "promo_evidence [''r'', ''data''] commit_world"
    by (simp add: promo_evidence_def Let_def snapshot_dir_def file_at_tree is_symlink_def exists_path_def stat_def
      lstat_def entries_below_def below_def commit_world_def commit_tree_def marker_path_def)
qed (simp_all add: file_at_tree is_dir_def stat_def lstat_def free_place_def upt_rec commit_world_def commit_tree_def
      marker_path_def rollback_journal_path_def fresh_world_def)

lemma free_place_held: "free_place (w\<lparr>holders := hs\<rparr>) p = free_place w p" "free_place (w\<lparr>ticks := n\<rparr>) p = free_place w p"
  "tidy (w\<lparr>holders := hs\<rparr>) = tidy w" "tidy (w\<lparr>ticks := n\<rparr>) = tidy w"
  "is_dir (w\<lparr>holders := hs\<rparr>) p = is_dir w p" "is_dir (w\<lparr>ticks := n\<rparr>) p = is_dir w p"
  by (simp_all add: free_place_def is_dir_def tidy_def stat_def lstat_def)

lemma free_place_written:
  assumes "free_place w q" "written_at p c w w'" "\<not> below p q" "\<not> below q (butlast p)"
  shows "free_place w' q"
proof -
  have "take i q \<noteq> p" for i using assms(3) by (auto simp: below_def min_def split: if_splits)
  with assms show ?thesis by (auto simp: free_place_def written_at_def list_all_iff)
qed

text \<open>The handlers of the promotion leave the selection as the promotion left it.\<close>

lemma apply_promotion_selects:
  assumes "promote E (root @ [''data'']) deployment expected True w = (r, w')"
    and "apply_promotion E (root @ [''data'']) deployment i expected w = (r', w2)"
  shows "file_at w2 (active_path (root @ [''data''])) = file_at w' (active_path (root @ [''data'']))"
proof -
  have repair: "keeps (same_outside (repair_files root)) (repair_after_error E (root @ [''data'']) i e)" for e
    unfolding repair_after_error_def by (intro frame_intros keeps_if keeps_repair_selected)
  have pure: "keeps (same_outside (repair_files root)) (raiseM e :: dict wprog)" for e by (rule frame.keeps_pure)
  have "w2 = w' \<or> same_outside (repair_files root) w' w2"
    using assms(2) unfolding apply_promotion_def catchM_def assms(1)
    by (auto split: sum.splits if_splits dest: keepsD [OF repair] keepsD [OF pure])
  with active_in_no_repair show ?thesis by (auto simp: same_outside_def active_path_def)
qed

lemma commit_moves:
  "\<exists>r w1. process_commit sample_env [''r''] (JStr ''pub'') marker_path commit_policy commit_world = (r, w1)
     \<and> file_at w1 [''r'', ''data'', ''active.json''] \<noteq> None"
proof -
  let ?data = "[''r'', ''data'']" and ?A = "[''r'', ''data'', ''active.json'']" and ?L = "[''r'', ''data'', ''deployment.lock'']"
  let ?J = "[''r'', ''pipeline-state'', ''commit-journal'', ''pub'', ''req.json'']" and ?i = "JStr (replicate 64 (CHR ''a''))"
  let ?d = "canon promo_record"
  note w0 = commit_world_files
  obtain j c w1 where journal: "write_commit_journal [''r''] (JStr ''pub'') ''req'' ?i (JStr []) (replicate 64 (CHR ''a'')) commit_world = (Inr j, w1)"
    and w1: "written_at ?J c (commit_world\<lparr>ticks := Suc (ticks commit_world)\<rparr>) w1"
    using journal_put [OF w0(1,10)] by metis
  have below: "\<not> below ?J ?L" "\<not> below ?L (butlast ?J)" "\<not> below ?J ?A" "\<not> below ?A (butlast ?J)"
    "\<not> below ?L ?A" "\<not> below ?A (butlast ?L)" by (simp_all add: below_def)
  have off: "\<not> below (snapshot_dir ?data ?i) ?J" "\<not> below (snapshot_dir ?data ?i) ?L" by (simp_all add: snapshot_dir_def below_def)
  have s1: "tidy w1" "holders w1 = []" "file_at w1 ?L = Some []"
    using w1 w0(7,9) by (simp_all add: written_at_def)
  have "is_dir w1 ?data" using w1 w0(8) by (simp add: written_at_def free_place_held)
  moreover have "free_place w1 ?L" using w0(11) free_place_written [OF _ w1 below(1,2)] by (simp add: free_place_held)
  moreover have "free_place w1 ?A" using w0(12) free_place_written [OF _ w1 below(3,4)] by (simp add: free_place_held)
  moreover have "promo_evidence ?data w1"
    using w0(1,3) evidence_written [OF _ _ w1 off(1)] by (simp add: free_place_held evidence_held)
  ultimately have s1': "is_dir w1 ?data" "free_place w1 (?data @ [''deployment.lock''])" "free_place w1 ?A" "promo_evidence ?data w1"
    by simp_all
  obtain c' w2 where w2: "written_at ?L c' (w1\<lparr>holders := [(?L, False)]\<rparr>) w2"
    and lock: "\<And>body :: dict wprog. rebuild_lock ?data body w1 = (case body w2 of (r, w) \<Rightarrow>
      (build_error_from_deployment r, release ?L False w))"
    using rebuild_lock_taken [OF s1(1) s1'(1) _ s1'(2) s1(2)] s1(3) by (auto simp del: not_None_eq)
  have s2: "tidy w2" "free_place w2 ?A" "promo_evidence ?data w2"
    using w2 s1'(3,4) s1(1) free_place_written [OF _ w2 below(5,6)] evidence_written [OF _ _ w2 off(2)]
    by (simp_all add: written_at_def free_place_held evidence_held)
  have files: "file_at w2 q = file_at commit_world q" if "q \<noteq> ?L" "q \<noteq> ?J" for q
    using w1 w2 that by (simp add: written_at_def)
  define w3 where "w3 = w2\<lparr>ticks := Suc (ticks w2)\<rparr>"
  have s3: "tidy w3" "free_place w3 (active_path ?data)" "promo_evidence ?data w3"
    using s2 by (simp_all add: w3_def free_place_held evidence_held active_path_def)
  have files3: "file_at w3 q = file_at commit_world q" if "q \<noteq> ?L" "q \<noteq> ?J" for q
    using files [OF that] by (simp add: w3_def)
  have f3: "file_at w3 (active_path ?data) = None" "file_at w3 (rollback_journal_path ?data) = None"
    "file_at w3 (?data @ [''deployments'', replicate 64 (CHR ''a'') @ ''.json'']) = Some (dumps_indent (JObj ?d))"
    using w0(2,5,6) files3 dumps_indent_canon [OF promo_record_wf]
    by (simp_all add: active_path_def rollback_journal_path_def commit_files_def)
  have passed: "require_passing_evaluation w3 ?data (JObj ?d) = Inr ()"
    by (rule commit_passes) (use w0(2) files3 in \<open>simp add: commit_files_def\<close>)
  have "nat_dec n \<noteq> []" for n by (subst nat_dec.simps) simp
  then have "clock w2 (ticks w2) \<noteq> []"
    using w1 w2 by (simp add: written_at_def commit_world_def fresh_world_def)
  from promote_moves [OF s3(1,3) canon_like this f3 s3(2) passed] obtain r4 w4 where
    run: "promote_locked sample_env ?data (JObj ?d) JNull (JStr (clock w2 (ticks w2))) True w3 = (r4, w4)"
    and moved: "file_at w4 (active_path ?data) \<noteq> None" by blast
  define w5 where "w5 = release ?L False w4"
  have promoted: "promote sample_env ?data (JObj ?d) JNull True w1 = (build_error_from_deployment r4, w5)"
    unfolding promote_def lock by (simp add: bindM_def utc_now_def run w5_def flip: w3_def)
  obtain r6 w6 where applied: "apply_promotion sample_env ?data (JObj ?d) ?i JNull w1 = (r6, w6)" by (cases "apply_promotion sample_env ?data (JObj ?d) ?i JNull w1") blast
  have final: "file_at w6 ?A \<noteq> None"
    using apply_promotion_selects [of sample_env "[''r'']", simplified, OF promoted applied] moved
    by (simp add: active_path_def w5_def release_def)
  have get: "dget commit_ready ''expected_current_deployment_id'' = JStr []" by (simp add: commit_ready_def)
  have "\<exists>r. first_commit sample_env [''r''] (JStr ''pub'') ''req'' commit_policy commit_ready ?i (JObj ?d) commit_world = (r, w6)"
    unfolding first_commit_def Let_def get
    by (cases r6) (auto simp: bindM_def journal sample_policy_id or_else_def applied liftM_def split: sum.splits)
  with commit_starts [OF w0(2,4)] final show ?thesis by auto
qed

end
