(* ===== verification/ProcessorProps.thy ===== *)
theory ProcessorProps
  imports ProcessorSample
begin

text \<open>
  What the processor guarantees of a commit: it is applied at most once, and an applied commit is the
  one that was evaluated under the release policy and is then selected.
\<close>

section \<open>What a successful commit returns\<close>

lemma data_lock_returns:
  assumes "data_lock data name blocking shared create True body w = (Inr x, w')" "create \<and> \<not> shared"
  obtains w1 w2 where "body w1 = (Inr x, w2)" "\<And>q. file_at w' q = file_at w2 q"
    "same_outside {data @ [name]} w w1"
proof -
  let ?L = "data @ [name]"
  from assms obtain u1 w1 u2 w2 u3 w3 u4 w4 where
    s: "failIf (\<lambda>w. is_symlink w data) (DeploymentError ''deployment data directory must not be a symlink'') w = (Inr u1, w1)"
      "make_dirs data w1 = (Inr u2, w2)" "open_lock ?L True w2 = (Inr u3, w3)"
      "acquire ?L shared blocking (DeploymentError (''another HomeOps operation holds '' @ path_text ?L)) w3 = (Inr u4, w4)"
    and body: "finallyM (bindM (\<lambda>w. put_file ?L (nat_dec (pid w) @ [CHR 0x0A]) w) (\<lambda>_. body)) (release ?L shared) w4 = (Inr x, w')"
    unfolding data_lock_def by (auto simp: bindM_eq_Inr)
  from body obtain u5 w5 w6 where
    b: "put_file ?L (nat_dec (pid w4) @ [CHR 0x0A]) w4 = (Inr u5, w5)" "body w5 = (Inr x, w6)" "w' = release ?L shared w6"
    by (auto simp: finallyM_def Let_def bindM_eq_Inr split: prod.splits)
  have "same_outside {?L} w w5"
    using keepsD [OF keeps_fail s(1), of "{?L}"] keepsD [OF keeps_make_dirs s(2), of "{?L}"]
      keepsD [OF keeps_open_lock s(3), of "{?L}"] keepsD [OF keeps_acquire s(4), of "{?L}"]
      keepsD [OF keeps_put_file b(1), of "{?L}"]
    by (simp add: same_outside_def)
  with b(2,3) show thesis using that by (simp add: release_def)
qed

lemma rebuild_lock_returns:
  assumes "rebuild_lock data body w = (Inr x, w')"
  obtains w1 w2 where "body w1 = (Inr x, w2)" "\<And>q. file_at w' q = file_at w2 q"
    "same_outside {data @ [''deployment.lock'']} w w1"
proof -
  from assms have "data_lock data ''deployment.lock'' False False True True body w = (Inr x, w')"
    by (auto simp: rebuild_lock_def deployment_lock_def build_error_from_deployment_def rewrap_def
        split: prod.splits sum.splits if_splits)
  from data_lock_returns [OF this] that show thesis by blast
qed

text \<open>The active state of a world, and a state that selects a deployment.\<close>

lemma active_state_cong:
  "file_at w' (active_path data) = file_at w (active_path data) \<Longrightarrow> active_state E w' data = active_state E w data"
  using load_state_cong [of w' data w "digest E" True] by (simp add: active_state_def)

definition selects :: "env \<Rightarrow> world \<Rightarrow> path \<Rightarrow> dict \<Rightarrow> bool" where
  "selects E w data state \<longleftrightarrow> active_state E w data = Inr state"

lemma repair_locked_selects:
  assumes "repair_selected_bookkeeping_locked E data i w = (Inr state, w')"
  shows "selects E w' data state \<and> (\<exists>s. i = JStr s \<and> is_selected state i)"
proof -
  have "active_state E w data = Inr state \<and> (\<exists>s. i = JStr s
      \<and> dget (obj_of (dget state ''current_deployment'')) ''deployment_id'' = JStr s)"
    using assms unfolding repair_selected_bookkeeping_locked_def
    by (auto simp: bindM_eq_Inr askM_Inr validate_safe_id_def split: json.splits if_splits)
  moreover from this have "truthy (dget state ''current_deployment'')"
    by (cases "dget state ''current_deployment''") (auto simp: dget_def split: option.splits)
  ultimately show ?thesis
    using active_state_cong [OF repair_unchanged(1) [OF assms]]
    by (auto simp: selects_def is_selected_def current_id_def pyeq_refl)
qed

lemma repair_selects:
  assumes "repair_selected_bookkeeping E data i w = (Inr state, w')"
  shows "selects E w' data state \<and> is_selected state i"
proof -
  from assms [unfolded repair_selected_bookkeeping_def] obtain w1 w2 where
    "repair_selected_bookkeeping_locked E data i w1 = (Inr state, w2)" "\<And>q. file_at w' q = file_at w2 q"
    by (rule rebuild_lock_returns) blast
  then show ?thesis using repair_locked_selects active_state_cong [of w' data w2 E] by (auto simp: selects_def)
qed

definition returns_state :: "env \<Rightarrow> world \<Rightarrow> path \<Rightarrow> dict \<Rightarrow> bool" where
  "returns_state E w data promoted \<longleftrightarrow>
     (\<exists>x state. promoted = dmerge [(''result'', JStr x)] state \<and> selects E w data state)"

lemma promote_returns:
  assumes "promote E data deployment expected req w = (Inr promoted, w')"
  shows "returns_state E w' data promoted"
proof -
  from assms [unfolded promote_def] obtain w1 w2 where
    run: "bindM utc_now (\<lambda>now. promote_locked E data deployment expected (JStr now) req) w1 = (Inr promoted, w2)"
    and same: "\<And>q. file_at w' q = file_at w2 q" by (rule rebuild_lock_returns) blast
  from run obtain now w3 where "promote_locked E data deployment expected (JStr now) req w3 = (Inr promoted, w2)"
    by (auto simp: bindM_eq_Inr)
  then obtain i x w4 repaired where "repair_selected_bookkeeping_locked E data i w4 = (Inr repaired, w2)"
      "promoted = dmerge [(''result'', JStr x)] repaired"
    unfolding promote_locked_def by (auto simp: bindM_eq_Inr split: prod.splits)
  with repair_locked_selects same active_state_cong [of w' data w2 E] show ?thesis
    by (auto simp: returns_state_def selects_def)
qed

lemma apply_promotion_returns:
  assumes "apply_promotion E data deployment i expected w = (Inr promoted, w')"
  shows "returns_state E w' data promoted"
proof -
  obtain r w1 where p: "promote E data deployment expected True w = (r, w1)" by (cases "promote E data deployment expected True w")
  show ?thesis
  proof (cases r)
    case (Inr d)
    with assms p promote_returns [of E data deployment expected True w promoted w'] show ?thesis
      by (simp add: apply_promotion_def catchM_def)
  next
    case (Inl e)
    with assms p have "repair_after_error E data i e w1 = (Inr promoted, w')"
      by (auto simp: apply_promotion_def catchM_def split: if_splits)
    then obtain repaired where "repair_selected_bookkeeping E data i w1 = (Inr repaired, w')"
        "promoted = dmerge [(''result'', JStr ''promoted'')] repaired"
      by (auto simp: repair_after_error_def bindM_eq_Inr askM_Inr split: if_splits)
    with repair_selects [OF this(1)] show ?thesis by (auto simp: returns_state_def)
  qed
qed

lemma returned_selected:
  assumes "returns_state E w data promoted" "is_selected promoted i"
  shows "\<exists>state. selects E w data state \<and> is_selected state i"
proof -
  obtain x state where s: "promoted = dmerge [(''result'', JStr x)] state" "selects E w data state"
    using assms(1) by (auto simp: returns_state_def)
  from s(2) have "wf_json (JObj state)"
    unfolding selects_def active_state_Inr by (rule load_state_wf)
  then have "distinct (dkeys state)" by (simp add: dkeys_def)
  then have "dget promoted ''current_deployment'' = dget state ''current_deployment''"
    unfolding s(1) by (simp add: dget_dmerge) (simp add: dget_def dkeys_def map_of_eq_None_iff [THEN iffD2])
  with assms(2) s(2) show ?thesis by (auto simp: is_selected_def current_id_def)
qed

section \<open>Properties\<close>

text \<open>C1: a commit is applied at most once. If processing a commit changed \<open>active.json\<close>, however that
  run ended (a result, an error, or the death of the process at any durable step), then no later run for
  the same request changes it again, whatever the marker, the release policy and the environment are by
  then, as long as nothing but the processor touches the journal: the journal of the first run is there,
  and the later run leaves it.\<close>

theorem commit_applied_at_most_once:
  assumes first: "process_commit E root publisher marker policy w = (r, w1)"
    and moved: "file_at w1 (active_path (root @ [''data''])) \<noteq> file_at w (active_path (root @ [''data'']))"
    and journal: "commit_journal_path root publisher (stem_of (last marker)) = Inr p" "file_at w2 p = file_at w1 p"
    and again: "process_commit E' root publisher marker' policy' w2 = (r', w3)"
      "stem_of (last marker') = stem_of (last marker)"
  shows "file_at w3 (active_path (root @ [''data''])) = file_at w2 (active_path (root @ [''data'']))
    \<and> file_at w3 p \<noteq> None"
proof -
  have "file_at w2 p \<noteq> None" using journal_left [OF first journal(1) moved] journal(2) by simp
  with journal_blocks [OF again(1), of p] journal(1) again(2) show ?thesis by auto
qed


theorem commit_applied_at_most_once_witness:
  "\<exists>r w1 r' w3. process_commit sample_env [''r''] (JStr ''pub'') marker_path commit_policy commit_world = (r, w1)
     \<and> file_at w1 [''r'', ''data'', ''active.json''] \<noteq> file_at commit_world [''r'', ''data'', ''active.json'']
     \<and> process_commit sample_env [''r''] (JStr ''pub'') marker_path [] w1 = (r', w3)
     \<and> file_at w3 [''r'', ''data'', ''active.json''] = file_at w1 [''r'', ''data'', ''active.json'']"
proof -
  obtain r w1 where first: "process_commit sample_env [''r''] (JStr ''pub'') marker_path commit_policy commit_world = (r, w1)"
    and moved: "file_at w1 [''r'', ''data'', ''active.json''] \<noteq> None" using commit_moves by blast
  obtain r' w3 where again: "process_commit sample_env [''r''] (JStr ''pub'') marker_path [] w1 = (r', w3)"
    by (cases "process_commit sample_env [''r''] (JStr ''pub'') marker_path [] w1") blast
  have path: "commit_journal_path [''r''] (JStr ''pub'') (stem_of (last marker_path))
      = Inr [''r'', ''pipeline-state'', ''commit-journal'', ''pub'', ''req.json'']"
    using sample_req by (simp add: commit_journal_path_def marker_path_def stem_of_def split_name_def rfind_char_def)
  have "file_at w1 (active_path ([''r''] @ [''data''])) \<noteq> file_at commit_world (active_path ([''r''] @ [''data'']))"
    using moved commit_world_files(5) by (simp add: active_path_def)
  from commit_applied_at_most_once [OF first this path refl again refl] first again moved commit_world_files(5)
  show ?thesis by (auto simp: active_path_def)
qed

section \<open>An applied commit\<close>

text \<open>What the checks of a commit have established about the marker, the candidate and its evaluation.\<close>

definition authentic_commit :: "env \<Rightarrow> world \<Rightarrow> path \<Rightarrow> json \<Rightarrow> string \<Rightarrow> path \<Rightarrow> dict \<Rightarrow> dict \<Rightarrow> string \<Rightarrow> bool" where
  "authentic_commit E w root publisher request_id marker policy ready i \<longleftrightarrow>
     (\<exists>commit receipt rec evaluation.
        file_at w marker = Some (receiver_json_bytes (JObj commit)) \<and> dkeys commit = marker_fields
        \<and> agree_on [''request_id'', ''publisher_id'', ''candidate_deployment_id'', ''expected_current_deployment_id''] commit ready
        \<and> read_document w (root @ [''incoming'', str_of publisher, request_id, ''receipt.json'']) = Inr (JObj receipt)
        \<and> pyeq (dget commit ''submission_archive_sha256'') (dget receipt ''archive_sha256'')
        \<and> dget ready ''candidate_deployment_id'' = JStr i
        \<and> read_document w (root @ [''data'', ''deployments'', i @ ''.json'']) = Inr (JObj rec)
        \<and> valid_record (digest E) rec
        \<and> agree_on [''homeops_version'', ''source_revision'', ''image_digest'', ''snapshot_schema_version'',
            ''snapshot_contract_version'', ''build_schema_version'', ''build_contract_version''] rec policy
        \<and> read_document w (root @ [''data'', ''builds'', str_of (dget rec ''run_id''), ''promotion-evaluation.json''])
            = Inr (JObj evaluation)
        \<and> dget evaluation ''passed'' = JBool True
        \<and> dget evaluation ''promotion_policy_id'' = JStr (policy_id E policy))"

lemma validate_commit_Inr:
  assumes "validate_commit w marker ready receipt_digest = Inr commit"
  shows "file_at w marker = Some (receiver_json_bytes (JObj commit)) \<and> dkeys commit = marker_fields
    \<and> agree_on [''request_id'', ''publisher_id'', ''candidate_deployment_id'', ''expected_current_deployment_id''] commit ready
    \<and> pyeq (dget commit ''submission_archive_sha256'') receipt_digest"
proof -
  from assms obtain raw v where v: "file_at w marker = Some raw" "is_obj v" "dkeys (obj_of v) = marker_fields"
      "raw = receiver_json_bytes v" "obj_of v = commit"
      "agree_on [''request_id'', ''publisher_id'', ''candidate_deployment_id'', ''expected_current_deployment_id''] (obj_of v) ready"
      "pyeq (dget (obj_of v) ''submission_archive_sha256'') receipt_digest"
    by (auto simp: validate_commit_def Let_def bindE_eq_Inr read_bytes_file_at agree_on_def eachE_check list_all_iff
        simp del: eachE.simps split: option.splits)
  moreover from v(2,5) have "v = JObj commit" by (cases v) auto
  ultimately show ?thesis by simp
qed

lemma jidx_object: "jidx v k = Inr x \<Longrightarrow> \<exists>d. v = JObj d \<and> dget d k = x"
  by (cases v) (auto simp: jidx_def didx_def dget_def split: option.splits)

lemma check_commit_authentic:
  assumes "check_commit E w root publisher request_id marker policy ready = Inr (c, deployment)"
  shows "\<exists>i. c = JStr i \<and> authentic_commit E w root publisher request_id marker policy ready i"
proof -
  let ?inc = "root @ [''incoming'', str_of publisher, request_id, ''receipt.json'']"
  from assms obtain receipt digest' commit run evaluation where
    c: "read_document w ?inc = Inr receipt" "jidx receipt ''archive_sha256'' = Inr digest'"
      "validate_commit w marker ready digest' = Inr commit" "c = dget ready ''candidate_deployment_id''" "is_str c"
      "read_document w (root @ [''data'', ''deployments'', str_of c @ ''.json'']) = Inr deployment"
      "deployment_matches_policy E deployment policy = Inr True" "jidx deployment ''run_id'' = Inr run"
      "read_document w (root @ [''data'', ''builds'', str_of run, ''promotion-evaluation.json'']) = Inr evaluation"
      "check_evaluation evaluation (policy_id E policy) = Inr ()"
    unfolding check_commit_def Let_def by (auto simp: bindE_eq_Inr)
  from c(5) obtain i where i: "c = JStr i" by (cases c) auto
  from c(7) obtain rec where rec: "deployment = JObj rec" "valid_record (digest E) rec"
      "agree_on [''homeops_version'', ''source_revision'', ''image_digest'', ''snapshot_schema_version'',
            ''snapshot_contract_version'', ''build_schema_version'', ''build_contract_version''] rec policy"
    by (auto simp: deployment_matches_policy_def bindE_eq_Inr validate_deployment_record_Inr)
  from c(10) obtain ev where ev: "evaluation = JObj ev" "dget ev ''passed'' = JBool True"
      "dget ev ''promotion_policy_id'' = JStr (policy_id E policy)"
    by (cases evaluation) (auto simp: check_evaluation_def)
  from jidx_object [OF c(2)] obtain rc where rc: "receipt = JObj rc" "dget rc ''archive_sha256'' = digest'" by blast
  from jidx_object [OF c(8)] rec(1) have run: "dget rec ''run_id'' = run" by simp
  have ready: "dget ready ''candidate_deployment_id'' = JStr i" using c(4) i by simp
  have stored: "read_document w (root @ [''data'', ''deployments'', i @ ''.json'']) = Inr (JObj rec)"
    using c(6) i rec(1) by simp
  have "authentic_commit E w root publisher request_id marker policy ready i"
    unfolding authentic_commit_def
    by (rule exI [of _ commit], rule exI [of _ rc], rule exI [of _ rec], rule exI [of _ ev])
      (use validate_commit_Inr [OF c(3)] c(1,9) ready stored rec ev rc run in simp)
  with i show ?thesis by simp
qed

lemma promoted_result_outcome: "promoted_result ready o' state = Inr res \<Longrightarrow> dget res ''outcome'' = JStr o'"
  by (auto simp: promoted_result_def bindE_eq_Inr)

lemma commit_run_selects:
  assumes "commit_body_run E root publisher request_id policy ready i d journal w = (Inr res, w')"
  shows "dget res ''outcome'' \<in> {JStr ''PROMOTED'', JStr ''UNCHANGED''}
    \<and> (\<exists>state. selects E w' (root @ [''data'']) state \<and> is_selected state i)"
proof (cases journal)
  case None
  with assms have "first_commit E root publisher request_id policy ready i d w = (Inr res, w')" by (simp add: commit_body_run_def)
  then obtain w1 expected promoted where
    p: "apply_promotion E (root @ [''data'']) d i expected w1 = (Inr promoted, w')" "is_selected promoted i"
      "promoted_result ready (if dget promoted ''result'' = JStr ''promoted'' then ''PROMOTED'' else ''UNCHANGED'') promoted = Inr res"
    unfolding first_commit_def Let_def by (auto simp: bindM_eq_Inr)
  with returned_selected [OF apply_promotion_returns [OF p(1)] p(2)] promoted_result_outcome [OF p(3)] show ?thesis by auto
next
  case (Some j)
  with assms have "replay_commit E (root @ [''data'']) ready j i (policy_id E (base_release_policy policy)) w = (Inr res, w')"
    by (simp add: commit_body_run_def)
  then obtain w1 repaired where p: "repair_selected_bookkeeping E (root @ [''data'']) i w1 = (Inr repaired, w')"
      "promoted_result ready ''PROMOTED'' repaired = Inr res"
    unfolding replay_commit_def by (auto simp: bindM_eq_Inr split: if_splits)
  with repair_selects [OF p(1)] promoted_result_outcome [OF p(2)] show ?thesis by auto
qed

text \<open>C2: an applied commit is authentic. If a commit whose result was \<open>CANDIDATE_READY\<close> returns a result,
  then that says \<open>PROMOTED\<close> or \<open>UNCHANGED\<close>; the marker was the canonical bytes of a message that agrees with
  the candidate and with the archive of the receipt; the stored record is valid and of the release of the
  policy; its evaluation passed under this very policy; and the active state then selects this deployment.\<close>

theorem applied_commit_is_authentic:
  assumes run: "process_commit E root publisher marker policy w = (Inr res, w')"
    and stored: "remote_result_path root publisher (stem_of (last marker)) = Inr p"
      "read_document w p = Inr (JObj ready)" "dget ready ''outcome'' = JStr ''CANDIDATE_READY''"
  shows "dget res ''outcome'' \<in> {JStr ''PROMOTED'', JStr ''UNCHANGED''}
    \<and> (\<exists>i state. authentic_commit E w root publisher (stem_of (last marker)) marker policy ready i
        \<and> active_state E w' (root @ [''data'']) = Inr state \<and> is_selected state (JStr i))"
proof -
  have outcome: "jget (JObj ready) ''outcome'' = Inr (JStr ''CANDIDATE_READY'')" using stored(3) by (simp add: jget_def)
  show ?thesis
  proof (cases rule: process_commit_ready [OF run stored(1,2) outcome, case_names stops runs])
    case (runs c d journal)
    then obtain i where i: "c = JStr i" "authentic_commit E w root publisher (stem_of (last marker)) marker policy ready i"
      using check_commit_authentic by fastforce
    from commit_run_selects [OF runs(3)] i show ?thesis by (auto simp: selects_def)
  qed simp
qed

section \<open>A commit that is taken up again\<close>

text \<open>The same candidate after an interruption: the journal is there, and the selection was made.\<close>

definition done_state :: dict where
  "done_state = mk_state (JStr ''run-a'') JNull (JObj (stamp promo_record (JStr ''t''))) JNull (JStr ''t'')"

definition done_journal :: dict where
  "done_journal =
    [(''schema_version'', JInt 1), (''protocol'', JStr receiver_protocol), (''state'', JStr ''APPLYING''),
     (''request_id'', JStr ''req''), (''publisher_id'', JStr ''pub''),
     (''candidate_deployment_id'', JStr (replicate 64 (CHR ''a''))), (''expected_current_deployment_id'', JStr []),
     (''release_policy_id'', JStr (replicate 64 (CHR ''a''))), (''started_at'', JStr ''t'')]"

definition done_world :: world where
  "done_world = fresh_world\<lparr>tree := commit_tree @
     [([''r'', ''data'', ''active.json''], File (dumps (JObj done_state))),
      ([''r'', ''pipeline-state'', ''commit-journal'', ''pub'', ''req.json''], File (dumps (JObj done_journal)))]\<rparr>"

lemma done_valid: "valid_state a_sha done_state"
proof -
  have "valid_record a_sha (stamp promo_record (JStr ''t''))"
    using promo_record_valid by (rule valid_record_stamp) (simp add: nonempty_str_def)
  from valid_slot_record [OF this] show ?thesis
    unfolding done_state_def
    by (intro valid_mk_state) (simp_all add: valid_slot_def nonempty_str_def stamp_def promo_record_def sample_record_def)
qed

lemma done_wf: "wf_json (JObj done_state)" "wf_json (JObj done_journal)"
  by (simp_all add: done_state_def done_journal_def mk_state_def stamp_def promo_record_def sample_record_def dput_def)

lemma done_get: "dget done_state ''current_deployment'' = JObj (stamp promo_record (JStr ''t''))"
  "dget (stamp promo_record (JStr ''t'')) ''deployment_id'' = JStr (replicate 64 (CHR ''a''))"
  "dget (stamp promo_record (JStr ''t'')) ''promoted_at'' = JStr ''t''" "stamp promo_record (JStr ''t'') \<noteq> []"
  "dget done_state ''schema_version'' = JInt 2"
  by (simp_all add: done_state_def mk_state_def stamp_def promo_record_def sample_record_def dput_def DEPLOYMENT_SCHEMA_VERSION_def)

lemma done_selected: "is_selected done_state (JStr (replicate 64 (CHR ''a'')))"
  by (simp add: is_selected_def current_id_def done_get pyeq_refl)

lemma done_active:
  assumes "file_at w [''r'', ''data'', ''active.json''] = Some (dumps (JObj done_state))"
  shows "active_state sample_env w [''r'', ''data''] = Inr done_state"
proof -
  have "read_document w (active_path [''r'', ''data'']) = Inr (JObj done_state)"
    by (rule read_document_dumps [OF _ done_wf(1)]) (simp add: active_path_def assms)
  from load_state_document [OF this] validate_state_any [OF done_valid] show ?thesis
    by (simp add: active_state_Inr sample_env_def)
qed


lemma done_repair:
  assumes w: "tidy w" "is_dir w [''r'', ''data'']" "file_at w [''r'', ''data'', ''active.json''] = Some (dumps (JObj done_state))"
    and free: "free_place w (history_path sample_env [''r'', ''data''] (stamp promo_record (JStr ''t'')))"
      "\<not> lexists w (history_path sample_env [''r'', ''data''] (stamp promo_record (JStr ''t'')))"
      "free_place w (projection_path [''r''])"
  shows "\<exists>w'. repair_selected_bookkeeping_locked sample_env [''r'', ''data''] (JStr (replicate 64 (CHR ''a''))) w = (Inr done_state, w')"
proof -
  let ?H = "history_path sample_env [''r'', ''data''] (stamp promo_record (JStr ''t''))"
  let ?rec = "stamp promo_record (JStr ''t'')"
  have rec: "valid_record a_sha ?rec"
    using promo_record_valid by (rule valid_record_stamp) (simp add: nonempty_str_def)
  obtain w2 where w2: "put_file ?H (dumps_indent (JObj ?rec)) w = (Inr (), w2)" "written_at ?H (dumps_indent (JObj ?rec)) w w2"
    using tidy_put [OF w(1) free(1)] .
  have "free_place w2 (projection_path [''r''])"
    by (rule free_place_written [OF free(3) w2(2)]) (simp_all add: history_path_def projection_path_def below_def)
  with w2(2) have free2: "tidy w2" "free_place w2 (projection_path [''r''])" by (simp_all add: written_at_def)
  obtain pr where pr: "current_projection a_sha (JObj done_state) = Inr pr"
    using current_projection_valid [OF done_valid] by blast
  obtain w3 where w3: "put_file (projection_path [''r'']) (receiver_json_bytes (JObj pr)) w2 = (Inr (), w3)"
    using tidy_put [OF free2] by blast
  have flush: "fsync_path [''r'', ''data''] w = (Inr (), w)"
    using w(1,2) by (auto simp: fsync_path_def durable_def tidy_def exists_path_def is_dir_def split: option.splits)
  have dig: "digest sample_env = a_sha" by (simp add: sample_env_def)
  have val: "validate_deployment_record a_sha (JObj ?rec) = Inr ?rec"
    using rec by (simp add: validate_deployment_record_obj)
  have store: "store_promoted_record sample_env [''r'', ''data''] (JObj ?rec) w = (Inr (), w2)"
    using free(2) w2(1) by (simp add: store_promoted_record_def dig val done_get raiseIf_def durable_create_json_def)
  have publish: "publish_current_projection a_sha [''r''] (Some (JObj done_state)) w2 = (Inr pr, w3)"
    by (simp add: publish_current_projection_def pr bindM_def durable_atomic_canonical_json_def w3)
  have safe: "validate_safe_id (JStr (replicate 64 (CHR ''a''))) ''deployment_id'' = Inr (replicate 64 (CHR ''a''))"
    by (simp add: validate_safe_id_def sample_ids)
  show ?thesis
    unfolding repair_selected_bookkeeping_locked_def safe
    by (simp add: dig bindM_askM done_active [OF w(3)] done_get raiseIf_def DEPLOYMENT_SCHEMA_VERSION_def
        bindM_run(1) [where m = "fsync_path [''r'', ''data'']", OF flush]
        bindM_run(1) [where m = "store_promoted_record sample_env [''r'', ''data''] (JObj ?rec)", OF store]
        bindM_run(1) [where m = "publish_current_projection a_sha [''r''] (Some (JObj done_state))", OF publish])
qed

lemma done_world_files:
  "tidy done_world" "commit_files done_world" "holders done_world = []" "is_dir done_world [''r'', ''data'']"
  "file_at done_world [''r'', ''data'', ''active.json''] = Some (dumps (JObj done_state))"
  "file_at done_world [''r'', ''pipeline-state'', ''commit-journal'', ''pub'', ''req.json''] = Some (dumps (JObj done_journal))"
  "file_at done_world [''r'', ''data'', ''deployment.lock''] = Some []"
  "free_place done_world [''r'', ''data'', ''deployment.lock'']"
  "free_place done_world (history_path sample_env [''r'', ''data''] (stamp promo_record (JStr ''t'')))"
  "\<not> lexists done_world (history_path sample_env [''r'', ''data''] (stamp promo_record (JStr ''t'')))"
  "free_place done_world (projection_path [''r''])"
proof -
  have "lstat done_world p \<noteq> Some (Link t)" for p t
    unfolding done_world_def commit_tree_def lstat_def by (auto dest!: map_of_SomeD)
  then show "tidy done_world" by (simp add: tidy_def done_world_def fresh_world_def)
  have hist: "history_path sample_env [''r'', ''data''] (stamp promo_record (JStr ''t''))
      = [''r'', ''data'', ''deployment-history'', replicate 64 (CHR ''a''), replicate 64 (CHR ''a'') @ ''.json'']"
    by (simp add: history_path_def done_get sample_env_def a_sha_def)
  show "free_place done_world (history_path sample_env [''r'', ''data''] (stamp promo_record (JStr ''t'')))"
    "\<not> lexists done_world (history_path sample_env [''r'', ''data''] (stamp promo_record (JStr ''t'')))"
    unfolding hist
    by (simp_all add: file_at_tree is_dir_def stat_def lstat_def free_place_def upt_rec done_world_def commit_tree_def
      marker_path_def lexists_def)
qed (simp_all add: file_at_tree is_dir_def stat_def lstat_def free_place_def upt_rec done_world_def commit_tree_def
      marker_path_def fresh_world_def commit_files_def projection_path_def)


lemma done_replays:
  "\<exists>res w'. process_commit sample_env [''r''] (JStr ''pub'') marker_path commit_policy done_world = (Inr res, w')"
proof -
  let ?data = "[''r'', ''data'']" and ?L = "[''r'', ''data'', ''deployment.lock'']" and ?i = "JStr (replicate 64 (CHR ''a''))"
  let ?H = "history_path sample_env ?data (stamp promo_record (JStr ''t''))"
  note w0 = done_world_files
  obtain c' w2 where w2: "written_at ?L c' (done_world\<lparr>holders := [(?L, False)]\<rparr>) w2"
    and lock: "\<And>body :: dict wprog. rebuild_lock ?data body done_world = (case body w2 of (r, w) \<Rightarrow>
      (build_error_from_deployment r, release ?L False w))"
    using rebuild_lock_taken [OF w0(1,4) _ _ w0(3)] w0(7,8) by (auto simp del: not_None_eq)
  have apart: "\<not> below ?L ?H" "\<not> below ?H (butlast ?L)" "\<not> below ?L (projection_path [''r''])"
    "\<not> below (projection_path [''r'']) (butlast ?L)" "?H \<noteq> ?L"
    by (simp_all add: history_path_def projection_path_def below_def)
  have s2: "tidy w2" "is_dir w2 ?data" "file_at w2 [''r'', ''data'', ''active.json''] = Some (dumps (JObj done_state))"
    using w2 w0(4,5) by (simp_all add: written_at_def free_place_held)
  have free: "free_place w2 ?H" "free_place w2 (projection_path [''r''])"
    using w0(9,11) free_place_written [OF _ w2 apart(1,2)] free_place_written [OF _ w2 apart(3,4)] by (simp_all add: free_place_held)
  have "file_at w2 ?H = None" using w2 w0(1,10) apart(5) tidy_exists [OF w0(1), of ?H] by (simp add: written_at_def)
  then have "\<not> lexists w2 ?H" using tidy_exists [OF s2(1), of ?H] free(1) by (simp add: free_place_def)
  from done_repair [OF s2 free(1) this free(2)] obtain w3 where
    "repair_selected_bookkeeping_locked sample_env ?data ?i w2 = (Inr done_state, w3)" by blast
  then have repair: "repair_selected_bookkeeping sample_env ?data ?i done_world = (Inr done_state, release ?L False w3)"
    by (simp add: repair_selected_bookkeeping_def lock build_error_from_deployment_def rewrap_def)
  have journal: "load_commit_journal done_world [''r''] (JStr ''pub'') ''req'' = Inr (Some done_journal)"
    using w0(6) sample_req read_document_dumps [OF w0(6) done_wf(2)]
    by (simp add: load_commit_journal_def commit_journal_path_def is_file_file_at bad_commit_journal_def raiseIf_def
        done_journal_def same_fields_def journal_fields_def)
  have wf: "wf_json (JObj commit_ready)" by (simp add: commit_ready_def)
  have ready: "read_document done_world [''r'', ''results'', ''pub'', ''req.json''] = Inr (JObj commit_ready)"
    using w0(2) wf by (auto simp: commit_files_def intro: read_document_dumps)
  have stem: "stem_of (last marker_path) = ''req''"
    by (simp add: marker_path_def stem_of_def split_name_def rfind_char_def)
  have path: "remote_result_path [''r''] (JStr ''pub'') ''req'' = Inr [''r'', ''results'', ''pub'', ''req.json'']"
    using sample_req by (simp add: remote_result_path_def)
  have out: "jget (JObj commit_ready) ''outcome'' = Inr (JStr ''CANDIDATE_READY'')"
    by (simp add: jget_def commit_ready_def)
  have "process_commit sample_env [''r''] (JStr ''pub'') marker_path commit_policy done_world
      = replay_commit sample_env ?data commit_ready done_journal ?i (replicate 64 (CHR ''a'')) done_world"
    unfolding process_commit_def Let_def stem
    by (simp add: path bindM_askM ready in_strs_def pipeline_outcomes_def raiseIf_def commit_checked [OF w0(2)] out journal
        sample_policy_id)
  moreover have "replay_commit sample_env ?data commit_ready done_journal ?i (replicate 64 (CHR ''a'')) done_world
      = (promoted_result commit_ready ''PROMOTED'' done_state, release ?L False w3)"
    unfolding replay_commit_def
    by (simp add: done_journal_def commit_ready_def raiseIf_def bindM_askM done_active [OF w0(5)] done_selected
        bindM_run(1) [where m = "repair_selected_bookkeeping sample_env ?data ?i", OF repair])
  moreover have "\<exists>res. promoted_result commit_ready ''PROMOTED'' done_state = Inr res"
    by (simp add: promoted_result_def done_get jidx_def didx_def stamp_def map_of_dput)
  ultimately show ?thesis by auto
qed

theorem applied_commit_is_authentic_witness:
  "\<exists>res w' i state. process_commit sample_env [''r''] (JStr ''pub'') marker_path commit_policy done_world = (Inr res, w')
     \<and> dget res ''outcome'' \<in> {JStr ''PROMOTED'', JStr ''UNCHANGED''}
     \<and> authentic_commit sample_env done_world [''r''] (JStr ''pub'') ''req'' marker_path commit_policy commit_ready i
     \<and> active_state sample_env w' [''r'', ''data''] = Inr state \<and> is_selected state (JStr i)"
proof -
  obtain res w' where run: "process_commit sample_env [''r''] (JStr ''pub'') marker_path commit_policy done_world = (Inr res, w')"
    using done_replays by blast
  have stem: "stem_of (last marker_path) = ''req''"
    by (simp add: marker_path_def stem_of_def split_name_def rfind_char_def)
  have path: "remote_result_path [''r''] (JStr ''pub'') (stem_of (last marker_path)) = Inr [''r'', ''results'', ''pub'', ''req.json'']"
    unfolding stem using sample_req by (simp add: remote_result_path_def)
  have ready: "read_document done_world [''r'', ''results'', ''pub'', ''req.json''] = Inr (JObj commit_ready)"
    using done_world_files(2) by (auto simp: commit_files_def commit_ready_def intro!: read_document_dumps)
  have "dget commit_ready ''outcome'' = JStr ''CANDIDATE_READY''" by (simp add: commit_ready_def)
  from applied_commit_is_authentic [OF run path ready this] run show ?thesis by (auto simp: stem)
qed

end
