(* ===== verification/ResultProps.thy ===== *)
theory ResultProps
  imports ProcessorProps
begin

text \<open>
  What the scan of the processor leaves alone: a submission changes nothing but builds, stored
  deployments and snapshots, and a settled result is never written again.
\<close>

section \<open>Submissions\<close>


definition idle_workshop :: workshop where
  "idle_workshop = env.extend sample_env
     \<lparr>fresh_id = nat_dec, release_version = JStr ''1.0'', environ_revision = JNull, environ_digest = JNull,
      database_documents = (\<lambda>db d. put_file db ''rows''),
      database_run = (\<lambda>db d run started completed result. put_file db result),
      smoke_summary = (\<lambda>w data name run. Inr JNull), suite_report = (\<lambda>w suite data run. Inr [])\<rparr>"

lemma idle_database: "database_local idle_workshop"
proof -
  have "keeps (same_outside (below_set (butlast db))) (put_file db c)" for db c
  proof (rule keeps_put_file)
    show "db \<in> below_set (butlast db)"
      by (simp add: below_set_def below_def butlast_conv_take)
  qed
  then show ?thesis by (simp add: database_local_def idle_workshop_def env.extend_def)
qed

definition sample_release :: remote_release where
  "sample_release = \<lparr>rel_cases = [], rel_version = JStr ''1.0'', rel_revision = JStr ''rev'', rel_digest = JStr ''img'',
     rel_policy = commit_policy\<rparr>"


section \<open>Frames of the scan\<close>

definition remote_files :: "path \<Rightarrow> path set" where
  "remote_files root = below_set (root @ [''data'']) \<union> below_set (root @ [''vault-snapshots'']) \<union> below_set (root @ [''pipeline-state''])"

lemma remote_subsets:
  "submission_files root \<subseteq> remote_files root" "selection_files root \<subseteq> remote_files root" "repair_files root \<subseteq> remote_files root"
  by (auto simp: remote_files_def submission_files_def selection_files_def repair_files_def build_files_def
      projection_path_def below_set_def below_def dest: arg_cong [where f = "take (Suc (length root))"])


lemma keeps_write_commit_journal:
  "keeps (same_outside (remote_files root)) (write_commit_journal root publisher i c x policy)"
  unfolding write_commit_journal_def Let_def
proof (rule frame.keeps_bind [OF keeps_now], rule keeps_bind_lift)
  fix now p assume "commit_journal_path root publisher i = Inr p"
  then have "p \<in> remote_files root"
    by (auto simp: commit_journal_path_def bindE_eq_Inr remote_files_def below_set_def below_def)
  then show "keeps (same_outside (remote_files root)) (bindM (durable_atomic_json p v) (\<lambda>_. retM j))" for v j
    by (intro frame_intros)
qed

lemma keeps_process_commit:
  "keeps (same_outside (remote_files root)) (process_commit E root publisher marker policy)"
  unfolding process_commit_def first_commit_def Let_def
  by (intro frame_intros keeps_prod keeps_if keeps_option keeps_write_commit_journal
      keeps_mono [OF keeps_apply_promotion remote_subsets(2)] keeps_mono [OF keeps_replay remote_subsets(3)])

lemma in_remote: "root @ ''data'' # q \<in> remote_files root" "projection_path root \<in> remote_files root"
  by (simp_all add: remote_files_def below_set_def below_def projection_path_def)

lemma keeps_remote_publish: "keeps (same_outside (remote_files root)) (publish_current_projection sha root st)"
  by (rule keeps_publish) (rule in_remote)

lemma keeps_recover:
  "keeps (same_outside (remote_files root)) (recover_pending_rollback E (root @ [''data'']))"
proof -
  have book: "bookkeeping_files (root @ [''data'']) \<subseteq> remote_files root"
    by (auto simp: bookkeeping_files_def history_below in_remote)
       (auto simp: remote_files_def below_set_def below_def dest: arg_cong [where f = "take (Suc (length root))"])
  have "{rollback_journal_path (root @ [''data''])} \<subseteq> remote_files root"
    by (simp add: rollback_journal_path_def in_remote)
  then show ?thesis
    unfolding recover_pending_rollback_def recover_locked_def finish_rollback_locked_def Let_def active_path_def
    by (intro keeps_rebuild_lock frame_intros keeps_option keeps_if keeps_mono [OF keeps_repair book]
        keeps_mono [OF keeps_clear]) (simp_all add: in_remote)
qed

section \<open>Settled results\<close>

text \<open>A result that is neither a ready candidate nor one that may be tried again.\<close>

definition final_result :: "dict \<Rightarrow> bool" where
  "final_result d \<longleftrightarrow> dget d ''outcome'' \<noteq> JStr ''CANDIDATE_READY''
     \<and> \<not> (dget d ''retryable'' = JBool True \<and> in_strs (dget d ''outcome'') retryable_outcomes = Inr True)"

text \<open>The file keeps its bytes where it holds them.\<close>

definition holds_bytes :: "path \<Rightarrow> string \<Rightarrow> world \<Rightarrow> world \<Rightarrow> bool" where
  "holds_bytes p c w w' \<longleftrightarrow> (file_at w p = Some c \<longrightarrow> file_at w' p = Some c)"

interpretation bytes: step_preorder "holds_bytes p c" for p c
  by unfold_locales (auto simp: holds_bytes_def)

lemma bytes_elsewhere: "keeps (same_outside S) m \<Longrightarrow> p \<notin> S \<Longrightarrow> keeps (holds_bytes p c) m"
  by (auto simp: keeps_def same_outside_def holds_bytes_def)

lemma bytes_ask: "keeps (holds_bytes p c) (askM f)"
  by (auto simp: keeps_def askM_def holds_bytes_def)

lemma bytes_lift:
  "(\<And>x. q = Inr x \<Longrightarrow> keeps (holds_bytes p c) (f x)) \<Longrightarrow> keeps (holds_bytes p c) (bindM (liftM q) f)"
  by (cases q) (auto simp: keeps_def bindM_liftM holds_bytes_def)

text \<open>A branch that is taken only on another file, or not with these bytes.\<close>

lemma bytes_guarded:
  assumes "\<And>x. keeps (holds_bytes p c) (f x) \<or> (\<forall>w. file_at w p = Some c \<longrightarrow> g w \<noteq> Inr x)"
  shows "keeps (holds_bytes p c) (bindM (askM g) f)"
proof (rule keepsI)
  fix w r w' assume "bindM (askM g) f w = (r, w')"
  then show "holds_bytes p c w w'"
  proof (cases rule: ask_cases)
    case (goes x)
    with assms [of x] show ?thesis by (auto simp: holds_bytes_def dest: keepsD)
  qed (simp add: holds_bytes_def)
qed

lemma keeps_write_result:
  assumes "remote_result_path root publisher name = Inr q" "q \<noteq> p"
  shows "keeps (holds_bytes p c) (write_remote_result root publisher name result)"
proof -
  have "keeps (same_outside {q}) (write_remote_result root publisher name result)"
    unfolding write_remote_result_def assms(1) by (rule keeps_bind_lift, rule keeps_atomic_json) simp
  with assms(2) show ?thesis by (auto intro: bytes_elsewhere)
qed

text \<open>A file outside the reach of the processor, with bytes that read as a final result.\<close>

definition settled_file :: "path \<Rightarrow> path \<Rightarrow> string \<Rightarrow> bool" where
  "settled_file root p c \<longleftrightarrow> p \<notin> remote_files root
     \<and> (\<exists>d. final_result d \<and> (\<forall>w. file_at w p = Some c \<longrightarrow> read_document w p = Inr (JObj d)))"

lemma settled_place: "settled_file root p c \<Longrightarrow> p \<notin> remote_files root"
  by (simp add: settled_file_def)

lemma settled_skips: "settled_file root p c \<Longrightarrow> file_at w p = Some c \<Longrightarrow> settled_result w p \<noteq> Inr False"
  by (auto simp: settled_file_def settled_result_def is_file_file_at final_result_def bindE_eq_Inr split: if_splits)

lemma not_candidate: "settled_file root p c \<Longrightarrow> file_at w p = Some c \<Longrightarrow> commit_candidate w p \<noteq> Inr (Some ready)"
  by (auto simp: settled_file_def commit_candidate_def is_file_file_at final_result_def bindE_eq_Inr jget_def)

lemma submissions_keep:
  assumes "database_local W" "settled_file root p c"
  shows "keeps (holds_bytes p c) (process_submissions W root rel publisher names processed)"
proof (induction names arbitrary: processed)
  case (Cons name names)
  have sub: "keeps (holds_bytes p c) (catchM (process_submission W root rel publisher name)
      (\<lambda>e. map_option retM (submission_failure publisher name e)))"
    by (rule bytes.keeps_catch [OF bytes_elsewhere [OF keeps_submission [OF assms(1) remote_subsets(1)] settled_place [OF assms(2)]]])
      (auto intro: bytes.keeps_pure)
  show ?case
    unfolding process_submissions.simps
  proof (rule bytes_lift)
    fix q assume q: "remote_result_path root publisher name = Inr q"
    show "keeps (holds_bytes p c) (bindM (askM (\<lambda>w. settled_result w q)) (\<lambda>settled.
        if settled then process_submissions W root rel publisher names processed
        else bindM (catchM (process_submission W root rel publisher name)
            (\<lambda>e. map_option retM (submission_failure publisher name e))) (\<lambda>result.
          bindM (write_remote_result root publisher name result) (\<lambda>_.
          process_submissions W root rel publisher names (processed @ [result])))))"
    proof (cases "q = p")
      case True
      then show ?thesis using settled_skips [OF assms(2)] Cons.IH by (intro bytes_guarded) (auto split: if_splits)
    next
      case False
      show ?thesis
        by (intro bytes.keeps_bind bytes_ask keeps_if Cons.IH sub keeps_write_result [OF q False])
    qed
  qed
qed (simp add: bytes.keeps_pure)

lemma commits_keep:
  assumes "settled_file root p c"
  shows "keeps (holds_bytes p c) (process_commits W root rel publisher names processed)"
proof (induction names arbitrary: processed)
  case (Cons name names)
  have com: "keeps (holds_bytes p c) (catchM
      (process_commit (the_env W) root publisher (root @ [''commits'', str_of publisher, name]) (rel_policy rel))
      (\<lambda>e. map_option retM (commit_failure ready e)))" for ready
    by (rule bytes.keeps_catch [OF bytes_elsewhere [OF keeps_process_commit settled_place [OF assms]]]) (auto intro: bytes.keeps_pure)
  have pub: "keeps (holds_bytes p c) (whenM b (bindM (publish_current_status (the_env W) root) (\<lambda>_. retM ())))" for b
    unfolding publish_current_status_def
    by (rule bytes_elsewhere [OF _ settled_place [OF assms]]) (intro frame_intros keeps_remote_publish)
  show ?case
    unfolding process_commits.simps
  proof (rule bytes_lift)
    fix q assume q: "remote_result_path root publisher (stem_of name) = Inr q"
    show "keeps (holds_bytes p c) (bindM (askM (\<lambda>w. commit_candidate w q)) (\<lambda>candidate.
        case candidate of
          None \<Rightarrow> process_commits W root rel publisher names processed
        | Some ready \<Rightarrow>
            bindM (catchM
              (process_commit (the_env W) root publisher (root @ [''commits'', str_of publisher, name]) (rel_policy rel))
              (\<lambda>e. map_option retM (commit_failure ready e))) (\<lambda>result.
            bindM (write_remote_result root publisher (stem_of name) result) (\<lambda>_.
            bindM (whenM (dget result ''outcome'' \<in> {JStr ''PROMOTED'', JStr ''UNCHANGED''})
              (bindM (publish_current_status (the_env W) root) (\<lambda>_. retM ()))) (\<lambda>_.
            process_commits W root rel publisher names (processed @ [result]))))))"
    proof (cases "q = p")
      case True
      then show ?thesis using not_candidate [OF assms] Cons.IH by (intro bytes_guarded) (auto split: option.splits)
    next
      case False
      show ?thesis
        by (intro bytes.keeps_bind bytes_ask keeps_option Cons.IH com pub keeps_write_result [OF q False])
    qed
  qed
qed (simp add: bytes.keeps_pure)

lemma scan_keeps:
  assumes "database_local W" "settled_file root p c"
  shows "keeps (holds_bytes p c) (process_remote W root publisher_id cases revision pinned)"
proof -
  have publish: "keeps (holds_bytes p c) (publish_current_projection sha root st)" for sha st
    by (rule bytes_elsewhere [OF keeps_remote_publish settled_place [OF assms(2)]])
  have recover: "keeps (holds_bytes p c) (recover_pending_rollback E (root @ [''data'']))" for E
    by (rule bytes_elsewhere [OF keeps_recover settled_place [OF assms(2)]])
  show ?thesis
    unfolding process_remote_def scan_all_def
    by (intro bytes.keeps_bind bytes.keeps_pure bytes_ask keeps_prod publish recover submissions_keep commits_keep assms)
qed

text \<open>C4: a settled result is final: a result file that holds neither a ready candidate nor a failure that
  may be tried again keeps its bytes through a whole run of the processor, whatever is submitted and
  committed, and wherever the run breaks off.\<close>

theorem settled_results_final:
  assumes "database_local W"
    and "process_remote W root publisher_id cases revision pinned w = (r, w')"
    and "read_document w (root @ [''results'', publisher, name]) = Inr (JObj d)" "final_result d"
  shows "file_at w' (root @ [''results'', publisher, name]) = file_at w (root @ [''results'', publisher, name])"
proof -
  let ?p = "root @ [''results'', publisher, name]"
  obtain c where c: "file_at w ?p = Some c"
    using assms(3) by (auto simp: read_document_def read_text_def read_bytes_file_at split: option.splits)
  have "read_document w2 ?p = Inr (JObj d)" if "file_at w2 ?p = Some c" for w2
    using read_document_cong [of w2 ?p w] that c assms(3) by simp
  moreover have "?p \<notin> remote_files root" by (auto simp: remote_files_def below_set_def below_def)
  ultimately have "settled_file root ?p c" using assms(4) by (auto simp: settled_file_def)
  from keepsD [OF scan_keeps [OF assms(1) this] assms(2)] c show ?thesis by (simp add: holds_bytes_def)
qed


definition refused_result :: dict where
  "refused_result = [(''outcome'', JStr ''REMOTE_SNAPSHOT_INVALID''), (''retryable'', JBool False)]"

definition refused_world :: world where
  "refused_world = fresh_world\<lparr>tree := commit_tree @
     [([''r'', ''results'', ''pub'', ''old.json''], File (dumps (JObj refused_result)))]\<rparr>"

theorem settled_results_final_witness:
  "\<exists>r w'. process_remote idle_workshop [''r''] (JStr ''pub'') [] (JStr ''rev'') (JStr ''img'') refused_world = (r, w')
     \<and> file_at w' [''r'', ''results'', ''pub'', ''old.json''] = Some (dumps (JObj refused_result))"
proof -
  obtain r w' where run: "process_remote idle_workshop [''r''] (JStr ''pub'') [] (JStr ''rev'') (JStr ''img'') refused_world = (r, w')"
    by (cases "process_remote idle_workshop [''r''] (JStr ''pub'') [] (JStr ''rev'') (JStr ''img'') refused_world") blast
  have there: "file_at refused_world [''r'', ''results'', ''pub'', ''old.json''] = Some (dumps (JObj refused_result))"
    by (simp add: file_at_tree refused_world_def commit_tree_def marker_path_def)
  have "read_document refused_world ([''r''] @ [''results'', ''pub'', ''old.json'']) = Inr (JObj refused_result)"
    by (rule read_document_dumps) (simp_all add: there refused_result_def)
  moreover have "final_result refused_result" by (simp add: final_result_def refused_result_def)
  ultimately have "file_at w' ([''r''] @ [''results'', ''pub'', ''old.json''])
      = file_at refused_world ([''r''] @ [''results'', ''pub'', ''old.json''])"
    by (rule settled_results_final [OF idle_database run])
  with run there show ?thesis by simp
qed

end
