(* ===== verification/LocalPipeline.thy ===== *)
theory LocalPipeline
  imports Publisher Processor
begin

text \<open>
  \<open>pipeline.py\<close>, \<open>reconcile_local\<close>: the whole pipeline on one machine, from a vault that other
  programs synchronise to the promoted deployment. The editors of the vault are those of
  \<open>surroundings\<close>; the pause of the quiescence check is in units of 1/128 of a second.
\<close>

record local_job =
  job_vault :: path
  job_root :: path
  job_state :: path
  job_revision :: json
  job_digest :: json
  job_cases :: "path list"
  job_pause :: nat

definition job_data :: "local_job \<Rightarrow> path" where
  "job_data J = job_root J @ [''data'']"

definition retry_later :: "string \<Rightarrow> string \<Rightarrow> exn" where
  "retry_later outcome m = PipelineError outcome m True"

definition quiescent :: "'r surroundings \<Rightarrow> local_job \<Rightarrow> ('r, dict) sprog" where
  "quiescent G J =
     bindM (look G (job_vault J)) (\<lambda>first.
     bindM (liftM (vault_errors first)) (\<lambda>bad.
     bindM (liftM (raiseIf bad (PipelineError ''LOCAL_VAULT_INVALID'' ''synced vault validation failed'' False))) (\<lambda>_.
     bindM (modifyM (pause (job_pause J))) (\<lambda>_.
     bindM (look G (job_vault J)) (\<lambda>second.
     bindM (liftM (vault_errors second)) (\<lambda>bad.
     bindM (liftM (raiseIf (bad \<or> \<not> same_fingerprints first second)
       (retry_later ''LOCAL_SOURCE_CHANGED'' ''synced vault did not remain quiescent''))) (\<lambda>_.
     retM second)))))))"

definition same_deployment :: "json \<Rightarrow> dict \<Rightarrow> json \<times> json \<times> json \<Rightarrow> bool" where
  "same_deployment selected manifest released \<longleftrightarrow>
     (case released of (version, revision, pinned) \<Rightarrow>
        selected \<noteq> JNull \<and> agree_on snapshot_fields (obj_of selected) manifest
        \<and> pyeq (dget (obj_of selected) ''homeops_version'') version
        \<and> pyeq (dget (obj_of selected) ''source_revision'') revision
        \<and> pyeq (dget (obj_of selected) ''image_digest'') pinned)"

definition local_failure :: "exn \<Rightarrow> bool" where
  "local_failure e \<longleftrightarrow> is_build_error e \<or> is_deployment_error e \<or> is_snapshot_error e \<or> is_os_error e"

text \<open>\<open>try: m except caught as error: raise PipelineError(outcome, _redacted_failure(error))\<close>.\<close>

definition failing_as :: "(exn \<Rightarrow> bool) \<Rightarrow> string \<Rightarrow> bool \<Rightarrow> 'a wprog \<Rightarrow> 'a wprog" where
  "failing_as caught outcome retryable m =
     catchM m (\<lambda>e. if caught e then Some (raiseM (PipelineError outcome (redacted_failure e) retryable)) else None)"

definition local_options :: "dict \<Rightarrow> string \<Rightarrow> json \<times> json \<times> json \<Rightarrow> json \<Rightarrow> build_options" where
  "local_options manifest now released expected =
     (case released of (version, revision, pinned) \<Rightarrow>
       \<lparr>forced = False, promoting = False, strict_manifest = Some (JObj manifest), received_at = JStr now,
        asked_version = version, asked_revision = revision, asked_digest = pinned, expected_current = expected\<rparr>)"

definition local_build ::
  "workshop \<Rightarrow> local_job \<Rightarrow> path \<Rightarrow> dict \<Rightarrow> json \<times> json \<times> json \<Rightarrow> json \<Rightarrow> dict wprog" where
  "local_build W J exported manifest released expected =
     failing_as local_failure ''BUILD_FAILED'' True
       (bindM (materialize_snapshot (the_env W) (fresh_id W) (job_root J) exported (JObj manifest)) (\<lambda>dir.
        bindM (askM (\<lambda>w. read_manifest (digest W) w (dir @ [''snapshot.json'']))) (\<lambda>canonical.
        bindM utc_now (\<lambda>now.
        rebuild W (dir @ [''vault'']) (job_data J) (local_options canonical now released expected)))))"

definition is_evaluation_failure :: "exn \<Rightarrow> bool" where
  "is_evaluation_failure e \<longleftrightarrow> is_build_error e \<or> is_os_error e \<or> is_value_error e
     \<or> (case e of EvaluationError m \<Rightarrow> True | _ \<Rightarrow> False)"

definition local_candidate ::
  "workshop \<Rightarrow> local_job \<Rightarrow> path \<Rightarrow> dict \<Rightarrow> json \<times> json \<times> json \<Rightarrow> json \<Rightarrow> dict wprog" where
  "local_candidate W J exported manifest released expected =
     bindM (local_build W J exported manifest released expected) (\<lambda>built.
     bindM (liftM (raiseIf (\<not> is_obj (dget built ''deployment''))
       (PipelineError ''BUILD_FAILED'' ''local build did not produce a deployment record'' False))) (\<lambda>_.
     bindM (failing_as is_evaluation_failure ''EVALUATION_FAILED'' False
       (evaluate_candidate W (job_data J) (dget built ''run_id'') (job_cases J))) (\<lambda>evaluation.
     bindM (liftM (raiseIf (\<not> truthy (dget evaluation ''passed''))
       (PipelineError ''EVALUATION_FAILED'' ''local candidate failed promotion-safe evaluation'' False))) (\<lambda>_.
     retM (obj_of (dget built ''deployment''))))))"

text \<open>The vault and the selection are looked at again before the promotion.\<close>

definition check_unmoved :: "'r surroundings \<Rightarrow> workshop \<Rightarrow> local_job \<Rightarrow> dict \<Rightarrow> json \<Rightarrow> ('r, unit) sprog" where
  "check_unmoved G W J manifest expected =
     bindM (look G (job_vault J)) (\<lambda>source.
     bindM (liftM (vault_errors source)) (\<lambda>bad.
     bindM (liftM (raiseIf (bad \<or> \<not> same_fingerprints source manifest)
       (retry_later ''PROMOTED_SOURCE_MOVED'' ''synced vault moved before candidate promotion''))) (\<lambda>_.
     bindM (at_home (askM (\<lambda>w. active_state (the_env W) w (job_data J)))) (\<lambda>state.
     liftM (raiseIf (\<not> pyeq (current_id state) expected)
       (retry_later ''PROMOTION_CONFLICT'' ''active deployment moved before local promotion''))))))"

definition local_promotion :: "workshop \<Rightarrow> local_job \<Rightarrow> dict \<Rightarrow> json \<Rightarrow> (dict \<times> dict) wprog" where
  "local_promotion W J deployment expected =
     failing_as local_failure ''POST_PROMOTION_MISMATCH'' False
       (bindM (promote (the_env W) (job_data J) (JObj deployment) expected True) (\<lambda>promoted.
        bindM (verify_active (the_env W) (job_root J)) (\<lambda>verified.
        retM (promoted, verified))))"

definition local_new ::
  "'r surroundings \<Rightarrow> workshop \<Rightarrow> local_job \<Rightarrow> path \<Rightarrow> dict \<Rightarrow> json \<times> json \<times> json \<Rightarrow> json \<Rightarrow> ('r, dict) sprog" where
  "local_new G W J exported manifest released selected =
     (let expected = dget (obj_of selected) ''deployment_id''
      in bindM (at_home (local_candidate W J exported manifest released expected)) (\<lambda>deployment.
         bindM (check_unmoved G W J manifest expected) (\<lambda>_.
         bindM (at_home (local_promotion W J deployment expected)) (\<lambda>(promoted, verified).
         at_home (result_with ''PROMOTED''
           [(''retryable'', JBool False), (''deployment_id'', dget deployment ''deployment_id''),
            (''snapshot_id'', dget deployment ''snapshot_id''), (''run_id'', dget deployment ''run_id''),
            (''promotion'', dget promoted ''result''), (''verification'', dget verified ''outcome'')])))))"

definition local_exported ::
  "'r surroundings \<Rightarrow> workshop \<Rightarrow> local_job \<Rightarrow> json \<times> json \<times> json \<Rightarrow> dict \<Rightarrow> path \<Rightarrow> ('r, dict) sprog" where
  "local_exported G W J released second temporary =
     bindM (export_candidate G (job_vault J) (temporary @ [''vault'']) (fst (snd released))) (\<lambda>(manifest, before).
     bindM (liftM (raiseIf (\<not> same_fingerprints second manifest)
       (retry_later ''LOCAL_SOURCE_CHANGED'' ''synced vault changed after the quiescence check''))) (\<lambda>_.
     bindM (at_home (askM (\<lambda>w. active_state (the_env W) w (job_data J)))) (\<lambda>state.
     (let selected = dget state ''current_deployment''
      in if same_deployment selected manifest released then
           at_home (result_with ''UNCHANGED''
             [(''retryable'', JBool False), (''deployment_id'', dget (obj_of selected) ''deployment_id''),
              (''snapshot_id'', dget (obj_of selected) ''snapshot_id''), (''run_id'', dget (obj_of selected) ''run_id'')])
         else local_new G W J (temporary @ [''vault'']) manifest released selected))))"

definition local_run :: "'r surroundings \<Rightarrow> workshop \<Rightarrow> local_job \<Rightarrow> ('r, dict) sprog" where
  "local_run G W J =
     local_pipeline_lock (job_state J)
       (bindM (liftM (released_identity (release_version W) (job_revision J) (job_digest J))) (\<lambda>released.
        bindM (quiescent G J) (\<lambda>second.
        bindM (at_home (make_dirs (job_state J @ [''candidates'']))) (\<lambda>_.
        with_temporary_in G (job_state J @ [''candidates'']) ''local.'' (local_exported G W J released second)))))"

text \<open>The handlers of \<open>reconcile_local\<close>.\<close>

definition local_values :: "exn \<Rightarrow> (string \<times> bool) option" where
  "local_values e =
     (case e of
        PipelineError outcome m retryable \<Rightarrow> Some (outcome, retryable)
      | _ \<Rightarrow> if local_failure e \<or> is_evaluation_failure e then Some (''INTERNAL_ERROR'', True) else None)"

definition reconcile_local :: "'r surroundings \<Rightarrow> workshop \<Rightarrow> local_job \<Rightarrow> ('r, dict) sprog" where
  "reconcile_local G W J =
     bindM (liftM (raiseIf (300 * 128 < job_pause J) (internal_error ''quiescence_seconds must be between 0 and 300''))) (\<lambda>_.
     bindM (catchM (local_run G W J) (\<lambda>e. map_option (\<lambda>(outcome, retryable).
       at_home (result_with outcome [(''retryable'', JBool retryable), (''diagnostic'', JStr (redacted_failure e))]))
       (local_values e))) (\<lambda>result.
     bindM (at_home (write_last_result (job_state J) result)) (\<lambda>_.
     retM result)))"

end
