(* ===== verification/Query.thy ===== *)
theory Query
  imports Verifier DeploymentStore "HOL-Library.Product_Lexorder"
begin

text \<open>
  \<open>query.py\<close>: the read side. A caller picks a deployment, pins its build for the time of the read,
  and runs one of eight named queries. The database engine only projects relations: a reader is the
  function from the text of a projection to its rows. Everything else, the filters, the reachability
  search, the ranking of a question and the orders of the results, is the program's own code.

  Python iterates over a set in an order of its own. \<open>set_order\<close> gives it, from the elements in the
  order in which they were added. A row has the columns its query names, so a column is read with
  \<open>dget\<close>.
\<close>

section \<open>Constants\<close>

definition FORBIDDEN_GUIDANCE_STATUSES :: "string list" where
  "FORBIDDEN_GUIDANCE_STATUSES = [''historical'', ''superseded'', ''abandoned'']"

definition STOPWORDS :: "string list" where
  "STOPWORDS = [''all'', ''and'', ''are'', ''before'', ''does'', ''for'', ''from'', ''into'', ''its'',
     ''that'', ''the'', ''this'', ''what'', ''where'', ''which'', ''with'']"

definition LOW_SIGNAL_HEADINGS :: "string list" where
  "LOW_SIGNAL_HEADINGS = [''ai sessions'', ''initial evaluation set'', ''links'', ''prompt'', ''sources'']"

definition CURRENT_INTENT_TERMS :: "string list" where
  "CURRENT_INTENT_TERMS = [''current'', ''currently'', ''implemented'', ''running'', ''verified'']"

type_synonym reader = "string \<Rightarrow> row list res"
type_synonym params = "(string \<times> string) list"

record engine =
  open_reader :: "string \<Rightarrow> reader res"
  set_order :: "json list \<Rightarrow> json list"

section \<open>Selecting and pinning a build\<close>

text \<open>\<open>_load_json\<close>.\<close>

definition load_manifest :: "world \<Rightarrow> path \<Rightarrow> dict res" where
  "load_manifest w p =
     bindE (read_document w p) (\<lambda>v. case v of
        JObj d \<Rightarrow> Inr d
      | _ \<Rightarrow> Inl (QueryError (''JSON document is not an object: '' @ path_text p)))"

definition manifest_matches :: "dict \<Rightarrow> dict \<Rightarrow> string \<Rightarrow> unit res" where
  "manifest_matches manifest deployment f =
     bindE (didx deployment f) (\<lambda>v.
     raiseIf (\<not> pyeq (dget manifest f) v) (QueryError (''build/deployment '' @ f @ '' mismatch'')))"

definition matches_deployment :: "dict \<Rightarrow> json \<Rightarrow> unit res" where
  "matches_deployment manifest deployment =
     (if deployment = JNull then Inr ()
      else eachE (\<lambda>f. manifest_matches manifest (obj_of deployment) f)
        [''source_fingerprint'', ''artifact_fingerprint'', ''logical_fingerprint''])"

text \<open>\<open>build_manifest\<close>; the run is a safe identifier, so its database stays below \<open>builds\<close>
  unless a symbolic link leads out of it.\<close>

definition build_manifest :: "(string \<Rightarrow> string) \<Rightarrow> world \<Rightarrow> path \<Rightarrow> json \<Rightarrow> dict res" where
  "build_manifest sha w data run_id =
     bindE (rewrap is_deployment_error (\<lambda>e. QueryError (exn_text e)) (deployment_for_run sha w data run_id))
       (\<lambda>(deployment, role, chosen).
     (let build = data @ [''builds'', str_of chosen]; p = build @ [''manifest.json'']
      in bindE (raiseIf (\<not> is_file w p) (QueryError (''build manifest does not exist: '' @ path_text p))) (\<lambda>_.
         bindE (load_manifest w p) (\<lambda>manifest.
         bindE (raiseIf (\<not> pyeq (dget manifest ''result'') (JStr ''verified''))
           (QueryError (''build is not verified: '' @ str_of chosen))) (\<lambda>_.
         bindE (raiseIf (\<not> pyeq (dget manifest ''run_id'') chosen)
           (QueryError ''build manifest run ID does not match selected directory'')) (\<lambda>_.
         bindE (raiseIf (is_symlink w (data @ [''builds'']) \<or> is_symlink w build \<or> is_symlink w (build @ [''cozo.db'']))
           (Unmodelled ''a build behind a symbolic link'')) (\<lambda>_.
         bindE (matches_deployment manifest deployment) (\<lambda>_.
         bindE (provenance sha deployment role chosen) (\<lambda>shown.
         Inr (dput (dput manifest ''_database_path'' (JStr (path_text (build @ [''cozo.db'']))))
           ''_deployment_provenance'' (JObj shown)))))))))))"

text \<open>Entering \<open>run_pin(data, run_id)\<close>, which the exit stack leaves at the end of the read.\<close>

definition enter_run_pin :: "path \<Rightarrow> json \<Rightarrow> path wprog" where
  "enter_run_pin data run_id =
     bindM (getsM (\<lambda>w. run_pin_path w data run_id)) (\<lambda>r.
     bindM (liftM r) (\<lambda>p.
     bindM (make_dirs (butlast p)) (\<lambda>_.
     bindM (open_pin p) (\<lambda>_.
     bindM (acquire p True True (DeploymentError (''run is pinned: '' @ str_of run_id))) (\<lambda>_.
     retM p)))))"

definition select_and_pin :: "(string \<Rightarrow> string) \<Rightarrow> path \<Rightarrow> json \<Rightarrow> (dict \<times> path) wprog" where
  "select_and_pin sha data run_id =
     bindM (askM (\<lambda>w. build_manifest sha w data run_id)) (\<lambda>manifest.
     bindM (liftM (didx manifest ''run_id'')) (\<lambda>run.
     bindM (enter_run_pin data run) (\<lambda>pin.
     retM (manifest, pin))))"

definition pinned_build_manifest ::
  "(string \<Rightarrow> string) \<Rightarrow> path \<Rightarrow> json \<Rightarrow> (dict \<Rightarrow> 'a wprog) \<Rightarrow> 'a wprog" where
  "pinned_build_manifest sha data run_id body =
     bindM (catchM (retention_lock data True True True (select_and_pin sha data run_id))
       (\<lambda>e. if is_deployment_error e then Some (raiseM (QueryError (exn_text e))) else None)) (\<lambda>(manifest, pin).
     finallyM (body manifest) (release pin True))"

section \<open>Rows\<close>

text \<open>\<open>str(value)\<close> of an identifier that is there.\<close>

definition shown_cell :: "string \<Rightarrow> json \<Rightarrow> json" where
  "shown_cell column_name v = (if endswith column_name ''_id'' \<and> v \<noteq> JNull then JStr (text_of v) else v)"

definition named_row :: "string list \<Rightarrow> row \<Rightarrow> dict res" where
  "named_row names r =
     (if length names = length r then Inr (map (\<lambda>(c, v). (c, shown_cell c v)) (zip names r))
      else Inl (ValueError ''zip() arguments have different lengths''))"

text \<open>\<open>_select\<close> and the projections it is used for.\<close>

definition select_rows :: "reader \<Rightarrow> string \<Rightarrow> string list \<Rightarrow> dict list res" where
  "select_rows run q names = bindE (run q) (\<lambda>rows. mapE (named_row names) rows)"

definition documents_query :: string where
  "documents_query =
     ''?[document_id, source_path, title, document_type, status, authority] := ''
     @ ''*source_document{document_id, source_path, title}, ''
     @ ''*knowledge_document{document_id, document_type, status, authority}''"

definition document_columns :: "string list" where
  "document_columns = [''document_id'', ''source_path'', ''title'', ''document_type'', ''status'', ''authority'']"

definition read_documents :: "reader \<Rightarrow> dict list res" where
  "read_documents run = select_rows run documents_query document_columns"

definition sources_query :: string where
  "sources_query =
     ''?[document_id, source_path, source_kind, title] := ''
     @ ''*source_document{document_id, source_path, source_kind, title}''"

definition source_columns :: "string list" where
  "source_columns = [''document_id'', ''source_path'', ''source_kind'', ''title'']"

definition read_sources :: "reader \<Rightarrow> dict list res" where
  "read_sources run = select_rows run sources_query source_columns"

definition links_query :: string where
  "links_query =
     ''?[source_document_id, ordinal, link_kind, raw_target, resolution_state, ''
     @ ''resolved_target_id, resolved_target_path] := ''
     @ ''*link_occurrence{source_document_id, ordinal, link_kind, raw_target, ''
     @ ''resolution_state, resolved_target_id, resolved_target_path}''"

definition link_columns :: "string list" where
  "link_columns = [''source_document_id'', ''ordinal'', ''link_kind'', ''raw_target'', ''resolution_state'',
     ''resolved_target_id'', ''resolved_target_path'']"

definition read_links :: "reader \<Rightarrow> dict list res" where
  "read_links run = select_rows run links_query link_columns"

definition sections_query :: string where
  "sections_query =
     ''?[document_id, ordinal, heading, body] := '' @ ''*section{document_id, ordinal, heading, body}''"

definition section_columns :: "string list" where
  "section_columns = [''document_id'', ''ordinal'', ''heading'', ''body'']"

definition read_sections :: "reader \<Rightarrow> dict list res" where
  "read_sections run = select_rows run sections_query section_columns"

definition content_query :: string where
  "content_query = ''?[document_id, raw_markdown] := *document_content{document_id, raw_markdown}''"

text \<open>A dictionary display over rows: the first row with a key gives its place, the last its value.\<close>

definition keyed :: "(dict \<Rightarrow> json) \<Rightarrow> (dict \<Rightarrow> 'a) \<Rightarrow> dict list \<Rightarrow> (json \<times> 'a) list" where
  "keyed key val rows = foldl (\<lambda>m r. AList.update (key r) (val r) m) [] rows"

definition doc_id :: "dict \<Rightarrow> json" where
  "doc_id r = dget r ''document_id''"

definition read_content :: "reader \<Rightarrow> (json \<times> json) list res" where
  "read_content run =
     bindE (select_rows run content_query [''document_id'', ''raw_markdown'']) (\<lambda>rows.
     Inr (keyed doc_id (\<lambda>r. dget r ''raw_markdown'') rows))"

text \<open>\<open>v.casefold()\<close>.\<close>

definition folded :: "json \<Rightarrow> string res" where
  "folded v = (case v of JStr s \<Rightarrow> Inr (casefold s) | _ \<Rightarrow> Inl (AttributeError ''casefold''))"

definition query_result :: "dict list \<Rightarrow> dict option \<Rightarrow> dict" where
  "query_result rows summary =
     [(''rows'', JList (map JObj rows)),
      (''summary'', JObj (case summary of
         Some (p # s) \<Rightarrow> p # s
       | _ \<Rightarrow> [(''row_count'', JInt (int (length rows)))]))]"

text \<open>\<open>sorted(rows, key=lambda row: row["source_path"].casefold())\<close>.\<close>

definition path_key :: "dict \<Rightarrow> (string \<times> dict) res" where
  "path_key r = bindE (folded (dget r ''source_path'')) (\<lambda>k. Inr (k, r))"

definition by_source_path :: "dict list \<Rightarrow> dict list res" where
  "by_source_path rows = bindE (mapE path_key rows) (\<lambda>ps. Inr (map snd (sort_key fst ps)))"

section \<open>The simple queries\<close>

definition canonical_current_document :: "dict \<Rightarrow> bool" where
  "canonical_current_document d \<longleftrightarrow> dget d ''authority'' = JStr ''canonical'' \<and> dget d ''status'' = JStr ''current''"

definition canonical_current :: "reader \<Rightarrow> params \<Rightarrow> dict res" where
  "canonical_current run ps =
     bindE (read_documents run) (\<lambda>docs.
     bindE (by_source_path (filter canonical_current_document docs)) (\<lambda>rows.
     Inr (query_result rows None)))"

text \<open>\<open>str(uuid.UUID(s)) == s\<close>.\<close>

definition canonical_uuid :: "string \<Rightarrow> bool" where
  "canonical_uuid s \<longleftrightarrow>
     (let parts = split_char (CHR ''-'') s
      in map length parts = [8, 4, 4, 4, 12] \<and> list_all is_lower_hex (concat parts))"

definition required_param :: "params \<Rightarrow> string \<Rightarrow> string \<Rightarrow> string res" where
  "required_param ps query_name k =
     (case map_of ps k of
        Some (c # s) \<Rightarrow> Inr (c # s)
      | _ \<Rightarrow> Inl (QueryError (query_name @ '' requires parameter: '' @ k)))"

definition document_by_id :: "reader \<Rightarrow> params \<Rightarrow> dict res" where
  "document_by_id run ps =
     bindE (required_param ps ''document-by-id'' ''document_id'') (\<lambda>i.
     bindE (raiseIf (\<not> canonical_uuid i) (QueryError ''document-by-id requires a canonical UUID'')) (\<lambda>_.
     bindE (read_documents run) (\<lambda>docs.
     Inr (query_result (filter (\<lambda>d. doc_id d = JStr i) docs) None))))"

text \<open>The one source with a title, case folded.\<close>

definition titled :: "string \<Rightarrow> dict list \<Rightarrow> dict list res" where
  "titled title sources =
     bindE (mapE (\<lambda>s. bindE (folded (dget s ''title'')) (\<lambda>t. Inr (t, s))) sources) (\<lambda>ps.
     Inr (map snd (filter (\<lambda>p. fst p = casefold title) ps)))"

definition the_titled :: "string \<Rightarrow> dict list \<Rightarrow> dict res" where
  "the_titled title sources =
     bindE (titled title sources) (\<lambda>found. case found of
        [s] \<Rightarrow> Inr s
      | _ \<Rightarrow> Inl (QueryError (''expected exactly one source titled '' @ py_repr title @ '', found ''
               @ nat_dec (length found))))"

definition is_resolved :: "dict \<Rightarrow> bool" where
  "is_resolved l \<longleftrightarrow> dget l ''resolution_state'' = JStr ''resolved''"

definition link_source :: "dict \<Rightarrow> json" where
  "link_source l = dget l ''source_document_id''"

definition link_target :: "dict \<Rightarrow> json" where
  "link_target l = dget l ''resolved_target_id''"

text \<open>\<open>[table[i] for i in ids if i in table]\<close>.\<close>

definition present :: "(json \<times> 'a) list \<Rightarrow> json list \<Rightarrow> 'a list" where
  "present m ids = List.map_filter (map_of m) ids"

definition links_to :: "engine \<Rightarrow> reader \<Rightarrow> params \<Rightarrow> dict res" where
  "links_to G run ps =
     bindE (required_param ps ''links-to'' ''title'') (\<lambda>title.
     bindE (read_sources run) (\<lambda>sources.
     bindE (the_titled title sources) (\<lambda>target.
     bindE (read_documents run) (\<lambda>docs.
     bindE (read_links run) (\<lambda>links.
     (let linked = remdups (map link_source
            (filter (\<lambda>l. is_resolved l \<and> link_target l = doc_id target) links))
      in bindE (by_source_path (present (keyed doc_id (\<lambda>r. r) docs) (set_order G linked))) (\<lambda>rows.
         Inr (query_result rows None))))))))"

section \<open>Reachability\<close>

type_synonym edge_map = "(json \<times> json list) list"

definition edges_from :: "edge_map \<Rightarrow> json \<Rightarrow> json list" where
  "edges_from m s = (case map_of m s of None \<Rightarrow> [] | Some ts \<Rightarrow> ts)"

definition add_edge :: "json \<Rightarrow> json \<Rightarrow> edge_map \<Rightarrow> edge_map" where
  "add_edge s t m = AList.update s (let ts = edges_from m s in if t \<in> set ts then ts else ts @ [t]) m"

definition followed :: "dict \<Rightarrow> bool" where
  "followed l \<longleftrightarrow> is_resolved l \<and> truthy (link_target l)"

definition link_edges :: "engine \<Rightarrow> dict list \<Rightarrow> edge_map" where
  "link_edges G link_dicts =
     map (\<lambda>(s, ts). (s, set_order G ts))
       (foldl (\<lambda>m l. add_edge (link_source l) (link_target l) m) [] (filter followed link_dicts))"

text \<open>The body of the \<open>for target in ...\<close> loop, on the set and the queue.\<close>

definition visit :: "json \<Rightarrow> json list \<times> json list \<Rightarrow> json list \<times> json list" where
  "visit t s = (case s of (reached, pending) \<Rightarrow>
     if t \<in> set reached then (reached, pending) else (reached @ [t], pending @ [t]))"

lemma fold_visit:
  "\<exists>fresh. fold visit ts (reached, pending) = (reached @ fresh, pending @ fresh)
     \<and> set fresh = set ts - set reached"
proof (induction ts arbitrary: reached pending)
  case (Cons t ts)
  show ?case
  proof (cases "t \<in> set reached")
    case True
    obtain fresh where fresh: "fold visit ts (reached, pending) = (reached @ fresh, pending @ fresh)"
      "set fresh = set ts - set reached" using Cons [of reached pending] by blast
    have "visit t (reached, pending) = (reached, pending)" using True by (simp add: visit_def)
    then have "fold visit (t # ts) (reached, pending) = (reached @ fresh, pending @ fresh)"
      using fresh(1) by simp
    moreover have "set fresh = set (t # ts) - set reached" using fresh(2) True by auto
    ultimately show ?thesis by blast
  next
    case False
    obtain fresh where fresh:
      "fold visit ts (reached @ [t], pending @ [t]) = ((reached @ [t]) @ fresh, (pending @ [t]) @ fresh)"
      "set fresh = set ts - set (reached @ [t])" using Cons [of "reached @ [t]" "pending @ [t]"] by blast
    have "visit t (reached, pending) = (reached @ [t], pending @ [t])"
      using False by (simp add: visit_def)
    then have "fold visit (t # ts) (reached, pending) = (reached @ t # fresh, pending @ t # fresh)"
      using fresh(1) by simp
    moreover have "set (t # fresh) = set (t # ts) - set reached" using fresh(2) False by auto
    ultimately show ?thesis by blast
  qed
qed simp

lemma edges_from_in: "t \<in> set (edges_from m s) \<Longrightarrow> t \<in> set (concat (map snd m))"
  by (cases "map_of m s") (auto simp add: edges_from_def intro!: bexI dest!: map_of_SomeD)

text \<open>The \<open>while pending\<close> loop.\<close>

function search :: "edge_map \<Rightarrow> json list \<Rightarrow> json list \<Rightarrow> json list" where
  "search m reached [] = reached"
| "search m reached (p # pending) =
     (let (reached', pending') = fold visit (edges_from m p) (reached, pending)
      in search m reached' pending')"
  by pat_completeness auto

termination
proof (relation "measures [\<lambda>(m, reached, pending). card (set (concat (map snd m)) - set reached),
    \<lambda>(m, reached, pending). length pending]")
  fix m :: edge_map and p reached pending x reached' pending'
  assume x: "x = fold visit (edges_from m p) (reached, pending)" "(reached', pending') = x"
  obtain fresh where fresh: "reached' = reached @ fresh" "pending' = pending @ fresh"
    "set fresh = set (edges_from m p) - set reached"
    using fold_visit [of "edges_from m p" reached pending] x by auto
  let ?U = "set (concat (map snd m))"
  show "((m, reached', pending'), m, reached, p # pending) \<in>
      measures [\<lambda>(m, reached, pending). card (set (concat (map snd m)) - set reached),
        \<lambda>(m, reached, pending). length pending]"
  proof (cases "fresh = []")
    case True
    with fresh show ?thesis by simp
  next
    case False
    then obtain t where t: "t \<in> set fresh" by (cases fresh) auto
    with fresh(3) have "t \<in> ?U - set reached" by (auto dest: edges_from_in)
    moreover have "t \<notin> ?U - set reached'" using t fresh(1) by simp
    moreover have "?U - set reached' \<subseteq> ?U - set reached" using fresh(1) by auto
    ultimately have "?U - set reached' \<subset> ?U - set reached" by blast
    then have "card (?U - set reached') < card (?U - set reached)" by (intro psubset_card_mono) simp_all
    then show ?thesis by simp
  qed
qed simp

definition reachable_from :: "engine \<Rightarrow> reader \<Rightarrow> params \<Rightarrow> dict res" where
  "reachable_from G run ps =
     bindE (required_param ps ''reachable-from'' ''title'') (\<lambda>title.
     bindE (read_sources run) (\<lambda>sources.
     bindE (the_titled title sources) (\<lambda>root.
     bindE (read_links run) (\<lambda>links.
     (let reached = search (link_edges G links) [doc_id root] [doc_id root]
      in bindE (by_source_path (present (keyed doc_id (\<lambda>r. r) sources) (set_order G reached))) (\<lambda>rows.
         Inr (query_result rows None)))))))"

section \<open>Links, lifecycles, conflicts\<close>

text \<open>The integer a sort compares; the relations store integers there.\<close>

definition ordinal_of :: "dict \<Rightarrow> int res" where
  "ordinal_of r = (case dget r ''ordinal'' of JInt n \<Rightarrow> Inr n | _ \<Rightarrow> Inl (Unmodelled ''ordinal''))"

definition inventory_row :: "(json \<times> dict) list \<Rightarrow> dict \<Rightarrow> ((string \<times> int) \<times> dict) res" where
  "inventory_row sources l =
     bindE (case map_of sources (link_source l) of
        None \<Rightarrow> Inl (KeyError (text_of (link_source l))) | Some s \<Rightarrow> Inr s) (\<lambda>s.
     (let row = dmerge [(''source_path'', dget s ''source_path''), (''source_title'', dget s ''title'')] l
      in bindE (folded (dget row ''source_path'')) (\<lambda>k.
         bindE (ordinal_of row) (\<lambda>n. Inr ((k, n), row)))))"

definition tallied :: "string \<Rightarrow> string list \<Rightarrow> dict list \<Rightarrow> json" where
  "tallied f names rows =
     JObj (map (\<lambda>n. (n, JInt (int (length (filter (\<lambda>r. dget r f = JStr n) rows))))) names)"

definition link_inventory :: "reader \<Rightarrow> params \<Rightarrow> dict res" where
  "link_inventory run ps =
     bindE (read_sources run) (\<lambda>sources.
     bindE (read_links run) (\<lambda>links.
     bindE (mapE (inventory_row (keyed doc_id (\<lambda>r. r) sources)) links) (\<lambda>keyed_rows.
     (let rows = map snd (sort_key fst keyed_rows)
      in Inr (query_result rows (Some
        [(''row_count'', JInt (int (length rows))),
         (''by_resolution_state'',
            tallied ''resolution_state'' [''resolved'', ''unresolved'', ''ambiguous'', ''excluded''] rows),
         (''by_link_kind'',
            tallied ''link_kind'' [''internal'', ''same-document'', ''external'', ''attachment''] rows)]))))))"

definition missing_lifecycle :: "reader \<Rightarrow> params \<Rightarrow> dict res" where
  "missing_lifecycle run ps =
     bindE (read_documents run) (\<lambda>docs.
     bindE (by_source_path (filter
        (\<lambda>d. list_ex (\<lambda>f. dget d f = JNull) [''document_type'', ''status'', ''authority'']) docs)) (\<lambda>rows.
     Inr (query_result rows None)))"

text \<open>The documents a resolved link joins with a canonical current one, in either direction.\<close>

definition connect :: "json list \<Rightarrow> dict \<Rightarrow> edge_map \<Rightarrow> edge_map" where
  "connect canonical l m =
     (if \<not> followed l then m
      else let s = link_source l; t = link_target l;
               m1 = (if s \<in> set canonical then add_edge t s m else m)
           in if t \<in> set canonical then add_edge s t m1 else m1)"

definition path_text_of :: "(json \<times> dict) list \<Rightarrow> json \<Rightarrow> string res" where
  "path_text_of docs i = (case map_of docs i of
      None \<Rightarrow> Inl (KeyError (text_of i))
    | Some d \<Rightarrow> (case dget d ''source_path'' of JStr s \<Rightarrow> Inr s | _ \<Rightarrow> Inl (Unmodelled ''source path'')))"

definition conflict_rows :: "(json \<times> dict) list \<Rightarrow> json \<times> json list \<Rightarrow> dict list res" where
  "conflict_rows docs c = (case map_of docs (fst c) of
      None \<Rightarrow> Inr []
    | Some d \<Rightarrow>
        bindE (in_strs (dget d ''status'') FORBIDDEN_GUIDANCE_STATUSES) (\<lambda>forbidden.
        if d = [] \<or> \<not> forbidden then Inr []
        else bindE (mapE (path_text_of docs) (snd c)) (\<lambda>paths.
          Inr [dput d ''connected_current_paths'' (JList (map JStr (sort paths)))])))"

definition guidance_conflicts :: "reader \<Rightarrow> params \<Rightarrow> dict res" where
  "guidance_conflicts run ps =
     bindE (read_documents run) (\<lambda>rows.
     bindE (read_links run) (\<lambda>links.
     (let docs = keyed doc_id (\<lambda>r. r) rows;
          canonical = map fst (filter (\<lambda>p. canonical_current_document (snd p)) docs);
          connections = fold (connect canonical) links []
      in bindE (mapE (conflict_rows docs) connections) (\<lambda>found.
         bindE (by_source_path (concat found)) (\<lambda>sorted_rows.
         Inr (query_result sorted_rows None))))))"

section \<open>Ranking the documents for a question\<close>

text \<open>What \<open>w+(?:[_.-]w+)*\<close> matches after its first character, and what it leaves.\<close>

fun word_rest :: "(char \<Rightarrow> bool) \<Rightarrow> string \<Rightarrow> string \<times> string" where
  "word_rest ok [] = ([], [])"
| "word_rest ok (c # s) =
     (if ok c \<or> (c \<in> set ''_.-'' \<and> s \<noteq> [] \<and> ok (hd s))
      then (case word_rest ok s of (w, r) \<Rightarrow> (c # w, r))
      else ([], c # s))"

lemma word_rest_shorter: "word_rest ok s = (w, r) \<Longrightarrow> length r \<le> length s"
  by (induction ok s arbitrary: w r rule: word_rest.induct) (auto split: if_splits prod.splits)

text \<open>\<open>re.findall\<close>.\<close>

function words_in :: "(char \<Rightarrow> bool) \<Rightarrow> string \<Rightarrow> string list" where
  "words_in ok [] = []"
| "words_in ok (c # s) =
     (if ok c then (case word_rest ok s of (w, r) \<Rightarrow> (c # w) # words_in ok r) else words_in ok s)"
  by pat_completeness auto

termination
  by (relation "measure (\<lambda>(ok, s). length s)") (auto dest!: sym [of "(_, _)"] word_rest_shorter)

definition lower_alnum :: "char \<Rightarrow> bool" where
  "lower_alnum c \<longleftrightarrow> is_digit c \<or> (97 \<le> code_of c \<and> code_of c \<le> 122)"

definition terms_of :: "string \<Rightarrow> string list" where
  "terms_of question =
     sorted_set (filter (\<lambda>w. (3 \<le> length w \<or> w = ''not'') \<and> w \<notin> set STOPWORDS)
       (words_in lower_alnum (casefold question)))"

text \<open>\<open>str.split()\<close> and \<open>str.count\<close>.\<close>

definition split_spaces :: "string \<Rightarrow> string list" where
  "split_spaces s =
     filter (\<lambda>w. w \<noteq> []) (split_char (CHR '' '') (map (\<lambda>c. if is_space c then CHR '' '' else c) s))"

fun count_from :: "string \<Rightarrow> nat \<Rightarrow> string \<Rightarrow> nat" where
  "count_from p k [] = 0"
| "count_from p k (c # s) =
     (if 0 < k then count_from p (k - 1) s
      else if startswith (c # s) p then Suc (count_from p (length p - 1) s)
      else count_from p 0 s)"

definition count_sub :: "string \<Rightarrow> string \<Rightarrow> nat" where
  "count_sub p s = (if p = [] then Suc (length s) else count_from p 0 s)"

definition excerpt_of :: "string \<Rightarrow> string list \<Rightarrow> string" where
  "excerpt_of body ts =
     (let compact = join '' '' (split_spaces body);
          positions = List.map_filter (\<lambda>t. find_sub t (casefold compact)) ts;
          start = (if positions = [] then 0 else Min (set positions)) - 80
      in (if 0 < start then ''...'' else []) @ take 360 (drop start compact)
         @ (if start + 360 < length compact then ''...'' else []))"

text \<open>\<open>int(s)\<close>: spaces around, a sign, digits with single underscores between them.\<close>

definition py_int :: "string \<Rightarrow> int option" where
  "py_int s =
     (let t = strip s;
          body = (if t \<noteq> [] \<and> hd t \<in> set ''+-'' then tl t else t);
          groups = split_char (CHR ''_'') body;
          digits = concat groups
      in if list_all (\<lambda>g. g \<noteq> [] \<and> list_all is_digit g) groups \<and> length digits \<le> 4300
         then Some ((if startswith t ''-'' then -1 else 1)
           * int (foldl (\<lambda>n c. 10 * n + (code_of c - 48)) 0 digits))
         else None)"

definition context_limit :: "params \<Rightarrow> int res" where
  "context_limit ps =
     (case py_int (case map_of ps ''limit'' of None \<Rightarrow> ''5'' | Some s \<Rightarrow> s) of
        None \<Rightarrow> Inl (QueryError ''context limit must be an integer'')
      | Some n \<Rightarrow> if n < 1 \<or> 25 < n then Inl (QueryError ''context limit must be between 1 and 25'')
          else Inr n)"

definition section_score :: "string list \<Rightarrow> string list \<Rightarrow> string \<Rightarrow> string \<Rightarrow> int" where
  "section_score ts matched heading_text text =
     int (length matched * 4 + 8 * length (filter (contains heading_text) ts)
       + min (sum_list (map (\<lambda>t. count_sub t text) matched)) 6)"

definition section_evidence :: "string list \<Rightarrow> dict \<Rightarrow> ((int \<times> int) \<times> dict) list res" where
  "section_evidence ts s =
     bindE (folded (if truthy (dget s ''heading'') then dget s ''heading'' else JStr [])) (\<lambda>heading_text.
     if heading_text \<in> set LOW_SIGNAL_HEADINGS then Inr []
     else bindE (case dget s ''body'' of JStr b \<Rightarrow> Inr b | _ \<Rightarrow> Inl (Unmodelled ''section body'')) (\<lambda>body.
       (let text = casefold (heading_text @ '' '' @ body);
            matched = filter (contains text) ts;
            score = section_score ts matched heading_text text
        in if matched = [] then Inr []
           else bindE (ordinal_of s) (\<lambda>n.
             Inr [((- score, n),
               [(''ordinal'', JInt n), (''heading'', dget s ''heading''),
                (''matched_terms'', JList (map JStr matched)), (''excerpt'', JStr (excerpt_of body matched)),
                (''score'', JInt score)])]))))"

definition authority_score :: "json \<Rightarrow> int" where
  "authority_score v = (if v = JStr ''canonical'' then 10 else if v = JStr ''supporting'' then 2 else 0)"

definition status_score :: "json \<Rightarrow> int" where
  "status_score v = (if v = JStr ''current'' then 8 else if v = JStr ''in-progress'' then 4
     else if v = JStr ''planned'' then 2 else if v = JStr ''done'' then -4 else 0)"

definition intent_score :: "bool \<Rightarrow> dict \<Rightarrow> int res" where
  "intent_score current_intent d =
     (if \<not> current_intent then Inr 0
      else bindE (in_strs (dget d ''document_type'') [''plan'', ''runbook'']) (\<lambda>planned.
        Inr ((if dget d ''document_type'' = JStr ''current-state'' then 24 else 0)
          - (if planned then 12 else 0) - (if dget d ''status'' = JStr ''done'' then 8 else 0))))"

definition evidence_for :: "string list \<Rightarrow> dict list \<Rightarrow> dict \<Rightarrow> ((int \<times> int) \<times> dict) list res" where
  "evidence_for ts secs d =
     bindE (mapE (section_evidence ts) (filter (\<lambda>s. doc_id s = doc_id d) secs)) (\<lambda>found.
     Inr (sort_key fst (concat found)))"

definition ranked_row :: "dict \<Rightarrow> int \<Rightarrow> dict \<Rightarrow> string list \<Rightarrow> dict list \<Rightarrow> dict" where
  "ranked_row d score components matched evidence = dmerge d
     [(''score'', JInt score), (''score_components'', JObj components),
      (''matched_terms'', JList (map JStr matched)), (''evidence'', JList (map JObj (take 3 evidence)))]"

definition score_document ::
  "string list \<Rightarrow> string \<Rightarrow> int \<Rightarrow> ((int \<times> int) \<times> dict) list \<Rightarrow> string list \<Rightarrow> dict \<Rightarrow> int \<times> dict" where
  "score_document ts title_text intent evidence matched d =
     (let title_score = 18 * int (length (filter (contains title_text) ts));
          best = (case evidence of [] \<Rightarrow> 0 | e # es \<Rightarrow> - fst (fst e));
          authority = authority_score (dget d ''authority'');
          status = status_score (dget d ''status'');
          score = title_score + best + authority + status + intent
      in (score, ranked_row d score
           [(''title'', JInt title_score), (''best_section'', JInt best), (''authority'', JInt authority),
            (''status'', JInt status), (''current_intent'', JInt intent)] matched (map snd evidence)))"

definition rank_document ::
  "string list \<Rightarrow> (json \<times> json) list \<Rightarrow> dict list \<Rightarrow> dict \<Rightarrow> ((int \<times> string) \<times> dict) list res" where
  "rank_document ts contents secs d =
     bindE (in_strs (dget d ''status'') FORBIDDEN_GUIDANCE_STATUSES) (\<lambda>forbidden.
     if forbidden then Inr []
     else bindE (folded (dget d ''title'')) (\<lambda>title_text.
       bindE (folded (case map_of contents (doc_id d) of None \<Rightarrow> JStr [] | Some v \<Rightarrow> v)) (\<lambda>raw.
       (let matched = filter (\<lambda>t. contains title_text t \<or> contains raw t) ts
        in if matched = [] then Inr []
           else bindE (evidence_for ts secs d) (\<lambda>evidence.
             bindE (intent_score (list_ex (\<lambda>t. t \<in> set CURRENT_INTENT_TERMS) ts) d) (\<lambda>intent.
             bindE (folded (dget d ''source_path'')) (\<lambda>k.
             (case score_document ts title_text intent evidence matched d of
                (score, row) \<Rightarrow> Inr [((- score, k), row)]))))))))"

definition ranked_documents :: "reader \<Rightarrow> string list \<Rightarrow> dict list res" where
  "ranked_documents run ts =
     bindE (read_content run) (\<lambda>contents.
     bindE (read_sections run) (\<lambda>secs.
     bindE (read_documents run) (\<lambda>docs.
     bindE (mapE (rank_document ts contents secs) docs) (\<lambda>found.
     Inr (map snd (sort_key fst (concat found)))))))"

definition context_query :: "reader \<Rightarrow> params \<Rightarrow> dict res" where
  "context_query run ps =
     bindE (required_param ps ''context'' ''question'') (\<lambda>question.
     bindE (context_limit ps) (\<lambda>limit.
     (let ts = terms_of question
      in bindE (raiseIf (ts = []) (QueryError ''context question contains no searchable terms'')) (\<lambda>_.
         bindE (ranked_documents run ts) (\<lambda>ranked.
         Inr (query_result (take (nat limit) ranked) (Some
           [(''row_count'', JInt (min (int (length ranked)) limit)),
            (''search_terms'', JList (map JStr ts)),
            (''candidate_count'', JInt (int (length ranked)))])))))))"

section \<open>Running a query\<close>

type_synonym handler = "reader \<Rightarrow> params \<Rightarrow> dict res"

definition QUERY_HANDLERS :: "engine \<Rightarrow> (string \<times> handler) list" where
  "QUERY_HANDLERS G =
     [(''canonical-current'', canonical_current), (''context'', context_query),
      (''document-by-id'', document_by_id), (''guidance-conflicts'', guidance_conflicts),
      (''link-inventory'', link_inventory), (''links-to'', links_to G),
      (''missing-lifecycle'', missing_lifecycle), (''reachable-from'', reachable_from G)]"

definition query_names :: "engine \<Rightarrow> string list" where
  "query_names G = sort (map fst (QUERY_HANDLERS G))"

definition params_json :: "params \<Rightarrow> json" where
  "params_json ps = JObj (map (\<lambda>(k, v). (k, JStr v)) ps)"

definition execute_query_for_manifest :: "engine \<Rightarrow> dict \<Rightarrow> string \<Rightarrow> params \<Rightarrow> dict res" where
  "execute_query_for_manifest G manifest query_name ps =
     (case map_of (QUERY_HANDLERS G) query_name of
        None \<Rightarrow> Inl (QueryError (''unknown query '' @ py_repr query_name @ ''; choose from: ''
          @ join '', '' (query_names G)))
      | Some h \<Rightarrow>
          bindE (didx manifest ''_database_path'') (\<lambda>p.
          bindE (open_reader G (text_of p)) (\<lambda>run.
          bindE (h run ps) (\<lambda>result.
          bindE (didx manifest ''run_id'') (\<lambda>run_id.
          bindE (didx manifest ''_deployment_provenance'') (\<lambda>shown.
          Inr (dmerge
            [(''schema_version'', JInt 1), (''run_id'', run_id), (''deployment'', shown),
             (''query'', JStr query_name), (''parameters'', params_json ps)] result)))))))"

definition execute_query ::
  "engine \<Rightarrow> (string \<Rightarrow> string) \<Rightarrow> path \<Rightarrow> string \<Rightarrow> params \<Rightarrow> json \<Rightarrow> dict wprog" where
  "execute_query G sha data query_name ps run_id =
     pinned_build_manifest sha data run_id (\<lambda>manifest.
       liftM (execute_query_for_manifest G manifest query_name ps))"

end
