(* ===== verification/ContextCompiler.thy ===== *)
theory ContextCompiler
  imports Query
begin

text \<open>
  \<open>context_compiler.py\<close>: a bounded bundle of evidence for a task. The ranked sections of the context
  query are taken in an order that gives every document its best section first, and each is kept or
  left out by the reasons and budgets that the bundle reports.
\<close>

definition COMPILER_WRAPPER_TERMS :: "string list" where
  "COMPILER_WRAPPER_TERMS =
     [''bundle'', ''change'', ''changing'', ''context'', ''prepare'', ''smallest'', ''trustworthy'']"

definition LOW_INFORMATION_TERMS :: "string list" where
  "LOW_INFORMATION_TERMS = [''current'', ''currently'', ''implemented'', ''running'', ''verified'']"

record budgets =
  max_documents :: int
  max_sections :: int
  max_chars :: int

definition default_budgets :: budgets where
  "default_budgets = \<lparr>max_documents = 5, max_sections = 8, max_chars = 6000\<rparr>"

definition validate_budgets :: "budgets \<Rightarrow> unit res" where
  "validate_budgets B =
     bindE (raiseIf (\<not> (1 \<le> max_documents B \<and> max_documents B \<le> 25))
       (ContextCompilerError ''max_documents must be between 1 and 25'')) (\<lambda>_.
     bindE (raiseIf (\<not> (1 \<le> max_sections B \<and> max_sections B \<le> 50))
       (ContextCompilerError ''max_sections must be between 1 and 50'')) (\<lambda>_.
     raiseIf (max_chars B < 200) (ContextCompilerError ''max_chars must be at least 200'')))"

section \<open>Candidates\<close>

type_synonym bodies = "((string \<times> json) \<times> json) list"

definition bodies_query :: string where
  "bodies_query = ''?[document_id, ordinal, body] := *section{document_id, ordinal, body}''"

definition section_bodies :: "reader \<Rightarrow> bodies res" where
  "section_bodies run =
     bindE (run bodies_query) (\<lambda>rows.
     bindE (mapE (\<lambda>r. case r of
          [d, n, b] \<Rightarrow> Inr ((text_of d, n), b)
        | _ \<Rightarrow> Inl (ValueError ''wrong number of values to unpack'')) rows) (\<lambda>ps.
     Inr (foldl (\<lambda>m (k, b). AList.update k b m) [] ps)))"

record candidate =
  document_rank :: nat
  section_rank :: nat
  cand_document :: dict
  cand_section :: dict
  cand_ordinal :: int
  cand_body :: string

definition char_count :: "candidate \<Rightarrow> nat" where
  "char_count c = length (cand_body c)"

definition body_of :: "bodies \<Rightarrow> dict \<Rightarrow> dict \<Rightarrow> string res" where
  "body_of bodies d s =
     (case (case doc_id d of JStr i \<Rightarrow> map_of bodies (i, dget s ''ordinal'') | _ \<Rightarrow> None) of
        Some (JStr b) \<Rightarrow> Inr b
      | Some JNull \<Rightarrow> Inl (ContextCompilerError (''section body missing for ''
          @ text_of (dget d ''source_path'') @ '' ordinal '' @ text_of (dget s ''ordinal'')))
      | None \<Rightarrow> Inl (ContextCompilerError (''section body missing for ''
          @ text_of (dget d ''source_path'') @ '' ordinal '' @ text_of (dget s ''ordinal'')))
      | Some v \<Rightarrow> Inl (TypeError ''object has no len()''))"

definition candidate_section :: "bodies \<Rightarrow> nat \<Rightarrow> dict \<Rightarrow> nat \<times> json \<Rightarrow> candidate res" where
  "candidate_section bodies rank d p =
     bindE (body_of bodies d (obj_of (snd p))) (\<lambda>b.
     bindE (ordinal_of (obj_of (snd p))) (\<lambda>n.
     Inr \<lparr>document_rank = rank, section_rank = fst p, cand_document = d, cand_section = obj_of (snd p),
       cand_ordinal = n, cand_body = b\<rparr>))"

text \<open>\<open>enumerate(xs, start=1)\<close>.\<close>

definition enumerated :: "'a list \<Rightarrow> (nat \<times> 'a) list" where
  "enumerated xs = zip [1..<Suc (length xs)] xs"

definition candidate_sections :: "json list \<Rightarrow> bodies \<Rightarrow> candidate list res" where
  "candidate_sections rows bodies =
     bindE (mapE (\<lambda>(rank, r).
        mapE (candidate_section bodies rank (obj_of r))
          (enumerated (list_of (dget (obj_of r) ''evidence'')))) (enumerated rows)) (\<lambda>found.
     Inr (concat found))"

text \<open>One best section for each document, then the rest.\<close>

definition selection_key :: "candidate \<Rightarrow> bool \<times> nat \<times> nat \<times> int" where
  "selection_key c = (section_rank c \<noteq> 1, document_rank c, section_rank c, cand_ordinal c)"

definition selection_order :: "candidate list \<Rightarrow> candidate list" where
  "selection_order cs = sort_key selection_key cs"

definition retrieval_question :: "string \<Rightarrow> string" where
  "retrieval_question question =
     (let kept = filter (\<lambda>w. casefold w \<notin> set COMPILER_WRAPPER_TERMS \<and> casefold w \<notin> set STOPWORDS)
            (words_in is_alnum question);
          joined = join '' '' kept
      in if joined = [] then question else joined)"

section \<open>Selection\<close>

record selection =
  chosen :: "(candidate \<times> string list) list"
  chosen_documents :: "json list"
  chosen_terms :: "string list"
  has_current_state :: bool
  evidence_chars :: nat
  omitted :: counter

definition no_selection :: selection where
  "no_selection = \<lparr>chosen = [], chosen_documents = [], chosen_terms = [], has_current_state = False,
     evidence_chars = 0, omitted = []\<rparr>"

definition omit :: "string \<Rightarrow> selection \<Rightarrow> selection" where
  "omit reason S = S\<lparr>omitted := count_one reason (omitted S)\<rparr>"

definition strings_of :: "json \<Rightarrow> string list" where
  "strings_of v = map str_of (list_of v)"

definition task_terms :: "candidate \<Rightarrow> string list" where
  "task_terms c =
     filter (\<lambda>t. t \<notin> set LOW_INFORMATION_TERMS) (strings_of (dget (cand_section c) ''matched_terms''))"

definition canonical_current_state :: "dict \<Rightarrow> bool" where
  "canonical_current_state d \<longleftrightarrow>
     canonical_current_document d \<and> dget d ''document_type'' = JStr ''current-state''"

definition new_terms :: "candidate \<Rightarrow> selection \<Rightarrow> string list" where
  "new_terms c S = filter (\<lambda>t. t \<notin> set (chosen_terms S)) (task_terms c)"

definition is_chosen :: "candidate \<Rightarrow> selection \<Rightarrow> bool" where
  "is_chosen c S \<longleftrightarrow> doc_id (cand_document c) \<in> set (chosen_documents S)"

definition selection_reasons :: "candidate \<Rightarrow> bool \<Rightarrow> bool \<Rightarrow> selection \<Rightarrow> string list" where
  "selection_reasons c trusted anchor S =
     (if chosen S = [] then [''highest-ranked evidence''] else [])
     @ (if new_terms c S \<noteq> [] then [''adds task terms: '' @ join '', '' (sorted_set (new_terms c S))] else [])
     @ (if trusted then [''adds required canonical current-state evidence''] else [])
     @ (if anchor then [''adds exact-title anchor evidence''] else [])"

definition take_candidate :: "candidate \<Rightarrow> string list \<Rightarrow> selection \<Rightarrow> selection" where
  "take_candidate c why S =
     S\<lparr>chosen := chosen S @ [(c, why)],
       chosen_documents := chosen_documents S @ (if is_chosen c S then [] else [doc_id (cand_document c)]),
       chosen_terms := chosen_terms S @ task_terms c,
       has_current_state := has_current_state S \<or> canonical_current_state (cand_document c),
       evidence_chars := evidence_chars S + char_count c\<rparr>"

text \<open>The body of the selection loop.\<close>

definition weigh :: "budgets \<Rightarrow> string \<Rightarrow> candidate \<Rightarrow> selection \<Rightarrow> selection res" where
  "weigh B question c S =
     (let d = cand_document c
      in bindE (in_strs (dget d ''status'') FORBIDDEN_GUIDANCE_STATUSES) (\<lambda>forbidden.
         if forbidden then Inr (omit ''forbidden-lifecycle'' S)
         else bindE (if is_chosen c S then Inr False
               else bindE (folded (dget d ''title'')) (\<lambda>t. Inr (contains (casefold question) t))) (\<lambda>anchor.
           (let trusted = (canonical_current_state d \<and> \<not> has_current_state S)
            in if chosen S \<noteq> [] \<and> new_terms c S = [] \<and> \<not> trusted \<and> \<not> anchor
               then Inr (omit ''redundant-evidence'' S)
               else if \<not> is_chosen c S \<and> max_documents B \<le> int (length (chosen_documents S))
               then Inr (omit ''document-budget'' S)
               else if max_sections B \<le> int (length (chosen S))
               then Inr (omit ''section-budget'' S)
               else if max_chars B < int (evidence_chars S + char_count c)
               then Inr (omit ''character-budget'' S)
               else Inr (take_candidate c (selection_reasons c trusted anchor S) S)))))"

definition select_evidence :: "budgets \<Rightarrow> string \<Rightarrow> candidate list \<Rightarrow> selection res" where
  "select_evidence B question cs =
     bindE (foldE (weigh B question) (selection_order cs) no_selection) (\<lambda>S.
     bindE (raiseIf (chosen S = [])
       (ContextCompilerError ''budgets cannot fit any retrieved evidence section; increase max_chars'')) (\<lambda>_.
     Inr S))"

section \<open>The bundle\<close>

record entry =
  entry_document :: dict
  entry_rank :: nat
  entry_reasons :: "string list"
  entry_sections :: "(candidate \<times> string list) list"

definition add_reason :: "string \<Rightarrow> string list \<Rightarrow> string list" where
  "add_reason r rs = (if r \<in> set rs then rs else rs @ [r])"

definition add_section :: "candidate \<times> string list \<Rightarrow> (json \<times> entry) list \<Rightarrow> (json \<times> entry) list" where
  "add_section p m =
     (let c = fst p; i = doc_id (cand_document c);
          e = (case map_of m i of
                 Some e \<Rightarrow> e
               | None \<Rightarrow> \<lparr>entry_document = cand_document c, entry_rank = document_rank c,
                   entry_reasons = snd p, entry_sections = []\<rparr>)
      in AList.update i (e\<lparr>entry_reasons := fold add_reason (snd p) (entry_reasons e),
           entry_sections := entry_sections e @ [p]\<rparr>) m)"

definition by_document :: "selection \<Rightarrow> entry list" where
  "by_document S = sort_key entry_rank (map snd (fold add_section (chosen S) []))"

definition texts :: "string list \<Rightarrow> json" where
  "texts xs = JList (map JStr xs)"

definition section_entry :: "candidate \<times> string list \<Rightarrow> json" where
  "section_entry p =
     (let c = fst p; s = cand_section c
      in JObj [(''ordinal'', dget s ''ordinal''), (''heading'', dget s ''heading''),
           (''section_score'', dget s ''score''), (''matched_terms'', dget s ''matched_terms''),
           (''selection_reasons'', texts (snd p)), (''char_count'', JInt (int (char_count c))),
           (''body'', JStr (cand_body c))])"

definition document_entry :: "entry \<Rightarrow> json" where
  "document_entry e =
     (let d = entry_document e
      in JObj (map (\<lambda>f. (f, dget d f))
             [''document_id'', ''source_path'', ''title'', ''document_type'', ''status'', ''authority'']
           @ [(''document_rank'', JInt (int (entry_rank e))), (''document_score'', dget d ''score''),
              (''selection_reasons'', texts (entry_reasons e)),
              (''sections'', JList (map section_entry (entry_sections e)))]))"

definition known_gap :: "candidate \<Rightarrow> bool res" where
  "known_gap c =
     bindE (folded (if truthy (dget (cand_section c) ''heading'') then dget (cand_section c) ''heading''
       else JStr [])) (\<lambda>h. Inr (h = ''known verification gaps''))"

definition entry_gaps :: "entry \<Rightarrow> json list res" where
  "entry_gaps e =
     bindE (mapE (\<lambda>p. bindE (known_gap (fst p)) (\<lambda>gap.
         Inr (if gap then [JObj [(''source_path'', dget (entry_document e) ''source_path''),
             (''ordinal'', dget (cand_section (fst p)) ''ordinal''), (''body'', JStr (cand_body (fst p)))]]
           else []))) (entry_sections e)) (\<lambda>found.
     Inr (concat found))"

definition bundle_warnings :: "bool \<Rightarrow> entry list \<Rightarrow> selection \<Rightarrow> json list \<Rightarrow> string list" where
  "bundle_warnings risky entries S gaps =
     [''Compiled evidence is documented state; no live verification was performed.'']
     @ (if risky then [''Fresh live read-only discovery is required before mutation.''] else [])
     @ (if list_ex (\<lambda>e. dget (entry_document e) ''authority'' \<noteq> JStr ''canonical'') entries
        then [''Supporting evidence is included and does not override canonical state.''] else [])
     @ (if omitted S \<noteq> [] then [''Some ranked evidence was omitted by explicit bundle budgets.''] else [])
     @ (if risky \<and> gaps = []
        then [''No task-specific documented verification gap was selected; fresh discovery remains required.'']
        else [])"

record request =
  asked :: string
  risk_level :: string
  limits :: budgets

definition request_json :: "request \<Rightarrow> json" where
  "request_json R =
     JObj [(''question'', JStr (asked R)), (''retrieval_question'', JStr (retrieval_question (asked R))),
       (''risk_level'', JStr (risk_level R)),
       (''budgets'', JObj [(''max_documents'', JInt (max_documents (limits R))),
          (''max_sections'', JInt (max_sections (limits R))), (''max_chars'', JInt (max_chars (limits R)))])]"

definition selection_json :: "selection \<Rightarrow> entry list \<Rightarrow> nat \<Rightarrow> nat \<Rightarrow> json" where
  "selection_json S entries retrieved considered =
     JObj [(''document_count'', JInt (int (length entries))),
       (''section_count'', JInt (int (length (chosen S)))),
       (''evidence_chars'', JInt (int (evidence_chars S))),
       (''retrieved_document_candidates'', JInt (int retrieved)),
       (''retrieved_section_candidates'', JInt (int considered)),
       (''omitted'', counter_json (by_key (omitted S)))]"

definition build_json :: "dict \<Rightarrow> json res" where
  "build_json manifest =
     bindE (mapE (\<lambda>f. bindE (didx manifest f) (\<lambda>v. Inr (f, v)))
       [''run_id'', ''source_fingerprint'', ''artifact_fingerprint'', ''logical_fingerprint'']) (\<lambda>fs.
     bindE (didx manifest ''_deployment_provenance'') (\<lambda>shown.
     Inr (JObj (fs @ [(''deployment'', shown)]))))"

definition bundle_of :: "request \<Rightarrow> dict \<Rightarrow> nat \<Rightarrow> candidate list \<Rightarrow> selection \<Rightarrow> dict res" where
  "bundle_of R manifest retrieved cs S =
     (let entries = by_document S; risky = (risk_level R = ''risky'')
      in bindE (mapE entry_gaps entries) (\<lambda>found.
         bindE (build_json manifest) (\<lambda>build.
         Inr [(''schema_version'', JInt 1), (''bundle_kind'', JStr ''homeops-context-bundle''),
           (''build'', build), (''request'', request_json R),
           (''trust_policy'', JObj
              [(''authoritative_sources'', JStr ''Markdown and verified live discovery''),
               (''excluded_lifecycle_states'', texts (sort FORBIDDEN_GUIDANCE_STATUSES)),
               (''generated_answer'', JBool False), (''live_discovery_performed'', JBool False)]),
           (''live_verification'', JObj
              [(''required'', JBool risky),
               (''status'', JStr (if risky then ''required-before-mutation'' else ''not-required-by-request'')),
               (''known_verification_gaps'', JList (concat found))]),
           (''selection'', selection_json S entries retrieved (length cs)),
           (''documents'', JList (map document_entry entries)),
           (''warnings'', texts (bundle_warnings risky entries S (concat found)))])))"

section \<open>Compiling\<close>

definition check_request :: "request \<Rightarrow> unit res" where
  "check_request R =
     bindE (raiseIf (strip (asked R) = []) (ContextCompilerError ''question must not be empty'')) (\<lambda>_.
     bindE (raiseIf (risk_level R \<notin> {''normal'', ''risky''})
       (ContextCompilerError ''risk_level must be normal or risky'')) (\<lambda>_.
     validate_budgets (limits R)))"

text \<open>What is read while the build is pinned: the ranked documents and their sections.\<close>

definition retrieve :: "engine \<Rightarrow> string \<Rightarrow> dict \<Rightarrow> (dict \<times> nat \<times> candidate list) res" where
  "retrieve G question manifest =
     bindE (execute_query_for_manifest G manifest ''context''
        [(''question'', question), (''limit'', ''25'')]) (\<lambda>retrieval.
     bindE (didx manifest ''_database_path'') (\<lambda>p.
     bindE (open_reader G (text_of p)) (\<lambda>run.
     bindE (section_bodies run) (\<lambda>bodies.
     bindE (candidate_sections (list_of (dget retrieval ''rows'')) bodies) (\<lambda>cs.
     Inr (manifest, length (list_of (dget retrieval ''rows'')), cs))))))"

definition is_query_error :: "exn \<Rightarrow> bool" where
  "is_query_error e = (case e of QueryError m \<Rightarrow> True | _ \<Rightarrow> False)"

definition compile_context ::
  "engine \<Rightarrow> (string \<Rightarrow> string) \<Rightarrow> path \<Rightarrow> request \<Rightarrow> json \<Rightarrow> dict wprog" where
  "compile_context G sha data R run_id =
     bindM (liftM (check_request R)) (\<lambda>_.
     bindM (catchM
        (pinned_build_manifest sha data run_id
          (\<lambda>manifest. liftM (retrieve G (retrieval_question (asked R)) manifest)))
        (\<lambda>e. if is_query_error e then Some (raiseM (ContextCompilerError (exn_text e))) else None))
       (\<lambda>(manifest, retrieved, cs).
     bindM (liftM (select_evidence (limits R) (retrieval_question (asked R)) cs)) (\<lambda>S.
     liftM (bundle_of R manifest retrieved cs S))))"

definition write_bundle :: "dict \<Rightarrow> path \<Rightarrow> unit wprog" where
  "write_bundle bundled output =
     bindM (make_dirs (butlast output)) (\<lambda>_. put_file output (dumps_indent (JObj bundled)))"

end
