(* ===== verification/QueryProps.thy ===== *)
theory QueryProps
  imports ContextCompiler "HOL-Library.Multiset"
begin

text \<open>
  What the queries promise: the reachability search finds exactly the documents joined to its root,
  and the ranking of a question keeps to its limit and to current guidance.
\<close>

section \<open>The search\<close>

definition edge_relation :: "edge_map \<Rightarrow> (json \<times> json) set" where
  "edge_relation m = {(x, y). y \<in> set (edges_from m x)}"

lemma edge_relation_iff [simp]: "(x, y) \<in> edge_relation m \<longleftrightarrow> y \<in> set (edges_from m x)"
  by (simp add: edge_relation_def)

lemma closed_rtrancl:
  assumes "(x, y) \<in> R\<^sup>*" "x \<in> A" "\<And>a b. a \<in> A \<Longrightarrow> (a, b) \<in> R \<Longrightarrow> b \<in> A"
  shows "y \<in> A"
  using assms by (induction rule: rtrancl_induct) auto

lemma search_set:
  assumes "set pending \<subseteq> set reached"
    and "\<And>x y. x \<in> set reached - set pending \<Longrightarrow> (x, y) \<in> edge_relation m \<Longrightarrow> y \<in> set reached"
  shows "set (search m reached pending) = (edge_relation m)\<^sup>* `` set reached"
  using assms
proof (induction m reached pending rule: search.induct)
  case (1 m reached)
  have "y \<in> set reached" if "x \<in> set reached" "(x, y) \<in> (edge_relation m)\<^sup>*" for x y
    using that(2,1) by (rule closed_rtrancl) (use 1 in simp)
  then have "(edge_relation m)\<^sup>* `` set reached = set reached" by blast
  then show ?case by (simp only: search.simps)
next
  case (2 m reached p pending)
  obtain fresh where fresh:
    "fold visit (edges_from m p) (reached, pending) = (reached @ fresh, pending @ fresh)"
    "set fresh = set (edges_from m p) - set reached"
    using fold_visit [of "edges_from m p" reached pending] by blast
  have next_step: "search m reached (p # pending) = search m (reached @ fresh) (pending @ fresh)"
    by (simp add: fresh(1))
  have "set (search m (reached @ fresh) (pending @ fresh)) = (edge_relation m)\<^sup>* `` set (reached @ fresh)"
  proof (rule 2(1) [OF fresh(1) [symmetric] refl])
    show "set (pending @ fresh) \<subseteq> set (reached @ fresh)" using 2(2) by auto
    fix x y assume x: "x \<in> set (reached @ fresh) - set (pending @ fresh)" "(x, y) \<in> edge_relation m"
    show "y \<in> set (reached @ fresh)"
    proof (cases "x = p")
      case True
      with x(2) fresh(2) show ?thesis by auto
    next
      case False
      with x(1) have "x \<in> set reached - set (p # pending)" by auto
      with 2(3) x(2) show ?thesis by auto
    qed
  qed
  also have "\<dots> = (edge_relation m)\<^sup>* `` set reached"
  proof -
    have "p \<in> set reached" using 2(2) by simp
    have "set fresh \<subseteq> (edge_relation m)\<^sup>* `` set reached"
    proof
      fix y assume "y \<in> set fresh"
      with fresh(2) have "(p, y) \<in> edge_relation m" by simp
      then have "(p, y) \<in> (edge_relation m)\<^sup>*" by (rule r_into_rtrancl)
      with \<open>p \<in> set reached\<close> show "y \<in> (edge_relation m)\<^sup>* `` set reached" by (rule ImageI [rotated])
    qed
    then have "(edge_relation m)\<^sup>* `` set fresh \<subseteq> (edge_relation m)\<^sup>* `` ((edge_relation m)\<^sup>* `` set reached)"
      by (rule Image_mono [OF subset_refl])
    also have "\<dots> = (edge_relation m)\<^sup>* `` set reached"
      by (simp only: relcomp_Image [symmetric] rtrancl_idemp_self_comp)
    finally show ?thesis by (simp only: set_append Image_Un Un_absorb2)
  qed
  finally show ?case by (simp only: next_step)
qed

lemma fold_visit_distinct:
  "distinct reached \<Longrightarrow> distinct (fst (fold visit ts (reached, pending)))"
proof (induction ts arbitrary: reached pending)
  case (Cons t ts)
  then show ?case by (cases "t \<in> set reached") (simp_all add: visit_def)
qed simp

lemma search_distinct: "distinct reached \<Longrightarrow> distinct (search m reached pending)"
proof (induction m reached pending rule: search.induct)
  case (2 m reached p pending)
  obtain r q where rq: "fold visit (edges_from m p) (reached, pending) = (r, q)" by fastforce
  with fold_visit_distinct [OF 2(2), of "edges_from m p" pending] have "distinct r" by simp
  with 2(1) [OF rq [symmetric] refl] rq show ?case by simp
qed simp

declare search.simps [simp del]

section \<open>The edges of the links\<close>

definition link_relation :: "dict list \<Rightarrow> (json \<times> json) set" where
  "link_relation ls = {(link_source l, link_target l) | l. l \<in> set ls \<and> followed l}"

definition arranges :: "engine \<Rightarrow> bool" where
  "arranges G \<longleftrightarrow> (\<forall>xs. mset (set_order G xs) = mset xs)"

lemma arranges_props:
  assumes "arranges G"
  shows "set (set_order G xs) = set xs" "distinct (set_order G xs) \<longleftrightarrow> distinct xs"
proof -
  have same: "mset (set_order G xs) = mset xs" using assms by (simp add: arranges_def)
  show "set (set_order G xs) = set xs" using same by (rule mset_eq_setD)
  show "distinct (set_order G xs) \<longleftrightarrow> distinct xs" using same by (rule mset_eq_imp_distinct_iff)
qed

lemma edges_from_add:
  "set (edges_from (add_edge s t m) x) = (if x = s then insert t (set (edges_from m s)) else set (edges_from m x))"
proof -
  have "edges_from (add_edge s t m) x =
      (if x = s then (if t \<in> set (edges_from m s) then edges_from m s else edges_from m s @ [t]) else edges_from m x)"
    by (cases "map_of m s") (simp_all add: add_edge_def edges_from_def AList.update_conv' Let_def)
  then show ?thesis by auto
qed

lemma edge_relation_add: "edge_relation (add_edge s t m) = insert (s, t) (edge_relation m)"
  by (auto simp: edge_relation_def edges_from_add split: if_splits)

lemma edge_relation_fold:
  "edge_relation (foldl (\<lambda>m l. add_edge (link_source l) (link_target l) m) m ls)
     = edge_relation m \<union> {(link_source l, link_target l) | l. l \<in> set ls}"
proof (induction ls arbitrary: m)
  case (Cons l ls)
  show ?case by (simp only: foldl_Cons Cons edge_relation_add) auto
qed auto

lemma map_of_arranged: "map_of (map (\<lambda>(s, ts). (s, f ts)) m) x = map_option f (map_of m x)"
  by (induction m) auto

lemma link_edges_relation:
  assumes "arranges G"
  shows "edge_relation (link_edges G ls) = link_relation ls"
proof -
  let ?m = "foldl (\<lambda>m l. add_edge (link_source l) (link_target l) m) [] (filter followed ls)"
  have "edge_relation (link_edges G ls) = edge_relation ?m"
    by (auto simp: link_edges_def edges_from_def map_of_arranged arranges_props [OF assms] split: option.splits)
  moreover have "edge_relation ([] :: edge_map) = {}" by (auto simp: edges_from_def)
  ultimately show ?thesis by (simp add: edge_relation_fold link_relation_def)
qed

section \<open>Rows by their identifiers and paths\<close>

lemma update_fresh: "k \<notin> fst ` set m \<Longrightarrow> AList.update k v m = m @ [(k, v)]"
  by (induction m) auto

lemma foldl_update_fresh:
  assumes "distinct (map key rows)" "fst ` set m \<inter> key ` set rows = {}"
  shows "foldl (\<lambda>m r. AList.update (key r) (val r) m) m rows = m @ map (\<lambda>r. (key r, val r)) rows"
  using assms
proof (induction rows arbitrary: m)
  case (Cons r rows)
  have "AList.update (key r) (val r) m = m @ [(key r, val r)]"
    using Cons.prems by (intro update_fresh) auto
  moreover have "fst ` set (m @ [(key r, val r)]) \<inter> key ` set rows = {}" using Cons.prems by auto
  ultimately show ?case using Cons.IH [of "m @ [(key r, val r)]"] Cons.prems(1) by simp
qed simp

lemma keyed_distinct:
  assumes "distinct (map key rows)"
  shows "keyed key val rows = map (\<lambda>r. (key r, val r)) rows"
  using foldl_update_fresh [OF assms, of "[]" val] by (simp add: keyed_def)

lemma map_of_keyed:
  assumes "distinct (map key rows)" "r \<in> set rows"
  shows "map_of (keyed key val rows) (key r) = Some (val r)"
  using assms by (auto simp: keyed_distinct comp_def intro!: map_of_is_SomeI)

lemma present_simps:
  "present m [] = []"
  "present m (i # ids) = (case map_of m i of None \<Rightarrow> present m ids | Some r \<Rightarrow> r # present m ids)"
  by (auto simp: present_def map_filter_def split: option.splits)

lemma present_rows:
  assumes "distinct (map doc_id rows)" "distinct ids"
  shows "mset (present (keyed doc_id (\<lambda>r. r) rows) ids) = mset (filter (\<lambda>r. doc_id r \<in> set ids) rows)"
proof -
  let ?m = "keyed doc_id (\<lambda>r. r) rows"
  have some: "map_of ?m i = Some r \<longleftrightarrow> r \<in> set rows \<and> doc_id r = i" for i r
    using assms(1) by (auto simp: keyed_distinct comp_def dest!: map_of_SomeD intro!: map_of_is_SomeI)
  have "distinct (map doc_id (present ?m ids)) \<and> set (present ?m ids) = {r \<in> set rows. doc_id r \<in> set ids}"
    using assms(2)
  proof (induction ids)
    case (Cons i ids)
    show ?case
    proof (cases "map_of ?m i")
      case None
      have "\<forall>r \<in> set rows. doc_id r \<noteq> i"
      proof (intro ballI notI)
        fix r assume "r \<in> set rows" "doc_id r = i"
        then have "map_of ?m i = Some r" using some by simp
        with None show False by simp
      qed
      with None Cons show ?thesis by (auto simp: present_simps)
    next
      case (Some r)
      then have r: "r \<in> set rows" "doc_id r = i" using some by simp_all
      have only: "q = r" if "q \<in> set rows" "doc_id q = i" for q
        using some [of i q] that Some by simp
      have rest: "distinct (map doc_id (present ?m ids))"
        "set (present ?m ids) = {q \<in> set rows. doc_id q \<in> set ids}" using Cons by simp_all
      have "doc_id r \<notin> doc_id ` set (present ?m ids)"
      proof
        assume "doc_id r \<in> doc_id ` set (present ?m ids)"
        then have "doc_id r \<in> set ids" unfolding rest(2) by force
        with r(2) Cons.prems show False by simp
      qed
      moreover have "insert r (set (present ?m ids)) = {q \<in> set rows. doc_id q \<in> set (i # ids)}"
      proof (rule set_eqI)
        fix q
        have "q = r \<longleftrightarrow> q \<in> set rows \<and> doc_id q = i" using only [of q] r by blast
        then show "q \<in> insert r (set (present ?m ids)) \<longleftrightarrow> q \<in> {q \<in> set rows. doc_id q \<in> set (i # ids)}"
          unfolding rest(2) by (simp only: insert_iff mem_Collect_eq list.set) blast
      qed
      ultimately show ?thesis using rest(1) by (simp add: present_simps Some)
    qed
  qed (simp add: present_simps)
  moreover have "distinct rows" using assms(1) by (simp add: distinct_map)
  ultimately show ?thesis by (intro set_eq_iff_mset_eq_distinct [THEN iffD1]) (auto simp: distinct_map)
qed

definition path_of :: "dict \<Rightarrow> string" where
  "path_of r = casefold (str_of (dget r ''source_path''))"

definition has_path :: "dict \<Rightarrow> bool" where
  "has_path r \<longleftrightarrow> is_str (dget r ''source_path'')"

lemma path_key_run: "has_path r \<Longrightarrow> path_key r = Inr (path_of r, r)"
  by (cases "dget r ''source_path''") (simp_all add: has_path_def path_key_def folded_def path_of_def)

lemma mapE_map: "(\<And>x. x \<in> set xs \<Longrightarrow> f x = Inr (g x)) \<Longrightarrow> mapE f xs = Inr (map g xs)"
  by (induction xs) auto

lemma sort_key_pairs: "map snd (sort_key fst (map (\<lambda>r. (f r, r)) rows)) = sort_key f rows"
proof -
  have insert: "insort_key fst (f x, x) (map (\<lambda>r. (f r, r)) ys) = map (\<lambda>r. (f r, r)) (insort_key f x ys)" for x ys
    by (induction ys) auto
  have "sort_key fst (map (\<lambda>r. (f r, r)) rows) = map (\<lambda>r. (f r, r)) (sort_key f rows)"
    by (induction rows) (simp_all add: insert)
  then show ?thesis by (simp add: comp_def)
qed

lemma by_source_path_run:
  assumes "\<forall>r \<in> set rows. has_path r"
  shows "by_source_path rows = Inr (sort_key path_of rows)"
  using mapE_map [of rows path_key "\<lambda>r. (path_of r, r)"] assms
  by (simp add: by_source_path_def path_key_run sort_key_pairs)

text \<open>Rows with different paths have one sorted order, whatever order they came in.\<close>

lemma by_source_path_same:
  assumes "mset xs = mset ys" "\<forall>r \<in> set ys. has_path r" "inj_on path_of (set ys)"
  shows "by_source_path xs = Inr (sort_key path_of ys)"
proof -
  have same: "set xs = set ys" using assms(1) by (rule mset_eq_setD)
  have "sort_key path_of xs = sort_key path_of ys"
    by (rule sort_key_inj_key_eq) (use assms same in auto)
  then show ?thesis using by_source_path_run [of xs] assms(2) same by simp
qed

section \<open>What the queries return\<close>

text \<open>C8: \<open>reachable-from\<close> returns exactly the sources that a chain of resolved links joins to the
  one titled source, that source included, sorted by case-folded path: the search over sets and a
  queue ends, misses nothing, and its answer does not depend on the order of Python's sets.\<close>

theorem reachable_from_exact:
  assumes "arranges G" "title \<noteq> []" "read_sources run = Inr sources" "read_links run = Inr ls"
    and "the_titled title sources = Inr root"
    and "distinct (map doc_id sources)" "\<forall>s \<in> set sources. has_path s" "inj_on path_of (set sources)"
  shows "reachable_from G run [(''title'', title)] = Inr (query_result
    (sort_key path_of (filter (\<lambda>s. (doc_id root, doc_id s) \<in> (link_relation ls)\<^sup>*) sources)) None)"
proof -
  let ?reached = "search (link_edges G ls) [doc_id root] [doc_id root]"
  have set: "set ?reached = (link_relation ls)\<^sup>* `` {doc_id root}"
    using search_set [of "[doc_id root]" "[doc_id root]" "link_edges G ls"]
    by (simp add: link_edges_relation [OF assms(1)])
  have "mset (present (keyed doc_id (\<lambda>r. r) sources) (set_order G ?reached))
      = mset (filter (\<lambda>s. doc_id s \<in> set (set_order G ?reached)) sources)"
    by (rule present_rows [OF assms(6)]) (simp add: arranges_props [OF assms(1)] search_distinct)
  also have "filter (\<lambda>s. doc_id s \<in> set (set_order G ?reached)) sources
      = filter (\<lambda>s. (doc_id root, doc_id s) \<in> (link_relation ls)\<^sup>*) sources"
    by (simp add: arranges_props [OF assms(1)] set)
  finally have same: "mset (present (keyed doc_id (\<lambda>r. r) sources) (set_order G ?reached))
    = mset (filter (\<lambda>s. (doc_id root, doc_id s) \<in> (link_relation ls)\<^sup>*) sources)" .
  obtain c t where "title = c # t" using assms(2) by (cases title) auto
  then have "required_param [(''title'', title)] ''reachable-from'' ''title'' = Inr title"
    by (simp add: required_param_def)
  moreover have "by_source_path (present (keyed doc_id (\<lambda>r. r) sources) (set_order G ?reached))
    = Inr (sort_key path_of (filter (\<lambda>s. (doc_id root, doc_id s) \<in> (link_relation ls)\<^sup>*) sources))"
    by (rule by_source_path_same [OF same]) (use assms(7,8) in \<open>auto intro: inj_on_subset\<close>)
  ultimately show ?thesis by (simp add: reachable_from_def assms(3,4,5) Let_def)
qed

text \<open>Three notes, the first links to the second and the second to the third; a fourth stands alone.\<close>

definition sample_reader :: reader where
  "sample_reader q =
     (if q = sources_query then Inr
        [[JStr ''a'', JStr ''Knowledge/A.md'', JStr ''knowledge'', JStr ''Start''],
         [JStr ''b'', JStr ''Knowledge/b.md'', JStr ''knowledge'', JStr ''Backups''],
         [JStr ''c'', JStr ''Knowledge/C.md'', JStr ''knowledge'', JStr ''Clusters''],
         [JStr ''d'', JStr ''Knowledge/d.md'', JStr ''knowledge'', JStr ''Old notes'']]
      else if q = links_query then Inr
        [[JStr ''a'', JInt 0, JStr ''internal'', JStr ''Backups'', JStr ''resolved'', JStr ''b'', JStr ''Knowledge/b.md''],
         [JStr ''b'', JInt 0, JStr ''internal'', JStr ''Clusters'', JStr ''resolved'', JStr ''c'', JStr ''Knowledge/C.md''],
         [JStr ''a'', JInt 1, JStr ''internal'', JStr ''Nothing'', JStr ''unresolved'', JNull, JNull]]
      else if q = documents_query then Inr
        [[JStr ''a'', JStr ''A.md'', JStr ''Run'', JStr ''runbook'', JStr ''current'', JStr ''canonical''],
         [JStr ''d'', JStr ''D.md'', JStr ''Run'', JStr ''plan'', JStr ''historical'', JStr ''supporting'']]
      else if q = content_query then Inr [[JStr ''a'', JStr ''run'']]
      else if q = sections_query then Inr [[JStr ''a'', JInt 0, JNull, JStr ''run'']]
      else if q = bodies_query then Inr [[JStr ''a'', JInt 0, JStr ''run'']]
      else Inr [])"

definition sample_engine :: engine where
  "sample_engine = \<lparr>open_reader = (\<lambda>p. Inr sample_reader), set_order = rev\<rparr>"

definition sample_sources :: "dict list" where
  "sample_sources =
     [zip source_columns [JStr ''a'', JStr ''Knowledge/A.md'', JStr ''knowledge'', JStr ''Start''],
      zip source_columns [JStr ''b'', JStr ''Knowledge/b.md'', JStr ''knowledge'', JStr ''Backups''],
      zip source_columns [JStr ''c'', JStr ''Knowledge/C.md'', JStr ''knowledge'', JStr ''Clusters''],
      zip source_columns [JStr ''d'', JStr ''Knowledge/d.md'', JStr ''knowledge'', JStr ''Old notes'']]"

definition sample_links :: "dict list" where
  "sample_links = map (zip link_columns)
     [[JStr ''a'', JInt 0, JStr ''internal'', JStr ''Backups'', JStr ''resolved'', JStr ''b'', JStr ''Knowledge/b.md''],
      [JStr ''b'', JInt 0, JStr ''internal'', JStr ''Clusters'', JStr ''resolved'', JStr ''c'', JStr ''Knowledge/C.md''],
      [JStr ''a'', JInt 1, JStr ''internal'', JStr ''Nothing'', JStr ''unresolved'', JNull, JNull]]"

lemma sample_reads:
  "read_sources sample_reader = Inr sample_sources"
  "read_links sample_reader = Inr sample_links"
  "the_titled ''start'' sample_sources = Inr (hd sample_sources)"
  by code_simp+

lemma sample_arranges: "arranges sample_engine"
  by (simp add: arranges_def sample_engine_def)

theorem reachable_from_exact_witness:
  "reachable_from sample_engine sample_reader [(''title'', ''start'')] = Inr (query_result
    (sort_key path_of (filter (\<lambda>s. (doc_id (hd sample_sources), doc_id s) \<in> (link_relation sample_links)\<^sup>*)
      sample_sources)) None)"
proof -
  have ids: "map doc_id sample_sources = [JStr ''a'', JStr ''b'', JStr ''c'', JStr ''d'']" by code_simp
  have "list_all has_path sample_sources" by code_simp
  then have paths: "\<forall>s \<in> set sample_sources. has_path s" by (simp add: list_all_iff)
  have "distinct (map path_of sample_sources)" by code_simp
  then have inj: "inj_on path_of (set sample_sources)" by (simp add: distinct_map)
  show ?thesis
    by (rule reachable_from_exact [OF sample_arranges _ sample_reads _ paths inj]) (simp_all add: ids)
qed

definition row_score :: "dict \<Rightarrow> int" where
  "row_score r = (case dget r ''score'' of JInt n \<Rightarrow> n | _ \<Rightarrow> 0)"

text \<open>A ranked row is a document of the build, of a status that guides, that holds one of the terms.\<close>

definition row_of :: "dict \<Rightarrow> dict \<Rightarrow> bool" where
  "row_of d r \<longleftrightarrow> (\<forall>f \<in> set document_columns. dget r f = dget d f)"

definition guides :: "dict \<Rightarrow> bool" where
  "guides d \<longleftrightarrow> in_strs (dget d ''status'') FORBIDDEN_GUIDANCE_STATUSES = Inr False"

definition mentions_term :: "string list \<Rightarrow> (json \<times> json) list \<Rightarrow> dict \<Rightarrow> bool" where
  "mentions_term ts contents d \<longleftrightarrow>
     (\<exists>t \<in> set ts. contains (casefold (str_of (dget d ''title''))) t
        \<or> contains (casefold (str_of (case map_of contents (doc_id d) of None \<Rightarrow> JStr [] | Some v \<Rightarrow> v))) t)"

lemma folded_Inr: "folded v = Inr s \<longleftrightarrow> (\<exists>t. v = JStr t \<and> s = casefold t)"
  by (cases v) (auto simp: folded_def)

lemma rank_document_cases:
  assumes "rank_document ts contents secs d = Inr found" "(k, r) \<in> set found"
  obtains score components matched evidence title raw where
    "guides d" "r = ranked_row d score components matched evidence" "fst k = - score"
    "dget d ''title'' = JStr title" "(case map_of contents (doc_id d) of None \<Rightarrow> JStr [] | Some v \<Rightarrow> v) = JStr raw"
    "filter (\<lambda>t. contains (casefold title) t \<or> contains (casefold raw) t) ts \<noteq> []"
proof -
  obtain x where x: "in_strs (dget d ''status'') FORBIDDEN_GUIDANCE_STATUSES = Inr x"
    using assms(1) unfolding rank_document_def by (rule bindE_InrE)
  with assms have "\<not> x" by (auto simp: rank_document_def)
  with x have guided: "in_strs (dget d ''status'') FORBIDDEN_GUIDANCE_STATUSES = Inr False" by simp
  obtain u v where "folded (dget d ''title'') = Inr u"
    "folded (case map_of contents (doc_id d) of None \<Rightarrow> JStr [] | Some v \<Rightarrow> v) = Inr v"
    using assms(1) by (auto simp: rank_document_def guided bindE_eq_Inr)
  then obtain title raw where t: "in_strs (dget d ''status'') FORBIDDEN_GUIDANCE_STATUSES = Inr False"
    "dget d ''title'' = JStr title" "(case map_of contents (doc_id d) of None \<Rightarrow> JStr [] | Some v \<Rightarrow> v) = JStr raw"
    using guided unfolding folded_Inr by blast
  let ?m = "filter (\<lambda>t. contains (casefold title) t \<or> contains (casefold raw) t) ts"
  have ne: "?m \<noteq> []"
    using assms by (auto simp: rank_document_def t folded_def)
  obtain es n p where es: "evidence_for ts secs d = Inr es"
    "intent_score (list_ex (\<lambda>t. t \<in> set CURRENT_INTENT_TERMS) ts) d = Inr n"
    "folded (dget d ''source_path'') = Inr p"
    using assms(1) by (auto simp: rank_document_def t folded_def [of "JStr _"] ne bindE_eq_Inr Let_def)
  obtain score row where s: "score_document ts (casefold title) n es ?m d = (score, row)" by fastforce
  have found: "found = [((- score, p), row)]"
    using assms(1) by (simp add: rank_document_def t folded_def [of "JStr _"] ne es s Let_def)
  show ?thesis
    by (rule that [OF _ _ _ t(2,3) ne, of score])
      (use assms(2) found s t(1) in \<open>auto simp: guides_def score_document_def Let_def\<close>)
qed

lemma rank_document_row:
  assumes "rank_document ts contents secs d = Inr found" "(k, r) \<in> set found"
  shows "fst k = - row_score r \<and> row_of d r \<and> guides d \<and> mentions_term ts contents d"
  using assms
proof (cases rule: rank_document_cases)
  case (1 score components matched evidence title raw)
  then have "fst k = - row_score r" "row_of d r"
    by (auto simp: row_score_def row_of_def ranked_row_def dget_dput document_columns_def)
  moreover have "mentions_term ts contents d"
    using 1(4,5,6) by (auto simp: mentions_term_def filter_empty_conv)
  ultimately show ?thesis using 1(1) by simp
qed

lemma mapE_source: "mapE f xs = Inr ys \<Longrightarrow> y \<in> set ys \<Longrightarrow> \<exists>x \<in> set xs. f x = Inr y"
  by (induction xs arbitrary: ys) (auto split: sum.splits)

lemma ranked_documents_rows:
  assumes "ranked_documents run ts = Inr ranked" "read_documents run = Inr docs" "read_content run = Inr contents"
  shows "sorted (map (\<lambda>r. - row_score r) ranked)
    \<and> (\<forall>r \<in> set ranked. \<exists>d \<in> set docs. row_of d r \<and> guides d \<and> mentions_term ts contents d)"
proof -
  obtain secs found where f: "mapE (rank_document ts contents secs) docs = Inr found"
    "ranked = map snd (sort_key fst (concat found))"
    using assms by (auto simp: ranked_documents_def bindE_eq_Inr)
  let ?ps = "sort_key fst (concat found)"
  have each: "fst k = - row_score r \<and> (\<exists>d \<in> set docs. row_of d r \<and> guides d \<and> mentions_term ts contents d)"
    if "(k, r) \<in> set ?ps" for k r
  proof -
    from that obtain xs where "xs \<in> set found" "(k, r) \<in> set xs" by auto
    moreover from this(1) obtain d where "d \<in> set docs" "rank_document ts contents secs d = Inr xs"
      using mapE_source [OF f(1)] by blast
    ultimately show ?thesis using rank_document_row by blast
  qed
  have "sorted (map fst ?ps)" by simp
  then have "sorted (map (\<lambda>p. fst (fst p)) ?ps)"
    by (simp add: sorted_map sorted_wrt_iff_nth_less less_eq_prod_def) (metis less_le_not_le order.refl)
  moreover have "map (\<lambda>p. fst (fst p)) ?ps = map (\<lambda>r. - row_score r) ranked"
    using each by (auto simp: f(2))
  moreover have "\<exists>d \<in> set docs. row_of d r \<and> guides d \<and> mentions_term ts contents d" if r: "r \<in> set ranked" for r
  proof -
    from r have "r \<in> snd ` set ?ps" unfolding f(2) by simp
    then obtain p where "p \<in> set ?ps" "r = snd p" by blast
    with each [of "fst p" r] show ?thesis by simp
  qed
  ultimately show ?thesis by simp
qed

text \<open>C17: a context answer keeps to its limit and to current guidance: at most the asked number of
  rows, by falling score, and every row is a document of the build whose status is not historical,
  superseded or abandoned and whose title or text has one of the searched terms.\<close>

theorem context_rows_guided:
  assumes "context_query run ps = Inr res" "read_documents run = Inr docs" "read_content run = Inr contents"
    and "map_of ps ''question'' = Some question"
  shows "\<exists>rows n. dget res ''rows'' = JList (map JObj rows) \<and> context_limit ps = Inr n
    \<and> int (length rows) \<le> n \<and> sorted (map (\<lambda>r. - row_score r) rows)
    \<and> (\<forall>r \<in> set rows. \<exists>d \<in> set docs. row_of d r \<and> guides d \<and> mentions_term (terms_of question) contents d)"
proof -
  obtain q where q: "required_param ps ''context'' ''question'' = Inr q"
    using assms(1) unfolding context_query_def by (rule bindE_InrE)
  with assms(4) have "q = question" by (auto simp: required_param_def split: list.splits)
  note run = assms(1) [unfolded context_query_def q \<open>q = question\<close> bindE_simps Let_def]
  from run obtain n where n: "context_limit ps = Inr n" by (rule bindE_InrE)
  obtain ranked where ranked: "ranked_documents run (terms_of question) = Inr ranked"
    using run unfolding n bindE_simps by (auto simp only: bindE_raiseIf elim!: bindE_InrE)
  have "dget res ''rows'' = JList (map JObj (take (nat n) ranked))"
    using run unfolding n ranked bindE_simps bindE_raiseIf by (auto simp: query_result_def dget_def)
  note r = n ranked this
  have "0 < n" using r(1) by (auto simp: context_limit_def split: option.splits if_splits)
  then have "int (length (take (nat n) ranked)) \<le> n" by simp
  moreover have "sorted (map (\<lambda>r. - row_score r) (take (nat n) ranked))"
    using ranked_documents_rows [OF r(2) assms(2,3)] by (simp add: take_map [symmetric] sorted_wrt_take)
  moreover have "\<forall>r \<in> set (take (nat n) ranked). \<exists>d \<in> set docs. row_of d r \<and> guides d
      \<and> mentions_term (terms_of question) contents d"
    using ranked_documents_rows [OF r(2) assms(2,3)] by (meson in_set_takeD)
  ultimately show ?thesis using r(1,3) by blast
qed

definition sample_params :: params where
  "sample_params = [(''question'', ''run''), (''limit'', ''1'')]"

definition sample_answer :: dict where
  "sample_answer = (case context_query sample_reader sample_params of Inr r \<Rightarrow> r | Inl e \<Rightarrow> [])"

definition sample_documents :: "dict list" where
  "sample_documents = (case read_documents sample_reader of Inr r \<Rightarrow> r | Inl e \<Rightarrow> [])"

definition sample_contents :: "(json \<times> json) list" where
  "sample_contents = (case read_content sample_reader of Inr r \<Rightarrow> r | Inl e \<Rightarrow> [])"

lemma sample_answered: "\<exists>r. context_query sample_reader sample_params = Inr r"
proof -
  have "terms_of ''run'' = [''run'']" by code_simp
  moreover have "\<not> isl (ranked_documents sample_reader [''run''])" by code_simp
  then obtain ranked where "ranked_documents sample_reader [''run''] = Inr ranked"
    by (cases "ranked_documents sample_reader [''run'']") simp_all
  moreover have "context_limit sample_params = Inr 1" by code_simp
  ultimately show ?thesis
    by (simp add: context_query_def required_param_def sample_params_def raiseIf_def)
qed

theorem context_rows_guided_witness:
  "\<exists>rows n. dget sample_answer ''rows'' = JList (map JObj rows)
    \<and> context_limit sample_params = Inr n
    \<and> int (length rows) \<le> n \<and> sorted (map (\<lambda>r. - row_score r) rows)
    \<and> (\<forall>r \<in> set rows. \<exists>d \<in> set sample_documents. row_of d r \<and> guides d
        \<and> mentions_term (terms_of ''run'') sample_contents d)"
proof (rule context_rows_guided)
  show "context_query sample_reader sample_params = Inr sample_answer"
    using sample_answered by (auto simp: sample_answer_def)
  show "read_documents sample_reader = Inr sample_documents" by code_simp
  show "read_content sample_reader = Inr sample_contents" by code_simp
qed (simp add: sample_params_def)

end
