(* ===== verification/ContextProps.thy ===== *)
theory ContextProps
  imports QueryProps RetentionSample
begin

text \<open>
  What a read promises: the build it reads is pinned until it ends, without the retention lock, and a
  compiled bundle stays within the budgets of its request.
\<close>

section \<open>Locks during a read\<close>

definition same_holders :: "world \<Rightarrow> world \<Rightarrow> bool" where
  "same_holders w w' \<longleftrightarrow> holders w' = holders w"

interpretation same_holders: step_preorder same_holders
  by unfold_locales (simp_all add: same_holders_def)

lemma same_holders_durable: "keeps same_holders (durable u)"
  by (auto simp: keeps_def same_holders_def durable_def split: list.splits fault.splits)

lemma same_holders_put: "keeps same_holders (put_file p c)"
  using same_holders_durable by (auto simp: keeps_def put_file_def same_holders_def)

lemma same_holders_dirs: "keeps same_holders (make_dirs p)"
  using same_holders_durable by (auto simp: keeps_def make_dirs_def same_holders_def split: if_splits)

lemma same_holders_open:
  "keeps same_holders (open_pin p)" "keeps same_holders (open_lock p create)"
  using same_holders_put [of p "[]"]
  by (auto simp: keeps_def open_pin_def open_lock_def same_holders_def split: option.splits node.splits if_splits)

lemma acquire_Inr: "acquire p shared blocking e w = (Inr u, w') \<longleftrightarrow>
    \<not> conflicts w p shared \<and> w' = w\<lparr>holders := (p, shared) # holders w\<rparr>"
  by (auto simp: acquire_def)

lemma finallyM_Inr: "finallyM m f w = (Inr x, w') \<longleftrightarrow> (\<exists>u. m w = (Inr x, u) \<and> w' = f u)"
  by (auto simp: finallyM_def Let_def split: prod.splits)

lemma shared_lock_entered:
  assumes "data_lock data name True True True False body w = (Inr x, w')"
  obtains w0 u where "holders w0 = (data @ [name], True) # holders w" "body w0 = (Inr x, u)"
    "w' = release (data @ [name]) True u"
proof -
  let ?L = "data @ [name]"
  from assms obtain u1 w1 u2 w2 u3 w3 u4 w4 where
    s: "failIf (\<lambda>w. is_symlink w data) (DeploymentError ''deployment data directory must not be a symlink'') w = (Inr u1, w1)"
      "make_dirs data w1 = (Inr u2, w2)" "open_lock ?L True w2 = (Inr u3, w3)"
      "acquire ?L True True (DeploymentError (''another HomeOps operation holds '' @ path_text ?L)) w3 = (Inr u4, w4)"
    and body: "finallyM (bindM (retM ()) (\<lambda>_. body)) (release ?L True) w4 = (Inr x, w')"
    unfolding data_lock_def by (auto simp: bindM_eq_Inr)
  have "w1 = w" using s(1) by (auto simp: failIf_def split: if_splits)
  then have "holders w3 = holders w"
    using keepsD [OF same_holders_dirs s(2)] keepsD [OF same_holders_open(2) s(3)] by (simp add: same_holders_def)
  then have "holders w4 = (?L, True) # holders w" using s(4) by (auto simp: acquire_Inr)
  moreover obtain u where "body w4 = (Inr x, u)" "w' = release ?L True u"
    using body by (auto simp: finallyM_Inr)
  ultimately show thesis by (rule that)
qed

lemma pin_entered:
  assumes "enter_run_pin data run_id w = (Inr p, w')"
  shows "run_pin_path w data run_id = Inr p \<and> holders w' = (p, True) # holders w"
proof -
  from assms obtain u1 w1 u2 w2 u3 w3 where
    s: "run_pin_path w data run_id = Inr p" "make_dirs (butlast p) w = (Inr u1, w1)" "open_pin p w1 = (Inr u2, w2)"
      "acquire p True True (DeploymentError (''run is pinned: '' @ str_of run_id)) w2 = (Inr u3, w3)" "w3 = w'"
    unfolding enter_run_pin_def by (auto simp: bindM_eq_Inr)
  then show ?thesis
    using keepsD [OF same_holders_dirs s(2)] keepsD [OF same_holders_open(1) s(3)]
    by (auto simp: same_holders_def acquire_Inr)
qed

lemma build_manifest_verified:
  assumes "build_manifest sha w data run_id = Inr manifest"
  shows "dget manifest ''result'' = JStr ''verified''"
  using assms
  by (auto simp: build_manifest_def bindE_eq_Inr bindE_raiseIf Let_def dget_dput split: prod.splits)

lemma run_pin_place:
  assumes "run_pin_path w data run_id = Inr p"
  shows "p = data @ [''run-pins'', str_of run_id @ ''.lock'']"
  using assms by (auto simp: run_pin_path_def validate_safe_id_def bindE_eq_Inr bindE_raiseIf split: json.splits if_splits)

text \<open>C7: a read keeps the build it reads: the body of a pinned read runs on the manifest of a verified
  build that was chosen under the shared retention lock; that lock is released again, but the pin of
  the run is held, so nobody can take it exclusively until the read ends and drops it.\<close>

theorem reads_hold_their_pin:
  assumes "pinned_build_manifest sha data run_id body w = (Inr x, w')"
  shows "\<exists>manifest w0 w1 w2 pin.
    holders w0 = (data @ [''retention.lock''], True) # holders w
    \<and> build_manifest sha w0 data run_id = Inr manifest \<and> dget manifest ''result'' = JStr ''verified''
    \<and> pin = data @ [''run-pins'', str_of (dget manifest ''run_id'') @ ''.lock'']
    \<and> body manifest w1 = (Inr x, w2) \<and> holders w1 = (pin, True) # holders w \<and> conflicts w1 pin False
    \<and> w' = release pin True w2"
proof -
  from assms obtain manifest pin w1 where
    locked: "retention_lock data True True True (select_and_pin sha data run_id) w = (Inr (manifest, pin), w1)"
    and body: "finallyM (body manifest) (release pin True) w1 = (Inr x, w')"
    by (auto simp: pinned_build_manifest_def bindM_def catchM_def split: prod.splits sum.splits option.splits if_splits)
  from locked obtain w0 u where w0: "holders w0 = (data @ [''retention.lock''], True) # holders w"
    "select_and_pin sha data run_id w0 = (Inr (manifest, pin), u)" "w1 = release (data @ [''retention.lock'']) True u"
    unfolding retention_lock_def by (rule shared_lock_entered)
  from w0(2) obtain run where m: "build_manifest sha w0 data run_id = Inr manifest" "didx manifest ''run_id'' = Inr run"
    "enter_run_pin data run w0 = (Inr pin, u)"
    unfolding select_and_pin_def by (auto simp: bindM_eq_Inr askM_def)
  have pin: "run_pin_path w0 data run = Inr pin" "holders u = (pin, True) # holders w0"
    using pin_entered [OF m(3)] by simp_all
  have place: "pin = data @ [''run-pins'', str_of run @ ''.lock'']" by (rule run_pin_place [OF pin(1)])
  have run: "dget manifest ''run_id'' = run" using m(2) by (simp add: dget_def)
  have "holders w1 = (pin, True) # holders w"
    using w0(1,3) pin(2) by (simp add: release_def place)
  moreover from this have "conflicts w1 pin False" by (simp add: conflicts_def)
  moreover obtain w2 where "body manifest w1 = (Inr x, w2)" "w' = release pin True w2"
    using body by (auto simp: finallyM_Inr)
  ultimately show ?thesis
    using w0(1) m(1) build_manifest_verified [OF m(1)] place run by blast
qed

section \<open>The selection loop\<close>

definition within :: "budgets \<Rightarrow> candidate list \<Rightarrow> selection \<Rightarrow> bool" where
  "within B cs S \<longleftrightarrow>
     distinct (chosen_documents S)
     \<and> set (chosen_documents S) = (\<lambda>p. doc_id (cand_document (fst p))) ` set (chosen S)
     \<and> int (length (chosen_documents S)) \<le> max_documents B
     \<and> int (length (chosen S)) \<le> max_sections B
     \<and> evidence_chars S = sum_list (map (\<lambda>p. char_count (fst p)) (chosen S))
     \<and> int (evidence_chars S) \<le> max_chars B
     \<and> (\<forall>p \<in> set (chosen S). fst p \<in> set cs \<and> guides (cand_document (fst p)))"

lemma within_omit: "within B cs (omit reason S) = within B cs S"
  by (simp add: within_def omit_def)

lemma within_start: "validate_budgets B = Inr () \<Longrightarrow> within B cs no_selection"
  by (simp add: within_def no_selection_def validate_budgets_def bindE_raiseIf)

lemma within_take:
  assumes "within B cs S" "c \<in> set cs" "guides (cand_document c)"
    and "is_chosen c S \<or> int (length (chosen_documents S)) < max_documents B"
    and "int (length (chosen S)) < max_sections B" "int (evidence_chars S + char_count c) \<le> max_chars B"
  shows "within B cs (take_candidate c why S)"
  using assms unfolding within_def take_candidate_def is_chosen_def by auto

lemma weigh_within:
  assumes "weigh B question c S = Inr S'" "within B cs S" "c \<in> set cs"
  shows "within B cs S'"
proof -
  obtain f where f: "in_strs (dget (cand_document c) ''status'') FORBIDDEN_GUIDANCE_STATUSES = Inr f"
    using assms(1) unfolding weigh_def Let_def by (rule bindE_InrE)
  show ?thesis
  proof (cases f)
    case True
    with assms(1) f have "S' = omit ''forbidden-lifecycle'' S" by (simp add: weigh_def Let_def)
    with assms(2) show ?thesis by (simp add: within_omit)
  next
    case False
    with f have "guides (cand_document c)" by (simp add: guides_def)
    with False assms f show ?thesis
      unfolding weigh_def Let_def f bindE_simps
      by (auto elim!: bindE_InrE simp: within_omit intro!: within_take split: if_splits)
  qed
qed

lemma select_within:
  assumes "select_evidence B question cs = Inr S" "validate_budgets B = Inr ()"
  shows "within B cs S \<and> chosen S \<noteq> []"
proof -
  from assms(1) have S: "foldE (weigh B question) (selection_order cs) no_selection = Inr S" "chosen S \<noteq> []"
    by (auto simp: select_evidence_def bindE_eq_Inr bindE_raiseIf)
  have "within B cs S"
    by (rule foldE_invariant [where P = "within B cs", OF S(1) within_start [OF assms(2)]])
      (auto simp: selection_order_def intro: weigh_within)
  with S(2) show ?thesis by simp
qed

section \<open>The documents of a bundle\<close>

definition grouped :: "(candidate \<times> string list) list \<Rightarrow> (json \<times> entry) list \<Rightarrow> bool" where
  "grouped ps m \<longleftrightarrow>
     distinct (map fst m) \<and> fst ` set m = (\<lambda>p. doc_id (cand_document (fst p))) ` set ps
     \<and> mset (concat (map (\<lambda>x. entry_sections (snd x)) m)) = mset ps
     \<and> (\<forall>x \<in> set m. \<exists>p \<in> set ps. entry_document (snd x) = cand_document (fst p))"

lemma sections_update:
  "mset (concat (map (\<lambda>x. entry_sections (snd x)) (AList.update i e m)))
     + (case map_of m i of None \<Rightarrow> {#} | Some o' \<Rightarrow> mset (entry_sections o'))
   = mset (concat (map (\<lambda>x. entry_sections (snd x)) m)) + mset (entry_sections e)"
  by (induction m) (auto split: option.splits)

lemma in_update: "x \<in> set (AList.update k v m) \<Longrightarrow> x = (k, v) \<or> x \<in> set m"
  by (induction m) (auto split: if_splits)

lemma grouped_add:
  assumes "grouped ps m"
  shows "grouped (ps @ [p]) (add_section p m)"
proof -
  let ?i = "doc_id (cand_document (fst p))"
  define e where "e = (case map_of m ?i of Some e \<Rightarrow> e | None \<Rightarrow> \<lparr>entry_document = cand_document (fst p),
    entry_rank = document_rank (fst p), entry_reasons = snd p, entry_sections = []\<rparr>)"
  define e' where "e' = e\<lparr>entry_reasons := fold add_reason (snd p) (entry_reasons e),
    entry_sections := entry_sections e @ [p]\<rparr>"
  have add: "add_section p m = AList.update ?i e' m"
    by (simp add: add_section_def Let_def e_def e'_def)
  have secs: "mset (concat (map (\<lambda>x. entry_sections (snd x)) (add_section p m))) = mset (ps @ [p])"
    using sections_update [of ?i e' m] assms
    by (cases "map_of m ?i") (simp_all add: add e'_def e_def grouped_def)
  have doc: "entry_document e' = entry_document e" by (simp add: e'_def)
  have from_ps: "\<exists>q \<in> set (ps @ [p]). entry_document (snd x) = cand_document (fst q)"
    if x: "x \<in> set (add_section p m)" for x
  proof -
    from x [unfolded add] have "x = (?i, e') \<or> x \<in> set m" by (rule in_update)
    then show ?thesis
    proof
      assume "x \<in> set m"
      with assms show ?thesis by (auto simp: grouped_def)
    next
      assume x: "x = (?i, e')"
      show ?thesis
      proof (cases "map_of m ?i")
        case None
        with x doc show ?thesis by (simp add: e_def)
      next
        case (Some o')
        then have "(?i, o') \<in> set m" by (rule map_of_SomeD)
        with assms have "\<exists>q \<in> set ps. entry_document o' = cand_document (fst q)" by (force simp: grouped_def)
        with x doc Some show ?thesis by (auto simp: e_def)
      qed
    qed
  qed
  have "distinct (map fst (add_section p m))" "fst ` set (add_section p m) = insert ?i (fst ` set m)"
    using assms by (simp_all add: add grouped_def distinct_update dom_update)
  with assms secs from_ps show ?thesis by (auto simp: grouped_def)
qed

lemma grouped_fold: "grouped qs m \<Longrightarrow> grouped (qs @ ps) (fold add_section ps m)"
proof (induction ps arbitrary: qs m)
  case (Cons p ps)
  from Cons.IH [OF grouped_add [OF Cons.prems]] show ?case by simp
qed simp

lemma concat_perm: "mset xs = mset ys \<Longrightarrow> mset (concat (map f xs)) = mset (concat (map f ys))"
proof -
  have "mset (concat (map f zs)) = sum_mset (image_mset (\<lambda>z. mset (f z)) (mset zs))" for zs
    by (induction zs) simp_all
  then show "mset xs = mset ys \<Longrightarrow> ?thesis" by simp
qed

lemma sum_perm: "mset xs = mset ys \<Longrightarrow> sum_list (map f xs) = sum_list (map f ys)" for f :: "'a \<Rightarrow> nat"
proof -
  have "sum_list (map f zs) = sum_mset (image_mset f (mset zs))" for zs by (induction zs) simp_all
  then show "mset xs = mset ys \<Longrightarrow> ?thesis" by simp
qed

lemma by_document_within:
  assumes "within B cs S" "chosen S \<noteq> []"
  shows "by_document S \<noteq> [] \<and> int (length (by_document S)) \<le> max_documents B
    \<and> int (length (concat (map entry_sections (by_document S)))) \<le> max_sections B
    \<and> int (sum_list (map (\<lambda>p. char_count (fst p)) (concat (map entry_sections (by_document S))))) \<le> max_chars B
    \<and> (\<forall>e \<in> set (by_document S). guides (entry_document e))"
proof -
  let ?m = "fold add_section (chosen S) []"
  have g: "grouped (chosen S) ?m" using grouped_fold [of "[]" "[]" "chosen S"] by (simp add: grouped_def)
  have perm: "mset (by_document S) = mset (map snd ?m)" by (simp add: by_document_def)
  have "mset (concat (map entry_sections (by_document S))) = mset (concat (map (\<lambda>x. entry_sections (snd x)) ?m))"
    using concat_perm [OF perm, of entry_sections] by (simp add: comp_def)
  then have secs: "mset (concat (map entry_sections (by_document S))) = mset (chosen S)"
    using g by (simp add: grouped_def)
  have "length (by_document S) = length ?m" using perm by (metis length_map mset_eq_length)
  also have "\<dots> = card (fst ` set ?m)" using g by (metis distinct_card grouped_def length_map set_map)
  also have "\<dots> = length (chosen_documents S)"
    using g assms(1) by (metis distinct_card grouped_def within_def)
  finally have n: "length (by_document S) = length (chosen_documents S)" .
  have "length (concat (map entry_sections (by_document S))) = length (chosen S)"
    using secs by (rule mset_eq_length)
  moreover have "sum_list (map (\<lambda>p. char_count (fst p)) (concat (map entry_sections (by_document S))))
      = sum_list (map (\<lambda>p. char_count (fst p)) (chosen S))"
    using sum_perm [OF secs] .
  moreover have "guides (entry_document e)" if "e \<in> set (by_document S)" for e
  proof -
    have "set (by_document S) = snd ` set ?m" using perm by (metis mset_eq_setD set_map)
    with that g obtain p where "p \<in> set (chosen S)" "entry_document e = cand_document (fst p)"
      by (auto simp: grouped_def)
    with assms(1) show ?thesis by (simp add: within_def)
  qed
  moreover have "by_document S \<noteq> []"
    using \<open>length (concat (map entry_sections (by_document S))) = length (chosen S)\<close> assms(2) by auto
  ultimately show ?thesis using assms(1) n by (simp add: within_def)
qed

text \<open>C9: a compiled bundle stays within the budgets of its request: it has at least one document, no
  more documents, sections and characters of evidence than asked for, and no document whose status is
  historical, superseded or abandoned.\<close>

theorem bundle_within_budgets:
  assumes "compile_context G sha data R run_id w = (Inr bundled, w')"
  shows "\<exists>entries. dget bundled ''documents'' = JList (map document_entry entries) \<and> entries \<noteq> []
    \<and> int (length entries) \<le> max_documents (limits R)
    \<and> int (length (concat (map entry_sections entries))) \<le> max_sections (limits R)
    \<and> int (sum_list (map (\<lambda>p. char_count (fst p)) (concat (map entry_sections entries)))) \<le> max_chars (limits R)
    \<and> (\<forall>e \<in> set entries. guides (entry_document e))"
proof -
  from assms obtain manifest n cs S where S: "check_request R = Inr ()"
    "select_evidence (limits R) (retrieval_question (asked R)) cs = Inr S"
    "bundle_of R manifest n cs S = Inr bundled"
    by (auto simp: compile_context_def bindM_eq_Inr)
  have "validate_budgets (limits R) = Inr ()"
    using S(1) by (auto simp: check_request_def bindE_raiseIf)
  from select_within [OF S(2) this] have "within (limits R) cs S" "chosen S \<noteq> []" by simp_all
  from by_document_within [OF this]
  have "dget bundled ''documents'' = JList (map document_entry (by_document S)) \<longrightarrow> ?thesis" by blast
  moreover have "dget bundled ''documents'' = JList (map document_entry (by_document S))"
    using S(3) by (auto simp: bundle_of_def Let_def bindE_eq_Inr dget_def)
  ultimately show ?thesis by blast
qed

section \<open>A read of the sample root\<close>

abbreviation read_data :: path where
  "read_data \<equiv> [''r'', ''data'']"

definition read_world :: world where
  "read_world = kept_world\<lparr>holders := [(read_data @ [''retention.lock''], True)]\<rparr>"

lemma read_look: "lstat read_world = lstat kept_view" "file_at read_world = file_at kept_view"
  by (simp_all add: fun_eq_iff lstat_def file_at_def stat_def read_world_def kept_view_def)

lemma read_files:
  "file_at read_world [''r'', ''data'', ''active.json''] = Some (dumps (JObj kept_state))"
  "file_at read_world [''r'', ''data'', ''builds'', ''run-a'', ''manifest.json''] = Some (dumps (JObj kept_build))"
  by (simp_all add: read_look file_at_def stat_def kept_paths)

lemma read_deployment:
  "deployment_for_run a_sha read_world read_data JNull = Inr (JObj kept_record, ''active'', JStr ''run-a'')"
proof -
  have "load_state a_sha read_world read_data True = Inr kept_state"
    using read_document_dumps [OF read_files(1) kept_wf(3)] read_files(1) validate_state_any [OF kept_state_valid]
    by (simp add: load_state_def active_path_def is_file_file_at rewrap_def)
  moreover have "dget kept_state ''current_deployment'' = JObj kept_record" "dget kept_state ''current'' = JStr ''run-a''"
    "dget kept_state ''schema_version'' = JInt DEPLOYMENT_SCHEMA_VERSION"
    by (simp_all add: kept_state_def mk_state_def)
  moreover have "truthy (JObj kept_record)" using valid_record_nonempty [OF kept_record_valid] by simp
  moreover have "validate_safe_id (JStr ''run-a'') f = Inr ''run-a''" for f
    by (simp add: validate_safe_id_def sample_text)
  ultimately show ?thesis
    by (simp add: deployment_for_run_def raiseIf_def schema2_lookup_def kept_record_fields Let_def del: truthy.simps(6))
qed

definition read_manifest_of :: dict where
  "read_manifest_of = (case build_manifest a_sha read_world read_data JNull of Inr m \<Rightarrow> m | Inl e \<Rightarrow> [])"

lemma read_build:
  "build_manifest a_sha read_world read_data JNull = Inr read_manifest_of"
  "didx read_manifest_of ''run_id'' = Inr (JStr ''run-a'')"
  "\<exists>p. didx read_manifest_of ''_database_path'' = Inr p" "\<exists>p. didx read_manifest_of ''_deployment_provenance'' = Inr p"
  "\<exists>p. didx read_manifest_of ''source_fingerprint'' = Inr p" "\<exists>p. didx read_manifest_of ''artifact_fingerprint'' = Inr p"
  "\<exists>p. didx read_manifest_of ''logical_fingerprint'' = Inr p"
proof -
  have doc: "read_document read_world [''r'', ''data'', ''builds'', ''run-a'', ''manifest.json''] = Inr (JObj kept_build)"
    by (rule read_document_dumps [OF read_files(2) kept_wf(2)])
  have links: "\<not> is_symlink read_world [''r'', ''data'', ''builds'']" "\<not> is_symlink read_world [''r'', ''data'', ''builds'', ''run-a'']"
    "\<not> is_symlink read_world [''r'', ''data'', ''builds'', ''run-a'', ''cozo.db'']"
    by (simp_all add: is_symlink_def read_look kept_paths)
  have "matches_deployment kept_build (JObj kept_record) = Inr ()"
    by (simp add: matches_deployment_def manifest_matches_def kept_record_def kept_build_def promo_record_def promo_build_def
        sample_record_def sample_build_def raiseIf_def dput_def dget_def didx_def)
  moreover obtain shown where "provenance a_sha (JObj kept_record) ''active'' (JStr ''run-a'') = Inr shown"
    using kept_record_valid by (simp add: provenance_def validate_deployment_record_obj [THEN iffD2])
  ultimately have m: "build_manifest a_sha read_world read_data JNull =
      Inr (dput (dput kept_build ''_database_path'' (JStr (path_text [''r'', ''data'', ''builds'', ''run-a'', ''cozo.db''])))
        ''_deployment_provenance'' (JObj shown))"
    using read_files(2) links
    by (simp add: build_manifest_def read_deployment rewrap_def is_file_file_at load_manifest_def doc raiseIf_def Let_def)
      (simp add: kept_build_def promo_build_def sample_build_def)
  then show "build_manifest a_sha read_world read_data JNull = Inr read_manifest_of" by (simp add: read_manifest_of_def)
  with m have r: "read_manifest_of = dput (dput kept_build ''_database_path''
      (JStr (path_text [''r'', ''data'', ''builds'', ''run-a'', ''cozo.db'']))) ''_deployment_provenance'' (JObj shown)" by simp
  show "didx read_manifest_of ''run_id'' = Inr (JStr ''run-a'')"
    "\<exists>p. didx read_manifest_of ''_database_path'' = Inr p" "\<exists>p. didx read_manifest_of ''_deployment_provenance'' = Inr p"
    "\<exists>p. didx read_manifest_of ''source_fingerprint'' = Inr p" "\<exists>p. didx read_manifest_of ''artifact_fingerprint'' = Inr p"
    "\<exists>p. didx read_manifest_of ''logical_fingerprint'' = Inr p"
    by (simp_all add: r kept_build_def promo_build_def sample_build_def dput_def)
qed

lemma read_pinned:
  assumes "\<And>u. body read_manifest_of u = (Inr x, u)"
  shows "\<exists>w'. pinned_build_manifest a_sha read_data JNull body kept_world = (Inr x, w')"
proof -
  have locked: "data_lock read_data ''retention.lock'' True True True False m kept_world
      = (case m read_world of (r, u) \<Rightarrow> (r, release (read_data @ [''retention.lock'']) True u))" for m :: "(dict \<times> path) wprog"
    by (simp add: data_lock_def bindM_def failIf_def make_dirs_def open_lock_def acquire_def conflicts_def finallyM_def
        is_symlink_def is_dir_def stat_def lstat_def kept_world_def fresh_world_def read_world_def Let_def split: prod.splits)
  have path: "run_pin_path read_world read_data (JStr ''run-a'') = Inr [''r'', ''data'', ''run-pins'', ''run-a.lock'']"
    by (simp add: run_pin_path_def validate_safe_id_def sample_text raiseIf_def is_symlink_def lexists_def read_look kept_paths)
  obtain u where u: "enter_run_pin read_data (JStr ''run-a'') read_world = (Inr [''r'', ''data'', ''run-pins'', ''run-a.lock''], u)"
    by (simp add: enter_run_pin_def path)
      (simp add: bindM_def retM_def make_dirs_def open_pin_def acquire_def conflicts_def put_file_def durable_def parents_ok_def
        is_dir_def stat_def lstat_def lexists_def read_world_def kept_world_def fresh_world_def add_dirs_def add_dir_def upt_rec)
  have "select_and_pin a_sha read_data JNull read_world = (Inr (read_manifest_of, [''r'', ''data'', ''run-pins'', ''run-a.lock'']), u)"
    using u by (simp add: select_and_pin_def askM_def bindM_def read_build(1,2) liftM_def retM_def)
  then show ?thesis
    by (simp add: pinned_build_manifest_def retention_lock_def locked bindM_def catchM_def finallyM_def assms Let_def)
qed

theorem reads_hold_their_pin_witness:
  "\<exists>(w :: world) w' manifest w0 w1 w2 pin.
    holders w0 = (read_data @ [''retention.lock''], True) # holders w
    \<and> build_manifest a_sha w0 read_data JNull = Inr manifest \<and> dget manifest ''result'' = JStr ''verified''
    \<and> pin = read_data @ [''run-pins'', str_of (dget manifest ''run_id'') @ ''.lock'']
    \<and> retM () w1 = (Inr () :: unit res, w2) \<and> holders w1 = (pin, True) # holders w \<and> conflicts w1 pin False
    \<and> w' = release pin True w2"
proof -
  have "retM () u = (Inr () :: unit res, u)" for u :: world by simp
  from read_pinned [where body = "\<lambda>_. retM ()", OF this] obtain w' where
    "pinned_build_manifest a_sha read_data JNull (\<lambda>_. retM ()) kept_world = (Inr (), w')" by blast
  from reads_hold_their_pin [OF this] show ?thesis
    by (intro exI [of _ kept_world] exI [of _ w'])
qed

definition sample_limits :: params where
  "sample_limits = [(''question'', ''run''), (''limit'', ''25'')]"

definition sample_section :: dict where
  "sample_section =
     [(''ordinal'', JInt 0), (''heading'', JNull), (''matched_terms'', JList [JStr ''run'']),
      (''excerpt'', JStr ''run''), (''score'', JInt 5)]"

definition sample_row :: dict where
  "sample_row =
     zip document_columns [JStr ''a'', JStr ''A.md'', JStr ''Run'', JStr ''runbook'', JStr ''current'', JStr ''canonical''] @
     [(''score'', JInt 41),
      (''score_components'', JObj [(''title'', JInt 18), (''best_section'', JInt 5), (''authority'', JInt 10),
         (''status'', JInt 8), (''current_intent'', JInt 0)]),
      (''matched_terms'', JList [JStr ''run'']), (''evidence'', JList [JObj sample_section])]"

definition sample_candidate :: candidate where
  "sample_candidate =
     \<lparr>document_rank = 1, section_rank = 1, cand_document = sample_row, cand_section = sample_section,
      cand_ordinal = 0, cand_body = ''run''\<rparr>"

definition sample_request :: request where
  "sample_request = \<lparr>asked = ''run'', risk_level = ''risky'', limits = default_budgets\<rparr>"

definition sample_selection :: selection where
  "sample_selection = \<lparr>chosen = [(sample_candidate, [''highest-ranked evidence'', ''adds task terms: run'',
       ''adds exact-title anchor evidence''])],
     chosen_documents = [JStr ''a''], chosen_terms = [''run''], has_current_state = False,
     evidence_chars = 3, omitted = []\<rparr>"

lemma sample_ranked: "ranked_documents sample_reader [''run''] = Inr [sample_row]"
  unfolding sample_row_def sample_section_def by code_simp

lemma sample_retrieved: "context_query sample_reader sample_limits = Inr (query_result [sample_row] (Some
   [(''row_count'', JInt 1), (''search_terms'', JList [JStr ''run'']), (''candidate_count'', JInt 1)]))"
proof -
  have "terms_of ''run'' = [''run'']" by code_simp
  moreover have "context_limit sample_limits = Inr 25" by code_simp
  ultimately show ?thesis
    by (simp add: context_query_def required_param_def sample_limits_def raiseIf_def sample_ranked)
qed

lemma sample_sections:
  "section_bodies sample_reader = Inr [((''a'', JInt 0), JStr ''run'')]"
  "candidate_sections [JObj sample_row] [((''a'', JInt 0), JStr ''run'')] = Inr [sample_candidate]"
  by code_simp+

lemma sample_compiled:
  "check_request sample_request = Inr ()" "retrieval_question ''run'' = ''run''"
  "select_evidence default_budgets ''run'' [sample_candidate] = Inr sample_selection"
  "mapE entry_gaps (by_document sample_selection) = Inr [[]]"
  by code_simp+

theorem bundle_within_budgets_witness:
  "\<exists>bundled entries. dget bundled ''documents'' = JList (map document_entry entries) \<and> entries \<noteq> []
    \<and> int (length entries) \<le> 5
    \<and> int (length (concat (map entry_sections entries))) \<le> 8
    \<and> int (sum_list (map (\<lambda>p. char_count (fst p)) (concat (map entry_sections entries)))) \<le> 6000
    \<and> (\<forall>e \<in> set entries. guides (entry_document e))"
proof -
  let ?body = "\<lambda>m. liftM (retrieve sample_engine ''run'' m) :: (dict \<times> nat \<times> candidate list) wprog"
  obtain p shown where m: "didx read_manifest_of ''_database_path'' = Inr p" "didx read_manifest_of ''_deployment_provenance'' = Inr shown"
    using read_build by blast
  have "map_of (QUERY_HANDLERS sample_engine) ''context'' = Some context_query" by (simp add: QUERY_HANDLERS_def)
  then have "retrieve sample_engine ''run'' read_manifest_of = Inr (read_manifest_of, 1, [sample_candidate])"
    using sample_retrieved [unfolded sample_limits_def] m read_build(2) sample_sections
    by (simp add: retrieve_def execute_query_for_manifest_def sample_engine_def query_result_def dget_dput didx_def)
  then have "?body read_manifest_of u = (Inr (read_manifest_of, 1, [sample_candidate]), u)" for u by simp
  from read_pinned [where body = ?body, OF this] obtain w' where
    w': "pinned_build_manifest a_sha read_data JNull ?body kept_world = (Inr (read_manifest_of, 1, [sample_candidate]), w')"
    by blast
  obtain b where "build_json read_manifest_of = Inr b"
    using read_build by (auto simp: build_json_def didx_def)
  then obtain bundled where "bundle_of sample_request read_manifest_of 1 [sample_candidate] sample_selection = Inr bundled"
    by (simp add: bundle_of_def Let_def sample_compiled)
  then have "compile_context sample_engine a_sha read_data sample_request JNull kept_world = (Inr bundled, w')"
    using w' sample_compiled by (simp add: compile_context_def sample_request_def bindM_def catchM_def)
  from bundle_within_budgets [OF this] show ?thesis
    by (auto simp: sample_request_def default_budgets_def)
qed

end
