(* ===== verification/Evaluation.thy ===== *)
theory Evaluation
  imports ContextCompiler
begin

text \<open>
  \<open>evaluation.py\<close>: a suite of questions with expected answers, run against one build. The reader of the
  YAML suite is a parameter, which gives a JSON value; dates and fractional numbers in a suite are
  outside the model, and so are query parameters that are not texts.
\<close>

record suite_runner =
  query_engine :: engine
  suite_sha :: "string \<Rightarrow> string"
  read_suite :: "string \<Rightarrow> json res"

section \<open>The suite\<close>

definition load_suite :: "suite_runner \<Rightarrow> world \<Rightarrow> path \<Rightarrow> dict res" where
  "load_suite V w p =
     bindE (raiseIf (\<not> is_file w p) (EvaluationError (''evaluation suite does not exist: '' @ path_text p))) (\<lambda>_.
     bindE (read_text w p) (\<lambda>text.
     bindE (read_suite V text) (\<lambda>v.
     bindE (raiseIf (\<not> is_obj v \<or> \<not> is_list (dget (obj_of v) ''cases''))
       (EvaluationError ''evaluation suite must be a mapping with a cases list'')) (\<lambda>_.
     bindE (raiseIf (\<not> pyeq (dget (obj_of v) ''schema_version'') (JInt 1) \<or> \<not> truthy (dget (obj_of v) ''suite_id''))
       (EvaluationError ''evaluation suite requires schema_version 1 and suite_id'')) (\<lambda>_.
     Inr (obj_of v))))))"

fun nested_value :: "json \<Rightarrow> string list \<Rightarrow> json" where
  "nested_value v [] = v"
| "nested_value v (part # parts) =
     (case v of
        JObj d \<Rightarrow> (case map_of d part of None \<Rightarrow> JNull | Some x \<Rightarrow> nested_value x parts)
      | _ \<Rightarrow> JNull)"

section \<open>Checks\<close>

definition check :: "string \<Rightarrow> bool \<Rightarrow> json \<Rightarrow> json \<Rightarrow> dict" where
  "check check_name passed expected actual =
     [(''name'', JStr check_name), (''passed'', JBool passed), (''expected'', expected), (''actual'', actual)]"

definition check_passed :: "dict \<Rightarrow> bool" where
  "check_passed c \<longleftrightarrow> truthy (dget c ''passed'')"

definition failure_classification :: "dict \<Rightarrow> json" where
  "failure_classification c =
     (if truthy (dget c ''failure_classification'') then dget c ''failure_classification''
      else JStr (if dget c ''capability_class'' = JStr ''deterministic-graph'' then ''graph-correctness''
        else if dget c ''capability_class'' = JStr ''context-retrieval'' then ''retrieval-policy''
        else ''unclassified''))"

text \<open>The value of an optional field that is iterated over, and of one that is compared as a number.\<close>

definition list_field :: "dict \<Rightarrow> string \<Rightarrow> json list res" where
  "list_field d k = (case map_of d k of
      None \<Rightarrow> Inr [] | Some (JList xs) \<Rightarrow> Inr xs | Some _ \<Rightarrow> Inl (Unmodelled ''field that is not a list''))"

definition number_of :: "json \<Rightarrow> int res" where
  "number_of v = (case v of
      JInt n \<Rightarrow> Inr n | JBool b \<Rightarrow> Inr (if b then 1 else 0) | _ \<Rightarrow> Inl (TypeError ''ordering of unlike values''))"

definition texts_in :: "json list \<Rightarrow> string list res" where
  "texts_in vs = mapE (\<lambda>v. case v of JStr s \<Rightarrow> Inr s | _ \<Rightarrow> Inl (Unmodelled ''value that is not a text'')) vs"

definition path_checks :: "string \<Rightarrow> bool \<Rightarrow> string list \<Rightarrow> json list \<Rightarrow> dict list" where
  "path_checks label wanted paths values =
     map (\<lambda>v. check (label @ '':'' @ text_of v) ((v \<in> set (map JStr paths)) = wanted)
       (if wanted then v else JStr (''not '' @ text_of v)) (texts (sorted_set paths))) values"

definition status_checks :: "json list \<Rightarrow> json list \<Rightarrow> dict list res" where
  "status_checks forbidden statuses =
     (if forbidden = [] then Inr []
      else bindE (texts_in (filter (\<lambda>s. s \<in> set forbidden) statuses)) (\<lambda>found.
        Inr [check ''forbidden_statuses'' (found = []) (JList []) (texts (sorted_set found))]))"

definition row_checks :: "dict \<Rightarrow> nat \<Rightarrow> dict list res" where
  "row_checks expected n =
     bindE (if dhas expected ''row_count''
        then Inr [check ''row_count'' (pyeq (JInt (int n)) (dget expected ''row_count'')) (dget expected ''row_count'') (JInt (int n))]
        else Inr []) (\<lambda>a.
     bindE (if dhas expected ''min_rows''
        then bindE (number_of (dget expected ''min_rows'')) (\<lambda>m.
          Inr [check ''min_rows'' (m \<le> int n) (dget expected ''min_rows'') (JInt (int n))])
        else Inr []) (\<lambda>b.
     bindE (if dhas expected ''max_rows''
        then bindE (number_of (dget expected ''max_rows'')) (\<lambda>m.
          Inr [check ''max_rows'' (int n \<le> m) (dget expected ''max_rows'') (JInt (int n))])
        else Inr []) (\<lambda>c.
     Inr (a @ b @ c))))"

definition summary_checks :: "json \<Rightarrow> dict \<Rightarrow> dict list res" where
  "summary_checks summary expected =
     (case map_of expected ''summary_equals'' of
        None \<Rightarrow> Inr []
      | Some (JObj d) \<Rightarrow> Inr (map (\<lambda>(dotted, v).
          (let actual = nested_value summary (split_char (CHR ''.'') dotted)
           in check (''summary_equals:'' @ dotted) (pyeq actual v) v actual)) d)
      | Some _ \<Rightarrow> Inl (AttributeError ''items''))"

definition evaluate_expected :: "dict \<Rightarrow> dict \<Rightarrow> dict list res" where
  "evaluate_expected result expected =
     (let rows = map obj_of (list_of (dget result ''rows''))
      in bindE (row_checks expected (length rows)) (\<lambda>counted.
         bindE (texts_in (filter truthy (map (\<lambda>r. dget r ''source_path'') rows))) (\<lambda>paths.
         bindE (list_field expected ''required_source_paths'') (\<lambda>required.
         bindE (list_field expected ''forbidden_source_paths'') (\<lambda>banned.
         bindE (list_field expected ''forbidden_statuses'') (\<lambda>forbidden.
         bindE (status_checks forbidden (map (\<lambda>r. dget r ''status'') rows)) (\<lambda>statuses.
         bindE (summary_checks (dget result ''summary'') expected) (\<lambda>summaries.
         Inr (counted @ path_checks ''required_source_path'' True paths required
           @ path_checks ''forbidden_source_path'' False paths banned @ statuses @ summaries)))))))))"

definition maximum_check :: "dict \<Rightarrow> dict \<Rightarrow> string \<Rightarrow> dict list res" where
  "maximum_check selection expected f =
     (let maximum = dget expected (''max_'' @ f)
      in if maximum = JNull then Inr []
         else bindE (number_of maximum) (\<lambda>m. bindE (number_of (dget selection f)) (\<lambda>n.
           Inr [check (''max_'' @ f) (n \<le> m) maximum (dget selection f)])))"

definition evaluate_compiler_expected :: "dict \<Rightarrow> dict \<Rightarrow> dict list res" where
  "evaluate_compiler_expected bundled expected =
     (let documents = map obj_of (list_of (dget bundled ''documents''));
          required = dget (obj_of (dget bundled ''live_verification'')) ''required''
      in bindE (texts_in (map (\<lambda>d. dget d ''source_path'') documents)) (\<lambda>paths.
         bindE (list_field expected ''required_source_paths'') (\<lambda>wanted.
         bindE (list_field expected ''forbidden_statuses'') (\<lambda>forbidden.
         bindE (status_checks forbidden (map (\<lambda>d. dget d ''status'') documents)) (\<lambda>statuses.
         bindE (mapE (maximum_check (obj_of (dget bundled ''selection'')) expected)
            [''document_count'', ''section_count'', ''evidence_chars'']) (\<lambda>maxima.
         Inr (path_checks ''required_source_path'' True paths wanted @ statuses
           @ (if dhas expected ''live_verification_required''
              then [check ''live_verification_required'' (pyeq required (dget expected ''live_verification_required''))
                (dget expected ''live_verification_required'') required] else [])
           @ concat maxima)))))))"

section \<open>Cases\<close>

definition case_head :: "dict \<Rightarrow> string \<Rightarrow> bool \<Rightarrow> dict" where
  "case_head c status passed =
     [(''id'', dget c ''id''), (''question'', dget c ''question''), (''capability_class'', dget c ''capability_class''),
      (''status'', JStr status), (''passed'', JBool passed)]"

definition live_required :: "dict \<Rightarrow> json" where
  "live_required c = JBool (truthy (dget c ''live_verification_required''))"

definition case_tail :: "dict \<Rightarrow> json \<Rightarrow> dict" where
  "case_tail c live = [(''live_verification_required'', live), (''reviewer_notes'', dget c ''reviewer_notes'')]"

definition gap_report :: "dict \<Rightarrow> dict" where
  "gap_report c =
     case_head c ''expected-gap'' True @ [(''expected_gap'', dget c ''expected_gap'')] @ case_tail c (live_required c)"

definition answered_report :: "dict \<Rightarrow> dict list \<Rightarrow> dict \<Rightarrow> json \<Rightarrow> json \<Rightarrow> dict" where
  "answered_report c checks result classification live =
     (let passed = list_all check_passed checks
      in case_head c (if passed then ''passed'' else ''failed'') passed
         @ [(''checks'', JList (map JObj checks)), (''result'', JObj result),
            (''failure_classification'', if passed then JNull else classification)]
         @ case_tail c live)"

definition error_report :: "dict \<Rightarrow> string \<Rightarrow> string \<Rightarrow> dict" where
  "error_report c text classification =
     case_head c ''error'' False
     @ [(''error'', JStr text), (''failure_classification'', JStr classification)] @ case_tail c (live_required c)"

definition text_argument :: "json \<Rightarrow> string res" where
  "text_argument v = (case v of JStr s \<Rightarrow> Inr s | _ \<Rightarrow> Inl (Unmodelled ''argument that is not a text''))"

definition number_argument :: "dict \<Rightarrow> string \<Rightarrow> int \<Rightarrow> int res" where
  "number_argument d k otherwise = (case map_of d k of
      None \<Rightarrow> Inr otherwise | Some (JInt n) \<Rightarrow> Inr n | Some _ \<Rightarrow> Inl (Unmodelled ''argument that is not a number''))"

definition compile_request :: "dict \<Rightarrow> request res" where
  "compile_request d =
     bindE (bindE (didx d ''question'') text_argument) (\<lambda>q.
     bindE (bindE (didx d ''risk_level'') text_argument) (\<lambda>level.
     bindE (number_argument d ''max_documents'' 5) (\<lambda>docs.
     bindE (number_argument d ''max_sections'' 8) (\<lambda>secs.
     bindE (number_argument d ''max_chars'' 6000) (\<lambda>chars.
     Inr \<lparr>asked = q, risk_level = level,
       limits = \<lparr>max_documents = docs, max_sections = secs, max_chars = chars\<rparr>\<rparr>)))))"

definition query_params :: "json \<Rightarrow> params res" where
  "query_params v = (case v of
      JNull \<Rightarrow> Inr []
    | JObj d \<Rightarrow> mapE (\<lambda>(k, x). bindE (text_argument x) (\<lambda>s. Inr (k, s))) d
    | _ \<Rightarrow> Inl (Unmodelled ''parameters of a query''))"

text \<open>The report of a case, and the run the next case is asked of.\<close>

type_synonym outcome = "dict \<times> json"

definition is_compiler_error :: "exn \<Rightarrow> bool" where
  "is_compiler_error e = (case e of ContextCompilerError m \<Rightarrow> True | _ \<Rightarrow> False)"

definition compile_case :: "suite_runner \<Rightarrow> path \<Rightarrow> dict \<Rightarrow> json \<Rightarrow> outcome wprog" where
  "compile_case V data c run =
     (let request = dget c ''compile''; expected = dget c ''expected''
      in bindM (liftM (raiseIf (\<not> is_obj request \<or> \<not> is_obj expected)
           (EvaluationError (''case '' @ text_of (dget c ''id'') @ '' requires compile and expected mappings'')))) (\<lambda>_.
         catchM
           (bindM (liftM (compile_request (obj_of request))) (\<lambda>R.
            bindM (compile_context (query_engine V) (suite_sha V) data R run) (\<lambda>bundled.
            bindM (liftM (evaluate_compiler_expected bundled (obj_of expected))) (\<lambda>checks.
            retM (answered_report c checks bundled (JStr ''context-compiler'')
                (dget (obj_of (dget bundled ''live_verification'')) ''required''),
              dget (obj_of (dget bundled ''build'')) ''run_id'')))))
           (\<lambda>e. if is_compiler_error e then Some (retM (error_report c (exn_text e) ''context-compiler'', run)) else None)))"

definition query_case :: "suite_runner \<Rightarrow> path \<Rightarrow> dict \<Rightarrow> json \<Rightarrow> outcome wprog" where
  "query_case V data c run =
     (let query = dget c ''query''; expected = dget c ''expected''
      in bindM (liftM (raiseIf (\<not> is_obj query \<or> \<not> truthy (dget (obj_of query) ''name'') \<or> \<not> is_obj expected)
           (EvaluationError (''case '' @ text_of (dget c ''id'') @ '' requires query and expected mappings'')))) (\<lambda>_.
         catchM
           (bindM (liftM (text_argument (dget (obj_of query) ''name''))) (\<lambda>query_name.
            bindM (liftM (query_params (dget (obj_of query) ''params''))) (\<lambda>ps.
            bindM (execute_query (query_engine V) (suite_sha V) data query_name ps run) (\<lambda>result.
            bindM (liftM (evaluate_expected result (obj_of expected))) (\<lambda>checks.
            retM (answered_report c checks result (failure_classification c) (live_required c), dget result ''run_id''))))))
           (\<lambda>e. if is_query_error e then Some (retM (error_report c (exn_text e) ''query-error'', run)) else None)))"

definition evaluate_case :: "suite_runner \<Rightarrow> path \<Rightarrow> json \<Rightarrow> json \<Rightarrow> outcome wprog" where
  "evaluate_case V data v run =
     (let c = obj_of v
      in bindM (liftM (raiseIf (\<not> is_obj v \<or> \<not> truthy (dget c ''id'') \<or> \<not> truthy (dget c ''question''))
           (EvaluationError ''every evaluation case requires id and question''))) (\<lambda>_.
         if dhas c ''expected_gap'' then retM (gap_report c, run)
         else if dhas c ''compile'' then compile_case V data c run
         else query_case V data c run))"

fun evaluate_cases :: "suite_runner \<Rightarrow> path \<Rightarrow> json list \<Rightarrow> json \<Rightarrow> (dict list \<times> json) wprog" where
  "evaluate_cases V data [] run = retM ([], run)"
| "evaluate_cases V data (v # vs) run =
     bindM (evaluate_case V data v run) (\<lambda>(case_report, run').
     bindM (evaluate_cases V data vs run') (\<lambda>(reports, last_run).
     retM (case_report # reports, last_run)))"

definition suite_report :: "dict \<Rightarrow> dict list \<Rightarrow> json \<Rightarrow> string \<Rightarrow> dict" where
  "suite_report suite reports run now =
     [(''schema_version'', JInt 1), (''suite_id'', dget suite ''suite_id''), (''suite_version'', dget suite ''suite_version''),
      (''run_id'', run), (''evaluated_at'', JStr now),
      (''passed'', JBool (list_all (\<lambda>r. truthy (dget r ''passed'')) reports)),
      (''summary'', JObj (dmerge [(''total'', JInt (int (length reports)))]
         (map (\<lambda>(k, n). (k, JInt (int n))) (by_key (count_all (map (\<lambda>r. str_of (dget r ''status'')) reports)))))),
      (''cases'', JList (map JObj reports))]"

definition evaluate_suite :: "suite_runner \<Rightarrow> path \<Rightarrow> path \<Rightarrow> json \<Rightarrow> dict wprog" where
  "evaluate_suite V cases_path data run_id =
     bindM (askM (\<lambda>w. load_suite V w cases_path)) (\<lambda>suite.
     bindM (evaluate_cases V data (list_of (dget suite ''cases'')) run_id) (\<lambda>(reports, run).
     bindM utc_now (\<lambda>now.
     retM (suite_report suite reports run now))))"

definition write_suite_report :: "dict \<Rightarrow> path \<Rightarrow> unit wprog" where
  "write_suite_report evaluated output =
     bindM (make_dirs (butlast output)) (\<lambda>_. put_file output (dumps_indent (JObj evaluated)))"

end
