(* ===== verification/EvaluationProps.thy ===== *)
theory EvaluationProps
  imports Evaluation ContextProps
begin

text \<open>
  What an evaluation promises: all the answers in its report come from one build.
\<close>

section \<open>The run of an answer\<close>

lemma didx_Inr_dget: "didx d k = Inr v \<Longrightarrow> dget d k = v"
  by (simp add: dget_def)

lemma deployment_for_run_run:
  assumes "deployment_for_run sha w data run_id = Inr (rec, role, run)"
  shows "truthy run \<and> (truthy run_id \<longrightarrow> run = run_id) \<and> (\<exists>s. run = JStr s)"
proof -
  from assms obtain state where r: "run = (if truthy run_id then run_id else dget state ''current'')" "truthy run"
    "\<exists>i. validate_safe_id run ''run_id'' = Inr i"
    by (auto simp: deployment_for_run_def Let_def bindE_eq_Inr bindE_raiseIf split: option.splits if_splits prod.splits)
  then show ?thesis by (auto simp: validate_safe_id_def split: json.splits if_splits)
qed

lemma build_manifest_run:
  assumes "build_manifest sha w data run_id = Inr manifest"
  shows "truthy (dget manifest ''run_id'') \<and> (truthy run_id \<longrightarrow> dget manifest ''run_id'' = run_id)"
proof -
  from assms obtain rec role run where d: "deployment_for_run sha w data run_id = Inr (rec, role, run)"
    "pyeq (dget manifest ''run_id'') run"
    by (auto simp: build_manifest_def rewrap_def bindE_eq_Inr bindE_raiseIf Let_def dget_dput split: prod.splits sum.splits)
  from deployment_for_run_run [OF d(1)] obtain s where "run = JStr s" "truthy run" "truthy run_id \<longrightarrow> run = run_id" by blast
  with d(2) show ?thesis by simp
qed

lemma pinned_run:
  assumes "pinned_build_manifest sha data run_id body w = (Inr x, w')"
  obtains manifest w1 w2 where "body manifest w1 = (Inr x, w2)" "truthy (dget manifest ''run_id'')"
    "truthy run_id \<longrightarrow> dget manifest ''run_id'' = run_id"
proof -
  from assms obtain manifest pin w1 where
    locked: "retention_lock data True True True (select_and_pin sha data run_id) w = (Inr (manifest, pin), w1)"
    and body: "finallyM (body manifest) (release pin True) w1 = (Inr x, w')"
    by (auto simp: pinned_build_manifest_def bindM_def catchM_def split: prod.splits sum.splits option.splits if_splits)
  from locked obtain w0 u where "select_and_pin sha data run_id w0 = (Inr (manifest, pin), u)"
    unfolding retention_lock_def by (rule shared_lock_entered)
  then have "build_manifest sha w0 data run_id = Inr manifest"
    unfolding select_and_pin_def by (auto simp: bindM_eq_Inr askM_def)
  from build_manifest_run [OF this] body show thesis
    by (auto simp: finallyM_Inr intro: that)
qed

lemma handler_results:
  "canonical_current run ps = Inr r \<Longrightarrow> \<exists>rows s. r = query_result rows s"
  "context_query run ps = Inr r \<Longrightarrow> \<exists>rows s. r = query_result rows s"
  "document_by_id run ps = Inr r \<Longrightarrow> \<exists>rows s. r = query_result rows s"
  "guidance_conflicts run ps = Inr r \<Longrightarrow> \<exists>rows s. r = query_result rows s"
  "link_inventory run ps = Inr r \<Longrightarrow> \<exists>rows s. r = query_result rows s"
  "links_to G run ps = Inr r \<Longrightarrow> \<exists>rows s. r = query_result rows s"
  "missing_lifecycle run ps = Inr r \<Longrightarrow> \<exists>rows s. r = query_result rows s"
  "reachable_from G run ps = Inr r \<Longrightarrow> \<exists>rows s. r = query_result rows s"
  unfolding canonical_current_def context_query_def document_by_id_def guidance_conflicts_def link_inventory_def
    links_to_def missing_lifecycle_def reachable_from_def Let_def
  by (elim bindE_InrE; blast dest: Inr_inject sym)+

lemma handler_rows:
  assumes "map_of (QUERY_HANDLERS G) n = Some h" "h run ps = Inr r"
  shows "\<exists>rows s. r = query_result rows s"
proof -
  from assms(1) have "h \<in> {canonical_current, context_query, document_by_id, guidance_conflicts, link_inventory,
      links_to G, missing_lifecycle, reachable_from G}"
    by (auto simp: QUERY_HANDLERS_def split: if_splits)
  then show ?thesis
  proof (elim insertE emptyE)
    assume "h = canonical_current" then show ?thesis using assms(2) by (intro handler_results(1)) simp
  next
    assume "h = context_query" then show ?thesis using assms(2) by (intro handler_results(2)) simp
  next
    assume "h = document_by_id" then show ?thesis using assms(2) by (intro handler_results(3)) simp
  next
    assume "h = guidance_conflicts" then show ?thesis using assms(2) by (intro handler_results(4)) simp
  next
    assume "h = link_inventory" then show ?thesis using assms(2) by (intro handler_results(5)) simp
  next
    assume "h = links_to G" then show ?thesis using assms(2) by (intro handler_results(6)) simp
  next
    assume "h = missing_lifecycle" then show ?thesis using assms(2) by (intro handler_results(7)) simp
  next
    assume "h = reachable_from G" then show ?thesis using assms(2) by (intro handler_results(8)) simp
  qed
qed

lemma executed_run:
  assumes "execute_query_for_manifest G manifest n ps = Inr result"
  shows "dget result ''run_id'' = dget manifest ''run_id'' \<and> \<not> dhas result ''build''"
proof -
  from assms obtain h run r shown run_id where h: "map_of (QUERY_HANDLERS G) n = Some h" "h run ps = Inr r"
    "didx manifest ''run_id'' = Inr run_id"
    "result = dmerge [(''schema_version'', JInt 1), (''run_id'', run_id), (''deployment'', shown),
       (''query'', JStr n), (''parameters'', params_json ps)] r"
    by (auto simp: execute_query_for_manifest_def bindE_eq_Inr split: option.splits)
  from handler_rows [OF h(1,2)] obtain rows s where "r = query_result rows s" by blast
  then show ?thesis using didx_Inr_dget [OF h(3)]
    by (simp add: h(4) query_result_def dget_dput dget_def [of "[_, _, _, _, _]"] dhas_dkeys set_dkeys_dput)
qed

lemma execute_query_run:
  assumes "execute_query G sha data n ps run_id w = (Inr result, w')"
  shows "truthy (dget result ''run_id'') \<and> (truthy run_id \<longrightarrow> dget result ''run_id'' = run_id) \<and> \<not> dhas result ''build''"
proof -
  from assms obtain manifest w1 w2 where
    "liftM (execute_query_for_manifest G manifest n ps) w1 = (Inr result, w2 :: world)"
    "truthy (dget manifest ''run_id'')" "truthy run_id \<longrightarrow> dget manifest ''run_id'' = run_id"
    unfolding execute_query_def by (rule pinned_run)
  with executed_run [of G manifest n ps result] show ?thesis by simp
qed

lemma bundle_run:
  assumes "bundle_of R manifest n cs S = Inr bundled"
  shows "dget (obj_of (dget bundled ''build'')) ''run_id'' = dget manifest ''run_id'' \<and> dhas bundled ''build''"
proof -
  from assms obtain b where b: "build_json manifest = Inr b" "dget bundled ''build'' = b" "dhas bundled ''build''"
    by (auto simp: bundle_of_def Let_def bindE_eq_Inr dget_def dhas_def)
  from b(1) have "dget (obj_of b) ''run_id'' = dget manifest ''run_id''"
    by (auto simp: build_json_def bindE_eq_Inr dget_def split: sum.splits)
  with b show ?thesis by simp
qed

lemma compile_context_run:
  assumes "compile_context G sha data R run_id w = (Inr bundled, w')"
  shows "truthy (dget (obj_of (dget bundled ''build'')) ''run_id'')
    \<and> (truthy run_id \<longrightarrow> dget (obj_of (dget bundled ''build'')) ''run_id'' = run_id) \<and> dhas bundled ''build''"
proof -
  let ?body = "\<lambda>manifest. liftM (retrieve G (retrieval_question (asked R)) manifest) :: (dict \<times> nat \<times> candidate list) wprog"
  from assms obtain manifest n cs S w1 w2 where s:
    "pinned_build_manifest sha data run_id ?body w1 = (Inr (manifest, n, cs), w2)"
    "bundle_of R manifest n cs S = Inr bundled"
    by (auto simp: compile_context_def bindM_eq_Inr catchM_def split: prod.splits sum.splits option.splits if_splits)
  from s(1) obtain m u v where "?body m u = (Inr (manifest, n, cs), v)" "truthy (dget m ''run_id'')"
    "truthy run_id \<longrightarrow> dget m ''run_id'' = run_id" by (rule pinned_run)
  moreover from this(1) have "m = manifest" by (auto simp: retrieve_def bindE_eq_Inr)
  ultimately show ?thesis using bundle_run [OF s(2)] by simp
qed

section \<open>The cases\<close>

definition result_run :: "dict \<Rightarrow> json" where
  "result_run result =
     (if dhas result ''build'' then dget (obj_of (dget result ''build'')) ''run_id'' else dget result ''run_id'')"

text \<open>What the report of a case says of the run before and after it.\<close>

definition keeps_run :: "json \<Rightarrow> dict \<Rightarrow> json \<Rightarrow> bool" where
  "keeps_run run case_report run' \<longleftrightarrow>
     (truthy run \<longrightarrow> run' = run)
     \<and> (dhas case_report ''result'' \<longrightarrow> truthy run' \<and> result_run (obj_of (dget case_report ''result'')) = run')"

lemmas report_defs = case_head_def case_tail_def gap_report_def error_report_def answered_report_def

lemma keeps_run_other:
  "keeps_run run (gap_report c) run" "keeps_run run (error_report c t cl) run"
  by (simp_all add: keeps_run_def report_defs dhas_def)

lemma keeps_run_answered:
  assumes "truthy run'" "truthy run \<longrightarrow> run' = run" "result_run result = run'"
  shows "keeps_run run (answered_report c checks result cl live) run'"
  using assms by (simp add: keeps_run_def report_defs dhas_def dget_def Let_def)

lemma query_case_run:
  assumes "query_case V data c run w = (Inr (case_report, run'), w')"
  shows "keeps_run run case_report run'"
  using assms
  by (auto simp: query_case_def Let_def bindM_eq_Inr catchM_def keeps_run_other result_run_def
      split: prod.splits sum.splits option.splits if_splits dest!: execute_query_run intro!: keeps_run_answered)

lemma compile_case_run:
  assumes "compile_case V data c run w = (Inr (case_report, run'), w')"
  shows "keeps_run run case_report run'"
  using assms
  by (auto simp: compile_case_def Let_def bindM_eq_Inr catchM_def keeps_run_other result_run_def
      split: prod.splits sum.splits option.splits if_splits dest!: compile_context_run intro!: keeps_run_answered)

lemma evaluate_case_run:
  assumes "evaluate_case V data v run w = (Inr (case_report, run'), w')"
  shows "keeps_run run case_report run'"
  using assms query_case_run compile_case_run
  by (auto simp: evaluate_case_def Let_def bindM_eq_Inr keeps_run_other split: if_splits)

lemma evaluate_cases_run:
  assumes "evaluate_cases V data vs run w = (Inr (reports, last_run), w')"
  shows "(truthy run \<longrightarrow> last_run = run) \<and> (\<forall>r \<in> set reports. keeps_run last_run r last_run)"
  using assms
proof (induction vs arbitrary: run w reports)
  case (Cons v vs)
  from Cons.prems obtain r run' u rs where s: "evaluate_case V data v run w = (Inr (r, run'), u)"
    "evaluate_cases V data vs run' u = (Inr (rs, last_run), w')" "reports = r # rs"
    by (auto simp: bindM_eq_Inr split: prod.splits)
  from evaluate_case_run [OF s(1)] Cons.IH [OF s(2)] show ?case
    by (auto simp: keeps_run_def s(3))
qed (simp add: keeps_run_def)

text \<open>C10: an evaluation is of one build: when a run is asked for, the report is of that run, and every
  answer in a report, of a query or of the compiler, comes from the run the report names.\<close>

theorem suite_asks_one_build:
  assumes "evaluate_suite V cases_path data run_id w = (Inr evaluated, w')"
  shows "(truthy run_id \<longrightarrow> dget evaluated ''run_id'' = run_id)
    \<and> (\<forall>c \<in> set (list_of (dget evaluated ''cases'')). dhas (obj_of c) ''result'' \<longrightarrow>
        result_run (obj_of (dget (obj_of c) ''result'')) = dget evaluated ''run_id'')"
proof -
  from assms obtain suite reports last_run u v now where
    s: "evaluate_cases V data (list_of (dget suite ''cases'')) run_id u = (Inr (reports, last_run), v)"
      "evaluated = suite_report suite reports last_run now"
    by (auto simp: evaluate_suite_def bindM_eq_Inr split: prod.splits)
  from evaluate_cases_run [OF s(1)] show ?thesis
    by (auto simp: s(2) suite_report_def dget_def keeps_run_def)
qed

text \<open>One case of a suite that the sample root answers.\<close>

definition sample_case :: dict where
  "sample_case = [(''id'', JStr ''one''), (''question'', JStr ''what is current''),
     (''query'', JObj [(''name'', JStr ''canonical-current'')]), (''expected'', JObj [(''row_count'', JInt 1)])]"

definition sample_suite :: dict where
  "sample_suite = [(''schema_version'', JInt 1), (''suite_id'', JStr ''s''), (''cases'', JList [JObj sample_case])]"

definition sample_runner :: suite_runner where
  "sample_runner = \<lparr>query_engine = sample_engine, suite_sha = a_sha, read_suite = (\<lambda>t. Inr (JObj sample_suite))\<rparr>"

definition sample_listing :: dict where
  "sample_listing = query_result
     [zip document_columns [JStr ''a'', JStr ''A.md'', JStr ''Run'', JStr ''runbook'', JStr ''current'', JStr ''canonical'']] None"

theorem suite_asks_one_build_witness:
  "\<exists>evaluated c. list_of (dget evaluated ''cases'') = [JObj c] \<and> dhas c ''result''
    \<and> result_run (obj_of (dget c ''result'')) = dget evaluated ''run_id''"
proof -
  let ?q = "[''r'', ''vault-snapshots'', kept_id, ''vault'', ''a.md'']"
  have "file_at kept_world ?q = Some ''hi''"
    by (simp add: file_at_def stat_def lstat_def kept_world_def)
  moreover from this have "read_text kept_world ?q = Inr ''hi''" by (rule read_text_ascii) code_simp
  ultimately have suite: "load_suite sample_runner kept_world ?q = Inr sample_suite"
    by (simp add: load_suite_def is_file_file_at raiseIf_def sample_runner_def sample_suite_def dget_def)
  obtain p shown where m: "didx read_manifest_of ''_database_path'' = Inr p" "didx read_manifest_of ''_deployment_provenance'' = Inr shown"
    using read_build by blast
  have "canonical_current sample_reader [] = Inr sample_listing" by code_simp
  moreover have "map_of (QUERY_HANDLERS sample_engine) ''canonical-current'' = Some canonical_current"
    by (simp add: QUERY_HANDLERS_def)
  ultimately obtain res where res: "execute_query_for_manifest sample_engine read_manifest_of ''canonical-current'' [] = Inr res"
    "dget res ''rows'' = dget sample_listing ''rows''" "dget res ''run_id'' = JStr ''run-a''"
    using m read_build(2)
    by (simp add: execute_query_for_manifest_def sample_engine_def didx_def sample_listing_def query_result_def dget_dput)
  then have "liftM (execute_query_for_manifest sample_engine read_manifest_of ''canonical-current'' []) u = (Inr res, u)"
    for u :: world by simp
  from read_pinned [where body = "\<lambda>m. liftM (execute_query_for_manifest sample_engine m ''canonical-current'' [])", OF this]
  obtain w' where run: "execute_query sample_engine a_sha read_data ''canonical-current'' [] JNull kept_world = (Inr res, w')"
    unfolding execute_query_def by blast
  have rows: "dget sample_listing ''rows'' = JList [JObj (zip document_columns
      [JStr ''a'', JStr ''A.md'', JStr ''Run'', JStr ''runbook'', JStr ''current'', JStr ''canonical''])]" by code_simp
  obtain checks where "evaluate_expected res [(''row_count'', JInt 1)] = Inr checks"
    by (simp add: evaluate_expected_def res(2) rows row_checks_def list_field_def status_checks_def summary_checks_def
        texts_in_def document_columns_def dget_Cons dget_Nil dhas_def)
  then obtain r where r: "evaluate_case sample_runner read_data (JObj sample_case) JNull kept_world = (Inr (r, JStr ''run-a''), w')"
    "dhas r ''result''"
    using run res(3)
    by (simp add: evaluate_case_def sample_case_def dget_def dhas_def raiseIf_def query_case_def Let_def catchM_def bindM_def
        text_argument_def query_params_def sample_runner_def report_defs)
  then obtain evaluated w2 where e: "evaluate_suite sample_runner ?q read_data JNull kept_world = (Inr evaluated, w2)"
    "list_of (dget evaluated ''cases'') = [JObj r]"
    using suite by (simp add: evaluate_suite_def askM_def bindM_def sample_suite_def suite_report_def utc_now_def dget_def)
  from suite_asks_one_build [OF e(1)] e(2) r(2) show ?thesis by auto
qed

end
