(* ===== verification/Migration.thy ===== *)
theory Migration
  imports Markdown Snapshot
begin

text \<open>
  \<open>migration.py\<close>: the reviewed rewriting of the frontmatter of a vault. A plan says for every source
  what would change; applying it checks that nothing moved since the review, keeps the originals, and
  rewrites file by file, undoing what it wrote when a later file fails; restoring puts the originals
  back unless a migrated file was edited since.

  \<open>CommentedMap.insert\<close> of a key that is already there (an \<open>id\<close> with the value null) is the YAML library's
  affair and \<open>Unmodelled\<close>. A name that leaves the directory it is joined to is as well.
\<close>

section \<open>Changes and reports\<close>

record change =
  chg_field :: string
  chg_action :: string
  chg_before :: yaml
  chg_after :: yaml

record file_migration =
  mig_path :: string
  mig_kind :: string
  before_sha256 :: string
  after_sha256 :: string
  proposed_id :: string
  mig_changes :: "change list"
  mig_warnings :: "validation_issue list"

definition changed :: "file_migration \<Rightarrow> bool" where
  "changed f \<longleftrightarrow> before_sha256 f \<noteq> after_sha256 f"

record migration_report =
  report_schema :: int
  report_id :: string
  created_at :: string
  report_root :: path
  include_uppercase :: bool
  report_files :: "file_migration list"
  report_issues :: "validation_issue list"

definition REPORT_SCHEMA_VERSION :: int where
  "REPORT_SCHEMA_VERSION = 1"

definition LIFECYCLE_TAGS :: "string list" where
  "LIFECYCLE_TAGS = [''current'', ''planned'', ''done'', ''reference'']"

definition STATUS_MAPPING :: "(string \<times> string) list" where
  "STATUS_MAPPING =
     [(''active'', ''current''), (''implemented'', ''done''), (''reference'', ''current''), (''current'', ''current''),
      (''planned'', ''planned''), (''in-progress'', ''in-progress''), (''done'', ''done''),
      (''superseded'', ''superseded''), (''abandoned'', ''abandoned''), (''historical'', ''historical'')]"

definition report_errors :: "migration_report \<Rightarrow> validation_issue list" where
  "report_errors R = filter (\<lambda>i. severity i = ''error'') (report_issues R)"

definition report_warnings :: "migration_report \<Rightarrow> validation_issue list" where
  "report_warnings R = filter (\<lambda>i. severity i = ''warning'') (report_issues R)"

definition issue_dict :: "validation_issue \<Rightarrow> json" where
  "issue_dict i = JObj [(''severity'', JStr (severity i)), (''code'', JStr (issue_code i)),
     (''source_path'', JStr (issue_path i)), (''message'', JStr (message i))]"

definition change_dict :: "change \<Rightarrow> json res" where
  "change_dict c =
     bindE (json_of (chg_before c)) (\<lambda>b. bindE (json_of (chg_after c)) (\<lambda>a.
     Inr (JObj [(''field'', JStr (chg_field c)), (''action'', JStr (chg_action c)), (''before'', b), (''after'', a)])))"

definition file_dict :: "file_migration \<Rightarrow> json res" where
  "file_dict f =
     bindE (mapE change_dict (mig_changes f)) (\<lambda>cs.
     Inr (JObj [(''source_path'', JStr (mig_path f)), (''source_kind'', JStr (mig_kind f)),
       (''before_sha256'', JStr (before_sha256 f)), (''after_sha256'', JStr (after_sha256 f)),
       (''proposed_id'', JStr (proposed_id f)), (''changes'', JList cs),
       (''warnings'', JList (map issue_dict (mig_warnings f))), (''changed'', JBool (changed f))]))"

definition count_json :: "'a list \<Rightarrow> json" where
  "count_json xs = JInt (int (length xs))"

definition report_dict :: "migration_report \<Rightarrow> json res" where
  "report_dict R =
     bindE (mapE file_dict (report_files R)) (\<lambda>fs.
     Inr (JObj [(''schema_version'', JInt (report_schema R)), (''migration_id'', JStr (report_id R)),
       (''created_at'', JStr (created_at R)), (''vault_root'', JStr (path_text (report_root R))),
       (''include_uppercase_markdown'', JBool (include_uppercase R)),
       (''summary'', JObj
          [(''eligible_files'', count_json (report_files R)),
           (''changed_files'', count_json (filter changed (report_files R))),
           (''unchanged_files'', count_json (filter (\<lambda>f. \<not> changed f) (report_files R))),
           (''warnings'', count_json (report_warnings R @ concat (map mig_warnings (report_files R)))),
           (''errors'', count_json (report_errors R))]),
       (''issues'', JList (map issue_dict (report_issues R))), (''files'', JList fs)]))"

section \<open>The frontmatter of one file\<close>

record draft =
  front :: ymap
  draft_changes :: "change list"
  draft_warnings :: "validation_issue list"

text \<open>An assignment to a field and its entry in the list of changes.\<close>

definition set_field :: "string \<Rightarrow> yaml \<Rightarrow> string \<Rightarrow> yaml \<Rightarrow> draft \<Rightarrow> draft" where
  "set_field k v action prior d =
     d\<lparr>front := AList.update (YStr k) v (front d),
       draft_changes := draft_changes d @ [\<lparr>chg_field = k, chg_action = action, chg_before = prior, chg_after = v\<rparr>]\<rparr>"

definition warn :: "source_file \<Rightarrow> string \<Rightarrow> string \<Rightarrow> draft \<Rightarrow> draft" where
  "warn sf code text d = d\<lparr>draft_warnings := draft_warnings d @
     [\<lparr>severity = ''warning'', issue_code = code, issue_path = src_path sf, message = text\<rparr>]\<rparr>"

definition mapped_status :: "string \<Rightarrow> string" where
  "mapped_status t = (case map_of STATUS_MAPPING t of Some s \<Rightarrow> s | None \<Rightarrow> t)"

text \<open>A status is taken over from the lifecycle tags when there is none and they agree on one.\<close>

definition seed_status :: "string list \<Rightarrow> string option \<Rightarrow> draft \<Rightarrow> string option \<times> draft" where
  "seed_status lifecycle canonical d =
     (case (canonical, remdups (map mapped_status lifecycle)) of
        (None, [s]) \<Rightarrow> (Some s, set_field ''status'' (YStr s) ''seed-from-tag'' YNull d)
      | _ \<Rightarrow> (canonical, d))"

definition migrate_tags :: "source_file \<Rightarrow> string option \<Rightarrow> draft \<Rightarrow> (string option \<times> draft) res" where
  "migrate_tags sf canonical d =
     (case yget (front d) ''tags'' of
        YNull \<Rightarrow> Inr (canonical, d)
      | YList tag_values \<Rightarrow>
          bindE (mapE yaml_text tag_values) (\<lambda>tag_texts.
          (let lifecycle = filter (\<lambda>t. t \<in> set LIFECYCLE_TAGS) tag_texts;
               seeded = seed_status lifecycle canonical d
           in if lifecycle = [] then Inr seeded
              else if (case fst seeded of None \<Rightarrow> False | Some c \<Rightarrow> list_all (\<lambda>t. mapped_status t = c) lifecycle)
              then Inr (fst seeded, set_field ''tags''
                (YList (map fst (filter (\<lambda>p. snd p \<notin> set LIFECYCLE_TAGS) (zip tag_values tag_texts))))
                ''remove-lifecycle-tags'' (YList (map YStr lifecycle)) (snd seeded))
              else Inr (fst seeded, warn sf ''lifecycle-tag-conflict''
                ''lifecycle tags conflict with status or are ambiguous; tags were preserved'' (snd seeded))))
      | _ \<Rightarrow> Inr (canonical, warn sf ''tags-not-list''
          ''tags is not a YAML list; lifecycle tags were not migrated'' d))"

definition default_field :: "string \<Rightarrow> string \<Rightarrow> draft \<Rightarrow> draft" where
  "default_field k v d =
     (if yget (front d) k = YNull then set_field k (YStr v) ''add-category-default'' YNull d else d)"

definition normalize_status :: "source_file \<Rightarrow> draft \<Rightarrow> string option \<times> draft" where
  "normalize_status sf d =
     (case yget (front d) ''status'' of
        YNull \<Rightarrow> (None, d)
      | YStr raw \<Rightarrow>
          (case map_of STATUS_MAPPING raw of
             None \<Rightarrow> (None, warn sf ''unknown-status''
               ''status is not an approved lifecycle value and was preserved'' d)
           | Some c \<Rightarrow> (Some c, if c \<noteq> raw then set_field ''status'' (YStr c) ''normalize'' (YStr raw) d else d))
      | _ \<Rightarrow> (None, warn sf ''unknown-status''
          ''status is not an approved lifecycle value and was preserved'' d))"

definition normalize_authority :: "draft \<Rightarrow> draft" where
  "normalize_authority d =
     (if yget (front d) ''authority'' = YStr ''historical''
      then set_field ''authority'' (YStr ''supporting'') ''normalize'' (YStr ''historical'') d else d)"

definition warn_missing :: "source_file \<Rightarrow> draft \<Rightarrow> draft" where
  "warn_missing sf d =
     fold (\<lambda>f d. if yget (front d) f = YNull
         then warn sf (''missing-'' @ f) (''legacy knowledge document is missing '' @ f) d else d)
       [''type'', ''status'', ''authority''] d"

definition migrate_fields :: "source_file \<Rightarrow> draft \<Rightarrow> draft res" where
  "migrate_fields sf d =
     (let d1 = (if src_kind sf = ''category''
                then default_field ''status'' ''current'' (default_field ''type'' ''category'' d) else d);
          status = normalize_status sf d1
      in bindE (migrate_tags sf (fst status) (snd status)) (\<lambda>tagged.
         (let d2 = normalize_authority (snd tagged)
          in Inr (if src_kind sf = ''knowledge'' then warn_missing sf d2 else d2))))"

section \<open>One file\<close>

record toolbox =
  mig_yaml :: yaml_lib
  mig_sha :: "string \<Rightarrow> string"
  mig_uuid :: "nat \<Rightarrow> string"

text \<open>Well-formed UTF-8; what is, and is outside the model's strings, stops \<open>utf8_decode\<close>.\<close>

fun utf8_tail :: "nat \<Rightarrow> string \<Rightarrow> string option" where
  "utf8_tail 0 s = Some s"
| "utf8_tail (Suc n) [] = None"
| "utf8_tail (Suc n) (c # s) = (if 128 \<le> code_of c \<and> code_of c < 192 then utf8_tail n s else None)"

lemma utf8_tail_shorter: "utf8_tail n s = Some t \<Longrightarrow> length t \<le> length s"
  by (induction n s rule: utf8_tail.induct) (auto split: if_splits)

definition utf8_lead :: "nat \<Rightarrow> nat \<Rightarrow> nat option" where
  "utf8_lead a b =
     (if a < 128 then Some 0
      else if 194 \<le> a \<and> a \<le> 223 then Some 1
      else if (a = 224 \<and> 160 \<le> b) \<or> (225 \<le> a \<and> a \<le> 239 \<and> a \<noteq> 237) \<or> (a = 237 \<and> b < 160) then Some 2
      else if (a = 240 \<and> 144 \<le> b) \<or> (241 \<le> a \<and> a \<le> 243) \<or> (a = 244 \<and> b < 144) then Some 3
      else None)"

function valid_utf8 :: "string \<Rightarrow> bool" where
  "valid_utf8 [] = True"
| "valid_utf8 (c # s) =
     (case utf8_lead (code_of c) (case s of [] \<Rightarrow> 0 | d # t \<Rightarrow> code_of d) of
        None \<Rightarrow> False
      | Some n \<Rightarrow> (case utf8_tail n s of None \<Rightarrow> False | Some t \<Rightarrow> valid_utf8 t))"
  by pat_completeness auto

termination
  by (relation "measure length") (auto dest: utf8_tail_shorter)

type_synonym transformed = "file_migration option \<times> validation_issue list \<times> string option"

definition source_error :: "source_file \<Rightarrow> string \<Rightarrow> string \<Rightarrow> transformed" where
  "source_error sf code text =
     (None, [\<lparr>severity = ''error'', issue_code = code, issue_path = src_path sf, message = text\<rparr>], None)"

text \<open>The identifier of a document, with whether it is a new one; \<open>None\<close> for one that is malformed.\<close>

definition choose_id :: "toolbox \<Rightarrow> string option \<Rightarrow> ymap \<Rightarrow> (string \<times> bool) option wprog" where
  "choose_id T proposed m =
     (case yget m ''id'' of
        YNull \<Rightarrow>
          if YStr ''id'' \<in> set (map fst m) then raiseM (Unmodelled ''insert of a key that is there'')
          else (case proposed of
              Some (c # s) \<Rightarrow> retM (Some (c # s, True))
            | _ \<Rightarrow> bindM (draw (mig_uuid T)) (\<lambda>u. retM (Some (u, True))))
      | YStr s \<Rightarrow> retM (if is_uuid4 s then Some (s, False) else None)
      | _ \<Rightarrow> retM None)"

definition start_draft :: "string \<Rightarrow> bool \<Rightarrow> ymap \<Rightarrow> draft" where
  "start_draft i fresh m =
     (if fresh
      then \<lparr>front = (YStr ''id'', YStr i) # m,
        draft_changes = [\<lparr>chg_field = ''id'', chg_action = ''add'', chg_before = YNull, chg_after = YStr i\<rparr>],
        draft_warnings = []\<rparr>
      else \<lparr>front = m, draft_changes = [], draft_warnings = []\<rparr>)"

definition rendered_bytes :: "toolbox \<Rightarrow> string \<Rightarrow> markdown_document \<Rightarrow> draft \<Rightarrow> string" where
  "rendered_bytes T original doc d =
     (if draft_changes d = [] then original
      else utf8 (render_markdown (mig_yaml T) (doc\<lparr>frontmatter := front d\<rparr>)))"

definition migrated :: "toolbox \<Rightarrow> source_file \<Rightarrow> string \<Rightarrow> string \<Rightarrow> string \<Rightarrow> draft \<Rightarrow> file_migration" where
  "migrated T sf i original rendered d =
     \<lparr>mig_path = src_path sf, mig_kind = src_kind sf, before_sha256 = mig_sha T original,
       after_sha256 = mig_sha T rendered, proposed_id = i, mig_changes = draft_changes d,
       mig_warnings = draft_warnings d\<rparr>"

definition transform_document ::
  "toolbox \<Rightarrow> source_file \<Rightarrow> string option \<Rightarrow> string \<Rightarrow> markdown_document \<Rightarrow> transformed wprog" where
  "transform_document T sf proposed original doc =
     bindM (choose_id T proposed (frontmatter doc)) (\<lambda>chosen_id. case chosen_id of
         None \<Rightarrow> retM (source_error sf ''invalid-id'' ''id must be a canonical lowercase UUIDv4'')
       | Some (i, fresh) \<Rightarrow>
           bindM (liftM (migrate_fields sf (start_draft i fresh (frontmatter doc)))) (\<lambda>d.
           (let rendered = rendered_bytes T original doc d
            in retM (Some (migrated T sf i original rendered d), [], Some rendered))))"

definition transform_bytes :: "toolbox \<Rightarrow> source_file \<Rightarrow> string option \<Rightarrow> string \<Rightarrow> transformed wprog" where
  "transform_bytes T sf proposed original =
     (if \<not> valid_utf8 original then retM (source_error sf ''invalid-utf8'' ''source is not valid UTF-8'')
      else bindM (liftM (utf8_decode original)) (\<lambda>text.
        case parse_markdown (mig_yaml T) text of
          Inl (FrontmatterError m) \<Rightarrow> retM (source_error sf ''malformed-frontmatter'' m)
        | Inl e \<Rightarrow> raiseM e
        | Inr doc \<Rightarrow> transform_document T sf proposed original doc))"

definition transform :: "toolbox \<Rightarrow> path \<Rightarrow> source_file \<Rightarrow> string option \<Rightarrow> transformed wprog" where
  "transform T root sf proposed =
     bindM (askM (\<lambda>w. read_bytes w (root @ posix_parts (src_path sf)))) (transform_bytes T sf proposed)"

section \<open>The plan\<close>

type_synonym proposals = "(string \<times> string) list"

record planning =
  planned :: "file_migration list"
  plan_issues :: "validation_issue list"
  ids_taken :: "(string \<times> string) list"

definition add_planned :: "source_file \<Rightarrow> file_migration \<Rightarrow> planning \<Rightarrow> planning" where
  "add_planned sf f P =
     (case map_of (ids_taken P) (proposed_id f) of
        Some other \<Rightarrow> P\<lparr>planned := planned P @ [f], plan_issues := plan_issues P @
          [\<lparr>severity = ''error'', issue_code = ''duplicate-id'', issue_path = src_path sf,
            message = ''id duplicates '' @ other\<rparr>]\<rparr>
      | None \<Rightarrow> P\<lparr>planned := planned P @ [f], ids_taken := ids_taken P @ [(proposed_id f, src_path sf)]\<rparr>)"

fun plan_files :: "toolbox \<Rightarrow> path \<Rightarrow> proposals \<Rightarrow> source_file list \<Rightarrow> planning \<Rightarrow> planning wprog" where
  "plan_files T root ids [] P = retM P"
| "plan_files T root ids (sf # sources) P =
     bindM (transform T root sf (map_of ids (src_path sf))) (\<lambda>(found, issues, rendered).
     (let P' = P\<lparr>plan_issues := plan_issues P @ issues\<rparr>
      in plan_files T root ids sources (case found of None \<Rightarrow> P' | Some f \<Rightarrow> add_planned sf f P')))"

definition plan_migration ::
  "toolbox \<Rightarrow> path \<Rightarrow> bool \<Rightarrow> proposals \<Rightarrow> string option \<Rightarrow> migration_report wprog" where
  "plan_migration T root upper ids wanted_id =
     bindM (askM (\<lambda>w. discover_sources w root upper)) (\<lambda>sources.
     bindM (plan_files T root ids sources \<lparr>planned = [], plan_issues = [], ids_taken = []\<rparr>) (\<lambda>P.
     bindM (case wanted_id of Some (c # s) \<Rightarrow> retM (c # s) | _ \<Rightarrow> draw (mig_uuid T)) (\<lambda>i.
     bindM utc_now (\<lambda>now.
     retM \<lparr>report_schema = REPORT_SCHEMA_VERSION, report_id = i, created_at = now, report_root = root,
       include_uppercase = upper, report_files = planned P, report_issues = plan_issues P\<rparr>))))"

section \<open>Reports on disk\<close>

text \<open>\<open>json.dumps(value, indent=2)\<close> without sorting, and a newline.\<close>

definition dumps_report :: "json \<Rightarrow> string" where
  "dumps_report v = render escape_char line_break '' '' 0 v @ [CHR 0x0A]"

definition atomic_write :: "path \<Rightarrow> string \<Rightarrow> unit wprog" where
  "atomic_write p c = bindM (make_dirs (butlast p)) (\<lambda>_. put_file p c)"

definition write_migration_report :: "migration_report \<Rightarrow> path \<Rightarrow> unit wprog" where
  "write_migration_report R output =
     bindM (make_dirs (butlast output)) (\<lambda>_.
     bindM (liftM (report_dict R)) (\<lambda>d. atomic_write output (dumps_report d)))"

definition load_report :: "world \<Rightarrow> path \<Rightarrow> json res" where
  "load_report w p = bindE (read_text w p) json_loads"

text \<open>\<open>directory / name\<close> for a relative name, and \<open>Path(text).resolve()\<close> for an absolute one.\<close>

definition beneath :: "path \<Rightarrow> string \<Rightarrow> path res" where
  "beneath dir text =
     (if startswith text ''/'' \<or> ''..'' \<in> set (posix_parts text) \<or> posix_parts text = []
      then Inl (Unmodelled ''name that leaves its directory'') else Inr (dir @ posix_parts text))"

definition resolved_root :: "world \<Rightarrow> json \<Rightarrow> path res" where
  "resolved_root w v = (case v of
      JStr s \<Rightarrow>
        if \<not> startswith s ''/'' \<or> ''..'' \<in> set (posix_parts s) \<or> through_link w (posix_parts s)
        then Inl (Unmodelled ''resolving a path'') else Inr (posix_parts s)
    | _ \<Rightarrow> Inl (TypeError ''expected str, bytes or os.PathLike object''))"

definition str_field :: "json \<Rightarrow> string \<Rightarrow> string res" where
  "str_field v k = bindE (jidx v k) (\<lambda>x. case x of JStr s \<Rightarrow> Inr s | _ \<Rightarrow> Inl (Unmodelled ''field of a report''))"

definition report_items :: "json \<Rightarrow> json list res" where
  "report_items v = bindE (jidx v ''files'') (\<lambda>x. case x of
      JList xs \<Rightarrow> Inr xs | _ \<Rightarrow> Inl (Unmodelled ''files of a report''))"

definition reviewed_ids :: "json list \<Rightarrow> proposals res" where
  "reviewed_ids items =
     bindE (mapE (\<lambda>v. bindE (str_field v ''source_path'') (\<lambda>p.
       bindE (str_field v ''proposed_id'') (\<lambda>i. Inr (p, i)))) items) (\<lambda>ps.
     Inr (rev ps))"

section \<open>Applying\<close>

definition check_report :: "world \<Rightarrow> json \<Rightarrow> path \<Rightarrow> unit res" where
  "check_report w reviewed root =
     bindE (jidx reviewed ''schema_version'') (\<lambda>v.
     bindE (raiseIf (\<not> pyeq v (JInt REPORT_SCHEMA_VERSION))
       (MigrationError ''unsupported migration report schema'')) (\<lambda>_.
     bindE (jidx reviewed ''vault_root'') (\<lambda>r.
     bindE (resolved_root w r) (\<lambda>p.
     bindE (raiseIf (p \<noteq> root) (MigrationError ''migration report belongs to a different vault'')) (\<lambda>_.
     bindE (jidx reviewed ''summary'') (\<lambda>s.
     bindE (jidx s ''errors'') (\<lambda>n.
     raiseIf (truthy n) (MigrationError ''migration report contains errors''))))))))"

definition replan :: "toolbox \<Rightarrow> json \<Rightarrow> proposals \<Rightarrow> path \<Rightarrow> migration_report wprog" where
  "replan T reviewed ids root =
     bindM (liftM (jidx reviewed ''include_uppercase_markdown'')) (\<lambda>upper.
     bindM (liftM (str_field reviewed ''migration_id'')) (\<lambda>i.
     plan_migration T root (truthy upper) ids (Some i)))"

definition check_expected :: "file_migration list \<Rightarrow> json \<Rightarrow> unit res" where
  "check_expected actuals expected =
     bindE (str_field expected ''source_path'') (\<lambda>p.
     case List.find (\<lambda>f. mig_path f = p) (rev actuals) of
       None \<Rightarrow> Inl (MigrationError (''source disappeared: '' @ p))
     | Some f \<Rightarrow>
         bindE (jidx expected ''before_sha256'') (\<lambda>b.
         bindE (raiseIf (\<not> pyeq (JStr (before_sha256 f)) b)
           (MigrationError (''source changed since review: '' @ p))) (\<lambda>_.
         bindE (jidx expected ''after_sha256'') (\<lambda>a.
         raiseIf (\<not> pyeq (JStr (after_sha256 f)) a)
           (MigrationError (''migration result differs from reviewed report: '' @ p))))))"

text \<open>\<open>shutil.copyfile\<close> of a source into the originals.\<close>

definition keep_original :: "path \<Rightarrow> path \<Rightarrow> file_migration \<Rightarrow> unit wprog" where
  "keep_original root originals f =
     (let snapshot = originals @ posix_parts (mig_path f)
      in bindM (make_dirs (butlast snapshot)) (\<lambda>_.
         bindM (askM (\<lambda>w. read_bytes w (root @ posix_parts (mig_path f)))) (\<lambda>c.
         put_file snapshot c)))"

definition put_back :: "path \<Rightarrow> path \<Rightarrow> string \<Rightarrow> unit wprog" where
  "put_back root originals p =
     bindM (askM (\<lambda>w. read_bytes w (originals @ posix_parts p))) (\<lambda>c.
     atomic_write (root @ posix_parts p) c)"

definition rewrite_file :: "toolbox \<Rightarrow> path \<Rightarrow> source_file list \<Rightarrow> proposals \<Rightarrow> file_migration \<Rightarrow> unit wprog" where
  "rewrite_file T root sources ids f =
     (case List.find (\<lambda>s. src_path s = mig_path f) (rev sources) of
        None \<Rightarrow> raiseM (KeyError (mig_path f))
      | Some sf \<Rightarrow>
          bindM (liftM (case map_of ids (mig_path f) of
             None \<Rightarrow> Inl (KeyError (mig_path f)) | Some i \<Rightarrow> Inr i)) (\<lambda>i.
          bindM (transform T root sf (Some i)) (\<lambda>(found, issues, rendered).
          case rendered of
            Some c \<Rightarrow> if issues \<noteq> [] then raiseM (MigrationError (''failed to render '' @ mig_path f))
              else atomic_write (root @ posix_parts (mig_path f)) c
          | None \<Rightarrow> raiseM (MigrationError (''failed to render '' @ mig_path f)))))"

text \<open>The loop with its \<open>except Exception\<close>: what was written is put back, then the exception goes on.\<close>

fun rewrite_all ::
  "(file_migration \<Rightarrow> unit wprog) \<Rightarrow> (string \<Rightarrow> unit wprog) \<Rightarrow> file_migration list \<Rightarrow> file_migration list \<Rightarrow> unit wprog" where
  "rewrite_all step undo [] written = retM ()"
| "rewrite_all step undo (f # fs) written =
     bindM (catchM (step f) (\<lambda>e. if not_crash e
         then Some (bindM (eachM (\<lambda>g. undo (mig_path g)) written) (\<lambda>_. raiseM e)) else None)) (\<lambda>_.
     rewrite_all step undo fs (written @ [f]))"

definition migration_home :: "path \<Rightarrow> string \<Rightarrow> path res" where
  "migration_home data i = beneath (data @ [''migrations'']) i"

definition keep_manifest :: "path \<Rightarrow> json \<Rightarrow> unit wprog" where
  "keep_manifest home reviewed =
     bindM utc_now (\<lambda>now.
     atomic_write (home @ [''manifest.json'']) (dumps_report (JObj (dmerge (obj_of reviewed)
       [(''applied_at'', JStr now), (''snapshot_root'', JStr (path_text (home @ [''originals''])))]))))"

text \<open>Everything before the first write: the report, the plan of the vault as it is now, their agreement.\<close>

definition reviewed_plan ::
  "toolbox \<Rightarrow> path \<Rightarrow> path \<Rightarrow> path \<Rightarrow> (json \<times> proposals \<times> migration_report \<times> path) wprog" where
  "reviewed_plan T report_path root data =
     bindM (askM (\<lambda>w. load_report w report_path)) (\<lambda>reviewed.
     bindM (askM (\<lambda>w. check_report w reviewed root)) (\<lambda>_.
     bindM (liftM (report_items reviewed)) (\<lambda>items.
     bindM (liftM (reviewed_ids items)) (\<lambda>ids.
     bindM (replan T reviewed ids root) (\<lambda>current_plan.
     bindM (liftM (raiseIf (report_errors current_plan \<noteq> [])
       (MigrationError ''vault validation now fails; regenerate the report''))) (\<lambda>_.
     bindM (liftM (eachE (check_expected (report_files current_plan)) items)) (\<lambda>_.
     bindM (liftM (str_field reviewed ''migration_id'')) (\<lambda>i.
     bindM (liftM (migration_home data i)) (\<lambda>home.
     retM (reviewed, ids, current_plan, home))))))))))"

definition keep_originals :: "path \<Rightarrow> path \<Rightarrow> json \<Rightarrow> file_migration list \<Rightarrow> unit wprog" where
  "keep_originals root home reviewed rewritten =
     bindM (failIf (\<lambda>w. exists_path w home)
       (MigrationError (''migration snapshot already exists: '' @ path_text home))) (\<lambda>_.
     bindM (make_dirs (home @ [''originals''])) (\<lambda>_.
     bindM (eachM (keep_original root (home @ [''originals''])) rewritten) (\<lambda>_.
     keep_manifest home reviewed)))"

definition apply_migration :: "toolbox \<Rightarrow> path \<Rightarrow> path \<Rightarrow> path \<Rightarrow> path wprog" where
  "apply_migration T report_path root data =
     bindM (reviewed_plan T report_path root data) (\<lambda>(reviewed, ids, current_plan, home).
     (let rewritten = filter changed (report_files current_plan)
      in bindM (keep_originals root home reviewed rewritten) (\<lambda>_.
         bindM (askM (\<lambda>w. discover_sources w root (include_uppercase current_plan))) (\<lambda>sources.
         bindM (rewrite_all (rewrite_file T root sources ids) (put_back root (home @ [''originals''])) rewritten []) (\<lambda>_.
         retM home)))))"

section \<open>Restoring\<close>

definition is_changed_item :: "json \<Rightarrow> bool res" where
  "is_changed_item v = bindE (jidx v ''changed'') (\<lambda>c. Inr (truthy c))"

definition moved_since :: "toolbox \<Rightarrow> world \<Rightarrow> path \<Rightarrow> json \<Rightarrow> string list res" where
  "moved_since T w root v =
     bindE (str_field v ''source_path'') (\<lambda>p.
     bindE (beneath root p) (\<lambda>home.
     if \<not> is_file w home then Inr [p]
     else bindE (jidx v ''after_sha256'') (\<lambda>a.
       bindE (read_bytes w home) (\<lambda>c. Inr (if \<not> pyeq (JStr (mig_sha T c)) a then [p] else [])))))"

definition changed_items :: "json list \<Rightarrow> json list res" where
  "changed_items items =
     bindE (mapE (\<lambda>v. bindE (is_changed_item v) (\<lambda>c. Inr (if c then [v] else []))) items) (\<lambda>vs. Inr (concat vs))"

definition restore_migration :: "toolbox \<Rightarrow> string \<Rightarrow> path \<Rightarrow> path \<Rightarrow> unit wprog" where
  "restore_migration T i root data =
     bindM (liftM (migration_home data i)) (\<lambda>home.
     bindM (failIf (\<lambda>w. \<not> is_file w (home @ [''manifest.json'']))
       (MigrationError (''migration manifest not found: '' @ path_text (home @ [''manifest.json''])))) (\<lambda>_.
     bindM (askM (\<lambda>w. load_report w (home @ [''manifest.json'']))) (\<lambda>manifest.
     bindM (liftM (jidx manifest ''vault_root'')) (\<lambda>r.
     bindM (askM (\<lambda>w. resolved_root w r)) (\<lambda>p.
     bindM (liftM (raiseIf (p \<noteq> root) (MigrationError ''migration snapshot belongs to a different vault''))) (\<lambda>_.
     bindM (liftM (report_items manifest)) (\<lambda>items.
     bindM (liftM (changed_items items)) (\<lambda>todo.
     bindM (askM (\<lambda>w. mapE (moved_since T w root) todo)) (\<lambda>moved.
     bindM (liftM (raiseIf (concat moved \<noteq> []) (MigrationError
       (''restore refused because migrated files changed afterward: '' @ join '', '' (concat moved))))) (\<lambda>_.
     bindM (liftM (mapE (\<lambda>v. str_field v ''source_path'') todo)) (\<lambda>ps.
     eachM (put_back root (home @ [''originals''])) ps)))))))))))"

end
