(* ===== verification/MigrationProps.thy ===== *)
theory MigrationProps
  imports Migration SnapshotProps
begin

text \<open>
  What a migration promises of the files of the vault: wherever an application breaks off nothing is
  lost, one that fails without a device error is undone, and one that ended can be restored.
\<close>

section \<open>Frames\<close>

text \<open>
  The contract of a frame: a relation between worlds that every write keeps to a path that is allowed.
  What it gives for the writes it gives for every step of a migration.
\<close>

definition original_at :: "path \<Rightarrow> string \<Rightarrow> path" where
  "original_at dir p = dir @ posix_parts p"

locale write_frame = step_preorder R for R :: "world \<Rightarrow> world \<Rightarrow> bool" +
  fixes allowed :: "path \<Rightarrow> bool" and dir_allowed :: "path \<Rightarrow> bool"
  assumes put_file_step: "allowed p \<Longrightarrow> keeps R (put_file p c)"
    and make_dirs_step: "dir_allowed p \<Longrightarrow> keeps R (make_dirs p)"
    and parent_allowed: "allowed p \<Longrightarrow> dir_allowed (butlast p)"
    and tick: "R w (w\<lparr>ticks := n\<rparr>)"
begin

lemma read_steps: "keeps R (askM f)" "keeps R utc_now" "keeps R (draw d)" "keeps R (failIf c e)"
  by (auto simp: keeps_def askM_def utc_now_def draw_def failIf_def R_refl tick)

lemmas steps = keeps_pure keeps_bind keeps_each put_file_step make_dirs_step parent_allowed read_steps
  keeps_if keeps_prod

lemma atomic_write_step: "allowed p \<Longrightarrow> keeps R (atomic_write p c)"
  unfolding atomic_write_def by (intro steps)

lemma choose_id_step: "keeps R (choose_id T p m)"
  unfolding choose_id_def by (auto intro!: steps split: yaml.splits option.splits list.splits)

lemma transform_step: "keeps R (transform T root sf p)"
proof -
  have "keeps R (transform_document T sf p original doc)" for original doc
    unfolding transform_document_def Let_def by (intro steps choose_id_step) (auto intro!: steps split: option.splits)
  then have "keeps R (transform_bytes T sf p original)" for original
    unfolding transform_bytes_def by (intro steps) (auto intro!: steps split: sum.splits exn.splits)
  then show ?thesis unfolding transform_def by (intro steps)
qed

lemma plan_files_step: "keeps R (plan_files T root ids sources P)"
proof (induction sources arbitrary: P)
  case (Cons sf sources)
  then show ?case by (auto simp: Let_def intro!: steps transform_step)
qed (simp add: steps)

lemma reviewed_plan_step: "keeps R (reviewed_plan T report_path root data)"
  unfolding reviewed_plan_def replan_def plan_migration_def
  by (intro steps plan_files_step) (auto intro!: steps split: option.splits list.splits)

lemma keep_original_step:
  "allowed (original_at originals (mig_path f)) \<Longrightarrow> keeps R (keep_original root originals f)"
  unfolding keep_original_def Let_def original_at_def by (intro steps)

lemma keep_manifest_step: "allowed (home @ [''manifest.json'']) \<Longrightarrow> keeps R (keep_manifest home reviewed)"
  unfolding keep_manifest_def by (intro steps atomic_write_step)

lemma keep_originals_step:
  assumes "dir_allowed (home @ [''originals''])" "allowed (home @ [''manifest.json''])"
    "\<And>f. f \<in> set fs \<Longrightarrow> allowed (original_at (home @ [''originals'']) (mig_path f))"
  shows "keeps R (keep_originals root home reviewed fs)"
  unfolding keep_originals_def using assms by (intro steps keep_manifest_step keep_original_step)

lemma rewrite_file_step:
  "allowed (original_at root (mig_path f)) \<Longrightarrow> keeps R (rewrite_file T root sources ids f)"
  unfolding rewrite_file_def original_at_def
  by (auto intro!: steps transform_step atomic_write_step split: option.splits)

lemma put_back_step: "allowed (original_at root p) \<Longrightarrow> keeps R (put_back root originals p)"
  unfolding put_back_def original_at_def by (intro steps atomic_write_step)

lemma rewrite_all_step:
  assumes "\<And>f. f \<in> set (fs @ ds) \<Longrightarrow> allowed (original_at root (mig_path f))"
  shows "keeps R (rewrite_all (rewrite_file T root sources ids) (put_back root originals) fs ds)"
  using assms
proof (induction fs arbitrary: ds)
  case (Cons f fs)
  have "keeps R (rewrite_all (rewrite_file T root sources ids) (put_back root originals) fs (ds @ [f]))"
    by (rule Cons.IH) (use Cons.prems in auto)
  with Cons.prems show ?case
    by (auto intro!: steps rewrite_file_step put_back_step keeps_catch split: if_splits)
qed (simp add: steps)

end

text \<open>A step that touches only files of a set, and removes none.\<close>

definition overwrites :: "path set \<Rightarrow> world \<Rightarrow> world \<Rightarrow> bool" where
  "overwrites S w w' \<longleftrightarrow>
     (\<forall>q. (q \<notin> S \<longrightarrow> file_at w' q = file_at w q) \<and> (file_at w q \<noteq> None \<longrightarrow> file_at w' q \<noteq> None))"

interpretation over: write_frame "overwrites S" "\<lambda>p. p \<in> S" "\<lambda>_. True" for S
  by unfold_locales
    (auto simp: overwrites_def keeps_def elim!: put_file_cases make_dirs_cases)

lemma overwrites_outside: "overwrites S w w' \<Longrightarrow> q \<notin> S \<Longrightarrow> file_at w' q = file_at w q"
  by (simp add: overwrites_def)

lemma overwrites_mono: "overwrites S w w' \<Longrightarrow> S \<subseteq> T \<Longrightarrow> overwrites T w w'"
  by (force simp: overwrites_def)

text \<open>A step that changes no symbolic link and leaves the nodes of a set as they were.\<close>

definition nodes_same :: "path set \<Rightarrow> world \<Rightarrow> world \<Rightarrow> bool" where
  "nodes_same S w u \<longleftrightarrow> (\<forall>q. is_symlink u q = is_symlink w q) \<and> (\<forall>q \<in> S. lstat u q = lstat w q)"

lemma below_prefix: "below p q \<longleftrightarrow> (\<exists>x. q = p @ x)"
proof
  assume "below p q"
  then have "q = p @ drop (length p) q" unfolding below_def by (metis append_take_drop_id)
  then show "\<exists>x. q = p @ x" ..
qed (auto simp: below_def)

lemma below_butlast: "below q (butlast p) \<Longrightarrow> below q p"
  by (cases p rule: rev_cases) (auto simp: below_prefix)

lemma nodes_added:
  "lstat (w\<lparr>tree := add_dirs p (tree w)\<rparr>) q =
     (case lstat w q of Some n \<Rightarrow> Some n | None \<Rightarrow> if q \<noteq> [] \<and> below q p then Some Dir else None)"
  by (simp add: lstat_def map_of_add_dirs)

lemma nodes_make_dirs:
  assumes "\<forall>q \<in> S. \<not> below q p"
  shows "keeps (nodes_same S) (make_dirs p)"
proof (rule keepsI)
  fix w r u assume "make_dirs p w = (r, u)"
  moreover have "nodes_same S w u" if "durable (add_dirs p) w = (r, u)"
    using that nodes_added [where w = w and p = p] assms
    by (cases rule: durable_cases) (auto simp: nodes_same_def is_symlink_def lstat_def split: option.splits node.splits)
  ultimately show "nodes_same S w u" by (auto simp: make_dirs_def nodes_same_def split: if_splits)
qed

lemma nodes_put_file:
  assumes "\<forall>q \<in> S. \<not> below q p"
  shows "keeps (nodes_same S) (put_file p c)"
proof (rule keepsI)
  fix w r u assume "put_file p c w = (r, u)"
  moreover have "nodes_same S w u"
    if "durable (\<lambda>t. AList.update p (put_node (File c) (map_of t p)) (add_dirs (butlast p) t)) w = (r, u)"
    using that
  proof (cases rule: durable_cases)
    case 1
    have "is_symlink u q = is_symlink w q" for q
      by (cases "lstat w p") (auto simp: 1 is_symlink_def lstat_def update_conv' map_of_add_dirs
          split: option.splits node.splits)
    moreover have "q \<noteq> p \<and> \<not> below q (butlast p)" if "q \<in> S" for q
      using that assms below_butlast by (auto simp: below_def)
    ultimately show ?thesis
      by (auto simp: nodes_same_def 1 lstat_def update_conv' map_of_add_dirs split: option.splits)
  qed (auto simp: nodes_same_def is_symlink_def lstat_def)
  ultimately show "nodes_same S w u" by (auto simp: put_file_def nodes_same_def split: if_splits)
qed

interpretation nodes: write_frame "nodes_same S" "\<lambda>p. \<forall>q \<in> S. \<not> below q p" "\<lambda>p. \<forall>q \<in> S. \<not> below q p" for S
proof
  fix p c assume "\<forall>q \<in> S. \<not> below q p"
  then show "keeps (nodes_same S) (put_file p c)" "keeps (nodes_same S) (make_dirs p)"
    by (rule nodes_put_file nodes_make_dirs)+
  show "\<forall>q \<in> S. \<not> below q (butlast p)" using \<open>\<forall>q \<in> S. \<not> below q p\<close> below_butlast by blast
qed (auto simp: nodes_same_def is_symlink_def lstat_def)

section \<open>The originals\<close>

definition apart :: "path \<Rightarrow> path \<Rightarrow> bool" where
  "apart p q \<longleftrightarrow> \<not> below p q \<and> \<not> below q p"

lemma apart_iff: "apart p q \<longleftrightarrow> (\<forall>x y. p @ x \<noteq> q @ y)"
proof
  assume "apart p q" then show "\<forall>x y. p @ x \<noteq> q @ y"
    by (auto simp: apart_def below_prefix append_eq_append_conv2)
next
  assume "\<forall>x y. p @ x \<noteq> q @ y"
  then have "q \<noteq> p @ x" "p \<noteq> q @ x" for x by (metis append_Nil2)+
  then show "apart p q" by (simp add: apart_def below_prefix)
qed

lemma apart_paths: "apart p q \<Longrightarrow> p @ x \<noteq> q @ y"
  by (simp add: apart_iff)

lemma apart_deeper: "apart p q \<Longrightarrow> apart p (q @ r)"
  by (simp add: apart_iff)

text \<open>The originals directory has, for every path of a list, the bytes that the vault had.\<close>

definition originals_kept :: "path \<Rightarrow> path \<Rightarrow> world \<Rightarrow> string list \<Rightarrow> world \<Rightarrow> bool" where
  "originals_kept root originals w ps u \<longleftrightarrow> (\<forall>p \<in> set ps. \<exists>c. file_at w (original_at root p) = Some c
     \<and> file_at u (original_at originals p) = Some c)"

lemma original_elsewhere: "apart root dir \<Longrightarrow> dir @ q \<notin> original_at root ` S"
  using apart_paths [of root dir _ q] by (auto simp: original_at_def) metis

lemma keep_original_kept:
  assumes "keep_original root originals f u = (Inr (), v)"
  obtains c where "file_at u (original_at root (mig_path f)) = Some c" "file_at v (original_at originals (mig_path f)) = Some c"
  using assms
  by (auto simp: keep_original_def Let_def bindM_eq_Inr askM_def read_bytes_file_at original_at_def
      elim!: make_dirs_cases put_file_cases split: option.splits)

lemma keep_each:
  assumes "eachM (keep_original root originals) fs u = (Inr (), v)" "apart root originals"
    "\<And>p. file_at u (original_at root p) = file_at w (original_at root p)"
  shows "originals_kept root originals w (map mig_path fs) v"
  using assms(1,3)
proof (induction fs arbitrary: u)
  case (Cons f fs)
  let ?p = "mig_path f" and ?S = "original_at originals ` set (map mig_path fs)"
  from Cons.prems(1) obtain u1 where s: "keep_original root originals f u = (Inr (), u1)"
    "eachM (keep_original root originals) fs u1 = (Inr (), v)" by (auto simp: bindM_eq_Inr)
  have "overwrites {original_at originals ?p} u u1" using over.keep_original_step s(1) by (rule keepsD) simp
  then have vault: "file_at u1 (original_at root p) = file_at w (original_at root p)" for p
    using Cons.prems(2) [of p] apart_paths [OF assms(2)] overwrites_outside
    by (metis original_at_def singletonD)
  note tail = Cons.IH [OF s(2) vault]
  obtain c where c: "file_at u (original_at root ?p) = Some c" "file_at u1 (original_at originals ?p) = Some c"
    using s(1) by (rule keep_original_kept)
  have "overwrites ?S u1 v"
    using _ s(2) by (rule over.keeps_each [THEN keepsD]) (simp add: over.keep_original_step)
  then have "original_at originals ?p \<notin> ?S \<Longrightarrow> file_at v (original_at originals ?p) = Some c"
    using c(2) by (simp add: overwrites_outside)
  moreover have "file_at v (original_at originals ?p) = Some c" if "original_at originals ?p \<in> ?S"
  proof -
    from that obtain g where "g \<in> set fs" "posix_parts (mig_path g) = posix_parts ?p"
      by (auto simp: original_at_def)
    with tail c(1) Cons.prems(2) [of ?p] show ?thesis by (auto simp: originals_kept_def original_at_def)
  qed
  ultimately show ?case using tail c(1) Cons.prems(2) [of ?p] by (auto simp: originals_kept_def)
qed (simp add: originals_kept_def)

lemma over_keep_originals: "keeps (overwrites {q. below home q}) (keep_originals root home reviewed fs)"
  by (rule over.keep_originals_step) (auto simp: below_prefix original_at_def)

lemma keep_originals_kept:
  assumes "keep_originals root home reviewed fs u = (Inr (), v)" "apart root home"
  shows "originals_kept root (home @ [''originals'']) u (map mig_path fs) v"
proof -
  let ?o = "home @ [''originals'']"
  from assms(1) obtain u1 u2 u3 where s: "failIf (\<lambda>w. exists_path w home)
      (MigrationError (''migration snapshot already exists: '' @ path_text home)) u = (Inr (), u1)"
    "make_dirs ?o u1 = (Inr (), u2)" "eachM (keep_original root ?o) fs u2 = (Inr (), u3)" "keep_manifest home reviewed u3 = (Inr (), v)"
    by (auto simp: keep_originals_def bindM_eq_Inr)
  have "overwrites {} u u2" using keepsD [OF over.read_steps(4) s(1)] keepsD [OF over.make_dirs_step [OF TrueI] s(2)]
    by (rule over.R_trans)
  then have "originals_kept root ?o u (map mig_path fs) u3"
    by (intro keep_each [OF s(3)] apart_deeper assms(2)) (simp add: overwrites_outside)
  moreover have "overwrites {home @ [''manifest.json'']} u3 v" using over.keep_manifest_step s(4) by (rule keepsD) simp
  ultimately show ?thesis by (auto simp: originals_kept_def overwrites_def original_at_def)
qed

lemma reviewed_plan_home:
  assumes "reviewed_plan T report_path root data w = (Inr (reviewed, ids, current_plan, home), w1)"
  obtains p where "home = data @ [''migrations''] @ p" "p \<noteq> []"
  using assms
  by (auto simp: reviewed_plan_def bindM_eq_Inr migration_home_def beneath_def split: if_splits)

text \<open>Where an application ends: before it wrote into the vault, or in the rewriting loop.\<close>

lemma apply_cases [consumes 2, case_names before rewriting]:
  assumes "apply_migration T report_path root data w = (r, w')" "apart root data"
  obtains "isl r" "overwrites {q. below data q} w w'"
  | reviewed ids current_plan home w1 fs u sources x where
    "reviewed_plan T report_path root data w = (Inr (reviewed, ids, current_plan, home), w1)"
    "fs = filter changed (report_files current_plan)"
    "keep_originals root home reviewed fs w1 = (Inr (), u)" "overwrites {} w w1" "overwrites {q. below data q} w u"
    "discover_sources u root (include_uppercase current_plan) = Inr sources"
    "rewrite_all (rewrite_file T root sources ids) (put_back root (home @ [''originals''])) fs [] u = (x, w')"
    "r = map_sum (\<lambda>e. e) (\<lambda>_. home) x"
  using assms(1) unfolding apply_migration_def
proof (cases rule: bindM_cases)
  case (fails e)
  show ?thesis using fails over.reviewed_plan_step [THEN keepsD, OF fails(1)] by (intro that(1)) simp_all
next
  case (continues plan w1)
  obtain reviewed ids current_plan home where plan: "plan = (reviewed, ids, current_plan, home)" by (cases plan) auto
  let ?fs = "filter changed (report_files current_plan)"
  from continues(1) have first: "overwrites {} w w1" by (rule over.reviewed_plan_step [THEN keepsD])
  obtain p where home: "home = data @ [''migrations''] @ p"
    using continues(1) unfolding plan by (rule reviewed_plan_home)
  have data: "overwrites {q. below data q} w v" if "keep_originals root home reviewed ?fs w1 = (k, v)" for k v
  proof -
    from that have "overwrites {q. below home q} w1 v" by (rule over_keep_originals [THEN keepsD])
    then have "overwrites {q. below data q} w1 v" by (rule overwrites_mono) (auto simp: home below_prefix)
    with first show ?thesis by (blast intro: over.R_trans overwrites_mono)
  qed
  from continues(2) show ?thesis unfolding plan prod.case Let_def
  proof (cases rule: bindM_cases)
    case (fails e)
    with data show ?thesis by (intro that(1)) auto
  next
    case kept: (continues k u)
    show ?thesis
    proof (cases "discover_sources u root (include_uppercase current_plan)")
      case (Inl e)
      with kept data show ?thesis by (intro that(1)) (auto simp: bindM_def askM_def)
    next
      case (Inr sources)
      obtain x v where x: "rewrite_all (rewrite_file T root sources ids) (put_back root (home @ [''originals''])) ?fs [] u = (x, v)"
        by fastforce
      with kept(2) Inr have "r = map_sum (\<lambda>e. e) (\<lambda>_. home) x" "v = w'"
        by (auto simp: bindM_def askM_def split: sum.splits)
      with x Inr kept(1) first data [OF kept(1)] continues(1) plan show ?thesis by (intro that(2)) auto
    qed
  qed
qed

lemma rewriting_kept:
  assumes "reviewed_plan T report_path root data w = (Inr (reviewed, ids, current_plan, home), w1)"
    "keep_originals root home reviewed fs w1 = (Inr (), u)" "overwrites {} w w1" "apart root data"
  shows "apart root (home @ [''originals''])" "originals_kept root (home @ [''originals'']) w (map mig_path fs) u"
proof -
  obtain p where "home = data @ [''migrations''] @ p" using assms(1) by (rule reviewed_plan_home)
  then have home: "apart root home" using assms(4) apart_deeper by blast
  then show "apart root (home @ [''originals''])" by (rule apart_deeper)
  show "originals_kept root (home @ [''originals'']) w (map mig_path fs) u"
    using keep_originals_kept [OF assms(2) home] assms(3) by (simp add: originals_kept_def overwrites_def)
qed

text \<open>C19: an application loses nothing: wherever it breaks off, and whatever the report says, every file of the vault
  is there, and has its bytes of before or has them in the originals directory of a migration.\<close>

theorem migration_loses_nothing:
  assumes "apply_migration T report_path root data w = (r, w')" "apart root data" "file_at w (root @ q) = Some c"
  shows "file_at w' (root @ q) \<noteq> None \<and> (file_at w' (root @ q) = Some c
    \<or> (\<exists>p. file_at w' (data @ [''migrations''] @ p @ [''originals''] @ q) = Some c))"
  using assms(1,2)
proof (cases rule: apply_cases)
  case before
  have "root @ q \<notin> {q. below data q}" using assms(2) by (simp add: below_prefix apart_paths)
  with before assms(3) show ?thesis by (simp add: overwrites_outside)
next
  case (rewriting reviewed ids current_plan home w1 fs u sources x)
  obtain p where p: "home = data @ [''migrations''] @ p" using rewriting(1) by (rule reviewed_plan_home)
  let ?o = "home @ [''originals'']" and ?S = "original_at root ` set (map mig_path fs)"
  note k = rewriting_kept [OF rewriting(1,3,4) assms(2)]
  have loop: "overwrites ?S u w'"
    using _ rewriting(7) by (rule over.rewrite_all_step [THEN keepsD]) auto
  have start: "file_at u (root @ q) = Some c"
    using overwrites_outside [OF rewriting(5), of "root @ q"] assms(2,3) by (simp add: below_prefix apart_paths)
  show ?thesis
  proof (cases "root @ q \<in> ?S")
    case True
    then obtain p' where "p' \<in> set (map mig_path fs)" "q = posix_parts p'" by (auto simp: original_at_def)
    with k(2) assms(3) have "file_at u (?o @ q) = Some c" by (auto simp: originals_kept_def original_at_def)
    moreover have "?o @ q \<notin> ?S" using k(1) by (rule original_elsewhere)
    ultimately have "file_at w' (?o @ q) = Some c" using loop by (simp add: overwrites_outside)
    with loop start p show ?thesis by (auto simp: overwrites_def)
  next
    case False
    with loop start show ?thesis by (simp add: overwrites_outside)
  qed
qed

section \<open>The undo\<close>

lemma each_map: "eachM (\<lambda>x. f (g x)) xs = eachM f (map g xs)"
  by (induction xs) simp_all

text \<open>A failing device, or the loss of the process.\<close>

definition device_failure :: "exn \<Rightarrow> bool" where
  "device_failure e \<longleftrightarrow> is_os_error e \<or> e = Crash"

lemma atomic_write_cases [consumes 1, case_names written failed]:
  assumes "atomic_write p c u = (r, v)"
  obtains "r = Inr ()" "\<And>q. file_at v q = (if q = p then Some c else file_at u q)"
  | e where "r = Inl e" "device_failure e" "\<And>q. file_at v q = file_at u q"
  using assms unfolding atomic_write_def
proof (cases rule: bindM_cases)
  case (fails e)
  from fails(1) show thesis
    by (cases rule: make_dirs_cases) (use that(2) fails(2) in \<open>auto simp: device_failure_def\<close>)
next
  case (continues k u1)
  from continues(1) have "file_at u1 q = file_at u q" for q by (cases rule: make_dirs_cases) simp_all
  with continues(2) show thesis
    by (cases rule: put_file_cases) (use that in \<open>auto simp: device_failure_def\<close>)
qed

lemma put_back_cases [consumes 2, case_names written failed]:
  assumes "put_back root originals p u = (r, v)" "file_at u (original_at originals p) = Some c"
  obtains "r = Inr ()" "\<And>q. file_at v q = (if q = original_at root p then Some c else file_at u q)"
  | e where "r = Inl e" "device_failure e" "\<And>q. file_at v q = file_at u q"
proof -
  from assms have "atomic_write (original_at root p) c u = (r, v)"
    by (simp add: put_back_def original_at_def bindM_def askM_def read_bytes_file_at)
  then show thesis by (cases rule: atomic_write_cases) (use that in blast)+
qed

lemma kept_overwrites:
  assumes "originals_kept root originals w ps u" "overwrites (original_at root ` S) u v" "apart root originals"
  shows "originals_kept root originals w ps v"
  using assms(1) overwrites_outside [OF assms(2)] original_elsewhere [OF assms(3), of _ S]
  by (auto simp: originals_kept_def original_at_def)

lemma put_back_each:
  assumes "eachM (put_back root originals) ps u = (r, v)" "originals_kept root originals w ps u" "apart root originals"
  shows "(r = Inr () \<and> (\<forall>q. file_at v q = (if q \<in> original_at root ` set ps then file_at w q else file_at u q)))
    \<or> (\<exists>e. r = Inl e \<and> device_failure e)"
  using assms(1,2)
proof (induction ps arbitrary: u)
  case (Cons p ps)
  from Cons.prems(2) obtain c where c: "file_at w (original_at root p) = Some c" "file_at u (original_at originals p) = Some c"
    by (auto simp: originals_kept_def)
  from Cons.prems(1) have "bindM (put_back root originals p) (\<lambda>_. eachM (put_back root originals) ps) u = (r, v)" by simp
  then show ?case
  proof (cases rule: bindM_cases)
    case (fails e)
    from fails(1) c(2) show ?thesis by (cases rule: put_back_cases) (use fails(2) in auto)
  next
    case (continues k u1)
    have "overwrites (original_at root ` {p}) u u1" using over.put_back_step continues(1) by (rule keepsD) simp
    then have "originals_kept root originals w ps u1"
      using Cons.prems(2) assms(3) kept_overwrites [of root originals w ps u "{p}" u1] by (simp add: originals_kept_def)
    note tail = Cons.IH [OF continues(2) this]
    from continues(1) c(2) have "file_at u1 q = (if q = original_at root p then Some c else file_at u q)" for q
      by (cases rule: put_back_cases) simp_all
    with tail c(1) show ?thesis by auto
  qed
qed simp

lemma rewrite_file_failed:
  assumes "rewrite_file T root sources ids f u = (Inl e, v)"
  shows "file_at v q = file_at u q"
proof (cases "List.find (\<lambda>s. src_path s = mig_path f) (rev sources)")
  case None
  with assms show ?thesis by (simp add: rewrite_file_def)
next
  case (Some sf)
  have same: "transform T root sf p u = (r, u1) \<Longrightarrow> file_at u1 q = file_at u q" for p r u1
    using keepsD [OF over.transform_step, of T root sf p u r u1 "{}"] by (simp add: overwrites_outside)
  from assms Some show ?thesis
    by (auto simp: rewrite_file_def bindM_eq_Inl same split: option.splits if_splits elim!: atomic_write_cases)
qed

lemma rewrite_all_undone:
  assumes "rewrite_all (rewrite_file T root sources ids) (put_back root originals) fs ds u = (Inl e, v)"
    "\<not> device_failure e" "originals_kept root originals w (map mig_path (ds @ fs)) u" "apart root originals"
    "\<And>q. root @ q \<notin> original_at root ` set (map mig_path ds) \<Longrightarrow> file_at u (root @ q) = file_at w (root @ q)"
  shows "file_at v (root @ q) = file_at w (root @ q)"
  using assms(1,3,5)
proof (induction fs arbitrary: ds u)
  case (Cons f fs)
  let ?rewrite = "rewrite_file T root sources ids" and ?undo = "put_back root originals"
  obtain r u1 where f: "?rewrite f u = (r, u1)" by fastforce
  show ?case
  proof (cases r)
    case (Inr x)
    with f Cons.prems(1) have tail: "rewrite_all ?rewrite ?undo fs (ds @ [f]) u1 = (Inl e, v)"
      by (simp add: bindM_def catchM_def)
    have over: "overwrites (original_at root ` {mig_path f}) u u1" using over.rewrite_file_step f by (rule keepsD) simp
    have "originals_kept root originals w (map mig_path ((ds @ [f]) @ fs)) u1"
      using kept_overwrites [OF Cons.prems(2) over assms(4)] by simp
    with tail show ?thesis
    proof (rule Cons.IH)
      fix q assume "root @ q \<notin> original_at root ` set (map mig_path (ds @ [f]))"
      with Cons.prems(3) [of q] overwrites_outside [OF over, of "root @ q"] show "file_at u1 (root @ q) = file_at w (root @ q)"
        by simp
    qed
  next
    case (Inl e')
    have same: "file_at u1 q = file_at u q" for q using f [unfolded Inl] by (rule rewrite_file_failed)
    have "not_crash e'" using Cons.prems(1) f Inl assms(2)
      by (auto simp: bindM_def catchM_def device_failure_def not_crash_def split: if_splits)
    with f Inl Cons.prems(1) have "bindM (eachM (\<lambda>g. ?undo (mig_path g)) ds) (\<lambda>_. raiseM e') u1 = ((Inl e :: exn + unit), v)"
      by (auto simp: bindM_def catchM_def split: prod.splits sum.splits)
    moreover obtain k u2 where undo: "eachM ?undo (map mig_path ds) u1 = (k, u2)" by fastforce
    ultimately have k: "k = Inr () \<Longrightarrow> v = u2" "\<And>d. k = Inl d \<Longrightarrow> e = d"
      by (auto simp: bindM_def each_map)
    have "originals_kept root originals w (map mig_path ds) u1" using Cons.prems(2) by (auto simp: originals_kept_def same)
    from put_back_each [OF undo this assms(4)] k assms(2) Cons.prems(3) [of q] show ?thesis
      by (auto simp: same)
  qed
qed simp

text \<open>C21: an application that fails for another reason than the device leaves every file of the vault as it was.\<close>

theorem failed_migration_undone:
  assumes "apply_migration T report_path root data w = (Inl e, w')" "apart root data" "\<not> device_failure e"
  shows "file_at w' (root @ q) = file_at w (root @ q)"
  using assms(1,2)
proof (cases rule: apply_cases)
  case before
  then show ?thesis using assms(2) by (simp add: overwrites_outside below_prefix apart_paths)
next
  case (rewriting reviewed ids current_plan home w1 fs u sources x)
  note k = rewriting_kept [OF rewriting(1,3,4) assms(2)]
  have "x = Inl e" using rewriting(8) by (cases x) simp_all
  moreover have "file_at u (root @ p) = file_at w (root @ p)" for p
    using overwrites_outside [OF rewriting(5), of "root @ p"] assms(2) by (simp add: below_prefix apart_paths)
  ultimately show ?thesis
    using rewrite_all_undone [where ds = "[]" and u = u and v = w' and e = e and w = w, OF _ assms(3) _ k(1)]
      rewriting(7) k(2) by (metis append_Nil)
qed

section \<open>A sample vault\<close>

text \<open>A report that names \<open>a.md\<close> alone, and vaults with the files of a list.\<close>

definition sample_toolbox :: toolbox where
  "sample_toolbox = \<lparr>mig_yaml = \<lparr>yaml_load = \<lambda>s. Inr YNull, yaml_dump = \<lambda>m. ''id: x'' @ [CHR 0x0A]\<rparr>,
     mig_sha = \<lambda>s. s, mig_uuid = \<lambda>n. ''u''\<rparr>"

definition migrated_text :: string where
  "migrated_text = fence @ [CHR 0x0A] @ ''id: x'' @ [CHR 0x0A] @ fence @ [CHR 0x0A] @ ''hi''"

definition reviewed_report :: json where
  "reviewed_report = JObj [(''schema_version'', JInt 1), (''migration_id'', JStr ''m''), (''vault_root'', JStr ''/v''),
     (''include_uppercase_markdown'', JBool False), (''summary'', JObj [(''errors'', JInt 0)]),
     (''files'', JList [JObj [(''source_path'', JStr ''a.md''), (''before_sha256'', JStr ''hi''),
        (''after_sha256'', JStr migrated_text), (''proposed_id'', JStr ''x''), (''changed'', JBool True)]])]"

definition vault_world :: "string list \<Rightarrow> world" where
  "vault_world names = \<lparr>tree = [([''v''], Dir), ([''d''], Dir), ([''r''], File (dumps_report reviewed_report))]
       @ map (\<lambda>n. ([''v'', n], File ''hi'')) names,
     faults = [], holders = [], clock = (\<lambda>n. ''now''), ticks = 0, pid = 1\<rparr>"

definition sample_apply :: "string list \<Rightarrow> (exn + path) \<times> world" where
  "sample_apply names = apply_migration sample_toolbox [''r''] [''v''] [''d''] (vault_world names)"

lemma sample_apart: "apart [''v''] [''d'']"
  by code_simp

lemma vault_world_file:
  "file_at (vault_world [''a.md'']) ([''v''] @ [''a.md'']) = Some ''hi''"
  "file_at (vault_world [''a.md'', ''b.md'']) ([''v''] @ [''a.md'']) = Some ''hi''"
  by (simp_all add: file_at_def stat_def lstat_def vault_world_def)

lemma sample_migrated: "fst (sample_apply [''a.md'']) = Inr [''d'', ''migrations'', ''m'']"
  by code_simp

text \<open>A file that came into the vault after the review: the loop has rewritten one file when it fails.\<close>

lemma sample_stopped: "fst (sample_apply [''a.md'', ''b.md'']) = Inl (KeyError ''b.md'')"
  by code_simp

theorem migration_loses_nothing_witness:
  "file_at (snd (sample_apply [''a.md''])) ([''v''] @ [''a.md'']) \<noteq> None
    \<and> (file_at (snd (sample_apply [''a.md''])) ([''v''] @ [''a.md'']) = Some ''hi''
      \<or> (\<exists>p. file_at (snd (sample_apply [''a.md''])) ([''d''] @ [''migrations''] @ p @ [''originals''] @ [''a.md'']) = Some ''hi''))"
  by (rule migration_loses_nothing [of sample_toolbox "[''r'']" "[''v'']" "[''d'']" "vault_world [''a.md'']"
        "fst (sample_apply [''a.md''])"])
    (simp add: sample_apply_def, rule sample_apart, rule vault_world_file(1))

theorem failed_migration_undone_witness:
  "fst (sample_apply [''a.md'', ''b.md'']) = Inl (KeyError ''b.md'')
    \<and> file_at (snd (sample_apply [''a.md'', ''b.md''])) ([''v''] @ [''a.md'']) = Some ''hi''"
proof -
  obtain w' where w': "sample_apply [''a.md'', ''b.md''] = (Inl (KeyError ''b.md''), w')"
    using sample_stopped by (metis prod.collapse)
  with failed_migration_undone [of sample_toolbox "[''r'']" "[''v'']" "[''d'']" "vault_world [''a.md'', ''b.md'']"
      "KeyError ''b.md''" w' "[''a.md'']"] sample_apart vault_world_file(2)
  show ?thesis by (simp add: sample_apply_def device_failure_def)
qed

end
