(* ===== verification/MigrationRoundtrip.thy ===== *)
theory MigrationRoundtrip
  imports MigrationProps
begin

text \<open>
  Applying a reviewed migration and restoring it gives the vault back: the sources of the plan are the
  sources of the rewriting loop, what is written is what was reviewed, and the manifest reads back.
\<close>

section \<open>The sources\<close>

text \<open>The names below the root are names that a file system has.\<close>

definition plain_vault :: "world \<Rightarrow> path \<Rightarrow> bool" where
  "plain_vault w root \<longleftrightarrow> list_all (\<lambda>e. below root (fst e) \<longrightarrow>
     list_all (\<lambda>n. plain_part n \<and> n \<noteq> ''..'') (drop (length root) (fst e))) (tree w)"

lemma children_iff: "n \<in> set (children w p) \<longleftrightarrow> lstat w (p @ [n]) \<noteq> None"
proof -
  have "q \<noteq> [] \<and> butlast q = p \<and> last q = n \<longleftrightarrow> q = p @ [n]" for q
    by (cases q rule: rev_cases) auto
  then show ?thesis
    by (force simp: children_def lstat_def map_of_eq_None_iff)
qed

lemma children_same:
  assumes "\<And>n. lstat u (p @ [n]) = lstat w (p @ [n])"
  shows "children u p = children w p"
proof -
  have "set (children u p) = set (children w p)" using assms by (auto simp: children_iff)
  then show ?thesis unfolding children_def by (intro sorted_set_cong) (simp only: sorted_set_props)
qed

lemma discover_same:
  assumes "nodes_same {q. below root q} w u"
  shows "discover_sources u root upper = discover_sources w root upper"
proof -
  have link: "is_symlink u q = is_symlink w q" for q using assms by (simp add: nodes_same_def)
  then have through: "through_link u = through_link w" by (intro ext) (simp add: through_link_def)
  have node: "lstat u (root @ q) = lstat w (root @ q)" for q
    using assms by (auto simp: nodes_same_def below_prefix)
  have kind: "is_file u (root @ q) = is_file w (root @ q)" "is_dir u (root @ q) = is_dir w (root @ q)" for q
    by (simp_all add: is_file_def is_dir_def stat_def node)
  have names: "children u (root @ d) = children w (root @ d)" for d
    using node [of "d @ [_]"] by (intro children_same) simp
  have "sources_in u root (root @ d) k upper = sources_in w root (root @ d) k upper" for d k
    using kind(1) [of "d @ [_]"] by (simp add: sources_in_def normalize_source_path_def through names)
  from this [of "[]"] this [of "[''Categories'']"] kind(2) [of "[]"] kind(2) [of "[''Categories'']"] show ?thesis
    by (simp add: discover_sources_def through link Let_def)
qed

definition good_name :: "string \<Rightarrow> bool" where
  "good_name p \<longleftrightarrow> \<not> startswith p ''/'' \<and> ''..'' \<notin> set (posix_parts p) \<and> posix_parts p \<noteq> []"

lemma good_name_beneath: "good_name p \<Longrightarrow> beneath dir p = Inr (original_at dir p)"
  by (simp add: good_name_def beneath_def original_at_def)

lemma child_plain:
  assumes "plain_vault w root" "n \<in> set (children w (root @ d))"
  shows "plain_part n \<and> n \<noteq> ''..''"
proof -
  from assms(2) obtain x where "map_of (tree w) (root @ d @ [n]) = Some x" by (auto simp: children_iff lstat_def)
  then have "(root @ d @ [n], x) \<in> set (tree w)" by (rule map_of_SomeD)
  with assms(1) show ?thesis by (auto simp: plain_vault_def list_all_iff below_prefix)
qed

lemma sources_in_paths:
  assumes "sources_in w root (root @ d) k upper = Inr ss" "plain_vault w root"
    "\<forall>n \<in> set d. plain_part n \<and> n \<noteq> ''..''"
  shows "distinct (map (\<lambda>s. posix_parts (src_path s)) ss)
    \<and> (\<forall>s \<in> set ss. good_name (src_path s) \<and> length (posix_parts (src_path s)) = Suc (length d))"
proof -
  let ?ns = "filter (\<lambda>n. is_file w (root @ d @ [n]) \<and> is_markdown n upper) (children w (root @ d))"
  from assms(1) have pairs: "list_all2 (\<lambda>n s. src_path s = join ''/'' (d @ [n])) ?ns ss"
    by (auto simp: sources_in_def mapE_Inr normalize_source_path_def relative_posix_def bindE_eq_Inr bindE_raiseIf
        elim!: list_all2_mono)
  have name: "posix_parts (join ''/'' (d @ [n])) = d @ [n] \<and> good_name (join ''/'' (d @ [n]))" if "n \<in> set ?ns" for n
  proof -
    have plain: "\<forall>p \<in> set (d @ [n]). plain_part p \<and> p \<noteq> ''..''" using that assms(3) child_plain [OF assms(2)] by auto
    then have "posix_parts (join ''/'' (d @ [n])) = d @ [n]" by (intro posix_parts_join) auto
    moreover have "\<not> startswith (join ''/'' (d @ [n])) ''/''" using plain by (intro join_no_lead) auto
    ultimately show ?thesis using plain by (auto simp: good_name_def)
  qed
  from pairs have "map src_path ss = map (\<lambda>n. join ''/'' (d @ [n])) ?ns"
    by (induction rule: list_all2_induct) simp_all
  note eq = this
  have paths: "map (\<lambda>s. posix_parts (src_path s)) ss = map (\<lambda>n. posix_parts (join ''/'' (d @ [n]))) ?ns"
    using arg_cong [OF eq, of "map posix_parts"] by (simp add: comp_def)
  have "set (map src_path ss) = set (map (\<lambda>n. join ''/'' (d @ [n])) ?ns)" by (simp only: eq)
  then have names: "src_path ` set ss = (\<lambda>n. join ''/'' (d @ [n])) ` set ?ns" by (simp only: set_map)
  have "map (\<lambda>n. posix_parts (join ''/'' (d @ [n]))) ?ns = map (\<lambda>n. d @ [n]) ?ns"
    by (rule map_cong [OF refl]) (use name in blast)
  moreover have "distinct ?ns" by (simp add: children_def sorted_set_def)
  ultimately have "distinct (map (\<lambda>s. posix_parts (src_path s)) ss)"
    using paths by (simp add: distinct_map inj_on_def)
  moreover have "good_name (src_path s) \<and> length (posix_parts (src_path s)) = Suc (length d)" if "s \<in> set ss" for s
  proof -
    from that names obtain n where "n \<in> set ?ns" "src_path s = join ''/'' (d @ [n])" by blast
    with name show ?thesis by simp
  qed
  ultimately show ?thesis by blast
qed

lemma discover_paths:
  assumes "discover_sources w root upper = Inr ss" "plain_vault w root"
  shows "distinct (map (\<lambda>s. posix_parts (src_path s)) ss) \<and> (\<forall>s \<in> set ss. good_name (src_path s))"
proof -
  from assms(1) obtain ks cs where s: "sources_in w root root ''knowledge'' upper = Inr ks"
    "(if is_dir w (root @ [''Categories'']) then sources_in w root (root @ [''Categories'']) ''category'' upper else Inr []) = Inr cs"
    "ss = sort_key (\<lambda>s. casefold (src_path s)) (ks @ cs)"
    by (auto simp: discover_sources_def Let_def bindE_eq_Inr bindE_raiseIf)
  have k: "distinct (map (\<lambda>s. posix_parts (src_path s)) ks)
    \<and> (\<forall>s \<in> set ks. good_name (src_path s) \<and> length (posix_parts (src_path s)) = Suc 0)"
    using sources_in_paths [of w root "[]"] s(1) assms(2) by simp
  have c: "distinct (map (\<lambda>s. posix_parts (src_path s)) cs)
    \<and> (\<forall>s \<in> set cs. good_name (src_path s) \<and> length (posix_parts (src_path s)) = Suc (Suc 0))"
    using sources_in_paths [of w root "[''Categories'']"] s(2) assms(2) by (auto simp: plain_part_def split: if_splits)
  have "posix_parts (src_path a) \<noteq> posix_parts (src_path b)" if "a \<in> set ks" "b \<in> set cs" for a b
    using k c that by force
  then have "distinct (map (\<lambda>s. posix_parts (src_path s)) (ks @ cs))" using k c by force
  then have "distinct (map (\<lambda>s. posix_parts (src_path s)) ss)"
    by (simp only: s(3) distinct_map distinct_sort set_sort)
  moreover have "set ss = set ks \<union> set cs" by (simp add: s(3))
  ultimately show ?thesis using k c by blast
qed

section \<open>The plan and what is written\<close>

text \<open>With an identifier proposed, a transformation depends on the bytes of its file alone.\<close>

lemma transform_reads:
  assumes "file_at u (original_at root (src_path sf)) = file_at v (original_at root (src_path sf))" "i \<noteq> []"
  shows "fst (transform T root sf (Some i) u) = fst (transform T root sf (Some i) v)"
proof -
  obtain c cs where "i = c # cs" using assms(2) by (cases i) auto
  then have choice: "choose_id T (Some i) m = liftM (fst (choose_id T (Some i) m u))" for m
    by (intro ext) (simp add: choose_id_def split: yaml.splits)
  have doc: "fst (transform_document T sf (Some i) original doc u) = fst (transform_document T sf (Some i) original doc v)"
    for original doc
    unfolding transform_document_def by (subst (1 2) choice)
      (auto simp: bindM_liftM Let_def split: sum.splits option.splits)
  have "fst (transform_bytes T sf (Some i) original u) = fst (transform_bytes T sf (Some i) original v)" for original
    by (auto simp: transform_bytes_def bindM_liftM doc split: sum.split exn.split)
  with assms(1) show ?thesis
    by (simp add: transform_def bindM_def askM_def read_bytes_file_at original_at_def split: option.split)
qed

text \<open>What a transformation that found something tells.\<close>

lemma transform_found:
  assumes "transform T root sf p u = (Inr (found, issues, rendered), v)" "found \<noteq> None \<or> rendered \<noteq> None"
  obtains f c out where "found = Some f" "rendered = Some out" "mig_path f = src_path sf" "after_sha256 f = mig_sha T out"
    "file_at u (original_at root (src_path sf)) = Some c" "before_sha256 f = mig_sha T c"
proof -
  from assms(1) obtain c where c: "file_at u (original_at root (src_path sf)) = Some c"
    "transform_bytes T sf p c u = (Inr (found, issues, rendered), v)"
    by (auto simp: transform_def bindM_eq_Inr askM_def read_bytes_file_at original_at_def split: option.splits)
  have "\<exists>doc. transform_document T sf p c doc u = (Inr (found, issues, rendered), v)"
  proof (cases "valid_utf8 c")
    case True
    with c(2) obtain decoded where "(case parse_markdown (mig_yaml T) decoded of
        Inl (FrontmatterError m) \<Rightarrow> retM (source_error sf ''malformed-frontmatter'' m) | Inl e \<Rightarrow> raiseM e
      | Inr doc \<Rightarrow> transform_document T sf p c doc) u = (Inr (found, issues, rendered), v)"
      by (auto simp: transform_bytes_def bindM_eq_Inr)
    with assms(2) show ?thesis
      by (cases "parse_markdown (mig_yaml T) decoded") (auto simp: source_error_def split: exn.splits)
  qed (use c(2) assms(2) in \<open>auto simp: transform_bytes_def source_error_def\<close>)
  then obtain doc where "transform_document T sf p c doc u = (Inr (found, issues, rendered), v)" ..
  with assms(2) have "\<exists>f out. found = Some f \<and> rendered = Some out \<and> mig_path f = src_path sf
      \<and> after_sha256 f = mig_sha T out \<and> before_sha256 f = mig_sha T c"
    by (auto simp: transform_document_def bindM_eq_Inr Let_def source_error_def migrated_def split: option.splits prod.splits)
  with c(1) that show thesis by blast
qed

text \<open>A planned file comes from a source, transformed on the vault of the start.\<close>

definition planned_from :: "toolbox \<Rightarrow> path \<Rightarrow> proposals \<Rightarrow> world \<Rightarrow> source_file \<Rightarrow> file_migration \<Rightarrow> bool" where
  "planned_from T root ids w sf f \<longleftrightarrow> (\<exists>u v issues rendered. overwrites {} w u
     \<and> transform T root sf (map_of ids (src_path sf)) u = (Inr (Some f, issues, rendered), v))"

lemma planned_add: "planned (add_planned sf f P) = planned P @ [f]"
  by (simp add: add_planned_def split: option.splits)

lemma plan_files_from:
  assumes "plan_files T root ids ss P u = (Inr P', u')" "overwrites {} w u"
  shows "\<exists>fs. planned P' = planned P @ fs \<and> (\<forall>f \<in> set fs. \<exists>sf \<in> set ss. planned_from T root ids w sf f)
    \<and> (distinct (map (\<lambda>s. posix_parts (src_path s)) ss) \<longrightarrow> distinct (map (\<lambda>f. posix_parts (mig_path f)) fs))"
  using assms
proof (induction ss arbitrary: P u)
  case (Cons sf ss)
  from Cons.prems(1) obtain found issues rendered u1 where t:
    "transform T root sf (map_of ids (src_path sf)) u = (Inr (found, issues, rendered), u1)"
    "plan_files T root ids ss (case found of None \<Rightarrow> P\<lparr>plan_issues := plan_issues P @ issues\<rparr>
      | Some f \<Rightarrow> add_planned sf f (P\<lparr>plan_issues := plan_issues P @ issues\<rparr>)) u1 = (Inr P', u')"
    by (auto simp: bindM_eq_Inr Let_def split: prod.splits)
  have "overwrites {} w u1" using Cons.prems(2) keepsD [OF over.transform_step t(1)] by (rule over.R_trans)
  from Cons.IH [OF t(2) this] obtain fs where fs:
    "planned P' = planned (case found of None \<Rightarrow> P\<lparr>plan_issues := plan_issues P @ issues\<rparr>
      | Some f \<Rightarrow> add_planned sf f (P\<lparr>plan_issues := plan_issues P @ issues\<rparr>)) @ fs"
    "\<forall>f \<in> set fs. \<exists>sf \<in> set ss. planned_from T root ids w sf f"
    "distinct (map (\<lambda>s. posix_parts (src_path s)) ss) \<longrightarrow> distinct (map (\<lambda>f. posix_parts (mig_path f)) fs)"
    by blast
  show ?case
  proof (cases found)
    case None
    with fs show ?thesis by (intro exI [of _ fs]) auto
  next
    case (Some f)
    have "planned_from T root ids w sf f" using Cons.prems(2) t(1) Some by (auto simp: planned_from_def)
    moreover have "mig_path f = src_path sf" using t(1) Some by (auto elim: transform_found)
    moreover have "mig_path g \<in> src_path ` set ss" if "g \<in> set fs" for g
      using that fs(2) by (auto simp: planned_from_def elim!: transform_found)
    ultimately show ?thesis using fs Some
      by (intro exI [of _ "f # fs"]) (fastforce simp: planned_add)
  qed
qed simp

lemma rewrite_all_each:
  "rewrite_all step undo fs ds u = (Inr x, v) \<Longrightarrow> eachM step fs u = (Inr x, v)"
proof (induction fs arbitrary: ds u)
  case (Cons f fs)
  from Cons.prems obtain k u1 where "step f u = (Inr k, u1)" "rewrite_all step undo fs (ds @ [f]) u1 = (Inr x, v)"
    by (auto simp: bindM_eq_Inr catchM_def split: prod.splits sum.splits option.splits if_splits)
  with Cons.IH show ?case by (simp add: bindM_def)
qed simp

text \<open>In the rewriting loop each file is met as it was at the start, and stays as it was left.\<close>

lemma rewrite_each:
  assumes "eachM (rewrite_file T root sources ids) fs u = (Inr (), v)" "f \<in> set fs"
    "distinct (map (\<lambda>f. original_at root (mig_path f)) fs)"
  obtains u1 u2 where "rewrite_file T root sources ids f u1 = (Inr (), u2)"
    "file_at u1 (original_at root (mig_path f)) = file_at u (original_at root (mig_path f))"
    "file_at v (original_at root (mig_path f)) = file_at u2 (original_at root (mig_path f))"
  using assms
proof (induction fs arbitrary: u thesis)
  case (Cons g fs)
  let ?at = "\<lambda>f. original_at root (mig_path f)"
  from Cons.prems(2) obtain u3 where s: "rewrite_file T root sources ids g u = (Inr (), u3)"
    "eachM (rewrite_file T root sources ids) fs u3 = (Inr (), v)" by (auto simp: bindM_eq_Inr)
  have first: "overwrites {?at g} u u3" using over.rewrite_file_step s(1) by (rule keepsD) simp
  have rest: "overwrites (?at ` set fs) u3 v"
    using _ s(2) by (rule over.keeps_each [THEN keepsD]) (simp add: over.rewrite_file_step)
  show ?case
  proof (cases "f \<in> set fs")
    case True
    with Cons.prems(4) have "?at f \<noteq> ?at g" by (auto simp: image_iff)
    then have "file_at u3 (?at f) = file_at u (?at f)" using first by (simp add: overwrites_outside)
    with Cons.IH [OF _ s(2) True] Cons.prems(1,4) show ?thesis by auto
  next
    case False
    with Cons.prems(3) have "f = g" by simp
    with Cons.prems(4) have "?at f \<notin> ?at ` set fs" by auto
    with s(1) rest \<open>f = g\<close> show ?thesis by (intro Cons.prems(1)) (auto simp: overwrites_outside)
  qed
qed simp

lemma find_Some_in: "List.find P xs = Some x \<Longrightarrow> P x \<and> x \<in> set xs"
  by (induction xs) (auto split: if_splits)

lemma source_found:
  assumes "distinct (map (\<lambda>s. posix_parts (src_path s)) sources)" "sf \<in> set sources"
  shows "List.find (\<lambda>s. src_path s = src_path sf) (rev sources) = Some sf"
proof (cases "List.find (\<lambda>s. src_path s = src_path sf) (rev sources)")
  case None
  with assms(2) have False by (auto simp: find_None_iff)
  then show ?thesis ..
next
  case (Some s)
  from find_Some_in [OF this] have "s \<in> set sources" "posix_parts (src_path s) = posix_parts (src_path sf)" by simp_all
  moreover have "inj_on (\<lambda>s. posix_parts (src_path s)) (set sources)" using assms(1) by (simp add: distinct_map)
  ultimately have "s = sf" using assms(2) by (blast dest: inj_onD)
  with Some show ?thesis by simp
qed

text \<open>What is written is what was planned.\<close>

lemma rewritten:
  assumes "rewrite_file T root sources ids f u = (Inr (), v)" "planned_from T root ids w sf f" "sf \<in> set sources"
    "distinct (map (\<lambda>s. posix_parts (src_path s)) sources)" "\<forall>i. map_of ids (mig_path f) = Some i \<longrightarrow> i \<noteq> []"
    "file_at u (original_at root (mig_path f)) = file_at w (original_at root (mig_path f))"
  shows "\<exists>i out. map_of ids (mig_path f) = Some i \<and> file_at v (original_at root (mig_path f)) = Some out
    \<and> after_sha256 f = mig_sha T out"
proof -
  from assms(2) obtain u0 v0 iss0 rd0 where plan: "overwrites {} w u0"
    "transform T root sf (map_of ids (src_path sf)) u0 = (Inr (Some f, iss0, rd0), v0)"
    by (auto simp: planned_from_def)
  then have sf: "mig_path f = src_path sf" by (auto elim: transform_found)
  with assms(1) source_found [OF assms(4,3)] obtain i found issues out u1 where r: "map_of ids (mig_path f) = Some i"
    "transform T root sf (Some i) u = (Inr (found, issues, Some out), u1)"
    "atomic_write (original_at root (mig_path f)) out u1 = (Inr (), v)"
    by (auto simp: rewrite_file_def original_at_def bindM_eq_Inr split: option.splits if_splits)
  have "file_at u0 (original_at root (src_path sf)) = file_at u (original_at root (src_path sf))"
    using plan(1) assms(6) sf by (simp add: overwrites_outside)
  moreover have "i \<noteq> []" using r(1) assms(5) by blast
  ultimately have "fst (transform T root sf (Some i) u0) = fst (transform T root sf (Some i) u)" by (rule transform_reads)
  with plan(2) r(1,2) sf have "found = Some f" by simp
  moreover from r(2) obtain g where "found = Some g" "after_sha256 g = mig_sha T out" by (auto elim: transform_found)
  moreover have "file_at v (original_at root (mig_path f)) = Some out" using r(3) by (cases rule: atomic_write_cases) simp_all
  ultimately show ?thesis using r(1) by auto
qed

section \<open>The reviewed report\<close>

text \<open>
  The fields of a report that the program computes: whether a file changes is whether its digests differ,
  and every file has an identifier. Reports that \<open>plan_migration\<close> writes are of this kind.
\<close>

definition honest_item :: "json \<Rightarrow> bool" where
  "honest_item v \<longleftrightarrow> str_field v ''proposed_id'' \<noteq> Inr []
     \<and> jidx v ''changed'' = Inr (JBool (jidx v ''before_sha256'' \<noteq> jidx v ''after_sha256''))"

definition honest_report :: "json \<Rightarrow> bool" where
  "honest_report v \<longleftrightarrow> (case report_items v of Inr items \<Rightarrow> list_all honest_item items | Inl e \<Rightarrow> True)"

lemma file_dict_honest: "file_dict f = Inr v \<Longrightarrow> proposed_id f \<noteq> [] \<Longrightarrow> honest_item v"
  by (auto simp: file_dict_def bindE_eq_Inr honest_item_def str_field_def jidx_def didx_def changed_def)

lemma report_dict_honest:
  assumes "report_dict R = Inr v" "\<forall>f \<in> set (report_files R). proposed_id f \<noteq> []"
  shows "honest_report v"
proof -
  from assms(1) obtain fs where fs: "mapE file_dict (report_files R) = Inr fs" "report_items v = Inr fs"
    by (auto simp: report_dict_def bindE_eq_Inr report_items_def jidx_def didx_def)
  from fs(1) have "list_all2 (\<lambda>f d. file_dict f = Inr d) (report_files R) fs" by (rule mapE_InrD)
  then have "list_all honest_item fs" using assms(2)
    by (induction rule: list_all2_induct) (auto intro: file_dict_honest)
  with fs(2) show ?thesis by (simp add: honest_report_def)
qed

lemma check_expected_Inr:
  assumes "check_expected fs v = Inr ()"
  obtains f where "f \<in> set fs" "str_field v ''source_path'' = Inr (mig_path f)"
    "jidx v ''before_sha256'' = Inr (JStr (before_sha256 f))" "jidx v ''after_sha256'' = Inr (JStr (after_sha256 f))"
proof -
  from assms obtain p f where f: "str_field v ''source_path'' = Inr p" "List.find (\<lambda>f. mig_path f = p) (rev fs) = Some f"
    "jidx v ''before_sha256'' = Inr (JStr (before_sha256 f))" "jidx v ''after_sha256'' = Inr (JStr (after_sha256 f))"
    by (auto simp: check_expected_def bindE_eq_Inr bindE_raiseIf split: option.splits)
  from find_Some_in [OF f(2)] have "f \<in> set fs" "mig_path f = p" by simp_all
  with f that show thesis by simp
qed

lemma reviewed_ids_in:
  assumes "reviewed_ids items = Inr ids" "map_of ids p = Some i"
  obtains v where "v \<in> set items" "str_field v ''source_path'' = Inr p" "str_field v ''proposed_id'' = Inr i"
proof -
  from assms(1) obtain ps where "ids = rev ps" and raw: "list_all2 (\<lambda>v q. bindE (str_field v ''source_path'') (\<lambda>p.
      bindE (str_field v ''proposed_id'') (\<lambda>i. Inr (p, i))) = Inr q) items ps"
    by (auto simp: reviewed_ids_def elim!: bindE_InrE dest: mapE_InrD)
  from raw have "list_all2 (\<lambda>v q. str_field v ''source_path'' = Inr (fst q)
      \<and> str_field v ''proposed_id'' = Inr (snd q)) items ps"
    by (rule list_all2_mono) (auto simp: bindE_eq_Inr)
  note ps = \<open>ids = rev ps\<close> this
  from assms(2) have "(p, i) \<in> set ps" by (auto simp: ps(1) dest: map_of_SomeD)
  with ps(2) obtain v where "v \<in> set items" "str_field v ''source_path'' = Inr p \<and> str_field v ''proposed_id'' = Inr i"
    by (auto simp: list_all2_conv_all_nth in_set_conv_nth) (metis fst_conv nth_mem snd_conv)
  with that show thesis by blast
qed

lemma reviewed_plan_Inr:
  assumes "reviewed_plan T report_path root data w = (Inr (reviewed, ids, current_plan, home), w1)"
  obtains items ss i where "load_report w report_path = Inr reviewed" "check_report w reviewed root = Inr ()"
    "report_items reviewed = Inr items" "reviewed_ids items = Inr ids"
    "discover_sources w root (include_uppercase current_plan) = Inr ss"
    "\<forall>f \<in> set (report_files current_plan). \<exists>sf \<in> set ss. planned_from T root ids w sf f"
    "distinct (map (\<lambda>s. posix_parts (src_path s)) ss) \<longrightarrow> distinct (map (\<lambda>f. posix_parts (mig_path f)) (report_files current_plan))"
    "\<forall>v \<in> set items. check_expected (report_files current_plan) v = Inr ()"
    "str_field reviewed ''migration_id'' = Inr i" "migration_home data i = Inr home"
proof -
  from assms obtain items i u where s: "load_report w report_path = Inr reviewed" "check_report w reviewed root = Inr ()"
    "report_items reviewed = Inr items" "reviewed_ids items = Inr ids" "replan T reviewed ids root w = (Inr current_plan, u)"
    "\<forall>v \<in> set items. check_expected (report_files current_plan) v = Inr ()"
    "str_field reviewed ''migration_id'' = Inr i" "migration_home data i = Inr home"
    by (auto simp: reviewed_plan_def bindM_eq_Inr askM_def)
  from s(5) obtain ss P u1 where p: "discover_sources w root (include_uppercase current_plan) = Inr ss"
    "plan_files T root ids ss \<lparr>planned = [], plan_issues = [], ids_taken = []\<rparr> w = (Inr P, u1)"
    "report_files current_plan = planned P"
    by (auto simp: replan_def plan_migration_def bindM_eq_Inr askM_def)
  from plan_files_from [OF p(2) over.R_refl] p(3) s p(1) that show thesis by simp
qed

section \<open>Restoring\<close>

lemma keep_originals_manifest:
  assumes "keep_originals root home reviewed fs w = (Inr (), u)" "wf_json reviewed" "reviewed = JObj d"
  obtains now where "load_report u (home @ [''manifest.json'']) = Inr (JObj (dmerge d
    [(''applied_at'', JStr now), (''snapshot_root'', JStr (path_text (home @ [''originals''])))]))"
proof -
  from assms(1) obtain u0 where "keep_manifest home reviewed u0 = (Inr (), u)" by (auto simp: keep_originals_def bindM_eq_Inr)
  then obtain now u1 where now: "atomic_write (home @ [''manifest.json'']) (dumps_report (JObj (dmerge d
      [(''applied_at'', JStr now), (''snapshot_root'', JStr (path_text (home @ [''originals''])))]))) u1 = (Inr (), u)"
    by (auto simp: keep_manifest_def bindM_eq_Inr utc_now_def assms(3) simp del: dmerge_simps)
  let ?v = "JObj (dmerge d [(''applied_at'', JStr now), (''snapshot_root'', JStr (path_text (home @ [''originals''])))])"
  from now have "file_at u (home @ [''manifest.json'']) = Some (dumps_report ?v)" by (cases rule: atomic_write_cases) simp_all
  moreover have "ascii (dumps_report ?v)"
    unfolding dumps_report_def using ascii_render [of line_break "'' ''" 0 ?v]
    by (auto simp: ascii_def line_break_def code_of_def simp del: dmerge_simps)
  moreover have "wf_json ?v" using assms(2,3) by (intro dmerge_wf) simp_all
  then have "json_loads (dumps_report ?v) = Inr ?v"
    unfolding dumps_report_def by (intro json_loads_render layouts(3)) (simp_all add: blank_def)
  ultimately have "load_report u (home @ [''manifest.json'']) = Inr ?v" by (simp add: load_report_def read_text_ascii)
  then show thesis by (rule that)
qed

text \<open>What a file of a report looks like to a restoration that may go on.\<close>

definition restorable :: "toolbox \<Rightarrow> world \<Rightarrow> path \<Rightarrow> json \<Rightarrow> string \<Rightarrow> bool \<Rightarrow> bool" where
  "restorable T w root v p moved \<longleftrightarrow> str_field v ''source_path'' = Inr p \<and> good_name p \<and> is_changed_item v = Inr moved
     \<and> (moved \<longrightarrow> (\<exists>c. file_at w (original_at root p) = Some c \<and> jidx v ''after_sha256'' = Inr (JStr (mig_sha T c))))"

lemma changed_items_filter:
  "list_all2 (\<lambda>v q. restorable T w root v (fst q) (snd q)) items qs \<Longrightarrow>
    \<exists>todo. changed_items items = Inr todo
      \<and> list_all2 (\<lambda>v p. restorable T w root v p True) todo (map fst (filter snd qs))"
proof (induction rule: list_all2_induct)
  case (Cons v items q qs)
  then show ?case by (auto simp: changed_items_def restorable_def bindE_def split: sum.splits)
qed (simp add: changed_items_def)

lemma restorable_unmoved:
  assumes "list_all2 (\<lambda>v p. restorable T w root v p True) todo ps"
  shows "\<exists>ms. mapE (moved_since T w root) todo = Inr ms \<and> concat ms = []"
    "mapE (\<lambda>v. str_field v ''source_path'') todo = Inr ps"
  using assms
proof (induction rule: list_all2_induct)
  case (Cons v todo p ps)
  have "moved_since T w root v = Inr []"
    using Cons(1) by (auto simp: restorable_def moved_since_def good_name_beneath is_file_file_at read_bytes_file_at)
  then show "\<exists>ms. mapE (moved_since T w root) (v # todo) = Inr ms \<and> concat ms = []" using Cons(3) by auto
  show "mapE (\<lambda>v. str_field v ''source_path'') (v # todo) = Inr (p # ps)" using Cons by (auto simp: restorable_def)
qed simp_all

lemma restore_puts_back:
  assumes "restore_migration T i root data w = (r, u)" "migration_home data i = Inr home"
    "load_report w (home @ [''manifest.json'']) = Inr manifest" "jidx manifest ''vault_root'' = Inr rt"
    "resolved_root w rt = Inr root" "report_items manifest = Inr items"
    "list_all2 (\<lambda>v q. restorable T w root v (fst q) (snd q)) items qs"
  shows "eachM (put_back root (home @ [''originals''])) (map fst (filter snd qs)) w = (r, u)"
proof -
  have "is_file w (home @ [''manifest.json''])" using assms(3)
    by (auto simp: load_report_def read_text_def read_bytes_file_at is_file_file_at split: option.splits)
  moreover obtain todo where todo: "changed_items items = Inr todo"
    "list_all2 (\<lambda>v p. restorable T w root v p True) todo (map fst (filter snd qs))"
    using changed_items_filter [OF assms(7)] by blast
  moreover from restorable_unmoved(1) [OF todo(2)] obtain ms where "mapE (moved_since T w root) todo = Inr ms" "concat ms = []"
    by blast
  ultimately show ?thesis using assms(1-6) restorable_unmoved(2) [OF todo(2)]
    by (simp add: restore_migration_def bindM_def failIf_def askM_def raiseIf_def)
qed

section \<open>The round trip\<close>

text \<open>The world that an application that ended leaves, as a restoration sees it.\<close>

definition migration_applied :: "toolbox \<Rightarrow> path \<Rightarrow> path \<Rightarrow> json \<Rightarrow> world \<Rightarrow> world \<Rightarrow> file_migration list \<Rightarrow> bool" where
  "migration_applied T root home reviewed w w' fs \<longleftrightarrow>
     (\<exists>d now. reviewed = JObj d \<and> load_report w' (home @ [''manifest.json'']) = Inr (JObj (dmerge d
       [(''applied_at'', JStr now), (''snapshot_root'', JStr (path_text (home @ [''originals''])))])))
     \<and> nodes_same {} w w' \<and> originals_kept root (home @ [''originals'']) w (map mig_path fs) w' \<and> apart root (home @ [''originals''])
     \<and> (\<forall>q. root @ q \<notin> original_at root ` mig_path ` set fs \<longrightarrow> file_at w' (root @ q) = file_at w (root @ q))"

lemma nodes_keep_originals:
  assumes "apart root home"
  shows "keeps (nodes_same {q. below root q}) (keep_originals root home reviewed fs)"
proof -
  have "\<not> below q (home @ x)" if "below root q" for q x
    using that apart_paths [OF assms, of _ x] by (force simp: below_prefix)
  then show ?thesis by (intro nodes.keep_originals_step) (auto simp: original_at_def)
qed

lemma rewriting_outside:
  assumes "rewrite_all (rewrite_file T root sources ids) (put_back root originals) fs [] u = (x, v)"
  shows "overwrites (original_at root ` set (map mig_path fs)) u v" "nodes_same {} u v"
  by (rule over.rewrite_all_step [THEN keepsD, OF _ assms] nodes.rewrite_all_step [THEN keepsD, OF _ assms]; auto)+

lemma apply_Inr:
  assumes "apply_migration T report_path root data w = (Inr home, w')" "plain_vault w root" "apart root data"
  obtains reviewed ids current_plan w1 where
    "reviewed_plan T report_path root data w = (Inr (reviewed, ids, current_plan, home), w1)"
    "migration_applied T root home reviewed w w' (filter changed (report_files current_plan))"
    "\<forall>f \<in> set (filter changed (report_files current_plan)). (\<forall>i. map_of ids (mig_path f) = Some i \<longrightarrow> i \<noteq> []) \<longrightarrow>
      (\<exists>i out. map_of ids (mig_path f) = Some i \<and> file_at w' (original_at root (mig_path f)) = Some out
        \<and> after_sha256 f = mig_sha T out)"
  using assms(1,3)
proof (cases rule: apply_cases)
  case (rewriting reviewed ids current_plan home' w1 fs u sources x)
  from rewriting(8) have h: "home' = home" "x = Inr ()" by (cases x; simp)+
  note k = rewriting_kept [OF rewriting(1,3,4) assms(3), unfolded h]
  note loop = rewriting_outside [OF rewriting(7)]
  obtain p where home: "home = data @ [''migrations''] @ p" using reviewed_plan_home rewriting(1) h(1) by metis
  then have apart: "apart root home" using apart_deeper [OF assms(3)] by simp
  have vault: "file_at u (root @ q) = file_at w (root @ q)" for q
    using overwrites_outside [OF rewriting(5), of "root @ q"] assms(3) by (simp add: below_prefix apart_paths)
  have nodes: "nodes_same {q. below root q} w u"
    using keepsD [OF nodes.reviewed_plan_step rewriting(1)] keepsD [OF nodes_keep_originals [OF apart] rewriting(3) [unfolded h]]
    by (rule nodes.R_trans)
  obtain items ss i where plan: "load_report w report_path = Inr reviewed" "check_report w reviewed root = Inr ()"
    "discover_sources w root (include_uppercase current_plan) = Inr ss"
    "\<forall>f \<in> set (report_files current_plan). \<exists>sf \<in> set ss. planned_from T root ids w sf f"
    "distinct (map (\<lambda>s. posix_parts (src_path s)) ss) \<longrightarrow> distinct (map (\<lambda>f. posix_parts (mig_path f)) (report_files current_plan))"
    using rewriting(1) by (rule reviewed_plan_Inr)
  have ss: "sources = ss" using discover_same [OF nodes] rewriting(6) plan(3) by simp
  from discover_paths [OF plan(3) assms(2)] have dist: "distinct (map (\<lambda>s. posix_parts (src_path s)) ss)" by blast
  with plan(5) have "distinct (map (\<lambda>f. original_at root (mig_path f)) fs)"
    by (auto simp: rewriting(2) distinct_map original_at_def inj_on_def)
  note each = rewrite_each [OF rewrite_all_each [OF rewriting(7) [unfolded h(2)]] _ this]
  have written: "\<exists>i out. map_of ids (mig_path f) = Some i \<and> file_at w' (original_at root (mig_path f)) = Some out
      \<and> after_sha256 f = mig_sha T out"
    if f: "f \<in> set fs" and ids: "\<forall>i. map_of ids (mig_path f) = Some i \<longrightarrow> i \<noteq> []" for f
  proof -
    from f plan(4) obtain sf where sf: "sf \<in> set ss" "planned_from T root ids w sf f" by (auto simp: rewriting(2))
    from each [OF f] obtain u1 u2 where v: "rewrite_file T root sources ids f u1 = (Inr (), u2)"
      "file_at u1 (original_at root (mig_path f)) = file_at u (original_at root (mig_path f))"
      "file_at w' (original_at root (mig_path f)) = file_at u2 (original_at root (mig_path f))" by blast
    have "file_at u1 (original_at root (mig_path f)) = file_at w (original_at root (mig_path f))"
      using v(2) vault by (simp add: original_at_def)
    from rewritten [OF v(1) [unfolded ss] sf(2,1) dist ids this] v(3) show ?thesis by simp
  qed
  have "\<exists>d. reviewed = JObj d" "wf_json reviewed" using plan(1,2) json_loads_wf
    by (auto simp: check_report_def bindE_eq_Inr jidx_Inr load_report_def)
  then obtain d now where d: "reviewed = JObj d" "load_report u (home @ [''manifest.json'']) = Inr (JObj (dmerge d
      [(''applied_at'', JStr now), (''snapshot_root'', JStr (path_text (home @ [''originals''])))]))"
    using keep_originals_manifest [OF rewriting(3) [unfolded h]] by metis
  have "file_at w' (home @ q) = file_at u (home @ q)" for q
    using loop(1) original_elsewhere [OF apart] by (simp add: overwrites_outside)
  then have "load_report w' (home @ [''manifest.json'']) = load_report u (home @ [''manifest.json''])"
    by (simp add: load_report_def read_text_def read_bytes_file_at)
  moreover have "nodes_same {} w w'" using nodes loop(2) by (auto simp: nodes_same_def)
  moreover have "originals_kept root (home @ [''originals'']) w (map mig_path fs) w'" using k(2) loop(1) k(1) by (rule kept_overwrites)
  moreover have "file_at w' (root @ q) = file_at w (root @ q)" if "root @ q \<notin> original_at root ` mig_path ` set fs" for q
    using overwrites_outside [OF loop(1), of "root @ q"] that vault by simp
  ultimately have "migration_applied T root home reviewed w w' fs" using d k(1) by (auto simp: migration_applied_def)
  with rewriting(1,2) h written show thesis by (intro that) auto
qed simp

lemma same_path_same_file:
  "distinct (map (\<lambda>f. posix_parts (mig_path f)) fs) \<Longrightarrow> f \<in> set fs \<Longrightarrow> g \<in> set fs \<Longrightarrow> mig_path f = mig_path g \<Longrightarrow> f = g"
  by (auto simp: distinct_map inj_on_def)

lemma paired: "list_all2 P xs ys \<Longrightarrow> x \<in> set xs \<Longrightarrow> \<exists>y \<in> set ys. P x y"
  by (induction rule: list_all2_induct) auto

lemma pick_each: "\<forall>x \<in> set xs. \<exists>y. P x y \<Longrightarrow> \<exists>ys. list_all2 P xs ys"
  by (induction xs) (auto simp: list_all2_Cons1)

text \<open>What a planned file is to the restoration.\<close>

lemma item_restorable:
  assumes "check_expected fs v = Inr ()" "honest_item v" "\<forall>f \<in> set fs. good_name (mig_path f)"
    "\<forall>f \<in> set fs. changed f \<longrightarrow> (\<exists>out. file_at w (original_at root (mig_path f)) = Some out \<and> after_sha256 f = mig_sha T out)"
  shows "\<exists>q. restorable T w root v (fst q) (snd q) \<and> (\<exists>f \<in> set fs. q = (mig_path f, changed f))"
proof -
  from assms(1) obtain f where f: "f \<in> set fs" "str_field v ''source_path'' = Inr (mig_path f)"
    "jidx v ''before_sha256'' = Inr (JStr (before_sha256 f))" "jidx v ''after_sha256'' = Inr (JStr (after_sha256 f))"
    by (rule check_expected_Inr)
  have "is_changed_item v = Inr (changed f)"
    using assms(2) f(3,4) by (simp add: honest_item_def is_changed_item_def changed_def)
  with f assms(3,4) have "restorable T w root v (mig_path f) (changed f)" by (auto simp: restorable_def)
  with f(1) show ?thesis by force
qed

lemma applied_restorable:
  assumes "apply_migration T report_path root data w = (Inr home, w')"
    "load_report w report_path = Inr reviewed" "honest_report reviewed" "str_field reviewed ''migration_id'' = Inr i"
    "plain_vault w root" "apart root data"
  obtains items qs fs where "check_report w reviewed root = Inr ()" "report_items reviewed = Inr items"
    "migration_home data i = Inr home" "migration_applied T root home reviewed w w' fs"
    "list_all2 (\<lambda>v q. restorable T w' root v (fst q) (snd q)) items qs" "set (map fst (filter snd qs)) = mig_path ` set fs"
proof -
  from apply_Inr [OF assms(1,5,6)] obtain reviewed' ids current_plan w1 where
    p: "reviewed_plan T report_path root data w = (Inr (reviewed', ids, current_plan, home), w1)"
    and app: "migration_applied T root home reviewed' w w' (filter changed (report_files current_plan))"
    and written: "\<forall>f \<in> set (filter changed (report_files current_plan)). (\<forall>i. map_of ids (mig_path f) = Some i \<longrightarrow> i \<noteq> []) \<longrightarrow>
      (\<exists>i out. map_of ids (mig_path f) = Some i \<and> file_at w' (original_at root (mig_path f)) = Some out
        \<and> after_sha256 f = mig_sha T out)" by blast
  let ?fs = "report_files current_plan"
  from p obtain items ss i' where "load_report w report_path = Inr reviewed'"
    and s: "check_report w reviewed' root = Inr ()" "report_items reviewed' = Inr items"
      "reviewed_ids items = Inr ids" "discover_sources w root (include_uppercase current_plan) = Inr ss"
      "\<forall>f \<in> set ?fs. \<exists>sf \<in> set ss. planned_from T root ids w sf f"
      "distinct (map (\<lambda>s. posix_parts (src_path s)) ss) \<longrightarrow> distinct (map (\<lambda>f. posix_parts (mig_path f)) ?fs)"
      "\<forall>v \<in> set items. check_expected ?fs v = Inr ()"
      "str_field reviewed' ''migration_id'' = Inr i'" "migration_home data i' = Inr home" by (rule reviewed_plan_Inr)
  then have same: "reviewed' = reviewed" "i' = i" using assms(2,4) by simp_all
  have honest: "honest_item v" if "v \<in> set items" for v
    using assms(3) s(2) that by (simp add: honest_report_def same list_all_iff)
  have paths: "distinct (map (\<lambda>f. posix_parts (mig_path f)) ?fs)" "\<forall>f \<in> set ?fs. good_name (mig_path f)"
    using discover_paths [OF s(4) assms(5)] s(5,6) by (auto simp: planned_from_def elim!: transform_found)
  have "i \<noteq> []" if "map_of ids p = Some i" for p i
    using reviewed_ids_in [OF s(3) that] honest by (metis honest_item_def)
  with written have written: "\<exists>i out. map_of ids (mig_path f) = Some i \<and> after_sha256 f = mig_sha T out
      \<and> file_at w' (original_at root (mig_path f)) = Some out" if "f \<in> set ?fs" "changed f" for f
    using that by fastforce
  have "\<forall>v \<in> set items. \<exists>q. restorable T w' root v (fst q) (snd q) \<and> (\<exists>f \<in> set ?fs. q = (mig_path f, changed f))"
  proof
    fix v assume v: "v \<in> set items"
    have "\<forall>f \<in> set ?fs. changed f \<longrightarrow>
        (\<exists>out. file_at w' (original_at root (mig_path f)) = Some out \<and> after_sha256 f = mig_sha T out)"
      using written by blast
    with s(7) v show "\<exists>q. restorable T w' root v (fst q) (snd q) \<and> (\<exists>f \<in> set ?fs. q = (mig_path f, changed f))"
      by (intro item_restorable [OF _ honest [OF v] paths(2)]) auto
  qed
  from pick_each [OF this] obtain qs where qs: "list_all2 (\<lambda>v q. restorable T w' root v (fst q) (snd q) \<and> (\<exists>f \<in> set ?fs. q = (mig_path f, changed f))) items qs" ..
  have "mig_path f \<in> set (map fst (filter snd qs))" if f: "f \<in> set ?fs" "changed f" for f
  proof -
    from written [OF f] obtain j where "map_of ids (mig_path f) = Some j" by blast
    with s(3) obtain v where v: "v \<in> set items" "str_field v ''source_path'' = Inr (mig_path f)" by (rule reviewed_ids_in)
    from paired [OF qs v(1)] obtain q where q: "q \<in> set qs" "restorable T w' root v (fst q) (snd q)"
      "\<exists>f \<in> set ?fs. q = (mig_path f, changed f)" by blast
    then obtain g where g: "g \<in> set ?fs" "q = (mig_path g, changed g)" by blast
    with v(2) q(2) have "mig_path g = mig_path f" by (simp add: restorable_def)
    with same_path_same_file [OF paths(1) g(1) f(1)] have "g = f" by blast
    with q(1) g(2) f(2) show ?thesis by force
  qed
  moreover have "p \<in> mig_path ` set (filter changed ?fs)" if "p \<in> set (map fst (filter snd qs))" for p
    using that qs by (auto simp: list_all2_conv_all_nth in_set_conv_nth)
  ultimately have "set (map fst (filter snd qs)) = mig_path ` set (filter changed ?fs)" by auto
  moreover have "list_all2 (\<lambda>v q. restorable T w' root v (fst q) (snd q)) items qs" using qs by (rule list_all2_mono) blast
  ultimately show thesis using that [of items "filter changed ?fs" qs] s(1,2,9) app same by blast
qed

text \<open>C20: a migration that was applied can be taken back: with the report as the program wrote it and
  nothing edited since, a restoration puts every byte of the vault back, unless the device fails.\<close>

theorem migration_roundtrip:
  assumes "apply_migration T report_path root data w = (Inr home, w')"
    "load_report w report_path = Inr reviewed" "honest_report reviewed" "str_field reviewed ''migration_id'' = Inr i"
    "plain_vault w root" "apart root data" "restore_migration T i root data w' = (r, w'')"
  shows "(r = Inr () \<and> (\<forall>q. file_at w'' (root @ q) = file_at w (root @ q))) \<or> (\<exists>e. r = Inl e \<and> device_failure e)"
proof -
  let ?o = "home @ [''originals'']"
  obtain items qs fs where s: "check_report w reviewed root = Inr ()" "report_items reviewed = Inr items"
    "migration_home data i = Inr home" "migration_applied T root home reviewed w w' fs"
    "list_all2 (\<lambda>v q. restorable T w' root v (fst q) (snd q)) items qs"
    and ps: "set (map fst (filter snd qs)) = mig_path ` set fs"
    using assms(1-6) by (rule applied_restorable)
  let ?ps = "map fst (filter snd qs)"
  from s(4) obtain d now where d: "reviewed = JObj d" "load_report w' (home @ [''manifest.json'']) = Inr (JObj (dmerge d
      [(''applied_at'', JStr now), (''snapshot_root'', JStr (path_text ?o))]))" by (auto simp: migration_applied_def)
  from s(1) obtain rt where rt: "map_of d ''vault_root'' = Some rt" "resolved_root w rt = Inr root"
    by (auto simp: check_report_def bindE_eq_Inr bindE_raiseIf jidx_Inr d(1))
  have "through_link w' = through_link w" using s(4)
    by (intro ext) (simp add: migration_applied_def nodes_same_def through_link_def)
  then have "resolved_root w' rt = Inr root" using rt(2) by (cases rt) (simp_all add: resolved_root_def)
  then have "eachM (put_back root ?o) ?ps w' = (r, w'')"
    using restore_puts_back [OF assms(7) s(3) d(2) _ _ _ s(5)] rt(1) s(2)
    by (simp add: d(1) report_items_def jidx_def didx_def map_of_dput)
  moreover have "originals_kept root ?o w ?ps w'" using s(4) ps by (auto simp: migration_applied_def originals_kept_def)
  moreover have "apart root ?o" using s(4) by (simp add: migration_applied_def)
  ultimately have "(r = Inr () \<and> (\<forall>q. file_at w'' q = (if q \<in> original_at root ` set ?ps then file_at w q else file_at w' q)))
      \<or> (\<exists>e. r = Inl e \<and> device_failure e)" by (rule put_back_each)
  then show ?thesis using s(4) unfolding ps by (auto simp: migration_applied_def)
qed

text \<open>The sample is applied and restored.\<close>

lemma sample_restored: "fst (restore_migration sample_toolbox ''m'' [''v''] [''d''] (snd (sample_apply [''a.md'']))) = Inr ()"
  by code_simp

lemma sample_report: "load_report (vault_world names) [''r''] = Inr reviewed_report"
proof -
  have "file_at (vault_world names) [''r''] = Some (dumps_report reviewed_report)"
    by (simp add: file_at_def stat_def lstat_def vault_world_def)
  moreover have "ascii (dumps_report v)" for v
    unfolding dumps_report_def using ascii_render [of line_break "'' ''" 0 v]
    by (auto simp: ascii_def line_break_def code_of_def)
  moreover have "wf_json reviewed_report" by code_simp
  then have "json_loads (dumps_report reviewed_report) = Inr reviewed_report"
    unfolding dumps_report_def by (intro json_loads_render layouts(3)) (simp_all add: blank_def)
  ultimately show ?thesis by (simp add: load_report_def read_text_ascii)
qed

theorem migration_roundtrip_witness:
  "fst (sample_apply [''a.md'']) = Inr [''d'', ''migrations'', ''m'']
    \<and> file_at (snd (restore_migration sample_toolbox ''m'' [''v''] [''d''] (snd (sample_apply [''a.md''])))) ([''v''] @ [''a.md''])
      = Some ''hi''"
proof -
  obtain w' where w': "sample_apply [''a.md''] = (Inr [''d'', ''migrations'', ''m''], w')"
    using sample_migrated by (metis prod.collapse)
  obtain w'' where w'': "restore_migration sample_toolbox ''m'' [''v''] [''d''] w' = (Inr (), w'')"
    using sample_restored by (metis prod.collapse snd_conv w')
  have "honest_report reviewed_report" by code_simp
  moreover have "str_field reviewed_report ''migration_id'' = Inr ''m''" by code_simp
  moreover have "plain_vault (vault_world [''a.md'']) [''v'']"
    by (simp add: plain_vault_def vault_world_def below_def plain_part_def)
  ultimately have "\<forall>q. file_at w'' ([''v''] @ q) = file_at (vault_world [''a.md'']) ([''v''] @ q)"
    using migration_roundtrip [of sample_toolbox "[''r'']" "[''v'']" "[''d'']" "vault_world [''a.md'']"
        "[''d'', ''migrations'', ''m'']" w' reviewed_report "''m''" "Inr ()" w''] w' w'' sample_report sample_apart
    by (simp add: sample_apply_def)
  with w' w'' vault_world_file(1) show ?thesis by simp
qed

end
