(* ===== verification/Spec2Isabelle.thy ===== *)
theory Spec2Isabelle
  imports DeploymentStore PromotionProps InspectionProps BrokerTheorems RetentionProps PublisherProps ResultProps LocalPipeline ContextProps EvaluationProps
    MigrationRoundtrip
begin

text \<open>
  \<^bold>\<open>The program.\<close> HomeOps AI (\<open>src/src/homeops_ai\<close>) turns a vault of Markdown notes into verified,
  immutable builds of a query database and keeps one of them selected. A workstation exports the
  vault as a snapshot and publishes it to a receiver (\<open>reconcile\<close>); a processor revalidates what
  arrived, builds and evaluates it, and applies commits (\<open>process_remote\<close>); on a single machine the
  two halves are one run (\<open>reconcile_local\<close>). A write broker puts notes of agents into the vault, and
  a planner says which old deployments may be deleted. The parts meet in files: snapshots, build
  manifests, deployment records, \<open>active.json\<close>, journals, requests and results.

  \<^bold>\<open>How it is modelled.\<close> A function without effects is a HOL function into \<open>exn + 'a\<close>, so that every
  raise is a value. A function with effects is a program on the \<open>world\<close> (\<open>Files\<close>): a tree of files, the
  locks, a clock, and a script that says for every durable step whether it happens, fails with an
  \<open>OSError\<close> or is where the process dies; the state survives the exception. A theorem about every
  world is therefore one about every place at which a run can break off. Writing a file through a
  temporary one and renaming it is one step, since nothing reads the temporary name. Other programs
  that edit the vault, and the receiver, are arbitrary functions that the program is composed with.

  \<^bold>\<open>The theories\<close>, with the files they model:

  \<^item> \<open>Prelude\<close>, \<open>Exn\<close>, \<open>Paths\<close>, \<open>Timestamps\<close>, \<open>Json\<close>, \<open>JsonText\<close>, \<open>Files\<close>, \<open>Documents\<close>: what the components
    share. The error and state monads with the predicate \<open>keeps\<close> (a relation every step keeps) and its
    locale \<open>step_preorder\<close>, of which the frames (\<open>same_outside\<close>) are an interpretation; Python's
    exceptions, strings, paths and timestamps; JSON values, printers and readers; the durable writers
    of \<open>deployment.py\<close> with their contract \<open>document_file\<close>. \<open>JsonRoundtrip\<close>: the readers invert the printers.
  \<^item> \<open>Deployment\<close>, \<open>DeploymentStore\<close> (\<open>deployment.py\<close>): records, the active state and its transitions, the
    store, pins and projections; \<open>ActiveState\<close>: what a valid record and a valid state are, the selection
    as a refinement of a compare-and-swap register, and the invariant of the reachable states.
  \<^item> \<open>Snapshot\<close> (\<open>snapshot.py\<close>) with \<open>SnapshotProps\<close>: manifests, the exact verification of a directory,
    the submission archive.
  \<^item> \<open>Sources\<close>, \<open>Frontmatter\<close>, \<open>Markdown\<close>, \<open>Inspection\<close>, \<open>Loader\<close>, \<open>Verifier\<close> (\<open>source_contract.py\<close>,
    \<open>frontmatter.py\<close>, \<open>markdown_parser.py\<close>, \<open>models.py\<close>, the inspection of \<open>build.py\<close>, \<open>loader.py\<close>, \<open>schema.py\<close>,
    \<open>verifier.py\<close>), with \<open>MarkdownProps\<close> and \<open>InspectionProps\<close>: from the bytes of the vault to rows, and that
    the rows of a clean vault pass the independent verifier.
  \<^item> \<open>Promotion\<close>, \<open>Builds\<close> (\<open>build.py\<close>): the gates of a candidate, the promotion, the journalled rollback
    and its recovery; snapshots made immutable, \<open>rebuild\<close>, the evaluation, the adoption of a legacy
    state. \<open>PromotionProps\<close>: nothing is promoted past a gate, an interrupted rollback is completed.
  \<^item> \<open>Notes\<close>, \<open>WriteBroker\<close> (\<open>write_broker.py\<close>) with \<open>NotesProps\<close>, \<open>WriteBrokerProps\<close>, \<open>BrokerTheorems\<close>: the
    normal form of a note, durable intents and results, and rely-guarantee statements about the vault.
  \<^item> \<open>Retention\<close>, \<open>RetentionPlan\<close> (\<open>retention.py\<close>) with \<open>RetentionProps\<close> and \<open>RetentionSample\<close>: the survey of
    the store and of the protocol's records, the decisions, the sealed plan.
  \<^item> \<open>Attempts\<close>, \<open>Publisher\<close> (\<open>pipeline.py\<close>, up to \<open>reconcile\<close>) with \<open>AttemptProps\<close> and \<open>PublisherProps\<close>: the
    pending attempt on disk, the transport, the resumption phase by phase; statements over the traces
    of a run against arbitrary answers and edits.
  \<^item> \<open>Submissions\<close>, \<open>Processor\<close> (\<open>pipeline.py\<close>, from \<open>_load_canonical_request\<close> on) with \<open>ProcessorFrames\<close>,
    \<open>ProcessorProps\<close>, \<open>ResultProps\<close> and \<open>ProcessorSample\<close>: the revalidation of a submission, its build and
    result, the commit with its journal, the scan. One frame lemma per operation says what it can
    change; from these: a commit is applied at most once, an applied commit is authentic, a submission
    selects nothing, a settled result is final.
  \<^item> \<open>LocalPipeline\<close> (\<open>pipeline.py\<close>, \<open>reconcile_local\<close>): the same parts composed on one machine.
  \<^item> \<open>Query\<close> (\<open>query.py\<close>) and \<open>ContextCompiler\<close> (\<open>context_compiler.py\<close>) with \<open>QueryProps\<close> and \<open>ContextProps\<close>: a
    build chosen under the retention lock and pinned for the read, the eight queries over projections
    of its relations, the bounded bundle of evidence. The search is shown equal to the closure of the
    links, whatever the order of Python's sets; the pin, the limit and the budgets are shown kept.
  \<^item> \<open>Evaluation\<close> (\<open>evaluation.py\<close>) with \<open>EvaluationProps\<close>: the suite of questions, the checks of an answer and
    the report; all answers in a report come from one run.
  \<^item> \<open>Migration\<close> (\<open>migration.py\<close>) with \<open>MigrationProps\<close> and \<open>MigrationRoundtrip\<close>: the reviewed rewriting of the
    frontmatter of a vault, its undo and its restoration. The locale \<open>write_frame\<close> carries what writes keep
    over every step; an interrupted application loses nothing, a failed one is undone, and an applied one
    is taken back byte for byte.

  \<^bold>\<open>Parameters.\<close> \<open>env\<close> carries the digest function, the inspection of a vault and the verifier process;
  \<open>workshop\<close> adds the database client, the query summaries and suite reports that an evaluation takes,
  and the generator of identifiers; \<open>engine\<close> is the query engine as a function from the text of a
  projection to rows, and the order in which Python walks a set. A theorem that needs something of them names it:
  \<open>database_local\<close> says that the database client writes in the directory of its database, and every
  such theorem has an instance with a concrete function.

  \<^bold>\<open>Bounds.\<close> Strings are lists of \<open>char\<close>, code points below 256; text outside them, fractional JSON
  numbers and a few library corners give the error \<open>Unmodelled\<close> instead of a result, so no theorem
  speaks of them. All recursion is structural or has a proved measure; that of the polling loop is the
  time that is left to its deadline, that of the link search the documents it has not reached. Only
  the JSON reader of \<open>JsonText\<close> counts down fuel, twice the length of its text; the round-trip theorems
  show that this is enough for everything the program prints.

  \<^bold>\<open>Not modelled.\<close> Permission bits and ownership; the tar, SSH and socket layers (their messages and
  answers are); the tool registration of \<open>mcp_server.py\<close> with a third-party server; argument
  parsing and printing in \<open>cli.py\<close>; the receiver, a Go program under \<open>src/internal\<close> that the coordinator meets as arbitrary answers.
\<close>

end
